(* ===== verification/Lehs_Prelude.thy ===== *)
theory Lehs_Prelude
  imports Main "HOL-Library.Word" "HOL-Library.Monad_Syntax"
begin

text \<open>
  The vocabulary every other theory shares: the C integer types at their width, the
  byte order of the Bluetooth wire format, a read cursor over an octet buffer, and the
  result codes of the stack that the code returns.

  Memory safety is part of the model. A function that reads through a pointer returns an
  option, and \<open>None\<close> is a read or a write outside the buffer, which C leaves
  undefined. An error the code handles itself is an ordinary value, never \<open>None\<close>.
\<close>

unbundle bit_operations_syntax

type_synonym u8 = "8 word"
type_synonym u16 = "16 word"
type_synonym u32 = "32 word"

named_theorems rd_simps \<open>evaluation of the cursor reads on explicit octets\<close>
named_theorems rd_dests \<open>how far a successful cursor read moves\<close>

section \<open>Results of the stack API\<close>

text \<open>
  The code compares these codes for equality only, so their numbers are left open.
\<close>

datatype wiced_result =
    WICED_SUCCESS | WICED_ERROR | WICED_NOT_FOUND | WICED_UNSUPPORTED
  | WICED_BT_ERROR | WICED_BT_NO_RESOURCES | WICED_ADDRESS_IN_USE | WICED_BADARG | WICED_BT_BADARG

section \<open>Byte order\<close>

text \<open>
  Multi-octet fields are little-endian on the wire, and the code also copies the raw
  memory of an integer (\<open>ARRAY_TO_STREAM(p, &x, 3)\<close>) for the same fields.
\<close>

definition le16 :: "u8 \<Rightarrow> u8 \<Rightarrow> u16" where
  "le16 a b = ucast a OR push_bit 8 (ucast b)"

definition le24 :: "u8 \<Rightarrow> u8 \<Rightarrow> u8 \<Rightarrow> u32" where
  "le24 a b c = ucast a OR push_bit 8 (ucast b) OR push_bit 16 (ucast c)"

definition le32 :: "u8 \<Rightarrow> u8 \<Rightarrow> u8 \<Rightarrow> u8 \<Rightarrow> u32" where
  "le32 a b c d =
     ucast a OR push_bit 8 (ucast b) OR push_bit 16 (ucast c) OR push_bit 24 (ucast d)"

definition b16 :: "u16 \<Rightarrow> u8 list" where
  "b16 w = [ucast w, ucast (drop_bit 8 w)]"

definition b24 :: "u32 \<Rightarrow> u8 list" where
  "b24 w = [ucast w, ucast (drop_bit 8 w), ucast (drop_bit 16 w)]"

definition b32 :: "u32 \<Rightarrow> u8 list" where
  "b32 w = [ucast w, ucast (drop_bit 8 w), ucast (drop_bit 16 w), ucast (drop_bit 24 w)]"

lemma length_b16 [simp]: "length (b16 w) = 2"
  by (simp add: b16_def)

lemma length_b24 [simp]: "length (b24 w) = 3"
  by (simp add: b24_def)

lemma length_b32 [simp]: "length (b32 w) = 4"
  by (simp add: b32_def)

lemma le16_b16 [simp]: "le16 (ucast w) (ucast (drop_bit 8 w)) = w"
proof (rule bit_word_eqI)
  fix n assume "n < LENGTH(16)"
  then show "bit (le16 (ucast w) (ucast (drop_bit 8 w))) n = bit w n"
    by (cases "n < 8") (auto simp: le16_def bit_simps)
qed

lemma le32_b32 [simp]:
  "le32 (ucast w) (ucast (drop_bit 8 w)) (ucast (drop_bit 16 w)) (ucast (drop_bit 24 w)) = w"
proof (rule bit_word_eqI)
  fix n assume "n < LENGTH(32)"
  then consider "n < 8" | "8 \<le> n \<and> n < 16" | "16 \<le> n \<and> n < 24" | "24 \<le> n \<and> n < 32"
    by fastforce
  then show "bit (le32 (ucast w) (ucast (drop_bit 8 w)) (ucast (drop_bit 16 w))
               (ucast (drop_bit 24 w))) n = bit w n"
    by cases (auto simp: le32_def bit_simps)
qed

lemma below_24_bits: "w < 2 ^ 24 \<longleftrightarrow> take_bit 24 w = (w :: u32)"
  by (simp add: word_uint_eq_iff unsigned_take_bit_eq take_bit_int_eq_self_iff word_less_def)

lemma u8_high_bits: "8 \<le> n \<Longrightarrow> \<not> bit (x :: u8) n"
  by (auto dest: bit_imp_le_length)

lemma le24_b24:
  assumes "w < 2 ^ 24"
  shows "le24 (ucast w) (ucast (drop_bit 8 w)) (ucast (drop_bit 16 w)) = w"
proof (rule bit_word_eqI)
  fix n assume n: "n < LENGTH(32)"
  have hi: "\<not> bit w m" if "24 \<le> m" for m
  proof -
    have "take_bit 24 w = w"
      using assms by (simp only: below_24_bits)
    then show ?thesis using that by (metis bit_take_bit_iff not_le)
  qed
  from n consider "n < 8" | "8 \<le> n \<and> n < 16" | "16 \<le> n \<and> n < 24" | "24 \<le> n"
    by fastforce
  then show "bit (le24 (ucast w) (ucast (drop_bit 8 w)) (ucast (drop_bit 16 w))) n = bit w n"
    using n by cases (auto simp: le24_def bit_simps hi)
qed

lemma le24_bound: "le24 a b c < 2 ^ 24"
proof -
  have "take_bit 24 (le24 a b c) = le24 a b c"
    by (rule bit_word_eqI) (auto simp: le24_def bit_simps u8_high_bits dest: bit_imp_le_length)
  then show ?thesis by (simp only: below_24_bits)
qed

lemma minus_one_less_uint [simp]: "- 1 < uint x"
  by (rule less_le_trans [of _ 0]) simp_all

lemma not_less_uint_nonneg: "\<not> n < uint x \<Longrightarrow> 0 \<le> n"
  by (meson not_less order_trans uint_ge_0)

lemma unat_of_nat_u8: "n < 256 \<Longrightarrow> unat (of_nat n :: u8) = n"
  by (simp add: unsigned_of_nat take_bit_nat_eq_self)

lemma unat_of_nat_u16: "n < 65536 \<Longrightarrow> unat (of_nat n :: u16) = n"
  by (simp add: unsigned_of_nat take_bit_nat_eq_self)

section \<open>The read cursor\<close>

text \<open>
  A pointer \<open>p_data\<close> into a received buffer is the octets still in front of it,
  together with the distance \<open>p_data - p_stream\<close> it has moved. Moving a pointer does
  not read: \<open>skip\<close> may pass the end, and only a later read then fails.
\<close>

type_synonym cursor = "u8 list \<times> nat"

definition start :: "u8 list \<Rightarrow> cursor" where
  "start buf = (buf, 0)"

definition used :: "cursor \<Rightarrow> nat" where
  "used c = snd c"

fun rd8 :: "cursor \<Rightarrow> (u8 \<times> cursor) option" where
  "rd8 ([], n) = None"
| "rd8 (x # xs, n) = Some (x, xs, Suc n)"

definition rd16 :: "cursor \<Rightarrow> (u16 \<times> cursor) option" where
  "rd16 p = do { (a, p) \<leftarrow> rd8 p; (b, p) \<leftarrow> rd8 p; Some (le16 a b, p) }"

definition rd24 :: "cursor \<Rightarrow> (u32 \<times> cursor) option" where
  "rd24 p = do { (a, p) \<leftarrow> rd8 p; (b, p) \<leftarrow> rd8 p; (c, p) \<leftarrow> rd8 p; Some (le24 a b c, p) }"

definition rd32 :: "cursor \<Rightarrow> (u32 \<times> cursor) option" where
  "rd32 p = do { (a, p) \<leftarrow> rd8 p; (b, p) \<leftarrow> rd8 p; (c, p) \<leftarrow> rd8 p; (d, p) \<leftarrow> rd8 p;
                 Some (le32 a b c d, p) }"

fun rd_arr :: "nat \<Rightarrow> cursor \<Rightarrow> (u8 list \<times> cursor) option" where
  "rd_arr 0 p = Some ([], p)"
| "rd_arr (Suc n) p = do { (x, p) \<leftarrow> rd8 p; (xs, p) \<leftarrow> rd_arr n p; Some (x # xs, p) }"

definition skip :: "nat \<Rightarrow> cursor \<Rightarrow> cursor" where
  "skip n p = (drop n (fst p), snd p + n)"

text \<open>Copying \<open>n\<close> octets out of an object that holds exactly \<open>xs\<close>.\<close>

definition octets :: "nat \<Rightarrow> u8 list \<Rightarrow> u8 list option" where
  "octets n xs = (if n \<le> length xs then Some (take n xs) else None)"

lemma used_simps [simp, rd_simps]:
  "used (start buf) = 0" "used (xs, n) = n" "used (skip k p) = used p + k"
  by (simp_all add: used_def start_def skip_def)

lemma octets_length [simp]: "octets (length xs) xs = Some xs"
  by (simp add: octets_def)

lemma octets_length_SomeD: "octets n xs = Some ys \<Longrightarrow> length ys = n"
  by (auto simp: octets_def split: if_splits)

lemma rd16_Cons [rd_simps]: "rd16 (a # b # xs, n) = Some (le16 a b, xs, n + 2)"
  by (simp add: rd16_def)

lemma rd24_Cons [rd_simps]: "rd24 (a # b # c # xs, n) = Some (le24 a b c, xs, n + 3)"
  by (simp add: rd24_def)

lemma rd32_Cons [rd_simps]: "rd32 (a # b # c # d # xs, n) = Some (le32 a b c d, xs, n + 4)"
  by (simp add: rd32_def)

lemma rd16_b16 [rd_simps]: "rd16 (b16 w @ xs, n) = Some (w, xs, n + 2)"
  by (simp add: b16_def rd16_Cons)

lemma rd24_b24: "w < 2 ^ 24 \<Longrightarrow> rd24 (b24 w @ xs, n) = Some (w, xs, n + 3)"
  by (simp add: b24_def rd24_Cons le24_b24)

lemma rd32_b32 [rd_simps]: "rd32 (b32 w @ xs, n) = Some (w, xs, n + 4)"
  by (simp add: b32_def rd32_Cons)

lemma rd_arr_append [rd_simps]: "rd_arr (length ys) (ys @ xs, n) = Some (ys, xs, n + length ys)"
  by (induction ys arbitrary: n) auto

lemma rd8_SomeD [rd_dests]: "rd8 p = Some (x, p') \<Longrightarrow> p' = skip 1 p \<and> 0 < length (fst p)"
  by (cases p rule: rd8.cases) (auto simp: skip_def)

lemma rd8_Some_iff: "rd8 p = Some (x, p') \<longleftrightarrow> (\<exists>xs. fst p = x # xs \<and> p' = (xs, Suc (snd p)))"
  by (cases p rule: rd8.cases) auto

lemma skip_skip [simp, rd_simps]: "skip m (skip n p) = skip (n + m) p"
  by (simp add: skip_def add.commute)

lemma rd16_SomeD [rd_dests]: "rd16 p = Some (x, p') \<Longrightarrow> p' = skip 2 p \<and> 2 \<le> length (fst p)"
  by (cases p; cases "fst p"; cases "tl (fst p)") (auto simp: rd16_def skip_def)

lemma rd24_SomeD [rd_dests]: "rd24 p = Some (x, p') \<Longrightarrow> p' = skip 3 p \<and> 3 \<le> length (fst p)"
  by (auto simp: rd24_def rd8_Some_iff skip_def bind_eq_Some_conv split: prod.splits)

lemma rd32_SomeD [rd_dests]: "rd32 p = Some (x, p') \<Longrightarrow> p' = skip 4 p \<and> 4 \<le> length (fst p)"
  by (auto simp: rd32_def rd8_Some_iff skip_def bind_eq_Some_conv split: prod.splits)

section \<open>Fixed-size arrays\<close>

text \<open>
  A C array is a list of its length. An index outside it is undefined: reading or writing
  there is \<open>None\<close>.
\<close>

definition arr_get :: "'a list \<Rightarrow> nat \<Rightarrow> 'a option" where
  "arr_get xs i = (if i < length xs then Some (xs ! i) else None)"

definition arr_set :: "'a list \<Rightarrow> nat \<Rightarrow> 'a \<Rightarrow> 'a list option" where
  "arr_set xs i x = (if i < length xs then Some (xs[i := x]) else None)"

lemma arr_get_set: "arr_set xs i x = Some ys \<Longrightarrow> arr_get ys j = (if j = i then Some x else arr_get xs j)"
  by (auto simp: arr_set_def arr_get_def split: if_splits)

text \<open>The first index of a list, scanned from the front, that satisfies a test.\<close>

fun find_index :: "('a \<Rightarrow> bool) \<Rightarrow> 'a list \<Rightarrow> nat option" where
  "find_index P [] = None"
| "find_index P (x # xs) = (if P x then Some 0 else map_option Suc (find_index P xs))"

lemma find_index_Some:
  "find_index P xs = Some i \<Longrightarrow> i < length xs \<and> P (xs ! i) \<and> (\<forall>j<i. \<not> P (xs ! j))"
proof (induction xs arbitrary: i)
  case Nil
  then show ?case by simp
next
  case (Cons x xs)
  show ?case
  proof (cases "P x")
    case True
    with Cons.prems show ?thesis by simp
  next
    case False
    with Cons.prems obtain j where j: "find_index P xs = Some j" "i = Suc j" by auto
    with Cons.IH[OF j(1)] False show ?thesis by (auto simp: nth_Cons split: nat.splits)
  qed
qed

lemma find_index_None: "find_index P xs = None \<longleftrightarrow> (\<forall>x\<in>set xs. \<not> P x)"
  by (induction xs) auto

lemma find_index_eqI:
  "i < length xs \<Longrightarrow> P (xs ! i) \<Longrightarrow> (\<And>j. j < i \<Longrightarrow> \<not> P (xs ! j)) \<Longrightarrow> find_index P xs = Some i"
proof (induction xs arbitrary: i)
  case Nil
  then show ?case by simp
next
  case (Cons x xs)
  show ?case
  proof (cases i)
    case 0
    with Cons.prems show ?thesis by simp
  next
    case (Suc k)
    have "\<not> P x" using Cons.prems(3)[of 0] Suc by simp
    moreover have "find_index P xs = Some k"
    proof (rule Cons.IH)
      show "k < length xs" "P (xs ! k)" using Cons.prems Suc by simp_all
      show "\<not> P (xs ! j)" if "j < k" for j using Cons.prems(3)[of "Suc j"] that Suc by simp
    qed
    ultimately show ?thesis using Suc by simp
  qed
qed

section \<open>Wire codecs\<close>

text \<open>
  What a pair of an encoder and a decoder of one wire format promises: on the values the
  format can express, the decoder reads back exactly what the encoder wrote and stops where
  it ended. \<open>rd_many\<close> decodes a fixed number of consecutive values.
\<close>

fun rd_many :: "(cursor \<Rightarrow> ('a \<times> cursor) option) \<Rightarrow> nat \<Rightarrow> cursor \<Rightarrow> ('a list \<times> cursor) option" where
  "rd_many rd 0 p = Some ([], p)"
| "rd_many rd (Suc n) p = do { (x, p) \<leftarrow> rd p; (xs, p) \<leftarrow> rd_many rd n p; Some (x # xs, p) }"

locale wire_codec =
  fixes enc :: "'a \<Rightarrow> u8 list"
    and dec :: "cursor \<Rightarrow> ('a \<times> cursor) option"
    and ok :: "'a \<Rightarrow> bool"
  assumes dec_enc: "ok x \<Longrightarrow> dec (enc x @ rest, n) = Some (x, rest, n + length (enc x))"
begin

lemma dec_enc_start: "ok x \<Longrightarrow> dec (start (enc x)) = Some (x, [], length (enc x))"
  using dec_enc [of x "[]" 0] by (simp add: start_def)

lemma enc_prefix:
  assumes "ok x" "ok y" "enc x @ xs = enc y @ ys"
  shows "x = y \<and> xs = ys"
proof -
  have "Some (x, xs, 0 + length (enc x)) = Some (y, ys, 0 + length (enc y))"
    unfolding dec_enc [OF assms(1), of xs 0, symmetric] dec_enc [OF assms(2), of ys 0, symmetric]
    by (simp only: assms(3))
  then show ?thesis by simp
qed

lemma enc_inj: "ok x \<Longrightarrow> ok y \<Longrightarrow> enc x = enc y \<Longrightarrow> x = y"
  using enc_prefix [of x y "[]" "[]"] by blast

lemma rd_many_enc:
  "list_all ok xs \<Longrightarrow>
     rd_many dec (length xs) (concat (map enc xs) @ rest, n) =
       Some (xs, rest, n + length (concat (map enc xs)))"
proof (induction xs arbitrary: n)
  case Nil
  then show ?case by simp
next
  case (Cons x xs)
  then have "dec (enc x @ concat (map enc xs) @ rest, n) =
      Some (x, concat (map enc xs) @ rest, n + length (enc x))" by (simp add: dec_enc)
  with Cons show ?case by (simp add: add.assoc)
qed

end

interpretation wire8: wire_codec "\<lambda>x. [x]" rd8 "\<lambda>_. True"
  by unfold_locales simp

interpretation wire16: wire_codec b16 rd16 "\<lambda>_. True"
  by unfold_locales (simp add: rd16_b16)

interpretation wire24: wire_codec b24 rd24 "\<lambda>w. w < 2 ^ 24"
  by unfold_locales (simp add: rd24_b24)

interpretation wire32: wire_codec b32 rd32 "\<lambda>_. True"
  by unfold_locales (simp add: rd32_b32)

end
