(* ===== verification/Ascs_Types.thy ===== *)
theory Ascs_Types
  imports Lehs_Prelude
begin

text \<open>
  The data of \<open>gatt_profiles/include/ga_lib_ascs.h\<close>: response codes, opcodes and ASE
  states, and the structures a codec configuration, a QoS configuration, metadata and an
  ASE are kept in. Where two C structures share a field name the field has a prefix here.
  The states are ordered by their enumeration number, because the code compares them.
\<close>

section \<open>Enumerations\<close>

datatype ga_lib_ascs_cp_response =
    CP_RESPONSE_SUCCESS
  | CP_RESPONSE_UNSUPPORTED_OPCODE
  | CP_RESPONSE_INVALID_LENGTH
  | CP_RESPONSE_INVALID_ASE_ID
  | CP_RESPONSE_INVALID_ASE_STATE_MACHINE_TRANSITION
  | CP_RESPONSE_INVALID_ASE_DIRECTION
  | CP_RESPONSE_UNSUPPORTED_AUDIO_CAPABILITIES
  | CP_RESPONSE_UNSUPPORTED_CONFIGURATION_PARAMETER_VALUE
  | CP_RESPONSE_REJECTED_CONFIGURATION_PARAMETER_VALUE
  | CP_RESPONSE_INVALID_CONFIGURATION_PARAMETER_VALUE
  | CP_RESPONSE_UNSUPPORTED_METADATA
  | CP_RESPONSE_REJECTED_METADATA
  | CP_RESPONSE_INVALID_METADATA
  | CP_RESPONSE_INSUFFICIENT_RESOURCES
  | CP_RESPONSE_UNSPECIFIED_ERROR

fun response_val :: "ga_lib_ascs_cp_response \<Rightarrow> u8" where
  "response_val CP_RESPONSE_SUCCESS = 0"
| "response_val CP_RESPONSE_UNSUPPORTED_OPCODE = 1"
| "response_val CP_RESPONSE_INVALID_LENGTH = 2"
| "response_val CP_RESPONSE_INVALID_ASE_ID = 3"
| "response_val CP_RESPONSE_INVALID_ASE_STATE_MACHINE_TRANSITION = 4"
| "response_val CP_RESPONSE_INVALID_ASE_DIRECTION = 5"
| "response_val CP_RESPONSE_UNSUPPORTED_AUDIO_CAPABILITIES = 6"
| "response_val CP_RESPONSE_UNSUPPORTED_CONFIGURATION_PARAMETER_VALUE = 7"
| "response_val CP_RESPONSE_REJECTED_CONFIGURATION_PARAMETER_VALUE = 8"
| "response_val CP_RESPONSE_INVALID_CONFIGURATION_PARAMETER_VALUE = 9"
| "response_val CP_RESPONSE_UNSUPPORTED_METADATA = 10"
| "response_val CP_RESPONSE_REJECTED_METADATA = 11"
| "response_val CP_RESPONSE_INVALID_METADATA = 12"
| "response_val CP_RESPONSE_INSUFFICIENT_RESOURCES = 13"
| "response_val CP_RESPONSE_UNSPECIFIED_ERROR = 14"

text \<open>The reason field is an octet; the metadata parser also stores an LTV type in it.\<close>

abbreviation (input) CP_REASON_NOT_APPLICABLE :: u8 where "CP_REASON_NOT_APPLICABLE \<equiv> 0"
abbreviation (input) CP_REASON_CODEC_SPECIFIC_CONFIGURATION :: u8 where
  "CP_REASON_CODEC_SPECIFIC_CONFIGURATION \<equiv> 2"
abbreviation (input) CP_REASON_SDU_INTERVAL :: u8 where "CP_REASON_SDU_INTERVAL \<equiv> 3"
abbreviation (input) CP_REASON_FRAMING :: u8 where "CP_REASON_FRAMING \<equiv> 4"
abbreviation (input) CP_REASON_PHY :: u8 where "CP_REASON_PHY \<equiv> 5"
abbreviation (input) CP_REASON_MAXIMUM_SDU_SIZE :: u8 where "CP_REASON_MAXIMUM_SDU_SIZE \<equiv> 6"
abbreviation (input) CP_REASON_MAX_TRANSPORT_LATENCY :: u8 where "CP_REASON_MAX_TRANSPORT_LATENCY \<equiv> 8"

text \<open>Opcodes arrive as octets.\<close>

abbreviation (input) OPCODE_CONFIG_CODEC :: u8 where "OPCODE_CONFIG_CODEC \<equiv> 1"
abbreviation (input) OPCODE_CONFIG_QOS :: u8 where "OPCODE_CONFIG_QOS \<equiv> 2"
abbreviation (input) OPCODE_ENABLE :: u8 where "OPCODE_ENABLE \<equiv> 3"
abbreviation (input) OPCODE_RECEIVER_START_READY :: u8 where "OPCODE_RECEIVER_START_READY \<equiv> 4"
abbreviation (input) OPCODE_DISABLE :: u8 where "OPCODE_DISABLE \<equiv> 5"
abbreviation (input) OPCODE_RECEIVER_STOP_READY :: u8 where "OPCODE_RECEIVER_STOP_READY \<equiv> 6"
abbreviation (input) OPCODE_UPDATE_METADATA :: u8 where "OPCODE_UPDATE_METADATA \<equiv> 7"
abbreviation (input) OPCODE_RELEASE :: u8 where "OPCODE_RELEASE \<equiv> 8"
abbreviation (input) OPCODE_RELEASED :: u8 where "OPCODE_RELEASED \<equiv> 9"
abbreviation (input) OPCODE_MAX :: u8 where "OPCODE_MAX \<equiv> 10"

abbreviation (input) ASCS_CHARACTERISTIC_SNK_ASE :: u8 where "ASCS_CHARACTERISTIC_SNK_ASE \<equiv> 1"
abbreviation (input) ASCS_CHARACTERISTIC_SRC_ASE :: u8 where "ASCS_CHARACTERISTIC_SRC_ASE \<equiv> 2"

datatype ga_lib_ascs_state =
    STATE_IDLE | STATE_CODEC_CONFIGURED | STATE_QOS_CONFIGURED | STATE_ENABLING
  | STATE_STREAMING | STATE_DISABLING | STATE_RELEASING | STATE_MAX

fun state_val :: "ga_lib_ascs_state \<Rightarrow> u8" where
  "state_val STATE_IDLE = 0"
| "state_val STATE_CODEC_CONFIGURED = 1"
| "state_val STATE_QOS_CONFIGURED = 2"
| "state_val STATE_ENABLING = 3"
| "state_val STATE_STREAMING = 4"
| "state_val STATE_DISABLING = 5"
| "state_val STATE_RELEASING = 6"
| "state_val STATE_MAX = 7"

lemma state_val_inj: "state_val a = state_val b \<longleftrightarrow> a = b"
  by (cases a; cases b) simp_all

instantiation ga_lib_ascs_state :: linorder
begin

definition less_eq_ga_lib_ascs_state :: "ga_lib_ascs_state \<Rightarrow> ga_lib_ascs_state \<Rightarrow> bool" where
  "less_eq_ga_lib_ascs_state a b \<longleftrightarrow> state_val a \<le> state_val b"

definition less_ga_lib_ascs_state :: "ga_lib_ascs_state \<Rightarrow> ga_lib_ascs_state \<Rightarrow> bool" where
  "less_ga_lib_ascs_state a b \<longleftrightarrow> state_val a < state_val b"

instance
proof
  fix x y z :: ga_lib_ascs_state
  show "(x < y) = (x \<le> y \<and> \<not> y \<le> x)"
    by (auto simp: less_eq_ga_lib_ascs_state_def less_ga_lib_ascs_state_def)
  show "x \<le> x" by (simp add: less_eq_ga_lib_ascs_state_def)
  show "x \<le> y \<Longrightarrow> y \<le> z \<Longrightarrow> x \<le> z" by (simp add: less_eq_ga_lib_ascs_state_def)
  show "x \<le> y \<Longrightarrow> y \<le> x \<Longrightarrow> x = y"
    by (simp add: less_eq_ga_lib_ascs_state_def state_val_inj)
  show "x \<le> y \<or> y \<le> x" by (auto simp: less_eq_ga_lib_ascs_state_def)
qed

end

section \<open>Structures\<close>

record ga_lib_ascs_codec_id =
  coding_format :: u8
  company_id :: u16
  vendor_specific_codec_id :: u16

record ga_lib_ascs_csc =
  sampling_frequency_hz :: u32
  frame_duration_us :: u32
  audio_channel_allocation :: u32
  octets_per_codec_frame :: u16
  lc3_blocks_per_sdu :: u8

record ga_lib_ascs_config_codec_args =
  cc_codec_id :: ga_lib_ascs_codec_id
  cc_target_latency :: u8
  cc_target_phy :: u8
  cc_csc :: ga_lib_ascs_csc

record ga_lib_ascs_config_qos_args =
  cig_id :: u8
  cis_id :: u8
  sdu_interval :: u32
  qos_framing :: u8
  qos_phy :: u8
  max_sdu :: u16
  retransmission_number :: u8
  max_transport_latency :: u16
  presentation_delay :: u32

text \<open>
  A C pointer with a length field next to it is the octets of the object it points to, or
  \<open>None\<close> for \<open>NULL\<close>. The length field is kept apart, as in the code.
\<close>

record ga_lib_ascs_metadata =
  metadata_present :: u8
  preferred_audio_ctx :: u16
  streaming_audio_ctx :: u16
  vendor_specific_data_length :: u8
  p_vendor_specific_data :: "u8 list option"
  upper_layer_data_length :: u8
  p_upper_layer_data :: "u8 list option"
  program_info_len :: u8
  p_program_info :: "u8 list option"

record ga_lib_ascs_cp_cmd_sts =
  sts_ase_id :: u8
  response_code :: ga_lib_ascs_cp_response
  reason :: u8

record ga_lib_ascs_ase_codec_config_data =
  supported_framing :: u8
  preferred_phy :: u8
  preferred_retransmission_number :: u8
  cfg_max_transport_latency :: u16
  presentation_delay_in_us_min :: u32
  presentation_delay_in_us_max :: u32
  preferred_presentation_delay_in_us_min :: u32
  preferred_presentation_delay_in_us_max :: u32
  cfg_target_latency :: u16
  cfg_target_phy :: u8
  cfg_codec_id :: ga_lib_ascs_codec_id
  cfg_csc :: ga_lib_ascs_csc

datatype data_path_direction = DPD_INPUT | DPD_OUTPUT

record ga_lib_ascs_ase =
  ase_id :: u8
  ase_type :: u8
  data_path_dir :: data_path_direction
  ase_state :: ga_lib_ascs_state
  qos_configured :: ga_lib_ascs_config_qos_args
  ase_metadata :: ga_lib_ascs_metadata
  ase_cfg :: ga_lib_ascs_ase_codec_config_data

text \<open>The values \<open>memset(p, 0, sizeof(*p))\<close> and \<open>= {0}\<close> leave.\<close>

definition zero_codec_id :: ga_lib_ascs_codec_id where
  "zero_codec_id = \<lparr>coding_format = 0, company_id = 0, vendor_specific_codec_id = 0\<rparr>"

definition zero_csc :: ga_lib_ascs_csc where
  "zero_csc = \<lparr>sampling_frequency_hz = 0, frame_duration_us = 0, audio_channel_allocation = 0,
     octets_per_codec_frame = 0, lc3_blocks_per_sdu = 0\<rparr>"

definition zero_config_codec_args :: ga_lib_ascs_config_codec_args where
  "zero_config_codec_args = \<lparr>cc_codec_id = zero_codec_id, cc_target_latency = 0,
     cc_target_phy = 0, cc_csc = zero_csc\<rparr>"

definition zero_qos :: ga_lib_ascs_config_qos_args where
  "zero_qos = \<lparr>cig_id = 0, cis_id = 0, sdu_interval = 0, qos_framing = 0, qos_phy = 0,
     max_sdu = 0, retransmission_number = 0, max_transport_latency = 0, presentation_delay = 0\<rparr>"

definition zero_metadata :: ga_lib_ascs_metadata where
  "zero_metadata = \<lparr>metadata_present = 0, preferred_audio_ctx = 0, streaming_audio_ctx = 0,
     vendor_specific_data_length = 0, p_vendor_specific_data = None,
     upper_layer_data_length = 0, p_upper_layer_data = None,
     program_info_len = 0, p_program_info = None\<rparr>"

definition zero_sts :: ga_lib_ascs_cp_cmd_sts where
  "zero_sts = \<lparr>sts_ase_id = 0, response_code = CP_RESPONSE_SUCCESS, reason = 0\<rparr>"

definition zero_ase_cfg :: ga_lib_ascs_ase_codec_config_data where
  "zero_ase_cfg = \<lparr>supported_framing = 0, preferred_phy = 0, preferred_retransmission_number = 0,
     cfg_max_transport_latency = 0, presentation_delay_in_us_min = 0,
     presentation_delay_in_us_max = 0, preferred_presentation_delay_in_us_min = 0,
     preferred_presentation_delay_in_us_max = 0, cfg_target_latency = 0, cfg_target_phy = 0,
     cfg_codec_id = zero_codec_id, cfg_csc = zero_csc\<rparr>"

end
