(* ===== verification/Bap.thy ===== *)
theory Bap
  imports Ascs_Types
begin

text \<open>
  The Basic Audio Profile library, \<open>gatt_profiles/ga_lib_bap.c\<close>: the codec setting
  tables, the sampling frequency and frame duration codes, the LTV reader and writer for
  codec specific configurations and metadata, and the ASE state transition table.
\<close>

section \<open>Codec settings\<close>

datatype wiced_ble_isoc_framing = UNFRAMED | FRAMED

text \<open>\<open>ENABLE_LC3_PLUS\<close> is not set by any build file, so its entries are left out.\<close>

datatype ga_lib_bap_codec_config =
    BAP_CODEC_CONFIG_8_1_1 | BAP_CODEC_CONFIG_8_1_2 | BAP_CODEC_CONFIG_8_2_1
  | BAP_CODEC_CONFIG_8_2_2 | BAP_CODEC_CONFIG_16_1_1 | BAP_CODEC_CONFIG_16_1_2
  | BAP_CODEC_CONFIG_16_2_1 | BAP_CODEC_CONFIG_16_2_2 | BAP_CODEC_CONFIG_24_1_1
  | BAP_CODEC_CONFIG_24_1_2 | BAP_CODEC_CONFIG_24_2_1 | BAP_CODEC_CONFIG_24_2_2
  | BAP_CODEC_CONFIG_32_1_1 | BAP_CODEC_CONFIG_32_1_2 | BAP_CODEC_CONFIG_32_2_1
  | BAP_CODEC_CONFIG_32_2_2 | BAP_CODEC_CONFIG_441_1_1 | BAP_CODEC_CONFIG_441_1_2
  | BAP_CODEC_CONFIG_441_2_1 | BAP_CODEC_CONFIG_441_2_2 | BAP_CODEC_CONFIG_48_1_1
  | BAP_CODEC_CONFIG_48_1_2 | BAP_CODEC_CONFIG_48_2_1 | BAP_CODEC_CONFIG_48_2_2
  | BAP_CODEC_CONFIG_48_3_1 | BAP_CODEC_CONFIG_48_3_2 | BAP_CODEC_CONFIG_48_4_1
  | BAP_CODEC_CONFIG_48_4_2 | BAP_CODEC_CONFIG_48_5_1 | BAP_CODEC_CONFIG_48_5_2
  | BAP_CODEC_CONFIG_48_6_1 | BAP_CODEC_CONFIG_48_6_2

fun cc_val :: "ga_lib_bap_codec_config \<Rightarrow> u32" where
  "cc_val BAP_CODEC_CONFIG_8_1_1 = 0"
| "cc_val BAP_CODEC_CONFIG_8_1_2 = 1"
| "cc_val BAP_CODEC_CONFIG_8_2_1 = 2"
| "cc_val BAP_CODEC_CONFIG_8_2_2 = 3"
| "cc_val BAP_CODEC_CONFIG_16_1_1 = 4"
| "cc_val BAP_CODEC_CONFIG_16_1_2 = 5"
| "cc_val BAP_CODEC_CONFIG_16_2_1 = 6"
| "cc_val BAP_CODEC_CONFIG_16_2_2 = 7"
| "cc_val BAP_CODEC_CONFIG_24_1_1 = 8"
| "cc_val BAP_CODEC_CONFIG_24_1_2 = 9"
| "cc_val BAP_CODEC_CONFIG_24_2_1 = 10"
| "cc_val BAP_CODEC_CONFIG_24_2_2 = 11"
| "cc_val BAP_CODEC_CONFIG_32_1_1 = 12"
| "cc_val BAP_CODEC_CONFIG_32_1_2 = 13"
| "cc_val BAP_CODEC_CONFIG_32_2_1 = 14"
| "cc_val BAP_CODEC_CONFIG_32_2_2 = 15"
| "cc_val BAP_CODEC_CONFIG_441_1_1 = 16"
| "cc_val BAP_CODEC_CONFIG_441_1_2 = 17"
| "cc_val BAP_CODEC_CONFIG_441_2_1 = 18"
| "cc_val BAP_CODEC_CONFIG_441_2_2 = 19"
| "cc_val BAP_CODEC_CONFIG_48_1_1 = 20"
| "cc_val BAP_CODEC_CONFIG_48_1_2 = 21"
| "cc_val BAP_CODEC_CONFIG_48_2_1 = 22"
| "cc_val BAP_CODEC_CONFIG_48_2_2 = 23"
| "cc_val BAP_CODEC_CONFIG_48_3_1 = 24"
| "cc_val BAP_CODEC_CONFIG_48_3_2 = 25"
| "cc_val BAP_CODEC_CONFIG_48_4_1 = 26"
| "cc_val BAP_CODEC_CONFIG_48_4_2 = 27"
| "cc_val BAP_CODEC_CONFIG_48_5_1 = 28"
| "cc_val BAP_CODEC_CONFIG_48_5_2 = 29"
| "cc_val BAP_CODEC_CONFIG_48_6_1 = 30"
| "cc_val BAP_CODEC_CONFIG_48_6_2 = 31"

record ga_bap_config =
  cc :: ga_lib_bap_codec_config
  sf :: u32
  fd :: u32
  si :: u32
  opcf :: u16
  fr :: wiced_ble_isoc_framing
  rn :: u8
  mtl :: u8

definition cfg_row ::
  "ga_lib_bap_codec_config \<Rightarrow> u32 \<Rightarrow> u32 \<Rightarrow> u32 \<Rightarrow> u16 \<Rightarrow> wiced_ble_isoc_framing \<Rightarrow> u8 \<Rightarrow> u8
    \<Rightarrow> ga_bap_config" where
  "cfg_row c f d i o' r n m =
     \<lparr>cc = c, sf = f, fd = d, si = i, opcf = o', fr = r, rn = n, mtl = m\<rparr>"

definition bap_broadcast_stream_cfgs :: "ga_bap_config list" where
  "bap_broadcast_stream_cfgs =
  [cfg_row BAP_CODEC_CONFIG_8_1_1 8000 7500 7500 26 UNFRAMED 2 8,
   cfg_row BAP_CODEC_CONFIG_8_1_2 8000 7500 7500 26 UNFRAMED 4 45,
   cfg_row BAP_CODEC_CONFIG_8_2_1 8000 10000 10000 30 UNFRAMED 2 10,
   cfg_row BAP_CODEC_CONFIG_8_2_2 8000 10000 10000 30 UNFRAMED 4 60,
   cfg_row BAP_CODEC_CONFIG_16_1_1 16000 7500 7500 30 UNFRAMED 2 8,
   cfg_row BAP_CODEC_CONFIG_16_1_2 16000 7500 7500 30 UNFRAMED 4 45,
   cfg_row BAP_CODEC_CONFIG_16_2_1 16000 10000 10000 40 UNFRAMED 2 10,
   cfg_row BAP_CODEC_CONFIG_16_2_2 16000 10000 10000 40 UNFRAMED 4 60,
   cfg_row BAP_CODEC_CONFIG_24_1_1 24000 7500 7500 45 UNFRAMED 2 8,
   cfg_row BAP_CODEC_CONFIG_24_1_2 24000 7500 7500 45 UNFRAMED 4 45,
   cfg_row BAP_CODEC_CONFIG_24_2_1 24000 10000 10000 60 UNFRAMED 2 10,
   cfg_row BAP_CODEC_CONFIG_24_2_2 24000 10000 10000 60 UNFRAMED 4 60,
   cfg_row BAP_CODEC_CONFIG_32_1_1 32000 7500 7500 60 UNFRAMED 2 8,
   cfg_row BAP_CODEC_CONFIG_32_1_2 32000 7500 7500 60 UNFRAMED 4 45,
   cfg_row BAP_CODEC_CONFIG_32_2_1 32000 10000 10000 80 UNFRAMED 2 10,
   cfg_row BAP_CODEC_CONFIG_32_2_2 32000 10000 10000 80 UNFRAMED 4 60,
   cfg_row BAP_CODEC_CONFIG_441_1_1 44100 7500 8163 97 FRAMED 4 24,
   cfg_row BAP_CODEC_CONFIG_441_1_2 44100 7500 8163 97 FRAMED 4 54,
   cfg_row BAP_CODEC_CONFIG_441_2_1 44100 10000 10884 130 FRAMED 4 31,
   cfg_row BAP_CODEC_CONFIG_441_2_2 44100 10000 10884 130 FRAMED 4 60,
   cfg_row BAP_CODEC_CONFIG_48_1_1 48000 7500 7500 75 UNFRAMED 4 15,
   cfg_row BAP_CODEC_CONFIG_48_1_2 48000 7500 7500 75 UNFRAMED 4 50,
   cfg_row BAP_CODEC_CONFIG_48_2_1 48000 10000 10000 100 UNFRAMED 4 20,
   cfg_row BAP_CODEC_CONFIG_48_2_2 48000 10000 10000 100 UNFRAMED 4 65,
   cfg_row BAP_CODEC_CONFIG_48_3_1 48000 7500 7500 90 UNFRAMED 4 15,
   cfg_row BAP_CODEC_CONFIG_48_3_2 48000 7500 7500 90 UNFRAMED 4 50,
   cfg_row BAP_CODEC_CONFIG_48_4_1 48000 10000 10000 120 UNFRAMED 4 20,
   cfg_row BAP_CODEC_CONFIG_48_4_2 48000 10000 10000 120 UNFRAMED 4 65,
   cfg_row BAP_CODEC_CONFIG_48_5_1 48000 7500 7500 117 UNFRAMED 4 15,
   cfg_row BAP_CODEC_CONFIG_48_5_2 48000 7500 7500 117 UNFRAMED 4 50,
   cfg_row BAP_CODEC_CONFIG_48_6_1 48000 10000 10000 155 UNFRAMED 4 20,
   cfg_row BAP_CODEC_CONFIG_48_6_2 48000 10000 10000 155 UNFRAMED 4 65]"

definition bap_unicast_stream_cfgs :: "ga_bap_config list" where
  "bap_unicast_stream_cfgs =
  [cfg_row BAP_CODEC_CONFIG_8_1_1 8000 7500 7500 26 UNFRAMED 2 8,
   cfg_row BAP_CODEC_CONFIG_8_1_2 8000 7500 7500 26 UNFRAMED 13 75,
   cfg_row BAP_CODEC_CONFIG_8_2_1 8000 10000 10000 30 UNFRAMED 2 10,
   cfg_row BAP_CODEC_CONFIG_8_2_2 8000 10000 10000 30 UNFRAMED 13 95,
   cfg_row BAP_CODEC_CONFIG_16_1_1 16000 7500 7500 30 UNFRAMED 2 10,
   cfg_row BAP_CODEC_CONFIG_16_1_2 16000 7500 7500 30 UNFRAMED 13 95,
   cfg_row BAP_CODEC_CONFIG_16_2_1 16000 10000 10000 40 UNFRAMED 2 10,
   cfg_row BAP_CODEC_CONFIG_16_2_2 16000 10000 10000 40 UNFRAMED 13 60,
   cfg_row BAP_CODEC_CONFIG_24_1_1 24000 7500 7500 45 UNFRAMED 2 8,
   cfg_row BAP_CODEC_CONFIG_24_1_2 24000 7500 7500 45 UNFRAMED 13 75,
   cfg_row BAP_CODEC_CONFIG_24_2_1 24000 10000 10000 60 UNFRAMED 2 10,
   cfg_row BAP_CODEC_CONFIG_24_2_2 24000 10000 10000 60 UNFRAMED 13 95,
   cfg_row BAP_CODEC_CONFIG_32_1_1 32000 7500 7500 60 UNFRAMED 2 8,
   cfg_row BAP_CODEC_CONFIG_32_1_2 32000 7500 7500 60 UNFRAMED 13 75,
   cfg_row BAP_CODEC_CONFIG_32_2_1 32000 10000 10000 80 UNFRAMED 2 10,
   cfg_row BAP_CODEC_CONFIG_32_2_2 32000 10000 10000 80 UNFRAMED 13 95,
   cfg_row BAP_CODEC_CONFIG_441_1_1 44100 7500 8163 97 FRAMED 5 24,
   cfg_row BAP_CODEC_CONFIG_441_1_2 44100 7500 8163 97 FRAMED 13 80,
   cfg_row BAP_CODEC_CONFIG_441_2_1 44100 10000 10884 130 FRAMED 5 31,
   cfg_row BAP_CODEC_CONFIG_441_2_2 44100 10000 10884 130 FRAMED 13 85,
   cfg_row BAP_CODEC_CONFIG_48_1_1 48000 7500 7500 75 UNFRAMED 5 15,
   cfg_row BAP_CODEC_CONFIG_48_1_2 48000 7500 7500 75 UNFRAMED 13 75,
   cfg_row BAP_CODEC_CONFIG_48_2_1 48000 10000 10000 100 UNFRAMED 5 20,
   cfg_row BAP_CODEC_CONFIG_48_2_2 48000 10000 10000 100 UNFRAMED 13 95,
   cfg_row BAP_CODEC_CONFIG_48_3_1 48000 7500 7500 90 UNFRAMED 5 15,
   cfg_row BAP_CODEC_CONFIG_48_3_2 48000 7500 7500 90 UNFRAMED 13 75,
   cfg_row BAP_CODEC_CONFIG_48_4_1 48000 10000 10000 120 UNFRAMED 5 20,
   cfg_row BAP_CODEC_CONFIG_48_4_2 48000 10000 10000 120 UNFRAMED 13 100,
   cfg_row BAP_CODEC_CONFIG_48_5_1 48000 7500 7500 117 UNFRAMED 5 15,
   cfg_row BAP_CODEC_CONFIG_48_5_2 48000 7500 7500 117 UNFRAMED 13 75,
   cfg_row BAP_CODEC_CONFIG_48_6_1 48000 10000 10000 155 UNFRAMED 5 20,
   cfg_row BAP_CODEC_CONFIG_48_6_2 48000 10000 10000 155 UNFRAMED 13 100]"

record ga_lib_bap_stream_config =
  sc_sampling_frequency :: u32
  sc_frame_duration :: u32
  sc_sdu_interval :: u32
  sc_octets_per_codec_frame :: u16
  sc_framing :: wiced_ble_isoc_framing
  sc_retransmission_number :: u8
  sc_max_transport_latency :: u8

text \<open>The linear search; the row found is copied into \<open>*p_cfg\<close>.\<close>

fun bap_lib_get_stream_cfg ::
  "ga_bap_config list \<Rightarrow> u32 \<Rightarrow> ga_lib_bap_stream_config
    \<Rightarrow> ga_bap_config option \<times> ga_lib_bap_stream_config" where
  "bap_lib_get_stream_cfg [] c p_cfg = (None, p_cfg)"
| "bap_lib_get_stream_cfg (p_s # rest) c p_cfg =
     (if cc_val (cc p_s) = c
      then (Some p_s,
            p_cfg\<lparr>sc_sampling_frequency := sf p_s, sc_frame_duration := fd p_s,
              sc_sdu_interval := si p_s, sc_octets_per_codec_frame := opcf p_s,
              sc_framing := fr p_s, sc_retransmission_number := rn p_s,
              sc_max_transport_latency := mtl p_s\<rparr>)
      else bap_lib_get_stream_cfg rest c p_cfg)"

definition ga_lib_bap_get_broadcast_stream_config ::
  "u32 \<Rightarrow> ga_lib_bap_stream_config \<Rightarrow> wiced_result \<times> ga_lib_bap_stream_config" where
  "ga_lib_bap_get_broadcast_stream_config c p_cfg =
     (case bap_lib_get_stream_cfg bap_broadcast_stream_cfgs c p_cfg of
        (None, cfg) \<Rightarrow> (WICED_NOT_FOUND, cfg)
      | (Some _, cfg) \<Rightarrow> (WICED_SUCCESS, cfg))"

definition ga_lib_bap_get_unicast_stream_config ::
  "u32 \<Rightarrow> ga_lib_bap_stream_config \<Rightarrow> wiced_result \<times> ga_lib_bap_stream_config" where
  "ga_lib_bap_get_unicast_stream_config c p_cfg =
     (case bap_lib_get_stream_cfg bap_unicast_stream_cfgs c p_cfg of
        (None, cfg) \<Rightarrow> (WICED_NOT_FOUND, cfg)
      | (Some _, cfg) \<Rightarrow> (WICED_SUCCESS, cfg))"

section \<open>Sampling frequencies and frame durations\<close>

definition samp_freq_index :: "u32 list" where
  "samp_freq_index = [8000, 11025, 16000, 22050, 24000, 32000, 44100, 48000, 88200, 96000,
     176400, 192000, 384000]"

definition ga_lib_bap_get_sampling_freq_index :: "u32 \<Rightarrow> u8" where
  "ga_lib_bap_get_sampling_freq_index app_val =
     (case find_index (\<lambda>f. f = app_val) samp_freq_index of
        Some i \<Rightarrow> of_nat (i + 1)
      | None \<Rightarrow> 0)"

definition ga_lib_bap_get_sampling_freq_from_index :: "u8 \<Rightarrow> u32" where
  "ga_lib_bap_get_sampling_freq_from_index index =
     (if 1 \<le> index \<and> unat index \<le> length samp_freq_index
      then samp_freq_index ! (unat index - 1) else 0)"

definition ga_lib_bap_get_frame_duration_index :: "u32 \<Rightarrow> u8" where
  "ga_lib_bap_get_frame_duration_index app_val =
     (if app_val = 10000 then 1 else if app_val = 7500 then 0 else 0xFF)"

definition ga_lib_bap_get_frame_duration_from_index :: "u8 \<Rightarrow> u32" where
  "ga_lib_bap_get_frame_duration_from_index ota_val =
     (if ota_val = 0 then 7500 else if ota_val = 1 then 10000 else 0)"

text \<open>Samples in one decoded frame; the product and the sums wrap at 32 bits.\<close>

definition ga_lib_bap_get_decoded_data_size :: "u32 \<Rightarrow> u16 \<Rightarrow> u32" where
  "ga_lib_bap_get_decoded_data_size sampling_frequency frame_duration =
     (let data_size = (sampling_frequency * ucast frame_duration + 500000) div 1000000
      in if sampling_frequency = 44100 then ((data_size - 1) * 12) div 11 else data_size)"

section \<open>Codec specific configuration\<close>

text \<open>
  One LTV value of \<open>ga_lib_bap_parse_csc\<close>: the case of the \<open>switch\<close> for
  \<open>type\<close>. The flag is false where the case returns \<open>WICED_ERROR\<close>; the structure is
  updated before the check, as in the code.
\<close>

definition parse_csc_value ::
  "u8 \<Rightarrow> cursor \<Rightarrow> ga_lib_ascs_csc \<Rightarrow> (bool \<times> cursor \<times> ga_lib_ascs_csc) option" where
  "parse_csc_value type p csc =
     (if type = 1 then do {
        (v, p) \<leftarrow> rd8 p;
        let f = ga_lib_bap_get_sampling_freq_from_index v;
        Some (f \<noteq> 0, p, csc\<lparr>sampling_frequency_hz := f\<rparr>) }
      else if type = 2 then do {
        (v, p) \<leftarrow> rd8 p;
        let d = ga_lib_bap_get_frame_duration_from_index v;
        Some (d \<noteq> 0, p, csc\<lparr>frame_duration_us := d\<rparr>) }
      else if type = 3 then do {
        (v, p) \<leftarrow> rd32 p; Some (True, p, csc\<lparr>audio_channel_allocation := v\<rparr>) }
      else if type = 4 then do {
        (v, p) \<leftarrow> rd16 p; Some (True, p, csc\<lparr>octets_per_codec_frame := v\<rparr>) }
      else if type = 5 then do {
        (v, p) \<leftarrow> rd8 p; Some (True, p, csc\<lparr>lc3_blocks_per_sdu := v\<rparr>) }
      else Some (False, p, csc))"

text \<open>
  The loop. \<open>data_len\<close> is a C \<open>int\<close>: an LTV length that exceeds it makes it negative,
  which ends the loop with an error.
\<close>

function ga_lib_bap_parse_csc ::
  "cursor \<Rightarrow> int \<Rightarrow> ga_lib_ascs_csc \<Rightarrow> (wiced_result \<times> ga_lib_ascs_csc) option" where
  "ga_lib_bap_parse_csc p data_len csc =
     (if 0 < data_len then do {
        (len, p) \<leftarrow> rd8 p;
        (type, p) \<leftarrow> rd8 p;
        (ok, p, csc) \<leftarrow> parse_csc_value type p csc;
        if ok then ga_lib_bap_parse_csc p (data_len - (uint len + 1)) csc
        else Some (WICED_ERROR, csc) }
      else Some (if data_len \<noteq> 0 then WICED_ERROR else WICED_SUCCESS, csc))"
  by pat_completeness auto
termination
proof (relation "measure (\<lambda>(p, data_len, csc). nat data_len)", goal_cases)
  case 1
  then show ?case by simp
next
  case (2 p data_len csc x len p1 y type p2 z ok w p3 csc')
  then show ?case by simp
qed

declare ga_lib_bap_parse_csc.simps [simp del]

text \<open>
  \<open>ga_lib_bap_update_ltv\<close> returns the octets it writes, none when they do not fit. It
  reads \<open>val_length\<close> octets at \<open>value\<close>, an object of \<open>length value\<close> octets.
\<close>

definition ga_lib_bap_update_ltv :: "int \<Rightarrow> u8 \<Rightarrow> u8 \<Rightarrow> u8 list \<Rightarrow> u8 list option" where
  "ga_lib_bap_update_ltv max_len val_length type value =
     (if max_len < 2 + uint val_length then Some []
      else do { v \<leftarrow> octets (unat val_length) value; Some ((val_length + 1) # type # v) })"

text \<open>
  An optional LTV appended to the octets written so far; \<open>max_len - (p_dst - p_dst_cache)\<close>
  is what is left of the buffer.
\<close>

definition put_ltv :: "bool \<Rightarrow> int \<Rightarrow> u8 \<Rightarrow> u8 \<Rightarrow> u8 list \<Rightarrow> u8 list \<Rightarrow> u8 list option" where
  "put_ltv present max_len val_length type value out =
     (if present then do {
        bytes \<leftarrow> ga_lib_bap_update_ltv (max_len - int (length out)) val_length type value;
        Some (out @ bytes) }
      else Some out)"

text \<open>
  The writer of a whole configuration: the length octet, then an LTV for each field that
  is not 0. The length octet is written last, truncated to 8 bits.
\<close>

definition ga_lib_bap_fill_csc :: "int \<Rightarrow> ga_lib_ascs_csc \<Rightarrow> u8 list option" where
  "ga_lib_bap_fill_csc max_len csc = do {
     let out = [0];
     out \<leftarrow> put_ltv (sampling_frequency_hz csc \<noteq> 0) max_len 1 1
              [ga_lib_bap_get_sampling_freq_index (sampling_frequency_hz csc)] out;
     out \<leftarrow> put_ltv (frame_duration_us csc \<noteq> 0) max_len 1 2
              [ga_lib_bap_get_frame_duration_index (frame_duration_us csc)] out;
     out \<leftarrow> put_ltv (audio_channel_allocation csc \<noteq> 0) max_len 4 3
              (b32 (audio_channel_allocation csc)) out;
     out \<leftarrow> put_ltv (octets_per_codec_frame csc \<noteq> 0) max_len 2 4
              (b16 (octets_per_codec_frame csc)) out;
     out \<leftarrow> put_ltv (lc3_blocks_per_sdu csc \<noteq> 0) max_len 1 5 [lc3_blocks_per_sdu csc] out;
     Some (out[0 := of_nat (length out - 1)]) }"

section \<open>Metadata\<close>

abbreviation (input) BAP_METADATA_TYPE_PREFERRED_AUDIO_CONTEXTS :: u8 where
  "BAP_METADATA_TYPE_PREFERRED_AUDIO_CONTEXTS \<equiv> 1"
abbreviation (input) BAP_METADATA_TYPE_STREAMING_AUDIO_CONTEXTS :: u8 where
  "BAP_METADATA_TYPE_STREAMING_AUDIO_CONTEXTS \<equiv> 2"
abbreviation (input) BAP_METADATA_TYPE_PROGRAM_INFO :: u8 where "BAP_METADATA_TYPE_PROGRAM_INFO \<equiv> 3"
abbreviation (input) BAP_METADATA_TYPE_CCID_LIST :: u8 where "BAP_METADATA_TYPE_CCID_LIST \<equiv> 5"
abbreviation (input) BAP_METADATA_TYPE_VENDOR_SPECIFIC :: u8 where
  "BAP_METADATA_TYPE_VENDOR_SPECIFIC \<equiv> 0xFF"

definition INVALID_CONTEXT_TYPE_MASK :: u16 where
  "INVALID_CONTEXT_TYPE_MASK = 0xF000"

definition reject_metadata :: "bool \<Rightarrow> u8 \<Rightarrow> ga_lib_ascs_cp_cmd_sts \<Rightarrow> ga_lib_ascs_cp_cmd_sts" where
  "reject_metadata bad why sts =
     (if bad then sts\<lparr>response_code := CP_RESPONSE_REJECTED_METADATA, reason := why\<rparr> else sts)"

text \<open>
  The \<open>switch\<close> of \<open>ga_lib_bap_get_metadata\<close>. A CCID list is stepped over by
  \<open>ltv_length\<close> octets, one more than its value has; an unsupported type is not stepped over.
\<close>

definition metadata_value ::
  "u8 \<Rightarrow> u8 \<Rightarrow> cursor \<Rightarrow> ga_lib_ascs_metadata \<Rightarrow> ga_lib_ascs_cp_cmd_sts
    \<Rightarrow> (cursor \<times> ga_lib_ascs_metadata \<times> ga_lib_ascs_cp_cmd_sts) option" where
  "metadata_value ltv_length type p md sts =
     (if type = BAP_METADATA_TYPE_PREFERRED_AUDIO_CONTEXTS then do {
        (v, p) \<leftarrow> rd16 p;
        Some (p, md\<lparr>preferred_audio_ctx := v\<rparr>,
              reject_metadata (INVALID_CONTEXT_TYPE_MASK AND v \<noteq> 0) type sts) }
      else if type = BAP_METADATA_TYPE_STREAMING_AUDIO_CONTEXTS then do {
        (v, p) \<leftarrow> rd16 p;
        Some (p, md\<lparr>streaming_audio_ctx := v\<rparr>,
              reject_metadata (INVALID_CONTEXT_TYPE_MASK AND v \<noteq> 0) type sts) }
      else if type = BAP_METADATA_TYPE_CCID_LIST then
        Some (skip (unat ltv_length) p, md, sts)
      else Some (p, md, reject_metadata True type sts))"

function get_metadata_loop ::
  "cursor \<Rightarrow> int \<Rightarrow> ga_lib_ascs_metadata \<Rightarrow> ga_lib_ascs_cp_cmd_sts
    \<Rightarrow> (cursor \<times> ga_lib_ascs_metadata \<times> ga_lib_ascs_cp_cmd_sts) option" where
  "get_metadata_loop p stream_len md sts =
     (if stream_len \<noteq> 0 \<and> response_code sts = CP_RESPONSE_SUCCESS then do {
        (ltv_length, p) \<leftarrow> rd8 p;
        (type, p) \<leftarrow> rd8 p;
        if uint ltv_length > stream_len then Some (p, md, sts)
        else do {
          (p, md, sts) \<leftarrow> metadata_value ltv_length type p md sts;
          get_metadata_loop p (stream_len - (uint ltv_length + 1)) md sts } }
      else Some (p, md, sts))"
  by pat_completeness auto
termination
proof (relation "measure (\<lambda>(p, stream_len, md, sts). nat (stream_len + 1))", goal_cases)
  case 1
  then show ?case by simp
next
  case (2 p stream_len md sts x l p1 y t p2 z p3 w md' sts')
  then show ?case by (auto dest: not_less_uint_nonneg)
qed

declare get_metadata_loop.simps [simp del]

text \<open>The number of octets consumed, and the metadata and status it leaves.\<close>

definition ga_lib_bap_get_metadata ::
  "u8 list \<Rightarrow> int \<Rightarrow> ga_lib_ascs_metadata \<Rightarrow> ga_lib_ascs_cp_cmd_sts
    \<Rightarrow> (nat \<times> ga_lib_ascs_metadata \<times> ga_lib_ascs_cp_cmd_sts) option" where
  "ga_lib_bap_get_metadata buf stream_len md sts = do {
     (p, md, sts) \<leftarrow> get_metadata_loop (start buf) stream_len md
                       (sts\<lparr>response_code := CP_RESPONSE_SUCCESS\<rparr>);
     Some (used p, md, sts) }"

text \<open>
  The metadata writer. Its length octet is a running 8-bit sum. Upper layer data is copied
  as it is, without an LTV header.
\<close>

definition ga_lib_bap_fill_metadata :: "int \<Rightarrow> ga_lib_ascs_metadata \<Rightarrow> u8 list option" where
  "ga_lib_bap_fill_metadata max_len md = do {
     let out = [0];
     out \<leftarrow> put_ltv (preferred_audio_ctx md \<noteq> 0) max_len 2
              BAP_METADATA_TYPE_PREFERRED_AUDIO_CONTEXTS (b16 (preferred_audio_ctx md)) out;
     out \<leftarrow> put_ltv (streaming_audio_ctx md \<noteq> 0) max_len 2
              BAP_METADATA_TYPE_STREAMING_AUDIO_CONTEXTS (b16 (streaming_audio_ctx md)) out;
     out \<leftarrow> (case p_program_info md of
               None \<Rightarrow> Some out
             | Some info \<Rightarrow> put_ltv True max_len (program_info_len md)
                              BAP_METADATA_TYPE_PROGRAM_INFO info out);
     out \<leftarrow> (case p_upper_layer_data md of
               None \<Rightarrow> Some out
             | Some ul \<Rightarrow>
                 if max_len - int (length out) \<ge> uint (upper_layer_data_length md)
                 then do { u \<leftarrow> octets (unat (upper_layer_data_length md)) ul; Some (out @ u) }
                 else Some out);
     Some (out[0 := of_nat (length out - 1)]) }"

section \<open>The ASE state transition table\<close>

definition state_transition_table :: "ga_lib_ascs_state list list" where
  "state_transition_table =
  [[STATE_MAX, STATE_CODEC_CONFIGURED, STATE_MAX, STATE_MAX, STATE_MAX, STATE_MAX, STATE_MAX,
    STATE_MAX, STATE_MAX, STATE_MAX],
   [STATE_MAX, STATE_CODEC_CONFIGURED, STATE_QOS_CONFIGURED, STATE_MAX, STATE_MAX, STATE_MAX,
    STATE_MAX, STATE_MAX, STATE_RELEASING, STATE_MAX],
   [STATE_MAX, STATE_CODEC_CONFIGURED, STATE_QOS_CONFIGURED, STATE_ENABLING, STATE_MAX, STATE_MAX,
    STATE_MAX, STATE_MAX, STATE_RELEASING, STATE_MAX],
   [STATE_MAX, STATE_MAX, STATE_MAX, STATE_MAX, STATE_STREAMING, STATE_DISABLING, STATE_MAX,
    STATE_ENABLING, STATE_RELEASING, STATE_MAX],
   [STATE_MAX, STATE_MAX, STATE_MAX, STATE_MAX, STATE_MAX, STATE_DISABLING, STATE_MAX,
    STATE_STREAMING, STATE_RELEASING, STATE_MAX],
   [STATE_MAX, STATE_MAX, STATE_MAX, STATE_MAX, STATE_MAX, STATE_MAX, STATE_QOS_CONFIGURED,
    STATE_MAX, STATE_RELEASING, STATE_MAX],
   [STATE_MAX, STATE_MAX, STATE_MAX, STATE_MAX, STATE_MAX, STATE_MAX, STATE_MAX, STATE_MAX,
    STATE_RELEASING, STATE_MAX]]"

text \<open>
  \<open>Some None\<close> is the return value \<open>FALSE\<close>, \<open>Some (Some s)\<close> is \<open>TRUE\<close> with
  \<open>*next_state = s\<close>. A state past the table is an index out of bounds.
\<close>

definition ga_lib_bap_is_state_transition_valid ::
  "u8 \<Rightarrow> ga_lib_ascs_state \<Rightarrow> u8 \<Rightarrow> ga_lib_ascs_state option option" where
  "ga_lib_bap_is_state_transition_valid char_type ase_state' opcode =
     (if opcode = 0 \<or> opcode \<ge> OPCODE_MAX then Some None
      else do {
        row \<leftarrow> arr_get state_transition_table (unat (state_val ase_state'));
        nxt \<leftarrow> arr_get row (unat opcode);
        if nxt = STATE_MAX then Some None
        else if opcode = OPCODE_DISABLE \<and> char_type = ASCS_CHARACTERISTIC_SNK_ASE
        then Some (Some STATE_QOS_CONFIGURED)
        else Some (Some nxt) })"

section \<open>Sampling frequencies: the two code tables are inverse\<close>

lemma samp_freq_index_distinct: "distinct samp_freq_index"
  by (simp add: samp_freq_index_def)

lemma length_samp_freq_index [simp]: "length samp_freq_index = 13"
  by (simp add: samp_freq_index_def)

lemma sampling_freq_index_nth:
  "i < 13 \<Longrightarrow> ga_lib_bap_get_sampling_freq_index (samp_freq_index ! i) = of_nat (i + 1)"
  unfolding ga_lib_bap_get_sampling_freq_index_def
  by (subst find_index_eqI [of i])
    (auto simp: nth_eq_iff_index_eq samp_freq_index_distinct)

lemma sampling_freq_from_index_of_nat:
  "i < 13 \<Longrightarrow> ga_lib_bap_get_sampling_freq_from_index (of_nat (i + 1)) = samp_freq_index ! i"
  by (simp add: ga_lib_bap_get_sampling_freq_from_index_def unat_word_ariths unat_of_nat
      word_le_nat_alt)

lemma sampling_freq_index_inverse:
  "v \<in> set samp_freq_index \<Longrightarrow>
     ga_lib_bap_get_sampling_freq_from_index (ga_lib_bap_get_sampling_freq_index v) = v"
  using sampling_freq_index_nth sampling_freq_from_index_of_nat
  by (fastforce simp only: in_set_conv_nth length_samp_freq_index)

lemma samp_freq_index_nonzero: "v \<in> set samp_freq_index \<Longrightarrow> v \<noteq> 0"
  by (auto simp: samp_freq_index_def)

lemma sampling_freq_index_zero_iff:
  "ga_lib_bap_get_sampling_freq_index v = 0 \<longleftrightarrow> v \<notin> set samp_freq_index"
proof
  assume z: "ga_lib_bap_get_sampling_freq_index v = 0"
  show "v \<notin> set samp_freq_index"
  proof
    assume v: "v \<in> set samp_freq_index"
    from sampling_freq_index_inverse [OF v] z samp_freq_index_nonzero [OF v]
    show False by (simp add: ga_lib_bap_get_sampling_freq_from_index_def)
  qed
next
  assume "v \<notin> set samp_freq_index"
  then have "find_index (\<lambda>f. f = v) samp_freq_index = None"
    by (auto simp: find_index_None)
  then show "ga_lib_bap_get_sampling_freq_index v = 0"
    by (simp add: ga_lib_bap_get_sampling_freq_index_def)
qed

lemma sampling_freq_from_index_range:
  "ga_lib_bap_get_sampling_freq_from_index i = 0 \<or>
     ga_lib_bap_get_sampling_freq_from_index i \<in> set samp_freq_index"
  by (auto simp: ga_lib_bap_get_sampling_freq_from_index_def unat_gt_0 intro!: nth_mem)

lemma frame_duration_index_inverse:
  "d = 7500 \<or> d = 10000 \<Longrightarrow>
     ga_lib_bap_get_frame_duration_from_index (ga_lib_bap_get_frame_duration_index d) = d"
  by (auto simp: ga_lib_bap_get_frame_duration_from_index_def
      ga_lib_bap_get_frame_duration_index_def)

lemma frame_duration_from_index_range:
  "ga_lib_bap_get_frame_duration_from_index i \<in> {0, 7500, 10000}"
  by (simp add: ga_lib_bap_get_frame_duration_from_index_def)

section \<open>LTV segments\<close>

text \<open>
  The octets \<open>put_ltv\<close> appends when the buffer is large enough. Writer lemmas reduce the
  fill functions to concatenations of these, and reader lemmas consume them one by one.
\<close>

definition ltv_seg :: "bool \<Rightarrow> u8 \<Rightarrow> u8 list \<Rightarrow> u8 list" where
  "ltv_seg present type value =
     (if present then (of_nat (length value) + 1) # type # value else [])"

lemma length_ltv_seg: "length (ltv_seg present t v) = (if present then 2 + length v else 0)"
  by (simp add: ltv_seg_def)

lemma put_ltv_room:
  assumes "unat n = length v" "int (length out) + 2 + int (length v) \<le> max_len"
  shows "put_ltv present max_len n t v out = Some (out @ ltv_seg present t v)"
proof -
  have "uint n = int (length v)" using assms(1) by (metis uint_nat)
  moreover have "n = of_nat (length v)" using assms(1) [symmetric] by simp
  ultimately show ?thesis
    using assms by (simp add: put_ltv_def ltv_seg_def ga_lib_bap_update_ltv_def)
qed

lemma update_ltv_cases:
  assumes "ga_lib_bap_update_ltv max_len n t v = Some bytes"
  shows "bytes = [] \<or> int (length bytes) = 2 + uint n \<and> 2 + uint n \<le> max_len"
proof (cases "max_len < 2 + uint n")
  case True
  with assms show ?thesis by (simp add: ga_lib_bap_update_ltv_def)
next
  case False
  then obtain w where "octets (unat n) v = Some w" "bytes = (n + 1) # t # w"
    using assms by (auto simp: ga_lib_bap_update_ltv_def bind_eq_Some_conv)
  with False show ?thesis by (auto dest!: octets_length_SomeD)
qed

lemma put_ltv_length:
  assumes "put_ltv present max_len n t v out = Some out'" "int (length out) \<le> max_len"
  shows "int (length out') \<le> max_len \<and> length out \<le> length out'"
proof (cases present)
  case True
  then obtain bytes where b: "out' = out @ bytes"
      "ga_lib_bap_update_ltv (max_len - int (length out)) n t v = Some bytes"
    using assms(1) by (auto simp: put_ltv_def bind_eq_Some_conv)
  from update_ltv_cases [OF b(2)] show ?thesis using b(1) assms(2) by auto
next
  case False
  with assms show ?thesis by (simp add: put_ltv_def)
qed

lemma put_ltv_nonempty: "put_ltv p m n t v out = Some out' \<Longrightarrow> out \<noteq> [] \<Longrightarrow> out' \<noteq> []"
  by (auto simp: put_ltv_def bind_eq_Some_conv split: if_splits)

text \<open>Fields an encoder can express: the two tables have no code for other values.\<close>

definition csc_encodable :: "ga_lib_ascs_csc \<Rightarrow> bool" where
  "csc_encodable csc \<longleftrightarrow>
     (sampling_frequency_hz csc = 0 \<or> sampling_frequency_hz csc \<in> set samp_freq_index) \<and>
     frame_duration_us csc \<in> {0, 7500, 10000}"

definition csc_body :: "ga_lib_ascs_csc \<Rightarrow> u8 list" where
  "csc_body csc =
     ltv_seg (sampling_frequency_hz csc \<noteq> 0) 1
       [ga_lib_bap_get_sampling_freq_index (sampling_frequency_hz csc)] @
     ltv_seg (frame_duration_us csc \<noteq> 0) 2
       [ga_lib_bap_get_frame_duration_index (frame_duration_us csc)] @
     ltv_seg (audio_channel_allocation csc \<noteq> 0) 3 (b32 (audio_channel_allocation csc)) @
     ltv_seg (octets_per_codec_frame csc \<noteq> 0) 4 (b16 (octets_per_codec_frame csc)) @
     ltv_seg (lc3_blocks_per_sdu csc \<noteq> 0) 5 [lc3_blocks_per_sdu csc]"

lemma length_csc_body: "length (csc_body csc) \<le> 19"
  by (simp add: csc_body_def length_ltv_seg)

lemma fill_csc_room:
  "20 \<le> max_len \<Longrightarrow>
     ga_lib_bap_fill_csc max_len csc = Some (of_nat (length (csc_body csc)) # csc_body csc)"
  by (simp add: ga_lib_bap_fill_csc_def csc_body_def put_ltv_room length_ltv_seg)

lemma parse_csc_step:
  assumes "0 < data_len"
  shows "ga_lib_bap_parse_csc (len # type # xs, n) data_len csc = do {
     (ok, p, csc) \<leftarrow> parse_csc_value type (xs, n + 2) csc;
     if ok then ga_lib_bap_parse_csc p (data_len - (uint len + 1)) csc
     else Some (WICED_ERROR, csc) }"
  using assms by (subst ga_lib_bap_parse_csc.simps) simp

lemma parse_csc_end: "ga_lib_bap_parse_csc p 0 csc = Some (WICED_SUCCESS, csc)"
  by (subst ga_lib_bap_parse_csc.simps) simp

text \<open>One segment of the writer is one turn of the reader's loop.\<close>

lemma parse_csc_seg:
  assumes v: "present \<Longrightarrow> length v < 250 \<and> 0 \<le> m \<and>
      (\<forall>xs k. parse_csc_value t (v @ xs, k) csc = Some (True, (xs, k + length v), csc'))"
    and a: "\<not> present \<Longrightarrow> csc' = csc"
  shows "ga_lib_bap_parse_csc (ltv_seg present t v @ rest, n) (int (length (ltv_seg present t v)) + m) csc
       = ga_lib_bap_parse_csc (rest, n + length (ltv_seg present t v)) m csc'"
proof (cases present)
  case True
  have u: "uint (of_nat (length v) + 1 :: u8) = int (length v) + 1"
    using v True by (simp add: uint_nat unat_word_ariths unat_of_nat)
  have g: "0 < int (2 + length v) + m" using v True by simp
  have "ga_lib_bap_parse_csc (ltv_seg present t v @ rest, n)
          (int (length (ltv_seg present t v)) + m) csc
      = ga_lib_bap_parse_csc ((of_nat (length v) + 1) # t # v @ rest, n) (int (2 + length v) + m) csc"
    using True by (simp add: ltv_seg_def)
  also have "\<dots> = ga_lib_bap_parse_csc (rest, n + 2 + length v) m csc'"
    using v True by (subst parse_csc_step [OF g]) (simp add: u)
  also have "n + 2 + length v = n + length (ltv_seg present t v)"
    using True by (simp add: length_ltv_seg)
  finally show ?thesis .
next
  case False
  then show ?thesis using a by (simp add: ltv_seg_def)
qed

lemma parse_csc_body:
  assumes "csc_encodable csc"
  shows "ga_lib_bap_parse_csc (csc_body csc @ rest, n) (int (length (csc_body csc))) zero_csc
       = Some (WICED_SUCCESS, csc)"
proof -
  let ?s1 = "zero_csc\<lparr>sampling_frequency_hz := sampling_frequency_hz csc\<rparr>"
  let ?s2 = "?s1\<lparr>frame_duration_us := frame_duration_us csc\<rparr>"
  let ?s3 = "?s2\<lparr>audio_channel_allocation := audio_channel_allocation csc\<rparr>"
  let ?s4 = "?s3\<lparr>octets_per_codec_frame := octets_per_codec_frame csc\<rparr>"
  let ?s5 = "?s4\<lparr>lc3_blocks_per_sdu := lc3_blocks_per_sdu csc\<rparr>"
  have f: "ga_lib_bap_get_sampling_freq_from_index
             (ga_lib_bap_get_sampling_freq_index (sampling_frequency_hz csc)) = sampling_frequency_hz csc"
    if "sampling_frequency_hz csc \<noteq> 0"
    using assms that by (auto simp: csc_encodable_def sampling_freq_index_inverse)
  have d: "ga_lib_bap_get_frame_duration_from_index
             (ga_lib_bap_get_frame_duration_index (frame_duration_us csc)) = frame_duration_us csc"
    if "frame_duration_us csc \<noteq> 0"
    using assms that by (auto simp: csc_encodable_def frame_duration_index_inverse)
  note seg1 = parse_csc_seg [where csc = zero_csc and csc' = ?s1]
  note seg2 = parse_csc_seg [where csc = ?s1 and csc' = ?s2]
  note seg3 = parse_csc_seg [where csc = ?s2 and csc' = ?s3]
  note seg4 = parse_csc_seg [where csc = ?s3 and csc' = ?s4]
  note seg5 = parse_csc_seg [where csc = ?s4 and csc' = ?s5 and m = 0, simplified]
  show ?thesis
    unfolding csc_body_def append_assoc length_append of_nat_add
    apply (subst seg1, simp add: parse_csc_value_def f, simp add: zero_csc_def)
    apply (subst seg2, simp add: parse_csc_value_def d, simp add: zero_csc_def)
    apply (subst seg3, simp add: parse_csc_value_def rd_simps, simp add: zero_csc_def)
    apply (subst seg4, simp add: parse_csc_value_def rd_simps, simp add: zero_csc_def)
    apply (subst seg5, simp add: parse_csc_value_def, simp add: zero_csc_def)
    by (simp add: parse_csc_end)
qed

section \<open>The transition table against the state machine\<close>

text \<open>
  The ASE state machine, one rule per kind of transition. A sink ASE has no disabling
  state: Disable takes it straight back to QoS Configured.
\<close>

inductive ase_transition :: "u8 \<Rightarrow> ga_lib_ascs_state \<Rightarrow> u8 \<Rightarrow> ga_lib_ascs_state \<Rightarrow> bool" where
  config_codec: "s \<in> {STATE_IDLE, STATE_CODEC_CONFIGURED, STATE_QOS_CONFIGURED} \<Longrightarrow>
     ase_transition ct s OPCODE_CONFIG_CODEC STATE_CODEC_CONFIGURED"
| config_qos: "s \<in> {STATE_CODEC_CONFIGURED, STATE_QOS_CONFIGURED} \<Longrightarrow>
     ase_transition ct s OPCODE_CONFIG_QOS STATE_QOS_CONFIGURED"
| enable: "ase_transition ct STATE_QOS_CONFIGURED OPCODE_ENABLE STATE_ENABLING"
| start_ready: "ase_transition ct STATE_ENABLING OPCODE_RECEIVER_START_READY STATE_STREAMING"
| disable_sink: "s \<in> {STATE_ENABLING, STATE_STREAMING} \<Longrightarrow>
     ase_transition ASCS_CHARACTERISTIC_SNK_ASE s OPCODE_DISABLE STATE_QOS_CONFIGURED"
| disable_source: "s \<in> {STATE_ENABLING, STATE_STREAMING} \<Longrightarrow> ct \<noteq> ASCS_CHARACTERISTIC_SNK_ASE \<Longrightarrow>
     ase_transition ct s OPCODE_DISABLE STATE_DISABLING"
| stop_ready: "ase_transition ct STATE_DISABLING OPCODE_RECEIVER_STOP_READY STATE_QOS_CONFIGURED"
| update_metadata: "s \<in> {STATE_ENABLING, STATE_STREAMING} \<Longrightarrow>
     ase_transition ct s OPCODE_UPDATE_METADATA s"
| release: "s \<noteq> STATE_IDLE \<Longrightarrow> s \<noteq> STATE_MAX \<Longrightarrow>
     ase_transition ct s OPCODE_RELEASE STATE_RELEASING"

inductive_simps ase_transition_simps: "ase_transition ct s opcode t"

lemma opcode_cases:
  fixes x :: u8
  assumes "x < OPCODE_MAX"
  shows "x = 0 \<or> x = 1 \<or> x = 2 \<or> x = 3 \<or> x = 4 \<or> x = 5 \<or> x = 6 \<or> x = 7 \<or> x = 8 \<or> x = 9"
proof -
  have "unat x < 10" using assms by (simp add: word_less_nat_alt)
  then have "unat x \<in> {0, 1, 2, 3, 4, 5, 6, 7, 8, 9}" by auto
  then have "x \<in> of_nat ` {0, 1, 2, 3, 4, 5, 6, 7, 8, 9}"
    by (metis imageI of_nat_unat ucast_id)
  then show ?thesis by simp
qed

text \<open>The column of the table for one opcode.\<close>

lemma transition_column:
  assumes "s \<noteq> STATE_MAX"
  shows "ga_lib_bap_is_state_transition_valid ct s 1 =
      Some (if s \<in> {STATE_IDLE, STATE_CODEC_CONFIGURED, STATE_QOS_CONFIGURED}
            then Some STATE_CODEC_CONFIGURED else None)"
    "ga_lib_bap_is_state_transition_valid ct s 2 =
      Some (if s \<in> {STATE_CODEC_CONFIGURED, STATE_QOS_CONFIGURED}
            then Some STATE_QOS_CONFIGURED else None)"
    "ga_lib_bap_is_state_transition_valid ct s 3 =
      Some (if s = STATE_QOS_CONFIGURED then Some STATE_ENABLING else None)"
    "ga_lib_bap_is_state_transition_valid ct s 4 =
      Some (if s = STATE_ENABLING then Some STATE_STREAMING else None)"
    "ga_lib_bap_is_state_transition_valid ct s 5 =
      Some (if s \<in> {STATE_ENABLING, STATE_STREAMING}
            then Some (if ct = ASCS_CHARACTERISTIC_SNK_ASE then STATE_QOS_CONFIGURED else STATE_DISABLING)
            else None)"
    "ga_lib_bap_is_state_transition_valid ct s 6 =
      Some (if s = STATE_DISABLING then Some STATE_QOS_CONFIGURED else None)"
    "ga_lib_bap_is_state_transition_valid ct s 7 =
      Some (if s \<in> {STATE_ENABLING, STATE_STREAMING} then Some s else None)"
    "ga_lib_bap_is_state_transition_valid ct s 8 =
      Some (if s = STATE_IDLE then None else Some STATE_RELEASING)"
    "ga_lib_bap_is_state_transition_valid ct s 9 = Some None"
  using assms
  by (cases s; simp add: ga_lib_bap_is_state_transition_valid_def state_transition_table_def
      arr_get_def word_le_nat_alt)+

lemma transition_not_opcode:
  "x = 0 \<or> OPCODE_MAX \<le> x \<Longrightarrow> ga_lib_bap_is_state_transition_valid ct s x = Some None"
  by (simp add: ga_lib_bap_is_state_transition_valid_def)

lemma transition_not_opcode_spec: "ase_transition ct s x t \<Longrightarrow> x \<noteq> 0 \<and> x < OPCODE_MAX"
  by (auto simp: ase_transition_simps word_less_nat_alt)

lemma transition_valid_iff:
  assumes "s \<noteq> STATE_MAX"
  shows "ga_lib_bap_is_state_transition_valid ct s x = Some (Some t) \<longleftrightarrow> ase_transition ct s x t"
proof (cases "x = 0 \<or> OPCODE_MAX \<le> x")
  case True
  then show ?thesis using transition_not_opcode [of x ct s] transition_not_opcode_spec [of ct s x t]
    by auto
next
  case False
  then have x: "x < OPCODE_MAX" "x \<noteq> 0" by auto
  have "x = 1 \<or> x = 2 \<or> x = 3 \<or> x = 4 \<or> x = 5 \<or> x = 6 \<or> x = 7 \<or> x = 8 \<or> x = 9"
    using opcode_cases [OF x(1)] x(2) by blast
  then show ?thesis
    by (elim disjE) (use assms in \<open>auto simp: transition_column [OF assms] ase_transition_simps\<close>)
qed

lemma transition_valid_total:
  assumes "s \<noteq> STATE_MAX"
  shows "\<exists>r. ga_lib_bap_is_state_transition_valid ct s x = Some r"
proof (cases "x = 0 \<or> OPCODE_MAX \<le> x")
  case True
  then show ?thesis using transition_not_opcode by blast
next
  case False
  then have "x < OPCODE_MAX" by auto
  from opcode_cases [OF this] False show ?thesis
    by (elim disjE) (simp_all add: transition_column [OF assms])
qed

text \<open>The states an ASE reaches from Idle through accepted operations.\<close>

inductive ase_reachable :: "u8 \<Rightarrow> ga_lib_ascs_state \<Rightarrow> bool" where
  idle: "ase_reachable ct STATE_IDLE"
| accept: "ase_reachable ct s \<Longrightarrow>
     ga_lib_bap_is_state_transition_valid ct s x = Some (Some t) \<Longrightarrow> ase_reachable ct t"

lemma ase_transition_not_max: "ase_transition ct s x t \<Longrightarrow> s \<noteq> STATE_MAX \<Longrightarrow> t \<noteq> STATE_MAX"
  by (auto simp: ase_transition_simps)

lemma ase_transition_sink: "ase_transition ASCS_CHARACTERISTIC_SNK_ASE s x t \<Longrightarrow> s \<noteq> STATE_DISABLING \<Longrightarrow>
    t \<noteq> STATE_DISABLING"
  by (auto simp: ase_transition_simps)

lemma ase_reachable_inv:
  "ase_reachable ct s \<Longrightarrow> s \<noteq> STATE_MAX \<and> (ct = ASCS_CHARACTERISTIC_SNK_ASE \<longrightarrow> s \<noteq> STATE_DISABLING)"
proof (induction rule: ase_reachable.induct)
  case (idle ct)
  show ?case by simp
next
  case (accept ct s x t)
  then have "ase_transition ct s x t" by (simp add: transition_valid_iff)
  with accept.IH show ?case by (blast dest: ase_transition_not_max ase_transition_sink)
qed

section \<open>Bounds of the writers, validity of the readers\<close>

lemma put_ltv_SomeI:
  assumes "unat n = length v"
  shows "\<exists>out'. put_ltv present m n t v out = Some out'"
  using assms by (simp add: put_ltv_def ga_lib_bap_update_ltv_def octets_def)

lemma bounded_bind:
  assumes "\<exists>out'. r = Some out' \<and> P out'" "\<And>out'. P out' \<Longrightarrow> \<exists>z. k out' = Some z \<and> Q z"
  shows "\<exists>z. r \<bind> k = Some z \<and> Q z"
  using assms by auto

lemma put_ltv_bounded:
  assumes "unat n = length v" "out \<noteq> [] \<and> int (length out) \<le> m"
  shows "\<exists>out'. put_ltv present m n t v out = Some out' \<and> out' \<noteq> [] \<and> int (length out') \<le> m"
  using put_ltv_SomeI [OF assms(1), of present m t out] assms(2)
    put_ltv_length [of present m n t v out] put_ltv_nonempty [of present m n t v out]
  by blast

lemma fill_csc_bounded:
  assumes "1 \<le> max_len"
  shows "\<exists>bytes. ga_lib_bap_fill_csc max_len csc = Some bytes \<and>
     int (length bytes) \<le> max_len \<and> bytes \<noteq> [] \<and> hd bytes = of_nat (length bytes - 1)"
  unfolding ga_lib_bap_fill_csc_def Let_def
  by (intro bounded_bind [OF put_ltv_bounded]) (use assms in \<open>auto simp: hd_conv_nth\<close>)

lemma parse_csc_value_encodable:
  assumes "parse_csc_value t p csc = Some (ok, p', csc')" "csc_encodable csc"
  shows "csc_encodable csc'"
proof -
  have f: "ga_lib_bap_get_sampling_freq_from_index v \<notin> set samp_freq_index \<Longrightarrow>
      ga_lib_bap_get_sampling_freq_from_index v = 0" for v
    using sampling_freq_from_index_range by blast
  have d: "ga_lib_bap_get_frame_duration_from_index v \<noteq> 0 \<Longrightarrow>
      ga_lib_bap_get_frame_duration_from_index v \<noteq> 10000 \<Longrightarrow>
      ga_lib_bap_get_frame_duration_from_index v = 7500" for v
    using frame_duration_from_index_range [of v] by blast
  show ?thesis
    using assms
    by (auto simp: parse_csc_value_def csc_encodable_def bind_eq_Some_conv Let_def dest: f d
        split: if_splits)
qed

lemma parse_csc_encodable:
  "ga_lib_bap_parse_csc p n csc = Some (r, csc') \<Longrightarrow> csc_encodable csc \<Longrightarrow> csc_encodable csc'"
proof (induction p n csc arbitrary: r csc' rule: ga_lib_bap_parse_csc.induct)
  case (1 p n csc)
  show ?case
  proof (cases "0 < n")
    case True
    then obtain len p1 type p2 ok p3 csc3 where b:
      "rd8 p = Some (len, p1)" "rd8 p1 = Some (type, p2)"
      "parse_csc_value type p2 csc = Some (ok, p3, csc3)"
      "(if ok then ga_lib_bap_parse_csc p3 (n - (uint len + 1)) csc3
        else Some (WICED_ERROR, csc3)) = Some (r, csc')"
      using "1.prems"(1) by (subst (asm) ga_lib_bap_parse_csc.simps) (auto simp: bind_eq_Some_conv)
    have e: "csc_encodable csc3" using b(3) "1.prems"(2) by (rule parse_csc_value_encodable)
    show ?thesis
      using b e "1.IH" [OF True b(1) refl b(2) refl b(3) refl refl] by (auto split: if_splits)
  next
    case False
    with "1.prems" show ?thesis by (subst (asm) ga_lib_bap_parse_csc.simps) auto
  qed
qed

section \<open>Metadata: reading back what was written\<close>

definition metadata_contexts :: "u16 \<Rightarrow> u16 \<Rightarrow> ga_lib_ascs_metadata" where
  "metadata_contexts pref strm =
     zero_metadata\<lparr>preferred_audio_ctx := pref, streaming_audio_ctx := strm\<rparr>"

definition metadata_body :: "u16 \<Rightarrow> u16 \<Rightarrow> u8 list" where
  "metadata_body pref strm =
     ltv_seg (pref \<noteq> 0) BAP_METADATA_TYPE_PREFERRED_AUDIO_CONTEXTS (b16 pref) @
     ltv_seg (strm \<noteq> 0) BAP_METADATA_TYPE_STREAMING_AUDIO_CONTEXTS (b16 strm)"

lemma length_metadata_body: "length (metadata_body pref strm) \<le> 8"
  by (simp add: metadata_body_def length_ltv_seg)

lemma fill_metadata_contexts:
  "9 \<le> max_len \<Longrightarrow>
     ga_lib_bap_fill_metadata max_len (metadata_contexts pref strm) =
       Some (of_nat (length (metadata_body pref strm)) # metadata_body pref strm)"
  by (simp add: ga_lib_bap_fill_metadata_def metadata_body_def metadata_contexts_def zero_metadata_def
      put_ltv_room length_ltv_seg)

lemma get_metadata_loop_step:
  assumes "stream_len \<noteq> 0" "response_code sts = CP_RESPONSE_SUCCESS"
  shows "get_metadata_loop (l # type # xs, n) stream_len md sts =
     (if uint l > stream_len then Some ((xs, n + 2), md, sts)
      else do {
        (p, md, sts) \<leftarrow> metadata_value l type (xs, n + 2) md sts;
        get_metadata_loop p (stream_len - (uint l + 1)) md sts })"
  using assms by (subst get_metadata_loop.simps) simp

lemma get_metadata_loop_end:
  "stream_len = 0 \<or> response_code sts \<noteq> CP_RESPONSE_SUCCESS \<Longrightarrow>
     get_metadata_loop p stream_len md sts = Some (p, md, sts)"
  by (subst get_metadata_loop.simps) auto

lemma get_metadata_body:
  assumes "INVALID_CONTEXT_TYPE_MASK AND pref = 0" "INVALID_CONTEXT_TYPE_MASK AND strm = 0"
    and "response_code sts = CP_RESPONSE_SUCCESS"
  shows "get_metadata_loop (metadata_body pref strm @ rest, n) (int (length (metadata_body pref strm)))
           zero_metadata sts =
         Some ((rest, n + length (metadata_body pref strm)), metadata_contexts pref strm, sts)"
  using assms
  by (cases "pref = 0"; cases "strm = 0")
    (simp_all add: metadata_body_def ltv_seg_def b16_def get_metadata_loop_step get_metadata_loop_end
      metadata_value_def rd_simps reject_metadata_def metadata_contexts_def zero_metadata_def)

section \<open>The setting tables\<close>

lemma cc_val_bound: "cc_val c < 32"
  by (cases c) (simp_all add: word_less_nat_alt)

lemma stream_cfg_found:
  "bap_lib_get_stream_cfg tab c cfg = (Some row, cfg') \<Longrightarrow>
     row \<in> set tab \<and> cc_val (cc row) = c \<and> cfg' = \<lparr>sc_sampling_frequency = sf row,
       sc_frame_duration = fd row, sc_sdu_interval = si row, sc_octets_per_codec_frame = opcf row,
       sc_framing = fr row, sc_retransmission_number = rn row, sc_max_transport_latency = mtl row\<rparr>"
  by (induction tab c cfg rule: bap_lib_get_stream_cfg.induct) (auto split: if_splits)

lemma stream_cfg_not_found:
  "fst (bap_lib_get_stream_cfg tab c cfg) = None \<longleftrightarrow> c \<notin> cc_val ` cc ` set tab"
  by (induction tab c cfg rule: bap_lib_get_stream_cfg.induct) auto

definition cfg_row_ok :: "ga_bap_config \<Rightarrow> bool" where
  "cfg_row_ok r \<longleftrightarrow> sf r \<in> set samp_freq_index \<and> fd r \<in> {7500, 10000} \<and> 0 < opcf r \<and> opcf r \<le> 155 \<and>
     (if sf r = 44100 then fr r = FRAMED \<and> si r = (if fd r = 7500 then 8163 else 10884)
      else fr r = UNFRAMED \<and> si r = fd r)"

lemma broadcast_rows_ok: "\<forall>r\<in>set bap_broadcast_stream_cfgs. cfg_row_ok r"
  by (simp add: bap_broadcast_stream_cfgs_def cfg_row_def cfg_row_ok_def samp_freq_index_def)

lemma unicast_rows_ok: "\<forall>r\<in>set bap_unicast_stream_cfgs. cfg_row_ok r"
  by (simp add: bap_unicast_stream_cfgs_def cfg_row_def cfg_row_ok_def samp_freq_index_def)

definition cfg_codec_part :: "ga_bap_config \<Rightarrow> u32 \<times> u32 \<times> u32 \<times> u32 \<times> u16 \<times> wiced_ble_isoc_framing" where
  "cfg_codec_part r = (cc_val (cc r), sf r, fd r, si r, opcf r, fr r)"

lemma tables_agree:
  "map cfg_codec_part bap_unicast_stream_cfgs = map cfg_codec_part bap_broadcast_stream_cfgs"
  by (simp add: bap_broadcast_stream_cfgs_def bap_unicast_stream_cfgs_def cfg_row_def cfg_codec_part_def)

text \<open>The codes of both tables are 0 to 31, in order.\<close>

lemma broadcast_codes: "map (\<lambda>r. cc_val (cc r)) bap_broadcast_stream_cfgs = map of_nat [0..<32]"
  by (simp add: bap_broadcast_stream_cfgs_def cfg_row_def upt_rec)

lemma u32_below_of_nat: "n < 2 ^ 32 \<Longrightarrow> of_nat ` set [0..<n] = {c :: u32. unat c < n}"
  by (force simp: unat_of_nat take_bit_nat_eq_self_iff image_iff intro!: bexI [of _ "unat _"])

lemma broadcast_codes_set: "cc_val ` cc ` set bap_broadcast_stream_cfgs = {c. c < 32}"
proof -
  have "cc_val ` cc ` set bap_broadcast_stream_cfgs = set (map (\<lambda>r. cc_val (cc r)) bap_broadcast_stream_cfgs)"
    by (simp add: image_image)
  also have "\<dots> = of_nat ` set [0..<32]"
    by (simp only: broadcast_codes set_map)
  also have "\<dots> = {c :: u32. c < 32}"
    by (subst u32_below_of_nat) (auto simp: word_less_nat_alt)
  finally show ?thesis .
qed

lemma stream_cfg_agree:
  "map cfg_codec_part t1 = map cfg_codec_part t2 \<Longrightarrow>
     map_option cfg_codec_part (fst (bap_lib_get_stream_cfg t1 c cfg)) =
     map_option cfg_codec_part (fst (bap_lib_get_stream_cfg t2 c cfg'))"
proof (induction t1 arbitrary: t2)
  case Nil
  then show ?case by simp
next
  case (Cons r t1)
  then obtain r2 t3 where "t2 = r2 # t3" "cfg_codec_part r = cfg_codec_part r2"
      "map cfg_codec_part t1 = map cfg_codec_part t3" by auto
  moreover from this have "cc_val (cc r) = cc_val (cc r2)" by (simp add: cfg_codec_part_def)
  ultimately show ?case using Cons.IH [of t3] by simp
qed

lemma stream_cfg_miss: "fst (bap_lib_get_stream_cfg tab c cfg) = None \<Longrightarrow>
    bap_lib_get_stream_cfg tab c cfg = (None, cfg)"
  by (induction tab c cfg rule: bap_lib_get_stream_cfg.induct) auto

definition sc_ok :: "ga_lib_bap_stream_config \<Rightarrow> bool" where
  "sc_ok c \<longleftrightarrow> sc_sampling_frequency c \<in> set samp_freq_index \<and>
     sc_frame_duration c \<in> {7500, 10000} \<and> 0 < sc_octets_per_codec_frame c \<and>
     sc_octets_per_codec_frame c \<le> 155 \<and>
     (if sc_sampling_frequency c = 44100
      then sc_framing c = FRAMED \<and>
           sc_sdu_interval c = (if sc_frame_duration c = 7500 then 8163 else 10884)
      else sc_framing c = UNFRAMED \<and> sc_sdu_interval c = sc_frame_duration c)"

section \<open>Properties\<close>

text \<open>A codec specific configuration whose fields have codes is read back unchanged from
  what \<open>ga_lib_bap_fill_csc\<close> writes for it into a buffer of at least 20 octets.\<close>

theorem fill_parse_csc:
  assumes "csc_encodable csc" "20 \<le> max_len"
  shows "\<exists>bytes. ga_lib_bap_fill_csc max_len csc = Some bytes \<and>
     ga_lib_bap_parse_csc (start (tl bytes @ rest)) (uint (hd bytes)) zero_csc = Some (WICED_SUCCESS, csc)"
proof (intro exI conjI)
  show "ga_lib_bap_fill_csc max_len csc = Some (of_nat (length (csc_body csc)) # csc_body csc)"
    using assms(2) by (rule fill_csc_room)
  have "uint (of_nat (length (csc_body csc)) :: u8) = int (length (csc_body csc))"
    using length_csc_body [of csc] by (simp add: uint_nat unat_of_nat)
  then show "ga_lib_bap_parse_csc
      (start (tl (of_nat (length (csc_body csc)) # csc_body csc) @ rest))
      (uint (hd ((of_nat (length (csc_body csc)) :: u8) # csc_body csc))) zero_csc =
      Some (WICED_SUCCESS, csc)"
    using parse_csc_body [OF assms(1), of rest 0] by (simp add: start_def)
qed

theorem fill_parse_csc_witness:
  "let csc = zero_csc\<lparr>sampling_frequency_hz := 48000, frame_duration_us := 10000,
     octets_per_codec_frame := 120\<rparr>
   in \<exists>bytes. ga_lib_bap_fill_csc 64 csc = Some bytes \<and>
     ga_lib_bap_parse_csc (start (tl bytes @ [7])) (uint (hd bytes)) zero_csc = Some (WICED_SUCCESS, csc)"
  unfolding Let_def
  by (rule fill_parse_csc) (simp_all add: csc_encodable_def samp_freq_index_def)

text \<open>Whatever octets the parser accepts, the configuration it stores can be encoded: it is
  written and read back without loss.\<close>

theorem parse_fill_parse_csc:
  assumes "ga_lib_bap_parse_csc p data_len zero_csc = Some (r, csc)" "20 \<le> max_len"
  shows "\<exists>bytes. ga_lib_bap_fill_csc max_len csc = Some bytes \<and> length bytes \<le> 20 \<and>
     ga_lib_bap_parse_csc (start (tl bytes)) (uint (hd bytes)) zero_csc = Some (WICED_SUCCESS, csc)"
proof -
  have e: "csc_encodable csc"
    using assms(1) by (rule parse_csc_encodable) (simp add: csc_encodable_def zero_csc_def)
  have "uint (of_nat (length (csc_body csc)) :: u8) = int (length (csc_body csc))"
    using length_csc_body [of csc] by (simp add: uint_nat unat_of_nat)
  then show ?thesis
    using parse_csc_body [OF e, of "[]" 0] fill_csc_room [OF assms(2)] length_csc_body [of csc]
    by (simp add: start_def)
qed

theorem parse_fill_parse_csc_witness:
  "let csc = zero_csc\<lparr>sampling_frequency_hz := 16000, lc3_blocks_per_sdu := 2\<rparr>
   in \<exists>bytes. ga_lib_bap_fill_csc 30 csc = Some bytes \<and> length bytes \<le> 20 \<and>
     ga_lib_bap_parse_csc (start (tl bytes)) (uint (hd bytes)) zero_csc = Some (WICED_SUCCESS, csc)"
  unfolding Let_def
  by (rule parse_fill_parse_csc [where p = "start [2, 5, 2, 2, 1, 3]" and data_len = 6 and
        r = WICED_SUCCESS])
    (simp_all add: start_def parse_csc_step parse_csc_end parse_csc_value_def Let_def
      ga_lib_bap_get_sampling_freq_from_index_def samp_freq_index_def zero_csc_def word_le_nat_alt)

text \<open>The configuration writer stays inside its buffer whatever the configuration and the
  size, and its length octet counts the octets that follow it.\<close>

theorem fill_csc_in_bounds:
  assumes "1 \<le> max_len"
  shows "\<exists>bytes. ga_lib_bap_fill_csc max_len csc = Some bytes \<and>
     int (length bytes) \<le> max_len \<and> bytes \<noteq> [] \<and> hd bytes = of_nat (length bytes - 1)"
  using assms by (rule fill_csc_bounded)

theorem fill_csc_in_bounds_witness:
  "\<exists>bytes. ga_lib_bap_fill_csc 5 (zero_csc\<lparr>sampling_frequency_hz := 48000\<rparr>) = Some bytes \<and>
     int (length bytes) \<le> 5 \<and> bytes \<noteq> [] \<and> hd bytes = of_nat (length bytes - 1)"
  by (rule fill_csc_in_bounds) simp

text \<open>Audio context metadata with no reserved bit is read back unchanged, and the reader
  consumes exactly what the length octet announces.\<close>

theorem fill_get_metadata:
  assumes "INVALID_CONTEXT_TYPE_MASK AND pref = 0" "INVALID_CONTEXT_TYPE_MASK AND strm = 0"
    and "9 \<le> max_len"
  shows "\<exists>bytes sts'. ga_lib_bap_fill_metadata max_len (metadata_contexts pref strm) = Some bytes \<and>
     ga_lib_bap_get_metadata (tl bytes @ rest) (uint (hd bytes)) zero_metadata sts =
       Some (length bytes - 1, metadata_contexts pref strm, sts') \<and>
     response_code sts' = CP_RESPONSE_SUCCESS"
proof -
  let ?b = "metadata_body pref strm"
  let ?s = "sts\<lparr>response_code := CP_RESPONSE_SUCCESS\<rparr>"
  have "uint (of_nat (length ?b) :: u8) = int (length ?b)"
    using length_metadata_body [of pref strm] by (simp add: uint_nat unat_of_nat)
  then have "ga_lib_bap_get_metadata (?b @ rest) (uint (of_nat (length ?b) :: u8)) zero_metadata sts =
      Some (length ?b, metadata_contexts pref strm, ?s)"
    using get_metadata_body [OF assms(1,2), of ?s rest 0]
    by (simp add: ga_lib_bap_get_metadata_def start_def)
  then show ?thesis using fill_metadata_contexts [OF assms(3)] by auto
qed

theorem fill_get_metadata_witness:
  "\<exists>bytes sts'. ga_lib_bap_fill_metadata 16 (metadata_contexts 3 0x0204) = Some bytes \<and>
     ga_lib_bap_get_metadata (tl bytes @ [1]) (uint (hd bytes)) zero_metadata zero_sts =
       Some (length bytes - 1, metadata_contexts 3 0x0204, sts') \<and>
     response_code sts' = CP_RESPONSE_SUCCESS"
  by (rule fill_get_metadata) (simp_all add: INVALID_CONTEXT_TYPE_MASK_def)

text \<open>A CCID list is stepped over by one octet too many: of two well formed LTVs the second,
  a valid audio context, is refused when a CCID list stands in front of it.\<close>

theorem ccid_list_misaligns:
  "ga_lib_bap_get_metadata [3, 2, 4, 0, 2, 5, 7] 7 zero_metadata zero_sts =
     Some (8, metadata_contexts 0 4, zero_sts) \<and>
   ga_lib_bap_get_metadata [2, 5, 7, 3, 2, 4, 0] 7 zero_metadata zero_sts =
     Some (6, zero_metadata, zero_sts\<lparr>response_code := CP_RESPONSE_REJECTED_METADATA, reason := 4\<rparr>)"
  by (simp add: ga_lib_bap_get_metadata_def start_def get_metadata_loop_step get_metadata_loop_end
      metadata_value_def rd_simps reject_metadata_def metadata_contexts_def zero_metadata_def
      zero_sts_def INVALID_CONTEXT_TYPE_MASK_def le16_def skip_def)

text \<open>C8: the transition table accepts exactly the transitions of the ASE state machine: an
  opcode with the state it leads to, for either direction.\<close>

theorem transition_table_correct:
  assumes "s \<noteq> STATE_MAX"
  shows "(ga_lib_bap_is_state_transition_valid ct s x = Some (Some t) \<longleftrightarrow> ase_transition ct s x t) \<and>
     (ga_lib_bap_is_state_transition_valid ct s x = Some None \<longleftrightarrow> (\<nexists>t. ase_transition ct s x t))"
  using transition_valid_iff [OF assms, of ct x] transition_valid_total [OF assms, of ct x]
  by (metis not_None_eq option.inject)

theorem transition_table_correct_witness:
  "(ga_lib_bap_is_state_transition_valid 1 STATE_STREAMING 5 = Some (Some STATE_QOS_CONFIGURED)
      \<longleftrightarrow> ase_transition 1 STATE_STREAMING 5 STATE_QOS_CONFIGURED) \<and>
   (ga_lib_bap_is_state_transition_valid 1 STATE_STREAMING 5 = Some None
      \<longleftrightarrow> (\<nexists>t. ase_transition 1 STATE_STREAMING 5 t))"
  by (rule transition_table_correct) simp

text \<open>Through any sequence of accepted operations from Idle, the ASE state stays inside the
  table, so the lookup never indexes past it, and a sink ASE is never Disabling.\<close>

theorem ase_reachable_safe:
  assumes "ase_reachable ct s"
  shows "(\<exists>r. ga_lib_bap_is_state_transition_valid ct s x = Some r) \<and>
     (ct = ASCS_CHARACTERISTIC_SNK_ASE \<longrightarrow> s \<noteq> STATE_DISABLING)"
  using ase_reachable_inv [OF assms] transition_valid_total by blast

theorem ase_reachable_safe_witness:
  "(\<exists>r. ga_lib_bap_is_state_transition_valid 1 STATE_QOS_CONFIGURED 200 = Some r) \<and>
     STATE_QOS_CONFIGURED \<noteq> STATE_DISABLING"
proof -
  have "ase_reachable 1 STATE_CODEC_CONFIGURED"
    by (rule ase_reachable.accept [OF ase_reachable.idle, where x = 1])
      (simp add: transition_column)
  then have "ase_reachable 1 STATE_QOS_CONFIGURED"
    by (rule ase_reachable.accept [where x = 2]) (simp add: transition_column)
  from ase_reachable_safe [OF this, of 200] show ?thesis by simp
qed

text \<open>Both lookups succeed for exactly the 32 settings of the enumeration and leave the output
  alone otherwise. The row found is a valid LC3 setting (44.1 kHz framed with its own SDU interval,
  the others unframed with the frame duration), and the unicast and the broadcast row of a setting
  differ at most in retransmissions and latency.\<close>

theorem stream_config_lookup:
  "case ga_lib_bap_get_unicast_stream_config c cfg of (r, u) \<Rightarrow>
   case ga_lib_bap_get_broadcast_stream_config c cfg of (r', b) \<Rightarrow>
     if c < 32 then r = WICED_SUCCESS \<and> r' = WICED_SUCCESS \<and> sc_ok u \<and>
       b = u\<lparr>sc_retransmission_number := sc_retransmission_number b,
             sc_max_transport_latency := sc_max_transport_latency b\<rparr>
     else r = WICED_NOT_FOUND \<and> r' = WICED_NOT_FOUND \<and> u = cfg \<and> b = cfg"
proof -
  let ?U = "bap_lib_get_stream_cfg bap_unicast_stream_cfgs c cfg"
  let ?B = "bap_lib_get_stream_cfg bap_broadcast_stream_cfgs c cfg"
  have agree: "map_option cfg_codec_part (fst ?U) = map_option cfg_codec_part (fst ?B)"
    by (rule stream_cfg_agree [OF tables_agree])
  have B: "fst ?B = None \<longleftrightarrow> \<not> c < 32"
    unfolding stream_cfg_not_found broadcast_codes_set by simp
  show ?thesis
  proof (cases "c < 32")
    case True
    then obtain rb ru cb cu where rb: "?B = (Some rb, cb)" and ru: "?U = (Some ru, cu)"
      using B agree by (metis (no_types) map_option_is_None not_None_eq prod.collapse)
    have "cfg_row_ok ru" using stream_cfg_found [OF ru] unicast_rows_ok by blast
    moreover have "cfg_codec_part ru = cfg_codec_part rb" using agree rb ru by simp
    ultimately show ?thesis
      using stream_cfg_found [OF ru] stream_cfg_found [OF rb] True rb ru
      by (auto simp: ga_lib_bap_get_unicast_stream_config_def
          ga_lib_bap_get_broadcast_stream_config_def sc_ok_def cfg_row_ok_def cfg_codec_part_def)
  next
    case False
    then have "?B = (None, cfg)" "?U = (None, cfg)"
      using B agree by (auto intro!: stream_cfg_miss)
    with False show ?thesis
      by (simp add: ga_lib_bap_get_unicast_stream_config_def
          ga_lib_bap_get_broadcast_stream_config_def)
  qed
qed

text \<open>For every sampling frequency of the code table and every frame duration up to 10 ms the
  decoded frame size does not wrap at 32 bits; other than at 44.1 kHz it is the number of samples of
  one frame, rounded to the nearest integer.\<close>

theorem decoded_data_size_exact:
  assumes "f \<in> set samp_freq_index" "d \<le> 10000" "f \<noteq> 44100"
  shows "unat (ga_lib_bap_get_decoded_data_size f d) = (unat f * unat d + 500000) div 1000000"
proof -
  have f: "unat f \<le> 384000" using assms(1) by (auto simp: samp_freq_index_def)
  have d: "unat d \<le> 10000" using assms(2) by (simp add: word_le_nat_alt)
  have p: "unat f * unat d \<le> 384000 * 10000" using f d by (rule mult_le_mono)
  have u: "unat (ucast d :: u32) = unat d"
    using d by (simp add: unsigned_ucast_eq take_bit_nat_eq_self_iff)
  have "unat (f * ucast d + 500000) = unat f * unat d + 500000"
    using p by (simp add: unat_word_ariths u)
  then show ?thesis using assms(3) by (simp add: ga_lib_bap_get_decoded_data_size_def unat_div Let_def)
qed

theorem decoded_data_size_exact_witness:
  "unat (ga_lib_bap_get_decoded_data_size 48000 7500) = (unat (48000::u32) * unat (7500::u16) + 500000) div 1000000"
  by (rule decoded_data_size_exact) (simp_all add: samp_freq_index_def word_le_nat_alt)

end
