(* ===== verification/Ascs_Lib.thy ===== *)
theory Ascs_Lib
  imports Bap
begin

text \<open>
  The Audio Stream Control library, \<open>gatt_profiles/ga_lib_ascs.c\<close>: the encoders of the ASE
  characteristic value and of the control point commands, and the decoders of the control
  point operations. An encoder returns the octets it writes, a decoder the number of octets
  it consumes and the structures it leaves.
\<close>

section \<open>The ASE characteristic value\<close>

definition fill_codec_params :: "ga_lib_ascs_ase \<Rightarrow> int \<Rightarrow> u8 list option" where
  "fill_codec_params p_ase max_len =
     (let p_pref = ase_cfg p_ase;
          out = [supported_framing p_pref, preferred_phy p_pref,
                 preferred_retransmission_number p_pref] @
                b16 (cfg_max_transport_latency p_pref) @
                b24 (presentation_delay_in_us_min p_pref) @
                b24 (presentation_delay_in_us_max p_pref) @
                b24 (preferred_presentation_delay_in_us_min p_pref) @
                b24 (preferred_presentation_delay_in_us_max p_pref) @
                [coding_format (cfg_codec_id p_pref)] @
                b16 (company_id (cfg_codec_id p_pref)) @
                b16 (vendor_specific_codec_id (cfg_codec_id p_pref))
      in do {
        csc \<leftarrow> ga_lib_bap_fill_csc (max_len - int (length out)) (cfg_csc p_pref);
        Some (out @ csc) })"

definition fill_qos_params :: "ga_lib_ascs_ase \<Rightarrow> u8 list" where
  "fill_qos_params p_ase =
     (let q = qos_configured p_ase
      in [cig_id q, cis_id q] @ b24 (sdu_interval q) @ [qos_framing q, qos_phy q] @
         b16 (max_sdu q) @ [retransmission_number q] @ b16 (max_transport_latency q) @
         b24 (presentation_delay q))"

text \<open>
  One audio context of \<open>fill_common_params\<close>. \<open>bytes_written\<close> is an 8-bit running sum that
  is added to the pointer and to the length octet each time, so the second context moves the
  pointer past octets nothing writes; these are what the destination held before, \<open>junk\<close> by
  their distance from the start of the destination.
\<close>

definition put_context ::
  "(nat \<Rightarrow> u8) \<Rightarrow> int \<Rightarrow> u8 \<Rightarrow> u16 \<Rightarrow> u8 \<times> u8 \<times> u8 list \<Rightarrow> (u8 \<times> u8 \<times> u8 list) option" where
  "put_context junk max_len type ctx st =
     (case st of (bytes_written, metadata_len, out) \<Rightarrow>
        if ctx \<noteq> 0 then do {
          ltv \<leftarrow> ga_lib_bap_update_ltv (max_len - int (length out)) 2 type (b16 ctx);
          let bytes_written = bytes_written + of_nat (length ltv);
          Some (bytes_written, metadata_len + bytes_written,
                out @ ltv @ map junk [length out + length ltv ..< length out + unat bytes_written]) }
        else Some st)"

definition fill_common_params :: "(nat \<Rightarrow> u8) \<Rightarrow> ga_lib_ascs_ase \<Rightarrow> int \<Rightarrow> u8 list option" where
  "fill_common_params junk p_ase max_len =
     (let md = ase_metadata p_ase; q = qos_configured p_ase
      in do {
        st \<leftarrow> put_context junk max_len BAP_METADATA_TYPE_PREFERRED_AUDIO_CONTEXTS
                (preferred_audio_ctx md) (0, 0, [cig_id q, cis_id q, 0]);
        (_, metadata_len, out) \<leftarrow> put_context junk max_len BAP_METADATA_TYPE_STREAMING_AUDIO_CONTEXTS
                (streaming_audio_ctx md) st;
        Some (out[2 := metadata_len]) })"

definition ga_lib_ascs_build_ase_response ::
  "(nat \<Rightarrow> u8) \<Rightarrow> ga_lib_ascs_ase \<Rightarrow> int \<Rightarrow> u8 list option" where
  "ga_lib_ascs_build_ase_response junk p_ase max_len = do {
     let hdr = [ase_id p_ase, state_val (ase_state p_ase)];
     rest \<leftarrow> (case ase_state p_ase of
                STATE_CODEC_CONFIGURED \<Rightarrow> fill_codec_params p_ase (max_len - 2)
              | STATE_QOS_CONFIGURED \<Rightarrow> Some (fill_qos_params p_ase)
              | STATE_ENABLING \<Rightarrow> fill_common_params (\<lambda>i. junk (i + 2)) p_ase (max_len - 2)
              | STATE_STREAMING \<Rightarrow> fill_common_params (\<lambda>i. junk (i + 2)) p_ase (max_len - 2)
              | STATE_DISABLING \<Rightarrow> fill_common_params (\<lambda>i. junk (i + 2)) p_ase (max_len - 2)
              | _ \<Rightarrow> Some []);
     Some (hdr @ rest) }"

section \<open>Control point commands\<close>

definition ga_lib_ascs_build_cp_config_codec ::
  "int \<Rightarrow> u8 \<Rightarrow> ga_lib_ascs_config_codec_args \<Rightarrow> u8 list option" where
  "ga_lib_ascs_build_cp_config_codec len ase p_cc =
     (let out = [ase, cc_target_latency p_cc, cc_target_phy p_cc, coding_format (cc_codec_id p_cc)] @
                b16 (company_id (cc_codec_id p_cc)) @
                b16 (vendor_specific_codec_id (cc_codec_id p_cc))
      in do {
        csc \<leftarrow> ga_lib_bap_fill_csc (len - int (length out)) (cc_csc p_cc);
        Some (out @ csc) })"

definition ga_lib_ascs_build_cp_config_qos :: "u8 \<Rightarrow> ga_lib_ascs_config_qos_args \<Rightarrow> u8 list" where
  "ga_lib_ascs_build_cp_config_qos ase q =
     [ase, cig_id q, cis_id q] @ b24 (sdu_interval q) @ [qos_framing q, qos_phy q] @
     b16 (max_sdu q) @ [retransmission_number q] @ b16 (max_transport_latency q) @
     b24 (presentation_delay q)"

text \<open>
  A pointer that is \<open>NULL\<close> while its length is not 0 is dereferenced when the value fits.
\<close>

definition ptr_octets :: "u8 list option \<Rightarrow> u8 list" where
  "ptr_octets p = (case p of None \<Rightarrow> [] | Some xs \<Rightarrow> xs)"

definition ga_lib_ascs_build_cp_metadata_cmd ::
  "int \<Rightarrow> u8 \<Rightarrow> ga_lib_ascs_metadata \<Rightarrow> u8 list option" where
  "ga_lib_ascs_build_cp_metadata_cmd len ase md = do {
     let out = [ase, 0];
     out \<leftarrow> put_ltv (preferred_audio_ctx md \<noteq> 0) len 2
              BAP_METADATA_TYPE_PREFERRED_AUDIO_CONTEXTS (b16 (preferred_audio_ctx md)) out;
     out \<leftarrow> put_ltv (streaming_audio_ctx md \<noteq> 0) len 2
              BAP_METADATA_TYPE_STREAMING_AUDIO_CONTEXTS (b16 (streaming_audio_ctx md)) out;
     out \<leftarrow> put_ltv (program_info_len md \<noteq> 0) len (program_info_len md)
              BAP_METADATA_TYPE_PROGRAM_INFO (ptr_octets (p_program_info md)) out;
     out \<leftarrow> put_ltv (vendor_specific_data_length md \<noteq> 0) len (vendor_specific_data_length md)
              BAP_METADATA_TYPE_VENDOR_SPECIFIC (ptr_octets (p_vendor_specific_data md)) out;
     Some (out[1 := of_nat (length out - 2)]) }"

definition ga_lib_ascs_send_ase_id_cmd :: "u8 \<Rightarrow> u8 \<Rightarrow> u8 list" where
  "ga_lib_ascs_send_ase_id_cmd opcode ase = [opcode, 1, ase]"

definition ga_lib_ascs_send_receiver_start_ready :: "u8 \<Rightarrow> u8 list" where
  "ga_lib_ascs_send_receiver_start_ready = ga_lib_ascs_send_ase_id_cmd OPCODE_RECEIVER_START_READY"

definition ga_lib_ascs_send_receiver_stop_ready :: "u8 \<Rightarrow> u8 list" where
  "ga_lib_ascs_send_receiver_stop_ready = ga_lib_ascs_send_ase_id_cmd OPCODE_RECEIVER_STOP_READY"

definition ga_lib_ascs_send_disable :: "u8 \<Rightarrow> u8 list" where
  "ga_lib_ascs_send_disable = ga_lib_ascs_send_ase_id_cmd OPCODE_DISABLE"

definition ga_lib_ascs_send_release :: "u8 \<Rightarrow> u8 list" where
  "ga_lib_ascs_send_release = ga_lib_ascs_send_ase_id_cmd OPCODE_RELEASE"

section \<open>Counting bits\<close>

lemma clear_lowest_bit_less: "n \<noteq> 0 \<Longrightarrow> unat (n AND (n - 1)) < unat (n :: u32)"
proof -
  assume n: "n \<noteq> 0"
  have "n AND (n - 1) \<le> n - 1" by (rule word_and_le1)
  moreover have "n - 1 < n" using n by (simp add: word_less_nat_alt unat_minus_one unat_gt_0)
  ultimately show ?thesis by (simp add: word_less_nat_alt word_le_nat_alt)
qed

function count_bits :: "u32 \<Rightarrow> nat" where
  "count_bits n = (if n > 0 then Suc (count_bits (n AND (n - 1))) else 0)"
  by pat_completeness auto
termination
  by (relation "measure unat") (simp_all add: clear_lowest_bit_less word_gt_0)

declare count_bits.simps [simp del]

section \<open>Control point operations\<close>

definition csc_type_len :: "u8 list" where
  "csc_type_len = [0, 2, 2, 5, 3, 2]"

text \<open>
  The \<open>switch\<close> of \<open>ga_lib_ascs_parse_codec_config\<close>; the flag is false in the default case.
\<close>

definition codec_config_value ::
  "u8 \<Rightarrow> cursor \<Rightarrow> ga_lib_ascs_csc \<Rightarrow> (bool \<times> ga_lib_ascs_csc) option" where
  "codec_config_value type p csc =
     (if type = 1 then do {
        (v, p) \<leftarrow> rd8 p;
        Some (True, csc\<lparr>sampling_frequency_hz := ga_lib_bap_get_sampling_freq_from_index v\<rparr>) }
      else if type = 2 then do {
        (v, p) \<leftarrow> rd8 p;
        Some (True, csc\<lparr>frame_duration_us := ga_lib_bap_get_frame_duration_from_index v\<rparr>) }
      else if type = 3 then do {
        (v, p) \<leftarrow> rd32 p; Some (True, csc\<lparr>audio_channel_allocation := v\<rparr>) }
      else if type = 4 then do {
        (v, p) \<leftarrow> rd16 p; Some (True, csc\<lparr>octets_per_codec_frame := v\<rparr>) }
      else if type = 5 then do {
        (v, p) \<leftarrow> rd8 p; Some (True, csc\<lparr>lc3_blocks_per_sdu := v\<rparr>) }
      else Some (False, csc))"

text \<open>
  The loop over the LTVs. The test of the type admits 6, for which \<open>csc_type_len\<close> is read
  past its end. \<open>csc_len\<close> is an octet: an LTV whose length octet equals what is left makes it
  wrap around. The loop ends because every turn that goes on has read octets.
\<close>

function parse_codec_config_loop ::
  "cursor \<Rightarrow> u8 \<Rightarrow> ga_lib_ascs_csc \<Rightarrow> ga_lib_ascs_cp_cmd_sts
    \<Rightarrow> (nat \<times> ga_lib_ascs_csc \<times> ga_lib_ascs_cp_cmd_sts) option" where
  "parse_codec_config_loop p_start csc_len csc sts =
     (if csc_len = 0 then Some (used p_start, csc, sts)
      else do {
        (type_len, p) \<leftarrow> rd8 p_start;
        (type, p) \<leftarrow> rd8 p;
        if type_len > csc_len
        then Some (used p, csc, sts\<lparr>response_code := CP_RESPONSE_INVALID_LENGTH\<rparr>)
        else do {
          bad \<leftarrow> (if type = 0 \<or> unat type > length csc_type_len then Some True
                  else do { l \<leftarrow> arr_get csc_type_len (unat type); Some (type_len \<noteq> l) });
          if bad
          then Some (used p, csc, sts\<lparr>response_code := CP_RESPONSE_INVALID_CONFIGURATION_PARAMETER_VALUE,
                                     reason := CP_REASON_CODEC_SPECIFIC_CONFIGURATION\<rparr>)
          else do {
            (known, csc) \<leftarrow> codec_config_value type p csc;
            if \<not> known
            then Some (used p, csc,
                   sts\<lparr>response_code := CP_RESPONSE_UNSUPPORTED_CONFIGURATION_PARAMETER_VALUE,
                       reason := CP_REASON_CODEC_SPECIFIC_CONFIGURATION\<rparr>)
            else parse_codec_config_loop (skip (unat type_len + 1) p_start)
                   (csc_len - (type_len + 1)) csc sts } } })"
  by pat_completeness auto
termination
  by (relation "measure (\<lambda>(p, csc_len, csc, sts). length (fst p))")
    (auto simp: skip_def dest!: rd8_SomeD)

declare parse_codec_config_loop.simps [simp del]

definition ga_lib_ascs_parse_codec_config ::
  "u8 list \<Rightarrow> int \<Rightarrow> ga_lib_ascs_config_codec_args \<Rightarrow> ga_lib_ascs_cp_cmd_sts
    \<Rightarrow> (nat \<times> ga_lib_ascs_config_codec_args \<times> ga_lib_ascs_cp_cmd_sts) option" where
  "ga_lib_ascs_parse_codec_config p_stream len p_cc p_sts = do {
     (latency, p) \<leftarrow> rd8 (start p_stream);
     (phy, p) \<leftarrow> rd8 p;
     (fmt, p) \<leftarrow> rd8 p;
     (company, p) \<leftarrow> rd16 p;
     (vendor, p) \<leftarrow> rd16 p;
     (csc_len, p) \<leftarrow> rd8 p;
     let p_cc = p_cc\<lparr>cc_target_latency := latency, cc_target_phy := phy,
                  cc_codec_id := \<lparr>coding_format = fmt, company_id = company,
                                  vendor_specific_codec_id = vendor\<rparr>\<rparr>;
     if len - int (used p) < uint csc_len
     then Some (used p, p_cc, p_sts\<lparr>response_code := CP_RESPONSE_INVALID_LENGTH\<rparr>)
     else do {
       (n, csc, p_sts) \<leftarrow> parse_codec_config_loop p csc_len (cc_csc p_cc) p_sts;
       Some (n, p_cc\<lparr>cc_csc := csc\<rparr>, p_sts) } }"

definition invalid_parameter :: "u8 \<Rightarrow> ga_lib_ascs_cp_cmd_sts \<Rightarrow> ga_lib_ascs_cp_cmd_sts" where
  "invalid_parameter why sts =
     sts\<lparr>response_code := CP_RESPONSE_INVALID_CONFIGURATION_PARAMETER_VALUE, reason := why\<rparr>"

text \<open>The checks in the order of the code; the first that fails is reported.\<close>

definition check_qos ::
  "ga_lib_ascs_config_qos_args \<Rightarrow> ga_lib_ascs_cp_cmd_sts \<Rightarrow> ga_lib_ascs_cp_cmd_sts" where
  "check_qos q sts =
     (if sdu_interval q < 0xFF \<or> sdu_interval q > 0xFFFFFF then invalid_parameter CP_REASON_SDU_INTERVAL sts
      else if qos_framing q \<ge> 2 then invalid_parameter CP_REASON_FRAMING sts
      else if qos_phy q AND NOT 3 \<noteq> 0 then invalid_parameter CP_REASON_PHY sts
      else if max_sdu q > 0xFFF then invalid_parameter CP_REASON_MAXIMUM_SDU_SIZE sts
      else if max_transport_latency q < 5 \<or> max_transport_latency q > 0xFA0
      then invalid_parameter CP_REASON_MAX_TRANSPORT_LATENCY sts
      else sts)"

definition rd_qos :: "cursor \<Rightarrow> (ga_lib_ascs_config_qos_args \<times> cursor) option" where
  "rd_qos p = do {
     (cig, p) \<leftarrow> rd8 p;
     (cis, p) \<leftarrow> rd8 p;
     (si, p) \<leftarrow> rd24 p;
     (fr, p) \<leftarrow> rd8 p;
     (phy, p) \<leftarrow> rd8 p;
     (sdu, p) \<leftarrow> rd16 p;
     (rn, p) \<leftarrow> rd8 p;
     (mtl, p) \<leftarrow> rd16 p;
     (pd, p) \<leftarrow> rd24 p;
     Some (\<lparr>cig_id = cig, cis_id = cis, sdu_interval = si, qos_framing = fr, qos_phy = phy,
            max_sdu = sdu, retransmission_number = rn, max_transport_latency = mtl,
            presentation_delay = pd\<rparr>, p) }"

definition ga_lib_ascs_parse_config_qos ::
  "u8 list \<Rightarrow> int \<Rightarrow> ga_lib_ascs_config_qos_args \<Rightarrow> ga_lib_ascs_cp_cmd_sts
    \<Rightarrow> (nat \<times> ga_lib_ascs_config_qos_args \<times> ga_lib_ascs_cp_cmd_sts) option" where
  "ga_lib_ascs_parse_config_qos p_stream len p_qos p_sts =
     (if len < 15
      then Some (0, p_qos, p_sts\<lparr>response_code := CP_RESPONSE_INVALID_LENGTH,
                                 reason := CP_REASON_NOT_APPLICABLE\<rparr>)
      else do {
        (q, p) \<leftarrow> rd_qos (start p_stream);
        Some (used p, q, check_qos q p_sts) })"

text \<open>The status \<open>ga_lib_bap_get_metadata\<close> reports goes to a local structure and is dropped.\<close>

definition ga_lib_ascs_parse_metadata ::
  "u8 list \<Rightarrow> int \<Rightarrow> ga_lib_ascs_metadata \<Rightarrow> ga_lib_ascs_cp_cmd_sts
    \<Rightarrow> (nat \<times> ga_lib_ascs_metadata \<times> ga_lib_ascs_cp_cmd_sts) option" where
  "ga_lib_ascs_parse_metadata p_stream len md p_sts =
     (if len < 1
      then Some (0, md, p_sts\<lparr>response_code := CP_RESPONSE_INVALID_LENGTH,
                              reason := CP_REASON_NOT_APPLICABLE\<rparr>)
      else do {
        (metadata_len, p) \<leftarrow> rd8 (start p_stream);
        if uint metadata_len > len - 1
        then Some (used p, md, p_sts\<lparr>response_code := CP_RESPONSE_INVALID_LENGTH,
                                     reason := CP_REASON_NOT_APPLICABLE\<rparr>)
        else do {
          (_, md, _) \<leftarrow> ga_lib_bap_get_metadata (fst p) (uint metadata_len) md zero_sts;
          Some (unat metadata_len + 1, md, p_sts) } })"

section \<open>Bit counts\<close>

fun bits_set :: "nat \<Rightarrow> nat" where
  "bits_set n = (if n = 0 then 0 else n mod 2 + bits_set (n div 2))"

declare bits_set.simps [simp del]

lemma bits_set_double: "bits_set (2 * n) = bits_set n" "bits_set (Suc (2 * n)) = Suc (bits_set n)"
  by (cases "n = 0"; subst bits_set.simps; simp add: bits_set.simps)+

lemma bits_set_clear_lowest: "0 < n \<Longrightarrow> Suc (bits_set (n AND (n - 1))) = bits_set n"
proof (induction n rule: bits_set.induct)
  case (1 n)
  show ?case
  proof (cases "even n")
    case True
    then obtain m where m: "n = 2 * m" by blast
    with 1 have "0 < m" by simp
    then have "(2 * m - 1) div 2 = m - 1" "odd (2 * m - 1)" by presburger+
    then have "n AND (n - 1) = 2 * (m AND (m - 1))"
      using m by (subst and_nat_rec) simp
    with 1 m \<open>0 < m\<close> show ?thesis by (simp add: bits_set_double)
  next
    case False
    then obtain m where m: "n = Suc (2 * m)" by (metis oddE Suc_eq_plus1)
    then have "n AND (n - 1) = 2 * m" by (subst and_nat_rec) simp
    with m show ?thesis by (simp add: bits_set_double)
  qed
qed

lemma bits_set_card: "bits_set n = card {i. bit n i}"
proof (induction n rule: bits_set.induct)
  case (1 n)
  show ?case
  proof (cases "n = 0")
    case True
    then show ?thesis by (simp add: bits_set.simps)
  next
    case False
    have fin: "finite {i. bit (n div 2) i}" 
    proof (rule finite_subset)
      show "{i. bit (n div 2) i} \<subseteq> {..<n div 2}"
        by (auto simp: bit_iff_odd intro: ccontr) (metis div_less even_zero less_exp not_le order.strict_trans1)
    qed simp
    have "{i. bit n i} = (if odd n then {0} else {}) \<union> Suc ` {i. bit (n div 2) i}"
      by (auto simp: image_iff bit_0 bit_Suc) (metis bit_Suc not0_implies_Suc bit_0)+
    then have "card {i. bit n i} = n mod 2 + card {i. bit (n div 2) i}"
      using fin by (auto simp: card_insert_if card_image odd_iff_mod_2_eq_one)
    with 1 False show ?thesis by (subst bits_set.simps) simp
  qed
qed

lemma unat_clear_lowest: "n \<noteq> 0 \<Longrightarrow> unat (n AND (n - 1)) = (unat n AND (unat n - 1))" for n :: u32
  by (simp add: unsigned_and_eq unat_minus_one)

lemma count_bits_eq: "count_bits n = bits_set (unat n)"
proof (induction n rule: count_bits.induct)
  case (1 n)
  show ?case
  proof (cases "n = 0")
    case True
    then show ?thesis by (simp add: count_bits.simps bits_set.simps)
  next
    case False
    with 1 show ?thesis
      by (subst count_bits.simps) (simp add: word_gt_0 unat_clear_lowest bits_set_clear_lowest [unfolded One_nat_def] unat_gt_0)
  qed
qed

section \<open>QoS configurations on the wire\<close>

definition qos_octets :: "ga_lib_ascs_config_qos_args \<Rightarrow> u8 list" where
  "qos_octets q = [cig_id q, cis_id q] @ b24 (sdu_interval q) @ [qos_framing q, qos_phy q] @
     b16 (max_sdu q) @ [retransmission_number q] @ b16 (max_transport_latency q) @
     b24 (presentation_delay q)"

definition qos_fits :: "ga_lib_ascs_config_qos_args \<Rightarrow> bool" where
  "qos_fits q \<longleftrightarrow> sdu_interval q < 2 ^ 24 \<and> presentation_delay q < 2 ^ 24"

lemma length_qos_octets [simp]: "length (qos_octets q) = 15"
  by (simp add: qos_octets_def)

lemma fill_qos_params_octets: "fill_qos_params ase = qos_octets (qos_configured ase)"
  by (simp add: fill_qos_params_def qos_octets_def Let_def)

lemma build_cp_config_qos_octets: "ga_lib_ascs_build_cp_config_qos i q = i # qos_octets q"
  by (simp add: ga_lib_ascs_build_cp_config_qos_def qos_octets_def)

lemma rd_qos_octets:
  assumes "qos_fits q"
  shows "rd_qos (qos_octets q @ rest, n) = Some (q, rest, n + 15)"
  using assms
  by (simp add: rd_qos_def qos_octets_def qos_fits_def rd_simps rd24_b24)

interpretation wire_qos: wire_codec qos_octets rd_qos qos_fits
  by unfold_locales (simp add: rd_qos_octets)

lemma rd24_bound: "rd24 p = Some (w, p') \<Longrightarrow> w < 2 ^ 24"
  using le24_bound by (auto simp: rd24_def bind_eq_Some_conv)

lemma rd_qos_fits:
  assumes "rd_qos p = Some (q, p')"
  shows "qos_fits q" "p' = skip 15 p"
proof -
  from assms obtain a1 p1 a2 p2 a3 p3 a4 p4 a5 p5 a6 p6 a7 p7 a8 p8 a9 where
    r: "rd8 p = Some (a1, p1)" "rd8 p1 = Some (a2, p2)" "rd24 p2 = Some (a3, p3)"
       "rd8 p3 = Some (a4, p4)" "rd8 p4 = Some (a5, p5)" "rd16 p5 = Some (a6, p6)"
       "rd8 p6 = Some (a7, p7)" "rd16 p7 = Some (a8, p8)" "rd24 p8 = Some (a9, p')"
    and q: "sdu_interval q = a3" "presentation_delay q = a9"
    by (auto simp: rd_qos_def bind_eq_Some_conv)
  show "qos_fits q" unfolding qos_fits_def q using rd24_bound r(3) rd24_bound r(9) by blast
  show "p' = skip 15 p"
    using r(1,2,4,5,7) [THEN rd8_SomeD] r(3,9) [THEN rd24_SomeD] r(6,8) [THEN rd16_SomeD] by simp
qed

text \<open>The parameter ranges the check accepts.\<close>

definition qos_valid :: "ga_lib_ascs_config_qos_args \<Rightarrow> bool" where
  "qos_valid q \<longleftrightarrow> 0xFF \<le> sdu_interval q \<and> qos_framing q \<in> {0, 1} \<and> qos_phy q \<in> {0, 1, 2, 3} \<and>
     max_sdu q \<le> 0xFFF \<and> 5 \<le> max_transport_latency q \<and> max_transport_latency q \<le> 4000"

lemma phy_mask: "(x :: u8) AND NOT 3 = 0 \<longleftrightarrow> x \<in> {0, 1, 2, 3}"
proof
  assume z: "x AND NOT 3 = 0"
  have "take_bit 2 x = x"
  proof (rule bit_word_eqI)
    fix n assume "n < LENGTH(8)"
    then have "\<not> bit (x AND NOT (mask 2)) n" using z by (simp add: mask_eq_exp_minus_1)
    then show "bit (take_bit 2 x) n = bit x n"
      using \<open>n < LENGTH(8)\<close> by (auto simp: bit_simps)
  qed
  then have "unat x = take_bit 2 (unat x)" by (metis unsigned_take_bit_eq)
  then have "unat x < 4" using take_bit_nat_less_exp [of 2 "unat x"] by simp
  then have "unat x \<in> {0, 1, 2, 3}" by auto
  then have "x \<in> of_nat ` {0, 1, 2, 3}" by (metis imageI of_nat_unat ucast_id)
  then show "x \<in> {0, 1, 2, 3}" by simp
qed auto

lemma below_two: "\<not> (2 :: u8) \<le> x \<longleftrightarrow> x \<in> {0, 1}"
proof
  assume "\<not> 2 \<le> x"
  then have "unat x \<in> {0, 1}" by (auto simp: word_le_nat_alt)
  then have "x \<in> of_nat ` {0, 1}" by (metis imageI of_nat_unat ucast_id)
  then show "x \<in> {0, 1}" by simp
qed (auto simp: word_le_nat_alt)

lemma check_qos_response:
  assumes "qos_fits q" "response_code sts = CP_RESPONSE_SUCCESS"
  shows "response_code (check_qos q sts) =
    (if qos_valid q then CP_RESPONSE_SUCCESS else CP_RESPONSE_INVALID_CONFIGURATION_PARAMETER_VALUE)"
proof -
  have s: "sdu_interval q \<le> 0xFFFFFF"
    using assms(1) by (simp add: qos_fits_def word_less_nat_alt word_le_nat_alt)
  have "qos_valid q \<longleftrightarrow> \<not> (sdu_interval q < 0xFF \<or> sdu_interval q > 0xFFFFFF) \<and> \<not> 2 \<le> qos_framing q \<and>
      \<not> qos_phy q AND NOT 3 \<noteq> 0 \<and> \<not> max_sdu q > 0xFFF \<and>
      \<not> (max_transport_latency q < 5 \<or> max_transport_latency q > 0xFA0)"
    unfolding qos_valid_def phy_mask below_two using s by (simp only: not_less not_not de_Morgan_disj) simp
  then show ?thesis
    unfolding check_qos_def by (simp add: invalid_parameter_def assms(2))
qed

lemma parse_config_qos_octets:
  assumes "qos_fits q" "15 \<le> len"
  shows "ga_lib_ascs_parse_config_qos (qos_octets q @ rest) len q0 sts = Some (15, q, check_qos q sts)"
  using assms by (simp add: ga_lib_ascs_parse_config_qos_def start_def rd_qos_octets)

section \<open>Codec configurations on the wire\<close>

lemma codec_config_loop_step:
  assumes "csc_len \<noteq> 0" "type_len \<le> csc_len" "arr_get csc_type_len (unat type) = Some type_len" "type \<noteq> 0"
    and "codec_config_value type (xs, n + 2) csc = Some (True, csc')"
  shows "parse_codec_config_loop (type_len # type # xs, n) csc_len csc sts =
    parse_codec_config_loop (skip (unat type_len + 1) (type_len # type # xs, n))
      (csc_len - (type_len + 1)) csc' sts"
proof -
  have "unat type < length csc_type_len" using assms(3) by (auto simp: arr_get_def split: if_splits)
  then show ?thesis
    using assms leD [OF assms(2)] by (subst parse_codec_config_loop.simps) simp
qed

lemma codec_config_loop_seg:
  assumes v: "present \<Longrightarrow> t \<noteq> 0 \<and> arr_get csc_type_len (unat t) = Some (of_nat (length v) + 1) \<and>
      (\<forall>xs k. codec_config_value t (v @ xs, k) csc = Some (True, csc'))"
    and a: "\<not> present \<Longrightarrow> csc' = csc"
    and m: "length (ltv_seg present t v) + m < 256"
  shows "parse_codec_config_loop (ltv_seg present t v @ rest, n)
           (of_nat (length (ltv_seg present t v) + m)) csc sts =
         parse_codec_config_loop (rest, n + length (ltv_seg present t v)) (of_nat m) csc' sts"
proof (cases present)
  case True
  let ?l = "of_nat (length v) + 1 :: u8"
  let ?c = "of_nat (length v + 2 + m) :: u8"
  have b: "length v + 2 + m < 256" using m True by (simp add: length_ltv_seg)
  have ul: "unat ?l = length v + 1" and uc: "unat ?c = length v + 2 + m"
    using b by (simp_all add: unat_word_ariths unat_of_nat)
  have "?c \<noteq> 0" using uc by auto
  moreover have "?l \<le> ?c" unfolding word_le_nat_alt ul uc by simp
  ultimately have "parse_codec_config_loop (?l # t # v @ rest, n) ?c csc sts =
      parse_codec_config_loop (skip (unat ?l + 1) (?l # t # v @ rest, n)) (?c - (?l + 1)) csc' sts"
    using v True by (intro codec_config_loop_step) auto
  also have "skip (unat ?l + 1) (?l # t # v @ rest, n) = (rest, n + (length v + 2))"
    unfolding ul by (simp add: skip_def)
  also have "?c - (?l + 1) = of_nat m" by simp
  finally show ?thesis using True by (simp add: ltv_seg_def add.assoc)
next
  case False
  then show ?thesis using a by (simp add: ltv_seg_def)
qed

lemma codec_config_loop_end: "parse_codec_config_loop p 0 csc sts = Some (used p, csc, sts)"
  by (subst parse_codec_config_loop.simps) simp

lemma codec_config_loop_body:
  assumes "csc_encodable csc"
  shows "parse_codec_config_loop (csc_body csc @ rest, n) (of_nat (length (csc_body csc))) zero_csc sts
       = Some (n + length (csc_body csc), csc, sts)"
proof -
  let ?s1 = "zero_csc\<lparr>sampling_frequency_hz := sampling_frequency_hz csc\<rparr>"
  let ?s2 = "?s1\<lparr>frame_duration_us := frame_duration_us csc\<rparr>"
  let ?s3 = "?s2\<lparr>audio_channel_allocation := audio_channel_allocation csc\<rparr>"
  let ?s4 = "?s3\<lparr>octets_per_codec_frame := octets_per_codec_frame csc\<rparr>"
  let ?s5 = "?s4\<lparr>lc3_blocks_per_sdu := lc3_blocks_per_sdu csc\<rparr>"
  have f: "ga_lib_bap_get_sampling_freq_from_index
             (ga_lib_bap_get_sampling_freq_index (sampling_frequency_hz csc)) = sampling_frequency_hz csc"
    if "sampling_frequency_hz csc \<noteq> 0"
    using assms that by (auto simp: csc_encodable_def sampling_freq_index_inverse)
  have d: "ga_lib_bap_get_frame_duration_from_index
             (ga_lib_bap_get_frame_duration_index (frame_duration_us csc)) = frame_duration_us csc"
    if "frame_duration_us csc \<noteq> 0"
    using assms that by (auto simp: csc_encodable_def frame_duration_index_inverse)
  note seg1 = codec_config_loop_seg [where csc = zero_csc and csc' = ?s1]
  note seg2 = codec_config_loop_seg [where csc = ?s1 and csc' = ?s2]
  note seg3 = codec_config_loop_seg [where csc = ?s2 and csc' = ?s3]
  note seg4 = codec_config_loop_seg [where csc = ?s3 and csc' = ?s4]
  note seg5 = codec_config_loop_seg [where csc = ?s4 and csc' = ?s5 and m = 0, simplified]
  note ev = codec_config_value_def csc_type_len_def arr_get_def rd_simps length_ltv_seg
  show ?thesis
    unfolding csc_body_def append_assoc length_append
    apply (subst seg1, simp add: ev f, simp add: zero_csc_def, simp add: length_ltv_seg)
    apply (subst seg2, simp add: ev d, simp add: zero_csc_def, simp add: length_ltv_seg)
    apply (subst seg3, simp add: ev, simp add: zero_csc_def, simp add: length_ltv_seg)
    apply (subst seg4, simp add: ev, simp add: zero_csc_def, simp add: length_ltv_seg)
    apply (subst seg5, simp add: ev, simp add: zero_csc_def, simp add: length_ltv_seg)
    by (simp add: codec_config_loop_end)
qed

definition codec_octets :: "ga_lib_ascs_config_codec_args \<Rightarrow> u8 list" where
  "codec_octets c = [cc_target_latency c, cc_target_phy c, coding_format (cc_codec_id c)] @
     b16 (company_id (cc_codec_id c)) @ b16 (vendor_specific_codec_id (cc_codec_id c)) @
     of_nat (length (csc_body (cc_csc c))) # csc_body (cc_csc c)"

lemma length_codec_octets: "length (codec_octets c) = 8 + length (csc_body (cc_csc c))"
  by (simp add: codec_octets_def)

lemma build_cp_config_codec_octets:
  "28 \<le> len \<Longrightarrow> ga_lib_ascs_build_cp_config_codec len i c = Some (i # codec_octets c)"
  by (simp add: ga_lib_ascs_build_cp_config_codec_def codec_octets_def fill_csc_room)

lemma parse_codec_config_octets:
  assumes "csc_encodable (cc_csc c)" "int (length (codec_octets c)) \<le> len" "cc_csc c0 = zero_csc"
  shows "ga_lib_ascs_parse_codec_config (codec_octets c @ rest) len c0 sts =
    Some (length (codec_octets c), c, sts)"
proof -
  let ?b = "csc_body (cc_csc c)"
  have "uint (of_nat (length ?b) :: u8) = int (length ?b)"
    using length_csc_body [of "cc_csc c"] by (simp add: uint_nat unat_of_nat)
  moreover have "int (length ?b) \<le> len - 8" using assms(2) by (simp add: length_codec_octets)
  ultimately show ?thesis
    using codec_config_loop_body [OF assms(1), of rest "Suc (Suc (Suc (Suc (Suc (Suc (Suc (Suc 0)))))))" sts] assms(3)
    by (simp add: ga_lib_ascs_parse_codec_config_def codec_octets_def start_def rd_simps Let_def)
qed

section \<open>Length of the ASE value\<close>

lemma length_put_ltv_le:
  "put_ltv present m n t v out = Some out' \<Longrightarrow> length out' \<le> length out + 2 + unat n"
  by (auto simp: put_ltv_def ga_lib_bap_update_ltv_def bind_eq_Some_conv dest!: octets_length_SomeD
      split: if_splits)

lemma fill_csc_le:
  "\<exists>bytes. ga_lib_bap_fill_csc m csc = Some bytes \<and> length bytes \<le> 20"
proof -
  obtain o1 where o1: "put_ltv (sampling_frequency_hz csc \<noteq> 0) m 1 1
        [ga_lib_bap_get_sampling_freq_index (sampling_frequency_hz csc)] [0] = Some o1"
    using put_ltv_SomeI by fastforce
  obtain o2 where o2: "put_ltv (frame_duration_us csc \<noteq> 0) m 1 2
        [ga_lib_bap_get_frame_duration_index (frame_duration_us csc)] o1 = Some o2"
    using put_ltv_SomeI by fastforce
  obtain o3 where o3: "put_ltv (audio_channel_allocation csc \<noteq> 0) m 4 3
        (b32 (audio_channel_allocation csc)) o2 = Some o3"
    using put_ltv_SomeI [of 4 "b32 (audio_channel_allocation csc)"] by fastforce
  obtain o4 where o4: "put_ltv (octets_per_codec_frame csc \<noteq> 0) m 2 4
        (b16 (octets_per_codec_frame csc)) o3 = Some o4"
    using put_ltv_SomeI [of 2 "b16 (octets_per_codec_frame csc)"] by fastforce
  obtain o5 where o5: "put_ltv (lc3_blocks_per_sdu csc \<noteq> 0) m 1 5 [lc3_blocks_per_sdu csc] o4 = Some o5"
    using put_ltv_SomeI by fastforce
  have "length o5 \<le> 20"
    using o1 [THEN length_put_ltv_le] o2 [THEN length_put_ltv_le] o3 [THEN length_put_ltv_le]
      o4 [THEN length_put_ltv_le] o5 [THEN length_put_ltv_le] by simp
  then show ?thesis using o1 o2 o3 o4 o5 by (simp add: ga_lib_bap_fill_csc_def)
qed

lemma put_context_some:
  assumes "unat w \<le> 4"
  shows "\<exists>w' l' out'. put_context junk m t ctx (w, l, out) = Some (w', l', out') \<and>
    unat w' \<le> unat w + 4 \<and> length out' \<le> length out + unat w'"
proof (cases "ctx = 0")
  case True
  then show ?thesis by (simp add: put_context_def)
next
  case False
  have u: "unat (w + 4) = unat w + 4" using assms by (simp add: unat_word_ariths)
  have o: "octets 2 (b16 ctx) = Some (b16 ctx)" by (simp add: octets_def)
  show ?thesis
    by (cases "m - int (length out) < 4")
      (simp_all add: put_context_def ga_lib_bap_update_ltv_def False u o Let_def)
qed

lemma fill_common_le:
  "\<exists>bytes. fill_common_params junk ase m = Some bytes \<and> length bytes \<le> 15"
proof -
  let ?o = "[cig_id (qos_configured ase), cis_id (qos_configured ase), 0]"
  obtain w l out where 1: "put_context junk m 1 (preferred_audio_ctx (ase_metadata ase)) (0, 0, ?o)
        = Some (w, l, out)" "unat w \<le> 4" "length out \<le> 3 + unat w"
    using put_context_some [of 0 junk m 1 "preferred_audio_ctx (ase_metadata ase)" 0 ?o] by auto
  then obtain w' l' out' where 2: "put_context junk m 2 (streaming_audio_ctx (ase_metadata ase)) (w, l, out)
        = Some (w', l', out')" "unat w' \<le> unat w + 4" "length out' \<le> length out + unat w'"
    using put_context_some [of w junk m 2 "streaming_audio_ctx (ase_metadata ase)" l out] by auto
  with 1 show ?thesis by (simp add: fill_common_params_def Let_def)
qed

lemma put_context_room:
  assumes "ctx \<noteq> 0" "4 + int (length out) \<le> m"
  shows "put_context junk m t ctx (w, l, out) =
    Some (w + 4, l + (w + 4),
          out @ [3, t] @ b16 ctx @ map junk [length out + 4 ..< length out + unat (w + 4)])"
proof -
  have "octets 2 (b16 ctx) = Some (b16 ctx)" by (simp add: octets_def)
  then show ?thesis using assms
    by (simp add: put_context_def ga_lib_bap_update_ltv_def Let_def)
qed

text \<open>With both audio contexts present, the value ends with four octets nothing wrote.\<close>

lemma fill_common_both:
  assumes "preferred_audio_ctx (ase_metadata ase) \<noteq> 0" "streaming_audio_ctx (ase_metadata ase) \<noteq> 0"
    and "11 \<le> m"
  shows "fill_common_params junk ase m =
    Some ([cig_id (qos_configured ase), cis_id (qos_configured ase), 12] @
      [3, 1] @ b16 (preferred_audio_ctx (ase_metadata ase)) @
      [3, 2] @ b16 (streaming_audio_ctx (ase_metadata ase)) @
      [junk 11, junk 12, junk 13, junk 14])"
proof -
  have u: "[11..<15] = [11, 12, 13, 14]" by (simp add: upt_rec)
  show ?thesis
    using assms
    by (simp add: fill_common_params_def Let_def put_context_room u)
qed

lemma build_ase_response_le:
  "\<exists>bytes. ga_lib_ascs_build_ase_response junk ase m = Some bytes \<and> length bytes \<le> 44 \<and>
     take 2 bytes = [ase_id ase, state_val (ase_state ase)]"
proof -
  obtain csc where "ga_lib_bap_fill_csc (m - 24) (cfg_csc (ase_cfg ase)) = Some csc" "length csc \<le> 20"
    using fill_csc_le by blast
  then show ?thesis
    using fill_common_le [of "\<lambda>i. junk (i + 2)" ase "m - 2"]
    by (cases "ase_state ase")
      (auto simp: ga_lib_ascs_build_ase_response_def fill_codec_params_def fill_qos_params_octets Let_def)
qed


section \<open>Properties\<close>

text \<open>\<open>count_bits\<close>, which clears the lowest set bit until none is left, returns the number of
  bits set, for every 32-bit value.\<close>

theorem count_bits_card: "count_bits n = card {i. bit n i}"
  by (simp add: count_bits_eq bits_set_card bit_unsigned_iff)

text \<open>C11: a QoS configuration whose 24-bit fields fit is read back unchanged from the Config QoS
  command built for it, and the operation succeeds exactly when every parameter is in the range of
  the specification.\<close>

theorem config_qos_roundtrip:
  assumes "qos_fits q" "15 \<le> len" "response_code sts = CP_RESPONSE_SUCCESS"
  shows "\<exists>sts'. ga_lib_ascs_parse_config_qos (tl (ga_lib_ascs_build_cp_config_qos i q) @ rest) len q0 sts =
      Some (15, q, sts') \<and>
    response_code sts' =
      (if qos_valid q then CP_RESPONSE_SUCCESS else CP_RESPONSE_INVALID_CONFIGURATION_PARAMETER_VALUE)"
  using parse_config_qos_octets [OF assms(1,2)] check_qos_response [OF assms(1,3)]
  by (simp add: build_cp_config_qos_octets)

theorem config_qos_roundtrip_witness:
  "let q = zero_qos\<lparr>sdu_interval := 10000, qos_phy := 2, max_sdu := 120, max_transport_latency := 20\<rparr>
   in \<exists>sts'. ga_lib_ascs_parse_config_qos (tl (ga_lib_ascs_build_cp_config_qos 10 q) @ []) 15 zero_qos zero_sts =
      Some (15, q, sts') \<and>
    response_code sts' =
      (if qos_valid q then CP_RESPONSE_SUCCESS else CP_RESPONSE_INVALID_CONFIGURATION_PARAMETER_VALUE)"
  unfolding Let_def
  by (rule config_qos_roundtrip) (simp_all add: qos_fits_def zero_qos_def zero_sts_def)

text \<open>What the Config QoS decoder accepts from any octets it may read is a configuration in range
  that consumes 15 octets; a length below 15 is refused before anything is read.\<close>

theorem parse_config_qos_sound:
  assumes "ga_lib_ascs_parse_config_qos p len q0 sts = Some (n, q, sts')"
    and "response_code sts = CP_RESPONSE_SUCCESS"
  shows "if len < 15 then n = 0 \<and> q = q0 \<and> response_code sts' = CP_RESPONSE_INVALID_LENGTH
    else n = 15 \<and> qos_fits q \<and> (response_code sts' = CP_RESPONSE_SUCCESS \<longleftrightarrow> qos_valid q)"
proof (cases "len < 15")
  case True
  with assms show ?thesis by (auto simp: ga_lib_ascs_parse_config_qos_def)
next
  case False
  then obtain p' where "rd_qos (start p) = Some (q, p')" "n = used p'" "sts' = check_qos q sts"
    using assms(1) by (auto simp: ga_lib_ascs_parse_config_qos_def bind_eq_Some_conv)
  with rd_qos_fits [OF this(1)] check_qos_response [OF _ assms(2)] False show ?thesis by simp
qed

theorem parse_config_qos_sound_witness:
  "if (15::int) < 15 then (15::nat) = 0 \<and> zero_qos = zero_qos \<and> response_code (check_qos zero_qos zero_sts) = CP_RESPONSE_INVALID_LENGTH
    else (15::nat) = 15 \<and> qos_fits zero_qos \<and> (response_code (check_qos zero_qos zero_sts) = CP_RESPONSE_SUCCESS \<longleftrightarrow> qos_valid zero_qos)"
proof (rule parse_config_qos_sound)
  have "qos_fits zero_qos" by (simp add: qos_fits_def zero_qos_def)
  from parse_config_qos_octets [OF this, of 15 "[]" zero_qos zero_sts]
  show "ga_lib_ascs_parse_config_qos (qos_octets zero_qos) 15 zero_qos zero_sts =
      Some (15, zero_qos, check_qos zero_qos zero_sts)" by simp
qed (simp add: zero_sts_def)

text \<open>C10: a codec configuration built as a Config Codec command is decoded to the same codec, target and
  codec specific configuration with status success, whatever follows it in the write.\<close>

theorem config_codec_roundtrip:
  assumes "csc_encodable (cc_csc c)" "28 \<le> len" "28 \<le> avail"
  shows "\<exists>bytes. ga_lib_ascs_build_cp_config_codec len i c = Some bytes \<and>
    ga_lib_ascs_parse_codec_config (tl bytes @ rest) avail zero_config_codec_args sts =
      Some (length bytes - 1, c, sts)"
proof -
  have "cc_csc zero_config_codec_args = zero_csc" by (simp add: zero_config_codec_args_def)
  moreover have "int (length (codec_octets c)) \<le> avail"
    using length_csc_body [of "cc_csc c"] assms(3) by (simp add: length_codec_octets)
  ultimately show ?thesis
    using build_cp_config_codec_octets [OF assms(2), of i c] parse_codec_config_octets [OF assms(1)]
    by simp
qed

theorem config_codec_roundtrip_witness:
  "let c = zero_config_codec_args\<lparr>cc_target_phy := 2,
      cc_csc := zero_csc\<lparr>sampling_frequency_hz := 24000, frame_duration_us := 7500\<rparr>\<rparr>
   in \<exists>bytes. ga_lib_ascs_build_cp_config_codec 64 11 c = Some bytes \<and>
    ga_lib_ascs_parse_codec_config (tl bytes @ [9, 9]) 30 zero_config_codec_args zero_sts =
      Some (length bytes - 1, c, zero_sts)"
  unfolding Let_def
  by (rule config_codec_roundtrip)
    (simp_all add: csc_encodable_def zero_config_codec_args_def zero_csc_def samp_freq_index_def)

text \<open>The ASE value never exceeds 44 octets, so neither a notification buffer of 256 octets nor an
  attribute read overflows, and it opens with the identifier and the state.\<close>

theorem ase_response_bounded:
  "\<exists>bytes. ga_lib_ascs_build_ase_response junk ase m = Some bytes \<and> length bytes \<le> 44 \<and>
     take 2 bytes = [ase_id ase, state_val (ase_state ase)]"
  by (rule build_ase_response_le)

text \<open>In Enabling, Streaming and Disabling, an ASE with both audio contexts is reported with four
  octets of whatever memory the buffer held, inside the announced metadata length of 12.\<close>

theorem ase_response_leaks:
  assumes "ase_state ase \<in> {STATE_ENABLING, STATE_STREAMING, STATE_DISABLING}"
    and "preferred_audio_ctx (ase_metadata ase) \<noteq> 0" "streaming_audio_ctx (ase_metadata ase) \<noteq> 0"
    and "13 \<le> m"
  shows "\<exists>bytes. ga_lib_ascs_build_ase_response junk ase m = Some bytes \<and> length bytes = 17 \<and>
    bytes ! 4 = 12 \<and> drop 13 bytes = [junk 13, junk 14, junk 15, junk 16]"
  using assms(1) fill_common_both [OF assms(2,3), of "m - 2" "\<lambda>i. junk (i + 2)"] assms(4)
  by (auto simp: ga_lib_ascs_build_ase_response_def b16_def)

theorem ase_response_leaks_witness:
  "\<exists>bytes. ga_lib_ascs_build_ase_response (\<lambda>i. of_nat i)
      \<lparr>ase_id = 10, ase_type = 1, data_path_dir = DPD_OUTPUT, ase_state = STATE_STREAMING,
       qos_configured = zero_qos, ase_metadata = metadata_contexts 4 4, ase_cfg = zero_ase_cfg\<rparr> 64 = Some bytes \<and>
    length bytes = 17 \<and> bytes ! 4 = 12 \<and> drop 13 bytes = [of_nat 13, of_nat 14, of_nat 15, of_nat 16]"
  by (rule ase_response_leaks) (simp_all add: metadata_contexts_def)

text \<open>A Config Codec operation whose LTV carries the type 6 makes the decoder read past the end of
  its table of lengths, whatever length the LTV announces.\<close>

theorem codec_config_type_6_faults:
  assumes "csc_len \<noteq> 0" "l \<le> csc_len" "uint csc_len + 8 \<le> len"
  shows "ga_lib_ascs_parse_codec_config ([lat, phy, fmt, c0, c1, v0, v1, csc_len, l, 6] @ rest) len args sts = None"
  using assms leD [OF assms(2)]
  by (simp add: ga_lib_ascs_parse_codec_config_def start_def rd16_Cons Let_def
      parse_codec_config_loop.simps arr_get_def csc_type_len_def)

theorem codec_config_type_6_faults_witness:
  "ga_lib_ascs_parse_codec_config ([1, 2, 6, 0, 0, 0, 0, 3, 2, 6] @ [1]) 11 zero_config_codec_args zero_sts = None"
  by (rule codec_config_type_6_faults) (simp_all add: word_le_nat_alt)

end
