(* ===== verification/Pacs.thy ===== *)
theory Pacs
  imports Ascs_Lib
begin

text \<open>
  Published audio capabilities, \<open>lehs_pacs.c\<close> and \<open>gatt_profiles/ga_lib_pacs.c\<close>: the PAC
  records of the headset, the decoder of the codec capabilities, the checks of a requested
  codec configuration and of audio contexts against them, and the encoder of the PAC
  characteristics. \<open>LC3_CODEC_ID\<close> is a macro of the SDK, an argument here.
\<close>

section \<open>PAC records\<close>

record ga_lib_pacs_record =
  pac_codec_id :: ga_lib_ascs_codec_id
  codec_specific_capabilities_length :: u8
  codec_specific_capabilities :: "u8 list"
  pac_metadata_length :: u8
  pac_metadata :: "u8 list"

record ga_lib_pacs_char_data =
  num_records :: u8
  p_records :: "ga_lib_pacs_record list"

record ga_lib_pacs_audio_contexts =
  src_contexts :: u16
  snk_contexts :: u16

record ga_lib_pacs_data =
  src_pac_list :: ga_lib_pacs_char_data
  snk_pac_list :: ga_lib_pacs_char_data
  src_audio_location :: u32
  snk_audio_location :: u32
  pacs_supported :: ga_lib_pacs_audio_contexts
  pacs_available :: ga_lib_pacs_audio_contexts

text \<open>The arrays have 128 octets; what the initialiser leaves out is 0.\<close>

definition pad128 :: "u8 list \<Rightarrow> u8 list" where
  "pad128 xs = xs @ replicate (128 - length xs) 0"

definition lc3_id :: "u8 \<Rightarrow> ga_lib_ascs_codec_id" where
  "lc3_id lc3 = \<lparr>coding_format = lc3, company_id = 0, vendor_specific_codec_id = 0\<rparr>"

text \<open>
  The sampling frequencies are the bits 0, 2, 4, 5, 6 and 7 (8, 16, 24, 32, 44.1 and 48 kHz) for
  the sink and the same without bit 6 for the source; the octets per codec frame are 26 to 100.
\<close>

definition snk_pac_records_supported :: "u8 \<Rightarrow> ga_lib_pacs_record list" where
  "snk_pac_records_supported lc3 =
     [\<lparr>pac_codec_id = lc3_id lc3, codec_specific_capabilities_length = 16,
       codec_specific_capabilities = pad128 [3, 1, 0xF5, 0, 2, 2, 3, 2, 3, 1, 5, 4, 0x1A, 0, 0x64, 0],
       pac_metadata_length = 4, pac_metadata = pad128 [3, 1, 5, 2]\<rparr>]"

definition src_pac_records_supported :: "u8 \<Rightarrow> ga_lib_pacs_record list" where
  "src_pac_records_supported lc3 =
     [\<lparr>pac_codec_id = lc3_id lc3, codec_specific_capabilities_length = 16,
       codec_specific_capabilities = pad128 [3, 1, 0xB5, 0, 2, 2, 3, 2, 3, 1, 5, 4, 0x1A, 0, 0x64, 0],
       pac_metadata_length = 4, pac_metadata = pad128 [3, 1, 3, 0]\<rparr>]"

definition g_lehs_pacs_app_data :: "u8 \<Rightarrow> ga_lib_pacs_data" where
  "g_lehs_pacs_app_data lc3 =
     \<lparr>src_pac_list = \<lparr>num_records = 1, p_records = src_pac_records_supported lc3\<rparr>,
      snk_pac_list = \<lparr>num_records = 1, p_records = snk_pac_records_supported lc3\<rparr>,
      src_audio_location = 1,
      snk_audio_location = 3,
      pacs_supported = \<lparr>src_contexts = 0x0FFF, snk_contexts = 0x0FFF\<rparr>,
      pacs_available = \<lparr>src_contexts = 0x0FFF, snk_contexts = 0x0FFF\<rparr>\<rparr>"

definition lehs_set_audio_location :: "u32 \<Rightarrow> ga_lib_pacs_data \<Rightarrow> ga_lib_pacs_data" where
  "lehs_set_audio_location audio_location p =
     p\<lparr>snk_audio_location := audio_location, src_audio_location := audio_location\<rparr>"

definition lehs_pacs_verify_context_type :: "ga_lib_pacs_data \<Rightarrow> u8 \<Rightarrow> u16 \<Rightarrow> bool" where
  "lehs_pacs_verify_context_type p type req_context =
     (let sup = (if type = ASCS_CHARACTERISTIC_SNK_ASE then snk_contexts (pacs_supported p)
                 else src_contexts (pacs_supported p));
          avail = (if type = ASCS_CHARACTERISTIC_SNK_ASE then snk_contexts (pacs_available p)
                   else src_contexts (pacs_available p))
      in if req_context AND sup = 0 \<or> req_context AND avail = 0 then False else True)"

definition lehs_pacs_verify_audio_location :: "ga_lib_pacs_data \<Rightarrow> u8 \<Rightarrow> u32 \<Rightarrow> bool" where
  "lehs_pacs_verify_audio_location p type req =
     (let loc = (if type = ASCS_CHARACTERISTIC_SNK_ASE then snk_audio_location p
                 else src_audio_location p)
      in if req \<noteq> 0 \<and> loc \<noteq> 0 then req AND loc \<noteq> 0 else True)"

section \<open>Codec capabilities\<close>

record lehs_utils_pacs =
  min_data_per_frame :: u16
  max_data_per_frame :: u16
  up_sf :: u16
  up_frame_duration :: u8
  audio_ch_count :: u8
  frame_per_sdu :: u8

definition zero_utils_pacs :: lehs_utils_pacs where
  "zero_utils_pacs = \<lparr>min_data_per_frame = 0, max_data_per_frame = 0, up_sf = 0,
     up_frame_duration = 0, audio_ch_count = 0, frame_per_sdu = 0\<rparr>"

text \<open>One capability: its value, and how many octets it took, which \<open>len\<close> is reduced by.\<close>

definition lc3_capability ::
  "u8 \<Rightarrow> cursor \<Rightarrow> lehs_utils_pacs \<Rightarrow> (u8 \<times> cursor \<times> lehs_utils_pacs) option" where
  "lc3_capability type p o' =
     (if type = 1 then do { (v, p) \<leftarrow> rd16 p; Some (2, p, o'\<lparr>up_sf := v\<rparr>) }
      else if type = 2 then do { (v, p) \<leftarrow> rd8 p; Some (1, p, o'\<lparr>up_frame_duration := v\<rparr>) }
      else if type = 3 then do { (v, p) \<leftarrow> rd8 p; Some (1, p, o'\<lparr>audio_ch_count := v\<rparr>) }
      else if type = 4 then do {
        (lo, p) \<leftarrow> rd16 p; (hi, p) \<leftarrow> rd16 p;
        Some (4, p, o'\<lparr>min_data_per_frame := lo, max_data_per_frame := hi\<rparr>) }
      else if type = 5 then do { (v, p) \<leftarrow> rd8 p; Some (1, p, o'\<lparr>frame_per_sdu := v\<rparr>) }
      else Some (0, p, o'))"

text \<open>
  The loop: the length octet of an LTV is stepped over unread. \<open>len\<close> is an octet and may
  wrap around; the loop then reads on until the array ends.
\<close>

function fill_lc3_codec_param :: "cursor \<Rightarrow> u8 \<Rightarrow> lehs_utils_pacs \<Rightarrow> lehs_utils_pacs option" where
  "fill_lc3_codec_param data len o' =
     (if len > 2 then do {
        (type, p) \<leftarrow> rd8 (skip 1 data);
        (n, p, o') \<leftarrow> lc3_capability type p o';
        fill_lc3_codec_param p (len - 2 - n) o' }
      else Some o')"
  by pat_completeness auto

lemma lc3_capability_shrinks:
  "lc3_capability type p o' = Some (n, p', o2) \<Longrightarrow> length (fst p') \<le> length (fst p)"
  by (auto simp: lc3_capability_def bind_eq_Some_conv skip_def dest!: rd_dests split: if_splits)

termination fill_lc3_codec_param
proof (relation "measure (\<lambda>(p, len, o'). length (fst p))", goal_cases)
  case 1
  then show ?case by simp
next
  case (2 data len o' x type p y n z p' o'')
  have "length (fst p) < length (fst data)"
    using 2(2,3) by (auto simp: skip_def dest!: rd8_SomeD)
  moreover have "length (fst p') \<le> length (fst p)"
    using 2(4-6) by (auto intro: lc3_capability_shrinks)
  ultimately show ?case by simp
qed

declare fill_lc3_codec_param.simps [simp del]

text \<open>\<open>get_num_bit_set\<close> is the loop of \<open>count_bits\<close> with an 8-bit counter.\<close>

definition get_num_bit_set :: "u32 \<Rightarrow> u8" where
  "get_num_bit_set v = of_nat (count_bits v)"

definition lehs_pacs_compare_codec_param :: "lehs_utils_pacs \<Rightarrow> ga_lib_ascs_config_codec_args \<Rightarrow> bool" where
  "lehs_pacs_compare_codec_param codec_param codec_arg =
     (let csc = cc_csc codec_arg;
          opcf = octets_per_codec_frame csc;
          sf_index = ga_lib_bap_get_sampling_freq_index (sampling_frequency_hz csc);
          fd_index = ga_lib_bap_get_frame_duration_index (frame_duration_us csc);
          num_ch = (if audio_channel_allocation csc \<noteq> 0
                    then get_num_bit_set (audio_channel_allocation csc) else 1);
          block_per_sdu = (ucast (lc3_blocks_per_sdu csc) :: u32)
      in if opcf \<noteq> 0 \<and> (min_data_per_frame codec_param > opcf \<or> max_data_per_frame codec_param < opcf)
         then False
         else if sampling_frequency_hz csc \<noteq> 0 \<and>
                 (sf_index = 0 \<or> \<not> bit (up_sf codec_param) (unat (sf_index - 1)))
         then False
         else if frame_duration_us csc \<noteq> 0 \<and>
                 (fd_index = 0xFF \<or> \<not> bit (up_frame_duration codec_param) (unat fd_index))
         then False
         else if num_ch \<noteq> 0 \<and> block_per_sdu \<noteq> 0 \<and>
                 block_per_sdu * ucast num_ch < ucast (frame_per_sdu codec_param)
         then False
         else True)"

definition lehs_pacs_verify_audio_config_param ::
  "ga_lib_ascs_config_codec_args \<Rightarrow> ga_lib_pacs_record \<Rightarrow> bool option" where
  "lehs_pacs_verify_audio_config_param p_cc p_record =
     (if coding_format (pac_codec_id p_record) \<noteq> coding_format (cc_codec_id p_cc) then Some False
      else do {
        param \<leftarrow> fill_lc3_codec_param (start (codec_specific_capabilities p_record))
                    (codec_specific_capabilities_length p_record) zero_utils_pacs;
        Some (lehs_pacs_compare_codec_param param p_cc) })"

text \<open>The loop over the first \<open>num_records\<close> records; the first record that fits decides.\<close>

fun verify_records ::
  "ga_lib_pacs_data \<Rightarrow> u8 \<Rightarrow> ga_lib_ascs_config_codec_args \<Rightarrow> nat \<Rightarrow> ga_lib_pacs_record list
    \<Rightarrow> bool option" where
  "verify_records p type p_cc 0 rs = Some False"
| "verify_records p type p_cc (Suc n) [] = None"
| "verify_records p type p_cc (Suc n) (r # rs) = do {
     is_valid \<leftarrow> lehs_pacs_verify_audio_config_param p_cc r;
     if is_valid
     then Some (lehs_pacs_verify_audio_location p type (audio_channel_allocation (cc_csc p_cc)))
     else verify_records p type p_cc n rs }"

definition lehs_pacs_verify_src_codec_config ::
  "ga_lib_pacs_data \<Rightarrow> ga_lib_ascs_config_codec_args \<Rightarrow> bool option" where
  "lehs_pacs_verify_src_codec_config p p_cc =
     verify_records p ASCS_CHARACTERISTIC_SRC_ASE p_cc (unat (num_records (src_pac_list p)))
       (p_records (src_pac_list p))"

definition lehs_pacs_verify_snk_codec_config ::
  "ga_lib_pacs_data \<Rightarrow> ga_lib_ascs_config_codec_args \<Rightarrow> bool option" where
  "lehs_pacs_verify_snk_codec_config p p_cc =
     verify_records p ASCS_CHARACTERISTIC_SNK_ASE p_cc (unat (num_records (snk_pac_list p)))
       (p_records (snk_pac_list p))"

section \<open>The PAC characteristics\<close>

definition pac_record_octets :: "ga_lib_pacs_record \<Rightarrow> u8 list option" where
  "pac_record_octets r = do {
     caps \<leftarrow> octets (unat (codec_specific_capabilities_length r)) (codec_specific_capabilities r);
     md \<leftarrow> octets (unat (pac_metadata_length r)) (pac_metadata r);
     Some ([coding_format (pac_codec_id r)] @ b16 (company_id (pac_codec_id r)) @
           b16 (vendor_specific_codec_id (pac_codec_id r)) @
           codec_specific_capabilities_length r # caps @ pac_metadata_length r # md) }"

fun pac_records_loop ::
  "int \<Rightarrow> nat \<Rightarrow> nat \<Rightarrow> ga_lib_pacs_record list \<Rightarrow> u8 list \<times> nat \<Rightarrow> (u8 list \<times> nat) option" where
  "pac_records_loop max_len idx 0 rs st = Some st"
| "pac_records_loop max_len idx (Suc n) [] st = None"
| "pac_records_loop max_len idx (Suc n) (r # rs) (out, written) =
     (if max_len - int (length out) <
           1 + 2 + 2 + 1 + uint (codec_specific_capabilities_length r) + 1 + uint (pac_metadata_length r)
      then Some (out, written)
      else do {
        o' \<leftarrow> pac_record_octets r;
        pac_records_loop max_len (idx + 1) n rs (out @ o', idx + 1) })"

definition ga_lib_pacs_build_read_rsp_sink_src_cap_pkt ::
  "u8 \<Rightarrow> ga_lib_pacs_record list \<Rightarrow> int \<Rightarrow> nat \<Rightarrow> (u8 list \<times> nat) option" where
  "ga_lib_pacs_build_read_rsp_sink_src_cap_pkt num_of_records p_record_list max_len written =
     pac_records_loop max_len 0 (unat num_of_records) p_record_list ([num_of_records], written)"

section \<open>What the published records accept\<close>

lemma fill_lc3_step:
  "2 < len \<Longrightarrow> fill_lc3_codec_param (l # type # xs, k) len o' = do {
     (n, p, o') \<leftarrow> lc3_capability type (xs, k + 2) o';
     fill_lc3_codec_param p (len - 2 - n) o' }"
  by (subst fill_lc3_codec_param.simps) (simp add: skip_def)

lemma fill_lc3_end: "\<not> 2 < len \<Longrightarrow> fill_lc3_codec_param p len o' = Some o'"
  by (subst fill_lc3_codec_param.simps) simp

lemma snk_capabilities:
  "fill_lc3_codec_param (start (pad128 [3, 1, 0xF5, 0, 2, 2, 3, 2, 3, 1, 5, 4, 0x1A, 0, 0x64, 0])) 16 zero_utils_pacs
    = Some \<lparr>min_data_per_frame = 26, max_data_per_frame = 100, up_sf = 0xF5, up_frame_duration = 3,
       audio_ch_count = 1, frame_per_sdu = 0\<rparr>"
  by (simp add: pad128_def start_def fill_lc3_step fill_lc3_end lc3_capability_def rd_simps le16_def
      zero_utils_pacs_def word_less_nat_alt)

lemma src_capabilities:
  "fill_lc3_codec_param (start (pad128 [3, 1, 0xB5, 0, 2, 2, 3, 2, 3, 1, 5, 4, 0x1A, 0, 0x64, 0])) 16 zero_utils_pacs
    = Some \<lparr>min_data_per_frame = 26, max_data_per_frame = 100, up_sf = 0xB5, up_frame_duration = 3,
       audio_ch_count = 1, frame_per_sdu = 0\<rparr>"
  by (simp add: pad128_def start_def fill_lc3_step fill_lc3_end lc3_capability_def rd_simps le16_def
      zero_utils_pacs_def word_less_nat_alt)

definition pac_accepts :: "u32 set \<Rightarrow> ga_lib_ascs_csc \<Rightarrow> bool" where
  "pac_accepts fs csc \<longleftrightarrow>
     (octets_per_codec_frame csc = 0 \<or> 26 \<le> octets_per_codec_frame csc \<and> octets_per_codec_frame csc \<le> 100) \<and>
     (sampling_frequency_hz csc = 0 \<or> sampling_frequency_hz csc \<in> fs) \<and>
     frame_duration_us csc \<in> {0, 7500, 10000}"

lemma samp_freq_index_cases:
  assumes "f \<in> set samp_freq_index"
  obtains i where "i < 13" "f = samp_freq_index ! i" "ga_lib_bap_get_sampling_freq_index f = of_nat (i + 1)"
  using assms sampling_freq_index_nth by (auto simp: in_set_conv_nth)

lemma sf_bit_snk:
  "\<not> (ga_lib_bap_get_sampling_freq_index f = 0 \<or>
      \<not> bit (0xF5 :: u16) (unat (ga_lib_bap_get_sampling_freq_index f - 1))) \<longleftrightarrow>
   f \<in> {8000, 16000, 24000, 32000, 44100, 48000}"
proof (cases "f \<in> set samp_freq_index")
  case True
  then show ?thesis
    unfolding samp_freq_index_def
    by (auto simp: ga_lib_bap_get_sampling_freq_index_def samp_freq_index_def)
next
  case False
  then show ?thesis using sampling_freq_index_zero_iff [of f] by (auto simp: samp_freq_index_def)
qed

lemma sf_bit_src:
  "\<not> (ga_lib_bap_get_sampling_freq_index f = 0 \<or>
      \<not> bit (0xB5 :: u16) (unat (ga_lib_bap_get_sampling_freq_index f - 1))) \<longleftrightarrow>
   f \<in> {8000, 16000, 24000, 32000, 48000}"
proof (cases "f \<in> set samp_freq_index")
  case True
  then show ?thesis
    unfolding samp_freq_index_def
    by (auto simp: ga_lib_bap_get_sampling_freq_index_def samp_freq_index_def)
next
  case False
  then show ?thesis using sampling_freq_index_zero_iff [of f] by (auto simp: samp_freq_index_def)
qed

lemma fd_bit:
  "\<not> (ga_lib_bap_get_frame_duration_index d = 0xFF \<or>
      \<not> bit (3 :: u8) (unat (ga_lib_bap_get_frame_duration_index d))) \<longleftrightarrow> d \<in> {7500, 10000}"
  by (auto simp: ga_lib_bap_get_frame_duration_index_def)

lemma compare_accepts:
  assumes "\<And>f. \<not> (ga_lib_bap_get_sampling_freq_index f = 0 \<or>
      \<not> bit s (unat (ga_lib_bap_get_sampling_freq_index f - 1))) \<longleftrightarrow> f \<in> fs"
  shows "lehs_pacs_compare_codec_param
     \<lparr>min_data_per_frame = 26, max_data_per_frame = 100, up_sf = s, up_frame_duration = 3,
       audio_ch_count = 1, frame_per_sdu = 0\<rparr> c = pac_accepts fs (cc_csc c)"
proof -
  have s: "(ga_lib_bap_get_sampling_freq_index f = 0 \<or>
      \<not> bit s (unat (ga_lib_bap_get_sampling_freq_index f - 1))) \<longleftrightarrow> f \<notin> fs" for f
    using assms [of f] by blast
  have d: "(ga_lib_bap_get_frame_duration_index d = 0xFF \<or>
      \<not> bit (3 :: u8) (unat (ga_lib_bap_get_frame_duration_index d))) \<longleftrightarrow> d \<notin> {7500, 10000}" for d
    using fd_bit [of d] by blast
  show ?thesis
    unfolding lehs_pacs_compare_codec_param_def Let_def
    by (simp only: lehs_utils_pacs.simps s d) (auto simp: pac_accepts_def not_less)
qed

lemma verify_snk:
  "lehs_pacs_verify_snk_codec_config (g_lehs_pacs_app_data lc3) c =
     Some (coding_format (cc_codec_id c) = lc3 \<and>
       pac_accepts {8000, 16000, 24000, 32000, 44100, 48000} (cc_csc c) \<and>
       (audio_channel_allocation (cc_csc c) = 0 \<or> audio_channel_allocation (cc_csc c) AND 3 \<noteq> 0))"
  by (auto simp: lehs_pacs_verify_snk_codec_config_def g_lehs_pacs_app_data_def
      snk_pac_records_supported_def lehs_pacs_verify_audio_config_param_def snk_capabilities
      compare_accepts [OF sf_bit_snk] lc3_id_def lehs_pacs_verify_audio_location_def)

lemma verify_src:
  "lehs_pacs_verify_src_codec_config (g_lehs_pacs_app_data lc3) c =
     Some (coding_format (cc_codec_id c) = lc3 \<and>
       pac_accepts {8000, 16000, 24000, 32000, 48000} (cc_csc c) \<and>
       (audio_channel_allocation (cc_csc c) = 0 \<or> audio_channel_allocation (cc_csc c) AND 1 \<noteq> 0))"
  by (auto simp: lehs_pacs_verify_src_codec_config_def g_lehs_pacs_app_data_def
      src_pac_records_supported_def lehs_pacs_verify_audio_config_param_def src_capabilities
      compare_accepts [OF sf_bit_src] lc3_id_def lehs_pacs_verify_audio_location_def)

text \<open>The configuration a client writes for a row of the unicast settings.\<close>

definition row_csc :: "ga_bap_config \<Rightarrow> ga_lib_ascs_csc" where
  "row_csc r = zero_csc\<lparr>sampling_frequency_hz := sf r, frame_duration_us := fd r,
     octets_per_codec_frame := opcf r\<rparr>"

lemma row_csc_sel [simp]:
  "sampling_frequency_hz (row_csc r) = sf r" "frame_duration_us (row_csc r) = fd r"
  "octets_per_codec_frame (row_csc r) = opcf r" "audio_channel_allocation (row_csc r) = 0"
  by (simp_all add: row_csc_def zero_csc_def)

lemma cfg_row_sel [simp]:
  "sf (cfg_row a b c d e f g h) = b" "fd (cfg_row a b c d e f g h) = c"
  "opcf (cfg_row a b c d e f g h) = e"
  by (simp_all add: cfg_row_def)

lemma unicast_rows_accepted:
  assumes "r \<in> set bap_unicast_stream_cfgs"
  shows "pac_accepts {8000, 16000, 24000, 32000, 44100, 48000} (row_csc r) = (opcf r \<le> 100)"
    "pac_accepts {8000, 16000, 24000, 32000, 48000} (row_csc r) = (opcf r \<le> 100 \<and> sf r \<noteq> 44100)"
proof -
  have "\<forall>r\<in>set bap_unicast_stream_cfgs. 26 \<le> opcf r \<and> fd r \<in> {7500, 10000} \<and>
      sf r \<in> {8000, 16000, 24000, 32000, 44100, 48000}"
    by (simp add: bap_unicast_stream_cfgs_def)
  then have r: "26 \<le> opcf r" "fd r \<in> {7500, 10000}" "sf r \<in> {8000, 16000, 24000, 32000, 44100, 48000}"
    using assms by blast+
  from r show "pac_accepts {8000, 16000, 24000, 32000, 44100, 48000} (row_csc r) = (opcf r \<le> 100)"
    by (auto simp: pac_accepts_def)
  from r show "pac_accepts {8000, 16000, 24000, 32000, 48000} (row_csc r) = (opcf r \<le> 100 \<and> sf r \<noteq> 44100)"
    by (auto simp: pac_accepts_def)
qed

section \<open>The size of a PAC value\<close>

lemma pac_record_octets_length:
  "pac_record_octets r = Some o' \<Longrightarrow>
     int (length o') = 7 + uint (codec_specific_capabilities_length r) + uint (pac_metadata_length r)"
  by (auto simp: pac_record_octets_def bind_eq_Some_conv dest!: octets_length_SomeD)

lemma pac_records_loop_bound:
  "pac_records_loop m idx n rs (out, w) = Some (out', w') \<Longrightarrow> int (length out) \<le> m \<Longrightarrow>
     int (length out') \<le> m \<and> (w' = w \<or> idx < w' \<and> w' \<le> idx + n)"
proof (induction m idx n rs "(out, w)" arbitrary: out w rule: pac_records_loop.induct)
  case (3 m idx n r rs out w)
  show ?case
  proof (cases "m - int (length out) < 1 + 2 + 2 + 1 +
      uint (codec_specific_capabilities_length r) + 1 + uint (pac_metadata_length r)")
    case True
    with 3 show ?thesis by auto
  next
    case False
    with 3(2) obtain o' where o': "pac_record_octets r = Some o'"
      "pac_records_loop m (idx + 1) n rs (out @ o', idx + 1) = Some (out', w')"
      by (auto simp: bind_eq_Some_conv)
    moreover have "int (length (out @ o')) \<le> m"
      using False pac_record_octets_length [OF o'(1)] by simp
    ultimately show ?thesis using 3(1) [OF False _ o'(2)] by fastforce
  qed
qed auto

section \<open>Properties\<close>

text \<open>A sink ASE accepts a codec configuration exactly when it names LC3, a published sampling
  frequency, 7.5 or 10 ms frames and 26 to 100 octets per frame, each where it is given, and an
  audio channel allocation that shares a location with the headset.\<close>

theorem snk_codec_config_accepted:
  "lehs_pacs_verify_snk_codec_config (g_lehs_pacs_app_data lc3) c =
     Some (coding_format (cc_codec_id c) = lc3 \<and>
       pac_accepts {8000, 16000, 24000, 32000, 44100, 48000} (cc_csc c) \<and>
       \<not> (audio_channel_allocation (cc_csc c) \<noteq> 0 \<and> audio_channel_allocation (cc_csc c) AND 3 = 0))"
  unfolding verify_snk by simp

text \<open>Of the 32 settings of the unicast table the published records accept those with at most 100
  octets per frame, and for a source ASE only the ones that are not 44.1 kHz.\<close>

theorem unicast_settings_accepted:
  assumes "r \<in> set bap_unicast_stream_cfgs" "c = \<lparr>cc_codec_id = lc3_id lc3, cc_target_latency = lat,
      cc_target_phy = phy, cc_csc = row_csc r\<rparr>"
  shows "lehs_pacs_verify_snk_codec_config (g_lehs_pacs_app_data lc3) c = Some (opcf r \<le> 100) \<and>
    lehs_pacs_verify_src_codec_config (g_lehs_pacs_app_data lc3) c =
      Some (opcf r \<le> 100 \<and> sf r \<noteq> 44100)"
  unfolding verify_snk verify_src by (simp add: assms(2) lc3_id_def unicast_rows_accepted [OF assms(1)])

theorem unicast_settings_accepted_witness:
  "let r = cfg_row BAP_CODEC_CONFIG_48_6_2 48000 10000 10000 155 UNFRAMED 13 100;
       c = \<lparr>cc_codec_id = lc3_id 6, cc_target_latency = 1, cc_target_phy = 2, cc_csc = row_csc r\<rparr>
   in lehs_pacs_verify_snk_codec_config (g_lehs_pacs_app_data 6) c = Some (opcf r \<le> 100) \<and>
    lehs_pacs_verify_src_codec_config (g_lehs_pacs_app_data 6) c = Some (opcf r \<le> 100 \<and> sf r \<noteq> 44100)"
  unfolding Let_def
  by (rule unicast_settings_accepted [OF _ refl]) (simp add: bap_unicast_stream_cfgs_def)

text \<open>The PAC value never exceeds the response buffer it is built for and counts the records it
  holds, but the count it sends is the total: a buffer without room for the one record of the
  headset gets a value that announces a record and holds none.\<close>

theorem pac_value_bounded:
  assumes "1 \<le> max_len" "ga_lib_pacs_build_read_rsp_sink_src_cap_pkt n rs max_len 0 = Some (out, w)"
  shows "int (length out) \<le> max_len \<and> w \<le> unat n \<and>
    ga_lib_pacs_build_read_rsp_sink_src_cap_pkt 1 (snk_pac_records_supported lc3) 27 0 = Some ([1], 0)"
  using pac_records_loop_bound [OF assms(2) [unfolded ga_lib_pacs_build_read_rsp_sink_src_cap_pkt_def]] assms(1)
  by (auto simp: ga_lib_pacs_build_read_rsp_sink_src_cap_pkt_def snk_pac_records_supported_def)

theorem pac_value_bounded_witness:
  "int (length [1 :: u8]) \<le> 22 \<and> (0 :: nat) \<le> unat (1 :: u8) \<and>
    ga_lib_pacs_build_read_rsp_sink_src_cap_pkt 1 (snk_pac_records_supported 6) 27 0 = Some ([1], 0)"
  by (rule pac_value_bounded [where rs = "snk_pac_records_supported 6"])
    (simp_all add: ga_lib_pacs_build_read_rsp_sink_src_cap_pkt_def snk_pac_records_supported_def)

end
