(* ===== verification/Gatt_Intf.thy ===== *)
theory Gatt_Intf
  imports Lehs_Prelude
begin

text \<open>
  The GATT interface library, \<open>gatt_profiles/gatt_interface.c\<close>: the service discovery state
  machine with its tables of characteristics and included services, the gate every
  notification passes, and the lists of client operations (enabling notifications, reading
  characteristics). The calls into the Bluetooth stack are arguments (an environment) and
  the requests made to it are recorded, in order, as actions.
\<close>

section \<open>The stack\<close>

datatype gatt_status =
    GATT_SUCCESS | GATT_INVALID_HANDLE | GATT_READ_NOT_PERMIT | GATT_INVALID_ATTR_LEN
  | GATT_ATTRIBUTE_NOT_FOUND | GATT_NO_RESOURCES | GATT_ERROR | GATT_OUT_OF_RANGE
  | GATT_CCCD_IMPROPER_CONFIGURED | GATT_PRC_IN_PROGRESS | GATT_WRITE_REQ_REJECTED | GATT_APPLICATION u8 | GATT_RESULT wiced_result

text \<open>A handler that returns a \<open>wiced_result_t\<close> where a GATT status is expected; success is 0 in both.\<close>

definition status_of_result :: "wiced_result \<Rightarrow> gatt_status" where
  "status_of_result r = (if r = WICED_SUCCESS then GATT_SUCCESS else GATT_RESULT r)"

datatype wiced_bt_uuid = UUID16 u16 | UUID32 u32 | UUID128 "u8 list"

datatype gatt_discovery_type =
    GATT_DISCOVER_SERVICES_ALL | GATT_DISCOVER_SERVICES_BY_UUID | GATT_DISCOVER_INCLUDED_SERVICES
  | GATT_DISCOVER_CHARACTERISTICS | GATT_DISCOVER_CHARACTERISTIC_DESCRIPTORS

datatype gatt_action =
    DISCOVER u16 gatt_discovery_type "wiced_bt_uuid option" u16 u16
  | DISCOVERY_COMPLETE_CALLBACK u16 gatt_status
  | START_DISCOVERY_TIMER u16
  | SEND_NOTIFICATION u16 u16 "u8 list"
  | SEND_INDICATION u16 u16 "u8 list"
  | SEND_WRITE u16 u16 "u8 list"
  | SEND_READ u16 u16
  | OPERATION_COMPLETE_CALLBACK u16 gatt_status

text \<open>
  \<open>client_send\<close> is the status the stack returns for a request, \<open>get_buffer n\<close> whether an
  allocation of \<open>n\<close> octets succeeds, \<open>bearer_mtu\<close> the negotiated MTU, \<open>gatt_hdr_size\<close>
  the constant of the SDK, and \<open>cccd_callback\<close> the installed callback, if any.
\<close>

record gatt_env =
  client_send :: "gatt_action \<Rightarrow> gatt_status"
  get_buffer :: "nat \<Rightarrow> bool"
  bearer_mtu :: "u16 \<Rightarrow> u16"
  gatt_hdr_size :: u16
  cccd_callback :: "(u16 \<Rightarrow> u16 \<Rightarrow> u16) option"
  same_uuid :: "wiced_bt_uuid \<Rightarrow> wiced_bt_uuid \<Rightarrow> bool"

text \<open>The bits of a CCCD and the UUIDs of two declarations, as the Core Specification has them.\<close>

abbreviation (input) GATT_CLIENT_CONFIG_NOTIFICATION :: u16 where "GATT_CLIENT_CONFIG_NOTIFICATION \<equiv> 1"
abbreviation (input) GATT_CLIENT_CONFIG_INDICATION :: u16 where "GATT_CLIENT_CONFIG_INDICATION \<equiv> 2"
abbreviation (input) GATT_UUID_CHAR_DECLARE :: u16 where "GATT_UUID_CHAR_DECLARE \<equiv> 0x2803"
abbreviation (input) GATT_UUID_CHAR_CLIENT_CONFIG :: u16 where "GATT_UUID_CHAR_CLIENT_CONFIG \<equiv> 0x2902"

section \<open>Discovery contexts\<close>

record gatt_intf_characteristic_info =
  ci_uuid :: wiced_bt_uuid
  characteristic_type :: u8

record gatt_intf_characteristic_handles =
  ch_handle :: u16
  value_handle :: u16
  descriptor_handle :: u16

record gatt_intf_service_range =
  start_handle :: u16
  end_handle :: u16

record gatt_intf_included_service_types =
  service_handle :: u16
  inc_service :: gatt_intf_service_range
  p_inc_info :: "wiced_bt_uuid option"

record gatt_intf_characteristic_handles_result =
  handles :: gatt_intf_characteristic_handles
  p_char_info :: "gatt_intf_characteristic_info option"

datatype service_discovery_state =
    SERVICE_DISCOVERY_STATE_IDLE
  | SERVICE_DISCOVERY_STATE_DISCOVER_SERVICE
  | SERVICE_DISCOVERY_STATE_DISCOVER_INCLUDE_SERVICES
  | SERVICE_DISCOVERY_STATE_DISCOVER_CHARACTERISTICS
  | SERVICE_DISCOVERY_STATE_DISCOVER_CHARACTERISTIC_DESCRIPTORS
  | SERVICE_DISCOVERY_STATE_DISCOVER_COMPLETE

text \<open>
  The arrays behind the context have the length of \<open>max_characteristic_handles\<close> and
  \<open>max_included_services\<close>; \<open>p_inc_service_types\<close> is \<open>NULL\<close> when there is no included
  service to look for.
\<close>

record gatt_intf_service_discovery_ctx =
  service_discovery_state :: service_discovery_state
  p_id :: "wiced_bt_uuid option"
  service_range :: gatt_intf_service_range
  p_char_handles :: "gatt_intf_characteristic_handles_result list"
  p_inc_service_types :: "gatt_intf_included_service_types list"
  last_found_char_handle :: u16
  has_complete_callback :: bool

definition zero_handles :: gatt_intf_characteristic_handles where
  "zero_handles = \<lparr>ch_handle = 0, value_handle = 0, descriptor_handle = 0\<rparr>"

definition zero_range :: gatt_intf_service_range where
  "zero_range = \<lparr>start_handle = 0, end_handle = 0\<rparr>"

definition gatt_intf_alloc_service_discovery_ctx ::
  "gatt_env \<Rightarrow> nat \<Rightarrow> u8 \<Rightarrow> u8 \<Rightarrow> gatt_intf_service_discovery_ctx option" where
  "gatt_intf_alloc_service_discovery_ctx env ctx_size max_char_handles max_inc_handles =
     (if get_buffer env ctx_size
      then Some \<lparr>service_discovery_state = SERVICE_DISCOVERY_STATE_IDLE, p_id = None,
             service_range = zero_range,
             p_char_handles = replicate (unat max_char_handles) \<lparr>handles = zero_handles, p_char_info = None\<rparr>,
             p_inc_service_types = replicate (unat max_inc_handles)
               \<lparr>service_handle = 0, inc_service = zero_range, p_inc_info = None\<rparr>,
             last_found_char_handle = 0, has_complete_callback = False\<rparr>
      else None)"

definition gatt_intf_set_discovery_complete_callback ::
  "bool \<Rightarrow> gatt_intf_service_discovery_ctx \<Rightarrow> gatt_intf_service_discovery_ctx" where
  "gatt_intf_set_discovery_complete_callback f sdc = sdc\<lparr>has_complete_callback := f\<rparr>"

text \<open>The two ways the table of characteristics is filled; each returns the next free index.\<close>

definition gatt_intf_copy_unique_characteristic_info ::
  "gatt_intf_characteristic_info list \<Rightarrow> u8 \<Rightarrow> gatt_intf_service_discovery_ctx
    \<Rightarrow> (u8 \<times> gatt_intf_service_discovery_ctx) option" where
  "gatt_intf_copy_unique_characteristic_info infos n sdc =
     (if unat n > length (p_char_handles sdc) then Some (0, sdc)
      else if unat n > length infos then None
      else Some (n, sdc\<lparr>p_char_handles :=
             map2 (\<lambda>c i. c\<lparr>p_char_info := Some i\<rparr>) (take (unat n) (p_char_handles sdc)) (take (unat n) infos)
             @ drop (unat n) (p_char_handles sdc)\<rparr>))"

definition gatt_intf_repeat_characteristic_info ::
  "u8 \<Rightarrow> gatt_intf_characteristic_info \<Rightarrow> u8 \<Rightarrow> gatt_intf_service_discovery_ctx
    \<Rightarrow> u8 \<times> gatt_intf_service_discovery_ctx" where
  "gatt_intf_repeat_characteristic_info start_index info num_repeat sdc =
     (if unat start_index + unat num_repeat > length (p_char_handles sdc) then (0, sdc)
      else (start_index + num_repeat, sdc\<lparr>p_char_handles :=
             take (unat start_index) (p_char_handles sdc)
             @ map (\<lambda>c. c\<lparr>p_char_info := Some info\<rparr>)
                 (take (unat num_repeat) (drop (unat start_index) (p_char_handles sdc)))
             @ drop (unat start_index + unat num_repeat) (p_char_handles sdc)\<rparr>))"

definition gatt_intf_repeat_included_service_info ::
  "u8 \<Rightarrow> wiced_bt_uuid \<Rightarrow> u8 \<Rightarrow> gatt_intf_service_discovery_ctx
    \<Rightarrow> u8 \<times> gatt_intf_service_discovery_ctx" where
  "gatt_intf_repeat_included_service_info start_index info num_repeat sdc =
     (if unat start_index + unat num_repeat > length (p_inc_service_types sdc) then (0, sdc)
      else (start_index + num_repeat, sdc\<lparr>p_inc_service_types :=
             take (unat start_index) (p_inc_service_types sdc)
             @ map (\<lambda>c. c\<lparr>p_inc_info := Some info\<rparr>)
                 (take (unat num_repeat) (drop (unat start_index) (p_inc_service_types sdc)))
             @ drop (unat start_index + unat num_repeat) (p_inc_service_types sdc)\<rparr>))"

section \<open>The discovery state machine\<close>

definition gatt_intf_start_service_discovery ::
  "gatt_env \<Rightarrow> u16 \<Rightarrow> wiced_bt_uuid option \<Rightarrow> u16 \<Rightarrow> gatt_intf_service_discovery_ctx
    \<Rightarrow> (wiced_result + gatt_status) \<times> gatt_intf_service_discovery_ctx \<times> gatt_action list" where
  "gatt_intf_start_service_discovery env conn_id p_id' s_hdl sdc =
     (case p_id' of
        None \<Rightarrow> (Inl WICED_BT_ERROR, sdc, [])
      | Some u \<Rightarrow>
          if service_discovery_state sdc \<noteq> SERVICE_DISCOVERY_STATE_IDLE
          then (Inl WICED_ADDRESS_IN_USE, sdc, [])
          else
            let a = DISCOVER conn_id GATT_DISCOVER_SERVICES_BY_UUID (Some u) s_hdl 0xffff
            in (Inr (client_send env a),
                sdc\<lparr>p_id := Some u, last_found_char_handle := 0,
                    service_discovery_state := SERVICE_DISCOVERY_STATE_DISCOVER_SERVICE\<rparr>, [a]))"

text \<open>The next phase and the request that opens it; a state without a case keeps the defaults.\<close>

definition next_phase ::
  "gatt_intf_service_discovery_ctx \<Rightarrow> service_discovery_state \<times> gatt_discovery_type" where
  "next_phase sdc =
     (case service_discovery_state sdc of
        SERVICE_DISCOVERY_STATE_DISCOVER_SERVICE \<Rightarrow>
          if p_inc_service_types sdc \<noteq> []
          then (SERVICE_DISCOVERY_STATE_DISCOVER_INCLUDE_SERVICES, GATT_DISCOVER_INCLUDED_SERVICES)
          else (SERVICE_DISCOVERY_STATE_DISCOVER_CHARACTERISTICS, GATT_DISCOVER_CHARACTERISTICS)
      | SERVICE_DISCOVERY_STATE_DISCOVER_INCLUDE_SERVICES \<Rightarrow>
          (SERVICE_DISCOVERY_STATE_DISCOVER_CHARACTERISTICS, GATT_DISCOVER_CHARACTERISTICS)
      | SERVICE_DISCOVERY_STATE_DISCOVER_CHARACTERISTICS \<Rightarrow>
          (SERVICE_DISCOVERY_STATE_DISCOVER_CHARACTERISTIC_DESCRIPTORS,
           GATT_DISCOVER_CHARACTERISTIC_DESCRIPTORS)
      | SERVICE_DISCOVERY_STATE_DISCOVER_CHARACTERISTIC_DESCRIPTORS \<Rightarrow>
          (SERVICE_DISCOVERY_STATE_DISCOVER_COMPLETE, GATT_DISCOVER_SERVICES_ALL)
      | s \<Rightarrow> (s, GATT_DISCOVER_SERVICES_ALL))"

definition gatt_intf_internal_send_next_service_discovery_cmd ::
  "gatt_env \<Rightarrow> u16 \<Rightarrow> gatt_intf_service_discovery_ctx
    \<Rightarrow> gatt_status \<times> gatt_intf_service_discovery_ctx \<times> gatt_action list" where
  "gatt_intf_internal_send_next_service_discovery_cmd env conn_id sdc =
     (let (s, t) = next_phase sdc;
          a = DISCOVER conn_id t None (start_handle (service_range sdc)) (end_handle (service_range sdc));
          (status, acts) = (if s \<noteq> SERVICE_DISCOVERY_STATE_DISCOVER_COMPLETE
                            then (client_send env a, [a]) else (GATT_SUCCESS, []))
      in (status,
          sdc\<lparr>service_discovery_state :=
            (if status \<noteq> GATT_SUCCESS then SERVICE_DISCOVERY_STATE_DISCOVER_COMPLETE else s)\<rparr>,
          acts))"

definition gatt_intf_start_secondary_service_discovery ::
  "gatt_env \<Rightarrow> u16 \<Rightarrow> wiced_bt_uuid option \<Rightarrow> u16 \<Rightarrow> u16 \<Rightarrow> gatt_intf_service_discovery_ctx
    \<Rightarrow> (wiced_result + gatt_status) \<times> gatt_intf_service_discovery_ctx \<times> gatt_action list" where
  "gatt_intf_start_secondary_service_discovery env conn_id p_id' s e sdc =
     (case p_id' of
        None \<Rightarrow> (Inl WICED_BT_ERROR, sdc, [])
      | Some u \<Rightarrow>
          if service_discovery_state sdc \<noteq> SERVICE_DISCOVERY_STATE_IDLE
          then (Inl WICED_BT_ERROR, sdc, [])
          else
            let (st, sdc, acts) = gatt_intf_internal_send_next_service_discovery_cmd env conn_id
                  (sdc\<lparr>p_id := Some u, last_found_char_handle := 0,
                       service_discovery_state := SERVICE_DISCOVERY_STATE_DISCOVER_INCLUDE_SERVICES,
                       service_range := \<lparr>start_handle = s, end_handle = e\<rparr>\<rparr>)
            in (Inr st, sdc, acts))"

definition gatt_intf_handle_discovery_complete ::
  "u16 \<Rightarrow> gatt_intf_service_discovery_ctx \<Rightarrow> gatt_status \<Rightarrow> gatt_action list" where
  "gatt_intf_handle_discovery_complete conn_id sdc status =
     (if has_complete_callback sdc then [DISCOVERY_COMPLETE_CALLBACK conn_id status] else [])"

definition gatt_intf_on_service_discovery_complete ::
  "gatt_env \<Rightarrow> u16 \<Rightarrow> gatt_status \<Rightarrow> gatt_intf_service_discovery_ctx
    \<Rightarrow> gatt_intf_service_discovery_ctx \<times> gatt_action list" where
  "gatt_intf_on_service_discovery_complete env conn_id status sdc =
     (if status = GATT_SUCCESS \<or> status = GATT_ATTRIBUTE_NOT_FOUND
      then
        let (_, sdc, acts) = gatt_intf_internal_send_next_service_discovery_cmd env conn_id sdc
        in (sdc, acts @
              (if service_discovery_state sdc = SERVICE_DISCOVERY_STATE_DISCOVER_COMPLETE
               then gatt_intf_handle_discovery_complete conn_id sdc GATT_SUCCESS else []))
      else
        (sdc, gatt_intf_handle_discovery_complete conn_id sdc status @ [START_DISCOVERY_TIMER conn_id]))"

definition gatt_intf_is_service_discovery_complete :: "gatt_intf_service_discovery_ctx \<Rightarrow> bool" where
  "gatt_intf_is_service_discovery_complete sdc \<longleftrightarrow>
     service_discovery_state sdc = SERVICE_DISCOVERY_STATE_DISCOVER_COMPLETE"

section \<open>Discovery results\<close>

text \<open>
  The scans of the tables. A slot without its static information is a \<open>NULL\<close> pointer: the
  scan of the included services stops there, the scan of the characteristics reads through it.
\<close>

fun set_included ::
  "gatt_env \<Rightarrow> u16 \<Rightarrow> gatt_intf_service_range \<Rightarrow> wiced_bt_uuid
    \<Rightarrow> gatt_intf_included_service_types list \<Rightarrow> gatt_intf_included_service_types list" where
  "set_included env h r u [] = []"
| "set_included env h r u (i # is) =
     (case p_inc_info i of
        None \<Rightarrow> i # is
      | Some v \<Rightarrow>
          if service_handle i \<noteq> 0 then i # set_included env h r u is
          else if same_uuid env v u then i\<lparr>service_handle := h, inc_service := r\<rparr> # is
          else i # set_included env h r u is)"

definition gatt_intf_handle_included_service_discovery ::
  "gatt_env \<Rightarrow> u16 \<Rightarrow> gatt_intf_service_range \<Rightarrow> wiced_bt_uuid
    \<Rightarrow> gatt_intf_service_discovery_ctx \<Rightarrow> gatt_intf_service_discovery_ctx" where
  "gatt_intf_handle_included_service_discovery env h r u sdc =
     sdc\<lparr>p_inc_service_types := set_included env h r u (p_inc_service_types sdc)\<rparr>"

fun set_characteristic ::
  "gatt_env \<Rightarrow> u16 \<Rightarrow> u16 \<Rightarrow> wiced_bt_uuid
    \<Rightarrow> gatt_intf_characteristic_handles_result list
    \<Rightarrow> gatt_intf_characteristic_handles_result list option" where
  "set_characteristic env h vh u [] = Some []"
| "set_characteristic env h vh u (c # cs) =
     (if ch_handle (handles c) \<noteq> 0
      then do { cs \<leftarrow> set_characteristic env h vh u cs; Some (c # cs) }
      else do {
        info \<leftarrow> p_char_info c;
        if same_uuid env (ci_uuid info) u
        then Some (c\<lparr>handles := (handles c)\<lparr>ch_handle := h, value_handle := vh\<rparr>\<rparr> # cs)
        else do { cs \<leftarrow> set_characteristic env h vh u cs; Some (c # cs) } })"

definition gatt_intf_handle_characteristic_discovery ::
  "gatt_env \<Rightarrow> u16 \<Rightarrow> u16 \<Rightarrow> wiced_bt_uuid \<Rightarrow> gatt_intf_service_discovery_ctx
    \<Rightarrow> gatt_intf_service_discovery_ctx option" where
  "gatt_intf_handle_characteristic_discovery env h vh u sdc = do {
     cs \<leftarrow> set_characteristic env h vh u (p_char_handles sdc);
     Some (sdc\<lparr>p_char_handles := cs\<rparr>) }"

fun set_descriptor ::
  "u16 \<Rightarrow> u16 \<Rightarrow> gatt_intf_characteristic_handles_result list
    \<Rightarrow> gatt_intf_characteristic_handles_result list" where
  "set_descriptor char_handle h [] = []"
| "set_descriptor char_handle h (c # cs) =
     (if ch_handle (handles c) = char_handle
      then c\<lparr>handles := (handles c)\<lparr>descriptor_handle := h\<rparr>\<rparr> # cs
      else c # set_descriptor char_handle h cs)"

definition gatt_intf_handle_descriptor_discovery ::
  "u16 \<Rightarrow> wiced_bt_uuid \<Rightarrow> u16 \<Rightarrow> gatt_intf_service_discovery_ctx
    \<Rightarrow> gatt_intf_service_discovery_ctx" where
  "gatt_intf_handle_descriptor_discovery char_handle type h sdc =
     (if type \<noteq> UUID16 GATT_UUID_CHAR_CLIENT_CONFIG then sdc
      else sdc\<lparr>p_char_handles := set_descriptor char_handle h (p_char_handles sdc)\<rparr>)"

datatype gatt_discovery_result =
    SERVICE_FOUND u16 u16
  | INCLUDED_SERVICE u16 gatt_intf_service_range wiced_bt_uuid
  | CHARACTERISTIC u16 u16 wiced_bt_uuid
  | DESCRIPTOR u16 wiced_bt_uuid

fun gatt_intf_on_service_discovery_result ::
  "gatt_env \<Rightarrow> gatt_discovery_result \<Rightarrow> gatt_intf_service_discovery_ctx
    \<Rightarrow> gatt_intf_service_discovery_ctx option" where
  "gatt_intf_on_service_discovery_result env (SERVICE_FOUND s e) sdc =
     Some (sdc\<lparr>service_range := \<lparr>start_handle = s, end_handle = e\<rparr>\<rparr>)"
| "gatt_intf_on_service_discovery_result env (INCLUDED_SERVICE h r u) sdc =
     Some (gatt_intf_handle_included_service_discovery env h r u sdc)"
| "gatt_intf_on_service_discovery_result env (CHARACTERISTIC h vh u) sdc =
     gatt_intf_handle_characteristic_discovery env h vh u sdc"
| "gatt_intf_on_service_discovery_result env (DESCRIPTOR h type) sdc =
     Some (if type = UUID16 GATT_UUID_CHAR_DECLARE then sdc\<lparr>last_found_char_handle := h\<rparr>
           else if type = UUID16 GATT_UUID_CHAR_CLIENT_CONFIG \<and> h \<noteq> 0
           then gatt_intf_handle_descriptor_discovery (last_found_char_handle sdc) type h sdc
           else sdc)"

fun gatt_intf_get_valid_handle_count :: "gatt_intf_characteristic_handles list \<Rightarrow> nat" where
  "gatt_intf_get_valid_handle_count [] = 0"
| "gatt_intf_get_valid_handle_count (h # hs) =
     (if ch_handle h \<noteq> 0 then Suc (gatt_intf_get_valid_handle_count hs) else 0)"

definition gatt_intf_find_characteristic_type_by_value_handle ::
  "gatt_intf_characteristic_handles list \<Rightarrow> u16 \<Rightarrow> int" where
  "gatt_intf_find_characteristic_type_by_value_handle hs h =
     (case find_index (\<lambda>c. value_handle c = h) hs of Some i \<Rightarrow> int i | None \<Rightarrow> - 1)"

section \<open>Notifications\<close>

text \<open>
  The MTU is reduced by the header in 16-bit arithmetic. Nothing is sent, and success is
  returned, when the client has not asked for notifications or indications.
\<close>

definition gatt_intf_send_notification ::
  "gatt_env \<Rightarrow> u16 \<Rightarrow> u16 \<Rightarrow> u8 list \<Rightarrow> gatt_status \<times> gatt_action list" where
  "gatt_intf_send_notification env conn_id handle data =
     (if length data > unat (bearer_mtu env conn_id - gatt_hdr_size env) then (GATT_INVALID_ATTR_LEN, [])
      else case cccd_callback env of
        None \<Rightarrow> (GATT_CCCD_IMPROPER_CONFIGURED, [])
      | Some cb \<Rightarrow>
          let cccd_value = cb conn_id handle
          in if cccd_value AND (GATT_CLIENT_CONFIG_NOTIFICATION OR GATT_CLIENT_CONFIG_INDICATION) = 0
             then (GATT_SUCCESS, [])
             else if length data \<noteq> 0 \<and> \<not> get_buffer env (length data) then (GATT_NO_RESOURCES, [])
             else
               let a = (if cccd_value AND GATT_CLIENT_CONFIG_INDICATION \<noteq> 0
                        then SEND_INDICATION conn_id handle data
                        else SEND_NOTIFICATION conn_id handle data)
               in (client_send env a, [a]))"

definition gatt_intf_write_int ::
  "gatt_env \<Rightarrow> u16 \<Rightarrow> gatt_intf_characteristic_handles \<Rightarrow> u8 list \<Rightarrow> gatt_status \<times> gatt_action list" where
  "gatt_intf_write_int env conn_id p_handle data =
     (if get_buffer env (length data)
      then let a = SEND_WRITE conn_id (value_handle p_handle) data in (client_send env a, [a])
      else (GATT_NO_RESOURCES, []))"

definition gatt_intf_enable_notifications ::
  "gatt_env \<Rightarrow> u16 \<Rightarrow> gatt_intf_characteristic_handles \<Rightarrow> u16 \<Rightarrow> gatt_status \<times> gatt_action list" where
  "gatt_intf_enable_notifications env conn_id p_handle cccd =
     (if get_buffer env 2
      then let a = SEND_WRITE conn_id (descriptor_handle p_handle) (b16 cccd) in (client_send env a, [a])
      else (GATT_NO_RESOURCES, []))"

definition gatt_intf_read_characteristic ::
  "gatt_env \<Rightarrow> u16 \<Rightarrow> gatt_intf_characteristic_handles \<Rightarrow> gatt_status \<times> gatt_action list" where
  "gatt_intf_read_characteristic env conn_id p_char =
     (if get_buffer env (unat (bearer_mtu env conn_id - gatt_hdr_size env))
      then let a = SEND_READ conn_id (value_handle p_char) in (client_send env a, [a])
      else (GATT_NO_RESOURCES, []))"

section \<open>Operation lists\<close>

datatype operation_kind = ENABLE_NOTIFICATION | READ_CHAR_LIST

record gatt_intf_operation =
  op_conn_id :: u16
  pfn_operation :: operation_kind
  op_has_callback :: bool
  pp_handles :: "gatt_intf_characteristic_handles option list"
  current_index :: nat
  iterating_loop :: bool
  ops_in_progress :: u8

definition gatt_intf_alloc_operation_list ::
  "gatt_env \<Rightarrow> operation_kind \<Rightarrow> nat \<Rightarrow> u16 \<Rightarrow> u16 \<Rightarrow> gatt_intf_operation option" where
  "gatt_intf_alloc_operation_list env kind len conn_id max_characteristics =
     (if get_buffer env len
      then Some \<lparr>op_conn_id = conn_id, pfn_operation = kind, op_has_callback = True,
             pp_handles = replicate (unat max_characteristics) None, current_index = 0,
             iterating_loop = False, ops_in_progress = 0\<rparr>
      else None)"

definition gatt_intf_add_characteristic_to_list ::
  "gatt_intf_characteristic_handles option \<Rightarrow> u16 \<Rightarrow> gatt_intf_operation
    \<Rightarrow> wiced_result \<times> gatt_intf_operation" where
  "gatt_intf_add_characteristic_to_list p_handle index p_op =
     (if unat index < length (pp_handles p_op)
      then (WICED_SUCCESS, p_op\<lparr>pp_handles := (pp_handles p_op)[unat index := p_handle]\<rparr>)
      else (WICED_BT_ERROR, p_op))"

definition is_operation_complete :: "gatt_intf_operation \<Rightarrow> bool" where
  "is_operation_complete p_op \<longleftrightarrow>
     ops_in_progress p_op = 0 \<and> current_index p_op = length (pp_handles p_op)"

definition complete_callback :: "gatt_intf_operation \<Rightarrow> gatt_status \<Rightarrow> gatt_action list" where
  "complete_callback p_op status =
     (if is_operation_complete p_op \<and> op_has_callback p_op
      then [OPERATION_COMPLETE_CALLBACK (op_conn_id p_op) status] else [])"

text \<open>
  The loop of \<open>gatt_intf_internal_enable_notification\<close>: it steps over entries without a
  descriptor and stops at the first request, sent or refused. \<open>n\<close> counts the turns left,
  \<open>max - i\<close>.
\<close>

fun enable_loop ::
  "gatt_env \<Rightarrow> nat \<Rightarrow> gatt_intf_operation \<Rightarrow> gatt_status
    \<Rightarrow> gatt_status \<times> gatt_intf_operation \<times> gatt_action list" where
  "enable_loop env 0 p_en st = (st, p_en, [])"
| "enable_loop env (Suc n) p_en st =
     (case pp_handles p_en ! current_index p_en of
        Some p_handle \<Rightarrow>
          if descriptor_handle p_handle \<noteq> 0
          then
            let (status, acts) = gatt_intf_enable_notifications env (op_conn_id p_en) p_handle
                                   GATT_CLIENT_CONFIG_NOTIFICATION
            in if status \<noteq> GATT_SUCCESS then (status, p_en, acts)
               else (status, p_en\<lparr>ops_in_progress := ops_in_progress p_en + 1,
                                  current_index := current_index p_en + 1\<rparr>, acts)
          else enable_loop env n (p_en\<lparr>current_index := current_index p_en + 1\<rparr>) st
      | None \<Rightarrow> enable_loop env n (p_en\<lparr>current_index := current_index p_en + 1\<rparr>) st)"

definition gatt_intf_internal_enable_notification ::
  "gatt_env \<Rightarrow> gatt_intf_operation \<Rightarrow> gatt_status \<times> gatt_intf_operation \<times> gatt_action list" where
  "gatt_intf_internal_enable_notification env p_en =
     (if iterating_loop p_en then (GATT_SUCCESS, p_en, [])
      else
        let (status, p_en, acts) =
              enable_loop env (length (pp_handles p_en) - current_index p_en) p_en GATT_SUCCESS
        in (status, p_en, acts @ complete_callback p_en status))"

text \<open>The loop of \<open>gatt_intf_internal_read_char_list\<close>: a refused read decrements the counter.\<close>

fun read_loop ::
  "gatt_env \<Rightarrow> nat \<Rightarrow> gatt_intf_operation \<Rightarrow> gatt_status
    \<Rightarrow> gatt_status \<times> gatt_intf_operation \<times> gatt_action list" where
  "read_loop env 0 p_rl st = (st, p_rl, [])"
| "read_loop env (Suc n) p_rl st =
     (case pp_handles p_rl ! current_index p_rl of
        Some p_handle \<Rightarrow>
          if value_handle p_handle \<noteq> 0
          then
            let (status, acts) = gatt_intf_read_characteristic env (op_conn_id p_rl) p_handle
            in if status \<noteq> GATT_SUCCESS
               then (status, p_rl\<lparr>ops_in_progress := ops_in_progress p_rl - 1\<rparr>, acts)
               else (status, p_rl\<lparr>current_index := current_index p_rl + 1,
                                  ops_in_progress := ops_in_progress p_rl + 1\<rparr>, acts)
          else read_loop env n (p_rl\<lparr>current_index := current_index p_rl + 1\<rparr>) st
      | None \<Rightarrow> read_loop env n (p_rl\<lparr>current_index := current_index p_rl + 1\<rparr>) st)"

definition gatt_intf_internal_read_char_list ::
  "gatt_env \<Rightarrow> gatt_intf_operation \<Rightarrow> gatt_status \<times> gatt_intf_operation \<times> gatt_action list" where
  "gatt_intf_internal_read_char_list env p_rl =
     (let (status, p_rl, acts) =
            read_loop env (length (pp_handles p_rl) - current_index p_rl) p_rl GATT_SUCCESS
      in (status, p_rl, acts @ complete_callback p_rl status))"

definition gatt_intf_execute_handle_operations ::
  "gatt_env \<Rightarrow> gatt_intf_operation \<Rightarrow> gatt_status \<times> gatt_intf_operation \<times> gatt_action list" where
  "gatt_intf_execute_handle_operations env p_op =
     (case pfn_operation p_op of
        ENABLE_NOTIFICATION \<Rightarrow> gatt_intf_internal_enable_notification env p_op
      | READ_CHAR_LIST \<Rightarrow> gatt_intf_internal_read_char_list env p_op)"

datatype gattc_optype =
    GATTC_OPTYPE_CONFIG_MTU | GATTC_OPTYPE_READ_HANDLE | GATTC_OPTYPE_WRITE_NO_RSP
  | GATTC_OPTYPE_WRITE_WITH_RSP | GATTC_OPTYPE_NOTIFICATION | GATTC_OPTYPE_INDICATION

definition gatt_intf_handle_gatt_operation_complete ::
  "gatt_env \<Rightarrow> gattc_optype \<Rightarrow> gatt_status \<Rightarrow> gatt_intf_operation
    \<Rightarrow> gatt_intf_operation \<times> gatt_action list" where
  "gatt_intf_handle_gatt_operation_complete env op status p_op =
     (if op = GATTC_OPTYPE_READ_HANDLE \<and> pfn_operation p_op = READ_CHAR_LIST \<or>
         (op = GATTC_OPTYPE_WRITE_WITH_RSP \<or> op = GATTC_OPTYPE_WRITE_NO_RSP) \<and>
           pfn_operation p_op = ENABLE_NOTIFICATION
      then
        let p_op = p_op\<lparr>ops_in_progress := ops_in_progress p_op - 1\<rparr>
        in if is_operation_complete p_op then (p_op, complete_callback p_op status)
           else if current_index p_op \<noteq> length (pp_handles p_op)
           then let (_, p_op, acts) = gatt_intf_execute_handle_operations env p_op in (p_op, acts)
           else (p_op, [])
      else (p_op, []))"

section \<open>Discovery ends\<close>

definition callbacks :: "gatt_action list \<Rightarrow> gatt_action list" where
  "callbacks = filter (\<lambda>a. case a of DISCOVERY_COMPLETE_CALLBACK _ _ \<Rightarrow> True | _ \<Rightarrow> False)"

lemma callbacks_simps [simp]:
  "callbacks [] = []" "callbacks (xs @ ys) = callbacks xs @ callbacks ys"
  "callbacks (DISCOVER c t u s e # xs) = callbacks xs"
  "callbacks (START_DISCOVERY_TIMER c # xs) = callbacks xs"
  "callbacks (DISCOVERY_COMPLETE_CALLBACK c st # xs) = DISCOVERY_COMPLETE_CALLBACK c st # callbacks xs"
  by (simp_all add: callbacks_def)

text \<open>
  The completion events of one discovery, with their status, until the discovery is complete
  and its context is freed.
\<close>

fun run_discovery ::
  "gatt_env \<Rightarrow> u16 \<Rightarrow> gatt_status list \<Rightarrow> gatt_intf_service_discovery_ctx
    \<Rightarrow> gatt_intf_service_discovery_ctx \<times> gatt_action list" where
  "run_discovery env conn [] sdc = (sdc, [])"
| "run_discovery env conn (st # sts) sdc =
     (if gatt_intf_is_service_discovery_complete sdc then (sdc, [])
      else let (sdc, a) = gatt_intf_on_service_discovery_complete env conn st sdc;
               (sdc, b) = run_discovery env conn sts sdc
           in (sdc, a @ b))"

text \<open>
  The phases that follow the search of the service, each with its state and the kind of its request: the included services only when
  there are some to look for. Each request is for the range of the service that was found.
\<close>

definition phases :: "gatt_intf_service_discovery_ctx \<Rightarrow> (service_discovery_state \<times> gatt_discovery_type) list" where
  "phases sdc =
     (if p_inc_service_types sdc = [] then []
      else [(SERVICE_DISCOVERY_STATE_DISCOVER_INCLUDE_SERVICES, GATT_DISCOVER_INCLUDED_SERVICES)]) @
     [(SERVICE_DISCOVERY_STATE_DISCOVER_CHARACTERISTICS, GATT_DISCOVER_CHARACTERISTICS),
      (SERVICE_DISCOVERY_STATE_DISCOVER_CHARACTERISTIC_DESCRIPTORS, GATT_DISCOVER_CHARACTERISTIC_DESCRIPTORS)]"

definition phase_requests :: "u16 \<Rightarrow> gatt_intf_service_discovery_ctx \<Rightarrow> gatt_action list" where
  "phase_requests conn sdc =
     map (\<lambda>p. DISCOVER conn (snd p) None (start_handle (service_range sdc)) (end_handle (service_range sdc))) (phases sdc)"

text \<open>The requests until the stack refuses one.\<close>

definition sent_until_refused :: "gatt_env \<Rightarrow> gatt_action list \<Rightarrow> gatt_action list" where
  "sent_until_refused env as =
     takeWhile (\<lambda>a. client_send env a = GATT_SUCCESS) as @ take 1 (dropWhile (\<lambda>a. client_send env a = GATT_SUCCESS) as)"

lemma run_complete [simp]:
  "service_discovery_state sdc = SERVICE_DISCOVERY_STATE_DISCOVER_COMPLETE \<Longrightarrow> run_discovery env conn sts sdc = (sdc, [])"
  by (cases sts) (simp_all add: gatt_intf_is_service_discovery_complete_def)

lemmas discovery_step_defs = gatt_intf_on_service_discovery_complete_def gatt_intf_internal_send_next_service_discovery_cmd_def
  gatt_intf_handle_discovery_complete_def gatt_intf_is_service_discovery_complete_def next_phase_def Let_def

section \<open>The table of characteristics\<close>

definition slot_uuid :: "gatt_intf_characteristic_handles_result \<Rightarrow> wiced_bt_uuid option" where
  "slot_uuid c = map_option ci_uuid (p_char_info c)"

definition slots :: "wiced_bt_uuid \<Rightarrow> gatt_intf_characteristic_handles_result list
    \<Rightarrow> (u16 \<times> u16) list" where
  "slots u cs = map (\<lambda>c. (ch_handle (handles c), value_handle (handles c)))
     (filter (\<lambda>c. slot_uuid c = Some u) cs)"

fun fill_first :: "u16 \<times> u16 \<Rightarrow> (u16 \<times> u16) list \<Rightarrow> (u16 \<times> u16) list" where
  "fill_first d [] = []"
| "fill_first d (x # xs) = (if fst x = 0 then d # xs else x # fill_first d xs)"

definition uuid_equality :: "gatt_env \<Rightarrow> bool" where
  "uuid_equality env \<longleftrightarrow> (\<forall>u v. same_uuid env u v = (u = v))"

lemma set_characteristic_total:
  assumes "\<forall>c\<in>set cs. p_char_info c \<noteq> None"
  shows "\<exists>cs'. set_characteristic env h vh u cs = Some cs' \<and> map p_char_info cs' = map p_char_info cs"
  using assms by (induction cs) auto

lemma handles_update_same:
  "c\<lparr>handles := (handles c)\<lparr>ch_handle := h, value_handle := vh\<rparr>\<rparr> = c \<longleftrightarrow>
     ch_handle (handles c) = h \<and> value_handle (handles c) = vh"
  by (cases c, cases "handles c") auto

lemma set_characteristic_slots:
  assumes "set_characteristic env h vh u cs = Some cs'" "uuid_equality env"
  shows "slots v cs' = (if v = u then fill_first (h, vh) (slots v cs) else slots v cs)"
  using assms
  by (induction cs arbitrary: cs')
    (auto simp: slots_def slot_uuid_def uuid_equality_def bind_eq_Some_conv handles_update_same
      split: if_splits)

text \<open>The characteristic declarations of a service, in the order the server reports them.\<close>

fun discover_characteristics ::
  "gatt_env \<Rightarrow> (u16 \<times> u16 \<times> wiced_bt_uuid) list \<Rightarrow> gatt_intf_service_discovery_ctx
    \<Rightarrow> gatt_intf_service_discovery_ctx option" where
  "discover_characteristics env [] sdc = Some sdc"
| "discover_characteristics env ((h, vh, u) # ds) sdc = do {
     sdc \<leftarrow> gatt_intf_on_service_discovery_result env (CHARACTERISTIC h vh u) sdc;
     discover_characteristics env ds sdc }"

definition declared :: "wiced_bt_uuid \<Rightarrow> (u16 \<times> u16 \<times> wiced_bt_uuid) list \<Rightarrow> (u16 \<times> u16) list" where
  "declared u ds = map (\<lambda>(h, vh, _). (h, vh)) (filter (\<lambda>(_, _, v). v = u) ds)"

lemma declared_Cons: "declared u ((h, vh, v) # ds) = (if v = u then (h, vh) # declared u ds else declared u ds)"
  by (simp add: declared_def)

lemma discover_characteristics_slots:
  assumes "\<forall>c\<in>set (p_char_handles sdc). p_char_info c \<noteq> None" "uuid_equality env"
  shows "\<exists>sdc'. discover_characteristics env ds sdc = Some sdc' \<and>
    map p_char_info (p_char_handles sdc') = map p_char_info (p_char_handles sdc) \<and>
    (\<forall>u. slots u (p_char_handles sdc') = fold fill_first (declared u ds) (slots u (p_char_handles sdc)))"
  using assms(1)
proof (induction ds arbitrary: sdc)
  case Nil
  then show ?case by (simp add: declared_def)
next
  case (Cons d ds)
  obtain h vh u where d: "d = (h, vh, u)" by (cases d) auto
  obtain cs where cs: "set_characteristic env h vh u (p_char_handles sdc) = Some cs"
      "map p_char_info cs = map p_char_info (p_char_handles sdc)"
    using set_characteristic_total [OF Cons.prems] by blast
  have "\<forall>c\<in>set cs. p_char_info c \<noteq> None"
    using cs(2) Cons.prems by (metis (no_types, lifting) image_iff list.set_map)
  with Cons.IH [of "sdc\<lparr>p_char_handles := cs\<rparr>"] obtain sdc' where
    "discover_characteristics env ds (sdc\<lparr>p_char_handles := cs\<rparr>) = Some sdc'"
    "map p_char_info (p_char_handles sdc') = map p_char_info cs"
    "\<forall>u. slots u (p_char_handles sdc') = fold fill_first (declared u ds) (slots u cs)" by auto
  then show ?case
    using cs set_characteristic_slots [OF cs(1) assms(2)]
    by (auto simp: d gatt_intf_handle_characteristic_discovery_def declared_Cons)
qed

lemma fold_fill_first:
  "(\<forall>d\<in>set ds. fst d \<noteq> 0) \<Longrightarrow>
     fold fill_first ds (replicate n (0, z)) = take n ds @ replicate (n - length ds) (0, z)"
proof -
  have fill: "(\<forall>d\<in>set as. fst d \<noteq> 0) \<Longrightarrow> fill_first d (as @ (0, z) # xs) = as @ d # xs" for as d xs
    by (induction as) auto
  have full: "(\<forall>d\<in>set as. fst d \<noteq> 0) \<Longrightarrow> fill_first d as = as" for as and d :: "u16 \<times> u16"
    by (induction as) auto
  have gen: "(\<forall>d\<in>set (as @ ds). fst d \<noteq> 0) \<Longrightarrow>
      fold fill_first ds (as @ replicate n (0, z)) = as @ take n ds @ replicate (n - length ds) (0, z)" for as
  proof (induction ds arbitrary: as n)
    case Nil
    then show ?case by simp
  next
    case (Cons d ds)
    show ?case
    proof (cases n)
      case 0
      with Cons.prems have "fill_first d as = as" by (intro full) auto
      with Cons.IH [of as 0] Cons.prems 0 show ?thesis by simp
    next
      case (Suc m)
      with Cons.prems have "fill_first d (as @ replicate n (0, z)) = (as @ [d]) @ replicate m (0, z)"
        by (simp add: fill)
      with Cons.IH [of "as @ [d]" m] Cons.prems Suc show ?thesis by simp
    qed
  qed
  show "(\<forall>d\<in>set ds. fst d \<noteq> 0) \<Longrightarrow>
     fold fill_first ds (replicate n (0, z)) = take n ds @ replicate (n - length ds) (0, z)"
    using gen [of "[]"] by simp
qed

section \<open>Operation lists with a stack that accepts every request\<close>

definition accepting :: "gatt_env \<Rightarrow> bool" where
  "accepting env \<longleftrightarrow> (\<forall>a. client_send env a = GATT_SUCCESS) \<and> (\<forall>n. get_buffer env n)"

definition notifiable :: "gatt_intf_characteristic_handles option \<Rightarrow> bool" where
  "notifiable h \<longleftrightarrow> (case h of Some c \<Rightarrow> descriptor_handle c \<noteq> 0 | None \<Rightarrow> False)"

text \<open>The descriptors still to be written, and the requests that write them.\<close>

definition pending :: "gatt_intf_operation \<Rightarrow> u16 list" where
  "pending p = map (\<lambda>h. descriptor_handle (the h)) (filter notifiable (drop (current_index p) (pp_handles p)))"

definition enable_write :: "gatt_intf_operation \<Rightarrow> u16 \<Rightarrow> gatt_action" where
  "enable_write p d = SEND_WRITE (op_conn_id p) d (b16 GATT_CLIENT_CONFIG_NOTIFICATION)"

lemma enable_loop_accepting:
  assumes "accepting env" "current_index p \<le> length (pp_handles p)"
    "enable_loop env (length (pp_handles p) - current_index p) p GATT_SUCCESS = (st, p', acts)"
  shows "st = GATT_SUCCESS \<and> pp_handles p' = pp_handles p \<and> op_conn_id p' = op_conn_id p \<and>
    pfn_operation p' = pfn_operation p \<and> op_has_callback p' = op_has_callback p \<and>
    iterating_loop p' = iterating_loop p \<and> current_index p' \<le> length (pp_handles p) \<and>
    (case pending p of
       [] \<Rightarrow> acts = [] \<and> ops_in_progress p' = ops_in_progress p \<and> current_index p' = length (pp_handles p)
     | d # ds \<Rightarrow> acts = [enable_write p d] \<and> pending p' = ds \<and> ops_in_progress p' = ops_in_progress p + 1)"
  using assms(2,3)
proof (induction "length (pp_handles p) - current_index p" arbitrary: p)
  case 0
  then have "pending p = []" by (simp add: pending_def)
  with 0 show ?case by simp
next
  case (Suc n)
  let ?h = "pp_handles p ! current_index p"
  let ?p = "p\<lparr>current_index := current_index p + 1\<rparr>"
  have lt: "current_index p < length (pp_handles p)" using Suc.hyps(2) by simp
  then have d: "drop (current_index p) (pp_handles p) = ?h # drop (Suc (current_index p)) (pp_handles p)"
    by (simp add: Cons_nth_drop_Suc)
  show ?case
  proof (cases "notifiable ?h")
    case True
    then obtain c where c: "?h = Some c" "descriptor_handle c \<noteq> 0"
      by (auto simp: notifiable_def split: option.splits)
    have "pending p = descriptor_handle c # pending ?p"
      using d c True by (simp add: pending_def)
    then show ?thesis
      using Suc.prems(2) Suc.hyps(2) [symmetric] c assms(1) lt
      by (auto simp: gatt_intf_enable_notifications_def accepting_def Let_def enable_write_def pending_def)
  next
    case False
    then have e: "enable_loop env n ?p GATT_SUCCESS = (st, p', acts)"
      using Suc.prems(2) Suc.hyps(2) [symmetric] by (auto simp: notifiable_def split: option.splits if_splits)
    have "pending p = pending ?p" using d False by (simp add: pending_def)
    moreover have "n = length (pp_handles ?p) - current_index ?p" using Suc.hyps(2) by simp
    ultimately show ?thesis
      using Suc.hyps(1) [of ?p] e lt by (auto simp: enable_write_def split: list.splits)
  qed
qed

text \<open>
  The whole operation: it is started, and each request the stack took is answered by one
  completion event.
\<close>

fun completions ::
  "gatt_env \<Rightarrow> nat \<Rightarrow> gatt_intf_operation \<Rightarrow> gatt_intf_operation \<times> gatt_action list" where
  "completions env 0 p = (p, [])"
| "completions env (Suc n) p =
     (let (p, a) = gatt_intf_handle_gatt_operation_complete env GATTC_OPTYPE_WRITE_WITH_RSP GATT_SUCCESS p;
          (p, b) = completions env n p
      in (p, a @ b))"

definition complete_cb :: "gatt_intf_operation \<Rightarrow> gatt_action list" where
  "complete_cb p = [OPERATION_COMPLETE_CALLBACK (op_conn_id p) GATT_SUCCESS]"

lemma enable_execute:
  assumes "accepting env" "current_index p \<le> length (pp_handles p)" "pfn_operation p = ENABLE_NOTIFICATION"
    "op_has_callback p" "\<not> iterating_loop p" "ops_in_progress p = 0"
  obtains p' where "current_index p' \<le> length (pp_handles p')" "pfn_operation p' = ENABLE_NOTIFICATION"
    "op_has_callback p'" "\<not> iterating_loop p'" "op_conn_id p' = op_conn_id p"
    "pending p = [] \<Longrightarrow> gatt_intf_execute_handle_operations env p = (GATT_SUCCESS, p', complete_cb p) \<and>
       is_operation_complete p'"
    "\<And>d ds. pending p = d # ds \<Longrightarrow>
       gatt_intf_execute_handle_operations env p = (GATT_SUCCESS, p', [enable_write p d]) \<and>
       pending p' = ds \<and> ops_in_progress p' = 1"
proof -
  obtain st p' acts where l:
    "enable_loop env (length (pp_handles p) - current_index p) p GATT_SUCCESS = (st, p', acts)"
    by (metis prod_cases3)
  note f = enable_loop_accepting [OF assms(1,2) l]
  show ?thesis
  proof (rule that [of p'])
    show "pending p = [] \<Longrightarrow> gatt_intf_execute_handle_operations env p = (GATT_SUCCESS, p', complete_cb p) \<and>
       is_operation_complete p'"
      using f l assms by (auto simp: gatt_intf_execute_handle_operations_def is_operation_complete_def
          gatt_intf_internal_enable_notification_def complete_callback_def complete_cb_def)
    show "\<And>d ds. pending p = d # ds \<Longrightarrow>
       gatt_intf_execute_handle_operations env p = (GATT_SUCCESS, p', [enable_write p d]) \<and>
       pending p' = ds \<and> ops_in_progress p' = 1"
      using f l assms by (auto simp: gatt_intf_execute_handle_operations_def is_operation_complete_def
          gatt_intf_internal_enable_notification_def complete_callback_def)
  qed (use f assms in auto)
qed

lemma completions_accepting:
  assumes "accepting env" "current_index p \<le> length (pp_handles p)" "pfn_operation p = ENABLE_NOTIFICATION"
    "op_has_callback p" "\<not> iterating_loop p" "ops_in_progress p = 1"
  shows "snd (completions env (Suc (length (pending p))) p) =
    map (enable_write p) (pending p) @ complete_cb p"
  using assms(2-)
proof (induction "pending p" arbitrary: p)
  case Nil
  let ?p = "p\<lparr>ops_in_progress := 0\<rparr>"
  have pd: "pending ?p = []" using Nil.hyps by (simp add: pending_def)
  obtain p' where "gatt_intf_execute_handle_operations env ?p = (GATT_SUCCESS, p', complete_cb ?p)"
    by (rule enable_execute [of env ?p]) (use assms(1) Nil pd in auto)
  then show ?case
    using Nil by (auto simp: gatt_intf_handle_gatt_operation_complete_def Let_def
        complete_callback_def complete_cb_def is_operation_complete_def)
next
  case (Cons d ds)
  let ?p = "p\<lparr>ops_in_progress := 0\<rparr>"
  have pd: "pending ?p = d # ds" using Cons.hyps(2) by (simp add: pending_def)
  obtain p' where p': "current_index p' \<le> length (pp_handles p')" "pfn_operation p' = ENABLE_NOTIFICATION"
    "op_has_callback p'" "\<not> iterating_loop p'" "op_conn_id p' = op_conn_id p"
    "gatt_intf_execute_handle_operations env ?p = (GATT_SUCCESS, p', [enable_write ?p d])"
    "pending p' = ds" "ops_in_progress p' = 1"
    by (rule enable_execute [of env ?p]) (use assms(1) Cons.prems pd in auto)
  have "current_index p \<noteq> length (pp_handles p)"
  proof
    assume "current_index p = length (pp_handles p)"
    then have "pending p = []" by (simp add: pending_def)
    with Cons.hyps(2) show False by simp
  qed
  then have s: "gatt_intf_handle_gatt_operation_complete env GATTC_OPTYPE_WRITE_WITH_RSP GATT_SUCCESS p =
      (p', [enable_write ?p d])"
    using p'(6) Cons.prems by (simp add: gatt_intf_handle_gatt_operation_complete_def is_operation_complete_def Let_def)
  have "snd (completions env (Suc (length ds)) p') = map (enable_write p') ds @ complete_cb p'"
    using Cons.hyps(1) [of p'] p' by simp
  moreover have "enable_write p' = enable_write p" "enable_write ?p = enable_write p" "complete_cb p' = complete_cb p"
    using p'(5) by (auto simp: enable_write_def complete_cb_def)
  ultimately show ?case
    unfolding Cons.hyps(2) [symmetric] by (simp only: completions.simps s Let_def list.size) (simp add: case_prod_beta)
qed

section \<open>Properties\<close>

text \<open>C12: Once the search of a service has started and each completion the server reports is a success or an attribute that was not
  found, the client asks for the included services, when it looks for some, then for the characteristics and then for their
  descriptors, in the range of the service, one request after each completion, and then is complete and calls back once, with
  success. A request the stack refuses is the last one, and the callback is told of a success too. Any other error a completion
  reports, in whatever phase, is passed to the callback at once; the discovery stays in that phase, not complete, and a timer is
  started.\<close>

theorem discovery_completes:
  assumes "service_discovery_state sdc = SERVICE_DISCOVERY_STATE_DISCOVER_SERVICE" "has_complete_callback sdc"
    and "\<forall>st\<in>set sts. st = GATT_SUCCESS \<or> st = GATT_ATTRIBUTE_NOT_FOUND"
  shows "(length (phases sdc) < length sts \<longrightarrow> run_discovery env conn sts sdc =
      (sdc\<lparr>service_discovery_state := SERVICE_DISCOVERY_STATE_DISCOVER_COMPLETE\<rparr>,
       sent_until_refused env (phase_requests conn sdc) @ [DISCOVERY_COMPLETE_CALLBACK conn GATT_SUCCESS])) \<and>
    (length sts \<le> length (phases sdc) \<and> (\<forall>a\<in>set (take (length sts) (phase_requests conn sdc)). client_send env a = GATT_SUCCESS) \<and>
       err \<noteq> GATT_SUCCESS \<and> err \<noteq> GATT_ATTRIBUTE_NOT_FOUND \<longrightarrow>
     run_discovery env conn (sts @ [err]) sdc =
      (sdc\<lparr>service_discovery_state := (SERVICE_DISCOVERY_STATE_DISCOVER_SERVICE # map fst (phases sdc)) ! length sts\<rparr>,
       take (length sts) (phase_requests conn sdc) @ [DISCOVERY_COMPLETE_CALLBACK conn err, START_DISCOVERY_TIMER conn]))"
proof -
  consider "sts = []" | a where "sts = [a]" | a b where "sts = [a, b]" | a b c where "sts = [a, b, c]" | a b c d r where "sts = a # b # c # d # r"
    by (metis list.exhaust)
  then show ?thesis using assms
   by cases (auto simp: phases_def phase_requests_def sent_until_refused_def discovery_step_defs)
qed

definition example_env :: gatt_env where
  "example_env = \<lparr>client_send = (\<lambda>_. GATT_SUCCESS), get_buffer = (\<lambda>_. True), bearer_mtu = (\<lambda>_. 64),
     gatt_hdr_size = 3, cccd_callback = Some (\<lambda>_ _. 1), same_uuid = (=)\<rparr>"

definition example_ctx :: gatt_intf_service_discovery_ctx where
  "example_ctx = \<lparr>service_discovery_state = SERVICE_DISCOVERY_STATE_DISCOVER_SERVICE, p_id = None,
     service_range = zero_range,
     p_char_handles =
       [\<lparr>handles = zero_handles, p_char_info = Some \<lparr>ci_uuid = UUID16 0x2BC4, characteristic_type = 1\<rparr>\<rparr>,
        \<lparr>handles = zero_handles, p_char_info = Some \<lparr>ci_uuid = UUID16 0x2BC4, characteristic_type = 1\<rparr>\<rparr>],
     p_inc_service_types = [], last_found_char_handle = 0, has_complete_callback = True\<rparr>"

theorem discovery_completes_witness:
  "snd (run_discovery example_env 1 (replicate 3 GATT_ATTRIBUTE_NOT_FOUND) example_ctx) =
      [DISCOVER 1 GATT_DISCOVER_CHARACTERISTICS None 0 0, DISCOVER 1 GATT_DISCOVER_CHARACTERISTIC_DESCRIPTORS None 0 0,
       DISCOVERY_COMPLETE_CALLBACK 1 GATT_SUCCESS] \<and>
    snd (run_discovery example_env 1 [GATT_SUCCESS, GATT_ERROR] example_ctx) =
      [DISCOVER 1 GATT_DISCOVER_CHARACTERISTICS None 0 0, DISCOVERY_COMPLETE_CALLBACK 1 GATT_ERROR, START_DISCOVERY_TIMER 1]"
  using discovery_completes [of example_ctx "replicate 3 GATT_ATTRIBUTE_NOT_FOUND" example_env 1]
    discovery_completes [of example_ctx "[GATT_SUCCESS]" example_env 1 GATT_ERROR]
  by (simp add: example_ctx_def example_env_def phases_def phase_requests_def sent_until_refused_def zero_range_def)

text \<open>A request for the next phase that the stack refuses ends the discovery, and the callback is
  told that it succeeded.\<close>

theorem discovery_failure_reported_as_success:
  assumes "service_discovery_state sdc \<in> {SERVICE_DISCOVERY_STATE_DISCOVER_SERVICE,
      SERVICE_DISCOVERY_STATE_DISCOVER_INCLUDE_SERVICES, SERVICE_DISCOVERY_STATE_DISCOVER_CHARACTERISTICS}"
    and "\<forall>a. client_send env a = GATT_ERROR" "has_complete_callback sdc"
  shows "case gatt_intf_on_service_discovery_complete env conn GATT_SUCCESS sdc of (sdc', acts) \<Rightarrow>
    gatt_intf_is_service_discovery_complete sdc' \<and>
    callbacks acts = [DISCOVERY_COMPLETE_CALLBACK conn GATT_SUCCESS]"
  using assms
  by (auto simp: gatt_intf_on_service_discovery_complete_def gatt_intf_handle_discovery_complete_def
      gatt_intf_internal_send_next_service_discovery_cmd_def next_phase_def
      gatt_intf_is_service_discovery_complete_def)

theorem discovery_failure_reported_as_success_witness:
  "case gatt_intf_on_service_discovery_complete (example_env\<lparr>client_send := \<lambda>_. GATT_ERROR\<rparr>) 1 GATT_SUCCESS example_ctx
   of (sdc', acts) \<Rightarrow> gatt_intf_is_service_discovery_complete sdc' \<and>
    callbacks acts = [DISCOVERY_COMPLETE_CALLBACK 1 GATT_SUCCESS]"
  by (rule discovery_failure_reported_as_success) (simp_all add: example_ctx_def)

text \<open>C13: the slots a client reserved for a characteristic are filled with the declarations of its UUID in
  the order the server reports them, as many as there are slots, each slot once; declarations of other
  UUIDs never touch them.\<close>

theorem discovered_characteristics:
  assumes "\<forall>c\<in>set (p_char_handles sdc). p_char_info c \<noteq> None" "uuid_equality env"
    and "slots u (p_char_handles sdc) = replicate n (0, 0)"
    and "\<forall>d\<in>set (declared u ds). fst d \<noteq> 0"
  shows "\<exists>sdc'. discover_characteristics env ds sdc = Some sdc' \<and>
    slots u (p_char_handles sdc') = take n (declared u ds) @ replicate (n - length (declared u ds)) (0, 0)"
  using discover_characteristics_slots [OF assms(1,2), of ds] assms(3) fold_fill_first [OF assms(4), of n 0]
  by auto

theorem discovered_characteristics_witness:
  "\<exists>sdc'. discover_characteristics example_env
      [(10, 11, UUID16 0x2BC4), (13, 14, UUID16 0x2BC5), (16, 17, UUID16 0x2BC4), (19, 20, UUID16 0x2BC4)]
      example_ctx = Some sdc' \<and>
    slots (UUID16 0x2BC4) (p_char_handles sdc') =
      take 2 (declared (UUID16 0x2BC4)
        [(10, 11, UUID16 0x2BC4), (13, 14, UUID16 0x2BC5), (16, 17, UUID16 0x2BC4), (19, 20, UUID16 0x2BC4)]) @
      replicate (2 - length (declared (UUID16 0x2BC4)
        [(10, 11, UUID16 0x2BC4), (13, 14, UUID16 0x2BC5), (16, 17, UUID16 0x2BC4), (19, 20, UUID16 0x2BC4)])) (0, 0)"
  unfolding numeral_2_eq_2
  by (rule discovered_characteristics)
    (simp_all add: example_ctx_def example_env_def uuid_equality_def slots_def slot_uuid_def zero_handles_def
      declared_def)

text \<open>A notification is handed to the stack exactly when it fits the MTU, the CCCD of the client has
  the notification or the indication bit, and a buffer is available; then it is the one request,
  with the data unchanged.\<close>

theorem notification_gate:
  "snd (gatt_intf_send_notification env conn h data) =
     (case cccd_callback env of
        None \<Rightarrow> []
      | Some cb \<Rightarrow>
          if length data \<le> unat (bearer_mtu env conn - gatt_hdr_size env) \<and> cb conn h AND 3 \<noteq> 0 \<and>
             (data = [] \<or> get_buffer env (length data))
          then [if cb conn h AND 2 \<noteq> 0 then SEND_INDICATION conn h data else SEND_NOTIFICATION conn h data]
          else [])"
  by (auto simp: gatt_intf_send_notification_def Let_def split: option.splits)

text \<open>With a stack that accepts every request, enabling notifications writes the CCCD of every listed
  characteristic that has one, in the order of the list and one at a time, and then calls the completion
  callback exactly once.\<close>

theorem enable_notifications_complete:
  assumes "accepting env" "gatt_intf_alloc_operation_list env ENABLE_NOTIFICATION len conn n = Some p0"
    and "p = p0\<lparr>pp_handles := hs\<rparr>" "length hs = unat n"
  shows "case gatt_intf_execute_handle_operations env p of (st, p1, acts) \<Rightarrow>
    acts @ snd (completions env (length (pending p)) p1) = map (enable_write p) (pending p) @ complete_cb p"
proof -
  have p: "current_index p \<le> length (pp_handles p)" "pfn_operation p = ENABLE_NOTIFICATION"
    "op_has_callback p" "\<not> iterating_loop p" "ops_in_progress p = 0"
    using assms(2,3) by (auto simp: gatt_intf_alloc_operation_list_def split: if_splits)
  obtain p' where p': "current_index p' \<le> length (pp_handles p')" "pfn_operation p' = ENABLE_NOTIFICATION"
    "op_has_callback p'" "\<not> iterating_loop p'" "op_conn_id p' = op_conn_id p"
    "pending p = [] \<Longrightarrow> gatt_intf_execute_handle_operations env p = (GATT_SUCCESS, p', complete_cb p) \<and>
       is_operation_complete p'"
    "\<And>d ds. pending p = d # ds \<Longrightarrow>
       gatt_intf_execute_handle_operations env p = (GATT_SUCCESS, p', [enable_write p d]) \<and>
       pending p' = ds \<and> ops_in_progress p' = 1"
    by (rule enable_execute [OF assms(1) p]) blast
  have eq: "enable_write p' = enable_write p" "complete_cb p' = complete_cb p"
    using p'(5) by (auto simp: enable_write_def complete_cb_def)
  show ?thesis
  proof (cases "pending p")
    case Nil
    with p'(6) show ?thesis by simp
  next
    case (Cons d ds)
    with p'(7) have e: "gatt_intf_execute_handle_operations env p = (GATT_SUCCESS, p', [enable_write p d])"
      "pending p' = ds" "ops_in_progress p' = 1" by auto
    have "snd (completions env (Suc (length (pending p'))) p') = map (enable_write p') (pending p') @ complete_cb p'"
      using assms(1) p'(1-4) e(3) by (rule completions_accepting)
    then show ?thesis unfolding Cons e(1) e(2) [symmetric] using eq by (simp add: e(2))
  qed
qed

definition example_list :: "gatt_intf_characteristic_handles option list" where
  "example_list = [Some \<lparr>ch_handle = 10, value_handle = 11, descriptor_handle = 12\<rparr>, None,
     Some \<lparr>ch_handle = 13, value_handle = 14, descriptor_handle = 0\<rparr>,
     Some \<lparr>ch_handle = 15, value_handle = 16, descriptor_handle = 17\<rparr>]"

definition example_op :: gatt_intf_operation where
  "example_op = \<lparr>op_conn_id = 1, pfn_operation = ENABLE_NOTIFICATION, op_has_callback = True,
     pp_handles = example_list, current_index = 0, iterating_loop = False, ops_in_progress = 0\<rparr>"

theorem enable_notifications_complete_witness:
  "case gatt_intf_execute_handle_operations example_env example_op of (st, p1, acts) \<Rightarrow>
    acts @ snd (completions example_env (length (pending example_op)) p1) =
      map (enable_write example_op) (pending example_op) @ complete_cb example_op"
proof (rule enable_notifications_complete)
  show "accepting example_env" by (simp add: accepting_def example_env_def)
  show "gatt_intf_alloc_operation_list example_env ENABLE_NOTIFICATION 64 1 4 =
      Some (example_op\<lparr>pp_handles := replicate 4 None\<rparr>)"
    by (simp add: gatt_intf_alloc_operation_list_def example_env_def example_op_def)
  show "example_op = example_op\<lparr>pp_handles := replicate 4 None\<rparr>\<lparr>pp_handles := example_list\<rparr>"
    by (simp add: example_op_def)
  show "length example_list = unat (4 :: u16)" by (simp add: example_list_def)
qed

text \<open>A read of the list that the stack refuses leaves the counter of outstanding requests at 255, and the
  retry after congestion then reports the list complete while its last read is still outstanding.\<close>

theorem refused_read_completes_early:
  assumes "pp_handles p = [Some c]" "value_handle c \<noteq> 0" "current_index p = 0" "ops_in_progress p = 0"
    and "op_has_callback p" "\<forall>n. get_buffer env n" "\<forall>a. client_send env a = GATT_ERROR"
  shows "case gatt_intf_internal_read_char_list env p of (_, p1, _) \<Rightarrow>
    ops_in_progress p1 = 255 \<and>
    (case gatt_intf_internal_read_char_list (env\<lparr>client_send := \<lambda>_. GATT_SUCCESS\<rparr>) p1 of (_, p2, acts) \<Rightarrow>
       acts = [SEND_READ (op_conn_id p) (value_handle c), OPERATION_COMPLETE_CALLBACK (op_conn_id p) GATT_SUCCESS])"
  using assms
  by (simp add: gatt_intf_internal_read_char_list_def gatt_intf_read_characteristic_def Let_def
      complete_callback_def is_operation_complete_def)


theorem refused_read_completes_early_witness:
  "let c = \<lparr>ch_handle = 10, value_handle = 11, descriptor_handle = 12\<rparr>;
       p = example_op\<lparr>pfn_operation := READ_CHAR_LIST, pp_handles := [Some c]\<rparr>;
       env = example_env\<lparr>client_send := \<lambda>_. GATT_ERROR\<rparr>
   in case gatt_intf_internal_read_char_list env p of (_, p1, _) \<Rightarrow>
    ops_in_progress p1 = 255 \<and>
    (case gatt_intf_internal_read_char_list (env\<lparr>client_send := \<lambda>_. GATT_SUCCESS\<rparr>) p1 of (_, p2, acts) \<Rightarrow>
       acts = [SEND_READ (op_conn_id p) (value_handle c), OPERATION_COMPLETE_CALLBACK (op_conn_id p) GATT_SUCCESS])"
  unfolding Let_def
  by (rule refused_read_completes_early) (simp_all add: example_op_def example_env_def)

end
