(* ===== verification/Audio.thy ===== *)
theory Audio
  imports Ascs_Lib
begin

text \<open>
  The audio path, \<open>lehs_offload.c\<close> and \<open>lehs_audio_driver_rom.c\<close>: the codec
  configuration given to the controller, the data paths of unicast and broadcast streams,
  and the driver's memory of volume, gain and mute. The calls into the audio manager, the
  codec and the isochronous stack are recorded as actions; their results are an environment.
\<close>

section \<open>State and actions\<close>

datatype am_role = WICED_AUDIO_SINK_ROLE | WICED_HF_ROLE

datatype am_stream_type = A2DP_PLAYBACK | HFP

text \<open>
  The direction argument of \<open>wiced_ble_isoc_remove_data_path\<close> is a bit mask; some callers
  pass a direction instead.
\<close>

datatype path_arg = DPD_OUTPUT_BIT | DPD_VALUE data_path_direction

datatype audio_action =
    CONFIGURE_DATA_PATH data_path_direction u8
  | SETUP_DATA_PATH u16 data_path_direction u8 "u8 list"
  | REMOVE_DATA_PATH u16 path_arg
  | AM_STREAM_OPEN am_stream_type
  | AM_STREAM_CONFIG int u32 u32 u8 u8
  | AM_STREAM_START int
  | AM_STREAM_STOP int
  | AM_STREAM_CLOSE int
  | AUDIO_BUFFER_INITIALIZE am_role
  | SET_SINK_MONO2STEREO u32
  | DEVICE_SET_VOLUME u8
  | DEVICE_SET_RECORD_VOLUME int
  | DEVICE_SET_MIC_GAIN int

record audio_env =
  setup_result :: "audio_action \<Rightarrow> wiced_result"
  open_stream_id :: "am_stream_type \<Rightarrow> int"

record audio_state =
  stream_id :: int
  buf_role :: am_role
  prev_volume :: u8
  prev_mic_gain :: u8
  prev_vol_mute :: u8
  prev_mic_mute :: u8

section \<open>The audio driver\<close>

definition driver_volume :: "audio_state \<Rightarrow> u8" where
  "driver_volume st = (if prev_vol_mute st \<noteq> 0 then 0 else prev_volume st div 25)"

definition driver_mic_gain :: "audio_state \<Rightarrow> u8" where
  "driver_mic_gain st = (if prev_mic_mute st \<noteq> 0 then 0 else prev_mic_gain st div 25)"

definition audio_driver_set_volume :: "u8 \<Rightarrow> audio_state \<Rightarrow> audio_state \<times> audio_action list" where
  "audio_driver_set_volume volume st =
     (st\<lparr>prev_volume := volume\<rparr>,
      if prev_vol_mute st = 0 then [DEVICE_SET_VOLUME (volume div 25)] else [])"

definition audio_driver_set_mute_state :: "u8 \<Rightarrow> audio_state \<Rightarrow> audio_state \<times> audio_action list" where
  "audio_driver_set_mute_state mute_enabled st =
     (st\<lparr>prev_vol_mute := mute_enabled\<rparr>,
      [DEVICE_SET_VOLUME ((if mute_enabled \<noteq> 0 then 0 else prev_volume st) div 25)])"

text \<open>The gain is an \<open>int32_t\<close> argument, stored in 8 bits; the quotient truncates towards zero.\<close>

definition c_div :: "int \<Rightarrow> int \<Rightarrow> int" where
  "c_div a b = (if a < 0 then - ((- a) div b) else a div b)"

definition audio_driver_set_mic_gain :: "int \<Rightarrow> audio_state \<Rightarrow> audio_state \<times> audio_action list" where
  "audio_driver_set_mic_gain gain st =
     (st\<lparr>prev_mic_gain := of_int gain\<rparr>, [DEVICE_SET_MIC_GAIN (c_div gain 25)])"

definition audio_driver_set_mic_mute_state :: "u8 \<Rightarrow> audio_state \<Rightarrow> audio_state \<times> audio_action list" where
  "audio_driver_set_mic_mute_state mute st =
     (st\<lparr>prev_mic_mute := mute\<rparr>,
      [DEVICE_SET_RECORD_VOLUME (if mute \<noteq> 0 then 0 else uint (prev_mic_gain st div 25))])"

definition audio_driver_init_vol :: "audio_state \<Rightarrow> audio_action list" where
  "audio_driver_init_vol st =
     [DEVICE_SET_VOLUME (driver_volume st), DEVICE_SET_MIC_GAIN (uint (driver_mic_gain st))]"

definition audio_driver_config_frequency ::
  "audio_env \<Rightarrow> u32 \<Rightarrow> u32 \<Rightarrow> am_stream_type \<Rightarrow> audio_state \<Rightarrow> int \<times> audio_action list" where
  "audio_driver_config_frequency env sampling_rate no_of_channels type st =
     (let sid = open_stream_id env type
      in (sid, [AM_STREAM_OPEN type,
                AM_STREAM_CONFIG sid sampling_rate no_of_channels (driver_volume st) (driver_mic_gain st)]))"

section \<open>Data paths\<close>

definition lehs_isoc_dhm_reinit :: "am_role \<Rightarrow> audio_state \<Rightarrow> audio_state \<times> audio_action list" where
  "lehs_isoc_dhm_reinit device_role st =
     (if buf_role st = device_role then (st, [])
      else (st\<lparr>buf_role := device_role\<rparr>,
            [AM_STREAM_CLOSE (stream_id st), AUDIO_BUFFER_INITIALIZE device_role]))"

text \<open>
  The codec configuration of the controller: a bit for the sampling frequency, the frame
  duration counted from 1, and the octets per codec frame cut to 8 bits.
\<close>

definition lehs_isoc_dhm_get_csc :: "ga_lib_ascs_csc \<Rightarrow> wiced_result \<times> u8 list" where
  "lehs_isoc_dhm_get_csc csc =
     (if sampling_frequency_hz csc = 0 \<or> frame_duration_us csc = 0 \<or> octets_per_codec_frame csc = 0
      then (WICED_ERROR, [])
      else if sampling_frequency_hz csc \<notin> {8000, 16000, 24000, 32000, 44100, 48000}
      then (WICED_UNSUPPORTED, [])
      else if frame_duration_us csc \<notin> {7500, 10000} then (WICED_UNSUPPORTED, [])
      else (WICED_SUCCESS,
            [3, 1, push_bit (unat (sampling_frequency_hz csc div 8000) - 1) 1, 0,
             2, 2, ga_lib_bap_get_frame_duration_index (frame_duration_us csc) + 1,
             3, 4, ucast (octets_per_codec_frame csc), 0]))"

abbreviation (input) ARIP_MXTDM_I2S_1_CH_L_DATA_PATH_ID :: u8 where
  "ARIP_MXTDM_I2S_1_CH_L_DATA_PATH_ID \<equiv> 0xA0"
abbreviation (input) ARIP_MXTDM_I2S_1_CH_R_DATA_PATH_ID :: u8 where
  "ARIP_MXTDM_I2S_1_CH_R_DATA_PATH_ID \<equiv> 0xA1"

text \<open>The \<open>switch\<close> on the location: the path identifier stays 0 for any other location.\<close>

definition data_path_of_location :: "data_path_direction \<Rightarrow> u32 \<Rightarrow> u8 \<times> audio_action list" where
  "data_path_of_location dir aca =
     (if aca = 1 then (ARIP_MXTDM_I2S_1_CH_L_DATA_PATH_ID,
                       [CONFIGURE_DATA_PATH dir ARIP_MXTDM_I2S_1_CH_L_DATA_PATH_ID])
      else if aca = 2 then (ARIP_MXTDM_I2S_1_CH_R_DATA_PATH_ID,
                            [CONFIGURE_DATA_PATH dir ARIP_MXTDM_I2S_1_CH_R_DATA_PATH_ID])
      else if aca = 3 then (0xA0 OR 0x1F,
                            [CONFIGURE_DATA_PATH dir ARIP_MXTDM_I2S_1_CH_L_DATA_PATH_ID,
                             CONFIGURE_DATA_PATH dir ARIP_MXTDM_I2S_1_CH_R_DATA_PATH_ID])
      else (0, []))"

definition lehs_isoc_dhm_setup_cis_stream ::
  "audio_env \<Rightarrow> u8 \<Rightarrow> ga_lib_ascs_ase \<Rightarrow> u16 \<Rightarrow> audio_state
    \<Rightarrow> wiced_result \<times> audio_state \<times> audio_action list" where
  "lehs_isoc_dhm_setup_cis_stream env csis_size ase cis_handle st =
     (let p_csc = cfg_csc (ase_cfg ase);
          aca = audio_channel_allocation p_csc;
          num_channels = (if aca \<noteq> 0 then count_bits aca else 0)
      in if num_channels > 2 then (WICED_UNSUPPORTED, st, [])
         else case lehs_isoc_dhm_get_csc p_csc of (ret, csc) \<Rightarrow>
           if ret \<noteq> WICED_SUCCESS then (ret, st, [])
           else
             let media = (streaming_audio_ctx (ase_metadata ase) = 4);
                 (st, a1) = lehs_isoc_dhm_reinit (if media then WICED_AUDIO_SINK_ROLE else WICED_HF_ROLE) st;
                 type = (if media then A2DP_PLAYBACK else HFP);
                 (sid, a2) = audio_driver_config_frequency env (sampling_frequency_hz p_csc)
                               (of_nat num_channels) type st;
                 (path, a3) = data_path_of_location (data_path_dir ase)
                                (if type = HFP \<and> csis_size > 1 then 1 else aca);
                 setup = SETUP_DATA_PATH cis_handle (data_path_dir ase) path csc
             in (setup_result env setup, st\<lparr>stream_id := sid\<rparr>,
                 a1 @ a2 @ [SET_SINK_MONO2STEREO aca] @ a3 @ [setup]))"

definition lehs_isoc_dhm_start_stream :: "audio_state \<Rightarrow> audio_action list" where
  "lehs_isoc_dhm_start_stream st = AM_STREAM_START (stream_id st) # audio_driver_init_vol st"

definition isoc_dhm_free_stream :: "audio_state \<Rightarrow> audio_action list" where
  "isoc_dhm_free_stream st = [AM_STREAM_STOP (stream_id st), AM_STREAM_CLOSE (stream_id st)]"

definition lehs_isoc_dhm_free_cis_stream :: "audio_state \<Rightarrow> u16 \<Rightarrow> path_arg \<Rightarrow> audio_action list" where
  "lehs_isoc_dhm_free_cis_stream st conn_hdl dir =
     isoc_dhm_free_stream st @ [REMOVE_DATA_PATH conn_hdl dir]"

definition lehs_isoc_dhm_free_bis_stream :: "audio_state \<Rightarrow> u16 list \<Rightarrow> u8 \<Rightarrow> audio_action list option" where
  "lehs_isoc_dhm_free_bis_stream st conn_hdl_list bis_count =
     (if unat bis_count \<le> length conn_hdl_list
      then Some (isoc_dhm_free_stream st @
             map (\<lambda>h. REMOVE_DATA_PATH h DPD_OUTPUT_BIT) (take (unat bis_count) conn_hdl_list))
      else None)"

section \<open>What is set up\<close>

lemma setup_cis_stream_cases:
  "lehs_isoc_dhm_setup_cis_stream env csis ase h st = (ret, st', acts) \<Longrightarrow>
     st' = st \<and> acts = [] \<and> ret \<noteq> WICED_SUCCESS \<or>
     (\<exists>path. last acts = SETUP_DATA_PATH h (data_path_dir ase) path (snd (lehs_isoc_dhm_get_csc (cfg_csc (ase_cfg ase)))) \<and>
        acts \<noteq> [] \<and> fst (lehs_isoc_dhm_get_csc (cfg_csc (ase_cfg ase))) = WICED_SUCCESS \<and>
        ret = setup_result env (last acts))"
  by (auto simp: lehs_isoc_dhm_setup_cis_stream_def Let_def split: if_splits prod.splits)

lemma get_csc_length: "lehs_isoc_dhm_get_csc csc = (WICED_SUCCESS, bytes) \<Longrightarrow> length bytes = 11"
  by (auto simp: lehs_isoc_dhm_get_csc_def split: if_splits)

lemma volume_levels: "driver_volume st \<le> 10"
proof -
  have "unat (prev_volume st) < 256" by (rule order_less_le_trans [OF unsigned_less]) simp
  then have "unat (prev_volume st div 25) \<le> 10" by (simp add: unat_div)
  then show ?thesis by (simp add: driver_volume_def word_le_nat_alt)
qed

end
