(* ===== verification/Lehs_Types.thy ===== *)
theory Lehs_Types
  imports Gatt_Intf Audio Pacs
begin

text \<open>
  The data of \<open>lehs.h\<close> that several components share: the ASE with its connection handles,
  the handles of the attribute table that the code names, and the control block of a
  connection.
\<close>

section \<open>Attribute handles\<close>

abbreviation (input) HDLC_ASCS_ASE_SINK_VALUE :: u16 where "HDLC_ASCS_ASE_SINK_VALUE \<equiv> 0x0102"
abbreviation (input) HDLC_ASCS_ASE_SOURCE_VALUE :: u16 where "HDLC_ASCS_ASE_SOURCE_VALUE \<equiv> 0x0105"
abbreviation (input) HDLC_ASCS_ASE_SINK_2_VALUE :: u16 where "HDLC_ASCS_ASE_SINK_2_VALUE \<equiv> 0x0108"
abbreviation (input) HDLC_ASCS_ASE_CONTROL_POINT_VALUE :: u16 where
  "HDLC_ASCS_ASE_CONTROL_POINT_VALUE \<equiv> 0x010B"

section \<open>ASEs and connections\<close>

record lehs_ase_data =
  ase :: ga_lib_ascs_ase
  acl_conn_handle :: u16
  cis_conn_handle :: u16
  gatt_ase_value_handle :: u16
  data_path_established :: bool

abbreviation (input) LEHS_ASE_INDEX_MAX :: nat where "LEHS_ASE_INDEX_MAX \<equiv> 3"
abbreviation (input) LEHS_MAX_CONNECTIONS :: nat where "LEHS_MAX_CONNECTIONS \<equiv> 2"

text \<open>The cached handles of the peer's services, of \<open>lehs_nvram.h\<close>, and the values read from them.\<close>

record lehs_peer_profiles =
  gmcs_service :: gatt_intf_service_range
  gtbs_service :: gatt_intf_service_range
  gmap_service :: gatt_intf_service_range
  tmap_service :: gatt_intf_service_range
  gmcs :: "gatt_intf_characteristic_handles list"
  gtbs :: "gatt_intf_characteristic_handles list"
  gmap :: "gatt_intf_characteristic_handles list"
  tmap :: "gatt_intf_characteristic_handles list"

record lehs_mcs_data =
  media_player_name :: "u8 list"
  track_title :: "u8 list"
  track_duration :: u32
  track_position :: u32
  playback_speed :: u8
  seeking_speed :: u8
  playing_order :: u8
  playing_order_supported :: u16
  media_state :: u8
  media_control_supported_opcodes :: u32
  content_control_id :: u8

record lehs_gmap_data =
  gmap_role :: u8
  ugg_features :: u8
  ugt_features :: u8
  bgs_features :: u8
  bgr_features :: u8

text \<open>The control block of a connection.\<close>

record lehs_clcb =
  in_use :: bool
  connected :: bool
  mtu_exchanged :: bool
  discovery_complete :: bool
  enabled_notifications :: bool
  read_characteristics :: bool
  ready :: bool
  disconnecting :: bool
  b_is_central :: bool
  conn_id :: u16
  conn_addr_type :: u8
  identity_address_type :: u8
  conn_bda :: "u8 list"
  identity_bd_address :: "u8 list"
  peer_profiles :: lehs_peer_profiles
  local_ase_data :: "lehs_ase_data list"
  mcs_data :: lehs_mcs_data
  gmap_data :: lehs_gmap_data
  p_discovery_ctx :: "gatt_intf_service_discovery_ctx option"
  p_op :: "gatt_intf_operation option"
  cccd_bits :: "u32 list"
  db_hash :: "u8 list"
  csf :: u8

text \<open>The values of \<open>memset(p, 0, sizeof(*p))\<close>.\<close>

definition zero_ase :: ga_lib_ascs_ase where
  "zero_ase = \<lparr>ase_id = 0, ase_type = 0, data_path_dir = DPD_INPUT, ase_state = STATE_IDLE,
     qos_configured = zero_qos, ase_metadata = zero_metadata, ase_cfg = zero_ase_cfg\<rparr>"

definition zero_ase_data :: lehs_ase_data where
  "zero_ase_data = \<lparr>ase = zero_ase, acl_conn_handle = 0, cis_conn_handle = 0,
     gatt_ase_value_handle = 0, data_path_established = False\<rparr>"

definition zero_peer_profiles :: lehs_peer_profiles where
  "zero_peer_profiles = \<lparr>gmcs_service = zero_range, gtbs_service = zero_range, gmap_service = zero_range,
     tmap_service = zero_range, gmcs = replicate 12 zero_handles, gtbs = replicate 16 zero_handles,
     gmap = replicate 5 zero_handles, tmap = replicate 1 zero_handles\<rparr>"

definition zero_mcs_data :: lehs_mcs_data where
  "zero_mcs_data = \<lparr>media_player_name = replicate 40 0, track_title = replicate 40 0, track_duration = 0,
     track_position = 0, playback_speed = 0, seeking_speed = 0, playing_order = 0, playing_order_supported = 0,
     media_state = 0, media_control_supported_opcodes = 0, content_control_id = 0\<rparr>"

definition zero_gmap_data :: lehs_gmap_data where
  "zero_gmap_data = \<lparr>gmap_role = 0, ugg_features = 0, ugt_features = 0, bgs_features = 0, bgr_features = 0\<rparr>"

definition zero_clcb :: lehs_clcb where
  "zero_clcb = \<lparr>in_use = False, connected = False, mtu_exchanged = False, discovery_complete = False,
     enabled_notifications = False, read_characteristics = False, ready = False, disconnecting = False,
     b_is_central = False, conn_id = 0, conn_addr_type = 0, identity_address_type = 0,
     conn_bda = replicate 6 0, identity_bd_address = replicate 6 0, peer_profiles = zero_peer_profiles,
     local_ase_data = replicate LEHS_ASE_INDEX_MAX zero_ase_data, mcs_data = zero_mcs_data,
     gmap_data = zero_gmap_data, p_discovery_ctx = None, p_op = None,
     cccd_bits = [0, 0], db_hash = replicate 16 0, csf = 0\<rparr>"

end
