(* ===== verification/Ascs_Server.thy ===== *)
theory Ascs_Server
  imports Lehs_Types
begin

text \<open>
  The ASCS server, \<open>lehs_ascs.c\<close>: the table of the local ASEs, the two passes over an ASE
  control point operation (validation, then application), the control point notification
  and the autonomous transitions that follow.
\<close>

section \<open>The local ASEs\<close>

definition lehs_ases :: "(u16 \<times> u8 \<times> u8) list" where
  "lehs_ases =
     [(HDLC_ASCS_ASE_SINK_VALUE, 10, ASCS_CHARACTERISTIC_SNK_ASE),
      (HDLC_ASCS_ASE_SINK_2_VALUE, 11, ASCS_CHARACTERISTIC_SNK_ASE),
      (HDLC_ASCS_ASE_SOURCE_VALUE, 12, ASCS_CHARACTERISTIC_SRC_ASE)]"

definition init_ase :: "u16 \<Rightarrow> u16 \<times> u8 \<times> u8 \<Rightarrow> lehs_ase_data" where
  "init_ase acl row =
     (case row of (h, i, t) \<Rightarrow>
        zero_ase_data\<lparr>gatt_ase_value_handle := h, acl_conn_handle := acl,
          ase := zero_ase\<lparr>ase_id := i, ase_type := t, ase_state := STATE_IDLE,
            data_path_dir := (if t = ASCS_CHARACTERISTIC_SRC_ASE then DPD_INPUT else DPD_OUTPUT),
            qos_configured := zero_qos\<lparr>cig_id := 0xFF, cis_id := 0xFF\<rparr>\<rparr>\<rparr>)"

text \<open>\<open>acl\<close> is what \<open>wiced_bt_gatt_get_acl_conn_handle\<close> returns for the connection.\<close>

definition lehs_init_local_ase_data :: "u16 \<Rightarrow> lehs_ase_data list" where
  "lehs_init_local_ase_data acl = map (init_ase acl) lehs_ases"

definition lehs_find_ase_with_ase_id :: "lehs_ase_data list \<Rightarrow> u8 \<Rightarrow> nat option" where
  "lehs_find_ase_with_ase_id ases i = find_index (\<lambda>a. ase_id (ase a) = i) ases"

definition lehs_is_valid_ase_id :: "u8 \<Rightarrow> bool" where
  "lehs_is_valid_ase_id i = (if i = 0 then False else find_index (\<lambda>(_, j, _). j = i) lehs_ases \<noteq> None)"

definition get_preferred_ascs_data :: "ga_lib_ascs_ase \<Rightarrow> ga_lib_ascs_ase" where
  "get_preferred_ascs_data a =
     (let p = ase_cfg a;
          p = (if cfg_target_latency p = 1
               then
                 let d = (if ase_type a = ASCS_CHARACTERISTIC_SRC_ASE then 60000 else 10000)
                 in p\<lparr>cfg_max_transport_latency := (if frame_duration_us (cfg_csc p) = 7500 then 15 else 20),
                      presentation_delay_in_us_max := d, preferred_retransmission_number := 1,
                      preferred_presentation_delay_in_us_max := d\<rparr>
               else p\<lparr>cfg_max_transport_latency := 0x64, presentation_delay_in_us_max := 40000,
                      preferred_retransmission_number := 4,
                      preferred_presentation_delay_in_us_max := 40000\<rparr>)
      in a\<lparr>ase_cfg := p\<lparr>preferred_phy := 2,
             supported_framing := (if sampling_frequency_hz (cfg_csc p) = 44100 then 1 else 0)\<rparr>\<rparr>)"

section \<open>Environment and state\<close>

text \<open>
  \<open>get_cis\<close> and \<open>cis_connected\<close> are the queries to the isochronous stack,
  \<open>stack_octets\<close> the previous contents of the notification buffer.
\<close>

record ascs_env =
  gatt :: gatt_env
  aud :: audio_env
  get_cis :: "u8 \<Rightarrow> u8 \<Rightarrow> u16 \<Rightarrow> u16"
  cis_connected :: "u16 \<Rightarrow> bool"
  pacs :: ga_lib_pacs_data
  csis_set_size :: u8
  stack_octets :: "nat \<Rightarrow> u8"

datatype ascs_action = GATT gatt_action | AUDIO audio_action | ACCEPT_CIS u16 | BIS_EVENT

record ascs_state =
  ases :: "lehs_ase_data list"
  audio :: audio_state
  sent :: "ascs_action list"

definition emit_audio :: "audio_action list \<Rightarrow> ascs_state \<Rightarrow> ascs_state" where
  "emit_audio acts s = s\<lparr>sent := sent s @ map AUDIO acts\<rparr>"

definition emit_gatt :: "gatt_action list \<Rightarrow> ascs_state \<Rightarrow> ascs_state" where
  "emit_gatt acts s = s\<lparr>sent := sent s @ map GATT acts\<rparr>"

definition upd_ase :: "nat \<Rightarrow> (lehs_ase_data \<Rightarrow> lehs_ase_data) \<Rightarrow> ascs_state \<Rightarrow> ascs_state" where
  "upd_ase i f s = s\<lparr>ases := (ases s)[i := f (ases s ! i)]\<rparr>"

definition set_ase_state :: "ga_lib_ascs_state \<Rightarrow> lehs_ase_data \<Rightarrow> lehs_ase_data" where
  "set_ase_state st d = d\<lparr>ase := (ase d)\<lparr>ase_state := st\<rparr>\<rparr>"

definition ga_lib_ascs_notify_ase_state :: "ascs_env \<Rightarrow> u16 \<Rightarrow> nat \<Rightarrow> ascs_state \<Rightarrow> ascs_state option" where
  "ga_lib_ascs_notify_ase_state env conn i s =
     (let d = ases s ! i
      in do {
        buff \<leftarrow> ga_lib_ascs_build_ase_response (stack_octets env) (ase d) 256;
        let (_, acts) = gatt_intf_send_notification (gatt env) conn (gatt_ase_value_handle d) buff;
        Some (emit_gatt acts s) })"

section \<open>The control point notification\<close>

record cp_notif_data =
  n_opcode :: u8
  num_ases :: u8
  status :: "ga_lib_ascs_cp_cmd_sts list"

definition zero_cp_notif :: cp_notif_data where
  "zero_cp_notif = \<lparr>n_opcode = 0, num_ases = 0, status = replicate LEHS_ASE_INDEX_MAX zero_sts\<rparr>"

text \<open>
  The loop over the entries: it stops when the 64 octets of the buffer are used up, or after
  the first entry when the count is 0xFF. The array of entries has three, so a larger count
  reads past it.
\<close>

fun cp_entries :: "nat \<Rightarrow> nat \<Rightarrow> cp_notif_data \<Rightarrow> u8 list \<Rightarrow> u8 list option" where
  "cp_entries 0 k n buff = Some buff"
| "cp_entries (Suc r) k n buff =
     (if 64 - int (length buff) < 3 then Some buff
      else do {
        s \<leftarrow> arr_get (status n) k;
        let buff = buff @ [sts_ase_id s, response_val (response_code s), reason s];
        if num_ases n = 0xff then Some buff else cp_entries r (Suc k) n buff })"

definition lehs_ascs_notify_control_point_response ::
  "ascs_env \<Rightarrow> u16 \<Rightarrow> cp_notif_data \<Rightarrow> ascs_state \<Rightarrow> (cp_notif_data \<times> ascs_state) option" where
  "lehs_ascs_notify_control_point_response env conn n s = do {
     s0 \<leftarrow> arr_get (status n) 0;
     let n = (if response_code s0 \<in> {CP_RESPONSE_UNSUPPORTED_OPCODE, CP_RESPONSE_INVALID_LENGTH}
              then n\<lparr>num_ases := 0xff, status := (status n)[0 := s0\<lparr>sts_ase_id := 0\<rparr>]\<rparr> else n);
     buff \<leftarrow> cp_entries (unat (num_ases n)) 0 n [n_opcode n, num_ases n];
     let (_, acts) = gatt_intf_send_notification (gatt env) conn HDLC_ASCS_ASE_CONTROL_POINT_VALUE buff;
     Some (n, emit_gatt acts s) }"

section \<open>The operations on one ASE\<close>

text \<open>
  What one turn of the loop decides: go on with the next ASE, or return a value. The result
  of a failed data path set-up is a \<open>wiced_result_t\<close> returned as a response code; it occurs
  in the second pass only, whose value nobody reads.
\<close>

datatype cp_result = RSP ga_lib_ascs_cp_response | RSP_DATA_PATH_FAILED

datatype cp_outcome = CONTINUE | RETURN cp_result

definition store_codec_config :: "ga_lib_ascs_config_codec_args \<Rightarrow> lehs_ase_data \<Rightarrow> lehs_ase_data" where
  "store_codec_config c d =
     (let csc = cc_csc c;
          csc = (if audio_channel_allocation csc = 0 then csc\<lparr>audio_channel_allocation := 1\<rparr> else csc);
          a = ase d
      in d\<lparr>ase := get_preferred_ascs_data (a\<lparr>ase_cfg := (ase_cfg a)\<lparr>
             cfg_target_latency := ucast (cc_target_latency c), cfg_target_phy := cc_target_phy c,
             cfg_codec_id := cc_codec_id c, cfg_csc := csc\<rparr>\<rparr>)\<rparr>)"

definition op_config_codec ::
  "ascs_env \<Rightarrow> bool \<Rightarrow> int \<Rightarrow> cursor \<Rightarrow> nat \<Rightarrow> ga_lib_ascs_cp_cmd_sts \<Rightarrow> ascs_state
    \<Rightarrow> (cp_outcome \<times> cursor \<times> ga_lib_ascs_cp_cmd_sts \<times> ascs_state) option" where
  "op_config_codec env apply' len p i sts s = do {
     (n, c, sts) \<leftarrow> ga_lib_ascs_parse_codec_config (fst p) (len - int (used p)) zero_config_codec_args sts;
     let p = skip n p;
     if response_code sts \<noteq> CP_RESPONSE_SUCCESS then Some (RETURN (RSP (response_code sts)), p, sts, s)
     else do {
       is_valid \<leftarrow> (if ase_type (ase (ases s ! i)) = ASCS_CHARACTERISTIC_SNK_ASE
                    then lehs_pacs_verify_snk_codec_config (pacs env) c
                    else lehs_pacs_verify_src_codec_config (pacs env) c);
       if \<not> is_valid
       then Some (RETURN (RSP CP_RESPONSE_UNSUPPORTED_CONFIGURATION_PARAMETER_VALUE), p,
              sts\<lparr>response_code := CP_RESPONSE_UNSUPPORTED_CONFIGURATION_PARAMETER_VALUE,
                  reason := CP_REASON_CODEC_SPECIFIC_CONFIGURATION\<rparr>, s)
       else Some (CONTINUE, p, sts, if apply' then upd_ase i (store_codec_config c) s else s) } }"

text \<open>The QoS configuration is stored in both passes.\<close>

definition op_config_qos ::
  "ascs_env \<Rightarrow> int \<Rightarrow> cursor \<Rightarrow> nat \<Rightarrow> ga_lib_ascs_cp_cmd_sts \<Rightarrow> ascs_state
    \<Rightarrow> (cp_outcome \<times> cursor \<times> ga_lib_ascs_cp_cmd_sts \<times> ascs_state) option" where
  "op_config_qos env len p i sts s = do {
     (n, q, sts) \<leftarrow> ga_lib_ascs_parse_config_qos (fst p) (len - int (used p)) zero_qos sts;
     Some (CONTINUE, skip n p, sts,
       if response_code sts = CP_RESPONSE_SUCCESS
       then upd_ase i (\<lambda>d. d\<lparr>ase := (ase d)\<lparr>qos_configured := q\<rparr>,
              cis_conn_handle := get_cis env (cig_id q) (cis_id q) (acl_conn_handle d)\<rparr>) s
       else s) }"

text \<open>So is the metadata, before the audio context is checked.\<close>

definition op_metadata ::
  "ascs_env \<Rightarrow> int \<Rightarrow> cursor \<Rightarrow> nat \<Rightarrow> ga_lib_ascs_cp_cmd_sts \<Rightarrow> ascs_state
    \<Rightarrow> (cp_outcome \<times> cursor \<times> ga_lib_ascs_cp_cmd_sts \<times> ascs_state) option" where
  "op_metadata env len p i sts s = do {
     (n, md, sts) \<leftarrow> ga_lib_ascs_parse_metadata (fst p) (len - int (used p))
                       (ase_metadata (ase (ases s ! i))) sts;
     let s = upd_ase i (\<lambda>d. d\<lparr>ase := (ase d)\<lparr>ase_metadata := md\<rparr>\<rparr>) s;
     if \<not> lehs_pacs_verify_context_type (pacs env) (ase_type (ase (ases s ! i))) (streaming_audio_ctx md)
     then Some (RETURN (RSP CP_RESPONSE_UNSUPPORTED_METADATA), skip n p,
            sts\<lparr>response_code := CP_RESPONSE_UNSUPPORTED_METADATA,
                reason := CP_REASON_NOT_APPLICABLE\<rparr>, s)
     else Some (CONTINUE, skip n p, sts, s) }"

definition op_receiver_start_ready ::
  "ascs_env \<Rightarrow> bool \<Rightarrow> nat \<Rightarrow> ascs_state \<Rightarrow> cp_outcome \<times> ascs_state" where
  "op_receiver_start_ready env apply' i s =
     (if apply'
      then
        let d = ases s ! i;
            (ret, au, acts) = lehs_isoc_dhm_setup_cis_stream (aud env) (csis_set_size env) (ase d)
                                (cis_conn_handle d) (audio s);
            s = emit_audio acts (s\<lparr>audio := au\<rparr>)
        in (if ret \<noteq> WICED_SUCCESS then RETURN RSP_DATA_PATH_FAILED else CONTINUE, s)
      else (CONTINUE, s))"

definition op_disable_release :: "bool \<Rightarrow> nat \<Rightarrow> ascs_state \<Rightarrow> ascs_state" where
  "op_disable_release apply' i s =
     (if apply'
      then emit_audio (lehs_isoc_dhm_free_cis_stream (audio s) (cis_conn_handle (ases s ! i)) DPD_OUTPUT_BIT) s
      else s)"

text \<open>
  The \<open>switch\<close>. Receiver Stop Ready calls \<open>lehs_isoc_audio_stop_stream\<close>, whose body is empty.
  The default case writes its status into the first entry; the flag says so.
\<close>

definition ase_operation ::
  "ascs_env \<Rightarrow> bool \<Rightarrow> u8 \<Rightarrow> int \<Rightarrow> cursor \<Rightarrow> nat \<Rightarrow> ga_lib_ascs_cp_cmd_sts \<Rightarrow> ascs_state
    \<Rightarrow> (bool \<times> cp_outcome \<times> cursor \<times> ga_lib_ascs_cp_cmd_sts \<times> ascs_state) option" where
  "ase_operation env apply' opcode len p i sts s =
     (if opcode = OPCODE_CONFIG_CODEC then
        do { r \<leftarrow> op_config_codec env apply' len p i sts s; Some (False, r) }
      else if opcode = OPCODE_CONFIG_QOS then
        do { r \<leftarrow> op_config_qos env len p i sts s; Some (False, r) }
      else if opcode = OPCODE_ENABLE \<or> opcode = OPCODE_UPDATE_METADATA then
        do { r \<leftarrow> op_metadata env len p i sts s; Some (False, r) }
      else if opcode = OPCODE_RECEIVER_START_READY then
        (case op_receiver_start_ready env apply' i s of (o', s) \<Rightarrow> Some (False, o', p, sts, s))
      else if opcode = OPCODE_DISABLE \<or> opcode = OPCODE_RELEASE then
        Some (False, CONTINUE, p, sts, op_disable_release apply' i s)
      else if opcode = OPCODE_RECEIVER_STOP_READY then Some (False, CONTINUE, p, sts, s)
      else Some (True, RETURN (RSP CP_RESPONSE_UNSUPPORTED_OPCODE), p, sts, s))"

section \<open>The control point\<close>

text \<open>
  The loop over the ASEs of one operation, with \<open>k\<close> the index of \<open>p_sts\<close>. It goes on as
  long as octets are left, not as long as the announced number of ASEs: the fourth entry
  is outside the array. An unknown ASE ends it with success. Every turn reads an octet.
\<close>

function cp_loop ::
  "ascs_env \<Rightarrow> bool \<Rightarrow> int \<Rightarrow> cursor \<Rightarrow> nat \<Rightarrow> cp_notif_data \<Rightarrow> ascs_state
    \<Rightarrow> (cp_result \<times> cp_notif_data \<times> ascs_state) option" where
  "cp_loop env apply' len p k n s =
     (if len > int (used p) then do {
        (i, q) \<leftarrow> rd8 p;
        sts \<leftarrow> arr_get (status n) k;
        let sts = sts\<lparr>sts_ase_id := i\<rparr>;
        let put = (\<lambda>sts. n\<lparr>status := (status n)[k := sts]\<rparr>);
        case lehs_find_ase_with_ase_id (ases s) i of
          None \<Rightarrow> Some (RSP CP_RESPONSE_SUCCESS, put (sts\<lparr>response_code := CP_RESPONSE_INVALID_ASE_ID\<rparr>), s)
        | Some j \<Rightarrow> do {
            let a = ase (ases s ! j);
            valid \<leftarrow> ga_lib_bap_is_state_transition_valid (ase_type a) (ase_state a) (n_opcode n);
            case valid of
              None \<Rightarrow> Some (RSP CP_RESPONSE_INVALID_ASE_STATE_MACHINE_TRANSITION,
                        put (sts\<lparr>response_code := CP_RESPONSE_INVALID_ASE_STATE_MACHINE_TRANSITION\<rparr>), s)
            | Some next_state \<Rightarrow> do {
                (unsupported, o', q', sts, s) \<leftarrow> ase_operation env apply' (n_opcode n) len q j sts s;
                case o' of
                  RETURN r \<Rightarrow>
                    if unsupported
                    then do {
                      s0 \<leftarrow> arr_get (status (put sts)) 0;
                      Some (r, (put sts)\<lparr>status := (status (put sts))[0 := s0\<lparr>sts_ase_id := 0xff,
                                response_code := CP_RESPONSE_UNSUPPORTED_OPCODE\<rparr>]\<rparr>, s) }
                    else Some (r, put sts, s)
                | CONTINUE \<Rightarrow>
                    if response_code sts = CP_RESPONSE_INVALID_LENGTH
                    then Some (RSP CP_RESPONSE_INVALID_LENGTH, put sts, s)
                    else cp_loop env apply' len q' (Suc k) (put sts)
                           (if response_code sts = CP_RESPONSE_SUCCESS \<and> apply'
                            then upd_ase j (set_ase_state next_state) s else s) } } }
      else Some (RSP CP_RESPONSE_SUCCESS, n, s))"
  by pat_completeness auto

text \<open>Each operation only moves the cursor forward.\<close>

lemma op_config_codec_cursor:
  "op_config_codec env apply' len p i sts s = Some (o', p', sts', s') \<Longrightarrow> \<exists>n. p' = skip n p"
  by (auto simp: op_config_codec_def Let_def bind_eq_Some_conv split: if_splits prod.splits)

lemma op_config_qos_cursor:
  "op_config_qos env len p i sts s = Some (o', p', sts', s') \<Longrightarrow> \<exists>n. p' = skip n p"
  by (auto simp: op_config_qos_def bind_eq_Some_conv)

lemma op_metadata_cursor:
  "op_metadata env len p i sts s = Some (o', p', sts', s') \<Longrightarrow> \<exists>n. p' = skip n p"
  by (auto simp: op_metadata_def Let_def bind_eq_Some_conv split: if_splits prod.splits)

lemma ase_operation_cases:
  assumes "ase_operation env apply' opcode len p i sts s = Some (u, o', p', sts', s')"
  obtains
    (codec) "op_config_codec env apply' len p i sts s = Some (o', p', sts', s')" "opcode = OPCODE_CONFIG_CODEC"
  | (qos) "op_config_qos env len p i sts s = Some (o', p', sts', s')" "opcode = OPCODE_CONFIG_QOS"
  | (metadata) "op_metadata env len p i sts s = Some (o', p', sts', s')"
      "opcode = OPCODE_ENABLE \<or> opcode = OPCODE_UPDATE_METADATA"
  | (start) "op_receiver_start_ready env apply' i s = (o', s')" "p' = p" "sts' = sts"
      "opcode = OPCODE_RECEIVER_START_READY"
  | (disable) "s' = op_disable_release apply' i s" "o' = CONTINUE" "p' = p" "sts' = sts"
      "opcode = OPCODE_DISABLE \<or> opcode = OPCODE_RELEASE"
  | (stop) "s' = s" "o' = CONTINUE" "p' = p" "sts' = sts" "opcode = OPCODE_RECEIVER_STOP_READY"
  | (unsupported) "s' = s" "o' = RETURN (RSP CP_RESPONSE_UNSUPPORTED_OPCODE)" "p' = p" "sts' = sts" "u"
  using assms by (auto simp: ase_operation_def bind_eq_Some_conv split: if_splits prod.splits)

lemma ase_operation_shrinks:
  assumes "ase_operation env apply' opcode len p i sts s = Some (u, o', p', sts', s')"
  shows "length (fst p') \<le> length (fst p)"
  using assms
  by (cases rule: ase_operation_cases)
    (auto simp: skip_def dest!: op_config_codec_cursor op_config_qos_cursor op_metadata_cursor)

termination cp_loop
proof (relation "measure (\<lambda>(env, apply', len, p, k, n, s). length (fst p))", goal_cases)
  case 1
  then show ?case by simp
next
  case prems: (2 env apply' len p k n s)
  then show ?case
    by (cases "fst p") (auto dest!: rd8_SomeD ase_operation_shrinks simp: skip_def)
qed

declare cp_loop.simps [simp del]

definition lehs_ascs_check_write_req ::
  "ascs_env \<Rightarrow> u8 list \<Rightarrow> int \<Rightarrow> bool \<Rightarrow> cp_notif_data \<Rightarrow> ascs_state
    \<Rightarrow> (cp_result \<times> cp_notif_data \<times> ascs_state) option" where
  "lehs_ascs_check_write_req env p_stream len apply' n s = do {
     (opcode, p) \<leftarrow> rd8 (start p_stream);
     (num, p) \<leftarrow> rd8 p;
     let n = n\<lparr>n_opcode := opcode, num_ases := num\<rparr>;
     if opcode > OPCODE_MAX then Some (RSP CP_RESPONSE_UNSUPPORTED_OPCODE, n, s)
     else if num = 0 \<or> unat num > LEHS_ASE_INDEX_MAX then Some (RSP CP_RESPONSE_INVALID_ASE_ID, n, s)
     else cp_loop env apply' len p 0 n s }"

text \<open>What follows a successful operation for the ASE of one entry.\<close>

definition notify_entry ::
  "ascs_env \<Rightarrow> u16 \<Rightarrow> ga_lib_ascs_cp_cmd_sts \<Rightarrow> ascs_state \<Rightarrow> ascs_state option" where
  "notify_entry env conn sts s =
     (case lehs_find_ase_with_ase_id (ases s) (sts_ase_id sts) of
        None \<Rightarrow> Some s
      | Some j \<Rightarrow> do {
          s \<leftarrow> ga_lib_ascs_notify_ase_state env conn j s;
          let d = ases s ! j;
          if cis_connected env (cis_conn_handle d) then Some s
          else if ase_state (ase d) = STATE_RELEASING
          then ga_lib_ascs_notify_ase_state env conn j (upd_ase j (set_ase_state STATE_IDLE) s)
          else if ase_state (ase d) = STATE_DISABLING
          then ga_lib_ascs_notify_ase_state env conn j (upd_ase j (set_ase_state STATE_QOS_CONFIGURED) s)
          else Some s })"

fun notify_entries ::
  "ascs_env \<Rightarrow> u16 \<Rightarrow> nat \<Rightarrow> nat \<Rightarrow> cp_notif_data \<Rightarrow> ascs_state \<Rightarrow> ascs_state option" where
  "notify_entries env conn 0 k n s = Some s"
| "notify_entries env conn (Suc r) k n s = do {
     sts \<leftarrow> arr_get (status n) k;
     s \<leftarrow> notify_entry env conn sts s;
     notify_entries env conn r (Suc k) n s }"

definition lehs_ascs_handle_write_req_evt ::
  "ascs_env \<Rightarrow> u16 \<Rightarrow> u8 list \<Rightarrow> int \<Rightarrow> ascs_state \<Rightarrow> (wiced_result \<times> ascs_state) option" where
  "lehs_ascs_handle_write_req_evt env conn p_stream len s = do {
     (rsp, n, s) \<leftarrow> lehs_ascs_check_write_req env p_stream len False zero_cp_notif s;
     if rsp \<noteq> RSP CP_RESPONSE_SUCCESS
     then do {
       let n = (case rsp of
                  RSP c \<Rightarrow> if c \<in> {CP_RESPONSE_UNSUPPORTED_OPCODE, CP_RESPONSE_INVALID_LENGTH}
                           then n\<lparr>num_ases := 0xff,
                                  status := (status n)[0 := (status n ! 0)\<lparr>response_code := c\<rparr>]\<rparr>
                           else n
                | RSP_DATA_PATH_FAILED \<Rightarrow> n);
       (_, s) \<leftarrow> lehs_ascs_notify_control_point_response env conn n s;
       Some (WICED_ERROR, s) }
     else do {
       (n, s) \<leftarrow> lehs_ascs_notify_control_point_response env conn n s;
       (_, n, s) \<leftarrow> lehs_ascs_check_write_req env p_stream len True n s;
       s \<leftarrow> notify_entries env conn (unat (num_ases n)) 0 n s;
       Some (WICED_SUCCESS, s) } }"

section \<open>What an operation may change\<close>

text \<open>
  The identity of an ASE, which nothing changes; its place in the state machine; and what the
  validation pass leaves alone.
\<close>

definition ase_identity :: "lehs_ase_data \<Rightarrow> u16 \<times> u16 \<times> u8 \<times> u8 \<times> data_path_direction" where
  "ase_identity d = (gatt_ase_value_handle d, acl_conn_handle d, ase_id (ase d), ase_type (ase d),
     data_path_dir (ase d))"

definition ase_core ::
  "lehs_ase_data \<Rightarrow> (u16 \<times> u16 \<times> u8 \<times> u8 \<times> data_path_direction) \<times> ga_lib_ascs_state
     \<times> ga_lib_ascs_ase_codec_config_data \<times> bool" where
  "ase_core d = (ase_identity d, ase_state (ase d), ase_cfg (ase d), data_path_established d)"

definition ase_place :: "lehs_ase_data \<Rightarrow> (u16 \<times> u16 \<times> u8 \<times> u8 \<times> data_path_direction) \<times> ga_lib_ascs_state" where
  "ase_place d = (ase_identity d, ase_state (ase d))"

lemmas ase_views = ase_identity_def ase_core_def ase_place_def

lemma map_upd_same: "(\<And>d. f (g d) = f d) \<Longrightarrow> map f (xs[i := g (xs ! i)]) = map f xs"
  by (cases "i < length xs") (simp_all add: map_update list_update_same_conv list_update_beyond)

lemma upd_ase_simps [simp]:
  "audio (upd_ase i f s) = audio s" "sent (upd_ase i f s) = sent s"
  "ases (upd_ase i f s) = (ases s)[i := f (ases s ! i)]"
  by (simp_all add: upd_ase_def)

lemma emit_simps [simp]:
  "ases (emit_gatt g s) = ases s" "audio (emit_gatt g s) = audio s"
  "sent (emit_gatt g s) = sent s @ map GATT g"
  "ases (emit_audio a s) = ases s" "audio (emit_audio a s) = audio s"
  "sent (emit_audio a s) = sent s @ map AUDIO a"
  by (simp_all add: emit_gatt_def emit_audio_def)

lemma preferred_data_place [simp]:
  "ase_id (get_preferred_ascs_data a) = ase_id a" "ase_type (get_preferred_ascs_data a) = ase_type a"
  "ase_state (get_preferred_ascs_data a) = ase_state a"
  "data_path_dir (get_preferred_ascs_data a) = data_path_dir a"
  "qos_configured (get_preferred_ascs_data a) = qos_configured a"
  "ase_metadata (get_preferred_ascs_data a) = ase_metadata a"
  "cfg_csc (ase_cfg (get_preferred_ascs_data a)) = cfg_csc (ase_cfg a)"
  "cfg_codec_id (ase_cfg (get_preferred_ascs_data a)) = cfg_codec_id (ase_cfg a)"
  by (simp_all add: get_preferred_ascs_data_def Let_def)

lemma store_codec_place [simp]:
  "ase_identity (store_codec_config c d) = ase_identity d"
  "ase_state (ase (store_codec_config c d)) = ase_state (ase d)"
  by (simp_all add: ase_identity_def store_codec_config_def Let_def)

lemma ase_identity_simps [simp]:
  "ase_identity (d\<lparr>cis_conn_handle := h\<rparr>) = ase_identity d"
  "ase_identity (d\<lparr>data_path_established := b\<rparr>) = ase_identity d"
  "ase_identity (d\<lparr>ase := (ase d)\<lparr>qos_configured := q\<rparr>\<rparr>) = ase_identity d"
  "ase_identity (d\<lparr>ase := (ase d)\<lparr>qos_configured := q\<rparr>, cis_conn_handle := h\<rparr>) = ase_identity d"
  "ase_identity (d\<lparr>ase := (ase d)\<lparr>ase_metadata := m\<rparr>\<rparr>) = ase_identity d"
  "ase_identity (set_ase_state t d) = ase_identity d"
  by (simp_all add: ase_identity_def set_ase_state_def)

text \<open>No operation moves an ASE in the state machine; that is left to the loop.\<close>

lemma ase_operation_place:
  assumes "ase_operation env apply' opcode len p i sts s = Some (u, o', p', sts', s')"
  shows "map ase_place (ases s') = map ase_place (ases s)"
  using assms
  by (cases rule: ase_operation_cases)
    (auto simp: op_config_codec_def op_config_qos_def op_metadata_def op_receiver_start_ready_def
      op_disable_release_def bind_eq_Some_conv Let_def map_upd_same
      intro!: map_upd_same simp: ase_place_def split: if_splits prod.splits)

lemma ase_operation_validates:
  assumes "ase_operation env False opcode len p i sts s = Some (u, o', p', sts', s')"
  shows "map ase_core (ases s') = map ase_core (ases s) \<and> audio s' = audio s \<and> sent s' = sent s"
  using assms
  by (cases rule: ase_operation_cases)
    (auto simp: op_config_codec_def op_config_qos_def op_metadata_def op_receiver_start_ready_def
      op_disable_release_def bind_eq_Some_conv Let_def ase_place_def ase_core_def
      intro!: map_upd_same split: if_splits prod.splits)

text \<open>One turn of the loop that goes on, and the turns that end it.\<close>

lemma cp_loop_turn:
  assumes "cp_loop env ap len p k n s = Some (r, n', s')"
  obtains
    (over) "s' = s" "length (status n') = length (status n)" "n_opcode n' = n_opcode n" "num_ases n' = num_ases n"
  | (stop) u o' q q' sts sts' j where "ase_operation env ap (n_opcode n) len q j sts s = Some (u, o', q', sts', s')"
      "length (status n') = length (status n)" "n_opcode n' = n_opcode n" "num_ases n' = num_ases n"
  | (go) u q q' sts sts' j t s1 s2 n2 where
      "ase_operation env ap (n_opcode n) len q j sts s = Some (u, CONTINUE, q', sts', s1)"
      "length (fst q') < length (fst p)" "j < length (ases s)"
      "ga_lib_bap_is_state_transition_valid (ase_type (ase (ases s ! j))) (ase_state (ase (ases s ! j)))
         (n_opcode n) = Some (Some t)"
      "s2 = (if response_code sts' = CP_RESPONSE_SUCCESS \<and> ap then upd_ase j (set_ase_state t) s1 else s1)"
      "n2 = n\<lparr>status := (status n)[k := sts']\<rparr>"
      "cp_loop env ap len q' (Suc k) n2 s2 = Some (r, n', s')"
proof -
  have idx: "lehs_find_ase_with_ase_id (ases s) i = Some j \<Longrightarrow> j < length (ases s)" for i j
    by (auto simp: lehs_find_ase_with_ase_id_def dest: find_index_Some)
  have shr: "length (fst q') < length (fst p)"
    if "rd8 p = Some (i, q)" "ase_operation env ap (n_opcode n) len q j sts s = Some (u, o', q', sts', s1)"
    for i q q' sts sts' j u o' s1
  proof -
    have "length (fst q) < length (fst p)" using that(1) by (cases "fst p") (auto dest!: rd8_SomeD simp: skip_def)
    then show ?thesis using ase_operation_shrinks [OF that(2)] by simp
  qed
  note unf = assms [unfolded cp_loop.simps [of env ap len p k n s]]
  show ?thesis
  proof (cases "len > int (used p)")
    case False
    with unf over show ?thesis by simp
  next
    case True
    with unf obtain i q sts where rd: "rd8 p = Some (i, q)" and sts: "arr_get (status n) k = Some sts"
      by (auto simp: bind_eq_Some_conv)
    let ?sts = "sts\<lparr>sts_ase_id := i\<rparr>"
    show ?thesis
    proof (cases "lehs_find_ase_with_ase_id (ases s) i")
      case None
      with unf True rd sts show ?thesis using over by (auto simp: Let_def)
    next
      case (Some j)
      let ?a = "ase (ases s ! j)"
      obtain v where v: "ga_lib_bap_is_state_transition_valid (ase_type ?a) (ase_state ?a) (n_opcode n) = Some v"
        using unf True rd sts Some by (auto simp: bind_eq_Some_conv Let_def)
      show ?thesis
      proof (cases v)
        case None
        with unf True rd sts Some v show ?thesis using over by (auto simp: Let_def)
      next
        case (Some t)
        with unf True rd sts \<open>_ = Some j\<close> v obtain u o' q' sts' s1
          where op: "ase_operation env ap (n_opcode n) len q j ?sts s = Some (u, o', q', sts', s1)"
          by (auto simp: bind_eq_Some_conv Let_def)
        note facts = True rd sts \<open>_ = Some j\<close> v \<open>v = Some t\<close> op
        show ?thesis
        proof (cases o')
          case (RETURN x)
          with unf facts show ?thesis
            by (auto simp: Let_def bind_eq_Some_conv split: if_splits intro!: stop)
        next
          case CONTINUE
          show ?thesis
          proof (cases "response_code sts' = CP_RESPONSE_INVALID_LENGTH")
            case True
            with CONTINUE unf facts show ?thesis by (auto simp: Let_def intro!: stop)
          next
            case False
            with CONTINUE unf facts show ?thesis
              using go [OF op [unfolded CONTINUE] shr [OF rd op] idx [OF \<open>_ = Some j\<close>]]
              by (simp add: Let_def)
          qed
        qed
      qed
    qed
  qed
qed

section \<open>The moves of the ASEs in their state machine\<close>

text \<open>
  During one request with opcode \<open>x\<close> an ASE moves by control point transitions for \<open>x\<close>, and,
  with its CIS down, on its own from Releasing to Idle and from Disabling to QoS Configured.
\<close>

inductive server_step :: "u8 \<Rightarrow> u8 \<Rightarrow> ga_lib_ascs_state \<Rightarrow> ga_lib_ascs_state \<Rightarrow> bool" where
  control_point: "ase_transition ct s x t \<Longrightarrow> server_step x ct s t"
| released: "server_step x ct STATE_RELEASING STATE_IDLE"
| disabled: "server_step x ct STATE_DISABLING STATE_QOS_CONFIGURED"

inductive_cases server_stepE: "server_step x ct s t"

definition ase_moves :: "u8 \<Rightarrow> lehs_ase_data \<Rightarrow> lehs_ase_data \<Rightarrow> bool" where
  "ase_moves x d d' \<longleftrightarrow> ase_identity d' = ase_identity d \<and>
     (server_step x (ase_type (ase d)))\<^sup>*\<^sup>* (ase_state (ase d)) (ase_state (ase d'))"

definition ases_move :: "u8 \<Rightarrow> lehs_ase_data list \<Rightarrow> lehs_ase_data list \<Rightarrow> bool" where
  "ases_move x ds ds' \<longleftrightarrow> list_all2 (ase_moves x) ds ds'"

lemma ase_identity_type: "ase_identity d = ase_identity d' \<Longrightarrow> ase_type (ase d) = ase_type (ase d')"
  by (simp add: ase_identity_def)

lemma ase_moves_refl [simp]: "ase_moves x d d"
  by (simp add: ase_moves_def)

lemma ase_moves_trans: "ase_moves x d d' \<Longrightarrow> ase_moves x d' d'' \<Longrightarrow> ase_moves x d d''"
  by (auto simp: ase_moves_def dest: ase_identity_type)

lemma ases_move_refl [simp]: "ases_move x ds ds"
  by (simp add: ases_move_def list_all2_refl)

lemma ases_move_trans: "ases_move x ds ds' \<Longrightarrow> ases_move x ds' ds'' \<Longrightarrow> ases_move x ds ds''"
  unfolding ases_move_def by (erule (1) list_all2_trans [rotated]) (rule ase_moves_trans)

lemma ases_move_place: "map ase_place ds' = map ase_place ds \<Longrightarrow> ases_move x ds ds'"
  unfolding ases_move_def
  by (auto simp: list_all2_conv_all_nth ase_moves_def ase_place_def list_eq_iff_nth_eq)

lemma ases_move_set_state:
  assumes "server_step x (ase_type (ase (ds ! j))) (ase_state (ase (ds ! j))) t"
  shows "ases_move x ds (ds[j := set_ase_state t (ds ! j)])"
  unfolding ases_move_def using assms
  by (cases "j < length ds")
    (auto simp: list_all2_conv_all_nth nth_list_update list_update_beyond list_all2_refl ase_moves_def set_ase_state_def ase_identity_def)

text \<open>What the control point operations alone do: transitions of the state machine for the opcode, and nothing on its own.\<close>

definition cp_moves :: "u8 \<Rightarrow> lehs_ase_data \<Rightarrow> lehs_ase_data \<Rightarrow> bool" where
  "cp_moves x d d' \<longleftrightarrow> ase_identity d' = ase_identity d \<and>
     (\<lambda>s t. ase_transition (ase_type (ase d)) s x t)\<^sup>*\<^sup>* (ase_state (ase d)) (ase_state (ase d'))"

abbreviation ases_cp :: "u8 \<Rightarrow> lehs_ase_data list \<Rightarrow> lehs_ase_data list \<Rightarrow> bool" where
  "ases_cp x \<equiv> list_all2 (cp_moves x)"

lemma cp_moves_trans: "cp_moves x d d' \<Longrightarrow> cp_moves x d' d'' \<Longrightarrow> cp_moves x d d''"
  by (auto simp: cp_moves_def dest: ase_identity_type)

lemma ases_cp_refl [simp, intro]: "ases_cp x ds ds"
  by (simp add: list_all2_refl cp_moves_def)

lemma ases_cp_trans: "ases_cp x ds ds' \<Longrightarrow> ases_cp x ds' ds'' \<Longrightarrow> ases_cp x ds ds''"
  by (erule (1) list_all2_trans [rotated]) (rule cp_moves_trans)

lemma ases_cp_place: "map ase_place ds' = map ase_place ds \<Longrightarrow> ases_cp x ds ds'"
  by (auto simp: list_all2_conv_all_nth cp_moves_def ase_place_def list_eq_iff_nth_eq)

lemma ases_cp_set_state:
  assumes "ase_transition (ase_type (ase (ds ! j))) (ase_state (ase (ds ! j))) x t"
  shows "ases_cp x ds (ds[j := set_ase_state t (ds ! j)])"
  using assms
  by (cases "j < length ds")
    (auto simp: list_all2_conv_all_nth nth_list_update list_update_beyond cp_moves_def set_ase_state_def ase_identity_def)

lemma cp_moves_ase_moves: "cp_moves x d d' \<Longrightarrow> ase_moves x d d'"
  unfolding cp_moves_def ase_moves_def
  by (auto elim!: rtranclp_mono [THEN predicate2D, rotated] intro: server_step.control_point)

lemma ases_cp_move: "ases_cp x ds ds' \<Longrightarrow> ases_move x ds ds'"
  unfolding ases_move_def by (rule list_all2_mono [OF _ cp_moves_ase_moves])

text \<open>The invariant of the table: the three ASEs of \<open>lehs_ases\<close>, each in a state it may have.\<close>

definition ase_state_ok :: "lehs_ase_data \<Rightarrow> bool" where
  "ase_state_ok d \<longleftrightarrow> ase_state (ase d) \<noteq> STATE_MAX \<and>
     (ase_type (ase d) = ASCS_CHARACTERISTIC_SNK_ASE \<longrightarrow> ase_state (ase d) \<noteq> STATE_DISABLING)"

definition ase_table_ok :: "lehs_ase_data list \<Rightarrow> bool" where
  "ase_table_ok ds \<longleftrightarrow>
     map (\<lambda>d. (gatt_ase_value_handle d, ase_id (ase d), ase_type (ase d))) ds = lehs_ases \<and>
     list_all ase_state_ok ds"

lemma server_steps_ok:
  assumes "(server_step x ct)\<^sup>*\<^sup>* s t" "s \<noteq> STATE_MAX" "ct = ASCS_CHARACTERISTIC_SNK_ASE \<longrightarrow> s \<noteq> STATE_DISABLING"
  shows "t \<noteq> STATE_MAX \<and> (ct = ASCS_CHARACTERISTIC_SNK_ASE \<longrightarrow> t \<noteq> STATE_DISABLING)"
  using assms
  by (induction rule: rtranclp_induct)
    (auto elim!: server_stepE dest: ase_transition_not_max ase_transition_sink)

lemma ase_moves_ok: "ase_moves x d d' \<Longrightarrow> ase_state_ok d \<Longrightarrow> ase_state_ok d'"
  unfolding ase_moves_def ase_state_ok_def using server_steps_ok ase_identity_type by metis

lemma ases_move_ok:
  assumes "ases_move x ds ds'" "ase_table_ok ds"
  shows "ase_table_ok ds'"
proof -
  have "map ase_identity ds' = map ase_identity ds"
    using assms(1) by (auto simp: ases_move_def list_all2_conv_all_nth ase_moves_def list_eq_iff_nth_eq)
  then have "map (\<lambda>d. (gatt_ase_value_handle d, ase_id (ase d), ase_type (ase d))) ds' =
      map (\<lambda>d. (gatt_ase_value_handle d, ase_id (ase d), ase_type (ase d))) ds"
    by (auto simp: list_eq_iff_nth_eq ase_identity_def)
  moreover have "list_all ase_state_ok ds'"
    using assms unfolding ases_move_def ase_table_ok_def list_all2_conv_all_nth list_all_length
    by (metis ase_moves_ok)
  ultimately show ?thesis using assms(2) by (simp add: ase_table_ok_def)
qed

lemma init_table_ok: "ase_table_ok (lehs_init_local_ase_data acl)"
  by (simp add: ase_table_ok_def lehs_init_local_ase_data_def lehs_ases_def init_ase_def ase_state_ok_def
      zero_ase_data_def zero_ase_def)

lemma table_ok_nth: "ase_table_ok ds \<Longrightarrow> j < length ds \<Longrightarrow> ase_state_ok (ds ! j)"
  by (simp add: ase_table_ok_def list_all_length)

section \<open>The two passes\<close>

lemma cp_loop_cp:
  "cp_loop env ap len p k n s = Some (r, n', s') \<Longrightarrow> ase_table_ok (ases s) \<Longrightarrow>
     ases_cp (n_opcode n) (ases s) (ases s')"
proof (induction "length (fst p)" arbitrary: p k n s rule: less_induct)
  case less
  from less.prems(1) show ?case
  proof (cases rule: cp_loop_turn)
    case over
    then show ?thesis by simp
  next
    case (stop u o' q q' sts sts' j)
    then show ?thesis using ases_cp_place [OF ase_operation_place] by blast
  next
    case (go u q q' sts sts' j t s1 s2 n2)
    note pl = ase_operation_place [OF go(1)]
    have len: "length (ases s1) = length (ases s)" using pl by (metis length_map)
    have pj: "ase_place (ases s1 ! j) = ase_place (ases s ! j)"
      using pl go(3) len by (metis nth_map)
    have "ase_transition (ase_type (ase (ases s1 ! j))) (ase_state (ase (ases s1 ! j))) (n_opcode n) t"
      using go(4) pj table_ok_nth [OF less.prems(2) go(3)]
      by (simp add: transition_valid_iff ase_state_ok_def ase_place_def ase_identity_def)
    then have "ases_cp (n_opcode n) (ases s1) (ases s2)"
      using go(5) by (simp add: ases_cp_set_state)
    with ases_cp_place [OF pl] have mv: "ases_cp (n_opcode n) (ases s) (ases s2)"
      by (rule ases_cp_trans)
    have "ases_cp (n_opcode n) (ases s2) (ases s')"
      using less.hyps [OF go(2) go(7) ases_move_ok [OF ases_cp_move [OF mv] less.prems(2)]] go(6) by simp
    with mv show ?thesis by (rule ases_cp_trans)
  qed
qed

lemmas cp_loop_moves = ases_cp_move [OF cp_loop_cp]

lemma cp_loop_header:
  "cp_loop env ap len p k n s = Some (r, n', s') \<Longrightarrow>
     length (status n') = length (status n) \<and> n_opcode n' = n_opcode n \<and> num_ases n' = num_ases n"
proof (induction "length (fst p)" arbitrary: p k n s rule: less_induct)
  case less
  from less.prems show ?case
  proof (cases rule: cp_loop_turn)
    case go
    then show ?thesis using less.hyps [OF go(2) go(7)] by simp
  qed auto
qed

lemma cp_loop_validates:
  "cp_loop env False len p k n s = Some (r, n', s') \<Longrightarrow>
     map ase_core (ases s') = map ase_core (ases s) \<and> audio s' = audio s \<and> sent s' = sent s"
proof (induction "length (fst p)" arbitrary: p k n s rule: less_induct)
  case less
  from less.prems show ?case
  proof (cases rule: cp_loop_turn)
    case over
    then show ?thesis by simp
  next
    case stop
    then show ?thesis using ase_operation_validates by blast
  next
    case go
    then show ?thesis using less.hyps [OF go(2) go(7)] ase_operation_validates [OF go(1)] by simp
  qed
qed

lemma check_write_req_cases:
  assumes "lehs_ascs_check_write_req env (x # m # ps) len ap n s = Some (r, n', s')"
  obtains (refused) "s' = s" "n' = n\<lparr>n_opcode := x, num_ases := m\<rparr>"
      "r = RSP CP_RESPONSE_UNSUPPORTED_OPCODE \<or> r = RSP CP_RESPONSE_INVALID_ASE_ID"
  | (loop) "cp_loop env ap len (ps, 2) 0 (n\<lparr>n_opcode := x, num_ases := m\<rparr>) s = Some (r, n', s')"
      "m \<noteq> 0" "unat m \<le> 3" "x \<le> OPCODE_MAX"
  using assms
  by (auto simp: lehs_ascs_check_write_req_def rd_simps start_def Let_def numeral_2_eq_2 split: if_splits)

lemma check_write_req_moves:
  "lehs_ascs_check_write_req env (x # m # ps) len ap n s = Some (r, n', s') \<Longrightarrow> ase_table_ok (ases s) \<Longrightarrow>
     ases_move x (ases s) (ases s')"
  by (erule check_write_req_cases) (auto dest!: cp_loop_moves)

lemma check_write_req_cp:
  "lehs_ascs_check_write_req env (x # m # ps) len ap n s = Some (r, n', s') \<Longrightarrow> ase_table_ok (ases s) \<Longrightarrow>
     ases_cp x (ases s) (ases s')"
  by (erule check_write_req_cases) (auto dest!: cp_loop_cp)

lemma check_write_req_validates:
  "lehs_ascs_check_write_req env (x # m # ps) len False n s = Some (r, n', s') \<Longrightarrow>
     map ase_core (ases s') = map ase_core (ases s) \<and> audio s' = audio s \<and> sent s' = sent s"
  by (erule check_write_req_cases) (auto dest!: cp_loop_validates)

lemma check_write_req_header:
  "lehs_ascs_check_write_req env (x # m # ps) len ap n s = Some (r, n', s') \<Longrightarrow>
     length (status n') = length (status n) \<and> n_opcode n' = x \<and> num_ases n' = m"
  by (erule check_write_req_cases) (auto dest!: cp_loop_header)

lemma arr_get_0 [simp]: "xs \<noteq> [] \<Longrightarrow> arr_get xs 0 = Some (xs ! 0)"
  by (simp add: arr_get_def)

lemma notify_state_total: "\<exists>acts. ga_lib_ascs_notify_ase_state env conn j s = Some (emit_gatt acts s)"
proof -
  obtain buff where "ga_lib_ascs_build_ase_response (stack_octets env) (ase (ases s ! j)) 256 = Some buff"
    using build_ase_response_le [of "stack_octets env" "ase (ases s ! j)" 256] by auto
  then show ?thesis by (auto simp: ga_lib_ascs_notify_ase_state_def Let_def split: prod.splits)
qed

lemma notify_state_ases:
  "ga_lib_ascs_notify_ase_state env conn j s = Some s' \<Longrightarrow> ases s' = ases s \<and> audio s' = audio s"
  using notify_state_total [of env conn j s] by auto

text \<open>The autonomous move of an ASE whose CIS is down.\<close>

definition settle :: "ascs_env \<Rightarrow> lehs_ase_data \<Rightarrow> lehs_ase_data" where
  "settle env d =
     (if cis_connected env (cis_conn_handle d) then d
      else if ase_state (ase d) = STATE_RELEASING then set_ase_state STATE_IDLE d
      else if ase_state (ase d) = STATE_DISABLING then set_ase_state STATE_QOS_CONFIGURED d
      else d)"

lemma notify_entry_settles:
  assumes "lehs_find_ase_with_ase_id (ases s) (sts_ase_id sts) = Some j"
  shows "\<exists>s'. notify_entry env conn sts s = Some s' \<and> audio s' = audio s \<and>
           ases s' = (ases s)[j := settle env (ases s ! j)]"
proof -
  obtain a where a: "ga_lib_ascs_notify_ase_state env conn j s = Some (emit_gatt a s)"
    using notify_state_total by blast
  have "\<exists>s'. ga_lib_ascs_notify_ase_state env conn j (upd_ase j (set_ase_state t) (emit_gatt a s)) = Some s' \<and>
          audio s' = audio s \<and> ases s' = (ases s)[j := set_ase_state t (ases s ! j)]" for t
    using notify_state_total [of env conn j "upd_ase j (set_ase_state t) (emit_gatt a s)"] by auto
  then show ?thesis using assms a
    by (simp add: notify_entry_def settle_def Let_def)
qed

lemma notify_entry_cases:
  assumes "notify_entry env conn sts s = Some s'"
  shows "audio s' = audio s \<and> (ases s' = ases s \<or> (\<exists>j. ases s' = (ases s)[j := settle env (ases s ! j)]))"
proof (cases "lehs_find_ase_with_ase_id (ases s) (sts_ase_id sts)")
  case None
  with assms show ?thesis by (simp add: notify_entry_def)
next
  case (Some j)
  from notify_entry_settles [OF this, of env conn] assms show ?thesis by auto
qed

lemma ases_move_settle: "ases_move x ds (ds[j := settle env (ds ! j)])"
  by (auto simp: settle_def intro!: ases_move_set_state intro: released disabled)

lemma notify_entries_move:
  "notify_entries env conn r k n s = Some s' \<Longrightarrow> audio s' = audio s \<and> ases_move x (ases s) (ases s')"
proof (induction r arbitrary: k s)
  case 0
  then show ?case by simp
next
  case (Suc r)
  then obtain sts s1 where s1: "notify_entry env conn sts s = Some s1"
    "notify_entries env conn r (Suc k) n s1 = Some s'"
    by (auto simp: bind_eq_Some_conv)
  have "ases_move x (ases s) (ases s1)" using notify_entry_cases [OF s1(1)] ases_move_settle by auto
  with Suc.IH [OF s1(2)] notify_entry_cases [OF s1(1)] show ?case by (auto intro: ases_move_trans)
qed

lemma settle_settle: "settle env (settle env d) = settle env d"
  by (simp add: settle_def set_ase_state_def)

definition settled :: "ascs_env \<Rightarrow> lehs_ase_data \<Rightarrow> lehs_ase_data \<Rightarrow> bool" where
  "settled env d d' \<longleftrightarrow> d' = d \<or> d' = settle env d"

lemma settled_trans: "settled env d d' \<Longrightarrow> settled env d' d'' \<Longrightarrow> settled env d d''"
  by (auto simp: settled_def settle_settle)

lemma ases_settled_trans: "list_all2 (settled env) ds es \<Longrightarrow> list_all2 (settled env) es fs \<Longrightarrow> list_all2 (settled env) ds fs"
  by (erule (1) list_all2_trans [rotated]) (rule settled_trans)

lemma settled_update: "list_all2 (settled env) ds (ds[j := settle env (ds ! j)])"
  by (cases "j < length ds")
    (auto simp: list_all2_conv_all_nth nth_list_update settled_def list_update_beyond)

lemma notify_entries_settled:
  "notify_entries env conn r k n s = Some s' \<Longrightarrow> list_all2 (settled env) (ases s) (ases s')"
proof (induction r arbitrary: k s)
  case 0
  then show ?case by (simp add: list_all2_refl settled_def)
next
  case (Suc r)
  then obtain sts s1 where s1: "notify_entry env conn sts s = Some s1"
    "notify_entries env conn r (Suc k) n s1 = Some s'"
    by (auto simp: bind_eq_Some_conv)
  have "list_all2 (settled env) (ases s) (ases s1)"
    using notify_entry_cases [OF s1(1)] settled_update by (auto simp: list_all2_refl settled_def)
  then show ?case using Suc.IH [OF s1(2)] by (rule ases_settled_trans)
qed

text \<open>The control point notification changes nothing but the list of actions.\<close>

fun notifies :: "u16 \<Rightarrow> gatt_action \<Rightarrow> bool" where
  "notifies h (SEND_NOTIFICATION _ h' _) = (h' = h)"
| "notifies h (SEND_INDICATION _ h' _) = (h' = h)"
| "notifies h _ = False"

lemma send_notification_notifies:
  "gatt_intf_send_notification env conn h v = (st, acts) \<Longrightarrow> list_all (notifies h) acts \<and> length acts \<le> 1"
  by (auto simp: gatt_intf_send_notification_def Let_def split: if_splits option.splits)

lemma control_point_response_state:
  assumes "lehs_ascs_notify_control_point_response env conn n s = Some (n', s')"
  shows "\<exists>acts. s' = emit_gatt acts s \<and> list_all (notifies HDLC_ASCS_ASE_CONTROL_POINT_VALUE) acts \<and>
    length acts \<le> 1"
proof -
  obtain buff m where "s' = emit_gatt (snd (gatt_intf_send_notification (gatt env) conn
      HDLC_ASCS_ASE_CONTROL_POINT_VALUE buff)) s"
    using assms
    by (auto simp: lehs_ascs_notify_control_point_response_def bind_eq_Some_conv Let_def split_beta)
  then show ?thesis using send_notification_notifies by (metis prod.collapse)
qed

lemma handle_write_req_short:
  "length ps < 2 \<Longrightarrow> lehs_ascs_handle_write_req_evt env conn ps len s = None"
  by (cases ps rule: list.exhaust [case_product list.exhaust])
    (auto simp: lehs_ascs_handle_write_req_evt_def lehs_ascs_check_write_req_def start_def
      split: list.splits)

lemma handle_write_req_cases:
  assumes "lehs_ascs_handle_write_req_evt env conn ps len s = Some (r, s')"
  obtains (rejected) x m qs rsp n s1 acts where "ps = x # m # qs" "r = WICED_ERROR"
      "lehs_ascs_check_write_req env ps len False zero_cp_notif s = Some (rsp, n, s1)"
      "rsp \<noteq> RSP CP_RESPONSE_SUCCESS" "s' = emit_gatt acts s1"
      "list_all (notifies HDLC_ASCS_ASE_CONTROL_POINT_VALUE) acts" "length acts \<le> 1"
  | (accepted) x m qs n n1 n2 s1 acts rsp s2 where "ps = x # m # qs" "r = WICED_SUCCESS"
      "lehs_ascs_check_write_req env ps len False zero_cp_notif s = Some (RSP CP_RESPONSE_SUCCESS, n, s1)"
      "lehs_ascs_notify_control_point_response env conn n s1 = Some (n1, emit_gatt acts s1)"
      "lehs_ascs_check_write_req env ps len True n1 (emit_gatt acts s1) = Some (rsp, n2, s2)"
      "notify_entries env conn (unat (num_ases n2)) 0 n2 s2 = Some s'"
proof -
  obtain x m qs where ps: "ps = x # m # qs"
    using assms handle_write_req_short [of ps env conn len s]
    by (metis (no_types) One_nat_def Suc_1 Suc_less_eq2 length_Cons less_Suc_eq_0_disj list.exhaust list.size(3)
        option.distinct(1) zero_less_Suc)
  obtain rsp n s1 where c: "lehs_ascs_check_write_req env ps len False zero_cp_notif s = Some (rsp, n, s1)"
    using assms by (auto simp: lehs_ascs_handle_write_req_evt_def bind_eq_Some_conv)
  show ?thesis
  proof (cases "rsp = RSP CP_RESPONSE_SUCCESS")
    case False
    obtain n1 n2 where "lehs_ascs_notify_control_point_response env conn n1 s1 = Some (n2, s')" "r = WICED_ERROR"
      using assms c False
      by (auto simp: lehs_ascs_handle_write_req_evt_def bind_eq_Some_conv Let_def)
    with control_point_response_state rejected [OF ps _ c False] show ?thesis by blast
  next
    case True
    obtain n1 n2 n3 s2 s3 rsp' where
      "lehs_ascs_notify_control_point_response env conn n s1 = Some (n1, s2)"
      "lehs_ascs_check_write_req env ps len True n1 s2 = Some (rsp', n3, s3)"
      "notify_entries env conn (unat (num_ases n3)) 0 n3 s3 = Some s'" "r = WICED_SUCCESS"
      using assms c True by (auto simp: lehs_ascs_handle_write_req_evt_def bind_eq_Some_conv Let_def)
    with control_point_response_state accepted [OF ps _ c [unfolded True]] show ?thesis by blast
  qed
qed

section \<open>Properties\<close>

text \<open>A server with the tables of the application, a stack that accepts everything and no CIS up.\<close>

definition example_ascs_env :: ascs_env where
  "example_ascs_env = \<lparr>gatt = example_env, aud = \<lparr>setup_result = (\<lambda>_. WICED_SUCCESS), open_stream_id = (\<lambda>_. 1)\<rparr>,
     get_cis = (\<lambda>_ _ _. 0), cis_connected = (\<lambda>_. False), pacs = g_lehs_pacs_app_data 6, csis_set_size = 1,
     stack_octets = (\<lambda>_. 0)\<rparr>"

definition example_audio :: audio_state where
  "example_audio = \<lparr>stream_id = 1, buf_role = WICED_HF_ROLE, prev_volume = 0, prev_mic_gain = 0,
     prev_vol_mute = 0, prev_mic_mute = 0\<rparr>"

definition example_ascs_state :: ascs_state where
  "example_ascs_state = \<lparr>ases = lehs_init_local_ase_data 1, audio = example_audio, sent = []\<rparr>"

lemma example_table_ok: "ase_table_ok (ases example_ascs_state)"
  by (simp add: example_ascs_state_def init_table_ok)

lemma example_rejected:
  "map_option fst (lehs_ascs_handle_write_req_evt example_ascs_env 1 [8, 1, 10] 3 example_ascs_state) =
     Some WICED_ERROR"
  by code_simp

definition example_write :: "ascs_state" where
  "example_write = snd (the (lehs_ascs_handle_write_req_evt example_ascs_env 1 [8, 1, 10] 3 example_ascs_state))"

lemma example_write:
  "lehs_ascs_handle_write_req_evt example_ascs_env 1 [8, 1, 10] 3 example_ascs_state =
     Some (WICED_ERROR, example_write)"
  using example_rejected by (auto simp: example_write_def)

lemma write_request_moves:
  assumes "ase_table_ok (ases s)" "lehs_ascs_handle_write_req_evt env conn ps len s = Some (r, s')"
  shows "ases_move (hd ps) (ases s) (ases s')"
  using assms(2)
proof (cases rule: handle_write_req_cases)
  case (rejected x m qs rsp n s1 acts)
  then show ?thesis using check_write_req_moves [OF _ assms(1)] by simp
next
  case (accepted x m qs n n1 n2 s1 acts rsp s2)
  then have m1: "ases_move x (ases s) (ases s1)" using check_write_req_moves [OF _ assms(1)] by blast
  moreover have "ases_move x (ases s1) (ases s2)"
    using check_write_req_moves [OF accepted(5) [unfolded accepted(1)]] ases_move_ok [OF m1 assms(1)] by simp
  moreover have "ases_move x (ases s2) (ases s')" using notify_entries_move accepted(6) by blast
  ultimately have "ases_move x (ases s) (ases s')" by (blast intro: ases_move_trans)
  then show ?thesis by (simp add: accepted(1))
qed

text \<open>
  What a whole request may do to an ASE: control point transitions for the opcode written and then, when its CIS is not up, at most
  one move of its own, from Releasing to Idle or from Disabling to QoS Configured.
\<close>

inductive own_move :: "ga_lib_ascs_state \<Rightarrow> ga_lib_ascs_state \<Rightarrow> bool" where
  released: "own_move STATE_RELEASING STATE_IDLE"
| disabled: "own_move STATE_DISABLING STATE_QOS_CONFIGURED"

definition request_moves :: "ascs_env \<Rightarrow> u8 \<Rightarrow> lehs_ase_data \<Rightarrow> lehs_ase_data \<Rightarrow> bool" where
  "request_moves env x d d' \<longleftrightarrow> ase_identity d' = ase_identity d \<and>
     (\<exists>t. (\<lambda>s t. ase_transition (ase_type (ase d)) s x t)\<^sup>*\<^sup>* (ase_state (ase d)) t \<and>
        (if cis_connected env (cis_conn_handle d') then ase_state (ase d') = t
         else ase_state (ase d') = t \<or> own_move t (ase_state (ase d'))))"

lemma settled_request: "cp_moves x d e \<Longrightarrow> settled env e d' \<Longrightarrow> request_moves env x d d'"
  unfolding request_moves_def cp_moves_def settled_def settle_def
  by (cases "cis_connected env (cis_conn_handle e)"; cases "ase_state (ase e)";
      force simp: set_ase_state_def ase_identity_def intro: own_move.intros)

lemma ases_request: "ases_cp x ds es \<Longrightarrow> list_all2 (settled env) es ds' \<Longrightarrow> list_all2 (request_moves env x) ds ds'"
  by (rule list_all2_trans [OF settled_request])

lemma write_request_request:
  assumes "ase_table_ok (ases s)" "lehs_ascs_handle_write_req_evt env conn ps len s = Some (r, s')"
  shows "list_all2 (request_moves env (hd ps)) (ases s) (ases s')"
  using assms(2)
proof (cases rule: handle_write_req_cases)
  case (rejected x m qs rsp n s1 acts)
  then have "ases_cp x (ases s) (ases s')" using check_write_req_cp [OF _ assms(1)] by simp
  from ases_request [OF this, of env "ases s'"] show ?thesis using rejected(1) by (simp add: list_all2_refl settled_def)
next
  case (accepted x m qs n n1 n2 s1 acts rsp s2)
  have m1: "ases_cp x (ases s) (ases s1)" using check_write_req_cp [OF accepted(3) [unfolded accepted(1)] assms(1)] .
  moreover have "ases_cp x (ases s1) (ases s2)"
    using check_write_req_cp [OF accepted(5) [unfolded accepted(1)]] ases_move_ok [OF ases_cp_move [OF m1] assms(1)] by simp
  ultimately have "ases_cp x (ases s) (ases s2)" by (rule ases_cp_trans)
  then show ?thesis using ases_request notify_entries_settled [OF accepted(6)] by (simp add: accepted(1))
qed

text \<open>C2: whatever octets are written to the ASE control point, the three ASEs of the server keep
  their identifiers, types and handles, each moves only along the ASE state machine for the
  opcode written and, only when its CIS is not connected, then once more from Releasing to Idle or from
  Disabling to QoS Configured; the table stays well formed.\<close>

theorem write_request_safe:
  assumes "ase_table_ok (ases s)" "lehs_ascs_handle_write_req_evt env conn ps len s = Some (r, s')"
  shows "list_all2 (request_moves env (hd ps)) (ases s) (ases s') \<and> ase_table_ok (ases s')"
  using write_request_request [OF assms] ases_move_ok [OF write_request_moves [OF assms] assms(1)] by simp

theorem write_request_safe_witness:
  "list_all2 (request_moves example_ascs_env 8) (ases example_ascs_state) (ases example_write) \<and> ase_table_ok (ases example_write)"
  using write_request_safe [OF example_table_ok example_write] by simp

text \<open>C3: a request answered with an error changes no ASE's state, identity or codec configuration,
  does not touch the audio path, and sends at most the one notification of the control point. (The
  QoS configuration and the metadata are not in the list: they are written during validation.)\<close>

theorem rejected_request_harmless:
  assumes "lehs_ascs_handle_write_req_evt env conn ps len s = Some (WICED_ERROR, s')"
  shows "map ase_core (ases s') = map ase_core (ases s) \<and> audio s' = audio s \<and>
    (\<exists>acts. sent s' = sent s @ map GATT acts \<and> length acts \<le> 1 \<and>
      list_all (notifies HDLC_ASCS_ASE_CONTROL_POINT_VALUE) acts)"
  using assms
proof (cases rule: handle_write_req_cases)
  case (rejected x m qs rsp n s1 acts)
  with check_write_req_validates [of env x m qs len zero_cp_notif s rsp n s1] show ?thesis by auto
qed auto

theorem rejected_request_harmless_witness:
  "map ase_core (ases example_write) = map ase_core (ases example_ascs_state) \<and>
    audio example_write = audio example_ascs_state"
  using rejected_request_harmless [OF example_write] by simp

text \<open>A known opcode with an announced count of 4 to 254 ASEs makes the server read past its
  array of three entries while it builds the error notification.\<close>

theorem ase_count_overflow:
  assumes "x \<le> OPCODE_MAX" "LEHS_ASE_INDEX_MAX < unat m" "m \<noteq> 0xff"
  shows "lehs_ascs_handle_write_req_evt env conn (x # m # ps) len s = None"
proof -
  have s3: "status zero_cp_notif = [zero_sts, zero_sts, zero_sts]"
    by (simp add: zero_cp_notif_def numeral_3_eq_3)
  obtain r where r: "unat m = Suc (Suc (Suc (Suc r)))"
    using assms(2) by (metis Suc_leI less_imp_Suc_add numeral_3_eq_3 add_Suc plus_nat.add_0 add.commute)
  have zr: "response_code zero_sts = CP_RESPONSE_SUCCESS" by (simp add: zero_sts_def)
  have "cp_entries (unat m) 0 (zero_cp_notif\<lparr>n_opcode := x, num_ases := m\<rparr>) [x, m] = None"
    by (simp add: r s3 assms(3) arr_get_def)
  moreover have "m \<noteq> 0" "\<not> OPCODE_MAX < x" using assms(1, 2) by auto
  ultimately show ?thesis using assms
    by (simp add: lehs_ascs_handle_write_req_evt_def lehs_ascs_check_write_req_def rd_simps start_def
        lehs_ascs_notify_control_point_response_def s3 zr arr_get_def Let_def)
qed

theorem ase_count_overflow_witness:
  "lehs_ascs_handle_write_req_evt example_ascs_env 1 [8, 4, 10, 11, 12, 10] 6 example_ascs_state = None"
  by (rule ase_count_overflow) (simp_all add: word_less_nat_alt)

section \<open>Releasing ASEs\<close>

definition on_ids :: "u8 set \<Rightarrow> (lehs_ase_data \<Rightarrow> lehs_ase_data) \<Rightarrow> lehs_ase_data list \<Rightarrow> lehs_ase_data list" where
  "on_ids I f ds = map (\<lambda>d. if ase_id (ase d) \<in> I then f d else d) ds"

lemma table_ids: "ase_table_ok ds \<Longrightarrow> map (\<lambda>d. ase_id (ase d)) ds = [10, 11, 12]"
  by (auto simp: ase_table_ok_def lehs_ases_def map_eq_Cons_conv)

lemma find_ase_iff:
  assumes "ase_table_ok ds"
  shows "lehs_find_ase_with_ase_id ds i = Some j \<longleftrightarrow> j < length ds \<and> ase_id (ase (ds ! j)) = i"
  using table_ids [OF assms]
  by (auto simp: lehs_find_ase_with_ase_id_def map_eq_Cons_conv less_Suc_eq split: if_splits)

lemma find_ase_known:
  assumes "ase_table_ok ds" "i \<in> {10, 11, 12}"
  obtains j where "lehs_find_ase_with_ase_id ds i = Some j" "j < length ds" "ase_id (ase (ds ! j)) = i"
  using table_ids [OF assms(1)] assms
  by (auto simp: lehs_find_ase_with_ase_id_def map_eq_Cons_conv)

lemma update_on_id:
  assumes "ase_table_ok ds" "lehs_find_ase_with_ase_id ds i = Some j"
  shows "ds[j := f (ds ! j)] = on_ids {i} f ds"
  using assms table_ids [OF assms(1)]
  by (auto simp: lehs_find_ase_with_ase_id_def on_ids_def map_eq_Cons_conv split: if_splits)

lemma on_ids_insert:
  assumes "\<And>d. ase_id (ase (f d)) = ase_id (ase d)" "\<And>d. f (f d) = f d"
  shows "on_ids I f (on_ids {i} f ds) = on_ids (insert i I) f ds"
  using assms by (auto simp: on_ids_def)

lemma on_ids_empty [simp]: "on_ids {} f ds = ds"
  by (simp add: on_ids_def)

lemma set_ase_state_simps [simp]:
  "ase_id (ase (set_ase_state t d)) = ase_id (ase d)" "ase_type (ase (set_ase_state t d)) = ase_type (ase d)"
  "ase_state (ase (set_ase_state t d)) = t" "set_ase_state u (set_ase_state t d) = set_ase_state u d"
  "cis_conn_handle (set_ase_state t d) = cis_conn_handle d"
  by (simp_all add: set_ase_state_def)

lemma release_valid:
  "s \<noteq> STATE_MAX \<Longrightarrow> s \<noteq> STATE_IDLE \<Longrightarrow>
     ga_lib_bap_is_state_transition_valid ct s OPCODE_RELEASE = Some (Some STATE_RELEASING)"
  by (simp add: transition_column)

text \<open>The ASE names a pass over the identifiers \<open>is\<close> leaves in the entries from \<open>k\<close> on.\<close>

fun name_entries :: "nat \<Rightarrow> u8 list \<Rightarrow> ga_lib_ascs_cp_cmd_sts list \<Rightarrow> ga_lib_ascs_cp_cmd_sts list" where
  "name_entries k [] st = st"
| "name_entries k (i # is) st = name_entries (Suc k) is (st[k := (st ! k)\<lparr>sts_ase_id := i\<rparr>])"

lemma length_name_entries [simp]: "length (name_entries k is st) = length st"
  by (induction k "is" st rule: name_entries.induct) auto

lemma name_entries_success:
  "list_all (\<lambda>e. response_code e = CP_RESPONSE_SUCCESS) st \<Longrightarrow>
     list_all (\<lambda>e. response_code e = CP_RESPONSE_SUCCESS) (name_entries k is st)"
proof (induction k "is" st rule: name_entries.induct)
  case (2 k i "is" st)
  then show ?case
    by (cases "k < length st") (auto simp: list_all_length nth_list_update list_update_beyond)
qed simp

lemma name_entries_below: "j < k \<Longrightarrow> name_entries k is st ! j = st ! j"
  by (induction k "is" st rule: name_entries.induct) auto

lemma name_entries_nth:
  "k + length is \<le> length st \<Longrightarrow> j < length is \<Longrightarrow> sts_ase_id (name_entries k is st ! (k + j)) = is ! j"
proof (induction k "is" st arbitrary: j rule: name_entries.induct)
  case (2 k i "is" st)
  show ?case
  proof (cases j)
    case 0
    with 2 show ?thesis by (simp add: name_entries_below)
  next
    case (Suc j')
    with 2 show ?thesis by simp
  qed
qed simp

lemma table_ok_release:
  assumes "ase_table_ok ds" "\<forall>d\<in>set ds. ase_id (ase d) = i \<longrightarrow> ase_state (ase d) \<noteq> STATE_IDLE"
  shows "ase_table_ok (on_ids {i} (set_ase_state STATE_RELEASING) ds)"
proof (rule ases_move_ok [OF _ assms(1)])
  show "ases_move OPCODE_RELEASE ds (on_ids {i} (set_ase_state STATE_RELEASING) ds)"
    using assms
    by (auto simp: ases_move_def on_ids_def list_all2_conv_all_nth ase_moves_def ase_table_ok_def ase_state_ok_def
        list_all_length ase_transition_simps
        intro!: r_into_rtranclp control_point)
qed

lemma cp_loop_release:
  assumes "ase_table_ok (ases s)" "set is \<subseteq> {10, 11, 12}"
    "\<forall>d\<in>set (ases s). ase_id (ase d) \<in> set is \<longrightarrow> ase_state (ase d) \<noteq> STATE_IDLE"
    "k + length is \<le> length (status n)" "list_all (\<lambda>e. response_code e = CP_RESPONSE_SUCCESS) (status n)"
    "n_opcode n = OPCODE_RELEASE"
  shows "\<exists>s'. cp_loop env ap (int (c + length is)) (is, c) k n s =
      Some (RSP CP_RESPONSE_SUCCESS, n\<lparr>status := name_entries k is (status n)\<rparr>, s') \<and>
    ases s' = (if ap then on_ids (set is) (set_ase_state STATE_RELEASING) (ases s) else ases s) \<and>
    audio s' = audio s \<and> (\<not> ap \<longrightarrow> s' = s)"
  using assms
proof (induction "is" arbitrary: c k n s)
  case Nil
  then show ?case by (simp add: cp_loop.simps used_def)
next
  case (Cons i "is")
  obtain j where j: "lehs_find_ase_with_ase_id (ases s) i = Some j" "j < length (ases s)"
      "ase_id (ase (ases s ! j)) = i"
    using Cons.prems(1,2) find_ase_known [of "ases s" i] by auto
  have st: "ase_state (ase (ases s ! j)) \<noteq> STATE_MAX" "ase_state (ase (ases s ! j)) \<noteq> STATE_IDLE"
    using Cons.prems(3) j table_ok_nth [OF Cons.prems(1) j(2)] by (auto simp: ase_state_ok_def)
  have k: "k < length (status n)" using Cons.prems(4) by simp
  then have rk: "response_code (status n ! k) = CP_RESPONSE_SUCCESS"
    using Cons.prems(5) by (simp add: list_all_length)
  let ?n = "n\<lparr>status := (status n)[k := (status n ! k)\<lparr>sts_ase_id := i\<rparr>]\<rparr>"
  let ?s = "if ap then upd_ase j (set_ase_state STATE_RELEASING) (op_disable_release ap j s) else s"
  have same: "ases (op_disable_release b j s) = ases s" "audio (op_disable_release b j s) = audio s" for b
    by (simp_all add: op_disable_release_def)
  have as: "ases ?s = (if ap then on_ids {i} (set_ase_state STATE_RELEASING) (ases s) else ases s)"
    by (simp add: same update_on_id [OF Cons.prems(1) j(1)])
  have ok: "ase_table_ok (ases ?s)"
    using as table_ok_release [OF Cons.prems(1), of i] Cons.prems(1,3) by (simp split: if_splits)
  have step: "cp_loop env ap (int (c + length (i # is))) (i # is, c) k n s =
      cp_loop env ap (int (Suc c + length is)) (is, Suc c) (Suc k) ?n ?s"
    using j k st rk Cons.prems(6)
    by (subst cp_loop.simps)
      (simp add: used_def rd_simps arr_get_def Let_def release_valid ase_operation_def op_disable_release_def)
  have "\<exists>s'. cp_loop env ap (int (Suc c + length is)) (is, Suc c) (Suc k) ?n ?s =
      Some (RSP CP_RESPONSE_SUCCESS, ?n\<lparr>status := name_entries (Suc k) is (status ?n)\<rparr>, s') \<and>
    ases s' = (if ap then on_ids (set is) (set_ase_state STATE_RELEASING) (ases ?s) else ases ?s) \<and>
    audio s' = audio ?s \<and> (\<not> ap \<longrightarrow> s' = ?s)"
  proof (rule Cons.IH [OF ok])
    show "list_all (\<lambda>e. response_code e = CP_RESPONSE_SUCCESS) (status ?n)"
      using Cons.prems(5) rk k by (auto simp: list_all_length nth_list_update)
    show "\<forall>d\<in>set (ases ?s). ase_id (ase d) \<in> set is \<longrightarrow> ase_state (ase d) \<noteq> STATE_IDLE"
      unfolding as using Cons.prems(3) by (auto simp: on_ids_def)
  qed (use Cons.prems in auto)
  then show ?case unfolding step as
    by (auto simp: on_ids_insert same)
qed

lemma check_write_req_release:
  assumes "ase_table_ok (ases s)" "set is \<subseteq> {10, 11, 12}" "is \<noteq> []" "length is \<le> 3"
    "\<forall>d\<in>set (ases s). ase_id (ase d) \<in> set is \<longrightarrow> ase_state (ase d) \<noteq> STATE_IDLE"
    "length (status n) = 3" "list_all (\<lambda>e. response_code e = CP_RESPONSE_SUCCESS) (status n)"
  shows "\<exists>s'. lehs_ascs_check_write_req env (OPCODE_RELEASE # of_nat (length is) # is)
       (int (2 + length is)) ap n s = Some (RSP CP_RESPONSE_SUCCESS,
         n\<lparr>n_opcode := OPCODE_RELEASE, num_ases := of_nat (length is), status := name_entries 0 is (status n)\<rparr>, s') \<and>
    ases s' = (if ap then on_ids (set is) (set_ase_state STATE_RELEASING) (ases s) else ases s) \<and>
    audio s' = audio s \<and> (\<not> ap \<longrightarrow> s' = s)"
proof -
  have u: "unat (of_nat (length is) :: u8) = length is" using assms(4) by (simp add: unat_of_nat)
  then have nz: "(of_nat (length is) :: u8) \<noteq> 0" using assms(3) by (metis length_0_conv unat_0)
  have op: "\<not> OPCODE_MAX < OPCODE_RELEASE" by (simp add: word_less_nat_alt)
  show ?thesis
    using cp_loop_release [of s "is" 0 "n\<lparr>n_opcode := OPCODE_RELEASE, num_ases := of_nat (length is)\<rparr>" env ap 2] assms u nz op
    by (simp add: lehs_ascs_check_write_req_def start_def rd_simps numeral_2_eq_2)
qed

lemma settle_simps [simp]:
  "ase_id (ase (settle env d)) = ase_id (ase d)" "settle env (settle env d) = settle env d"
  by (auto simp: settle_def)

lemma notify_entries_settle:
  assumes "ase_table_ok (ases s)" "set is \<subseteq> {10, 11, 12}" "k + length is \<le> length (status n)"
    "\<forall>j<length is. sts_ase_id (status n ! (k + j)) = is ! j"
  shows "\<exists>s'. notify_entries env conn (length is) k n s = Some s' \<and> audio s' = audio s \<and>
    ases s' = on_ids (set is) (settle env) (ases s)"
  using assms
proof (induction "is" arbitrary: k s)
  case Nil
  then show ?case by simp
next
  case (Cons i "is")
  have ki: "arr_get (status n) k = Some (status n ! k)" "sts_ase_id (status n ! k) = i"
    using Cons.prems(3) spec [OF Cons.prems(4), of 0] by (simp_all add: arr_get_def)
  obtain j where j: "lehs_find_ase_with_ase_id (ases s) i = Some j"
    using Cons.prems(1,2) find_ase_known [of "ases s" i] by auto
  from notify_entry_settles [of s "status n ! k" j env conn] j ki obtain s1 where
    s1: "notify_entry env conn (status n ! k) s = Some s1" "audio s1 = audio s"
      "ases s1 = (ases s)[j := settle env (ases s ! j)]" by auto
  have ok: "ase_table_ok (ases s1)"
    unfolding s1(3) using ases_move_ok [OF ases_move_settle Cons.prems(1)] .
  have "\<exists>s'. notify_entries env conn (length is) (Suc k) n s1 = Some s' \<and> audio s' = audio s1 \<and>
    ases s' = on_ids (set is) (settle env) (ases s1)"
  proof (rule Cons.IH [OF ok])
    show "\<forall>j<length is. sts_ase_id (status n ! (Suc k + j)) = is ! j"
      using Cons.prems(4) by (metis Suc_less_eq add_Suc_right add_Suc length_Cons nth_Cons_Suc)
  qed (use Cons.prems in auto)
  moreover have "on_ids (set is) (settle env) (ases s1) = on_ids (set (i # is)) (settle env) (ases s)"
    unfolding s1(3) update_on_id [OF Cons.prems(1) j] by (simp add: on_ids_insert)
  ultimately show ?case using ki s1(1,2) by simp
qed

lemma cp_entries_total:
  "k + r \<le> length (status n) \<Longrightarrow> \<exists>b. cp_entries r k n buff = Some b"
  by (induction r k n buff rule: cp_entries.induct) (auto simp: arr_get_def Let_def)

lemma control_point_response_success:
  assumes "list_all (\<lambda>e. response_code e = CP_RESPONSE_SUCCESS) (status n)" "status n \<noteq> []"
    "unat (num_ases n) \<le> length (status n)"
  shows "\<exists>acts. lehs_ascs_notify_control_point_response env conn n s = Some (n, emit_gatt acts s)"
proof -
  obtain b where b: "cp_entries (unat (num_ases n)) 0 n [n_opcode n, num_ases n] = Some b"
    using cp_entries_total [of 0 "unat (num_ases n)" n] assms(3) by auto
  have "response_code (status n ! 0) = CP_RESPONSE_SUCCESS"
    using assms(1,2) by (simp add: list_all_length)
  with b assms(2) show ?thesis
    by (auto simp: lehs_ascs_notify_control_point_response_def Let_def split_beta)
qed

text \<open>C4: releasing any of the server's ASEs that are not idle succeeds; each released ASE is then Idle,
  or Releasing as long as its CIS is up, every other ASE is unchanged, and the volume and microphone
  state of the device is untouched.\<close>

theorem release_request:
  assumes "ase_table_ok (ases s)" "set is \<subseteq> {10, 11, 12}" "is \<noteq> []" "length is \<le> 3"
    "\<forall>d\<in>set (ases s). ase_id (ase d) \<in> set is \<longrightarrow> ase_state (ase d) \<noteq> STATE_IDLE"
  shows "\<exists>s'. lehs_ascs_handle_write_req_evt env conn (OPCODE_RELEASE # of_nat (length is) # is)
        (int (2 + length is)) s = Some (WICED_SUCCESS, s') \<and> audio s' = audio s \<and>
      ases s' = map (\<lambda>d. if ase_id (ase d) \<notin> set is then d
        else set_ase_state (if cis_connected env (cis_conn_handle d) then STATE_RELEASING else STATE_IDLE) d) (ases s)"
proof -
  let ?ps = "OPCODE_RELEASE # of_nat (length is) # is"
  let ?len = "int (2 + length is)"
  have u: "unat (of_nat (length is) :: u8) = length is" using assms(4) by (simp add: unat_of_nat)
  let ?st = "name_entries 0 is (status zero_cp_notif)"
  let ?n = "zero_cp_notif\<lparr>n_opcode := OPCODE_RELEASE, num_ases := of_nat (length is), status := ?st\<rparr>"
  have z: "length (status zero_cp_notif) = 3" "list_all (\<lambda>e. response_code e = CP_RESPONSE_SUCCESS) (status zero_cp_notif)"
    by (simp_all add: zero_cp_notif_def numeral_3_eq_3 zero_sts_def)
  have v: "lehs_ascs_check_write_req env ?ps ?len False zero_cp_notif s = Some (RSP CP_RESPONSE_SUCCESS, ?n, s)"
    using check_write_req_release [OF assms z, of env False] by auto
  have sn: "length (status ?n) = 3" "list_all (\<lambda>e. response_code e = CP_RESPONSE_SUCCESS) (status ?n)"
    using z name_entries_success by simp_all
  have ne: "status ?n \<noteq> []" "unat (num_ases ?n) \<le> length (status ?n)" using u assms(4) sn(1) by fastforce+
  from control_point_response_success [OF sn(2) ne] obtain acts
    where r: "lehs_ascs_notify_control_point_response env conn ?n s = Some (?n, emit_gatt acts s)" by blast
  let ?n2 = "?n\<lparr>n_opcode := OPCODE_RELEASE, num_ases := of_nat (length is), status := name_entries 0 is (status ?n)\<rparr>"
  obtain s2 where s2: "lehs_ascs_check_write_req env ?ps ?len True ?n (emit_gatt acts s) =
      Some (RSP CP_RESPONSE_SUCCESS, ?n2, s2)"
    "ases s2 = on_ids (set is) (set_ase_state STATE_RELEASING) (ases s)" "audio s2 = audio s"
    using check_write_req_release [of "emit_gatt acts s" "is" ?n env True] assms sn by auto
  have "ase_table_ok (ases s2)"
    using check_write_req_moves [OF s2(1)] ases_move_ok assms(1) by (metis emit_simps(1))
  then obtain s3 where s3: "notify_entries env conn (length is) 0 ?n2 s2 = Some s3" "audio s3 = audio s2"
    "ases s3 = on_ids (set is) (settle env) (ases s2)"
    using notify_entries_settle [of s2 "is" 0 ?n2 env conn] assms(2,4) sn(1) name_entries_nth [of 0 "is" "status ?n"]
    by (auto simp: z)
  have "ases s3 = map (\<lambda>d. if ase_id (ase d) \<notin> set is then d
        else set_ase_state (if cis_connected env (cis_conn_handle d) then STATE_RELEASING else STATE_IDLE) d) (ases s)"
    unfolding s3(3) s2(2) by (auto simp: on_ids_def settle_def)
  then show ?thesis
    using v r s2(1,3) s3(1,2) u by (simp add: lehs_ascs_handle_write_req_evt_def)
qed

theorem release_request_witness:
  "\<exists>s'. lehs_ascs_handle_write_req_evt example_ascs_env 1 (OPCODE_RELEASE # of_nat (length [10 :: u8]) # [10])
        (int (2 + length [10 :: u8])) (upd_ase 0 (set_ase_state STATE_STREAMING) example_ascs_state) =
      Some (WICED_SUCCESS, s') \<and> audio s' = audio (upd_ase 0 (set_ase_state STATE_STREAMING) example_ascs_state) \<and>
      ases s' = map (\<lambda>d. if ase_id (ase d) \<notin> set [10] then d
        else set_ase_state (if cis_connected example_ascs_env (cis_conn_handle d) then STATE_RELEASING else STATE_IDLE) d)
        (ases (upd_ase 0 (set_ase_state STATE_STREAMING) example_ascs_state))"
  by (rule release_request)
    (simp_all add: example_ascs_state_def ase_table_ok_def lehs_init_local_ase_data_def lehs_ases_def init_ase_def
      ase_state_ok_def zero_ase_data_def zero_ase_def set_ase_state_def upd_ase_def)

lemma start_ready_valid:
  "ga_lib_bap_is_state_transition_valid ct STATE_ENABLING OPCODE_RECEIVER_START_READY = Some (Some STATE_STREAMING)"
  by (simp add: transition_column)

lemma on_ids_id: "\<forall>d\<in>set ds. ase_id (ase d) \<in> I \<longrightarrow> f d = d \<Longrightarrow> on_ids I f ds = ds"
  by (auto simp: on_ids_def intro: map_idI)

lemma table_unique:
  assumes "ase_table_ok ds" "j < length ds" "ase_id (ase (ds ! j)) = i" "d \<in> set ds" "ase_id (ase d) = i"
  shows "d = ds ! j"
proof -
  obtain k where k: "k < length ds" "d = ds ! k" using assms(4) by (metis in_set_conv_nth)
  then have "lehs_find_ase_with_ase_id ds i = Some j" "lehs_find_ase_with_ase_id ds i = Some k"
    using assms find_ase_iff [OF assms(1)] by blast+
  with k show ?thesis by simp
qed

text \<open>Receiver Start Ready for one enabling ASE is always answered with success; the ASE streams
  afterwards exactly when its data path could be set up, and stays enabling otherwise.\<close>

theorem start_ready_request:
  assumes "ase_table_ok (ases s)" "j < length (ases s)" "ase_id (ase (ases s ! j)) = i"
    "ase_state (ase (ases s ! j)) = STATE_ENABLING"
  shows "\<exists>s'. lehs_ascs_handle_write_req_evt env conn [OPCODE_RECEIVER_START_READY, 1, i] 3 s =
        Some (WICED_SUCCESS, s') \<and>
      ases s' = (if fst (lehs_isoc_dhm_setup_cis_stream (aud env) (csis_set_size env) (ase (ases s ! j))
                        (cis_conn_handle (ases s ! j)) (audio s)) = WICED_SUCCESS
                 then on_ids {i} (set_ase_state STATE_STREAMING) (ases s) else ases s)"
proof -
  have j: "lehs_find_ase_with_ase_id (ases s) i = Some j"
    using assms(2,3) find_ase_iff [OF assms(1)] by blast
  have st: "status zero_cp_notif = [zero_sts, zero_sts, zero_sts]" by (simp add: zero_cp_notif_def numeral_3_eq_3)
  have zr: "response_code zero_sts = CP_RESPONSE_SUCCESS" by (simp add: zero_sts_def)
  let ?n = "zero_cp_notif\<lparr>n_opcode := OPCODE_RECEIVER_START_READY, num_ases := 1,
     status := [zero_sts\<lparr>sts_ase_id := i\<rparr>, zero_sts, zero_sts]\<rparr>"
  obtain ret au acts where su: "lehs_isoc_dhm_setup_cis_stream (aud env) (csis_set_size env) (ase (ases s ! j))
      (cis_conn_handle (ases s ! j)) (audio s) = (ret, au, acts)" by (metis prod_cases3)
  have end_loop: "cp_loop env ap 3 ([], Suc (Suc (Suc 0))) k n s = Some (RSP CP_RESPONSE_SUCCESS, n, s)" for ap k n s
    by (simp add: cp_loop.simps used_def)
  have op: "\<not> OPCODE_MAX < OPCODE_RECEIVER_START_READY" by (simp add: word_less_nat_alt)
  have v: "lehs_ascs_check_write_req env [OPCODE_RECEIVER_START_READY, 1, i] 3 False zero_cp_notif s =
      Some (RSP CP_RESPONSE_SUCCESS, ?n, s)"
    using j assms(2-4) op
    by (simp add: lehs_ascs_check_write_req_def start_def rd_simps cp_loop.simps [of env False 3 "([i], Suc (Suc 0))"]
        used_def st arr_get_def Let_def start_ready_valid ase_operation_def op_receiver_start_ready_def zr
        end_loop)
  have "\<exists>acts. lehs_ascs_notify_control_point_response env conn ?n s = Some (?n, emit_gatt acts s)"
    by (rule control_point_response_success) (simp_all add: zr)
  then obtain acts1 where r: "lehs_ascs_notify_control_point_response env conn ?n s = Some (?n, emit_gatt acts1 s)"
    by blast
  let ?s1 = "emit_audio acts ((emit_gatt acts1 s)\<lparr>audio := au\<rparr>)"
  let ?s2 = "if ret = WICED_SUCCESS then upd_ase j (set_ase_state STATE_STREAMING) ?s1 else ?s1"
  have "\<exists>rsp. lehs_ascs_check_write_req env [OPCODE_RECEIVER_START_READY, 1, i] 3 True ?n (emit_gatt acts1 s) =
      Some (rsp, ?n, ?s2)"
    using j assms(2-4) op su
    by (simp add: lehs_ascs_check_write_req_def start_def rd_simps cp_loop.simps [of env True 3 "([i], Suc (Suc 0))"]
        used_def st arr_get_def Let_def start_ready_valid ase_operation_def op_receiver_start_ready_def zr
        end_loop)
  then obtain rsp where a: "lehs_ascs_check_write_req env [OPCODE_RECEIVER_START_READY, 1, i] 3 True ?n (emit_gatt acts1 s) =
      Some (rsp, ?n, ?s2)" by blast
  let ?ds = "if ret = WICED_SUCCESS then on_ids {i} (set_ase_state STATE_STREAMING) (ases s) else ases s"
  have as: "ases ?s2 = ?ds" using update_on_id [OF assms(1) j] by simp
  have ok: "ase_table_ok (ases ?s2)" using check_write_req_moves [OF a] assms(1) ases_move_ok by simp
  have "set [i] \<subseteq> {10, 11, 12}"
    using assms(2,3) table_ids [OF assms(1)] by (metis empty_subsetI insert_subset list.set(1) list.set(2)
      nth_map nth_mem length_map)
  then obtain s' where s': "notify_entries env conn (length [i]) 0 ?n ?s2 = Some s'"
    "ases s' = on_ids (set [i]) (settle env) (ases ?s2)"
    using notify_entries_settle [OF ok, of "[i]" 0 ?n env conn] by auto
  have "on_ids {i} (settle env) ?ds = ?ds"
    using table_unique [OF assms(1-3)] assms(4)
    by (intro on_ids_id) (auto simp: settle_def on_ids_def)
  then have ds: "ases s' = ?ds" using s'(2) unfolding as by simp
  have "lehs_ascs_handle_write_req_evt env conn [OPCODE_RECEIVER_START_READY, 1, i] 3 s = Some (WICED_SUCCESS, s')"
    using v r a s'(1) by (simp add: lehs_ascs_handle_write_req_evt_def del: notify_entries.simps split del: if_split)
  with ds su show ?thesis by auto
qed

definition example_enabling :: ascs_state where
  "example_enabling = upd_ase 0 (set_ase_state STATE_ENABLING) example_ascs_state"

theorem start_ready_request_witness:
  "\<exists>s'. lehs_ascs_handle_write_req_evt example_ascs_env 1 [OPCODE_RECEIVER_START_READY, 1, 10] 3 example_enabling =
        Some (WICED_SUCCESS, s') \<and>
      ases s' = (if fst (lehs_isoc_dhm_setup_cis_stream (aud example_ascs_env) (csis_set_size example_ascs_env)
                          (ase (ases example_enabling ! 0)) (cis_conn_handle (ases example_enabling ! 0))
                          (audio example_enabling)) = WICED_SUCCESS
                 then on_ids {10} (set_ase_state STATE_STREAMING) (ases example_enabling) else ases example_enabling)"
  by (rule start_ready_request)
    (simp_all add: example_enabling_def example_ascs_state_def ase_table_ok_def lehs_init_local_ase_data_def lehs_ases_def
      init_ase_def ase_state_ok_def zero_ase_data_def zero_ase_def set_ase_state_def upd_ase_def)

end
