(* ===== verification/Gatt_Cb.thy ===== *)
theory Gatt_Cb
  imports Ascs_Server
begin

text \<open>
  The connection side of \<open>lehs_gatt.c\<close>: the pool of connection control blocks, the progress
  flags of a connection, the store of client characteristic configurations (two bits per
  descriptor) and the advertising states.
\<close>

section \<open>Interfaces\<close>

text \<open>
  What a fixed pool of blocks looked up by a key promises: a block that was allocated is found
  under its key, one that was freed is not, and no other key is affected. \<open>key\<close> tells the keys
  that may be used, \<open>room\<close> whether a block is free.
\<close>

locale slot_pool =
  fixes pool_ok :: "'t \<Rightarrow> bool"
    and key :: "'k \<Rightarrow> bool"
    and room :: "'t \<Rightarrow> bool"
    and get :: "'t \<Rightarrow> 'k \<Rightarrow> nat option"
    and alloc :: "'k \<Rightarrow> 't \<Rightarrow> nat \<times> 't"
    and free :: "'k \<Rightarrow> 't \<Rightarrow> 't"
  assumes alloc_ok: "pool_ok t \<Longrightarrow> key k \<Longrightarrow> room t \<Longrightarrow> get t k = None \<Longrightarrow> pool_ok (snd (alloc k t))"
    and get_alloc: "pool_ok t \<Longrightarrow> key k \<Longrightarrow> room t \<Longrightarrow> get t k = None \<Longrightarrow>
      get (snd (alloc k t)) k' = (if k' = k then Some (fst (alloc k t)) else get t k')"
    and free_ok: "pool_ok t \<Longrightarrow> pool_ok (free k t)"
    and get_free: "pool_ok t \<Longrightarrow> get (free k t) k' = (if k' = k then None else get t k')"
begin

lemma free_alloc:
  assumes "pool_ok t" "key k" "room t" "get t k = None"
  shows "get (free k (snd (alloc k t))) k' = get t k'"
  using assms by (simp add: get_free get_alloc alloc_ok)

end

text \<open>What a store of small values under fixed keys promises; \<open>norm\<close> is the part of a value it keeps.\<close>

locale value_store =
  fixes store_ok :: "'s \<Rightarrow> bool"
    and known :: "'k \<Rightarrow> bool"
    and norm :: "'v \<Rightarrow> 'v"
    and look :: "'s \<Rightarrow> 'k \<Rightarrow> 'v option"
    and put :: "'s \<Rightarrow> 'k \<Rightarrow> 'v \<Rightarrow> 's option"
  assumes put_ok: "store_ok s \<Longrightarrow> \<exists>s'. put s k v = Some s' \<and> store_ok s'"
    and look_put: "store_ok s \<Longrightarrow> put s k v = Some s' \<Longrightarrow> known k \<Longrightarrow>
      look s' k' = (if k' = k then Some (norm v) else look s k')"
    and put_unknown: "\<not> known k \<Longrightarrow> put s k v = Some s"
begin

fun put_all :: "'s \<Rightarrow> ('k \<times> 'v) list \<Rightarrow> 's option" where
  "put_all s [] = Some s"
| "put_all s ((k, v) # kvs) = (case put s k v of None \<Rightarrow> None | Some s \<Rightarrow> put_all s kvs)"

lemma read_put_all:
  "store_ok s \<Longrightarrow> \<exists>s'. put_all s kvs = Some s' \<and> store_ok s' \<and>
     (\<forall>k. look s' k = (case map_of (rev (filter (\<lambda>(k, v). known k) kvs)) k of
                          None \<Rightarrow> look s k | Some v \<Rightarrow> Some (norm v)))"
proof (induction kvs arbitrary: s)
  case Nil
  then show ?case by simp
next
  case (Cons kv kvs)
  obtain k v where kv: "kv = (k, v)" by force
  obtain s1 where s1: "put s k v = Some s1" "store_ok s1" using put_ok [OF Cons.prems] by blast
  have r: "look s1 k' = (if k' = k \<and> known k then Some (norm v) else look s k')" for k'
    using look_put [OF Cons.prems s1(1)] put_unknown [of k s v] s1(1) by (cases "known k") auto
  obtain s' where s': "put_all s1 kvs = Some s'" "store_ok s'"
    "\<forall>k. look s' k = (case map_of (rev (filter (\<lambda>(k, v). known k) kvs)) k of
                        None \<Rightarrow> look s1 k | Some v \<Rightarrow> Some (norm v))"
    using Cons.IH [OF s1(2)] by blast
  have "look s' k' = (case map_of (rev (filter (\<lambda>(k, v). known k) ((k, v) # kvs))) k' of
                        None \<Rightarrow> look s k' | Some v \<Rightarrow> Some (norm v))" for k'
    using spec [OF s'(3), of k']
    by (cases "map_of (rev (filter (\<lambda>(k, v). known k) kvs)) k'") (auto simp: r map_add_def)
  with s'(1,2) s1(1) show ?case unfolding kv by auto
qed

end

section \<open>Advertising\<close>

datatype adv_state =
    ADV_STATE_IDLE
  | ADV_STATE_SWIFT_PAIR_HIGH_DUTY_CYCLE
  | ADV_STATE_SWIFT_PAIR_LOW_DUTY_CYCLE
  | ADV_STATE_REGULAR_ADV
  | ADV_STATE_MAX

fun adv_state_val :: "adv_state \<Rightarrow> nat" where
  "adv_state_val ADV_STATE_IDLE = 0"
| "adv_state_val ADV_STATE_SWIFT_PAIR_HIGH_DUTY_CYCLE = 1"
| "adv_state_val ADV_STATE_SWIFT_PAIR_LOW_DUTY_CYCLE = 2"
| "adv_state_val ADV_STATE_REGULAR_ADV = 3"
| "adv_state_val ADV_STATE_MAX = 4"

record adv_state_params =
  min_interval :: u16
  max_interval :: u16
  duration :: u16

definition st_params :: "adv_state_params list" where
  "st_params =
     [\<lparr>min_interval = 0, max_interval = 0, duration = 0\<rparr>,
      \<lparr>min_interval = 32, max_interval = 32, duration = 6000\<rparr>,
      \<lparr>min_interval = 60, max_interval = 60, duration = 6000\<rparr>,
      \<lparr>min_interval = 40, max_interval = 40, duration = 12000\<rparr>]"

text \<open>The structures the caller passes are zero before.\<close>

definition lehs_get_adv_duty_cycle_params :: "adv_state \<Rightarrow> adv_state_params option" where
  "lehs_get_adv_duty_cycle_params st =
     (if adv_state_val ADV_STATE_MAX > adv_state_val st then arr_get st_params (adv_state_val st)
      else Some \<lparr>min_interval = 0, max_interval = 0, duration = 0\<rparr>)"

datatype conn_action =
    EXT_ADV_ENABLE bool adv_state_params
  | SEND_ADV_STATE adv_state
  | RPC_CONNECTED u16 "u8 list"
  | RPC_DISCONNECTED u16 "u8 list"
  | BASS_ACL_DISCONNECTED u16
  | RPC_LINK_KEYS u16
  | REMOVE_FROM_RESOLUTION_DB nat
  | ADD_TO_RESOLUTION_DB nat
  | DISCONNECT u16
  | CREATE_CONNECTION u8 "u8 list"
  | CANCEL_CONNECT "u8 list"

text \<open>The contents of the advertisement are left out.\<close>

definition lehs_gatt_start_stop_adv :: "bool \<Rightarrow> adv_state \<Rightarrow> conn_action list option" where
  "lehs_gatt_start_stop_adv b_start st = do {
     params \<leftarrow> lehs_get_adv_duty_cycle_params st;
     Some [EXT_ADV_ENABLE b_start params, SEND_ADV_STATE st] }"

definition swift_pair_next_state :: "adv_state list" where
  "swift_pair_next_state = [ADV_STATE_SWIFT_PAIR_HIGH_DUTY_CYCLE, ADV_STATE_SWIFT_PAIR_LOW_DUTY_CYCLE,
     ADV_STATE_REGULAR_ADV, ADV_STATE_IDLE, ADV_STATE_IDLE]"

definition regular_adv_next_state :: "adv_state list" where
  "regular_adv_next_state = [ADV_STATE_REGULAR_ADV, ADV_STATE_IDLE, ADV_STATE_IDLE, ADV_STATE_IDLE, ADV_STATE_IDLE]"

definition lehs_move_to_next_adv_state :: "u8 \<Rightarrow> adv_state \<Rightarrow> (adv_state \<times> conn_action list) option" where
  "lehs_move_to_next_adv_state do_swift_pair current = do {
     next_state \<leftarrow> arr_get (if do_swift_pair \<noteq> 0 then swift_pair_next_state else regular_adv_next_state)
                     (adv_state_val current);
     acts \<leftarrow> lehs_gatt_start_stop_adv (next_state \<noteq> ADV_STATE_IDLE) next_state;
     Some (next_state, acts) }"

section \<open>Connection control blocks\<close>

text \<open>The flags of a connection; \<open>ready\<close> is the conjunction of two others.\<close>

definition app_get_gatt_state_str :: "lehs_clcb \<Rightarrow> string" where
  "app_get_gatt_state_str c =
     (if disconnecting c then ''disconnecting''
      else if ready c then ''ready''
      else if read_characteristics c then ''read_characteristics''
      else if enabled_notifications c then ''enabled_notifications''
      else if discovery_complete c then ''discovery_complete''
      else if mtu_exchanged c then ''mtu_exchanged''
      else if connected c then ''connected''
      else ''disconnected'')"

definition lehs_set_gatt_state_connection_sts :: "bool \<Rightarrow> lehs_clcb \<Rightarrow> lehs_clcb" where
  "lehs_set_gatt_state_connection_sts b c = c\<lparr>connected := b\<rparr>"

definition lehs_set_gatt_state_mtu_exchanged :: "lehs_clcb \<Rightarrow> lehs_clcb" where
  "lehs_set_gatt_state_mtu_exchanged c = c\<lparr>mtu_exchanged := True\<rparr>"

definition lehs_set_gatt_state_discovery_complete :: "lehs_clcb \<Rightarrow> lehs_clcb" where
  "lehs_set_gatt_state_discovery_complete c = c\<lparr>discovery_complete := True\<rparr>"

definition lehs_set_gatt_state_enabled_notifications :: "lehs_clcb \<Rightarrow> lehs_clcb" where
  "lehs_set_gatt_state_enabled_notifications c =
     c\<lparr>enabled_notifications := True, ready := read_characteristics c\<rparr>"

definition lehs_set_gatt_state_read_characteristics :: "lehs_clcb \<Rightarrow> lehs_clcb" where
  "lehs_set_gatt_state_read_characteristics c =
     c\<lparr>read_characteristics := True, ready := enabled_notifications c\<rparr>"

text \<open>
  The pool. \<open>lehs_gatt_alloc_cb\<close> returns the index of the block; with no block free it returns
  the pointer behind the last one, the index \<open>LEHS_MAX_CONNECTIONS\<close>.
\<close>

definition fresh_clcb :: "u8 list \<Rightarrow> u8 \<Rightarrow> u16 \<Rightarrow> bool \<Rightarrow> lehs_clcb" where
  "fresh_clcb bda addr_type cid central =
     lehs_set_gatt_state_connection_sts (cid \<noteq> 0)
       (zero_clcb\<lparr>in_use := True, conn_id := cid, conn_addr_type := addr_type, identity_address_type := addr_type,
          identity_bd_address := bda, conn_bda := bda, b_is_central := central\<rparr>)"

definition lehs_gatt_alloc_cb ::
  "u8 list \<Rightarrow> u8 \<Rightarrow> u16 \<Rightarrow> bool \<Rightarrow> lehs_clcb list \<Rightarrow> nat \<times> lehs_clcb list" where
  "lehs_gatt_alloc_cb bda addr_type cid central clcbs =
     (case find_index (\<lambda>c. \<not> in_use c) clcbs of
        None \<Rightarrow> (length clcbs, clcbs)
      | Some i \<Rightarrow> (i, clcbs[i := fresh_clcb bda addr_type cid central]))"

definition lehs_gatt_get_clcb :: "lehs_clcb list \<Rightarrow> u8 list \<Rightarrow> nat option" where
  "lehs_gatt_get_clcb clcbs bda = find_index (\<lambda>c. in_use c \<and> conn_bda c = bda) clcbs"

definition lehs_gatt_get_clcb_by_conn_id :: "lehs_clcb list \<Rightarrow> u16 \<Rightarrow> nat option" where
  "lehs_gatt_get_clcb_by_conn_id clcbs cid = find_index (\<lambda>c. in_use c \<and> conn_id c = cid) clcbs"

definition lehs_gatt_get_clcb_by_conn_handle :: "(u16 \<Rightarrow> u16) \<Rightarrow> lehs_clcb list \<Rightarrow> u16 \<Rightarrow> nat option" where
  "lehs_gatt_get_clcb_by_conn_handle get_acl_conn_handle clcbs acl =
     find_index (\<lambda>c. in_use c \<and> get_acl_conn_handle (conn_id c) = acl) clcbs"

text \<open>Freeing also frees the discovery context, which the zeroes forget.\<close>

definition lehs_gatt_free_cb :: "u8 list \<Rightarrow> lehs_clcb list \<Rightarrow> wiced_result \<times> lehs_clcb list" where
  "lehs_gatt_free_cb bda clcbs =
     (case lehs_gatt_get_clcb clcbs bda of
        None \<Rightarrow> (WICED_ERROR, clcbs)
      | Some i \<Rightarrow> (WICED_SUCCESS, clcbs[i := zero_clcb]))"

section \<open>Client characteristic configurations\<close>

datatype gatt_intf_cccd_map_handle_type = GATT_INTF_VALUE_HANDLE_INDEX | GATT_INTF_DESCRIPTOR_HANDLE_INDEX

definition lehs_cccd_map :: "(u16 \<times> u16) list" where
  "lehs_cccd_map =
     [(3, 4), (52, 53), (57, 58), (66, 67), (69, 70), (74, 75),
      (210, 211), (213, 214), (216, 217), (219, 220), (222, 223), (225, 226),
      (258, 259), (261, 262), (264, 265), (267, 268), (388, 389), (402, 403),
      (405, 406), (408, 409), (423, 424), (434, 435), (441, 442), (446, 447),
      (482, 483), (485, 486), (488, 489)]"

definition lehs_get_cccd_index :: "u16 \<Rightarrow> gatt_intf_cccd_map_handle_type \<Rightarrow> nat option" where
  "lehs_get_cccd_index handle type =
     find_index (\<lambda>(v, d). (case type of GATT_INTF_VALUE_HANDLE_INDEX \<Rightarrow> v
                                     | GATT_INTF_DESCRIPTOR_HANDLE_INDEX \<Rightarrow> d) = handle) lehs_cccd_map"

definition lehs_get_clcb_cccd :: "lehs_clcb \<Rightarrow> u16 \<Rightarrow> gatt_intf_cccd_map_handle_type \<Rightarrow> u16 option" where
  "lehs_get_clcb_cccd c handle type =
     (case lehs_get_cccd_index handle type of
        None \<Rightarrow> Some 0
      | Some i \<Rightarrow> do {
          w \<leftarrow> arr_get (cccd_bits c) (i * 2 div 32);
          Some (ucast (drop_bit (i * 2 mod 32) w AND 3)) })"

definition lehs_set_clcb_cccd :: "lehs_clcb \<Rightarrow> u16 \<Rightarrow> u16 \<Rightarrow> lehs_clcb option" where
  "lehs_set_clcb_cccd c handle value =
     (case lehs_get_cccd_index handle GATT_INTF_DESCRIPTOR_HANDLE_INDEX of
        None \<Rightarrow> Some c
      | Some i \<Rightarrow> do {
          w \<leftarrow> arr_get (cccd_bits c) (i * 2 div 32);
          bits \<leftarrow> arr_set (cccd_bits c) (i * 2 div 32)
                    ((w AND NOT (push_bit (i * 2 mod 32) 3)) OR push_bit (i * 2 mod 32) (ucast (value AND 3)));
          Some (c\<lparr>cccd_bits := bits\<rparr>) })"

definition lehs_handle_get_cccd_value_cb :: "lehs_clcb list \<Rightarrow> u16 \<Rightarrow> u16 \<Rightarrow> u16 option" where
  "lehs_handle_get_cccd_value_cb clcbs cid handle =
     (case lehs_gatt_get_clcb_by_conn_id clcbs cid of
        None \<Rightarrow> Some 0
      | Some i \<Rightarrow> lehs_get_clcb_cccd (clcbs ! i) handle GATT_INTF_VALUE_HANDLE_INDEX)"

section \<open>The pool of control blocks\<close>

lemma option_eq_iff: "(\<And>i. x = Some i \<longleftrightarrow> y = Some i) \<Longrightarrow> x = y"
  by (metis not_None_eq)

lemma find_index_unique:
  assumes "\<And>i j. i < length xs \<Longrightarrow> j < length xs \<Longrightarrow> P (xs ! i) \<Longrightarrow> P (xs ! j) \<Longrightarrow> i = j"
  shows "find_index P xs = Some i \<longleftrightarrow> i < length xs \<and> P (xs ! i)"
proof
  assume "find_index P xs = Some i"
  from find_index_Some [OF this] show "i < length xs \<and> P (xs ! i)" by blast
next
  assume i: "i < length xs \<and> P (xs ! i)"
  show "find_index P xs = Some i"
  proof (rule find_index_eqI)
    fix j
    assume "j < i"
    with assms [of j i] i show "\<not> P (xs ! j)" by auto
  qed (use i in auto)
qed

definition clcbs_ok :: "lehs_clcb list \<Rightarrow> bool" where
  "clcbs_ok cs \<longleftrightarrow> (\<forall>i<length cs. \<forall>j<length cs.
     in_use (cs ! i) \<and> in_use (cs ! j) \<and> conn_bda (cs ! i) = conn_bda (cs ! j) \<longrightarrow> i = j)"

definition clcb_room :: "lehs_clcb list \<Rightarrow> bool" where
  "clcb_room cs = list_ex (\<lambda>c. \<not> in_use c) cs"

lemma get_clcb_iff:
  "clcbs_ok cs \<Longrightarrow> lehs_gatt_get_clcb cs k = Some i \<longleftrightarrow> i < length cs \<and> in_use (cs ! i) \<and> conn_bda (cs ! i) = k"
  unfolding lehs_gatt_get_clcb_def by (rule find_index_unique) (auto simp: clcbs_ok_def)

lemma get_clcb_None:
  "lehs_gatt_get_clcb cs k = None \<longleftrightarrow> (\<forall>i<length cs. \<not> (in_use (cs ! i) \<and> conn_bda (cs ! i) = k))"
  unfolding lehs_gatt_get_clcb_def find_index_None all_set_conv_all_nth by blast

lemma fresh_clcb_simps [simp]:
  "in_use (fresh_clcb k at cid cen)" "conn_bda (fresh_clcb k at cid cen) = k"
  "conn_id (fresh_clcb k at cid cen) = cid" "identity_bd_address (fresh_clcb k at cid cen) = k"
  "cccd_bits (fresh_clcb k at cid cen) = [0, 0]"
  by (simp_all add: fresh_clcb_def lehs_set_gatt_state_connection_sts_def zero_clcb_def)

lemma zero_clcb_not_in_use [simp]: "\<not> in_use zero_clcb"
  by (simp add: zero_clcb_def)

lemma alloc_cb_room:
  assumes "clcb_room cs"
  obtains i where "i < length cs" "\<not> in_use (cs ! i)"
    "lehs_gatt_alloc_cb k at cid cen cs = (i, cs[i := fresh_clcb k at cid cen])"
proof -
  obtain i where "find_index (\<lambda>c. \<not> in_use c) cs = Some i"
    using assms find_index_None [of "\<lambda>c. \<not> in_use c" cs] by (auto simp: clcb_room_def list_ex_iff)
  with that find_index_Some [OF this] show ?thesis by (simp add: lehs_gatt_alloc_cb_def)
qed

lemma clcbs_ok_zero:
  assumes "clcbs_ok cs"
  shows "clcbs_ok (cs[i := zero_clcb])"
proof (cases "i < length cs")
  case True
  have "in_use (cs[i := zero_clcb] ! j) \<Longrightarrow> j < length cs \<Longrightarrow> j \<noteq> i" for j
    using True by auto
  with assms show ?thesis unfolding clcbs_ok_def by (metis length_list_update nth_list_update_neq)
next
  case False
  with assms show ?thesis by (simp add: list_update_beyond)
qed

interpretation clcb_pool: slot_pool clcbs_ok "\<lambda>_. True" clcb_room lehs_gatt_get_clcb
  "\<lambda>k. lehs_gatt_alloc_cb k at cid cen" "\<lambda>k cs. snd (lehs_gatt_free_cb k cs)" for at cid cen
proof (unfold_locales, goal_cases)
  case (1 t k)
  then obtain i where i: "i < length t" "\<not> in_use (t ! i)"
    "lehs_gatt_alloc_cb k at cid cen t = (i, t[i := fresh_clcb k at cid cen])" using alloc_cb_room by blast
  with 1 show ?case by (auto simp: clcbs_ok_def get_clcb_None nth_list_update)
next
  case (2 t k k')
  then obtain i where i: "i < length t" "\<not> in_use (t ! i)"
    "lehs_gatt_alloc_cb k at cid cen t = (i, t[i := fresh_clcb k at cid cen])" using alloc_cb_room by blast
  have ok: "clcbs_ok (t[i := fresh_clcb k at cid cen])"
    using 2 i by (auto simp: clcbs_ok_def get_clcb_None nth_list_update)
  show ?case unfolding i(3) using i(1,2) 2(4)
    by (intro option_eq_iff)
      (auto simp: get_clcb_iff [OF ok] get_clcb_iff [OF 2(1)] get_clcb_None nth_list_update split: if_splits)
next
  case (3 t k)
  then show ?case by (auto simp: lehs_gatt_free_cb_def clcbs_ok_zero split: option.splits)
next
  case (4 t k k')
  show ?case
  proof (cases "lehs_gatt_get_clcb t k")
    case None
    then show ?thesis by (simp add: lehs_gatt_free_cb_def)
  next
    case (Some i)
    have ok: "clcbs_ok (t[i := zero_clcb])" by (rule clcbs_ok_zero [OF 4])
    have f: "snd (lehs_gatt_free_cb k t) = t[i := zero_clcb]" by (simp add: lehs_gatt_free_cb_def Some)
    have i: "i < length t" "in_use (t ! i)" "conn_bda (t ! i) = k" using Some by (simp_all add: get_clcb_iff [OF 4])
    have "lehs_gatt_get_clcb (t[i := zero_clcb]) k' = Some j \<longleftrightarrow>
        (if k' = k then None else lehs_gatt_get_clcb t k') = Some j" for j
    proof (cases "j = i")
      case True
      then show ?thesis using i by (auto simp: get_clcb_iff [OF ok] get_clcb_iff [OF 4])
    next
      case False
      then show ?thesis using i 4 by (auto simp: get_clcb_iff [OF ok] get_clcb_iff [OF 4] clcbs_ok_def)
    qed
    then show ?thesis unfolding f by (rule option_eq_iff)
  qed
qed

section \<open>The store of client configurations\<close>

lemma three_mask: "(3 :: u16) = mask 2" "(3 :: u32) = mask 2"
  by (simp_all add: mask_eq_exp_minus_1)

lemma two_bits_same:
  fixes w :: u32 and v :: u16
  assumes "k = 2 * b" "b < 16"
  shows "ucast (drop_bit k (w AND NOT (push_bit k 3) OR push_bit k (ucast (v AND 3))) AND 3) = v AND 3"
  unfolding three_mask
  by (rule bit_word_eqI) (use assms in \<open>auto simp: bit_simps not_le\<close>)

lemma two_bits_other:
  fixes w :: u32 and v :: u16
  assumes "k = 2 * b" "b < 16" "l = 2 * c" "c < 16" "k \<noteq> l"
  shows "drop_bit l (w AND NOT (push_bit k 3) OR push_bit k (ucast (v AND 3))) AND 3 = drop_bit l w AND 3"
  unfolding three_mask
  by (rule bit_word_eqI) (use assms in \<open>auto simp: bit_simps not_le\<close>)

definition cccd_ok :: "lehs_clcb \<Rightarrow> bool" where
  "cccd_ok c \<longleftrightarrow> length (cccd_bits c) = 2"

definition cccd_known :: "u16 \<Rightarrow> bool" where
  "cccd_known d \<longleftrightarrow> d \<in> snd ` set lehs_cccd_map"

lemma cccd_map_length: "length lehs_cccd_map = 27"
  by (simp add: lehs_cccd_map_def)

lemma cccd_descriptors_distinct: "distinct (map snd lehs_cccd_map)"
  by (simp add: lehs_cccd_map_def)

lemma cccd_values_distinct: "distinct (map fst lehs_cccd_map)"
  by (simp add: lehs_cccd_map_def)

lemma cccd_index_descriptor:
  "lehs_get_cccd_index d GATT_INTF_DESCRIPTOR_HANDLE_INDEX = Some i \<longleftrightarrow> i < 27 \<and> snd (lehs_cccd_map ! i) = d"
proof -
  have "lehs_get_cccd_index d GATT_INTF_DESCRIPTOR_HANDLE_INDEX = find_index (\<lambda>r. snd r = d) lehs_cccd_map"
    by (simp add: lehs_get_cccd_index_def case_prod_unfold)
  also have "\<dots> = Some i \<longleftrightarrow> i < length lehs_cccd_map \<and> snd (lehs_cccd_map ! i) = d"
    by (rule find_index_unique)
      (use cccd_descriptors_distinct in \<open>auto simp: distinct_conv_nth cccd_map_length\<close>)
  finally show ?thesis by (simp add: cccd_map_length)
qed

lemma cccd_index_value:
  "lehs_get_cccd_index v GATT_INTF_VALUE_HANDLE_INDEX = Some i \<longleftrightarrow> i < 27 \<and> fst (lehs_cccd_map ! i) = v"
proof -
  have "lehs_get_cccd_index v GATT_INTF_VALUE_HANDLE_INDEX = find_index (\<lambda>r. fst r = v) lehs_cccd_map"
    by (simp add: lehs_get_cccd_index_def case_prod_unfold)
  also have "\<dots> = Some i \<longleftrightarrow> i < length lehs_cccd_map \<and> fst (lehs_cccd_map ! i) = v"
    by (rule find_index_unique)
      (use cccd_values_distinct in \<open>auto simp: distinct_conv_nth cccd_map_length\<close>)
  finally show ?thesis by (simp add: cccd_map_length)
qed

lemma cccd_known_index: "cccd_known d \<longleftrightarrow> (\<exists>i. lehs_get_cccd_index d GATT_INTF_DESCRIPTOR_HANDLE_INDEX = Some i)"
  unfolding cccd_known_def cccd_index_descriptor image_set in_set_conv_nth length_map cccd_map_length
  by (metis cccd_map_length nth_map)

text \<open>The field of the \<open>i\<close>-th descriptor in the words.\<close>

definition cccd_field :: "u32 list \<Rightarrow> nat \<Rightarrow> u16" where
  "cccd_field bits i = ucast (drop_bit (i * 2 mod 32) (bits ! (i * 2 div 32)) AND 3)"

lemma get_cccd_field:
  assumes "cccd_ok c" "lehs_get_cccd_index h type = Some i" "i < 27"
  shows "lehs_get_clcb_cccd c h type = Some (cccd_field (cccd_bits c) i)"
  using assms by (simp add: lehs_get_clcb_cccd_def arr_get_def cccd_ok_def cccd_field_def)

lemma set_cccd_field:
  assumes "cccd_ok c" "lehs_get_cccd_index d GATT_INTF_DESCRIPTOR_HANDLE_INDEX = Some i"
  obtains bits where "lehs_set_clcb_cccd c d v = Some (c\<lparr>cccd_bits := bits\<rparr>)" "length bits = 2"
    "\<And>j. j < 27 \<Longrightarrow> cccd_field bits j = (if j = i then v AND 3 else cccd_field (cccd_bits c) j)"
proof -
  have i: "i < 27" using assms(2) by (simp add: cccd_index_descriptor)
  let ?w = "i * 2 div 32" and ?o = "i * 2 mod 32"
  let ?x = "(cccd_bits c ! ?w AND NOT (push_bit ?o 3)) OR push_bit ?o (ucast (v AND 3))"
  let ?bits = "(cccd_bits c)[?w := ?x]"
  have o: "\<exists>b<16. j * 2 mod 32 = 2 * b" if "j < 27" for j :: nat
    by (rule exI [of _ "j mod 16"]) (use mod_mult_mult1 [of 2 j 16] in \<open>simp add: mult.commute\<close>)
  obtain b where b: "b < 16" "?o = 2 * b" using o [OF i] by blast
  have "cccd_field ?bits j = (if j = i then v AND 3 else cccd_field (cccd_bits c) j)" if j: "j < 27" for j
  proof -
    obtain e where e: "e < 16" "j * 2 mod 32 = 2 * e" using o [OF j] by blast
    show ?thesis
    proof (cases "j * 2 div 32 = ?w")
      case False
      then show ?thesis by (auto simp: cccd_field_def)
    next
      case True
      then have w: "?bits ! (j * 2 div 32) = ?x" using assms(1) i by (simp add: cccd_ok_def)
      show ?thesis
      proof (cases "j = i")
        case eq: True
        then show ?thesis using two_bits_same [OF b(2,1)] w by (simp add: cccd_field_def)
      next
        case False
        then have "?o \<noteq> j * 2 mod 32" using True by (metis mult_right_cancel div_mult_mod_eq zero_neq_numeral)
        with False two_bits_other [OF b(2,1) e(2,1)] w True show ?thesis by (simp add: cccd_field_def)
      qed
    qed
  qed
  with that [of ?bits] assms i show ?thesis
    by (simp add: lehs_set_clcb_cccd_def arr_get_def arr_set_def cccd_ok_def)
qed

interpretation cccd_store: value_store cccd_ok cccd_known "\<lambda>v. v AND 3"
  "\<lambda>c d. lehs_get_clcb_cccd c d GATT_INTF_DESCRIPTOR_HANDLE_INDEX" lehs_set_clcb_cccd
proof (unfold_locales, goal_cases)
  case (1 s k v)
  show ?case
  proof (cases "lehs_get_cccd_index k GATT_INTF_DESCRIPTOR_HANDLE_INDEX")
    case None
    with 1 show ?thesis by (simp add: lehs_set_clcb_cccd_def)
  next
    case (Some i)
    obtain bits where "lehs_set_clcb_cccd s k v = Some (s\<lparr>cccd_bits := bits\<rparr>)" "length bits = 2"
      by (rule set_cccd_field [OF 1 Some, of v])
    then show ?thesis by (simp add: cccd_ok_def)
  qed
next
  case (2 s k v s' k')
  then obtain i where i: "lehs_get_cccd_index k GATT_INTF_DESCRIPTOR_HANDLE_INDEX = Some i"
    by (auto simp: cccd_known_index)
  obtain bits where s': "s' = s\<lparr>cccd_bits := bits\<rparr>" "length bits = 2"
    and f: "\<And>j. j < 27 \<Longrightarrow> cccd_field bits j = (if j = i then v AND 3 else cccd_field (cccd_bits s) j)"
    using 2(2) by (metis set_cccd_field [OF 2(1) i, of v] option.inject)
  have ok: "cccd_ok s'" using s' by (simp add: cccd_ok_def)
  show ?case
  proof (cases "lehs_get_cccd_index k' GATT_INTF_DESCRIPTOR_HANDLE_INDEX")
    case None
    with i show ?thesis by (auto simp: lehs_get_clcb_cccd_def)
  next
    case (Some j)
    then have j: "j < 27" by (simp add: cccd_index_descriptor)
    have "j = i \<longleftrightarrow> k' = k" using i Some by (metis cccd_index_descriptor option.inject)
    then show ?thesis
      using get_cccd_field [OF ok Some j] get_cccd_field [OF 2(1) Some j] f [OF j] s'(1) by auto
  qed
next
  case (3 k s v)
  then show ?case by (auto simp: cccd_known_index lehs_set_clcb_cccd_def split: option.splits)
qed

end
