(* ===== verification/Bonds.thy ===== *)
theory Bonds
  imports Gatt_Cb
begin

text \<open>
  The bonded devices of \<open>lehs_nvram.c\<close> (the build with the simulated NVRAM, an array of ten
  entries), the connection and disconnection handlers of \<open>lehs_gatt.c\<close> that load and save them,
  and the key events of \<open>lehs_btmgr.c\<close>.
\<close>

section \<open>The array of bonded devices\<close>

abbreviation (input) BD_ADDR_LEN :: nat where "BD_ADDR_LEN \<equiv> 6"
abbreviation (input) MAX_NUM_DEVICES_IN_NVRAM :: nat where "MAX_NUM_DEVICES_IN_NVRAM \<equiv> 10"

record wiced_bt_device_link_keys =
  bd_addr :: "u8 list"
  conn_addr :: "u8 list"
  key_data :: "u8 list"

record lehs_nvram_paired_device_key =
  link_keys :: wiced_bt_device_link_keys
  stored_cccd_bits :: "u32 list"
  stored_db_hash :: "u8 list"
  stored_peer_profiles :: lehs_peer_profiles

definition null_addr :: "u8 list" where
  "null_addr = replicate BD_ADDR_LEN 0"

definition zero_link_keys :: wiced_bt_device_link_keys where
  "zero_link_keys = \<lparr>bd_addr = null_addr, conn_addr = null_addr, key_data = []\<rparr>"

definition zero_paired_device_key :: lehs_nvram_paired_device_key where
  "zero_paired_device_key = \<lparr>link_keys = zero_link_keys, stored_cccd_bits = [0, 0],
     stored_db_hash = replicate 16 0, stored_peer_profiles = zero_peer_profiles\<rparr>"

definition lehs_nvram_init :: "lehs_nvram_paired_device_key list" where
  "lehs_nvram_init = replicate MAX_NUM_DEVICES_IN_NVRAM zero_paired_device_key"

definition is_bd_addr_zero :: "u8 list \<Rightarrow> bool" where
  "is_bd_addr_zero a = (null_addr = a)"

definition lehs_nvram_get_paired_device_key_info ::
  "lehs_nvram_paired_device_key list \<Rightarrow> u8 list \<Rightarrow> nat option" where
  "lehs_nvram_get_paired_device_key_info nv bda =
     find_index (\<lambda>e. \<not> is_bd_addr_zero bda \<and>
       (bd_addr (link_keys e) = bda \<or> conn_addr (link_keys e) = bda)) nv"

text \<open>\<open>base\<close> is \<open>UNICAST_APP_NVRAM_ID_START\<close>, a constant of the SDK.\<close>

definition lehs_nvram_get_nvram_id :: "u16 \<Rightarrow> nat \<Rightarrow> u16" where
  "lehs_nvram_get_nvram_id base i = base + 3 + of_nat i"

text \<open>
  The entry behind the array is written when no entry is free: the pointer the loop leaves is
  never \<open>NULL\<close>, so no entry is given up. Only the link keys of the entry are set.
\<close>

definition lehs_nvram_allocate_paired_device_key_info ::
  "wiced_bt_device_link_keys \<Rightarrow> lehs_nvram_paired_device_key list
    \<Rightarrow> (nat \<times> lehs_nvram_paired_device_key list) option" where
  "lehs_nvram_allocate_paired_device_key_info keys nv =
     (let i = (case find_index (\<lambda>e. is_bd_addr_zero (bd_addr (link_keys e))) nv of
                 None \<Rightarrow> MAX_NUM_DEVICES_IN_NVRAM | Some i \<Rightarrow> i)
      in do {
        e \<leftarrow> arr_get nv i;
        nv \<leftarrow> arr_set nv i (e\<lparr>link_keys := keys\<rparr>);
        Some (i, nv) })"

definition lehs_nvram_write_keys ::
  "u16 \<Rightarrow> wiced_bt_device_link_keys \<Rightarrow> lehs_nvram_paired_device_key list
    \<Rightarrow> (u16 \<times> lehs_nvram_paired_device_key list \<times> conn_action list) option" where
  "lehs_nvram_write_keys base keys nv =
     (case lehs_nvram_get_paired_device_key_info nv (bd_addr keys) of
        None \<Rightarrow> do {
          (i, nv) \<leftarrow> lehs_nvram_allocate_paired_device_key_info keys nv;
          Some (lehs_nvram_get_nvram_id base i, nv, []) }
      | Some i \<Rightarrow>
          let e = nv ! i;
              acts = (if key_data (link_keys e) \<noteq> key_data keys then [REMOVE_FROM_RESOLUTION_DB i] else [])
          in Some (lehs_nvram_get_nvram_id base i, nv[i := e\<lparr>link_keys := keys\<rparr>], acts))"

text \<open>0 is no device; the keys of the caller are unchanged then.\<close>

definition lehs_nvram_read_keys ::
  "u16 \<Rightarrow> wiced_bt_device_link_keys \<Rightarrow> lehs_nvram_paired_device_key list \<Rightarrow> u16 \<times> wiced_bt_device_link_keys" where
  "lehs_nvram_read_keys base keys nv =
     (case lehs_nvram_get_paired_device_key_info nv (bd_addr keys) of
        None \<Rightarrow> (0, keys)
      | Some i \<Rightarrow> (lehs_nvram_get_nvram_id base i, link_keys (nv ! i)))"

definition app_read_paired_key_nvram_data ::
  "u16 \<Rightarrow> u16 \<Rightarrow> lehs_nvram_paired_device_key list \<Rightarrow> lehs_nvram_paired_device_key option" where
  "app_read_paired_key_nvram_data base nvram_id nv =
     map_option (nth nv) (find_index (\<lambda>i. lehs_nvram_get_nvram_id base i = nvram_id) [0..<length nv])"

text \<open>
  Deleting by NVRAM identifier. \<open>lehs_disconnect_device\<close> is recorded as an action. The result's
  first component tells whether the identity keys were deleted.
\<close>

definition lehs_nvram_delete_keys ::
  "u16 \<Rightarrow> lehs_clcb list \<Rightarrow> u16 \<Rightarrow> lehs_nvram_paired_device_key list
    \<Rightarrow> bool \<times> lehs_nvram_paired_device_key list \<times> conn_action list" where
  "lehs_nvram_delete_keys base clcbs nvram_id nv =
     (if nvram_id = base + 1 then (True, nv, [])
      else case find_index (\<lambda>i. lehs_nvram_get_nvram_id base i = nvram_id) [0..<length nv] of
        None \<Rightarrow> (False, nv, [])
      | Some i \<Rightarrow>
          (False, nv[i := (nv ! i)\<lparr>link_keys := zero_link_keys\<rparr>],
           REMOVE_FROM_RESOLUTION_DB i #
           (case lehs_gatt_get_clcb clcbs (conn_addr (link_keys (nv ! i))) of
              None \<Rightarrow> [] | Some j \<Rightarrow> [DISCONNECT (conn_id (clcbs ! j))])))"

definition lehs_save_device_data_to_nvram ::
  "u16 \<Rightarrow> lehs_clcb \<Rightarrow> lehs_nvram_paired_device_key list
    \<Rightarrow> lehs_nvram_paired_device_key list \<times> conn_action list" where
  "lehs_save_device_data_to_nvram base c nv =
     (case lehs_nvram_get_paired_device_key_info nv (identity_bd_address c) of
        None \<Rightarrow> (nv, [])
      | Some i \<Rightarrow>
          (nv[i := (nv ! i)\<lparr>stored_peer_profiles := peer_profiles c, stored_db_hash := db_hash c,
                     stored_cccd_bits := cccd_bits c\<rparr>],
           [RPC_LINK_KEYS (lehs_nvram_get_nvram_id base i)]))"

definition lehs_read_device_from_nvram ::
  "u16 \<Rightarrow> lehs_nvram_paired_device_key list \<Rightarrow> lehs_clcb \<Rightarrow> u16 \<times> lehs_clcb" where
  "lehs_read_device_from_nvram base nv c =
     (case lehs_nvram_get_paired_device_key_info nv (identity_bd_address c) of
        None \<Rightarrow> (0, c)
      | Some i \<Rightarrow>
          (lehs_nvram_get_nvram_id base i,
           c\<lparr>peer_profiles := stored_peer_profiles (nv ! i), db_hash := stored_db_hash (nv ! i),
             cccd_bits := stored_cccd_bits (nv ! i)\<rparr>))"

section \<open>Connections\<close>

record lehs_state =
  clcbs :: "lehs_clcb list"
  adv :: adv_state
  do_swift_pair :: u8
  nvram :: "lehs_nvram_paired_device_key list"

record wiced_bt_gatt_connection_status =
  cs_bd_addr :: "u8 list"
  cs_addr_type :: u8
  cs_conn_id :: u16
  cs_central :: bool
  cs_connection_timeout :: bool

text \<open>
  \<open>acl\<close> is the connection handle the stack gives for a connection identifier. With both
  blocks in use the block behind the array is written.
\<close>

definition lehs_gatt_handle_connection ::
  "(u16 \<Rightarrow> u16) \<Rightarrow> u16 \<Rightarrow> wiced_bt_gatt_connection_status \<Rightarrow> lehs_state \<Rightarrow> (lehs_state \<times> conn_action list) option" where
  "lehs_gatt_handle_connection acl base p s = do {
     let (i, cs) = lehs_gatt_alloc_cb (cs_bd_addr p) (cs_addr_type p) (cs_conn_id p) (cs_central p) (clcbs s);
     c \<leftarrow> arr_get cs i;
     let c = c\<lparr>local_ase_data := lehs_init_local_ase_data (acl (conn_id c))\<rparr>;
     let (_, c) = lehs_read_device_from_nvram base (nvram s) c;
     cs \<leftarrow> arr_set cs i c;
     Some (s\<lparr>clcbs := cs\<rparr>, [RPC_CONNECTED (cs_conn_id p) (cs_bd_addr p)]) }"

definition lehs_gatt_handle_disconnection ::
  "u16 \<Rightarrow> wiced_bt_gatt_connection_status \<Rightarrow> lehs_state \<Rightarrow> (lehs_state \<times> conn_action list) option" where
  "lehs_gatt_handle_disconnection base p s = do {
     let (nv, a1) = (case lehs_gatt_get_clcb (clcbs s) (cs_bd_addr p) of
                       None \<Rightarrow> (nvram s, [RPC_DISCONNECTED (cs_conn_id p) (cs_bd_addr p)])
                     | Some i \<Rightarrow>
                         let c = clcbs s ! i; (nv, acts) = lehs_save_device_data_to_nvram base c (nvram s)
                         in (nv, acts @ [RPC_DISCONNECTED (cs_conn_id p) (identity_bd_address c),
                                         BASS_ACL_DISCONNECTED (conn_id c)]));
     let (_, cs) = lehs_gatt_free_cb (cs_bd_addr p) (clcbs s);
     let s = s\<lparr>clcbs := cs, nvram := nv\<rparr>;
     if cs_connection_timeout p
     then do {
       (next_state, a2) \<leftarrow> lehs_move_to_next_adv_state (do_swift_pair s) (adv s);
       Some (s\<lparr>adv := next_state\<rparr>, a1 @ a2) }
     else Some (s, a1) }"

definition lehs_btm_handle_key_update_event ::
  "u16 \<Rightarrow> wiced_bt_device_link_keys \<Rightarrow> lehs_state \<Rightarrow> (lehs_state \<times> conn_action list) option" where
  "lehs_btm_handle_key_update_event base keys s = do {
     let cs = (case lehs_gatt_get_clcb (clcbs s) (conn_addr keys) of
                 None \<Rightarrow> clcbs s
               | Some i \<Rightarrow> (clcbs s)[i := (clcbs s ! i)\<lparr>identity_bd_address := bd_addr keys\<rparr>]);
     (_, nv, acts) \<leftarrow> lehs_nvram_write_keys base keys (nvram s);
     Some (s\<lparr>clcbs := cs, nvram := nv\<rparr>, acts) }"

definition lehs_btm_handle_key_request_event ::
  "u16 \<Rightarrow> wiced_bt_device_link_keys \<Rightarrow> lehs_state \<Rightarrow> wiced_result \<times> wiced_bt_device_link_keys" where
  "lehs_btm_handle_key_request_event base keys s =
     (case lehs_nvram_read_keys base keys (nvram s) of
        (i, keys) \<Rightarrow> (if i = 0 then WICED_ERROR else WICED_SUCCESS, keys))"

definition lehs_state_init :: "u8 \<Rightarrow> lehs_state" where
  "lehs_state_init swift_pair = \<lparr>clcbs = replicate LEHS_MAX_CONNECTIONS zero_clcb, adv = ADV_STATE_IDLE,
     do_swift_pair = swift_pair, nvram = lehs_nvram_init\<rparr>"

section \<open>Lookups\<close>

lemma get_paired_iff:
  "lehs_nvram_get_paired_device_key_info nv a = Some i \<Longrightarrow>
     i < length nv \<and> a \<noteq> null_addr \<and> (bd_addr (link_keys (nv ! i)) = a \<or> conn_addr (link_keys (nv ! i)) = a)"
  by (auto simp: lehs_nvram_get_paired_device_key_info_def is_bd_addr_zero_def dest!: find_index_Some)

text \<open>The lookup reads the link keys only.\<close>

lemma find_index_map: "find_index P (map f xs) = find_index (\<lambda>x. P (f x)) xs"
  by (induction xs) auto

lemma get_paired_link_keys:
  assumes "map link_keys nv' = map link_keys nv"
  shows "lehs_nvram_get_paired_device_key_info nv' a = lehs_nvram_get_paired_device_key_info nv a"
proof -
  have gen: "lehs_nvram_get_paired_device_key_info nv a =
      find_index (\<lambda>k. \<not> is_bd_addr_zero a \<and> (bd_addr k = a \<or> conn_addr k = a)) (map link_keys nv)" for nv
    by (simp add: lehs_nvram_get_paired_device_key_info_def find_index_map)
  show ?thesis by (simp only: gen assms)
qed

section \<open>The invariant\<close>

definition lehs_state_ok :: "lehs_state \<Rightarrow> bool" where
  "lehs_state_ok s \<longleftrightarrow> clcbs_ok (clcbs s) \<and> length (clcbs s) = 2 \<and> length (nvram s) = 10 \<and>
     list_all (\<lambda>c. in_use c \<longrightarrow> cccd_ok c \<and> ase_table_ok (local_ase_data c)) (clcbs s) \<and>
     list_all (\<lambda>e. length (stored_cccd_bits e) = 2) (nvram s)"

datatype lehs_event =
    CONNECTED wiced_bt_gatt_connection_status
  | DISCONNECTED wiced_bt_gatt_connection_status
  | KEYS_UPDATED wiced_bt_device_link_keys
  | CCCD_WRITTEN nat u16 u16

text \<open>One event; the stack reports a new connection only for an address that is not connected.\<close>

definition lehs_step :: "(u16 \<Rightarrow> u16) \<Rightarrow> u16 \<Rightarrow> lehs_event \<Rightarrow> lehs_state \<Rightarrow> lehs_state option" where
  "lehs_step acl base e s =
     (case e of
        CONNECTED p \<Rightarrow> if lehs_gatt_get_clcb (clcbs s) (cs_bd_addr p) = None
                       then map_option fst (lehs_gatt_handle_connection acl base p s) else Some s
      | DISCONNECTED p \<Rightarrow> map_option fst (lehs_gatt_handle_disconnection base p s)
      | KEYS_UPDATED k \<Rightarrow> map_option fst (lehs_btm_handle_key_update_event base k s)
      | CCCD_WRITTEN i d v \<Rightarrow> (if i < length (clcbs s)
          then map_option (\<lambda>c. s\<lparr>clcbs := (clcbs s)[i := c]\<rparr>) (lehs_set_clcb_cccd (clcbs s ! i) d v) else Some s))"

inductive lehs_reachable :: "(u16 \<Rightarrow> u16) \<Rightarrow> u16 \<Rightarrow> lehs_state \<Rightarrow> bool" for acl base where
  init: "lehs_reachable acl base (lehs_state_init swift_pair)"
| event: "lehs_reachable acl base s \<Longrightarrow> lehs_step acl base e s = Some s' \<Longrightarrow> lehs_reachable acl base s'"

lemma state_init_ok: "lehs_state_ok (lehs_state_init swift_pair)"
  by (auto simp: lehs_state_ok_def lehs_state_init_def clcbs_ok_def lehs_nvram_init_def zero_paired_device_key_def
      list_all_iff)

lemma list_all_update: "list_all P xs \<Longrightarrow> (i < length xs \<Longrightarrow> P x) \<Longrightarrow> list_all P (xs[i := x])"
  by (cases "i < length xs") (auto simp: list_all_length nth_list_update list_update_beyond)

text \<open>What a change of a block in place must keep.\<close>

lemma clcbs_ok_same:
  assumes "clcbs_ok cs" "i < length cs" "in_use c \<Longrightarrow> in_use (cs ! i) \<and> conn_bda c = conn_bda (cs ! i)"
  shows "clcbs_ok (cs[i := c])"
  unfolding clcbs_ok_def
proof (intro allI impI)
  fix j k
  assume jk: "j < length (cs[i := c])" "k < length (cs[i := c])"
    "in_use (cs[i := c] ! j) \<and> in_use (cs[i := c] ! k) \<and> conn_bda (cs[i := c] ! j) = conn_bda (cs[i := c] ! k)"
  have "in_use (cs ! l) \<and> conn_bda (cs ! l) = conn_bda (cs[i := c] ! l)"
    if "l < length cs" "in_use (cs[i := c] ! l)" for l
    using assms that by (cases "l = i") auto
  with jk have "in_use (cs ! j) \<and> in_use (cs ! k) \<and> conn_bda (cs ! j) = conn_bda (cs ! k)" by auto
  with assms(1) jk show "j = k" by (auto simp: clcbs_ok_def)
qed

lemma read_device_simps [simp]:
  "in_use (snd (lehs_read_device_from_nvram base nv c)) = in_use c"
  "conn_bda (snd (lehs_read_device_from_nvram base nv c)) = conn_bda c"
  "conn_id (snd (lehs_read_device_from_nvram base nv c)) = conn_id c"
  "local_ase_data (snd (lehs_read_device_from_nvram base nv c)) = local_ase_data c"
  by (auto simp: lehs_read_device_from_nvram_def split: option.splits)

lemma read_device_cccd:
  assumes "list_all (\<lambda>e. length (stored_cccd_bits e) = 2) nv" "cccd_ok c"
  shows "cccd_ok (snd (lehs_read_device_from_nvram base nv c))"
  using assms
  by (auto simp: lehs_read_device_from_nvram_def cccd_ok_def list_all_length dest!: get_paired_iff split: option.splits)

lemma handle_connection_ok:
  assumes "lehs_state_ok s" "lehs_gatt_get_clcb (clcbs s) (cs_bd_addr p) = None"
    "lehs_gatt_handle_connection acl base p s = Some (s', acts)"
  shows "lehs_state_ok s'"
proof -
  let ?cs = "clcbs s"
  have room: "clcb_room ?cs"
  proof (rule ccontr)
    assume "\<not> clcb_room ?cs"
    then have "find_index (\<lambda>c. \<not> in_use c) ?cs = None" by (simp add: clcb_room_def list_ex_iff find_index_None)
    with assms(3) show False
      by (simp add: lehs_gatt_handle_connection_def lehs_gatt_alloc_cb_def arr_get_def)
  qed
  obtain i where i: "i < length ?cs" "\<not> in_use (?cs ! i)"
    "\<And>k a c b. lehs_gatt_alloc_cb k a c b ?cs = (i, ?cs[i := fresh_clcb k a c b])"
  proof -
    obtain i where f: "find_index (\<lambda>c. \<not> in_use c) ?cs = Some i"
      using room find_index_None [of "\<lambda>c. \<not> in_use c" ?cs] by (auto simp: clcb_room_def list_ex_iff)
    show ?thesis
      by (rule that [of i]) (use f find_index_Some [OF f] in \<open>simp_all add: lehs_gatt_alloc_cb_def\<close>)
  qed
  let ?f = "fresh_clcb (cs_bd_addr p) (cs_addr_type p) (cs_conn_id p) (cs_central p)"
  let ?c = "snd (lehs_read_device_from_nvram base (nvram s) (?f\<lparr>local_ase_data := lehs_init_local_ase_data (acl (cs_conn_id p))\<rparr>))"
  have s': "s' = s\<lparr>clcbs := ?cs[i := ?c]\<rparr>"
    using assms(3) i by (auto simp: lehs_gatt_handle_connection_def arr_get_def arr_set_def Let_def
        bind_eq_Some_conv split_beta)
  have "clcbs_ok (?cs[i := ?f])"
    using clcb_pool.alloc_ok [of ?cs "cs_bd_addr p" "cs_addr_type p" "cs_conn_id p" "cs_central p"]
      assms(1,2) room i(3) by (simp add: lehs_state_ok_def)
  from clcbs_ok_same [OF this, of i ?c] have "clcbs_ok (?cs[i := ?c])" using i(1) by simp
  moreover have "cccd_ok ?c"
    using assms(1) by (intro read_device_cccd) (auto simp: lehs_state_ok_def cccd_ok_def)
  ultimately show ?thesis
    using assms(1) by (auto simp: lehs_state_ok_def s' init_table_ok intro!: list_all_update)
qed

lemma free_cb_cases:
  obtains (none) "lehs_gatt_get_clcb cs a = None" "lehs_gatt_free_cb a cs = (WICED_ERROR, cs)"
  | (some) i where "lehs_gatt_get_clcb cs a = Some i" "lehs_gatt_free_cb a cs = (WICED_SUCCESS, cs[i := zero_clcb])"
  by (cases "lehs_gatt_get_clcb cs a") (auto simp: lehs_gatt_free_cb_def)

lemma save_device_link_keys [simp]:
  "map link_keys (fst (lehs_save_device_data_to_nvram base c nv)) = map link_keys nv"
  "length (fst (lehs_save_device_data_to_nvram base c nv)) = length nv"
  by (auto simp: lehs_save_device_data_to_nvram_def intro!: map_upd_same split: option.splits)

lemma save_device_cccd:
  "list_all (\<lambda>e. length (stored_cccd_bits e) = 2) nv \<Longrightarrow> cccd_ok c \<Longrightarrow>
     list_all (\<lambda>e. length (stored_cccd_bits e) = 2) (fst (lehs_save_device_data_to_nvram base c nv))"
  by (auto simp: lehs_save_device_data_to_nvram_def cccd_ok_def intro!: list_all_update split: option.splits)

text \<open>What a disconnection leaves, whatever the advertising does.\<close>

lemma handle_disconnection_state:
  assumes "lehs_gatt_handle_disconnection base p s = Some (s', acts)"
  shows "clcbs s' = snd (lehs_gatt_free_cb (cs_bd_addr p) (clcbs s)) \<and>
    nvram s' = (case lehs_gatt_get_clcb (clcbs s) (cs_bd_addr p) of
       None \<Rightarrow> nvram s | Some i \<Rightarrow> fst (lehs_save_device_data_to_nvram base (clcbs s ! i) (nvram s)))"
  using assms
  by (auto simp: lehs_gatt_handle_disconnection_def Let_def split_beta bind_eq_Some_conv
      split: option.splits if_splits)

lemma get_clcb_in_use:
  assumes "lehs_gatt_get_clcb cs a = Some i"
  shows "i < length cs \<and> in_use (cs ! i) \<and> conn_bda (cs ! i) = a"
  using find_index_Some [OF assms [unfolded lehs_gatt_get_clcb_def]] by blast

lemma handle_disconnection_ok:
  assumes "lehs_state_ok s" "lehs_gatt_handle_disconnection base p s = Some (s', acts)"
  shows "lehs_state_ok s'"
proof -
  note st = handle_disconnection_state [OF assms(2)]
  show ?thesis
  proof (cases rule: free_cb_cases [of "clcbs s" "cs_bd_addr p"])
    case none
    with st assms(1) show ?thesis by (simp add: lehs_state_ok_def)
  next
    case (some i)
    then have i: "i < length (clcbs s)" "in_use (clcbs s ! i)" using get_clcb_in_use by blast+
    then have "cccd_ok (clcbs s ! i)" using assms(1) by (auto simp: lehs_state_ok_def list_all_length)
    with some st assms(1) show ?thesis
      by (auto simp: lehs_state_ok_def clcbs_ok_zero intro!: list_all_update save_device_cccd)
  qed
qed

lemma room_find: "clcb_room cs \<Longrightarrow> \<exists>j. find_index (\<lambda>c. \<not> in_use c) cs = Some j"
  using find_index_None [of "\<lambda>c. \<not> in_use c" cs] by (auto simp: clcb_room_def list_ex_iff)

lemma cccd_index_bound: "lehs_get_cccd_index h type = Some i \<Longrightarrow> i < 27"
  by (cases type) (simp_all add: cccd_index_descriptor cccd_index_value)

lemma get_cccd_cong: "cccd_bits c = cccd_bits c' \<Longrightarrow> lehs_get_clcb_cccd c h type = lehs_get_clcb_cccd c' h type"
  by (simp add: lehs_get_clcb_cccd_def cong: option.case_cong)

lemma cccd_zero:
  assumes "cccd_bits c = [0, 0]"
  shows "lehs_get_clcb_cccd c h type = Some 0"
proof (cases "lehs_get_cccd_index h type")
  case None
  then show ?thesis by (simp add: lehs_get_clcb_cccd_def)
next
  case (Some i)
  then have i: "i < 27" by (rule cccd_index_bound)
  then have "i * 2 div 32 = 0 \<or> i * 2 div 32 = 1" by auto
  then have "cccd_field [0, 0] i = 0" by (auto simp: cccd_field_def)
  with get_cccd_field [OF _ Some i] assms show ?thesis by (simp add: cccd_ok_def)
qed

lemma write_keys_state:
  assumes "lehs_nvram_write_keys base k nv = Some (x, nv', acts)"
  shows "length nv' = length nv \<and>
    (list_all (\<lambda>e. length (stored_cccd_bits e) = 2) nv \<longrightarrow> list_all (\<lambda>e. length (stored_cccd_bits e) = 2) nv')"
  using assms
  by (auto simp: lehs_nvram_write_keys_def lehs_nvram_allocate_paired_device_key_info_def Let_def arr_get_def arr_set_def
      list_all_length nth_list_update bind_eq_Some_conv dest!: get_paired_iff split: option.splits if_splits)

lemma key_update_ok:
  assumes "lehs_state_ok s" "lehs_btm_handle_key_update_event base k s = Some (s', acts)"
  shows "lehs_state_ok s'"
proof -
  have "clcbs_ok (case lehs_gatt_get_clcb (clcbs s) (conn_addr k) of
                 None \<Rightarrow> clcbs s
               | Some i \<Rightarrow> (clcbs s)[i := (clcbs s ! i)\<lparr>identity_bd_address := bd_addr k\<rparr>])"
    using assms(1) get_clcb_in_use
    by (auto simp: lehs_state_ok_def split: option.splits intro!: clcbs_ok_same)
  with assms show ?thesis
    by (auto simp: lehs_btm_handle_key_update_event_def lehs_state_ok_def bind_eq_Some_conv Let_def cccd_ok_def
        list_all_length nth_list_update dest!: write_keys_state get_clcb_in_use split: option.splits if_splits)
qed

lemma set_cccd_only_bits: "lehs_set_clcb_cccd c d v = Some c' \<Longrightarrow> \<exists>bits. c' = c\<lparr>cccd_bits := bits\<rparr>"
  by (auto simp: lehs_set_clcb_cccd_def bind_eq_Some_conv split: option.splits intro: exI [of _ "cccd_bits c"])

lemma cccd_written_ok:
  assumes "lehs_state_ok s" "i < length (clcbs s)" "lehs_set_clcb_cccd (clcbs s ! i) d v = Some c"
  shows "lehs_state_ok (s\<lparr>clcbs := (clcbs s)[i := c]\<rparr>)"
proof -
  obtain bits where c: "c = (clcbs s ! i)\<lparr>cccd_bits := bits\<rparr>" using set_cccd_only_bits [OF assms(3)] by blast
  have "in_use (clcbs s ! i) \<Longrightarrow> cccd_ok (clcbs s ! i) \<and> ase_table_ok (local_ase_data (clcbs s ! i))"
    using assms(1,2) by (auto simp: lehs_state_ok_def list_all_length)
  then have "in_use c \<longrightarrow> cccd_ok c \<and> ase_table_ok (local_ase_data c)"
    using cccd_store.put_ok [of "clcbs s ! i" d v] assms(3) c by auto
  with assms(1,2) c show ?thesis
    by (auto simp: lehs_state_ok_def intro!: list_all_update clcbs_ok_same)
qed

lemma lehs_step_ok: "lehs_state_ok s \<Longrightarrow> lehs_step acl base e s = Some s' \<Longrightarrow> lehs_state_ok s'"
  by (auto simp: lehs_step_def intro: handle_connection_ok handle_disconnection_ok key_update_ok cccd_written_ok
      split: lehs_event.splits if_splits)

lemma lehs_reachable_ok: "lehs_reachable acl base s \<Longrightarrow> lehs_state_ok s"
  by (induction rule: lehs_reachable.induct) (auto simp: state_init_ok intro: lehs_step_ok)

section \<open>Properties\<close>

text \<open>Through any sequence of connections, disconnections, key updates and writes of client
  configurations, no two live control blocks have the same address, the blocks and the bonds keep
  their numbers, and every live connection has a full store of client configurations and a well
  formed table of ASEs.\<close>

theorem lehs_state_invariant:
  assumes "lehs_reachable acl base s"
  shows "lehs_state_ok s"
  using lehs_reachable_ok [OF assms] .

definition example_status :: wiced_bt_gatt_connection_status where
  "example_status = \<lparr>cs_bd_addr = [1, 2, 3, 4, 5, 6], cs_addr_type = 0, cs_conn_id = 7, cs_central = False,
     cs_connection_timeout = False\<rparr>"

definition example_connected :: lehs_state where
  "example_connected = (lehs_state_init 0)\<lparr>clcbs :=
     [(fresh_clcb [1, 2, 3, 4, 5, 6] 0 7 False)\<lparr>local_ase_data := lehs_init_local_ase_data 1\<rparr>, zero_clcb]\<rparr>"

lemma example_connect:
  "lehs_gatt_handle_connection (\<lambda>_. 1) 0x200 example_status (lehs_state_init 0) =
     Some (example_connected, [RPC_CONNECTED 7 [1, 2, 3, 4, 5, 6]])"
  by (simp add: lehs_gatt_handle_connection_def lehs_gatt_alloc_cb_def lehs_state_init_def example_status_def
      numeral_2_eq_2 arr_get_def arr_set_def Let_def lehs_read_device_from_nvram_def
      lehs_nvram_get_paired_device_key_info_def lehs_nvram_init_def find_index_None zero_paired_device_key_def
      zero_link_keys_def null_addr_def example_connected_def numeral_eq_Suc)

lemma example_connected_reachable: "lehs_reachable (\<lambda>_. 1) 0x200 example_connected"
proof (rule lehs_reachable.event [OF lehs_reachable.init [where swift_pair = 0], where e = "CONNECTED example_status"])
    have "lehs_gatt_get_clcb (clcbs (lehs_state_init 0)) (cs_bd_addr example_status) = None"
      by (simp add: lehs_gatt_get_clcb_def find_index_None lehs_state_init_def)
    then show "lehs_step (\<lambda>_. 1) 0x200 (CONNECTED example_status) (lehs_state_init 0) = Some example_connected"
      by (simp add: lehs_step_def example_connect)
qed

theorem lehs_state_invariant_witness: "lehs_state_ok example_connected"
  using lehs_state_invariant [OF example_connected_reachable] .

lemma example_connected_ok: "lehs_state_ok example_connected"
  by (rule lehs_reachable_ok [OF example_connected_reachable])

text \<open>The two bits per descriptor behave as a store: after writing a client configuration, reading the
  descriptor gives back the two bits, the characteristic's value handle gives the same, and every other
  descriptor reads as before.\<close>

theorem cccd_written_is_read:
  assumes "cccd_ok c" "(v, d) \<in> set lehs_cccd_map"
  shows "\<exists>c'. lehs_set_clcb_cccd c d x = Some c' \<and> cccd_ok c' \<and>
    lehs_get_clcb_cccd c' v GATT_INTF_VALUE_HANDLE_INDEX = Some (x AND 3) \<and>
    (\<forall>d'. lehs_get_clcb_cccd c' d' GATT_INTF_DESCRIPTOR_HANDLE_INDEX =
       (if d' = d then Some (x AND 3) else lehs_get_clcb_cccd c d' GATT_INTF_DESCRIPTOR_HANDLE_INDEX))"
proof -
  obtain i where i: "i < 27" "lehs_cccd_map ! i = (v, d)"
    using assms(2) by (auto simp: in_set_conv_nth cccd_map_length)
  then have ix: "lehs_get_cccd_index d GATT_INTF_DESCRIPTOR_HANDLE_INDEX = Some i"
    "lehs_get_cccd_index v GATT_INTF_VALUE_HANDLE_INDEX = Some i"
    by (simp_all add: cccd_index_descriptor cccd_index_value)
  have k: "cccd_known d" using ix(1) by (auto simp: cccd_known_index)
  obtain c' where c': "lehs_set_clcb_cccd c d x = Some c'" "cccd_ok c'" using cccd_store.put_ok [OF assms(1)] by blast
  have r: "lehs_get_clcb_cccd c' d' GATT_INTF_DESCRIPTOR_HANDLE_INDEX =
      (if d' = d then Some (x AND 3) else lehs_get_clcb_cccd c d' GATT_INTF_DESCRIPTOR_HANDLE_INDEX)" for d'
    by (rule cccd_store.look_put [OF assms(1) c'(1) k])
  have "lehs_get_clcb_cccd c' v GATT_INTF_VALUE_HANDLE_INDEX = lehs_get_clcb_cccd c' d GATT_INTF_DESCRIPTOR_HANDLE_INDEX"
    using ix i(1) get_cccd_field [OF c'(2)] by simp
  with r c' show ?thesis by simp
qed

theorem cccd_written_is_read_witness:
  "\<exists>c'. lehs_set_clcb_cccd zero_clcb 268 1 = Some c' \<and> cccd_ok c' \<and>
    lehs_get_clcb_cccd c' 267 GATT_INTF_VALUE_HANDLE_INDEX = Some (1 AND 3) \<and>
    (\<forall>d'. lehs_get_clcb_cccd c' d' GATT_INTF_DESCRIPTOR_HANDLE_INDEX =
       (if d' = 268 then Some (1 AND 3) else lehs_get_clcb_cccd zero_clcb d' GATT_INTF_DESCRIPTOR_HANDLE_INDEX))"
  by (rule cccd_written_is_read) (simp_all add: cccd_ok_def zero_clcb_def lehs_cccd_map_def)

lemma adv_moves_on: "\<exists>b acts. lehs_move_to_next_adv_state sp a = Some (b, acts)"
  by (cases "sp = 0"; cases a) (simp_all add: lehs_move_to_next_adv_state_def swift_pair_next_state_def regular_adv_next_state_def
  lehs_gatt_start_stop_adv_def lehs_get_adv_duty_cycle_params_def st_params_def arr_get_def)

lemma reconnects:
  assumes "lehs_state_ok s" "lehs_gatt_get_clcb (clcbs s) (cs_bd_addr p) = Some i"
    "cs_bd_addr q = cs_bd_addr p \<or> lehs_gatt_get_clcb (clcbs s) (cs_bd_addr q) = None"
  shows "\<exists>s1 a1 s2 a2 j. lehs_gatt_handle_disconnection base p s = Some (s1, a1) \<and>
    lehs_gatt_handle_connection acl base q s1 = Some (s2, a2) \<and>
    lehs_gatt_get_clcb (clcbs s2) (cs_bd_addr q) = Some j \<and>
    clcbs s2 ! j = snd (lehs_read_device_from_nvram base (fst (lehs_save_device_data_to_nvram base (clcbs s ! i) (nvram s)))
      ((fresh_clcb (cs_bd_addr q) (cs_addr_type q) (cs_conn_id q) (cs_central q))
        \<lparr>local_ase_data := lehs_init_local_ase_data (acl (cs_conn_id q))\<rparr>))"
proof -
  let ?a = "cs_bd_addr p" and ?cs = "clcbs s"
  define cs1 where "cs1 = ?cs[i := zero_clcb]"
  have i: "i < length ?cs" "in_use (?cs ! i)" using get_clcb_in_use [OF assms(2)] by blast+
  obtain b a2 where b: "lehs_move_to_next_adv_state (do_swift_pair s) (adv s) = Some (b, a2)" using adv_moves_on by blast
  obtain s1 a1 where d: "lehs_gatt_handle_disconnection base p s = Some (s1, a1)"
  proof -
    have "\<exists>r. lehs_gatt_handle_disconnection base p s = Some r"
      using assms(2) b by (simp add: lehs_gatt_handle_disconnection_def Let_def split_beta)
    then show ?thesis using that by fastforce
  qed
  have s1: "clcbs s1 = cs1" "nvram s1 = fst (lehs_save_device_data_to_nvram base (?cs ! i) (nvram s))"
    using handle_disconnection_state [OF d] assms(2) by (simp_all add: cs1_def lehs_gatt_free_cb_def)
  have ok1: "lehs_state_ok s1" using handle_disconnection_ok [OF assms(1) d] .
  have free: "cs1 = snd (lehs_gatt_free_cb ?a ?cs)" using assms(2) by (simp add: cs1_def lehs_gatt_free_cb_def)
  have none: "lehs_gatt_get_clcb cs1 (cs_bd_addr q) = None"
    using clcb_pool.get_free [of ?cs ?a "cs_bd_addr q"] assms(1,3) free by (auto simp: lehs_state_ok_def)
  have "clcb_room cs1"
    using i(1) by (auto simp: clcb_room_def list_ex_iff cs1_def intro!: bexI [of _ zero_clcb] set_update_memI)
  then obtain j where f: "find_index (\<lambda>c. \<not> in_use c) cs1 = Some j" using room_find by blast
  then have j: "j < length cs1" using find_index_Some by blast
  define c2 where "c2 = snd (lehs_read_device_from_nvram base (nvram s1)
     ((fresh_clcb (cs_bd_addr q) (cs_addr_type q) (cs_conn_id q) (cs_central q))
        \<lparr>local_ase_data := lehs_init_local_ase_data (acl (cs_conn_id q))\<rparr>))"
  define s2 where "s2 = s1\<lparr>clcbs := cs1[j := c2]\<rparr>"
  obtain a2 where c: "lehs_gatt_handle_connection acl base q s1 = Some (s2, a2)"
    using j f by (simp add: lehs_gatt_handle_connection_def lehs_gatt_alloc_cb_def arr_get_def arr_set_def split_beta
        s2_def c2_def s1(1))
  have "lehs_state_ok s2" using handle_connection_ok [OF ok1 _ c] none by (simp add: s1(1))
  then have g: "lehs_gatt_get_clcb (clcbs s2) (cs_bd_addr q) = Some j"
    using j(1) by (simp add: get_clcb_iff lehs_state_ok_def) (simp add: s2_def c2_def)
  have "clcbs s2 ! j = c2" using j(1) by (simp add: s2_def)
  with d c g show ?thesis unfolding c2_def s1(2) by blast
qed

text \<open>C14: a device that disconnects, for whatever reason, and comes back as the next event: under an address no bond
  knows it starts with all client configurations 0, no hash and no cached handles. Under an address of a bond, which may
  be the identity address or the address it was paired under, it finds the client configurations, the hash and the cached
  handles of the connection it lost, if that connection belonged to the same bond, and what the bond held before otherwise.
  The new connection may have any identifier; its address is the old one or one that is not connected.\<close>

theorem reconnection_restores:
  assumes "lehs_state_ok s" "lehs_gatt_get_clcb (clcbs s) (cs_bd_addr p) = Some i"
    "cs_bd_addr q = cs_bd_addr p \<or> lehs_gatt_get_clcb (clcbs s) (cs_bd_addr q) = None"
  shows "\<exists>s1 a1 s2 a2 j. lehs_gatt_handle_disconnection base p s = Some (s1, a1) \<and>
    lehs_gatt_handle_connection acl base q s1 = Some (s2, a2) \<and>
    lehs_gatt_get_clcb (clcbs s2) (cs_bd_addr q) = Some j \<and>
    (let c = clcbs s ! i; c' = clcbs s2 ! j
     in case lehs_nvram_get_paired_device_key_info (nvram s) (cs_bd_addr q) of
       None \<Rightarrow> (\<forall>h type. lehs_get_clcb_cccd c' h type = Some 0) \<and> db_hash c' = replicate 16 0 \<and> peer_profiles c' = zero_peer_profiles
     | Some e \<Rightarrow>
         if lehs_nvram_get_paired_device_key_info (nvram s) (identity_bd_address c) = Some e
         then (\<forall>h type. lehs_get_clcb_cccd c' h type = lehs_get_clcb_cccd c h type) \<and>
           db_hash c' = db_hash c \<and> peer_profiles c' = peer_profiles c
         else cccd_bits c' = stored_cccd_bits (nvram s ! e) \<and> db_hash c' = stored_db_hash (nvram s ! e) \<and>
           peer_profiles c' = stored_peer_profiles (nvram s ! e))"
proof -
  let ?c = "clcbs s ! i" and ?a = "cs_bd_addr q"
  define nv1 where "nv1 = fst (lehs_save_device_data_to_nvram base ?c (nvram s))"
  obtain s1 a1 s2 a2 j where r: "lehs_gatt_handle_disconnection base p s = Some (s1, a1)"
    "lehs_gatt_handle_connection acl base q s1 = Some (s2, a2)" "lehs_gatt_get_clcb (clcbs s2) ?a = Some j"
    "clcbs s2 ! j = snd (lehs_read_device_from_nvram base nv1 ((fresh_clcb ?a (cs_addr_type q) (cs_conn_id q) (cs_central q))
        \<lparr>local_ase_data := lehs_init_local_ase_data (acl (cs_conn_id q))\<rparr>))"
    using reconnects [OF assms] unfolding nv1_def by blast
  have l: "lehs_nvram_get_paired_device_key_info nv1 ?a = lehs_nvram_get_paired_device_key_info (nvram s) ?a"
    by (rule get_paired_link_keys) (simp add: nv1_def)
  have "let c = ?c; c' = clcbs s2 ! j
     in case lehs_nvram_get_paired_device_key_info (nvram s) ?a of
       None \<Rightarrow> (\<forall>h type. lehs_get_clcb_cccd c' h type = Some 0) \<and> db_hash c' = replicate 16 0 \<and> peer_profiles c' = zero_peer_profiles
     | Some e \<Rightarrow>
         if lehs_nvram_get_paired_device_key_info (nvram s) (identity_bd_address c) = Some e
         then (\<forall>h type. lehs_get_clcb_cccd c' h type = lehs_get_clcb_cccd c h type) \<and>
           db_hash c' = db_hash c \<and> peer_profiles c' = peer_profiles c
         else cccd_bits c' = stored_cccd_bits (nvram s ! e) \<and> db_hash c' = stored_db_hash (nvram s ! e) \<and>
           peer_profiles c' = stored_peer_profiles (nvram s ! e)"
  proof (cases "lehs_nvram_get_paired_device_key_info (nvram s) ?a")
    case None
    then show ?thesis using l by (simp add: r(4) lehs_read_device_from_nvram_def cccd_zero fresh_clcb_def
          lehs_set_gatt_state_connection_sts_def zero_clcb_def)
  next
    case (Some e)
    have e: "e < length (nvram s)" using get_paired_iff [OF Some] by blast
    have "if lehs_nvram_get_paired_device_key_info (nvram s) (identity_bd_address ?c) = Some e
      then nv1 ! e = (nvram s ! e)\<lparr>stored_peer_profiles := peer_profiles ?c, stored_db_hash := db_hash ?c,
        stored_cccd_bits := cccd_bits ?c\<rparr> else nv1 ! e = nvram s ! e"
      using e by (auto simp: nv1_def lehs_save_device_data_to_nvram_def nth_list_update split: option.split)
    then show ?thesis using Some l
      by (auto simp: r(4) lehs_read_device_from_nvram_def Let_def intro: get_cccd_cong split: if_splits)
  qed
  with r(1-3) show ?thesis by blast
qed

definition example_keys :: wiced_bt_device_link_keys where
  "example_keys = \<lparr>bd_addr = [9, 9, 9, 9, 9, 9], conn_addr = [1, 2, 3, 4, 5, 6], key_data = [7]\<rparr>"


text \<open>A device that pairs (its identity address is not the one of its connection) and enables one notification.\<close>

definition example_paired :: lehs_state where
  "example_paired = example_connected\<lparr>
     clcbs := [(clcbs example_connected ! 0)\<lparr>identity_bd_address := [9, 9, 9, 9, 9, 9], cccd_bits := [0x40000000, 0]\<rparr>, zero_clcb],
     nvram := lehs_nvram_init[0 := zero_paired_device_key\<lparr>link_keys := example_keys\<rparr>]\<rparr>"

lemma example_paired_reachable: "lehs_reachable (\<lambda>_. 1) 0x200 example_paired"
proof -
  obtain t where t: "lehs_step (\<lambda>_. 1) 0x200 (KEYS_UPDATED example_keys) example_connected = Some t"
    "lehs_step (\<lambda>_. 1) 0x200 (CCCD_WRITTEN 0 268 1) t = Some example_paired"
  proof -
    have "lehs_step (\<lambda>_. 1) 0x200 (KEYS_UPDATED example_keys) example_connected \<bind> lehs_step (\<lambda>_. 1) 0x200 (CCCD_WRITTEN 0 268 1) =
      Some example_paired"
      by code_simp
    then show ?thesis using that by (auto simp: bind_eq_Some_conv)
  qed
  show ?thesis
    by (rule lehs_reachable.event [OF lehs_reachable.event [OF example_connected_reachable t(1)] t(2)])
qed

text \<open>The link is lost by a time-out, and the device comes back under its identity address.\<close>

theorem reconnection_restores_witness:
  "\<exists>s1 a1 s2 a2 j.
    lehs_gatt_handle_disconnection 0x200 (example_status\<lparr>cs_connection_timeout := True\<rparr>) example_paired = Some (s1, a1) \<and>
    lehs_gatt_handle_connection (\<lambda>_. 1) 0x200 (example_status\<lparr>cs_bd_addr := [9, 9, 9, 9, 9, 9], cs_conn_id := 8\<rparr>) s1 =
      Some (s2, a2) \<and>
    lehs_gatt_get_clcb (clcbs s2) [9, 9, 9, 9, 9, 9] = Some j \<and>
    lehs_get_clcb_cccd (clcbs s2 ! j) 268 GATT_INTF_DESCRIPTOR_HANDLE_INDEX = Some 1 \<and>
    lehs_get_clcb_cccd (clcbs s2 ! j) 267 GATT_INTF_VALUE_HANDLE_INDEX = Some 1"
proof -
  let ?p = "example_status\<lparr>cs_connection_timeout := True\<rparr>" and ?q = "example_status\<lparr>cs_bd_addr := [9, 9, 9, 9, 9, 9], cs_conn_id := 8\<rparr>"
  have a: "lehs_gatt_get_clcb (clcbs example_paired) (cs_bd_addr ?p) = Some 0" by code_simp
  have b: "cs_bd_addr ?q = cs_bd_addr ?p \<or> lehs_gatt_get_clcb (clcbs example_paired) (cs_bd_addr ?q) = None" by code_simp
  have e: "lehs_nvram_get_paired_device_key_info (nvram example_paired) [9, 9, 9, 9, 9, 9] = Some 0"
    "lehs_nvram_get_paired_device_key_info (nvram example_paired) (identity_bd_address (clcbs example_paired ! 0)) = Some 0"
    by code_simp+
  have c: "lehs_get_clcb_cccd (clcbs example_paired ! 0) 268 GATT_INTF_DESCRIPTOR_HANDLE_INDEX = Some 1"
    "lehs_get_clcb_cccd (clcbs example_paired ! 0) 267 GATT_INTF_VALUE_HANDLE_INDEX = Some 1"
    by code_simp+
  have q: "cs_bd_addr ?q = [9, 9, 9, 9, 9, 9]" by simp
  show ?thesis
    using reconnection_restores [OF lehs_reachable_ok [OF example_paired_reachable] a b, where base = "0x200" and acl = "\<lambda>_. 1"]
    by (simp only: Let_def q e option.case if_True simp_thms) (metis c)
qed
text \<open>A third connection and an eleventh bond each write one entry behind their array: with no entry free,
  neither allocation reports a failure.\<close>

theorem full_tables_fault:
  assumes "list_all in_use (clcbs s)" "list_all (\<lambda>e. bd_addr (link_keys e) \<noteq> null_addr) nv" "length nv = 10"
    "lehs_nvram_get_paired_device_key_info nv (bd_addr k) = None"
  shows "lehs_gatt_handle_connection acl base p s = None \<and> lehs_nvram_write_keys base k nv = None"
proof -
  have "find_index (\<lambda>c. \<not> in_use c) (clcbs s) = None" using assms(1) by (simp add: find_index_None list_all_iff)
  moreover have "find_index (\<lambda>e. is_bd_addr_zero (bd_addr (link_keys e))) nv = None"
    using assms(2) by (auto simp: find_index_None list_all_iff is_bd_addr_zero_def)
  ultimately show ?thesis using assms(3,4)
    by (simp add: lehs_gatt_handle_connection_def lehs_gatt_alloc_cb_def lehs_nvram_write_keys_def
        lehs_nvram_allocate_paired_device_key_info_def arr_get_def)
qed

definition example_bond :: lehs_nvram_paired_device_key where
  "example_bond = zero_paired_device_key\<lparr>link_keys := \<lparr>bd_addr = [9, 9, 9, 9, 9, 9], conn_addr = [9, 9, 9, 9, 9, 9],
     key_data = [1]\<rparr>\<rparr>"

theorem full_tables_fault_witness:
  "lehs_gatt_handle_connection (\<lambda>_. 1) 0x200 example_status
      ((lehs_state_init 0)\<lparr>clcbs := [fresh_clcb [1] 0 1 False, fresh_clcb [2] 0 2 False]\<rparr>) = None \<and>
    lehs_nvram_write_keys 0x200 \<lparr>bd_addr = [1, 2, 3, 4, 5, 6], conn_addr = [1, 2, 3, 4, 5, 6], key_data = [2]\<rparr>
      (replicate 10 example_bond) = None"
  by (rule full_tables_fault; code_simp)

section \<open>Advertising\<close>

lemmas adv_defs = lehs_move_to_next_adv_state_def swift_pair_next_state_def regular_adv_next_state_def
  lehs_gatt_start_stop_adv_def lehs_get_adv_duty_cycle_params_def st_params_def arr_get_def

text \<open>The states after 0, 1, ... moves.\<close>

fun adv_moves :: "nat \<Rightarrow> u8 \<Rightarrow> adv_state \<Rightarrow> adv_state option" where
  "adv_moves 0 sp a = Some a"
| "adv_moves (Suc n) sp a = do { (b, _) \<leftarrow> lehs_move_to_next_adv_state sp a; adv_moves n sp b }"

text \<open>C15: every move of the advertising state is defined, it enables advertising exactly in the states
  other than \<open>ADV_STATE_IDLE\<close> and then always with a duration, so that the controller's time-out
  comes, and from every state at most four moves with no connection in between stop it.\<close>

theorem advertising_ends:
  "(\<exists>next_state acts params. lehs_move_to_next_adv_state sp a = Some (next_state, acts) \<and>
      acts = [EXT_ADV_ENABLE (next_state \<noteq> ADV_STATE_IDLE) params, SEND_ADV_STATE next_state] \<and>
      next_state \<noteq> ADV_STATE_MAX \<and> (duration params \<noteq> 0 \<longleftrightarrow> next_state \<noteq> ADV_STATE_IDLE)) \<and>
    (\<exists>n\<le>4. 0 < n \<and> adv_moves n sp a = Some ADV_STATE_IDLE)"
proof
  show "\<exists>next_state acts params. lehs_move_to_next_adv_state sp a = Some (next_state, acts) \<and>
      acts = [EXT_ADV_ENABLE (next_state \<noteq> ADV_STATE_IDLE) params, SEND_ADV_STATE next_state] \<and>
      next_state \<noteq> ADV_STATE_MAX \<and> (duration params \<noteq> 0 \<longleftrightarrow> next_state \<noteq> ADV_STATE_IDLE)"
    by (cases "sp = 0"; cases a) (simp_all add: adv_defs)
  have "\<exists>n\<in>{1, 2, 3, 4}. adv_moves n sp a = Some ADV_STATE_IDLE"
    by (cases "sp = 0"; cases a) (simp_all add: adv_defs numeral_eq_Suc)
  then obtain n where n: "n \<in> {1, 2, 3, 4}" "adv_moves n sp a = Some ADV_STATE_IDLE" by blast
  then show "\<exists>n\<le>4. 0 < n \<and> adv_moves n sp a = Some ADV_STATE_IDLE" by (intro exI [of _ n]) auto
qed

end
