(* ===== verification/Discovery_Clients.thy ===== *)
theory Discovery_Clients
  imports Gatt_Intf
begin

text \<open>
  The discovery entry points of the profile libraries under \<open>gatt_profiles/\<close>: the table of
  characteristics each client looks for and the call that starts the search. The UUIDs are
  constants of the SDK, a function on their names; \<open>ctx_bytes\<close> is the size of a context. At the end, what the results of a
  search leave in the context: the declarations, and the client configurations behind them.
\<close>

section \<open>Setting up a context\<close>

record disc_env =
  dgatt :: gatt_env
  sdk_uuid16 :: "string \<Rightarrow> u16"
  ctx_bytes :: "u8 \<Rightarrow> u8 \<Rightarrow> bool \<Rightarrow> nat"

type_synonym discovery = "(gatt_intf_service_discovery_ctx option \<times> gatt_action list) option"

definition char_info :: "disc_env \<Rightarrow> string \<Rightarrow> u8 \<Rightarrow> gatt_intf_characteristic_info" where
  "char_info env name t = \<lparr>ci_uuid = UUID16 (sdk_uuid16 env name), characteristic_type = t\<rparr>"

definition service_uuid :: "disc_env \<Rightarrow> string \<Rightarrow> wiced_bt_uuid option" where
  "service_uuid env name = Some (UUID16 (sdk_uuid16 env name))"

text \<open>
  A context for \<open>n\<close> characteristics and \<open>inc\<close> included services with the completion callback set;
  \<open>fill\<close> enters the tables, \<open>go\<close> starts the search. Without memory no search is started.
\<close>

definition with_ctx ::
  "disc_env \<Rightarrow> u8 \<Rightarrow> u8 \<Rightarrow> bool \<Rightarrow> bool
    \<Rightarrow> (gatt_intf_service_discovery_ctx \<Rightarrow> gatt_intf_service_discovery_ctx option)
    \<Rightarrow> (gatt_intf_service_discovery_ctx
         \<Rightarrow> (wiced_result + gatt_status) \<times> gatt_intf_service_discovery_ctx \<times> gatt_action list) \<Rightarrow> discovery" where
  "with_ctx env n inc app cb fill go =
     (case gatt_intf_alloc_service_discovery_ctx (dgatt env) (ctx_bytes env n inc app) n inc of
        None \<Rightarrow> Some (None, [])
      | Some sdc \<Rightarrow> do {
          sdc \<leftarrow> fill (gatt_intf_set_discovery_complete_callback cb sdc);
          let (_, sdc, acts) = go sdc;
          Some (Some sdc, acts) })"

text \<open>A service whose characteristics occur once each.\<close>

definition discover_unique ::
  "disc_env \<Rightarrow> gatt_intf_characteristic_info list \<Rightarrow> string \<Rightarrow> u16 \<Rightarrow> u16 \<Rightarrow> bool \<Rightarrow> discovery" where
  "discover_unique env infos service conn_id s_hdl cb =
     (let n = of_nat (length infos)
      in with_ctx env n 0 False cb (\<lambda>sdc. map_option snd (gatt_intf_copy_unique_characteristic_info infos n sdc))
           (gatt_intf_start_service_discovery (dgatt env) conn_id (service_uuid env service) s_hdl))"

definition discover_secondary ::
  "disc_env \<Rightarrow> gatt_intf_characteristic_info list \<Rightarrow> string \<Rightarrow> u16 \<Rightarrow> u16 \<Rightarrow> u16 \<Rightarrow> bool \<Rightarrow> discovery" where
  "discover_secondary env infos service conn_id s_hdl e_hdl cb =
     (let n = of_nat (length infos)
      in with_ctx env n 0 False cb (\<lambda>sdc. map_option snd (gatt_intf_copy_unique_characteristic_info infos n sdc))
           (gatt_intf_start_secondary_service_discovery (dgatt env) conn_id (service_uuid env service) s_hdl e_hdl))"

section \<open>The characteristics\<close>

definition vcs_characteristic_info :: "disc_env \<Rightarrow> gatt_intf_characteristic_info list" where
  "vcs_characteristic_info env =
     [char_info env ''WICED_BT_UUID_VOLUME_STATE'' 0,
      char_info env ''WICED_BT_UUID_CONTROL_POINT'' 1,
      char_info env ''WICED_BT_UUID_VOLUME_FLAG'' 2]"

definition vocs_characteristic_info :: "disc_env \<Rightarrow> gatt_intf_characteristic_info list" where
  "vocs_characteristic_info env =
     [char_info env ''WICED_BT_UUID_VOLUME_OFFSET_STATE'' 0,
      char_info env ''WICED_BT_UUID_AUDIO_LOCATION'' 1,
      char_info env ''WICED_BT_UUID_VOLUME_OFFSET_CONTROL_POINT'' 2,
      char_info env ''WICED_BT_UUID_AUDIO_OUTPUT_DESCRIPTION'' 3]"

definition aics_characteristic_info :: "disc_env \<Rightarrow> gatt_intf_characteristic_info list" where
  "aics_characteristic_info env =
     [char_info env ''WICED_BT_UUID_INPUT_STATE'' 0,
      char_info env ''WICED_BT_UUID_GAIN_SETTING_ATTRIBUTE'' 1,
      char_info env ''WICED_BT_UUID_INPUT_TYPE'' 2,
      char_info env ''WICED_BT_UUID_INPUT_STATUS'' 3,
      char_info env ''WICED_BT_UUID_AUDIO_INPUT_CONTROL_POINT'' 4,
      char_info env ''WICED_BT_UUID_AUDIO_INPUT_DESCRIPTION'' 5]"

definition mics_characteristic_info :: "disc_env \<Rightarrow> gatt_intf_characteristic_info list" where
  "mics_characteristic_info env =
     [char_info env ''WICED_BT_UUID_MICS_MUTE_STATE'' 0]"

definition has_characteristic_info :: "disc_env \<Rightarrow> gatt_intf_characteristic_info list" where
  "has_characteristic_info env =
     [char_info env ''WICED_BT_UUID_HAS_HEARING_AID_FEATURES'' 0,
      char_info env ''WICED_BT_UUID_HAS_HEARING_AID_PRESET_CONTROL_POINT'' 1,
      char_info env ''WICED_BT_UUID_HAS_HEARING_AID_ACTIVE_PRESET_INDEX'' 2]"

definition csis_characteristic_info :: "disc_env \<Rightarrow> gatt_intf_characteristic_info list" where
  "csis_characteristic_info env =
     [char_info env ''WICED_BT_UUID_CSIS_SIRK'' 0,
      char_info env ''WICED_BT_UUID_CSIS_SIZE'' 1,
      char_info env ''WICED_BT_UUID_CSIS_LOCK'' 2,
      char_info env ''WICED_BT_UUID_CSIS_RANK'' 3]"

definition bass_characteristic_info :: "disc_env \<Rightarrow> gatt_intf_characteristic_info list" where
  "bass_characteristic_info env =
     [char_info env ''WICED_BT_UUID_BASS_CONTROL_POINT'' 0,
      char_info env ''WICED_BT_UUID_BASS_BROADCAST_RECEIVE_STATE'' 1]"

definition ascs_characteristic_info :: "disc_env \<Rightarrow> gatt_intf_characteristic_info list" where
  "ascs_characteristic_info env =
     [char_info env ''WICED_BT_UUID_ASCS_ASE_CONTROL_POINT'' 0,
      char_info env ''WICED_BT_UUID_ASCS_SINK_ASE'' 1,
      char_info env ''WICED_BT_UUID_ASCS_SOURCE_ASE'' 2]"

definition pacs_characteristic_info :: "disc_env \<Rightarrow> gatt_intf_characteristic_info list" where
  "pacs_characteristic_info env =
     [char_info env ''WICED_BT_UUID_PACS_SUPPORTED_AUDIO_CONTEXT'' 0,
      char_info env ''WICED_BT_UUID_PACS_AUDIO_CONTEXT_AVAILABILITY'' 1,
      char_info env ''WICED_BT_UUID_PACS_SINK_AUDIO_LOCATIONS'' 2,
      char_info env ''WICED_BT_UUID_PACS_SOURCE_AUDIO_LOCATIONS'' 3,
      char_info env ''WICED_BT_UUID_PACS_SINK_PAC'' 4,
      char_info env ''WICED_BT_UUID_PACS_SOURCE_PAC'' 5]"

definition mcs_characteristic_info :: "disc_env \<Rightarrow> gatt_intf_characteristic_info list" where
  "mcs_characteristic_info env =
     [char_info env ''WICED_BT_UUID_MEDIA_PLAYER_NAME'' 0,
      char_info env ''WICED_BT_UUID_MEDIA_TRACK_CHANGED'' 1,
      char_info env ''WICED_BT_UUID_MEDIA_TRACK_TITLE'' 2,
      char_info env ''WICED_BT_UUID_MEDIA_TRACK_DURATION'' 3,
      char_info env ''WICED_BT_UUID_MEDIA_TRACK_POSITION'' 4,
      char_info env ''WICED_BT_UUID_MEDIA_PLAYBACK_SPEED'' 5,
      char_info env ''WICED_BT_UUID_MEDIA_SEEKING_SPEED'' 6,
      char_info env ''WICED_BT_UUID_MEDIA_PLAYING_ORDER'' 7,
      char_info env ''WICED_BT_UUID_MEDIA_PLAYING_ORDER_SUPPORTED'' 8,
      char_info env ''WICED_BT_UUID_MEDIA_STATE'' 9,
      char_info env ''WICED_BT_UUID_MEDIA_CONTROL_POINT'' 10,
      char_info env ''WICED_BT_UUID_MEDIA_CONTROL_OPCODE_SUPPORTED'' 11]"

definition tbs_characteristic_info :: "disc_env \<Rightarrow> gatt_intf_characteristic_info list" where
  "tbs_characteristic_info env =
     [char_info env ''WICED_BT_UUID_TBS_BEARER_PROVIDER_NAME'' 0,
      char_info env ''WICED_BT_UUID_TBS_BEARER_UCI'' 1,
      char_info env ''WICED_BT_UUID_TBS_BEARER_TECHNOLOGY'' 2,
      char_info env ''WICED_BT_UUID_TBS_BEARER_URI_SCHEMES'' 3,
      char_info env ''WICED_BT_UUID_TBS_BEARER_SIGNAL_STRENGTH'' 4,
      char_info env ''WICED_BT_UUID_TBS_SIG_STR_REPORTING_INTERVAL'' 5,
      char_info env ''WICED_BT_UUID_TBS_LIST_CURRENT_CALL'' 6,
      char_info env ''WICED_BT_UUID_TBS_CONTENT_CONTROL_ID'' 7,
      char_info env ''WICED_BT_UUID_TBS_INCOMING_TG_URI'' 8,
      char_info env ''WICED_BT_UUID_TBS_STATUS_FLAGS'' 9,
      char_info env ''WICED_BT_UUID_TBS_CALL_STATE'' 10,
      char_info env ''WICED_BT_UUID_TBS_CALL_CONTROL_POINT'' 11,
      char_info env ''WICED_BT_UUID_TBS_CALL_CONTROL_POINT_OPTIONAL_OPCODE'' 12,
      char_info env ''WICED_BT_UUID_TBS_TERMINATION_REASON'' 13,
      char_info env ''WICED_BT_UUID_TBS_INCOMING_CALL'' 14,
      char_info env ''WICED_BT_UUID_TBS_CALL_FRIENDLY_NAME'' 15]"

definition tmap_characteristic_info :: "disc_env \<Rightarrow> gatt_intf_characteristic_info list" where
  "tmap_characteristic_info env =
     [char_info env ''WICED_BT_UUID_TMAP_ROLE'' 0]"

definition gmap_characteristic_info :: "disc_env \<Rightarrow> gatt_intf_characteristic_info list" where
  "gmap_characteristic_info env =
     [char_info env ''WICED_BT_UUID_GMAP_ROLE'' 0,
      char_info env ''WICED_BT_UUID_GMAP_UGG_FEATURES'' 1,
      char_info env ''WICED_BT_UUID_GMAP_UGT_FEATURES'' 2,
      char_info env ''WICED_BT_UUID_GMAP_BGS_FEATURES'' 3,
      char_info env ''WICED_BT_UUID_GMAP_BGR_FEATURES'' 4]"

definition ias_characteristic_info :: "disc_env \<Rightarrow> gatt_intf_characteristic_info list" where
  "ias_characteristic_info env =
     [char_info env ''UUID_CHARACTERISTIC_ALERT_LEVEL'' 0]"

section \<open>The entry points\<close>

definition ga_lib_tmap_discover_service :: "disc_env \<Rightarrow> u16 \<Rightarrow> bool \<Rightarrow> discovery" where
  "ga_lib_tmap_discover_service env conn_id cb =
     discover_unique env (tmap_characteristic_info env) ''WICED_BT_UUID_TMAS'' conn_id 1 cb"

definition ga_lib_gmap_discover_service :: "disc_env \<Rightarrow> u16 \<Rightarrow> bool \<Rightarrow> discovery" where
  "ga_lib_gmap_discover_service env conn_id cb =
     discover_unique env (gmap_characteristic_info env) ''WICED_BT_UUID_GAMING_AUDIO_SERVICE'' conn_id 1 cb"

definition ga_lib_ias_discover_service :: "disc_env \<Rightarrow> u16 \<Rightarrow> bool \<Rightarrow> discovery" where
  "ga_lib_ias_discover_service env conn_id cb =
     discover_unique env (ias_characteristic_info env) ''UUID_SERVICE_IMMEDIATE_ALERT'' conn_id 1 cb"

definition ga_lib_has_discover_service :: "disc_env \<Rightarrow> u16 \<Rightarrow> bool \<Rightarrow> discovery" where
  "ga_lib_has_discover_service env conn_id cb =
     discover_unique env (has_characteristic_info env) ''WICED_BT_UUID_HEARING_ACCESS'' conn_id 1 cb"

definition ga_lib_csis_discover_service :: "disc_env \<Rightarrow> u16 \<Rightarrow> bool \<Rightarrow> discovery" where
  "ga_lib_csis_discover_service env conn_id cb =
     discover_unique env (csis_characteristic_info env) ''WICED_BT_UUID_COORDINATE_SET_IDENTIFICATION'' conn_id 1 cb"

definition ga_lib_mcs_discover_service_int :: "disc_env \<Rightarrow> u16 \<Rightarrow> u16 \<Rightarrow> string \<Rightarrow> bool \<Rightarrow> discovery" where
  "ga_lib_mcs_discover_service_int env conn_id s_hdl service cb =
     discover_unique env (mcs_characteristic_info env) service conn_id s_hdl cb"

definition ga_lib_gmcs_discover_service :: "disc_env \<Rightarrow> u16 \<Rightarrow> bool \<Rightarrow> discovery" where
  "ga_lib_gmcs_discover_service env conn_id cb =
     ga_lib_mcs_discover_service_int env conn_id 1 ''WICED_BT_UUID_GENERIC_MEDIA_CONTROL'' cb"

definition ga_lib_mcs_discover_service :: "disc_env \<Rightarrow> u16 \<Rightarrow> u16 \<Rightarrow> bool \<Rightarrow> discovery" where
  "ga_lib_mcs_discover_service env conn_id s_hdl cb =
     ga_lib_mcs_discover_service_int env conn_id s_hdl ''WICED_BT_UUID_MEDIA_CONTROL'' cb"

definition ga_lib_tbs_discover_service_int :: "disc_env \<Rightarrow> u16 \<Rightarrow> u16 \<Rightarrow> string \<Rightarrow> bool \<Rightarrow> discovery" where
  "ga_lib_tbs_discover_service_int env conn_id s_hdl service cb =
     discover_unique env (tbs_characteristic_info env) service conn_id s_hdl cb"

definition ga_lib_gtbs_discover_service :: "disc_env \<Rightarrow> u16 \<Rightarrow> bool \<Rightarrow> discovery" where
  "ga_lib_gtbs_discover_service env conn_id cb =
     ga_lib_tbs_discover_service_int env conn_id 1 ''WICED_BT_UUID_GENERIC_TELEPHONE_BEARER'' cb"

definition ga_lib_tbs_discover_service :: "disc_env \<Rightarrow> u16 \<Rightarrow> u16 \<Rightarrow> bool \<Rightarrow> discovery" where
  "ga_lib_tbs_discover_service env conn_id s_hdl cb =
     ga_lib_tbs_discover_service_int env conn_id s_hdl ''WICED_BT_UUID_TELEPHONE_BEARER'' cb"

definition ga_lib_vocs_discover_vocs_service :: "disc_env \<Rightarrow> u16 \<Rightarrow> bool \<Rightarrow> u16 \<Rightarrow> u16 \<Rightarrow> discovery" where
  "ga_lib_vocs_discover_vocs_service env conn_id cb s_hdl e_hdl =
     discover_secondary env (vocs_characteristic_info env) ''WICED_BT_UUID_VOLUME_OFFSET_CONTROL'' conn_id s_hdl e_hdl cb"

definition ga_lib_aics_discover_service :: "disc_env \<Rightarrow> u16 \<Rightarrow> bool \<Rightarrow> u16 \<Rightarrow> u16 \<Rightarrow> discovery" where
  "ga_lib_aics_discover_service env conn_id cb s_hdl e_hdl =
     discover_secondary env (aics_characteristic_info env) ''WICED_BT_UUID_AUDIO_INPUT_CONTROL'' conn_id s_hdl e_hdl cb"

definition ga_lib_mics_discover_service :: "disc_env \<Rightarrow> u16 \<Rightarrow> bool \<Rightarrow> u8 \<Rightarrow> discovery" where
  "ga_lib_mics_discover_service env conn_id cb max_num_aics_instances =
     with_ctx env 1 max_num_aics_instances True cb
       (\<lambda>sdc. do {
          (_, sdc) \<leftarrow> gatt_intf_copy_unique_characteristic_info (mics_characteristic_info env) 1 sdc;
          Some (snd (gatt_intf_repeat_included_service_info 0
                       (UUID16 (sdk_uuid16 env ''WICED_BT_UUID_AUDIO_INPUT_CONTROL'')) max_num_aics_instances sdc)) })
       (gatt_intf_start_service_discovery (dgatt env) conn_id (service_uuid env ''WICED_BT_UUID_MICROPHONE_CONTROL'') 1)"

definition ga_lib_vcs_discover_service :: "disc_env \<Rightarrow> u16 \<Rightarrow> bool \<Rightarrow> u8 \<Rightarrow> u8 \<Rightarrow> discovery" where
  "ga_lib_vcs_discover_service env conn_id cb num_aics_instances num_vocs_instances =
     with_ctx env 3 (num_aics_instances + num_vocs_instances) True cb
       (\<lambda>sdc. do {
          (_, sdc) \<leftarrow> gatt_intf_copy_unique_characteristic_info (vcs_characteristic_info env) 3 sdc;
          let (inc_start, sdc) = gatt_intf_repeat_included_service_info 0
                (UUID16 (sdk_uuid16 env ''WICED_BT_UUID_AUDIO_INPUT_CONTROL'')) num_aics_instances sdc;
          Some (snd (gatt_intf_repeat_included_service_info inc_start
                       (UUID16 (sdk_uuid16 env ''WICED_BT_UUID_VOLUME_OFFSET_CONTROL'')) num_vocs_instances sdc)) })
       (gatt_intf_start_service_discovery (dgatt env) conn_id (service_uuid env ''WICED_BT_UUID_VOLUME_CONTROL'') 1)"

text \<open>The services with repeated characteristics; the number of slots is cut to 8 bits.\<close>

definition ga_lib_bass_discover_service :: "disc_env \<Rightarrow> u16 \<Rightarrow> bool \<Rightarrow> u8 \<Rightarrow> discovery" where
  "ga_lib_bass_discover_service env conn_id cb max_receive_states =
     with_ctx env (1 + max_receive_states) 0 True cb
       (\<lambda>sdc. do {
          (start, sdc) \<leftarrow> gatt_intf_copy_unique_characteristic_info (bass_characteristic_info env) 1 sdc;
          Some (snd (gatt_intf_repeat_characteristic_info start (bass_characteristic_info env ! 1) max_receive_states sdc)) })
       (gatt_intf_start_service_discovery (dgatt env) conn_id (service_uuid env ''WICED_BT_UUID_BROADCAST_AUDIO_SCAN'') 1)"

definition ga_lib_ascs_discover_service :: "disc_env \<Rightarrow> u16 \<Rightarrow> bool \<Rightarrow> u8 \<Rightarrow> u8 \<Rightarrow> discovery" where
  "ga_lib_ascs_discover_service env conn_id cb max_snk_ase max_src_ase =
     with_ctx env (1 + max_snk_ase + max_src_ase) 0 True cb
       (\<lambda>sdc. do {
          (start, sdc) \<leftarrow> gatt_intf_copy_unique_characteristic_info (ascs_characteristic_info env) 1 sdc;
          let (start, sdc) = gatt_intf_repeat_characteristic_info start (ascs_characteristic_info env ! 1) max_snk_ase sdc;
          Some (snd (gatt_intf_repeat_characteristic_info start (ascs_characteristic_info env ! 2) max_src_ase sdc)) })
       (gatt_intf_start_service_discovery (dgatt env) conn_id (service_uuid env ''WICED_BT_UUID_AUDIO_STREAM_CONTROL'') 1)"

definition ga_lib_pacs_discover_service :: "disc_env \<Rightarrow> u16 \<Rightarrow> bool \<Rightarrow> u8 \<Rightarrow> u8 \<Rightarrow> discovery" where
  "ga_lib_pacs_discover_service env conn_id cb max_snk_ase max_src_ase =
     with_ctx env (4 + max_snk_ase + max_src_ase) 0 True cb
       (\<lambda>sdc. do {
          (start, sdc) \<leftarrow> gatt_intf_copy_unique_characteristic_info (pacs_characteristic_info env) 4 sdc;
          let (start, sdc) = gatt_intf_repeat_characteristic_info start (pacs_characteristic_info env ! 4) max_snk_ase sdc;
          Some (snd (gatt_intf_repeat_characteristic_info start (pacs_characteristic_info env ! 5) max_src_ase sdc)) })
       (gatt_intf_start_service_discovery (dgatt env) conn_id (service_uuid env ''WICED_BT_UUID_PUBLISHED_AUDIO_CAPABILITY'') 1)"

section \<open>What a context looks for\<close>

lemma copy_unique_all:
  assumes "length (p_char_handles sdc) = length infos" "length infos \<le> 255"
    "\<forall>c\<in>set (p_char_handles sdc). handles c = zero_handles"
  shows "gatt_intf_copy_unique_characteristic_info infos (of_nat (length infos)) sdc =
    Some (of_nat (length infos),
      sdc\<lparr>p_char_handles := map (\<lambda>i. \<lparr>handles = zero_handles, p_char_info = Some i\<rparr>) infos\<rparr>)"
proof -
  have n: "unat (of_nat (length infos) :: u8) = length infos"
    using assms(2) by (simp add: unat_of_nat)
  have "map2 (\<lambda>c i. c\<lparr>p_char_info := Some i\<rparr>) cs infos = map (\<lambda>i. \<lparr>handles = zero_handles, p_char_info = Some i\<rparr>) infos"
    if "length cs = length infos" "\<forall>c\<in>set cs. handles c = zero_handles" for cs
    using that by (induction cs infos rule: list_induct2) auto
  with assms n show ?thesis by (simp add: gatt_intf_copy_unique_characteristic_info_def)
qed

text \<open>A search with memory for its context: one request, and a slot for each characteristic.\<close>

lemma discover_unique_started:
  assumes "get_buffer (dgatt env) (ctx_bytes env (of_nat (length infos)) 0 False)" "length infos \<le> 255"
  shows "\<exists>sdc. discover_unique env infos service conn_id s_hdl cb =
      Some (Some sdc, [DISCOVER conn_id GATT_DISCOVER_SERVICES_BY_UUID (service_uuid env service) s_hdl 0xffff]) \<and>
    p_char_handles sdc = map (\<lambda>i. \<lparr>handles = zero_handles, p_char_info = Some i\<rparr>) infos \<and>
    p_inc_service_types sdc = [] \<and> has_complete_callback sdc = cb \<and>
    service_discovery_state sdc = SERVICE_DISCOVERY_STATE_DISCOVER_SERVICE"
proof -
  have n: "unat (of_nat (length infos) :: u8) = length infos"
    using assms(2) by (simp add: unat_of_nat)
  show ?thesis
    using assms(1)
    by (simp add: discover_unique_def with_ctx_def gatt_intf_alloc_service_discovery_ctx_def n Let_def
        gatt_intf_set_discovery_complete_callback_def copy_unique_all [OF _ assms(2)]
        gatt_intf_start_service_discovery_def service_uuid_def)
qed

text \<open>
  After the characteristics were reported, a slot with a UUID of its own holds the first
  declaration of that UUID.
\<close>

definition first_declared :: "wiced_bt_uuid \<Rightarrow> (u16 \<times> u16 \<times> wiced_bt_uuid) list \<Rightarrow> u16 \<times> u16" where
  "first_declared u ds = (case declared u ds of [] \<Rightarrow> (0, 0) | d # _ \<Rightarrow> d)"

lemma slots_single:
  assumes "distinct (map slot_uuid cs)" "t < length cs" "slot_uuid (cs ! t) = Some u"
  shows "slots u cs = [(ch_handle (handles (cs ! t)), value_handle (handles (cs ! t)))]"
proof -
  have "filter (\<lambda>c. slot_uuid c = Some u) cs = [cs ! t]"
    using assms
  proof (induction cs arbitrary: t)
    case Nil
    then show ?case by simp
  next
    case (Cons c cs)
    show ?case
    proof (cases t)
      case 0
      with Cons.prems have "\<forall>d\<in>set cs. slot_uuid d \<noteq> Some u" by (auto simp: image_iff)
      then have "filter (\<lambda>c. slot_uuid c = Some u) cs = []" by (simp add: filter_empty_conv)
      with 0 Cons.prems show ?thesis by simp
    next
      case (Suc k)
      with Cons.prems have "cs ! k \<in> set cs" "slot_uuid (cs ! k) = Some u" by simp_all
      with Cons.prems(1) have "slot_uuid c \<noteq> Some u" by (auto simp: image_iff)
      with Suc Cons show ?thesis by simp
    qed
  qed
  then show ?thesis by (simp add: slots_def)
qed

lemma discovered_by_slot:
  assumes "p_char_handles sdc = map (\<lambda>i. \<lparr>handles = zero_handles, p_char_info = Some i\<rparr>) infos"
    "distinct (map ci_uuid infos)" "uuid_equality genv" "\<forall>(h, vh, u)\<in>set ds. h \<noteq> 0"
  shows "\<exists>sdc'. discover_characteristics genv ds sdc = Some sdc' \<and> length (p_char_handles sdc') = length infos \<and>
    (\<forall>t<length infos. let h = handles (p_char_handles sdc' ! t)
       in (ch_handle h, value_handle h) = first_declared (ci_uuid (infos ! t)) ds)"
proof -
  let ?cs = "p_char_handles sdc"
  have info: "\<forall>c\<in>set ?cs. p_char_info c \<noteq> None" using assms(1) by auto
  obtain sdc' where s: "discover_characteristics genv ds sdc = Some sdc'"
    "map p_char_info (p_char_handles sdc') = map p_char_info ?cs"
    "\<And>u. slots u (p_char_handles sdc') = fold fill_first (declared u ds) (slots u ?cs)"
    using discover_characteristics_slots [OF info assms(3)] by blast
  let ?cs' = "p_char_handles sdc'"
  have u': "map slot_uuid ?cs' = map slot_uuid ?cs"
    using arg_cong [OF s(2), of "map (map_option ci_uuid)"] by (simp add: slot_uuid_def [abs_def] comp_def)
  have u: "map slot_uuid ?cs = map (Some \<circ> ci_uuid) infos" by (simp add: assms(1) slot_uuid_def)
  then have d: "distinct (map slot_uuid ?cs)" using assms(2) by (simp add: distinct_map comp_def inj_on_def)
  have len: "length ?cs' = length infos" using s(2) assms(1) by (metis length_map)
  have "(ch_handle (handles (?cs' ! t)), value_handle (handles (?cs' ! t))) = first_declared (ci_uuid (infos ! t)) ds"
    if t: "t < length infos" for t
  proof -
    have ut: "slot_uuid (?cs ! t) = Some (ci_uuid (infos ! t))" "slot_uuid (?cs' ! t) = Some (ci_uuid (infos ! t))"
      using t u u' len by (metis (no_types, lifting) assms(1) comp_apply length_map nth_map)+
    have "slots (ci_uuid (infos ! t)) ?cs = replicate 1 (0, 0)"
      using slots_single [OF d _ ut(1)] t assms(1) by (simp add: zero_handles_def)
    then have "slots (ci_uuid (infos ! t)) ?cs' =
        take 1 (declared (ci_uuid (infos ! t)) ds) @ replicate (1 - length (declared (ci_uuid (infos ! t)) ds)) (0, 0)"
      using s(3) fold_fill_first [of "declared (ci_uuid (infos ! t)) ds" 1 0] assms(4)
      by (auto simp: declared_def)
    moreover have "slots (ci_uuid (infos ! t)) ?cs' = [(ch_handle (handles (?cs' ! t)), value_handle (handles (?cs' ! t)))]"
      using slots_single [OF _ _ ut(2)] t len d u' by simp
    ultimately show ?thesis by (auto simp: first_declared_def split: list.splits)
  qed
  with s(1) len show ?thesis by (auto simp: Let_def)
qed

section \<open>The descriptors of the characteristics\<close>

fun discover_descriptors ::
  "gatt_env \<Rightarrow> (u16 \<times> wiced_bt_uuid) list \<Rightarrow> gatt_intf_service_discovery_ctx \<Rightarrow> gatt_intf_service_discovery_ctx option" where
  "discover_descriptors env [] sdc = Some sdc"
| "discover_descriptors env ((h, type) # ds) sdc = do {
     sdc \<leftarrow> gatt_intf_on_service_discovery_result env (DESCRIPTOR h type) sdc;
     discover_descriptors env ds sdc }"

text \<open>The attributes of a service: some before the first characteristic, then each declaration with what follows it.\<close>

definition attributes_of :: "(u16 \<times> wiced_bt_uuid) list \<Rightarrow> (u16 \<times> (u16 \<times> wiced_bt_uuid) list) list \<Rightarrow> (u16 \<times> wiced_bt_uuid) list" where
  "attributes_of before chars = before @ concat (map (\<lambda>(h, as). (h, UUID16 GATT_UUID_CHAR_DECLARE) # as) chars)"

definition configurations :: "(u16 \<times> wiced_bt_uuid) list \<Rightarrow> u16 list" where
  "configurations as = map fst (filter (\<lambda>(h, t). t = UUID16 GATT_UUID_CHAR_CLIENT_CONFIG \<and> h \<noteq> 0) as)"

definition with_descriptor :: "u16 \<Rightarrow> gatt_intf_characteristic_handles_result \<Rightarrow> gatt_intf_characteristic_handles_result" where
  "with_descriptor d c = c\<lparr>handles := (handles c)\<lparr>descriptor_handle := d\<rparr>\<rparr>"

abbreviation (input) decl :: "gatt_intf_characteristic_handles_result \<Rightarrow> u16" where "decl c \<equiv> ch_handle (handles c)"

lemma with_descriptor_simps [simp]:
  "decl (with_descriptor d c) = decl c" "value_handle (handles (with_descriptor d c)) = value_handle (handles c)"
  "descriptor_handle (handles (with_descriptor d c)) = d" "with_descriptor d (with_descriptor e c) = with_descriptor d c"
  "with_descriptor (descriptor_handle (handles c)) c = c"
  by (simp_all add: with_descriptor_def)

definition separate :: "gatt_intf_characteristic_handles_result list \<Rightarrow> bool" where
  "separate cs \<longleftrightarrow> distinct (filter (\<lambda>h. h \<noteq> 0) (map decl cs))"

lemma set_descriptor_map:
  assumes "separate cs" "d \<noteq> 0"
  shows "set_descriptor d h cs = map (\<lambda>c. if decl c = d then with_descriptor h c else c) cs"
  using assms(1)
proof (induction cs)
  case (Cons c cs)
  have "map (\<lambda>c. if decl c = d then with_descriptor h c else c) cs = cs" if d: "decl c = d"
  proof (rule map_idI)
    fix x assume "x \<in> set cs"
    moreover have "d \<notin> decl ` set cs" using Cons.prems assms(2) d by (simp add: separate_def)
    ultimately show "(if decl x = d then with_descriptor h x else x) = x" by auto
  qed
  with Cons show ?case by (auto simp: separate_def with_descriptor_def split: if_splits)
qed simp

lemma separate_map [simp]: "separate (map (\<lambda>c. if P c then with_descriptor (f c) c else c) cs) = separate cs"
  by (simp add: separate_def comp_def if_distrib cong: if_cong)

lemma descriptors_after:
  assumes "last_found_char_handle sdc = d" "d \<noteq> 0" "separate (p_char_handles sdc)" "\<forall>(h, t)\<in>set as. t \<noteq> UUID16 GATT_UUID_CHAR_DECLARE"
  shows "discover_descriptors env as sdc = Some (sdc\<lparr>p_char_handles :=
    map (\<lambda>c. if decl c = d then with_descriptor (last (descriptor_handle (handles c) # configurations as)) c else c) (p_char_handles sdc)\<rparr>)"
  using assms
proof (induction as arbitrary: sdc)
  case Nil
  then show ?case by (simp add: configurations_def cong: if_cong)
next
  case (Cons a as)
  obtain h t where a: "a = (h, t)" by fastforce
  show ?case
  proof (cases "t = UUID16 GATT_UUID_CHAR_CLIENT_CONFIG \<and> h \<noteq> 0")
    case True
    let ?sdc = "sdc\<lparr>p_char_handles := map (\<lambda>c. if decl c = d then with_descriptor h c else c) (p_char_handles sdc)\<rparr>"
    have "discover_descriptors env (a # as) sdc = discover_descriptors env as ?sdc"
      using True Cons.prems by (simp add: a gatt_intf_handle_descriptor_discovery_def set_descriptor_map)
    also have "\<dots> = Some (?sdc\<lparr>p_char_handles :=
      map (\<lambda>c. if decl c = d then with_descriptor (last (descriptor_handle (handles c) # configurations as)) c else c) (p_char_handles ?sdc)\<rparr>)"
      by (rule Cons.IH) (use Cons.prems in auto)
    finally show ?thesis using True by (simp add: a configurations_def comp_def if_distrib cong: if_cong)
  next
    case False
    then have "discover_descriptors env (a # as) sdc = discover_descriptors env as sdc" using Cons.prems by (auto simp: a)
    moreover have "configurations (a # as) = configurations as" using False by (auto simp: a configurations_def)
    ultimately show ?thesis using Cons by simp
  qed
qed

lemma discover_append:
  "discover_descriptors env (xs @ ys) sdc = discover_descriptors env xs sdc \<bind> discover_descriptors env ys"
  by (induction xs arbitrary: sdc) auto

lemma descriptors_of_characteristics:
  assumes "separate (p_char_handles sdc)" "distinct (map fst chars)"
    "\<forall>(d, as)\<in>set chars. d \<noteq> 0 \<and> (\<forall>(h, t)\<in>set as. t \<noteq> UUID16 GATT_UUID_CHAR_DECLARE)"
  shows "\<exists>l. discover_descriptors env (attributes_of [] chars) sdc = Some (sdc\<lparr>last_found_char_handle := l, p_char_handles :=
    map (\<lambda>c. case map_of chars (decl c) of None \<Rightarrow> c
       | Some as \<Rightarrow> with_descriptor (last (descriptor_handle (handles c) # configurations as)) c) (p_char_handles sdc)\<rparr>)"
  using assms
proof (induction chars arbitrary: sdc)
  case Nil
  show ?case by (rule exI [of _ "last_found_char_handle sdc"]) (simp add: attributes_of_def)
next
  case (Cons x chars)
  obtain d as where x: "x = (d, as)" by fastforce
  let ?f = "\<lambda>c. if decl c = d then with_descriptor (last (descriptor_handle (handles c) # configurations as)) c else c"
  let ?sdc = "sdc\<lparr>last_found_char_handle := d, p_char_handles := map ?f (p_char_handles sdc)\<rparr>"
  have "discover_descriptors env as (sdc\<lparr>last_found_char_handle := d\<rparr>) = Some ?sdc"
    using descriptors_after [of "sdc\<lparr>last_found_char_handle := d\<rparr>" d as env] Cons.prems by (auto simp: x)
  then have "discover_descriptors env (attributes_of [] (x # chars)) sdc = discover_descriptors env (attributes_of [] chars) ?sdc"
    by (simp add: attributes_of_def x discover_append)
  moreover obtain l where "discover_descriptors env (attributes_of [] chars) ?sdc = Some (?sdc\<lparr>last_found_char_handle := l, p_char_handles :=
    map (\<lambda>c. case map_of chars (decl c) of None \<Rightarrow> c
       | Some as \<Rightarrow> with_descriptor (last (descriptor_handle (handles c) # configurations as)) c) (p_char_handles ?sdc)\<rparr>)"
    using Cons.IH [of ?sdc] Cons.prems by auto
  moreover have "map_of chars d = None" using Cons.prems(2) by (simp add: x map_of_eq_None_iff)
  then have "map (\<lambda>c. case map_of chars (decl c) of None \<Rightarrow> c
       | Some as \<Rightarrow> with_descriptor (last (descriptor_handle (handles c) # configurations as)) c) (map ?f cs) =
    map (\<lambda>c. case map_of (x # chars) (decl c) of None \<Rightarrow> c
       | Some as \<Rightarrow> with_descriptor (last (descriptor_handle (handles c) # configurations as)) c) cs" for cs
    by (auto simp: x)
  ultimately show ?case by (intro exI [of _ l]) simp
qed

lemma descriptors_before:
  assumes "\<forall>(h, t)\<in>set as. t \<noteq> UUID16 GATT_UUID_CHAR_DECLARE \<and> t \<noteq> UUID16 GATT_UUID_CHAR_CLIENT_CONFIG"
  shows "discover_descriptors env as sdc = Some sdc"
  using assms by (induction as arbitrary: sdc) auto


definition configuration_of :: "(u16 \<times> (u16 \<times> wiced_bt_uuid) list) list \<Rightarrow> u16 \<Rightarrow> u16" where
  "configuration_of chars h = (case map_of chars h of None \<Rightarrow> 0 | Some as \<Rightarrow> last (0 # configurations as))"

lemma set_characteristic_descriptors:
  "set_characteristic env h vh u cs = Some cs' \<Longrightarrow> map (\<lambda>c. descriptor_handle (handles c)) cs' = map (\<lambda>c. descriptor_handle (handles c)) cs"
  by (induction cs arbitrary: cs') (auto split: option.splits if_splits bind_splits)

lemma discover_characteristics_descriptors:
  "discover_characteristics env ds sdc = Some sdc' \<Longrightarrow>
    map (\<lambda>c. descriptor_handle (handles c)) (p_char_handles sdc') = map (\<lambda>c. descriptor_handle (handles c)) (p_char_handles sdc)"
proof (induction ds arbitrary: sdc)
  case (Cons d ds)
  obtain h vh u where d: "d = (h, vh, u)" by (cases d) auto
  from Cons.prems obtain cs where "set_characteristic env h vh u (p_char_handles sdc) = Some cs"
    "discover_characteristics env ds (sdc\<lparr>p_char_handles := cs\<rparr>) = Some sdc'"
    by (auto simp: d gatt_intf_handle_characteristic_discovery_def bind_eq_Some_conv)
  with Cons.IH [of "sdc\<lparr>p_char_handles := cs\<rparr>"] set_characteristic_descriptors show ?case by simp
qed simp

lemma distinct_nonzero:
  "(\<And>i j. i < j \<Longrightarrow> j < length xs \<Longrightarrow> xs ! i = xs ! j \<Longrightarrow> xs ! i = 0) \<Longrightarrow> distinct (filter (\<lambda>h. h \<noteq> 0) xs)"
proof (induction xs)
  case (Cons x xs)
  have "distinct (filter (\<lambda>h. h \<noteq> 0) xs)"
    by (rule Cons.IH) (metis Cons.prems Suc_mono length_Cons nth_Cons_Suc)
  moreover have "x \<notin> set xs" if "x \<noteq> 0"
  proof
    assume "x \<in> set xs"
    then obtain j where "j < length xs" "xs ! j = x" by (auto simp: in_set_conv_nth)
    then show False using Cons.prems [of 0 "Suc j"] that by simp
  qed
  ultimately show ?case by auto
qed simp

lemma first_declared_apart:
  assumes "distinct (map fst ds)" "fst (first_declared u ds) = fst (first_declared v ds)" "u \<noteq> v"
  shows "fst (first_declared u ds) = 0"
proof (rule ccontr)
  assume "fst (first_declared u ds) \<noteq> 0"
  then obtain h vh k ws ws' where "declared u ds = (h, vh) # ws" "declared v ds = (h, k) # ws'"
    using assms(2) by (auto simp: first_declared_def split: list.splits)
  then have "(h, vh) \<in> set (declared u ds)" "(h, k) \<in> set (declared v ds)" by simp_all
  then have "(h, vh, u) \<in> set ds" "(h, k, v) \<in> set ds" by (auto simp: declared_def)
  with assms(1,3) show False using eq_key_imp_eq_value by fastforce
qed

text \<open>
  After the characteristics \<open>ds\<close> and the attributes of the service were reported, a slot with a UUID of its own holds the
  first declaration of that UUID and the configuration that follows that declaration.
\<close>

definition found_handles :: "(u16 \<times> u16 \<times> wiced_bt_uuid) list \<Rightarrow> (u16 \<times> (u16 \<times> wiced_bt_uuid) list) list \<Rightarrow> wiced_bt_uuid
    \<Rightarrow> gatt_intf_characteristic_handles" where
  "found_handles ds chars u =
     (case first_declared u ds of (h, vh) \<Rightarrow> \<lparr>ch_handle = h, value_handle = vh, descriptor_handle = configuration_of chars h\<rparr>)"

lemma found_by_slot:
  assumes "p_char_handles sdc = map (\<lambda>i. \<lparr>handles = zero_handles, p_char_info = Some i\<rparr>) infos"
    "distinct (map ci_uuid infos)" "uuid_equality genv" "\<forall>(h, vh, u)\<in>set ds. h \<noteq> 0" "distinct (map fst ds)"
    "\<forall>(h, t)\<in>set before. t \<noteq> UUID16 GATT_UUID_CHAR_DECLARE \<and> t \<noteq> UUID16 GATT_UUID_CHAR_CLIENT_CONFIG"
    "distinct (map fst chars)" "\<forall>(d, as)\<in>set chars. d \<noteq> 0 \<and> (\<forall>(h, t)\<in>set as. t \<noteq> UUID16 GATT_UUID_CHAR_DECLARE)"
  shows "\<exists>sdc1 sdc2. discover_characteristics genv ds sdc = Some sdc1 \<and>
    discover_descriptors genv (attributes_of before chars) sdc1 = Some sdc2 \<and>
    map handles (p_char_handles sdc2) = map (\<lambda>i. found_handles ds chars (ci_uuid i)) infos"
proof -
  obtain sdc1 where s: "discover_characteristics genv ds sdc = Some sdc1" "length (p_char_handles sdc1) = length infos"
    "\<And>t. t < length infos \<Longrightarrow> (decl (p_char_handles sdc1 ! t), value_handle (handles (p_char_handles sdc1 ! t))) =
       first_declared (ci_uuid (infos ! t)) ds"
    using discovered_by_slot [OF assms(1-4)] by (auto simp: Let_def)
  have "map (\<lambda>c. descriptor_handle (handles c)) (p_char_handles sdc1) = replicate (length infos) 0"
    using discover_characteristics_descriptors [OF s(1)] by (simp add: assms(1) zero_handles_def comp_def map_replicate_const)
  then have zero: "descriptor_handle (handles (p_char_handles sdc1 ! t)) = 0" if "t < length infos" for t
    using that s(2) by (metis nth_map nth_replicate)
  have "separate (p_char_handles sdc1)"
    unfolding separate_def
  proof (rule distinct_nonzero)
    fix i j assume ij: "i < j" "j < length (map decl (p_char_handles sdc1))"
      "map decl (p_char_handles sdc1) ! i = map decl (p_char_handles sdc1) ! j"
    then have "ci_uuid (infos ! i) \<noteq> ci_uuid (infos ! j)" using assms(2) s(2) by (auto simp: distinct_conv_nth)
    moreover have "decl (p_char_handles sdc1 ! k) = fst (first_declared (ci_uuid (infos ! k)) ds)" if "k = i \<or> k = j" for k
      using that ij(1,2) s(2) s(3) [of k, symmetric] by auto
    ultimately show "map decl (p_char_handles sdc1) ! i = 0"
      using first_declared_apart [OF assms(5), of "ci_uuid (infos ! i)" "ci_uuid (infos ! j)"] ij by simp
  qed
  from descriptors_of_characteristics [OF this assms(7,8)] obtain sdc2 where
    d: "discover_descriptors genv (attributes_of [] chars) sdc1 = Some sdc2"
    "p_char_handles sdc2 = map (\<lambda>c. case map_of chars (decl c) of None \<Rightarrow> c
       | Some as \<Rightarrow> with_descriptor (last (descriptor_handle (handles c) # configurations as)) c) (p_char_handles sdc1)"
    by fastforce
  have "discover_descriptors genv (attributes_of before chars) sdc1 = Some sdc2"
    using d(1) descriptors_before [OF assms(6)] by (simp add: attributes_of_def discover_append)
  moreover have "map handles (p_char_handles sdc2) = map (\<lambda>i. found_handles ds chars (ci_uuid i)) infos"
  proof (rule nth_equalityI)
    fix t assume "t < length (map handles (p_char_handles sdc2))"
    then have t: "t < length infos" using d(2) s(2) by simp
    have "first_declared (ci_uuid (infos ! t)) ds = (decl (p_char_handles sdc1 ! t), value_handle (handles (p_char_handles sdc1 ! t)))"
      using s(3) [OF t] by simp
    then show "map handles (p_char_handles sdc2) ! t = map (\<lambda>i. found_handles ds chars (ci_uuid i)) infos ! t"
      using t s(2) d(2) zero [OF t] by (auto simp: found_handles_def configuration_of_def with_descriptor_def split: option.split)
  qed (use d(2) s(2) in simp)
  ultimately show ?thesis using s(1) by blast
qed

end
