(* ===== verification/Mcs_Tbs.thy ===== *)
theory Mcs_Tbs
  imports Gatt_Cb
begin

text \<open>
  The media control and call control libraries, \<open>ga_lib_mcs.c\<close> and \<open>ga_lib_tbs.c\<close>, and the
  handlers of the headset for the values it reads or is notified of: \<open>lehs_mcs.c\<close>, \<open>lehs_ccp.c\<close>
  and \<open>lehs_gmap.c\<close>. A C string is the list of its octets without the terminating zero.
\<close>

section \<open>Media control library\<close>

datatype app_state =
    APP_STATE_DISCOVERY_COMPLETE gatt_status
  | APP_STATE_INITING
  | APP_STATE_READY gatt_status

datatype client_action =
    CGATT gatt_action
  | RPC_APP_STATUS u16 "u8 list" app_state
  | SET_ENCRYPTION "u8 list"
  | SEC_BOND "u8 list" u8
  | INDICATION_CONFIRM u16 u16
  | RPC_PLAYERS u16 "u8 list"
  | RPC_PLAY_STATUS u16 u8
  | RPC_CALL_STATE u16 u8 "u8 list option" u8
  | RPC_CALL_TERMINATED u16 u8 u8
  | RPC_FRIENDLY_NAME u16 "u8 list" u16

abbreviation (input) GA_LIB_MCS_PLAY :: u8 where "GA_LIB_MCS_PLAY \<equiv> 0x01"
abbreviation (input) GA_LIB_MCS_PAUSE :: u8 where "GA_LIB_MCS_PAUSE \<equiv> 0x02"
abbreviation (input) GA_LIB_MCS_MOVE_RELATIVE :: u8 where "GA_LIB_MCS_MOVE_RELATIVE \<equiv> 0x10"
abbreviation (input) GA_LIB_MCS_GOTO_SEGMENT :: u8 where "GA_LIB_MCS_GOTO_SEGMENT \<equiv> 0x24"
abbreviation (input) GA_LIB_MCS_GOTO_TRACK :: u8 where "GA_LIB_MCS_GOTO_TRACK \<equiv> 0x34"
abbreviation (input) GA_LIB_MCS_GOTO_GROUP :: u8 where "GA_LIB_MCS_GOTO_GROUP \<equiv> 0x44"

text \<open>The data of an operation is a union of four 32-bit integers, one word.\<close>

record ga_lib_mcs_operation =
  mcs_opcode :: u8
  mcs_data_word :: u32

text \<open>The buffer of five octets is taken before the command is written into it.\<close>

definition ga_lib_mcs_write_control_media ::
  "gatt_env \<Rightarrow> u16 \<Rightarrow> gatt_intf_characteristic_handles \<Rightarrow> ga_lib_mcs_operation \<Rightarrow> gatt_status \<times> gatt_action list" where
  "ga_lib_mcs_write_control_media env cid p_handle op_data =
     (if \<not> get_buffer env 5 then (GATT_NO_RESOURCES, [])
      else
        let data = [mcs_opcode op_data] @
              (if mcs_opcode op_data \<in> {GA_LIB_MCS_MOVE_RELATIVE, GA_LIB_MCS_GOTO_TRACK, GA_LIB_MCS_GOTO_SEGMENT,
                                         GA_LIB_MCS_GOTO_GROUP}
               then b32 (mcs_data_word op_data) else []);
            a = SEND_WRITE cid (value_handle p_handle) data
        in (client_send env a, [a]))"

definition ga_lib_mcs_notify_player_name :: "gatt_env \<Rightarrow> u16 \<Rightarrow> u16 \<Rightarrow> u8 list \<Rightarrow> gatt_status \<times> gatt_action list" where
  "ga_lib_mcs_notify_player_name env cid h name = gatt_intf_send_notification env cid h name"

definition ga_lib_mcs_notify_track_title :: "gatt_env \<Rightarrow> u16 \<Rightarrow> u16 \<Rightarrow> u8 list \<Rightarrow> gatt_status \<times> gatt_action list" where
  "ga_lib_mcs_notify_track_title env cid h title = gatt_intf_send_notification env cid h title"

definition ga_lib_mcs_notify_track_changed :: "gatt_env \<Rightarrow> u16 \<Rightarrow> u16 \<Rightarrow> gatt_status \<times> gatt_action list" where
  "ga_lib_mcs_notify_track_changed env cid h = gatt_intf_send_notification env cid h []"

definition ga_lib_mcs_notify_track_duration :: "gatt_env \<Rightarrow> u16 \<Rightarrow> u16 \<Rightarrow> u32 \<Rightarrow> gatt_status \<times> gatt_action list" where
  "ga_lib_mcs_notify_track_duration env cid h d = gatt_intf_send_notification env cid h (b32 d)"

definition ga_lib_mcs_notify_track_position :: "gatt_env \<Rightarrow> u16 \<Rightarrow> u16 \<Rightarrow> u32 \<Rightarrow> gatt_status \<times> gatt_action list" where
  "ga_lib_mcs_notify_track_position env cid h pos = gatt_intf_send_notification env cid h (b32 pos)"

definition ga_lib_mcs_notify_playback_speed :: "gatt_env \<Rightarrow> u16 \<Rightarrow> u16 \<Rightarrow> u8 \<Rightarrow> gatt_status \<times> gatt_action list" where
  "ga_lib_mcs_notify_playback_speed env cid h speed = gatt_intf_send_notification env cid h [speed]"

definition ga_lib_mcs_notify_seeking_speed :: "gatt_env \<Rightarrow> u16 \<Rightarrow> u16 \<Rightarrow> u8 \<Rightarrow> gatt_status \<times> gatt_action list" where
  "ga_lib_mcs_notify_seeking_speed env cid h speed = gatt_intf_send_notification env cid h [speed]"

definition ga_lib_mcs_notify_playing_order :: "gatt_env \<Rightarrow> u16 \<Rightarrow> u16 \<Rightarrow> u8 \<Rightarrow> gatt_status \<times> gatt_action list" where
  "ga_lib_mcs_notify_playing_order env cid h order = gatt_intf_send_notification env cid h [order]"

definition ga_lib_mcs_notify_media_state :: "gatt_env \<Rightarrow> u16 \<Rightarrow> u16 \<Rightarrow> u8 \<Rightarrow> gatt_status \<times> gatt_action list" where
  "ga_lib_mcs_notify_media_state env cid h state = gatt_intf_send_notification env cid h [state]"

definition ga_lib_mcs_notify_cp_result :: "gatt_env \<Rightarrow> u16 \<Rightarrow> u16 \<Rightarrow> u8 \<Rightarrow> u8 \<Rightarrow> gatt_status \<times> gatt_action list" where
  "ga_lib_mcs_notify_cp_result env cid h opcode r = gatt_intf_send_notification env cid h [opcode, r]"

definition ga_lib_mcs_notify_media_control_opcodes_supported ::
  "gatt_env \<Rightarrow> u16 \<Rightarrow> u16 \<Rightarrow> u32 \<Rightarrow> gatt_status \<times> gatt_action list" where
  "ga_lib_mcs_notify_media_control_opcodes_supported env cid h ops = gatt_intf_send_notification env cid h (b32 ops)"

section \<open>Media values read by the headset\<close>

definition MEDIA_CONTROL_POINT :: nat where "MEDIA_CONTROL_POINT = 10"

definition lehs_mcs_play_pause ::
  "gatt_env \<Rightarrow> lehs_clcb list \<Rightarrow> u16 \<Rightarrow> bool \<Rightarrow> ((wiced_result + gatt_status) \<times> gatt_action list) option" where
  "lehs_mcs_play_pause env clcbs cid play =
     (case lehs_gatt_get_clcb_by_conn_id clcbs cid of
        None \<Rightarrow> Some (Inl WICED_ERROR, [])
      | Some i \<Rightarrow> do {
          h \<leftarrow> arr_get (gmcs (peer_profiles (clcbs ! i))) MEDIA_CONTROL_POINT;
          let (st, acts) = ga_lib_mcs_write_control_media env cid h
                \<lparr>mcs_opcode = (if play then GA_LIB_MCS_PLAY else GA_LIB_MCS_PAUSE), mcs_data_word = 0\<rparr>;
          Some (Inr st, acts) })"

text \<open>The sizes by characteristic type; a type outside the table is \<open>-1\<close> returned in 8 bits.\<close>

definition char_size :: "u8 list" where
  "char_size = [40, 0, 40, 4, 4, 1, 1, 1, 2, 1, 1, 4]"

definition mcs_characteristic_sizes :: "u8 \<Rightarrow> u8" where
  "mcs_characteristic_sizes t = (if t < 12 then char_size ! unat t else - 1)"

text \<open>A string copied into an array of \<open>n\<close> octets that was cleared before.\<close>

definition padded :: "nat \<Rightarrow> u8 list \<Rightarrow> u8 list" where
  "padded n xs = xs @ replicate (n - length xs) 0"

definition set_mcs :: "(lehs_mcs_data \<Rightarrow> lehs_mcs_data) \<Rightarrow> lehs_clcb \<Rightarrow> lehs_clcb" where
  "set_mcs f c = c\<lparr>mcs_data := f (mcs_data c)\<rparr>"

definition lehs_gmcs_app_handle_read_complete ::
  "u16 \<Rightarrow> lehs_clcb \<Rightarrow> u16 \<Rightarrow> u8 list \<Rightarrow> (wiced_result \<times> lehs_clcb \<times> client_action list) option" where
  "lehs_gmcs_app_handle_read_complete cid c h data =
     (let index = gatt_intf_find_characteristic_type_by_value_handle (gmcs (peer_profiles c)) h;
          ok = (\<lambda>f. Some (WICED_SUCCESS, set_mcs f c, [] :: client_action list));
          p = start data
      in if length data < unat (mcs_characteristic_sizes (word_of_int index)) then Some (WICED_BT_ERROR, c, [])
         else if index = 0 then
           let name = padded 40 (take 39 data)
           in Some (WICED_SUCCESS, set_mcs (media_player_name_update (\<lambda>_. name)) c, [RPC_PLAYERS cid name])
         else if index = 9 then do {
           (x, p) \<leftarrow> rd8 p;
           Some (WICED_SUCCESS, set_mcs (media_state_update (\<lambda>_. x)) c, [RPC_PLAY_STATUS cid x]) }
         else if index = 10 then do { (opcode, p) \<leftarrow> rd8 p; (r, p) \<leftarrow> rd8 p; Some (WICED_SUCCESS, c, []) }
         else if index = 2 then ok (track_title_update (\<lambda>_. padded 40 (take 40 data)))
         else if index = 3 then do { (x, p) \<leftarrow> rd32 p; ok (track_duration_update (\<lambda>_. x)) }
         else if index = 4 then do { (x, p) \<leftarrow> rd32 p; ok (track_position_update (\<lambda>_. x)) }
         else if index = 5 then do { (x, p) \<leftarrow> rd8 p; ok (playback_speed_update (\<lambda>_. x)) }
         else if index = 6 then do { (x, p) \<leftarrow> rd8 p; ok (seeking_speed_update (\<lambda>_. x)) }
         else if index = 7 then do { (x, p) \<leftarrow> rd8 p; ok (playing_order_update (\<lambda>_. x)) }
         else if index = 8 then do { (x, p) \<leftarrow> rd16 p; ok (playing_order_supported_update (\<lambda>_. x)) }
         else if index = 11 then do { (x, p) \<leftarrow> rd32 p; ok (media_control_supported_opcodes_update (\<lambda>_. x)) }
         else Some (WICED_SUCCESS, c, []))"

definition lepl_mcs_enable_notification_chars :: "u8 list" where
  "lepl_mcs_enable_notification_chars = [10, 2, 1, 4, 3]"

definition lehs_mcs_get_enable_notification_chars :: "u8 \<times> u8 list" where
  "lehs_mcs_get_enable_notification_chars = (of_nat (length lepl_mcs_enable_notification_chars), lepl_mcs_enable_notification_chars)"

section \<open>Gaming values\<close>

definition lehs_gmap_app_handle_read_complete ::
  "lehs_clcb \<Rightarrow> u16 \<Rightarrow> u8 list \<Rightarrow> lehs_clcb option" where
  "lehs_gmap_app_handle_read_complete c h data =
     (let index = gatt_intf_find_characteristic_type_by_value_handle (gmap (peer_profiles c)) h;
          put = (\<lambda>f. do { (x, p) \<leftarrow> rd8 (start data); Some (c\<lparr>gmap_data := f (\<lambda>_. x) (gmap_data c)\<rparr>) })
      in if index = 0 then put gmap_role_update
         else if index = 1 then put ugg_features_update
         else if index = 2 then put ugt_features_update
         else if index = 3 then put bgs_features_update
         else if index = 4 then put bgr_features_update
         else Some c)"

abbreviation (input) GMAP_ROLE_UNICAST_GAME_TERMINAL :: u8 where "GMAP_ROLE_UNICAST_GAME_TERMINAL \<equiv> 2"
abbreviation (input) GMAP_ROLE_BROADCAST_GAME_RECEIVER :: u8 where "GMAP_ROLE_BROADCAST_GAME_RECEIVER \<equiv> 32"

text \<open>The build without multiplexed audio.\<close>

definition lehs_gmap_init :: "lehs_gmap_data \<Rightarrow> lehs_gmap_data" where
  "lehs_gmap_init g =
     g\<lparr>gmap_role := GMAP_ROLE_UNICAST_GAME_TERMINAL OR GMAP_ROLE_BROADCAST_GAME_RECEIVER,
       ugt_features := (push_bit 0 1 OR push_bit 1 1 OR push_bit 2 1 OR push_bit 3 1) OR push_bit 5 1,
       bgr_features := push_bit 0 1\<rparr>"

section \<open>Call control library\<close>

abbreviation (input) GA_LIB_CCP_ACTION_ACCEPT_CALL :: u8 where "GA_LIB_CCP_ACTION_ACCEPT_CALL \<equiv> 0x00"
abbreviation (input) GA_LIB_CCP_ACTION_TERMINATE_CALL :: u8 where "GA_LIB_CCP_ACTION_TERMINATE_CALL \<equiv> 0x01"
abbreviation (input) GA_LIB_CCP_ACTION_HOLD_CALL :: u8 where "GA_LIB_CCP_ACTION_HOLD_CALL \<equiv> 0x02"
abbreviation (input) GA_LIB_CCP_ACTION_RETRIEVE_CALL :: u8 where "GA_LIB_CCP_ACTION_RETRIEVE_CALL \<equiv> 0x03"
abbreviation (input) GA_LIB_CCP_ACTION_ORIGINATE :: u8 where "GA_LIB_CCP_ACTION_ORIGINATE \<equiv> 0x04"
abbreviation (input) GA_LIB_CCP_ACTION_JOIN_CALL :: u8 where "GA_LIB_CCP_ACTION_JOIN_CALL \<equiv> 0x05"
abbreviation (input) GA_LIB_TBS_CALL_STATE_INCOMING :: u8 where "GA_LIB_TBS_CALL_STATE_INCOMING \<equiv> 0x00"

record ga_lib_tbs_current_call =
  call_id :: u8
  call_state :: u8
  call_flags :: u8
  remote_caller_id :: "u8 list"
  remote_caller_id_len :: u8

definition ga_lib_tbs_write_cp_action_originate_call ::
  "gatt_env \<Rightarrow> u16 \<Rightarrow> gatt_intf_characteristic_handles \<Rightarrow> u8 list \<Rightarrow> gatt_status \<times> gatt_action list" where
  "ga_lib_tbs_write_cp_action_originate_call env cid p_handle uri =
     (if length uri > 255 then (GATT_INVALID_ATTR_LEN, [])
      else gatt_intf_write_int env cid p_handle (GA_LIB_CCP_ACTION_ORIGINATE # uri))"

text \<open>An 8-bit count is never above 255.\<close>

definition ga_lib_tbs_write_cp_action_join_call ::
  "gatt_env \<Rightarrow> u16 \<Rightarrow> gatt_intf_characteristic_handles \<Rightarrow> u8 \<Rightarrow> u8 list
    \<Rightarrow> (gatt_status \<times> gatt_action list) option" where
  "ga_lib_tbs_write_cp_action_join_call env cid p_handle num_call_ids call_ids = do {
     ids \<leftarrow> octets (unat num_call_ids) call_ids;
     Some (gatt_intf_write_int env cid p_handle (GA_LIB_CCP_ACTION_JOIN_CALL # ids)) }"

definition ga_lib_tbs_write_cp_opcode_action ::
  "gatt_env \<Rightarrow> u16 \<Rightarrow> gatt_intf_characteristic_handles \<Rightarrow> u8 \<Rightarrow> u8 \<Rightarrow> gatt_status \<times> gatt_action list" where
  "ga_lib_tbs_write_cp_opcode_action env cid p_handle opcode i = gatt_intf_write_int env cid p_handle [opcode, i]"

definition ga_lib_tbs_write_cp_action_accept_call ::
  "gatt_env \<Rightarrow> u16 \<Rightarrow> gatt_intf_characteristic_handles \<Rightarrow> u8 \<Rightarrow> gatt_status \<times> gatt_action list" where
  "ga_lib_tbs_write_cp_action_accept_call env cid p_handle i =
     ga_lib_tbs_write_cp_opcode_action env cid p_handle GA_LIB_CCP_ACTION_ACCEPT_CALL i"

definition ga_lib_tbs_write_cp_action_terminate_call ::
  "gatt_env \<Rightarrow> u16 \<Rightarrow> gatt_intf_characteristic_handles \<Rightarrow> u8 \<Rightarrow> gatt_status \<times> gatt_action list" where
  "ga_lib_tbs_write_cp_action_terminate_call env cid p_handle i =
     ga_lib_tbs_write_cp_opcode_action env cid p_handle GA_LIB_CCP_ACTION_TERMINATE_CALL i"

definition ga_lib_tbs_write_cp_action_hold_call ::
  "gatt_env \<Rightarrow> u16 \<Rightarrow> gatt_intf_characteristic_handles \<Rightarrow> u8 \<Rightarrow> gatt_status \<times> gatt_action list" where
  "ga_lib_tbs_write_cp_action_hold_call env cid p_handle i =
     ga_lib_tbs_write_cp_opcode_action env cid p_handle GA_LIB_CCP_ACTION_HOLD_CALL i"

definition ga_lib_tbs_write_cp_action_retrieve_call ::
  "gatt_env \<Rightarrow> u16 \<Rightarrow> gatt_intf_characteristic_handles \<Rightarrow> u8 \<Rightarrow> gatt_status \<times> gatt_action list" where
  "ga_lib_tbs_write_cp_action_retrieve_call env cid p_handle i =
     ga_lib_tbs_write_cp_opcode_action env cid p_handle GA_LIB_CCP_ACTION_RETRIEVE_CALL i"

text \<open>The buffer is written without a test for \<open>NULL\<close>.\<close>

definition ga_lib_tbs_write_bearer_ssri ::
  "gatt_env \<Rightarrow> u16 \<Rightarrow> gatt_intf_characteristic_handles \<Rightarrow> u8 \<Rightarrow> (gatt_status \<times> gatt_action list) option" where
  "ga_lib_tbs_write_bearer_ssri env cid p_handle ssri =
     (if get_buffer env 1
      then let a = SEND_WRITE cid (value_handle p_handle) [ssri] in Some (client_send env a, [a]) else None)"

text \<open>
  The two lists of calls go straight to the stack, past the test of the client configuration.
  The buffer has \<open>required_len\<close> octets; writing past it is \<open>None\<close>, as is a caller identifier
  shorter than its length field says.
\<close>

definition current_call_octets :: "ga_lib_tbs_current_call \<Rightarrow> u8 list option" where
  "current_call_octets c = do {
     i \<leftarrow> octets (unat (remote_caller_id_len c)) (remote_caller_id c);
     Some ([3 + remote_caller_id_len c, call_id c, call_state c, call_flags c] @ i) }"

definition call_state_octets :: "ga_lib_tbs_current_call \<Rightarrow> u8 list option" where
  "call_state_octets c = Some [call_id c, call_state c, call_flags c]"

fun all_octets :: "('a \<Rightarrow> u8 list option) \<Rightarrow> 'a list \<Rightarrow> u8 list option" where
  "all_octets f [] = Some []"
| "all_octets f (c # cs) = do { x \<leftarrow> f c; xs \<leftarrow> all_octets f cs; Some (x @ xs) }"

definition notify_calls ::
  "gatt_env \<Rightarrow> u16 \<Rightarrow> u16 \<Rightarrow> (ga_lib_tbs_current_call \<Rightarrow> u8 list option) \<Rightarrow> nat \<Rightarrow> ga_lib_tbs_current_call list
    \<Rightarrow> (gatt_status \<times> gatt_action list) option" where
  "notify_calls env cid h f entry calls =
     (let required_len = length calls * entry + sum_list (map (\<lambda>c. unat (remote_caller_id_len c)) calls)
      in if \<not> get_buffer env required_len \<and> calls \<noteq> [] then Some (GATT_NO_RESOURCES, [])
         else do {
           data \<leftarrow> all_octets f calls;
           if length data > required_len then None
           else let a = SEND_NOTIFICATION cid h data in Some (client_send env a, [a]) })"

definition ga_lib_tbs_notify_current_calls ::
  "gatt_env \<Rightarrow> u16 \<Rightarrow> u16 \<Rightarrow> ga_lib_tbs_current_call list \<Rightarrow> (gatt_status \<times> gatt_action list) option" where
  "ga_lib_tbs_notify_current_calls env cid h calls = notify_calls env cid h current_call_octets 4 calls"

definition ga_lib_tbs_notify_call_state ::
  "gatt_env \<Rightarrow> u16 \<Rightarrow> u16 \<Rightarrow> ga_lib_tbs_current_call list \<Rightarrow> (gatt_status \<times> gatt_action list) option" where
  "ga_lib_tbs_notify_call_state env cid h calls = notify_calls env cid h call_state_octets 3 calls"

definition ga_lib_tbs_notify_provider_name :: "gatt_env \<Rightarrow> u16 \<Rightarrow> u16 \<Rightarrow> u8 list \<Rightarrow> gatt_status \<times> gatt_action list" where
  "ga_lib_tbs_notify_provider_name env cid h name = gatt_intf_send_notification env cid h name"

definition ga_lib_tbs_notify_uri_supported_schemes ::
  "gatt_env \<Rightarrow> u16 \<Rightarrow> u16 \<Rightarrow> u8 list \<Rightarrow> gatt_status \<times> gatt_action list" where
  "ga_lib_tbs_notify_uri_supported_schemes env cid h schemes = gatt_intf_send_notification env cid h schemes"

definition ga_lib_tbs_notify_technology :: "gatt_env \<Rightarrow> u16 \<Rightarrow> u16 \<Rightarrow> u8 \<Rightarrow> gatt_status \<times> gatt_action list" where
  "ga_lib_tbs_notify_technology env cid h x = gatt_intf_send_notification env cid h [x]"

definition ga_lib_tbs_notify_signal_strength :: "gatt_env \<Rightarrow> u16 \<Rightarrow> u16 \<Rightarrow> u8 \<Rightarrow> gatt_status \<times> gatt_action list" where
  "ga_lib_tbs_notify_signal_strength env cid h x = gatt_intf_send_notification env cid h [x]"

definition ga_lib_tbs_notify_ssri :: "gatt_env \<Rightarrow> u16 \<Rightarrow> u16 \<Rightarrow> u8 \<Rightarrow> gatt_status \<times> gatt_action list" where
  "ga_lib_tbs_notify_ssri env cid h x = gatt_intf_send_notification env cid h [x]"

definition ga_lib_tbs_notify_content_control_id :: "gatt_env \<Rightarrow> u16 \<Rightarrow> u16 \<Rightarrow> u8 \<Rightarrow> gatt_status \<times> gatt_action list" where
  "ga_lib_tbs_notify_content_control_id env cid h x = gatt_intf_send_notification env cid h [x]"

text \<open>A string longer than the 255 octets left in the buffer is cut.\<close>

definition ga_lib_tbs_notify_call_id_str ::
  "gatt_env \<Rightarrow> u16 \<Rightarrow> u16 \<Rightarrow> u8 \<Rightarrow> u8 list \<Rightarrow> gatt_status \<times> gatt_action list" where
  "ga_lib_tbs_notify_call_id_str env cid h i uri = gatt_intf_send_notification env cid h (i # take 255 uri)"

definition ga_lib_tbs_notify_incoming_bearer ::
  "gatt_env \<Rightarrow> u16 \<Rightarrow> u16 \<Rightarrow> u8 \<Rightarrow> u8 list \<Rightarrow> gatt_status \<times> gatt_action list" where
  "ga_lib_tbs_notify_incoming_bearer env cid h i uri = ga_lib_tbs_notify_call_id_str env cid h i uri"

definition ga_lib_tbs_notify_incoming_call ::
  "gatt_env \<Rightarrow> u16 \<Rightarrow> u16 \<Rightarrow> u8 \<Rightarrow> u8 list \<Rightarrow> gatt_status \<times> gatt_action list" where
  "ga_lib_tbs_notify_incoming_call env cid h i uri = ga_lib_tbs_notify_call_id_str env cid h i uri"

definition ga_lib_tbs_notify_call_friendly_name ::
  "gatt_env \<Rightarrow> u16 \<Rightarrow> u16 \<Rightarrow> u8 \<Rightarrow> u8 list \<Rightarrow> gatt_status \<times> gatt_action list" where
  "ga_lib_tbs_notify_call_friendly_name env cid h i name = ga_lib_tbs_notify_call_id_str env cid h i name"

definition ga_lib_tbs_notify_status_flag :: "gatt_env \<Rightarrow> u16 \<Rightarrow> u16 \<Rightarrow> u16 \<Rightarrow> gatt_status \<times> gatt_action list" where
  "ga_lib_tbs_notify_status_flag env cid h flag = gatt_intf_send_notification env cid h (b16 flag)"

definition ga_lib_tbs_notify_call_termination_reason ::
  "gatt_env \<Rightarrow> u16 \<Rightarrow> u16 \<Rightarrow> u8 \<Rightarrow> u8 \<Rightarrow> gatt_status \<times> gatt_action list" where
  "ga_lib_tbs_notify_call_termination_reason env cid h i r = gatt_intf_send_notification env cid h [i, r]"

definition ga_lib_tbs_notify_control_point_response ::
  "gatt_env \<Rightarrow> u16 \<Rightarrow> u16 \<Rightarrow> u8 \<Rightarrow> u8 \<Rightarrow> u8 \<Rightarrow> gatt_status \<times> gatt_action list" where
  "ga_lib_tbs_notify_control_point_response env cid h opcode i r = gatt_intf_send_notification env cid h [opcode, i, r]"

section \<open>Call values read by the headset\<close>

text \<open>\<open>WICED_ERROR\<close> for any other opcode; the status is only traced.\<close>

definition lehs_rpc_call_control_point_action ::
  "gatt_env \<Rightarrow> u16 \<Rightarrow> lehs_clcb \<Rightarrow> u8 \<Rightarrow> u8 \<Rightarrow> gatt_action list option" where
  "lehs_rpc_call_control_point_action env cid c i opcode = do {
     h \<leftarrow> arr_get (gtbs (peer_profiles c)) 11;
     Some (if opcode = GA_LIB_CCP_ACTION_ACCEPT_CALL then snd (ga_lib_tbs_write_cp_action_accept_call env cid h i)
           else if opcode = GA_LIB_CCP_ACTION_TERMINATE_CALL then snd (ga_lib_tbs_write_cp_action_terminate_call env cid h i)
           else if opcode = GA_LIB_CCP_ACTION_HOLD_CALL then snd (ga_lib_tbs_write_cp_action_hold_call env cid h i)
           else if opcode = GA_LIB_CCP_ACTION_RETRIEVE_CALL then snd (ga_lib_tbs_write_cp_action_retrieve_call env cid h i)
           else []) }"

text \<open>
  The two loops over lists. The length left is a 16-bit integer that may pass below zero; the
  first loop reads four octets of an entry and leaves the caller identifier unread.
\<close>

fun current_calls_loop :: "u16 \<Rightarrow> u8 list \<Rightarrow> unit option" where
  "current_calls_loop data_len xs =
     (if data_len \<ge> 4
      then case xs of
          list_len # i # s # f # ys \<Rightarrow> current_calls_loop (data_len - (ucast list_len + 1)) ys
        | _ \<Rightarrow> None
      else Some ())"

fun call_state_loop :: "u16 \<Rightarrow> u16 \<Rightarrow> u8 list \<Rightarrow> client_action list option" where
  "call_state_loop cid data_len xs =
     (if data_len \<ge> 3
      then case xs of
          i # s # f # ys \<Rightarrow> map_option ((#) (RPC_CALL_STATE cid i None s)) (call_state_loop cid (data_len - 3) ys)
        | _ \<Rightarrow> None
      else Some [])"

declare current_calls_loop.simps [simp del] call_state_loop.simps [simp del]

text \<open>A call identifier and a name of at most 49 octets.\<close>

definition rd_caller :: "u8 list \<Rightarrow> (u8 \<times> u8 list \<times> u16) option" where
  "rd_caller data = do {
     (i, p) \<leftarrow> rd8 (start data);
     let data_len = of_nat (length data) - 1;
     let data_len = (if data_len > 49 then 49 else data_len);
     (name, p) \<leftarrow> rd_arr (unat data_len) p;
     Some (i, padded 50 name, data_len) }"

definition lehs_gtbs_app_handle_read_complete ::
  "u16 \<Rightarrow> lehs_clcb \<Rightarrow> u16 \<Rightarrow> u8 list \<Rightarrow> client_action list option" where
  "lehs_gtbs_app_handle_read_complete cid c h data =
     (let index = gatt_intf_find_characteristic_type_by_value_handle (gtbs (peer_profiles c)) h;
          data_len = of_nat (length data);
          p = start data
      in if index = 2 \<or> index = 4 \<or> index = 5 \<or> index = 7 then do { (x, p) \<leftarrow> rd8 p; Some [] }
         else if index = 6 then do { _ \<leftarrow> current_calls_loop data_len data; Some [] }
         else if index = 8 then do {
           (i, p) \<leftarrow> rd8 p;
           (uri, p) \<leftarrow> rd_arr (min 49 (length data - 1)) p;
           Some [] }
         else if index = 9 \<or> index = 12 then do { (x, p) \<leftarrow> rd16 p; Some [] }
         else if index = 10 then call_state_loop cid data_len data
         else if index = 13 then do {
           (i, p) \<leftarrow> rd8 p;
           (r, p) \<leftarrow> rd8 p;
           Some [RPC_CALL_TERMINATED cid i r] }
         else if index = 14 then do {
           (i, name, _) \<leftarrow> rd_caller data;
           Some [RPC_CALL_STATE cid i (Some name) GA_LIB_TBS_CALL_STATE_INCOMING] }
         else if index = 15 then do {
           (i, name, n) \<leftarrow> rd_caller data;
           Some [RPC_FRIENDLY_NAME cid name n] }
         else Some [])"

section \<open>Values that are long enough are read\<close>

lemma rd_start_None:
  "rd8 (start d) = None \<longleftrightarrow> d = []" "rd16 (start d) = None \<longleftrightarrow> length d < 2" "rd32 (start d) = None \<longleftrightarrow> length d < 4"
  by (cases d; cases "tl d"; cases "tl (tl d)"; cases "tl (tl (tl d))";
      simp add: start_def rd16_def rd32_def)+

lemma one_read_None: "(r \<bind> (\<lambda>(x, p). Some (g x p))) = None \<longleftrightarrow> r = None"
  by (cases r) auto

lemma two_reads_None:
  "(rd8 (start d) \<bind> (\<lambda>(x, p). rd8 p \<bind> (\<lambda>(y, q). Some (g x p y q)))) = None \<longleftrightarrow> length d < 2"
  by (cases d; cases "tl d") (auto simp: start_def)

section \<open>The lists of calls\<close>

lemma entry_length: "unat (ucast (a :: u8) + 1 :: u16) = unat a + 1"
proof -
  have a: "unat a < 256" using unsigned_less [of a] by simp
  have "unat (ucast a :: u16) = unat a" using a by (simp add: unsigned_ucast_eq take_bit_nat_eq_self)
  then show ?thesis using a by (simp add: unat_word_ariths)
qed

lemma current_calls_step:
  "4 \<le> dl \<Longrightarrow> current_calls_loop dl (a # b # c # d # ys) = current_calls_loop (dl - (ucast a + 1)) ys"
  by (simp add: current_calls_loop.simps)

text \<open>Once the length has wrapped the buffer ends before it does.\<close>

lemma current_calls_fault:
  assumes "length xs < 4 * k" "256 * k \<le> unat data_len"
  shows "current_calls_loop data_len xs = None"
  using assms
proof (induction k arbitrary: xs data_len)
  case 0
  then show ?case by simp
next
  case (Suc k)
  have ge: "4 \<le> data_len" using Suc.prems(2) by (simp add: word_le_nat_alt)
  show ?case
  proof (cases "\<exists>a b c d ys. xs = a # b # c # d # ys")
    case False
    then show ?thesis using ge by (subst current_calls_loop.simps) (auto split: list.splits)
  next
    case True
    then obtain a b c d ys where xs: "xs = a # b # c # d # ys" by blast
    have a: "unat a < 256" using unsigned_less [of a] by simp
    note s = entry_length [of a]
    have le: "ucast a + 1 \<le> data_len" using s a Suc.prems(2) by (simp add: word_le_nat_alt)
    have "current_calls_loop (data_len - (ucast a + 1)) ys = None"
    proof (rule Suc.IH)
      show "length ys < 4 * k" using Suc.prems(1) xs by simp
      show "256 * k \<le> unat (data_len - (ucast a + 1))"
        using Suc.prems(2) a by (simp add: unat_sub [OF le] s)
    qed
    then show ?thesis using ge xs by (subst current_calls_loop.simps) simp
  qed
qed

lemma call_state_octets_Some: "call_state_octets c = Some ys \<longleftrightarrow> ys = [call_id c, call_state c, call_flags c]"
  by (auto simp: call_state_octets_def)

lemma call_states_read:
  assumes "3 * length calls < 65536"
  shows "all_octets call_state_octets calls = Some data \<Longrightarrow>
    length data = 3 * length calls \<and>
    call_state_loop cid (of_nat (length data)) data = Some (map (\<lambda>x. RPC_CALL_STATE cid (call_id x) None (call_state x)) calls)"
  using assms
proof (induction calls arbitrary: data)
  case Nil
  then show ?case by (subst call_state_loop.simps) simp
next
  case (Cons c cs)
  obtain ys where ys: "all_octets call_state_octets cs = Some ys" "data = call_id c # call_state c # call_flags c # ys"
    using Cons.prems(1) by (auto simp: call_state_octets_Some bind_eq_Some_conv)
  note ih = Cons.IH [OF ys(1)]
  have l: "length data = 3 + length ys" "length ys = 3 * length cs" using ys(2) ih Cons.prems(2) by auto
  have "of_nat (length data) - 3 = (of_nat (length ys) :: u16)" using l by simp
  moreover have "(3 :: u16) \<le> of_nat (length data)"
    unfolding word_le_nat_alt unat_of_nat using l Cons.prems(2) by simp
  ultimately show ?case
    using ih ys(2) l Cons.prems(2) by (subst call_state_loop.simps) simp
qed

section \<open>Properties\<close>

text \<open>A media value never makes the headset read behind the received octets, with one exception, the
  one octet value of the control point, whose handler reads two.\<close>

theorem mcs_value_reads:
  "lehs_gmcs_app_handle_read_complete cid c h data = None \<longleftrightarrow>
     gatt_intf_find_characteristic_type_by_value_handle (gmcs (peer_profiles c)) h = 10 \<and> length data = 1"
proof -
  define i where "i = gatt_intf_find_characteristic_type_by_value_handle (gmcs (peer_profiles c)) h"
  show ?thesis
    unfolding lehs_gmcs_app_handle_read_complete_def Let_def i_def [symmetric] one_read_None two_reads_None
    by (auto simp: mcs_characteristic_sizes_def char_size_def one_read_None two_reads_None rd_start_None
        less_2_cases_iff simp del: not_None_eq)
qed

text \<open>The name of a player or the title of a track that is shorter than 40 octets is refused: nothing is
  stored and nobody is told.\<close>

theorem short_names_dropped:
  assumes "gatt_intf_find_characteristic_type_by_value_handle (gmcs (peer_profiles c)) h \<in> {0, 2}" "length data < 40"
  shows "lehs_gmcs_app_handle_read_complete cid c h data = Some (WICED_BT_ERROR, c, [])"
  using assms by (auto simp: lehs_gmcs_app_handle_read_complete_def mcs_characteristic_sizes_def char_size_def Let_def)

definition example_media_client :: lehs_clcb where
  "example_media_client = zero_clcb\<lparr>peer_profiles := zero_peer_profiles\<lparr>
     gmcs := \<lparr>ch_handle = 1, value_handle = 2, descriptor_handle = 3\<rparr> # replicate 11 zero_handles,
     gtbs := replicate 6 zero_handles @ \<lparr>ch_handle = 4, value_handle = 5, descriptor_handle = 6\<rparr> # replicate 3 zero_handles @
       \<lparr>ch_handle = 7, value_handle = 8, descriptor_handle = 9\<rparr> # replicate 5 zero_handles\<rparr>\<rparr>"

lemma example_media_client_types:
  "gatt_intf_find_characteristic_type_by_value_handle (gmcs (peer_profiles example_media_client)) 2 = 0"
  "gatt_intf_find_characteristic_type_by_value_handle (gtbs (peer_profiles example_media_client)) 5 = 6"
  "gatt_intf_find_characteristic_type_by_value_handle (gtbs (peer_profiles example_media_client)) 8 = 10"
  by code_simp+

theorem short_names_dropped_witness:
  "lehs_gmcs_app_handle_read_complete 1 example_media_client 2 [0x56, 0x4C, 0x43] = Some (WICED_BT_ERROR, example_media_client, [])"
  by (rule short_names_dropped)
    (simp_all add: example_media_client_types)

text \<open>The call states a server built with the library notifies reach the host one by one, in order and
  unchanged.\<close>

theorem call_states_delivered:
  assumes "ga_lib_tbs_notify_call_state env cid h calls = Some (st, [SEND_NOTIFICATION cid h data])"
    "3 * length calls < 65536"
    "gatt_intf_find_characteristic_type_by_value_handle (gtbs (peer_profiles c)) h' = 10"
  shows "lehs_gtbs_app_handle_read_complete cid' c h' data =
    Some (map (\<lambda>x. RPC_CALL_STATE cid' (call_id x) None (call_state x)) calls)"
proof -
  have "all_octets call_state_octets calls = Some data"
    using assms(1) by (auto simp: ga_lib_tbs_notify_call_state_def notify_calls_def Let_def bind_eq_Some_conv split: if_splits)
  from conjunct2 [OF call_states_read [OF assms(2) this, of cid']] show ?thesis
    unfolding lehs_gtbs_app_handle_read_complete_def Let_def assms(3) by simp
qed

theorem call_states_delivered_witness:
  "lehs_gtbs_app_handle_read_complete 1 example_media_client 8 [1, 3, 0, 2, 0, 1] =
    Some (map (\<lambda>x. RPC_CALL_STATE 1 (call_id x) None (call_state x))
      [\<lparr>call_id = 1, call_state = 3, call_flags = 0, remote_caller_id = [], remote_caller_id_len = 0\<rparr>,
       \<lparr>call_id = 2, call_state = 0, call_flags = 1, remote_caller_id = [], remote_caller_id_len = 0\<rparr>])"
proof (rule call_states_delivered)
  show "ga_lib_tbs_notify_call_state example_env 1 8
      [\<lparr>call_id = 1, call_state = 3, call_flags = 0, remote_caller_id = [], remote_caller_id_len = 0\<rparr>,
       \<lparr>call_id = 2, call_state = 0, call_flags = 1, remote_caller_id = [], remote_caller_id_len = 0\<rparr>] =
      Some (GATT_SUCCESS, [SEND_NOTIFICATION 1 8 [1, 3, 0, 2, 0, 1]])"
    by (simp add: ga_lib_tbs_notify_call_state_def notify_calls_def call_state_octets_def example_env_def)
qed (simp_all add: example_media_client_types)

text \<open>A list of two or more calls is not understood. The caller identifier of an entry is not skipped, so its
  first octet is taken for the length of the next entry; when it is not below the octets left, as with a
  telephone number after a \<open>tel:\<close>, the length left wraps and the headset reads behind the value.\<close>

theorem call_list_overrun:
  assumes "ga_lib_tbs_notify_current_calls env cid h (c1 # c2 # cs) = Some (st, [SEND_NOTIFICATION cid h data])"
    "gatt_intf_find_characteristic_type_by_value_handle (gtbs (peer_profiles c)) h' = 6"
    "4 \<le> remote_caller_id_len c1" "remote_caller_id_len c1 \<le> 252" "length data \<le> 512"
    "length data - (4 + unat (remote_caller_id_len c1)) \<le> unat (hd (remote_caller_id c1))"
  shows "lehs_gtbs_app_handle_read_complete cid' c h' data = None"
proof -
  let ?n = "unat (remote_caller_id_len c1)"
  obtain rest where r: "all_octets current_call_octets (c2 # cs) = Some rest"
    "data = [3 + remote_caller_id_len c1, call_id c1, call_state c1, call_flags c1] @ take ?n (remote_caller_id c1) @ rest"
    "?n \<le> length (remote_caller_id c1)"
    using assms(1) by (auto simp: ga_lib_tbs_notify_current_calls_def notify_calls_def Let_def bind_eq_Some_conv
        octets_def current_call_octets_def split: if_splits)
  have rest4: "4 \<le> length rest"
    using r(1) by (auto simp: bind_eq_Some_conv current_call_octets_def)
  have n: "4 \<le> ?n" "?n \<le> 252" using assms(3,4) by (simp_all add: word_le_nat_alt)
  obtain x y z w ys where id1: "take ?n (remote_caller_id c1) = x # y # z # w # ys" "x = hd (remote_caller_id c1)"
    using n(1) r(3)
    by (cases "remote_caller_id c1"; cases "tl (remote_caller_id c1)"; cases "tl (tl (remote_caller_id c1))";
        cases "tl (tl (tl (remote_caller_id c1)))") (auto simp: take_Cons' eval_nat_numeral split: if_splits)
  let ?l = "length rest"
  have len: "length data = 4 + ?n + ?l" using r(2,3) by simp
  have L: "unat (3 + remote_caller_id_len c1) = 3 + ?n" using n by (simp add: unat_word_ariths)
  have k: "unat (ucast (3 + remote_caller_id_len c1) + 1 :: u16) = 4 + ?n" unfolding entry_length L by simp
  have dl: "of_nat (length data) - (ucast (3 + remote_caller_id_len c1) + 1) = (of_nat ?l :: u16)"
    unfolding word_unat_eq_iff unat_sub_if' k unat_of_nat using assms(5) len n by simp
  have x: "?l \<le> unat x" "unat x < 256" using assms(6) len id1(2) unsigned_less [of x] by simp_all
  have "current_calls_loop (of_nat ?l - (ucast x + 1)) (ys @ rest) = None"
  proof (rule current_calls_fault [where k = 255])
    show "length (ys @ rest) < 4 * 255"
      using arg_cong [OF id1(1), of length] r(3) len assms(5) by simp
    show "256 * 255 \<le> unat (of_nat ?l - (ucast x + 1) :: u16)"
      using x rest4 by (simp add: unat_sub_if' entry_length unat_of_nat)
  qed
  moreover have "4 \<le> (of_nat ?l :: u16)" "4 \<le> (of_nat (length data) :: u16)"
    unfolding word_le_nat_alt unat_of_nat using rest4 x len assms(5) by simp_all
  ultimately have "current_calls_loop (of_nat ?l) (x # y # z # w # ys @ rest) = None"
    by (simp only: current_calls_step)
  moreover have "data = (3 + remote_caller_id_len c1) # call_id c1 # call_state c1 # call_flags c1 # x # y # z # w # ys @ rest"
    using r(2) id1(1) by simp
  ultimately have "current_calls_loop (of_nat (length data)) data = None"
    using current_calls_step [OF \<open>4 \<le> of_nat (length data)\<close>] dl by metis
  then show ?thesis
    unfolding lehs_gtbs_app_handle_read_complete_def Let_def assms(2) by simp
qed

theorem call_list_overrun_witness:
  "lehs_gtbs_app_handle_read_complete 1 example_media_client 5
    [8, 1, 3, 0, 0x74, 0x65, 0x6C, 0x3A, 0x31, 3, 2, 2, 1] = None"
proof (rule call_list_overrun)
  show "ga_lib_tbs_notify_current_calls example_env 1 5
      [\<lparr>call_id = 1, call_state = 3, call_flags = 0, remote_caller_id = [0x74, 0x65, 0x6C, 0x3A, 0x31], remote_caller_id_len = 5\<rparr>,
       \<lparr>call_id = 2, call_state = 2, call_flags = 1, remote_caller_id = [], remote_caller_id_len = 0\<rparr>] =
      Some (GATT_SUCCESS, [SEND_NOTIFICATION 1 5 [8, 1, 3, 0, 0x74, 0x65, 0x6C, 0x3A, 0x31, 3, 2, 2, 1]])"
    by code_simp
qed (simp_all add: example_media_client_types)

end
