(* ===== verification/Client.thy ===== *)
theory Client
  imports Bonds Discovery_Clients Mcs_Tbs
begin

text \<open>
  The GATT client of \<open>lehs_gatt.c\<close>: after encryption the services of the peer are discovered one
  after the other, their handles cached in the control block, notifications enabled, initial
  values read, and later values passed to the handler of the service they belong to.

  The code stores function pointers with a discovery context and with an operation list. Each
  service is looked for with one callback and each kind of operation list is made with one, so
  the callback is told from the service and from the kind.
\<close>

section \<open>Operation lists\<close>

record client_env = disc_env +
  op_bytes :: "u16 \<Rightarrow> nat"

definition client_disc :: "client_env \<Rightarrow> disc_env" where
  "client_disc env = disc_env.truncate env"

fun is_callback :: "gatt_action \<Rightarrow> bool" where
  "is_callback (DISCOVERY_COMPLETE_CALLBACK _ _) = True"
| "is_callback (OPERATION_COMPLETE_CALLBACK _ _) = True"
| "is_callback _ = False"

fun callback_status :: "gatt_action list \<Rightarrow> (u16 \<times> gatt_status) option" where
  "callback_status [] = None"
| "callback_status (DISCOVERY_COMPLETE_CALLBACK cid st # as) = Some (cid, st)"
| "callback_status (OPERATION_COMPLETE_CALLBACK cid st # as) = Some (cid, st)"
| "callback_status (a # as) = callback_status as"

definition requests :: "gatt_action list \<Rightarrow> client_action list" where
  "requests as = map CGATT (filter (\<lambda>a. \<not> is_callback a) as)"

text \<open>The list after a step of the library and, where the step called it, the callback.\<close>

definition run_operation ::
  "(u16 \<Rightarrow> gatt_status \<Rightarrow> lehs_clcb \<Rightarrow> (lehs_clcb \<times> client_action list) option)
    \<Rightarrow> lehs_clcb \<Rightarrow> gatt_intf_operation \<times> gatt_action list \<Rightarrow> (lehs_clcb \<times> client_action list) option" where
  "run_operation cb c r =
     (case r of (p, acts) \<Rightarrow>
        let c = c\<lparr>p_op := Some p\<rparr>
        in case callback_status acts of
             None \<Rightarrow> Some (c, requests acts)
           | Some (cid, st) \<Rightarrow> do { (c, more) \<leftarrow> cb cid st c; Some (c, requests acts @ more) })"

fun add_handles ::
  "gatt_intf_characteristic_handles list \<Rightarrow> u8 list \<Rightarrow> nat \<Rightarrow> gatt_intf_operation \<Rightarrow> gatt_intf_operation option" where
  "add_handles hs [] i p = Some p"
| "add_handles hs (t # ts) i p = do {
     h \<leftarrow> arr_get hs (unat t);
     add_handles hs ts (Suc i) (snd (gatt_intf_add_characteristic_to_list (Some h) (of_nat i) p)) }"

definition on_read_remote_cmpl :: "u16 \<Rightarrow> gatt_status \<Rightarrow> lehs_clcb \<Rightarrow> lehs_clcb \<times> client_action list" where
  "on_read_remote_cmpl cid sts c =
     (let c = lehs_set_gatt_state_read_characteristics (c\<lparr>p_op := None\<rparr>);
          out = [RPC_APP_STATUS cid (identity_bd_address c) (APP_STATE_READY sts)]
      in if sts = GATT_SUCCESS \<and> db_hash c = replicate 16 0
         then (c\<lparr>db_hash := (db_hash c)[0 := 1]\<rparr>, out) else (c, out))"

definition mcs_read_chars :: "u8 list" where "mcs_read_chars = [0, 9]"
definition tbs_read_chars :: "u8 list" where "tbs_read_chars = [0, 10]"
definition mcs_enable_notification_chars :: "u8 list" where "mcs_enable_notification_chars = [9, 10, 2, 1, 4, 3]"
definition tbs_enable_notification_chars :: "u8 list" where "tbs_enable_notification_chars = [11, 10, 14, 9, 13, 15]"

text \<open>A list of handles of both services, made, filled and started; \<open>NULL\<close> without memory.\<close>

definition start_operation ::
  "client_env \<Rightarrow> operation_kind \<Rightarrow> u8 list \<Rightarrow> u8 list
    \<Rightarrow> (u16 \<Rightarrow> gatt_status \<Rightarrow> lehs_clcb \<Rightarrow> (lehs_clcb \<times> client_action list) option)
    \<Rightarrow> lehs_clcb \<Rightarrow> ((wiced_result + gatt_status) \<times> lehs_clcb \<times> client_action list) option" where
  "start_operation env kind mcs tbs cb c =
     (let n = of_nat (length mcs + length tbs)
      in case gatt_intf_alloc_operation_list (dgatt env) kind (op_bytes env n) (conn_id c) n of
           None \<Rightarrow> Some (Inl WICED_BT_NO_RESOURCES, c\<lparr>p_op := None\<rparr>, [])
         | Some p \<Rightarrow> do {
             p \<leftarrow> add_handles (gmcs (peer_profiles c)) mcs 0 p;
             p \<leftarrow> add_handles (gtbs (peer_profiles c)) tbs (length mcs) p;
             let (st, r) = gatt_intf_execute_handle_operations (dgatt env) p;
             (c, out) \<leftarrow> run_operation cb c r;
             Some (Inr st, c, out) })"

definition lehs_read_remote_characteristics ::
  "client_env \<Rightarrow> lehs_clcb \<Rightarrow> ((wiced_result + gatt_status) \<times> lehs_clcb \<times> client_action list) option" where
  "lehs_read_remote_characteristics env c =
     start_operation env READ_CHAR_LIST mcs_read_chars tbs_read_chars
       (\<lambda>cid st c. Some (on_read_remote_cmpl cid st c)) c"

definition on_enable_notification_cmpl ::
  "client_env \<Rightarrow> u16 \<Rightarrow> gatt_status \<Rightarrow> lehs_clcb \<Rightarrow> (lehs_clcb \<times> client_action list) option" where
  "on_enable_notification_cmpl env cid sts c =
     map_option snd (lehs_read_remote_characteristics env
       (lehs_set_gatt_state_enabled_notifications (c\<lparr>p_op := None\<rparr>)))"

definition lehs_enable_app_notifications ::
  "client_env \<Rightarrow> lehs_clcb \<Rightarrow> ((wiced_result + gatt_status) \<times> lehs_clcb \<times> client_action list) option" where
  "lehs_enable_app_notifications env c =
     start_operation env ENABLE_NOTIFICATION mcs_enable_notification_chars tbs_enable_notification_chars
       (on_enable_notification_cmpl env) c"

section \<open>Discovery\<close>

definition lehs_gatt_free_discovery_ctx :: "lehs_clcb \<Rightarrow> lehs_clcb" where
  "lehs_gatt_free_discovery_ctx c = c\<lparr>p_discovery_ctx := None\<rparr>"

definition lehs_gatt_handle_discovery_complete ::
  "client_env \<Rightarrow> lehs_clcb \<Rightarrow> gatt_status \<Rightarrow> (lehs_clcb \<times> client_action list) option" where
  "lehs_gatt_handle_discovery_complete env c sts =
     (if sts \<noteq> GATT_SUCCESS then Some (c, [])
      else do {
        let c = lehs_set_gatt_state_discovery_complete c;
        let out = [RPC_APP_STATUS (conn_id c) (identity_bd_address c) APP_STATE_INITING];
        (_, c, more) \<leftarrow> lehs_enable_app_notifications env c;
        Some (c, out @ more) })"

text \<open>More results than the cache has entries are written behind it.\<close>

definition cached ::
  "gatt_intf_service_discovery_ctx \<Rightarrow> gatt_intf_characteristic_handles list \<Rightarrow> gatt_intf_characteristic_handles list option" where
  "cached sdc p_handles =
     (let hs = map handles (p_char_handles sdc)
      in if length hs \<le> length p_handles then Some (hs @ drop (length hs) p_handles) else None)"

definition lehs_cache_discovery_results_and_cleanup ::
  "gatt_intf_service_discovery_ctx
    \<Rightarrow> (lehs_peer_profiles \<Rightarrow> gatt_intf_characteristic_handles list)
    \<Rightarrow> (gatt_intf_service_range \<Rightarrow> gatt_intf_characteristic_handles list \<Rightarrow> lehs_peer_profiles \<Rightarrow> lehs_peer_profiles)
    \<Rightarrow> lehs_clcb \<Rightarrow> lehs_clcb option" where
  "lehs_cache_discovery_results_and_cleanup sdc p_handles put c = do {
     hs \<leftarrow> cached sdc (p_handles (peer_profiles c));
     Some (lehs_gatt_free_discovery_ctx (c\<lparr>peer_profiles := put (service_range sdc) hs (peer_profiles c)\<rparr>)) }"

definition put_gmcs :: "gatt_intf_service_range \<Rightarrow> gatt_intf_characteristic_handles list \<Rightarrow> lehs_peer_profiles \<Rightarrow> lehs_peer_profiles" where
  "put_gmcs r hs p = p\<lparr>gmcs_service := r, gmcs := hs\<rparr>"
definition put_gtbs :: "gatt_intf_service_range \<Rightarrow> gatt_intf_characteristic_handles list \<Rightarrow> lehs_peer_profiles \<Rightarrow> lehs_peer_profiles" where
  "put_gtbs r hs p = p\<lparr>gtbs_service := r, gtbs := hs\<rparr>"
definition put_tmap :: "gatt_intf_service_range \<Rightarrow> gatt_intf_characteristic_handles list \<Rightarrow> lehs_peer_profiles \<Rightarrow> lehs_peer_profiles" where
  "put_tmap r hs p = p\<lparr>tmap_service := r, tmap := hs\<rparr>"

text \<open>A search started for a connection; its context is \<open>NULL\<close> without memory.\<close>

definition search :: "discovery \<Rightarrow> lehs_clcb \<Rightarrow> (lehs_clcb \<times> client_action list) option" where
  "search d c = do { (ctx, acts) \<leftarrow> d; Some (c\<lparr>p_discovery_ctx := ctx\<rparr>, requests acts) }"

definition on_tmap_discovery_complete ::
  "client_env \<Rightarrow> gatt_intf_service_discovery_ctx \<Rightarrow> u16 \<Rightarrow> gatt_status \<Rightarrow> lehs_clcb list
    \<Rightarrow> (lehs_clcb list \<times> client_action list) option" where
  "on_tmap_discovery_complete env sdc cid sts blocks =
     (case lehs_gatt_get_clcb_by_conn_id blocks cid of
        None \<Rightarrow> Some (blocks, [])
      | Some i \<Rightarrow>
          if sts = GATT_SUCCESS then do {
            c \<leftarrow> lehs_cache_discovery_results_and_cleanup sdc tmap put_tmap (blocks ! i);
            let out = [RPC_APP_STATUS cid (identity_bd_address c) (APP_STATE_DISCOVERY_COMPLETE sts)];
            (c, more) \<leftarrow> lehs_gatt_handle_discovery_complete env c sts;
            Some (blocks[i := c], out @ more) }
          else Some (blocks, []))"

definition on_tbs_discovery_complete ::
  "client_env \<Rightarrow> gatt_intf_service_discovery_ctx \<Rightarrow> u16 \<Rightarrow> gatt_status \<Rightarrow> lehs_clcb list
    \<Rightarrow> (lehs_clcb list \<times> client_action list) option" where
  "on_tbs_discovery_complete env sdc cid sts blocks =
     (case lehs_gatt_get_clcb_by_conn_id blocks cid of
        None \<Rightarrow> Some (blocks, [])
      | Some i \<Rightarrow>
          if sts = GATT_SUCCESS then do {
            c \<leftarrow> lehs_cache_discovery_results_and_cleanup sdc gtbs put_gtbs (blocks ! i);
            (c, out) \<leftarrow> search (ga_lib_tmap_discover_service (client_disc env) (conn_id c) True) c;
            Some (blocks[i := c], out) }
          else Some (blocks, []))"

definition on_mcs_discovery_complete ::
  "client_env \<Rightarrow> gatt_intf_service_discovery_ctx \<Rightarrow> u16 \<Rightarrow> gatt_status \<Rightarrow> lehs_clcb list
    \<Rightarrow> (lehs_clcb list \<times> client_action list) option" where
  "on_mcs_discovery_complete env sdc cid sts blocks =
     (case lehs_gatt_get_clcb_by_conn_id blocks cid of
        None \<Rightarrow> Some (blocks, [])
      | Some i \<Rightarrow>
          if sts = GATT_SUCCESS then do {
            c \<leftarrow> lehs_cache_discovery_results_and_cleanup sdc gmcs put_gmcs (blocks ! i);
            (c, out) \<leftarrow> search (ga_lib_gtbs_discover_service (client_disc env) (conn_id c) True) c;
            Some (blocks[i := c], out) }
          else Some (blocks, []))"

definition lehs_gatt_start_discovery :: "client_env \<Rightarrow> lehs_clcb \<Rightarrow> (lehs_clcb \<times> client_action list) option" where
  "lehs_gatt_start_discovery env c = search (ga_lib_gmcs_discover_service (client_disc env) (conn_id c) True) c"

definition on_discovery_complete ::
  "client_env \<Rightarrow> gatt_intf_service_discovery_ctx \<Rightarrow> u16 \<Rightarrow> gatt_status \<Rightarrow> lehs_clcb list
    \<Rightarrow> (lehs_clcb list \<times> client_action list) option" where
  "on_discovery_complete env sdc =
     (if p_id sdc = service_uuid (client_disc env) ''WICED_BT_UUID_GENERIC_MEDIA_CONTROL'' then on_mcs_discovery_complete env sdc
      else if p_id sdc = service_uuid (client_disc env) ''WICED_BT_UUID_GENERIC_TELEPHONE_BEARER'' then on_tbs_discovery_complete env sdc
      else on_tmap_discovery_complete env sdc)"

section \<open>Encryption\<close>

text \<open>The control block is used without a test for \<open>NULL\<close>.\<close>

definition lehs_btm_handle_encryption_sts ::
  "client_env \<Rightarrow> bool \<Rightarrow> u8 list \<Rightarrow> lehs_clcb list \<Rightarrow> (wiced_result \<times> lehs_clcb list \<times> client_action list) option" where
  "lehs_btm_handle_encryption_sts env success bda blocks =
     (if \<not> success then Some (WICED_ERROR, blocks, [])
      else do {
        i \<leftarrow> lehs_gatt_get_clcb blocks bda;
        let c = blocks ! i;
        if db_hash c \<noteq> replicate 16 0
        then do {
          (_, c, out) \<leftarrow> lehs_read_remote_characteristics env c;
          Some (WICED_SUCCESS, blocks[i := c], out) }
        else do {
          (c, out) \<leftarrow> lehs_gatt_start_discovery env c;
          Some (WICED_SUCCESS, blocks[i := c], out) } })"

definition lehs_app_sec_bond :: "u16 \<Rightarrow> wiced_bt_device_link_keys \<Rightarrow> lehs_nvram_paired_device_key list \<Rightarrow> lehs_clcb \<Rightarrow> client_action list" where
  "lehs_app_sec_bond base keys nv c =
     (if fst (lehs_nvram_read_keys base (keys\<lparr>bd_addr := conn_bda c\<rparr>) nv) \<noteq> 0
      then [SET_ENCRYPTION (conn_bda c)] else [SEC_BOND (conn_bda c) (conn_addr_type c)])"

section \<open>Events of the stack\<close>

definition in_service :: "u16 \<Rightarrow> gatt_intf_service_range \<Rightarrow> bool" where
  "in_service h r \<longleftrightarrow> start_handle r \<le> h \<and> end_handle r \<ge> h"

definition app_handle_notification_evt ::
  "u16 \<Rightarrow> u16 \<Rightarrow> u8 list \<Rightarrow> lehs_clcb \<Rightarrow> (lehs_clcb \<times> client_action list) option" where
  "app_handle_notification_evt cid h data c =
     (let p = peer_profiles c
      in if in_service h (gmcs_service p) then map_option snd (lehs_gmcs_app_handle_read_complete cid c h data)
         else if in_service h (gtbs_service p) then map_option (Pair c) (lehs_gtbs_app_handle_read_complete cid c h data)
         else if in_service h (gmap_service p) then map_option (\<lambda>c. (c, [])) (lehs_gmap_app_handle_read_complete c h data)
         else Some (c, []))"

text \<open>The same dispatch; the status of the read is only traced.\<close>

definition app_handle_read_complete ::
  "u16 \<Rightarrow> gatt_status \<Rightarrow> u16 \<Rightarrow> u8 list \<Rightarrow> lehs_clcb \<Rightarrow> (lehs_clcb \<times> client_action list) option" where
  "app_handle_read_complete cid sts h data c =
     (let p = peer_profiles c
      in if in_service h (gmcs_service p) then map_option snd (lehs_gmcs_app_handle_read_complete cid c h data)
         else if in_service h (gtbs_service p) then map_option (Pair c) (lehs_gtbs_app_handle_read_complete cid c h data)
         else if in_service h (gmap_service p) then map_option (\<lambda>c. (c, [])) (lehs_gmap_app_handle_read_complete c h data)
         else Some (c, []))"

definition op_callback ::
  "client_env \<Rightarrow> gatt_intf_operation \<Rightarrow> u16 \<Rightarrow> gatt_status \<Rightarrow> lehs_clcb \<Rightarrow> (lehs_clcb \<times> client_action list) option" where
  "op_callback env p =
     (case pfn_operation p of
        ENABLE_NOTIFICATION \<Rightarrow> on_enable_notification_cmpl env
      | READ_CHAR_LIST \<Rightarrow> (\<lambda>cid st c. Some (on_read_remote_cmpl cid st c)))"

definition next_operation ::
  "client_env \<Rightarrow> gattc_optype \<Rightarrow> gatt_status \<Rightarrow> lehs_clcb \<Rightarrow> (lehs_clcb \<times> client_action list) option" where
  "next_operation env op sts c =
     (if op \<in> {GATTC_OPTYPE_READ_HANDLE, GATTC_OPTYPE_WRITE_NO_RSP, GATTC_OPTYPE_WRITE_WITH_RSP}
      then case p_op c of
             None \<Rightarrow> Some (c, [])
           | Some p \<Rightarrow> run_operation (op_callback env p) c
               (gatt_intf_handle_gatt_operation_complete (dgatt env) op sts p)
      else Some (c, []))"

definition operation_value ::
  "u16 \<Rightarrow> wiced_bt_device_link_keys \<Rightarrow> lehs_nvram_paired_device_key list \<Rightarrow> u16 \<Rightarrow> gattc_optype \<Rightarrow> gatt_status
    \<Rightarrow> u16 \<Rightarrow> u8 list \<Rightarrow> lehs_clcb \<Rightarrow> (lehs_clcb \<times> client_action list) option" where
  "operation_value base keys nv cid op sts h data c =
     (case op of
        GATTC_OPTYPE_CONFIG_MTU \<Rightarrow>
          let c = lehs_set_gatt_state_mtu_exchanged c
          in Some (c, if b_is_central c then lehs_app_sec_bond base keys nv c else [])
      | GATTC_OPTYPE_READ_HANDLE \<Rightarrow> app_handle_read_complete cid sts h data c
      | GATTC_OPTYPE_WRITE_NO_RSP \<Rightarrow> Some (c, [])
      | GATTC_OPTYPE_WRITE_WITH_RSP \<Rightarrow> Some (c, [])
      | GATTC_OPTYPE_NOTIFICATION \<Rightarrow> app_handle_notification_evt cid h data c
      | GATTC_OPTYPE_INDICATION \<Rightarrow>
          map_option (\<lambda>(c, out). (c, out @ [INDICATION_CONFIRM cid h])) (app_handle_notification_evt cid h data c))"

definition app_handle_gatt_operation_complete ::
  "client_env \<Rightarrow> u16 \<Rightarrow> wiced_bt_device_link_keys \<Rightarrow> lehs_nvram_paired_device_key list \<Rightarrow> u16 \<Rightarrow> gattc_optype
    \<Rightarrow> gatt_status \<Rightarrow> u16 \<Rightarrow> u8 list \<Rightarrow> lehs_clcb list \<Rightarrow> (lehs_clcb list \<times> client_action list) option" where
  "app_handle_gatt_operation_complete env base keys nv cid op sts h data blocks =
     (case lehs_gatt_get_clcb_by_conn_id blocks cid of
        None \<Rightarrow> Some (blocks, [])
      | Some i \<Rightarrow> do {
          (c, out) \<leftarrow> operation_value base keys nv cid op sts h data (blocks ! i);
          (c, more) \<leftarrow> next_operation env op sts c;
          Some (blocks[i := c], out @ more) })"

definition gatt_discovery_cplt_evt ::
  "client_env \<Rightarrow> u16 \<Rightarrow> gatt_status \<Rightarrow> lehs_clcb list \<Rightarrow> (lehs_clcb list \<times> client_action list) option" where
  "gatt_discovery_cplt_evt env cid sts blocks =
     (case lehs_gatt_get_clcb_by_conn_id blocks cid of
        None \<Rightarrow> Some (blocks, [])
      | Some i \<Rightarrow>
        (case p_discovery_ctx (blocks ! i) of
           None \<Rightarrow> Some (blocks, [])
         | Some sdc \<Rightarrow> do {
             let (sdc, acts) = gatt_intf_on_service_discovery_complete (dgatt env) cid sts sdc;
             let blocks = blocks[i := (blocks ! i)\<lparr>p_discovery_ctx := Some sdc\<rparr>];
             (blocks, more) \<leftarrow> (case callback_status acts of
                None \<Rightarrow> Some (blocks, [])
              | Some (cid, st) \<Rightarrow> on_discovery_complete env sdc cid st blocks);
             let c = blocks ! i;
             let c = (case p_discovery_ctx c of
                        None \<Rightarrow> c
                      | Some sdc \<Rightarrow> if gatt_intf_is_service_discovery_complete sdc then lehs_gatt_free_discovery_ctx c else c);
             Some (blocks[i := c], requests acts @ more) }))"

definition gatt_discovery_result_evt ::
  "client_env \<Rightarrow> u16 \<Rightarrow> gatt_discovery_result \<Rightarrow> lehs_clcb list \<Rightarrow> lehs_clcb list option" where
  "gatt_discovery_result_evt env cid r blocks =
     (case lehs_gatt_get_clcb_by_conn_id blocks cid of
        None \<Rightarrow> Some blocks
      | Some i \<Rightarrow>
        (case p_discovery_ctx (blocks ! i) of
           None \<Rightarrow> Some blocks
         | Some sdc \<Rightarrow> do {
             sdc \<leftarrow> gatt_intf_on_service_discovery_result (dgatt env) r sdc;
             Some (blocks[i := (blocks ! i)\<lparr>p_discovery_ctx := Some sdc\<rparr>]) }))"

text \<open>Only the first connection with an operation list goes on, whichever the event names.\<close>

definition gatt_congestion_evt ::
  "client_env \<Rightarrow> u16 \<Rightarrow> lehs_clcb list \<Rightarrow> (lehs_clcb list \<times> client_action list) option" where
  "gatt_congestion_evt env cid blocks =
     (case find_index (\<lambda>c. in_use c \<and> p_op c \<noteq> None) blocks of
        None \<Rightarrow> Some (blocks, [])
      | Some i \<Rightarrow> do {
          p \<leftarrow> p_op (blocks ! i);
          (c, out) \<leftarrow> run_operation (op_callback env p) (blocks ! i) (snd (gatt_intf_execute_handle_operations (dgatt env) p));
          Some (blocks[i := c], out) })"

section \<open>Operation lists that the peer answers\<close>

text \<open>A list waits for one answer; \<open>left\<close> are the handles it has still to ask for.\<close>

definition left :: "gatt_intf_operation \<Rightarrow> u16 list" where
  "left p = (case pfn_operation p of
     ENABLE_NOTIFICATION \<Rightarrow> pending p
   | READ_CHAR_LIST \<Rightarrow> filter (\<lambda>v. v \<noteq> 0) (map value_handle (List.map_filter id (drop (current_index p) (pp_handles p)))))"

definition waiting :: "gatt_intf_operation \<Rightarrow> bool" where
  "waiting p \<longleftrightarrow> ops_in_progress p = 1 \<and> current_index p \<le> length (pp_handles p) \<and> op_has_callback p \<and> \<not> iterating_loop p"

definition idle :: "gatt_intf_operation \<Rightarrow> bool" where
  "idle p \<longleftrightarrow> ops_in_progress p = 0 \<and> current_index p \<le> length (pp_handles p) \<and> op_has_callback p \<and> \<not> iterating_loop p"

definition request :: "gatt_intf_operation \<Rightarrow> u16 \<Rightarrow> gatt_action" where
  "request p h = (case pfn_operation p of
     ENABLE_NOTIFICATION \<Rightarrow> enable_write p h | READ_CHAR_LIST \<Rightarrow> SEND_READ (op_conn_id p) h)"

definition same_list :: "gatt_intf_operation \<Rightarrow> gatt_intf_operation \<Rightarrow> bool" where
  "same_list p q \<longleftrightarrow> op_conn_id p = op_conn_id q \<and> pfn_operation p = pfn_operation q"

lemma read_loop_accepting:
  assumes "accepting env" "current_index p \<le> length (pp_handles p)" "pfn_operation p = READ_CHAR_LIST"
    "read_loop env (length (pp_handles p) - current_index p) p GATT_SUCCESS = (st, p', acts)"
  shows "st = GATT_SUCCESS \<and> pp_handles p' = pp_handles p \<and> same_list p' p \<and> op_has_callback p' = op_has_callback p \<and>
    iterating_loop p' = iterating_loop p \<and> current_index p' \<le> length (pp_handles p) \<and>
    (case left p of
       [] \<Rightarrow> acts = [] \<and> ops_in_progress p' = ops_in_progress p \<and> current_index p' = length (pp_handles p)
     | h # hs \<Rightarrow> acts = [SEND_READ (op_conn_id p) h] \<and> left p' = hs \<and> ops_in_progress p' = ops_in_progress p + 1)"
  using assms(2-4)
proof (induction "length (pp_handles p) - current_index p" arbitrary: p)
  case 0
  then have "left p = []" by (simp add: left_def map_filter_simps)
  with 0 show ?case by (simp add: same_list_def)
next
  case (Suc n)
  let ?h = "pp_handles p ! current_index p"
  let ?p = "p\<lparr>current_index := current_index p + 1\<rparr>"
  have lt: "current_index p < length (pp_handles p)" using Suc.hyps(2) by simp
  then have d: "drop (current_index p) (pp_handles p) = ?h # drop (Suc (current_index p)) (pp_handles p)"
    by (simp add: Cons_nth_drop_Suc)
  show ?case
  proof (cases "\<exists>c. ?h = Some c \<and> value_handle c \<noteq> 0")
    case True
    then obtain c where c: "?h = Some c" "value_handle c \<noteq> 0" by blast
    have "left p = value_handle c # left ?p"
      using d c Suc.prems(2) by (simp add: left_def map_filter_simps)
    then show ?thesis
      using Suc.prems Suc.hyps(2) [symmetric] c assms(1) lt
      by (auto simp: gatt_intf_read_characteristic_def accepting_def Let_def left_def same_list_def)
  next
    case False
    then have e: "read_loop env n ?p GATT_SUCCESS = (st, p', acts)"
      using Suc.prems(3) Suc.hyps(2) [symmetric] by (auto split: option.splits if_splits)
    have "left p = left ?p" using d False Suc.prems(2) by (cases ?h) (auto simp: left_def map_filter_simps)
    moreover have "n = length (pp_handles ?p) - current_index ?p" using Suc.hyps(2) by simp
    ultimately show ?thesis
      using Suc.hyps(1) [of ?p] e lt Suc.prems(2) by (auto simp: same_list_def split: list.splits)
  qed
qed

text \<open>A started list asks for the first handle, or is over and calls back.\<close>

lemma execute_accepting:
  assumes "accepting env" "idle p"
  obtains p' where "same_list p' p"
    "left p = [] \<Longrightarrow> gatt_intf_execute_handle_operations env p = (GATT_SUCCESS, p', complete_cb p)"
    "\<And>h hs. left p = h # hs \<Longrightarrow> gatt_intf_execute_handle_operations env p = (GATT_SUCCESS, p', [request p h]) \<and>
       waiting p' \<and> left p' = hs"
proof (cases "pfn_operation p")
  case ENABLE_NOTIFICATION
  obtain p' where "pfn_operation p' = ENABLE_NOTIFICATION" "op_conn_id p' = op_conn_id p"
    "current_index p' \<le> length (pp_handles p')" "op_has_callback p'" "\<not> iterating_loop p'"
    "pending p = [] \<Longrightarrow> gatt_intf_execute_handle_operations env p = (GATT_SUCCESS, p', complete_cb p) \<and>
       is_operation_complete p'"
    "\<And>d ds. pending p = d # ds \<Longrightarrow>
       gatt_intf_execute_handle_operations env p = (GATT_SUCCESS, p', [enable_write p d]) \<and>
       pending p' = ds \<and> ops_in_progress p' = 1"
    by (rule enable_execute [of env p]) (use assms ENABLE_NOTIFICATION in \<open>auto simp: idle_def\<close>)
  then show ?thesis
    by (intro that [of p']) (use ENABLE_NOTIFICATION in \<open>auto simp: left_def request_def same_list_def waiting_def\<close>)
next
  case READ_CHAR_LIST
  obtain st p' acts where l: "read_loop env (length (pp_handles p) - current_index p) p GATT_SUCCESS = (st, p', acts)"
    by (metis prod_cases3)
  note f = read_loop_accepting [OF assms(1) _ READ_CHAR_LIST l]
  have x: "gatt_intf_execute_handle_operations env p = (st, p', acts @ complete_callback p' st)"
    using READ_CHAR_LIST l by (simp add: gatt_intf_execute_handle_operations_def gatt_intf_internal_read_char_list_def)
  show ?thesis
    by (rule that [of p']) (use f assms(2) x READ_CHAR_LIST in \<open>auto simp: idle_def waiting_def same_list_def request_def
        complete_callback_def complete_cb_def is_operation_complete_def\<close>)
qed

definition answer :: "gatt_intf_operation \<Rightarrow> gattc_optype" where
  "answer p = (case pfn_operation p of ENABLE_NOTIFICATION \<Rightarrow> GATTC_OPTYPE_WRITE_WITH_RSP | READ_CHAR_LIST \<Rightarrow> GATTC_OPTYPE_READ_HANDLE)"

lemma answered:
  assumes "accepting env" "waiting p"
  obtains p' where "same_list p' p"
    "left p = [] \<Longrightarrow> gatt_intf_handle_gatt_operation_complete env (answer p) GATT_SUCCESS p = (p', complete_cb p)"
    "\<And>h hs. left p = h # hs \<Longrightarrow>
       gatt_intf_handle_gatt_operation_complete env (answer p) GATT_SUCCESS p = (p', [request p h]) \<and> waiting p' \<and> left p' = hs"
proof -
  let ?p = "p\<lparr>ops_in_progress := 0\<rparr>"
  have i: "idle ?p" "left ?p = left p" "request ?p = request p" "complete_cb ?p = complete_cb p"
    using assms(2) by (auto simp: idle_def waiting_def left_def pending_def request_def enable_write_def complete_cb_def
        split: operation_kind.splits)
  obtain q where q: "same_list q ?p"
    "left ?p = [] \<Longrightarrow> gatt_intf_execute_handle_operations env ?p = (GATT_SUCCESS, q, complete_cb ?p)"
    "\<And>h hs. left ?p = h # hs \<Longrightarrow> gatt_intf_execute_handle_operations env ?p = (GATT_SUCCESS, q, [request ?p h]) \<and>
       waiting q \<and> left q = hs"
    by (rule execute_accepting [OF assms(1) i(1)]) blast
  have l: "left p = []" if "current_index p = length (pp_handles p)"
    using that by (simp add: left_def pending_def map_filter_simps split: operation_kind.splits)
  have o: "ops_in_progress p = 1" "op_has_callback p" using assms(2) by (simp_all add: waiting_def)
  show ?thesis
  proof (cases "current_index p = length (pp_handles p)")
    case True
    have "gatt_intf_handle_gatt_operation_complete env (answer p) GATT_SUCCESS p = (?p, complete_cb p)"
      using True o by (cases "pfn_operation p") (simp_all add: gatt_intf_handle_gatt_operation_complete_def Let_def answer_def
          is_operation_complete_def complete_callback_def complete_cb_def)
    with l [OF True] show ?thesis by (intro that [of ?p]) (auto simp: same_list_def)
  next
    case False
    have "gatt_intf_handle_gatt_operation_complete env (answer p) GATT_SUCCESS p =
        snd (gatt_intf_execute_handle_operations env ?p)"
      using False o by (cases "pfn_operation p") (auto simp: gatt_intf_handle_gatt_operation_complete_def Let_def answer_def
          is_operation_complete_def split: prod.splits)
    with q i show ?thesis by (intro that [of q]) (auto simp: same_list_def)
  qed
qed

section \<open>From discovery to ready\<close>

definition chosen :: "u8 list \<Rightarrow> u8 list \<Rightarrow> lehs_clcb \<Rightarrow> gatt_intf_characteristic_handles list" where
  "chosen mcs tbs c = map (\<lambda>t. gmcs (peer_profiles c) ! unat t) mcs @ map (\<lambda>t. gtbs (peer_profiles c) ! unat t) tbs"

definition profiles_ok :: "lehs_clcb \<Rightarrow> bool" where
  "profiles_ok c \<longleftrightarrow> length (gmcs (peer_profiles c)) = 12 \<and> length (gtbs (peer_profiles c)) = 16"

lemma add_handles_all:
  assumes "\<forall>t\<in>set ts. unat t < length hs" "i + length ts \<le> length (pp_handles p)" "length (pp_handles p) < 65536"
  shows "add_handles hs ts i p = Some (p\<lparr>pp_handles :=
    take i (pp_handles p) @ map (\<lambda>t. Some (hs ! unat t)) ts @ drop (i + length ts) (pp_handles p)\<rparr>)"
  using assms
proof (induction ts arbitrary: i p)
  case Nil
  then show ?case by simp
next
  case (Cons t ts)
  let ?p = "p\<lparr>pp_handles := (pp_handles p)[i := Some (hs ! unat t)]\<rparr>"
  have "add_handles hs (t # ts) i p = add_handles hs ts (Suc i) ?p"
    using Cons.prems by (simp add: arr_get_def gatt_intf_add_characteristic_to_list_def unat_of_nat)
  also have "\<dots> = Some (?p\<lparr>pp_handles :=
    take (Suc i) (pp_handles ?p) @ map (\<lambda>t. Some (hs ! unat t)) ts @ drop (Suc i + length ts) (pp_handles ?p)\<rparr>)"
    by (rule Cons.IH) (use Cons.prems in auto)
  also have "\<dots> = Some (p\<lparr>pp_handles :=
    take i (pp_handles p) @ map (\<lambda>t. Some (hs ! unat t)) (t # ts) @ drop (i + length (t # ts)) (pp_handles p)\<rparr>)"
    using Cons.prems by (simp add: take_Suc_conv_app_nth take_update_cancel)
  finally show ?case .
qed

definition handles_of :: "operation_kind \<Rightarrow> gatt_intf_characteristic_handles list \<Rightarrow> u16 list" where
  "handles_of kind cs = filter (\<lambda>h. h \<noteq> 0)
     (map (case kind of ENABLE_NOTIFICATION \<Rightarrow> descriptor_handle | READ_CHAR_LIST \<Rightarrow> value_handle) cs)"

definition client_request :: "operation_kind \<Rightarrow> u16 \<Rightarrow> u16 \<Rightarrow> client_action" where
  "client_request kind cid h = CGATT (case kind of
     ENABLE_NOTIFICATION \<Rightarrow> SEND_WRITE cid h (b16 GATT_CLIENT_CONFIG_NOTIFICATION) | READ_CHAR_LIST \<Rightarrow> SEND_READ cid h)"

lemma left_all:
  "current_index p = 0 \<Longrightarrow> pp_handles p = map Some cs \<Longrightarrow> left p = handles_of (pfn_operation p) cs"
  by (induction cs arbitrary: p)
    (auto simp: left_def handles_of_def pending_def notifiable_def filter_map comp_def map_filter_simps List.map_filter_def
      split: operation_kind.splits)

lemma request_client: "CGATT (request p h) = client_request (pfn_operation p) (op_conn_id p) h"
  by (cases "pfn_operation p") (simp_all add: request_def client_request_def enable_write_def)

lemma requests_simps [simp]:
  "requests [request p h] = [CGATT (request p h)]" "callback_status [request p h] = None"
  "requests (complete_cb p) = []" "callback_status (complete_cb p) = Some (op_conn_id p, GATT_SUCCESS)"
  by (cases "pfn_operation p"; simp add: requests_def request_def enable_write_def complete_cb_def)+

lemma started:
  fixes kind :: operation_kind
  assumes "accepting (dgatt env)" "profiles_ok c" "\<forall>t\<in>set mcs. unat t < 12" "\<forall>t\<in>set tbs. unat t < 16"
    "length mcs + length tbs < 65536"
  defines "L \<equiv> handles_of kind (chosen mcs tbs c)"
  obtains q where "pfn_operation q = kind" "op_conn_id q = conn_id c"
    "L = [] \<Longrightarrow> start_operation env kind mcs tbs cb c =
       map_option (\<lambda>(c, out). (Inr GATT_SUCCESS, c, out)) (cb (conn_id c) GATT_SUCCESS (c\<lparr>p_op := Some q\<rparr>))"
    "\<And>h hs. L = h # hs \<Longrightarrow> start_operation env kind mcs tbs cb c =
       Some (Inr GATT_SUCCESS, c\<lparr>p_op := Some q\<rparr>, [client_request kind (conn_id c) h]) \<and> waiting q \<and> left q = hs"
proof -
  let ?n = "of_nat (length mcs + length tbs) :: u16"
  let ?op = "\<lambda>hs. \<lparr>op_conn_id = conn_id c, pfn_operation = kind, op_has_callback = True, pp_handles = hs,
    current_index = 0, iterating_loop = False, ops_in_progress = 0\<rparr>"
  let ?p = "?op (map Some (chosen mcs tbs c))"
  have n: "unat ?n = length mcs + length tbs" using assms(5) by (simp add: unat_of_nat del: of_nat_add)
  have p: "idle ?p" "left ?p = L" "pfn_operation ?p = kind" "op_conn_id ?p = conn_id c"
    by (simp_all add: idle_def left_all L_def)
  obtain q where q: "same_list q ?p"
    "left ?p = [] \<Longrightarrow> gatt_intf_execute_handle_operations (dgatt env) ?p = (GATT_SUCCESS, q, complete_cb ?p)"
    "\<And>h hs. left ?p = h # hs \<Longrightarrow> gatt_intf_execute_handle_operations (dgatt env) ?p = (GATT_SUCCESS, q, [request ?p h]) \<and>
       waiting q \<and> left q = hs"
    by (rule execute_accepting [OF assms(1) p(1)]) blast
  let ?empty = "?op (replicate (length mcs + length tbs) None)"
  have al: "gatt_intf_alloc_operation_list (dgatt env) kind k (conn_id c) ?n = Some ?empty" for k
    using assms(1) by (simp only: gatt_intf_alloc_operation_list_def n accepting_def) simp
  let ?half = "?op (map (\<lambda>t. Some (gmcs (peer_profiles c) ! unat t)) mcs @ replicate (length tbs) None)"
  have a1: "add_handles (gmcs (peer_profiles c)) mcs 0 ?empty = Some ?half"
    by (rule trans [OF add_handles_all]) (use assms(2,3,5) in \<open>auto simp: profiles_ok_def\<close>)
  have a2: "add_handles (gtbs (peer_profiles c)) tbs (length mcs) ?half = Some ?p"
    by (rule trans [OF add_handles_all]) (use assms(2,4,5) in \<open>simp_all add: profiles_ok_def chosen_def comp_def\<close>)
  have "start_operation env kind mcs tbs cb c =
      (let (st, r) = gatt_intf_execute_handle_operations (dgatt env) ?p
       in run_operation cb c r \<bind> (\<lambda>(c, out). Some (Inr st, c, out)))"
    unfolding start_operation_def Let_def al option.case bind.bind_lunit
    by (simp only: a1 a2 bind.bind_lunit)
  note s = this
  show ?thesis
  proof (rule that [of q])
    show "pfn_operation q = kind" "op_conn_id q = conn_id c" using q(1) by (simp_all add: same_list_def)
    show "start_operation env kind mcs tbs cb c =
       map_option (\<lambda>(c, out). (Inr GATT_SUCCESS, c, out)) (cb (conn_id c) GATT_SUCCESS (c\<lparr>p_op := Some q\<rparr>))" if "L = []"
      using s q(2) p that
      by (cases "cb (conn_id c) GATT_SUCCESS (c\<lparr>p_op := Some q\<rparr>)") (auto simp: run_operation_def Let_def)
    show "start_operation env kind mcs tbs cb c =
       Some (Inr GATT_SUCCESS, c\<lparr>p_op := Some q\<rparr>, [client_request kind (conn_id c) h]) \<and> waiting q \<and> left q = hs"
      if "L = h # hs" for h hs
      using s q(3) [of h hs] p that request_client [of ?p h] by (simp add: run_operation_def Let_def)
  qed
qed

text \<open>The peer answers \<open>n\<close> requests.\<close>

definition answer_type :: "operation_kind \<Rightarrow> gattc_optype" where
  "answer_type kind = (case kind of ENABLE_NOTIFICATION \<Rightarrow> GATTC_OPTYPE_WRITE_WITH_RSP | READ_CHAR_LIST \<Rightarrow> GATTC_OPTYPE_READ_HANDLE)"

fun answers :: "client_env \<Rightarrow> operation_kind \<Rightarrow> nat \<Rightarrow> lehs_clcb \<Rightarrow> (lehs_clcb \<times> client_action list) option" where
  "answers env kind 0 c = Some (c, [])"
| "answers env kind (Suc n) c = do {
     (c, a) \<leftarrow> next_operation env (answer_type kind) GATT_SUCCESS c;
     (c, b) \<leftarrow> answers env kind n c;
     Some (c, a @ b) }"

lemma answers_step:
  assumes "next_operation env (answer_type kind) GATT_SUCCESS c = Some (c', a)"
  shows "answers env kind (Suc n) c = map_option (\<lambda>(c, b). (c, a @ b)) (answers env kind n c')"
  using assms by (cases "answers env kind n c'") auto

lemma answer_answer_type: "answer p = answer_type (pfn_operation p)"
  by (simp add: answer_def answer_type_def)

lemma answers_all:
  assumes "accepting (dgatt env)" "waiting p" "p_op c = Some p"
  shows "\<exists>q. answers env (pfn_operation p) (Suc (length (left p))) c =
    map_option (\<lambda>(c, more). (c, map (client_request (pfn_operation p) (op_conn_id p)) (left p) @ more))
      (op_callback env p (op_conn_id p) GATT_SUCCESS (c\<lparr>p_op := Some q\<rparr>))"
  using assms(2,3)
proof (induction "left p" arbitrary: p c)
  case Nil
  obtain q where "gatt_intf_handle_gatt_operation_complete (dgatt env) (answer p) GATT_SUCCESS p = (q, complete_cb p)"
    by (rule answered [OF assms(1) Nil.prems(1)]) (use Nil.hyps in auto)
  then have "next_operation env (answer p) GATT_SUCCESS c =
      op_callback env p (op_conn_id p) GATT_SUCCESS (c\<lparr>p_op := Some q\<rparr>)"
    using Nil.prems(2) by (cases "pfn_operation p")
      (simp_all add: next_operation_def answer_def run_operation_def Let_def case_prod_beta bind_eq_None_conv)
  then show ?case
    using Nil.hyps by (intro exI [of _ q], cases "op_callback env p (op_conn_id p) GATT_SUCCESS (c\<lparr>p_op := Some q\<rparr>)")
      (auto simp: answer_answer_type)
next
  case (Cons h hs)
  obtain p' where p': "same_list p' p"
    "gatt_intf_handle_gatt_operation_complete (dgatt env) (answer p) GATT_SUCCESS p = (p', [request p h])"
    "waiting p'" "hs = left p'"
    by (rule answered [OF assms(1) Cons.prems(1)]) (use Cons.hyps(2) [symmetric] in auto)
  then have n: "next_operation env (answer p) GATT_SUCCESS c =
      Some (c\<lparr>p_op := Some p'\<rparr>, [client_request (pfn_operation p) (op_conn_id p) h])"
    using Cons.prems(2) request_client [of p h] by (cases "pfn_operation p")
      (simp_all add: next_operation_def answer_def run_operation_def Let_def)
  obtain q where "answers env (pfn_operation p') (Suc (length (left p'))) (c\<lparr>p_op := Some p'\<rparr>) =
    map_option (\<lambda>(c, more). (c, map (client_request (pfn_operation p') (op_conn_id p')) (left p') @ more))
      (op_callback env p' (op_conn_id p') GATT_SUCCESS (c\<lparr>p_op := Some p', p_op := Some q\<rparr>))"
    using Cons.hyps(1) [OF p'(4) p'(3), of "c\<lparr>p_op := Some p'\<rparr>"] by auto
  moreover have "op_callback env p' = op_callback env p" "pfn_operation p' = pfn_operation p" "op_conn_id p' = op_conn_id p"
    using p'(1) by (simp_all add: same_list_def op_callback_def)
  ultimately show ?case
    unfolding Cons.hyps(2) [symmetric] list.size add_0_right add_Suc_right
    using p'(4) by (intro exI [of _ q], subst answers_step [OF n [unfolded answer_answer_type]])
      (cases "op_callback env p (op_conn_id p) GATT_SUCCESS (c\<lparr>p_op := Some q\<rparr>)"; auto simp del: answers.simps(2))
qed

lemma operated:
  assumes "accepting (dgatt env)" "profiles_ok c" "\<forall>t\<in>set mcs. unat t < 12" "\<forall>t\<in>set tbs. unat t < 16"
    "length mcs + length tbs < 65536" "\<And>p. pfn_operation p = kind \<Longrightarrow> op_callback env p = cb"
  defines "L \<equiv> handles_of kind (chosen mcs tbs c)"
  shows "\<exists>q. (start_operation env kind mcs tbs cb c \<bind> (\<lambda>(st, c, a).
      answers env kind (length L) c \<bind> (\<lambda>(c, b). Some (c, a @ b)))) =
    map_option (\<lambda>(c', more). (c', map (client_request kind (conn_id c)) L @ more)) (cb (conn_id c) GATT_SUCCESS (c\<lparr>p_op := Some q\<rparr>))"
proof -
  obtain q where q: "pfn_operation q = kind" "op_conn_id q = conn_id c"
    "L = [] \<Longrightarrow> start_operation env kind mcs tbs cb c =
       map_option (\<lambda>(c, out). (Inr GATT_SUCCESS, c, out)) (cb (conn_id c) GATT_SUCCESS (c\<lparr>p_op := Some q\<rparr>))"
    "\<And>h hs. L = h # hs \<Longrightarrow> start_operation env kind mcs tbs cb c =
       Some (Inr GATT_SUCCESS, c\<lparr>p_op := Some q\<rparr>, [client_request kind (conn_id c) h]) \<and> waiting q \<and> left q = hs"
    unfolding L_def by (rule started [OF assms(1-5), of kind cb]) blast
  show ?thesis
  proof (cases L)
    case Nil
    then show ?thesis
      using q(3) by (intro exI [of _ q], cases "cb (conn_id c) GATT_SUCCESS (c\<lparr>p_op := Some q\<rparr>)") auto
  next
    case (Cons h hs)
    have "\<exists>r. answers env (pfn_operation q) (Suc (length (left q))) (c\<lparr>p_op := Some q\<rparr>) =
      map_option (\<lambda>(c, more). (c, map (client_request (pfn_operation q) (op_conn_id q)) (left q) @ more))
        (op_callback env q (op_conn_id q) GATT_SUCCESS (c\<lparr>p_op := Some q, p_op := Some r\<rparr>))"
      by (rule answers_all [OF assms(1)]) (use q(4) [OF Cons] in simp_all)
    moreover have "left q = hs" "op_callback env q = cb" using q(1) q(4) [OF Cons] assms(6) by simp_all
    ultimately obtain r where r: "answers env kind (length L) (c\<lparr>p_op := Some q\<rparr>) =
      map_option (\<lambda>(c', more). (c', map (client_request kind (conn_id c)) hs @ more)) (cb (conn_id c) GATT_SUCCESS (c\<lparr>p_op := Some r\<rparr>))"
      using Cons unfolding q(1,2) by (auto simp del: answers.simps(2))
    show ?thesis
      using q(4) [OF Cons] Cons r by (intro exI [of _ r], cases "cb (conn_id c) GATT_SUCCESS (c\<lparr>p_op := Some r\<rparr>)") (auto simp del: answers.simps(2))
  qed
qed

section \<open>Properties\<close>

text \<open>
  The client configurations it enables: of the media service those of the state, the control point, the title, the change, the
  position and the duration of the track, of the call service those of the control point, the state of the calls, the incoming
  call, the status flags, the reason of a termination and the friendly name. The values it reads: the names of the player and of the
  provider, the state of the media and of the calls. A handle of 0 was not found.
\<close>

definition notified_chars :: "lehs_clcb \<Rightarrow> u16 list" where
  "notified_chars c =
     (let media = (\<lambda>t. descriptor_handle (gmcs (peer_profiles c) ! t)); call = (\<lambda>t. descriptor_handle (gtbs (peer_profiles c) ! t))
      in filter (\<lambda>h. h \<noteq> 0)
           [media 9, media 10, media 2, media 1, media 4, media 3, call 11, call 10, call 14, call 9, call 13, call 15])"

definition read_chars :: "lehs_clcb \<Rightarrow> u16 list" where
  "read_chars c =
     (let media = (\<lambda>t. value_handle (gmcs (peer_profiles c) ! t)); call = (\<lambda>t. value_handle (gtbs (peer_profiles c) ! t))
      in filter (\<lambda>h. h \<noteq> 0) [media 0, media 9, call 0, call 10])"

lemma notified_chosen:
  "notified_chars c = handles_of ENABLE_NOTIFICATION (chosen mcs_enable_notification_chars tbs_enable_notification_chars c)"
  by (simp add: notified_chars_def handles_of_def chosen_def mcs_enable_notification_chars_def tbs_enable_notification_chars_def)

lemma read_chosen: "read_chars c = handles_of READ_CHAR_LIST (chosen mcs_read_chars tbs_read_chars c)"
  by (simp add: read_chars_def handles_of_def chosen_def mcs_read_chars_def tbs_read_chars_def)

definition valid_hash :: "u8 list \<Rightarrow> u8 list" where
  "valid_hash h = (if h = replicate 16 0 then h[0 := 1] else h)"

lemma read_remote_run:
  assumes "accepting (dgatt env)" "profiles_ok c"
  shows "(lehs_read_remote_characteristics env c \<bind> (\<lambda>(st, c1, a).
      answers env READ_CHAR_LIST (length (read_chars c)) c1 \<bind> (\<lambda>(c2, b). Some (c2, a @ b)))) =
    Some (c\<lparr>read_characteristics := True, ready := enabled_notifications c, p_op := None, db_hash := valid_hash (db_hash c)\<rparr>,
      map (client_request READ_CHAR_LIST (conn_id c)) (read_chars c) @
        [RPC_APP_STATUS (conn_id c) (identity_bd_address c) (APP_STATE_READY GATT_SUCCESS)])"
proof -
  have small: "\<forall>t\<in>set mcs_read_chars. unat t < 12" "\<forall>t\<in>set tbs_read_chars. unat t < 16"
    "length mcs_read_chars + length tbs_read_chars < 65536"
    by (simp_all add: mcs_read_chars_def tbs_read_chars_def)
  have "op_callback env p = (\<lambda>cid st c. Some (on_read_remote_cmpl cid st c))" if "pfn_operation p = READ_CHAR_LIST" for p
    using that by (simp add: op_callback_def)
  from operated [OF assms small this]
  obtain q where "(lehs_read_remote_characteristics env c \<bind> (\<lambda>(st, c1, a).
      answers env READ_CHAR_LIST (length (read_chars c)) c1 \<bind> (\<lambda>(c2, b). Some (c2, a @ b)))) =
    (case on_read_remote_cmpl (conn_id c) GATT_SUCCESS (c\<lparr>p_op := Some q\<rparr>) of (c', out) \<Rightarrow>
       Some (c', map (client_request READ_CHAR_LIST (conn_id c)) (read_chars c) @ out))"
    unfolding lehs_read_remote_characteristics_def read_chosen by (auto simp: case_prod_beta)
  then show ?thesis
    by (simp add: on_read_remote_cmpl_def lehs_set_gatt_state_read_characteristics_def valid_hash_def Let_def)
qed

text \<open>C16: When the last service is discovered and the peer accepts every request, notifications are enabled at the client
  configurations found of six media and six call characteristics, then four values are read as far as they were found, each in this
  order and once, and only then is the connection ready and the host told. Other characteristics that were found, as the playback
  speed of the player, are neither enabled nor read.\<close>

theorem client_bring_up:
  assumes "accepting (dgatt env)" "profiles_ok c"
  shows "do { (c1, a) \<leftarrow> lehs_gatt_handle_discovery_complete env c GATT_SUCCESS;
      (c2, b) \<leftarrow> answers env ENABLE_NOTIFICATION (length (notified_chars c)) c1;
      (c3, d) \<leftarrow> answers env READ_CHAR_LIST (length (read_chars c)) c2;
      Some (c3, a @ b @ d) } =
    Some (c\<lparr>discovery_complete := True, enabled_notifications := True, read_characteristics := True, ready := True,
        p_op := None, db_hash := valid_hash (db_hash c)\<rparr>,
      RPC_APP_STATUS (conn_id c) (identity_bd_address c) APP_STATE_INITING #
      map (client_request ENABLE_NOTIFICATION (conn_id c)) (notified_chars c) @
      map (client_request READ_CHAR_LIST (conn_id c)) (read_chars c) @
      [RPC_APP_STATUS (conn_id c) (identity_bd_address c) (APP_STATE_READY GATT_SUCCESS)])"
proof -
  let ?c1 = "c\<lparr>discovery_complete := True\<rparr>"
  let ?c2 = "?c1\<lparr>p_op := None, enabled_notifications := True, ready := read_characteristics c\<rparr>"
  let ?reqs = "map (client_request ENABLE_NOTIFICATION (conn_id c)) (notified_chars c)"
  have same: "notified_chars ?c1 = notified_chars c" "read_chars ?c2 = read_chars c" "profiles_ok ?c1" "profiles_ok ?c2"
    using assms(2) by (simp_all add: notified_chosen read_chosen chosen_def profiles_ok_def)
  have small: "\<forall>t\<in>set mcs_enable_notification_chars. unat t < 12" "\<forall>t\<in>set tbs_enable_notification_chars. unat t < 16"
    "length mcs_enable_notification_chars + length tbs_enable_notification_chars < 65536"
    by (simp_all add: mcs_enable_notification_chars_def tbs_enable_notification_chars_def)
  have "op_callback env p = on_enable_notification_cmpl env" if "pfn_operation p = ENABLE_NOTIFICATION" for p
    using that by (simp add: op_callback_def)
  from operated [where kind = ENABLE_NOTIFICATION, OF assms(1) same(3) small this]
  have enable: "(lehs_enable_app_notifications env ?c1 \<bind> (\<lambda>(st, c1, a).
      answers env ENABLE_NOTIFICATION (length (notified_chars c)) c1 \<bind> (\<lambda>(c2, b). Some (c2, a @ b)))) =
    map_option (\<lambda>(c', out). (c', ?reqs @ out)) (map_option snd (lehs_read_remote_characteristics env ?c2))"
    by (auto simp: lehs_enable_app_notifications_def notified_chosen [symmetric] same(1) on_enable_notification_cmpl_def
        lehs_set_gatt_state_enabled_notifications_def)
  obtain st3 c3 a3 c4 d where r: "lehs_read_remote_characteristics env ?c2 = Some (st3, c3, a3)"
    "answers env READ_CHAR_LIST (length (read_chars c)) c3 = Some (c4, d)"
    "c4 = ?c2\<lparr>read_characteristics := True, ready := True, p_op := None, db_hash := valid_hash (db_hash c)\<rparr>"
    "a3 @ d = map (client_request READ_CHAR_LIST (conn_id c)) (read_chars c) @
        [RPC_APP_STATUS (conn_id c) (identity_bd_address c) (APP_STATE_READY GATT_SUCCESS)]"
    using read_remote_run [OF assms(1) same(4)] unfolding same(2) by (auto simp: bind_eq_Some_conv)
  obtain st1 c1 a1 b where e: "lehs_enable_app_notifications env ?c1 = Some (st1, c1, a1)"
    "answers env ENABLE_NOTIFICATION (length (notified_chars c)) c1 = Some (c3, b)" "a1 @ b = ?reqs @ a3"
    using enable unfolding r(1) by (auto simp: bind_eq_Some_conv)
  have "a1 @ b @ d = ?reqs @ a3 @ d" using e(3) by (metis append_assoc)
  then show ?thesis
    using e(1,2) r(2-4) by (simp add: lehs_gatt_handle_discovery_complete_def lehs_set_gatt_state_discovery_complete_def)
qed

text \<open>The numbers the Bluetooth SIG assigns to the characteristics of the media control service, by their names in the SDK.\<close>

definition media_uuids :: "(string \<times> u16) list" where
  "media_uuids =
     [(''WICED_BT_UUID_MEDIA_PLAYER_NAME'', 0x2B93), (''WICED_BT_UUID_MEDIA_TRACK_CHANGED'', 0x2B96),
      (''WICED_BT_UUID_MEDIA_TRACK_TITLE'', 0x2B97), (''WICED_BT_UUID_MEDIA_TRACK_DURATION'', 0x2B98),
      (''WICED_BT_UUID_MEDIA_TRACK_POSITION'', 0x2B99), (''WICED_BT_UUID_MEDIA_PLAYBACK_SPEED'', 0x2B9A),
      (''WICED_BT_UUID_MEDIA_SEEKING_SPEED'', 0x2B9B), (''WICED_BT_UUID_MEDIA_PLAYING_ORDER'', 0x2BA1),
      (''WICED_BT_UUID_MEDIA_PLAYING_ORDER_SUPPORTED'', 0x2BA2), (''WICED_BT_UUID_MEDIA_STATE'', 0x2BA3),
      (''WICED_BT_UUID_MEDIA_CONTROL_POINT'', 0x2BA4), (''WICED_BT_UUID_MEDIA_CONTROL_OPCODE_SUPPORTED'', 0x2BA5)]"

definition example_client_env :: client_env where
  "example_client_env = \<lparr>dgatt = example_env, sdk_uuid16 = (\<lambda>s. case map_of media_uuids s of None \<Rightarrow> 0 | Some u \<Rightarrow> u),
     ctx_bytes = (\<lambda>_ _ _. 0), op_bytes = (\<lambda>_. 0)\<rparr>"

theorem client_bring_up_witness:
  "do { (c1, a) \<leftarrow> lehs_gatt_handle_discovery_complete example_client_env example_media_client GATT_SUCCESS;
      (c2, b) \<leftarrow> answers example_client_env ENABLE_NOTIFICATION (length (notified_chars example_media_client)) c1;
      (c3, d) \<leftarrow> answers example_client_env READ_CHAR_LIST (length (read_chars example_media_client)) c2;
      Some (c3, a @ b @ d) } =
    Some (example_media_client\<lparr>discovery_complete := True, enabled_notifications := True, read_characteristics := True,
        ready := True, p_op := None, db_hash := valid_hash (db_hash example_media_client)\<rparr>,
      RPC_APP_STATUS 0 (replicate 6 0) APP_STATE_INITING #
      [CGATT (SEND_WRITE 0 9 [1, 0]), CGATT (SEND_READ 0 2), CGATT (SEND_READ 0 8),
       RPC_APP_STATUS 0 (replicate 6 0) (APP_STATE_READY GATT_SUCCESS)])"
proof -
  have "notified_chars example_media_client = [9]" "read_chars example_media_client = [2, 8]"
    by code_simp+
  moreover have "accepting (dgatt example_client_env)" "profiles_ok example_media_client"
    by (simp_all add: accepting_def example_client_env_def example_env_def profiles_ok_def example_media_client_def)
  moreover have "conn_id example_media_client = 0" "identity_bd_address example_media_client = replicate 6 0"
    by (simp_all add: example_media_client_def zero_clcb_def)
  ultimately show ?thesis
    using client_bring_up [of example_client_env example_media_client] by (simp add: client_request_def b16_def del: answers.simps)
qed

text \<open>A bonded peer whose database hash is stored is not searched again: its values are read and the host is told
  that it is ready, but the connection, which has not enabled notifications itself, never counts as ready.\<close>

theorem reconnection_not_ready:
  assumes "accepting (dgatt env)" "lehs_gatt_get_clcb blocks bda = Some i"
    "profiles_ok (blocks ! i)" "db_hash (blocks ! i) \<noteq> replicate 16 0" "\<not> enabled_notifications (blocks ! i)"
  shows "do { (r, blocks', a) \<leftarrow> lehs_btm_handle_encryption_sts env True bda blocks;
      (c, b) \<leftarrow> answers env READ_CHAR_LIST (length (read_chars (blocks ! i))) (blocks' ! i);
      Some (r, c, a @ b) } =
    Some (WICED_SUCCESS, (blocks ! i)\<lparr>read_characteristics := True, ready := False, p_op := None\<rparr>,
      map (client_request READ_CHAR_LIST (conn_id (blocks ! i))) (read_chars (blocks ! i)) @
        [RPC_APP_STATUS (conn_id (blocks ! i)) (identity_bd_address (blocks ! i)) (APP_STATE_READY GATT_SUCCESS)])"
proof -
  have i: "i < length blocks" using assms(2) find_index_Some by (fastforce simp: lehs_gatt_get_clcb_def)
  obtain st c a c' b where "lehs_read_remote_characteristics env (blocks ! i) = Some (st, c, a)"
    "answers env READ_CHAR_LIST (length (read_chars (blocks ! i))) c = Some (c', b)"
    "c' = (blocks ! i)\<lparr>read_characteristics := True, ready := False, p_op := None\<rparr>"
    "a @ b = map (client_request READ_CHAR_LIST (conn_id (blocks ! i))) (read_chars (blocks ! i)) @
        [RPC_APP_STATUS (conn_id (blocks ! i)) (identity_bd_address (blocks ! i)) (APP_STATE_READY GATT_SUCCESS)]"
    using read_remote_run [OF assms(1,3)] assms(4,5) by (auto simp: bind_eq_Some_conv valid_hash_def)
  then show ?thesis
    using assms(2,4) i by (simp add: lehs_btm_handle_encryption_sts_def Let_def)
qed

definition example_bonded :: lehs_clcb where
  "example_bonded = example_media_client\<lparr>in_use := True, connected := True, conn_id := 5, conn_bda := [1, 2, 3, 4, 5, 6],
     identity_bd_address := [1, 2, 3, 4, 5, 6], db_hash := replicate 16 7\<rparr>"

theorem reconnection_not_ready_witness:
  "do { (r, blocks', a) \<leftarrow> lehs_btm_handle_encryption_sts example_client_env True [1, 2, 3, 4, 5, 6] [example_bonded, zero_clcb];
      (c, b) \<leftarrow> answers example_client_env READ_CHAR_LIST 2 (blocks' ! 0);
      Some (r, c, a @ b) } =
    Some (WICED_SUCCESS, example_bonded\<lparr>read_characteristics := True, ready := False, p_op := None\<rparr>,
      [CGATT (SEND_READ 5 2), CGATT (SEND_READ 5 8), RPC_APP_STATUS 5 [1, 2, 3, 4, 5, 6] (APP_STATE_READY GATT_SUCCESS)])"
proof -
  have "read_chars example_bonded = [2, 8]" "lehs_gatt_get_clcb [example_bonded, zero_clcb] [1, 2, 3, 4, 5, 6] = Some 0"
    by code_simp+
  moreover have "accepting (dgatt example_client_env)" "profiles_ok example_bonded"
    by (simp_all add: accepting_def example_client_env_def example_env_def profiles_ok_def example_bonded_def example_media_client_def)
  moreover have "conn_id example_bonded = 5" "identity_bd_address example_bonded = [1, 2, 3, 4, 5, 6]"
    "\<not> enabled_notifications example_bonded" "db_hash example_bonded \<noteq> replicate 16 0"
    by (simp_all add: example_bonded_def example_media_client_def zero_clcb_def)
  ultimately show ?thesis
    using reconnection_not_ready [of example_client_env "[example_bonded, zero_clcb]" "[1, 2, 3, 4, 5, 6]" 0]
    by (simp add: client_request_def numeral_2_eq_2 del: answers.simps)
qed

lemma media_infos:
  assumes "\<forall>(name, u)\<in>set media_uuids. sdk_uuid16 env name = u"
  shows "map ci_uuid (mcs_characteristic_info (client_disc env)) =
    map UUID16 [0x2B93, 0x2B96, 0x2B97, 0x2B98, 0x2B99, 0x2B9A, 0x2B9B, 0x2BA1, 0x2BA2, 0x2BA3, 0x2BA4, 0x2BA5]"
  using assms by (simp add: media_uuids_def mcs_characteristic_info_def char_info_def client_disc_def disc_env.defs)

text \<open>C17: the handles the client uses for a characteristic are the ones of the characteristic it takes it for. With the
  UUIDs of the SDK the assigned numbers, after the search of the media control service the cache holds, in the order of
  the types 0 to 11 (player name, track changed, title, duration, position, playback speed, seeking speed, playing order,
  orders supported, media state, control point, opcodes supported), the handle and the value handle of the first declaration
  of that assigned number, and as descriptor the last client configuration between that declaration and the next;
  zeros where the peer has none, whatever else the peer has and in whatever order. Declarations have handles of their
  own, and the service has no client configuration before its first declaration.\<close>

theorem client_handles_by_type:
  assumes "ga_lib_gmcs_discover_service (client_disc env) cid True = Some (Some sdc, acts)"
    "\<forall>(name, u)\<in>set media_uuids. sdk_uuid16 env name = u" "uuid_equality (dgatt env)"
    "length (gmcs (peer_profiles c)) = 12"
    "\<forall>(h, vh, u)\<in>set ds. h \<noteq> 0" "distinct (map fst ds)"
    "\<forall>(h, t)\<in>set before. t \<noteq> UUID16 GATT_UUID_CHAR_DECLARE \<and> t \<noteq> UUID16 GATT_UUID_CHAR_CLIENT_CONFIG"
    "distinct (map fst chars)" "\<forall>(d, as)\<in>set chars. d \<noteq> 0 \<and> (\<forall>(h, t)\<in>set as. t \<noteq> UUID16 GATT_UUID_CHAR_DECLARE)"
  shows "\<exists>sdc1 sdc2 c'. discover_characteristics (dgatt env) ds sdc = Some sdc1 \<and>
    discover_descriptors (dgatt env) (attributes_of before chars) sdc1 = Some sdc2 \<and>
    lehs_cache_discovery_results_and_cleanup sdc2 gmcs put_gmcs c = Some c' \<and>
    gmcs (peer_profiles c') = map (\<lambda>u. found_handles ds chars (UUID16 u))
      [0x2B93, 0x2B96, 0x2B97, 0x2B98, 0x2B99, 0x2B9A, 0x2B9B, 0x2BA1, 0x2BA2, 0x2BA3, 0x2BA4, 0x2BA5]"
proof -
  let ?infos = "mcs_characteristic_info (client_disc env)"
  have u: "map ci_uuid ?infos =
      map UUID16 [0x2B93, 0x2B96, 0x2B97, 0x2B98, 0x2B99, 0x2B9A, 0x2B9B, 0x2BA1, 0x2BA2, 0x2BA3, 0x2BA4, 0x2BA5]"
    by (rule media_infos [OF assms(2)])
  have len: "length ?infos = 12" using arg_cong [OF u, of length] by simp
  have "get_buffer (dgatt (client_disc env)) (ctx_bytes (client_disc env) (of_nat (length ?infos)) 0 False)"
    using assms(1) by (rule contrapos_pp) (simp add: ga_lib_gmcs_discover_service_def ga_lib_mcs_discover_service_int_def
        discover_unique_def with_ctx_def gatt_intf_alloc_service_discovery_ctx_def Let_def)
  from discover_unique_started [OF this, of "''WICED_BT_UUID_GENERIC_MEDIA_CONTROL''" cid 1 True] len assms(1)
  have p: "p_char_handles sdc = map (\<lambda>i. \<lparr>handles = zero_handles, p_char_info = Some i\<rparr>) ?infos"
    by (auto simp: ga_lib_gmcs_discover_service_def ga_lib_mcs_discover_service_int_def)
  have "distinct (map ci_uuid ?infos)" unfolding u by simp
  from found_by_slot [OF p this assms(3,5-9)] obtain sdc1 sdc2 where
    s: "discover_characteristics (dgatt env) ds sdc = Some sdc1"
      "discover_descriptors (dgatt env) (attributes_of before chars) sdc1 = Some sdc2"
      "map handles (p_char_handles sdc2) = map (\<lambda>i. found_handles ds chars (ci_uuid i)) ?infos"
    by blast
  have "map handles (p_char_handles sdc2) = map (found_handles ds chars) (map ci_uuid ?infos)" using s(3) by (simp add: comp_def)
  then have "map handles (p_char_handles sdc2) = map (\<lambda>u. found_handles ds chars (UUID16 u))
      [0x2B93, 0x2B96, 0x2B97, 0x2B98, 0x2B99, 0x2B9A, 0x2B9B, 0x2BA1, 0x2BA2, 0x2BA3, 0x2BA4, 0x2BA5]"
    unfolding u by simp
  moreover from arg_cong [OF this, of length] have "length (p_char_handles sdc2) = 12" by simp
  ultimately show ?thesis
    using s(1,2) assms(4) by (simp add: lehs_cache_discovery_results_and_cleanup_def cached_def put_gmcs_def
        lehs_gatt_free_discovery_ctx_def Let_def)
qed

text \<open>A peer that declares an unknown characteristic, the media state with its configuration, and the player name.\<close>

theorem client_handles_by_type_witness:
  "\<exists>sdc sdc1 sdc2 c'. discover_characteristics example_env [(20, 21, UUID16 0x2A00), (30, 31, UUID16 0x2BA3), (40, 41, UUID16 0x2B93)] sdc = Some sdc1 \<and>
    discover_descriptors example_env
      [(10, UUID16 0x2800), (20, UUID16 0x2803), (21, UUID16 0x2A00), (30, UUID16 0x2803), (31, UUID16 0x2BA3),
       (32, UUID16 0x2902), (40, UUID16 0x2803), (41, UUID16 0x2B93)] sdc1 = Some sdc2 \<and>
    lehs_cache_discovery_results_and_cleanup sdc2 gmcs put_gmcs zero_clcb = Some c' \<and>
    gmcs (peer_profiles c') =
      \<lparr>ch_handle = 40, value_handle = 41, descriptor_handle = 0\<rparr> # replicate 8 zero_handles @
      [\<lparr>ch_handle = 30, value_handle = 31, descriptor_handle = 32\<rparr>, zero_handles, zero_handles]"
proof -
  let ?ds = "[(20, 21, UUID16 0x2A00), (30, 31, UUID16 0x2BA3), (40, 41, UUID16 0x2B93)] :: (u16 \<times> u16 \<times> wiced_bt_uuid) list"
  let ?before = "[(10, UUID16 0x2800)] :: (u16 \<times> wiced_bt_uuid) list"
  let ?chars = "[(20, [(21, UUID16 0x2A00)]), (30, [(31, UUID16 0x2BA3), (32, UUID16 0x2902)]), (40, [(41, UUID16 0x2B93)])]
    :: (u16 \<times> (u16 \<times> wiced_bt_uuid) list) list"
  have m: "\<forall>(name, u)\<in>set media_uuids. sdk_uuid16 example_client_env name = u"
    by (simp add: media_uuids_def example_client_env_def)
  have len: "length (mcs_characteristic_info (client_disc example_client_env)) = 12"
    using arg_cong [OF media_infos [OF m], of length] by simp
  have "get_buffer (dgatt (client_disc example_client_env)) k" for k
    by (simp add: example_client_env_def client_disc_def disc_env.defs example_env_def)
  then obtain sdc acts where g: "ga_lib_gmcs_discover_service (client_disc example_client_env) 1 True = Some (Some sdc, acts)"
    using discover_unique_started [of "client_disc example_client_env" "mcs_characteristic_info (client_disc example_client_env)"
        "''WICED_BT_UUID_GENERIC_MEDIA_CONTROL''" 1 1 True] len
    by (auto simp: ga_lib_gmcs_discover_service_def ga_lib_mcs_discover_service_int_def)
  have e: "uuid_equality (dgatt example_client_env)" "length (gmcs (peer_profiles zero_clcb)) = 12"
    by (simp_all add: uuid_equality_def example_client_env_def example_env_def zero_clcb_def zero_peer_profiles_def)
  have d: "\<forall>(h, vh, u)\<in>set ?ds. h \<noteq> 0" "distinct (map fst ?ds)"
    "\<forall>(h, t)\<in>set ?before. t \<noteq> UUID16 GATT_UUID_CHAR_DECLARE \<and> t \<noteq> UUID16 GATT_UUID_CHAR_CLIENT_CONFIG"
    "distinct (map fst ?chars)" "\<forall>(d, as)\<in>set ?chars. d \<noteq> 0 \<and> (\<forall>(h, t)\<in>set as. t \<noteq> UUID16 GATT_UUID_CHAR_DECLARE)"
    by simp_all
  have f: "map (\<lambda>u. found_handles ?ds ?chars (UUID16 u))
      [0x2B93, 0x2B96, 0x2B97, 0x2B98, 0x2B99, 0x2B9A, 0x2B9B, 0x2BA1, 0x2BA2, 0x2BA3, 0x2BA4, 0x2BA5] =
    \<lparr>ch_handle = 40, value_handle = 41, descriptor_handle = 0\<rparr> # replicate 8 zero_handles @
      [\<lparr>ch_handle = 30, value_handle = 31, descriptor_handle = 32\<rparr>, zero_handles, zero_handles]"
    by code_simp
  have a: "attributes_of ?before ?chars =
      [(10, UUID16 0x2800), (20, UUID16 0x2803), (21, UUID16 0x2A00), (30, UUID16 0x2803), (31, UUID16 0x2BA3),
       (32, UUID16 0x2902), (40, UUID16 0x2803), (41, UUID16 0x2B93)]"
    by (simp add: attributes_of_def)
  have x: "dgatt example_client_env = example_env" by (simp add: example_client_env_def)
  show ?thesis
    using client_handles_by_type [OF g m e d] unfolding f x a by (elim exE conjE) (intro exI conjI)
qed

end
