(* ===== verification/Cis.thy ===== *)
theory Cis
  imports Ascs_Server Gatt_Cb
begin

text \<open>
  The unicast streams of \<open>lehs_cis.c\<close>: the events of the isochronous stack and what they do to the
  ASEs of all connections. An ASE is named by the index of its control block and its index there.
\<close>

section \<open>State\<close>

record wiced_ble_isoc_cis =
  w_cig_id :: u8
  w_cis_id :: u8
  w_cis_conn_handle :: u16
  w_acl_conn_handle :: u16

record lehs_streams =
  links :: "lehs_clcb list"
  path_audio :: audio_state
  log :: "ascs_action list"

text \<open>One control block as the state of the ASCS server, and back.\<close>

definition block_state :: "nat \<Rightarrow> lehs_streams \<Rightarrow> ascs_state" where
  "block_state b s = \<lparr>ases = local_ase_data (links s ! b), audio = path_audio s, sent = log s\<rparr>"

definition put_block :: "nat \<Rightarrow> ascs_state \<Rightarrow> lehs_streams \<Rightarrow> lehs_streams" where
  "put_block b a s = s\<lparr>links := (links s)[b := (links s ! b)\<lparr>local_ase_data := ases a\<rparr>],
     path_audio := audio a, log := sent a\<rparr>"

text \<open>The first ASE that satisfies a test, block by block; blocks that are not in use are searched too.\<close>

fun find_ase :: "nat \<Rightarrow> (lehs_ase_data \<Rightarrow> bool) \<Rightarrow> lehs_clcb list \<Rightarrow> (nat \<times> nat) option" where
  "find_ase b P [] = None"
| "find_ase b P (c # cs) =
     (case find_index P (local_ase_data c) of Some j \<Rightarrow> Some (b, j) | None \<Rightarrow> find_ase (Suc b) P cs)"

definition lehs_find_ase_with_cis_id :: "u8 \<Rightarrow> u8 \<Rightarrow> u8 \<Rightarrow> lehs_clcb list \<Rightarrow> (nat \<times> nat) option" where
  "lehs_find_ase_with_cis_id cig cis char_type cs =
     find_ase 0 (\<lambda>d. \<not> state_val (ase_state (ase d)) < state_val STATE_QOS_CONFIGURED \<and>
       cig_id (qos_configured (ase d)) = cig \<and> cis_id (qos_configured (ase d)) = cis \<and> char_type = ase_type (ase d)) cs"

text \<open>
  The parameter is hidden by a local variable of its name: the handle of the event is not looked
  at, and the first ASE with a consistent handle is returned.
\<close>

definition lehs_get_ase_app_data_ptr_by_cis_conn_hdl :: "ascs_env \<Rightarrow> u16 \<Rightarrow> lehs_clcb list \<Rightarrow> (nat \<times> nat) option" where
  "lehs_get_ase_app_data_ptr_by_cis_conn_hdl env hidden cs =
     find_ase 0 (\<lambda>d. \<not> state_val (ase_state (ase d)) < state_val STATE_QOS_CONFIGURED \<and>
       cis_conn_handle d =
         get_cis env (cig_id (qos_configured (ase d))) (cis_id (qos_configured (ase d))) (acl_conn_handle d)) cs"

section \<open>Events\<close>

definition cis_connected_ase :: "ascs_env \<Rightarrow> u16 \<Rightarrow> u8 \<Rightarrow> nat \<Rightarrow> ascs_state \<Rightarrow> ascs_state" where
  "cis_connected_ase env h char_type j a =
     (let a = upd_ase j (\<lambda>d. d\<lparr>cis_conn_handle := h\<rparr>) a;
          d = ases a ! j
      in if char_type = ASCS_CHARACTERISTIC_SNK_ASE \<and> ase_state (ase d) = STATE_ENABLING \<or>
            char_type = ASCS_CHARACTERISTIC_SRC_ASE \<and> ase_state (ase d) = STATE_STREAMING
         then
           let (_, au, acts) = lehs_isoc_dhm_setup_cis_stream (aud env) (csis_set_size env) (ase d) (cis_conn_handle d) (audio a)
           in emit_audio acts (a\<lparr>audio := au\<rparr>)
         else a)"

definition lehs_cis_handle_connection :: "ascs_env \<Rightarrow> wiced_ble_isoc_cis \<Rightarrow> u8 \<Rightarrow> lehs_streams \<Rightarrow> lehs_streams" where
  "lehs_cis_handle_connection env p_cis char_type s =
     (case lehs_find_ase_with_cis_id (w_cig_id p_cis) (w_cis_id p_cis) char_type (links s) of
        None \<Rightarrow> s
      | Some (b, j) \<Rightarrow>
          put_block b (cis_connected_ase env (w_cis_conn_handle p_cis) char_type j (block_state b s)) s)"

definition path_ready_ase :: "ascs_env \<Rightarrow> u16 \<Rightarrow> nat \<Rightarrow> ascs_state \<Rightarrow> ascs_state option" where
  "path_ready_ase env cid j a =
     (let a = upd_ase j (\<lambda>d. d\<lparr>data_path_established := True\<rparr>) a;
          a = emit_audio (lehs_isoc_dhm_start_stream (audio a)) a;
          d = ases a ! j
      in if ase_type (ase d) = ASCS_CHARACTERISTIC_SNK_ASE \<and> ase_state (ase d) = STATE_ENABLING
         then ga_lib_ascs_notify_ase_state env cid j (upd_ase j (set_ase_state STATE_STREAMING) a)
         else Some a)"

text \<open>The ASE is the context the application gave when it set the data path up.\<close>

definition lehs_cis_handle_data_path_setup ::
  "ascs_env \<Rightarrow> u16 \<Rightarrow> nat \<times> nat \<Rightarrow> lehs_streams \<Rightarrow> lehs_streams option" where
  "lehs_cis_handle_data_path_setup env h p_lehs_ase s =
     (case lehs_get_ase_app_data_ptr_by_cis_conn_hdl env h (links s) of
        None \<Rightarrow> Some s
      | Some (b', _) \<Rightarrow> do {
          let (b, j) = p_lehs_ase;
          a \<leftarrow> path_ready_ase env (conn_id (links s ! b')) j (block_state b s);
          Some (put_block b a s) })"

definition cis_lost_ase :: "ascs_env \<Rightarrow> u16 \<Rightarrow> nat \<Rightarrow> ascs_state \<Rightarrow> ascs_state option" where
  "cis_lost_ase env cid j a =
     (let d = ases a ! j;
          a = emit_audio (lehs_isoc_dhm_free_cis_stream (audio a) (cis_conn_handle d) (DPD_VALUE (data_path_dir (ase d)))) a;
          cid = (if cid = 0 then 0x8000 else cid);
          a = upd_ase j (\<lambda>d. d\<lparr>data_path_established := False\<rparr>) a;
          st = ase_state (ase d);
          notify = (\<lambda>a. ga_lib_ascs_notify_ase_state env cid j a)
      in if st = STATE_RELEASING then
           notify (upd_ase j (\<lambda>d. d\<lparr>ase := (ase d)\<lparr>ase_state := STATE_IDLE,
             qos_configured := (qos_configured (ase d))\<lparr>cis_id := 0xFF, cig_id := 0xFF\<rparr>\<rparr>\<rparr>) a)
         else if st = STATE_STREAMING then
           notify (upd_ase j (set_ase_state
             (if ase_type (ase d) \<noteq> ASCS_CHARACTERISTIC_SRC_ASE then STATE_QOS_CONFIGURED else STATE_DISABLING)) a)
         else if st = STATE_DISABLING then notify (upd_ase j (set_ase_state STATE_QOS_CONFIGURED) a)
         else if st = STATE_QOS_CONFIGURED then notify a
         else Some a)"

definition lehs_cis_handle_disconnection :: "ascs_env \<Rightarrow> u8 \<Rightarrow> u8 \<Rightarrow> u8 \<Rightarrow> lehs_streams \<Rightarrow> lehs_streams option" where
  "lehs_cis_handle_disconnection env cig cis char_type s =
     (case lehs_find_ase_with_cis_id cig cis char_type (links s) of
        None \<Rightarrow> Some s
      | Some (b, j) \<Rightarrow> do {
          a \<leftarrow> cis_lost_ase env (conn_id (links s ! b)) j (block_state b s);
          Some (put_block b a s) })"

definition set_conn_on_ase_id :: "wiced_ble_isoc_cis \<Rightarrow> u8 \<Rightarrow> lehs_streams \<Rightarrow> u8 \<times> lehs_streams" where
  "set_conn_on_ase_id p_cis type s =
     (case lehs_find_ase_with_cis_id (w_cig_id p_cis) (w_cis_id p_cis) type (links s) of
        None \<Rightarrow> (0xFF, s)
      | Some (b, j) \<Rightarrow>
          (ase_id (ase (local_ase_data (links s ! b) ! j)),
           put_block b (upd_ase j (\<lambda>d. d\<lparr>cis_conn_handle := w_cis_conn_handle p_cis\<rparr>) (block_state b s)) s))"

datatype isoc_event =
    CIS_REQUEST_EVT wiced_ble_isoc_cis
  | CIS_ESTABLISHED_EVT bool wiced_ble_isoc_cis
  | CIS_DISCONNECTED_EVT u8 u8
  | BIG_EVT
  | DATA_PATH_SETUP_EVT bool u16 "nat \<times> nat"
  | DATA_PATH_REMOVED_EVT bool

definition emit :: "ascs_action list \<Rightarrow> lehs_streams \<Rightarrow> lehs_streams" where
  "emit acts s = s\<lparr>log := log s @ acts\<rparr>"

text \<open>A status that is not success ends the two events that have one; \<open>bis_created\<close> asks the stack.\<close>

fun lehs_isoc_event_handler ::
  "ascs_env \<Rightarrow> (u16 \<Rightarrow> bool) \<Rightarrow> isoc_event \<Rightarrow> lehs_streams \<Rightarrow> lehs_streams option" where
  "lehs_isoc_event_handler env bis_created (CIS_REQUEST_EVT p_cis) s =
     Some (emit [ACCEPT_CIS (w_cis_conn_handle p_cis)] (snd (set_conn_on_ase_id p_cis ASCS_CHARACTERISTIC_SNK_ASE s)))"
| "lehs_isoc_event_handler env bis_created (CIS_ESTABLISHED_EVT failed p_cis) s =
     (if failed then Some s
      else Some (lehs_cis_handle_connection env p_cis ASCS_CHARACTERISTIC_SRC_ASE
                  (lehs_cis_handle_connection env p_cis ASCS_CHARACTERISTIC_SNK_ASE s)))"
| "lehs_isoc_event_handler env bis_created (CIS_DISCONNECTED_EVT cig cis) s = do {
     s \<leftarrow> lehs_cis_handle_disconnection env cig cis ASCS_CHARACTERISTIC_SNK_ASE s;
     lehs_cis_handle_disconnection env cig cis ASCS_CHARACTERISTIC_SRC_ASE s }"
| "lehs_isoc_event_handler env bis_created BIG_EVT s = Some (emit [BIS_EVENT] s)"
| "lehs_isoc_event_handler env bis_created (DATA_PATH_SETUP_EVT failed h ctx) s =
     (if failed then Some s
      else if cis_connected env h then lehs_cis_handle_data_path_setup env h ctx s
      else if bis_created h then Some (emit (map AUDIO (lehs_isoc_dhm_start_stream (path_audio s))) s)
      else Some s)"
| "lehs_isoc_event_handler env bis_created (DATA_PATH_REMOVED_EVT failed) s = Some s"

section \<open>The ASE of an event\<close>

lemma find_ase_Some:
  "find_ase b P cs = Some (b', j) \<Longrightarrow> b \<le> b' \<and> b' - b < length cs \<and> j < length (local_ase_data (cs ! (b' - b))) \<and>
     P (local_ase_data (cs ! (b' - b)) ! j)"
proof (induction cs arbitrary: b)
  case Nil
  then show ?case by simp
next
  case (Cons c cs)
  show ?case
  proof (cases "find_index P (local_ase_data c)")
    case None
    with Cons.prems have "find_ase (Suc b) P cs = Some (b', j)" by simp
    from Cons.IH [OF this] show ?thesis by (auto simp: nth_Cons' Suc_diff_Suc less_eq_Suc_le dest: Suc_leD)
  next
    case (Some k)
    with Cons.prems find_index_Some [OF Some] show ?thesis by simp
  qed
qed

lemma find_index_cong:
  "length xs = length ys \<Longrightarrow> (\<And>i. i < length xs \<Longrightarrow> P (xs ! i) = P (ys ! i)) \<Longrightarrow> find_index P xs = find_index P ys"
proof (induction xs ys rule: list_induct2)
  case (Cons x xs y ys)
  then have "find_index P xs = find_index P ys" "P x = P y" by force+
  then show ?case by simp
qed simp

lemma find_ase_cong:
  "list_all2 (\<lambda>c c'. length (local_ase_data c) = length (local_ase_data c') \<and>
     (\<forall>j<length (local_ase_data c). P (local_ase_data c ! j) = P (local_ase_data c' ! j))) cs cs' \<Longrightarrow>
   find_ase b P cs = find_ase b P cs'"
proof (induction cs cs' arbitrary: b rule: list_all2_induct)
  case (Cons c cs c' cs')
  then have "find_index P (local_ase_data c) = find_index P (local_ase_data c')" by (intro find_index_cong) auto
  with Cons.IH show ?case by (simp split: option.splits)
qed simp

section \<open>What an event keeps\<close>

definition ase_kept :: "lehs_ase_data list \<Rightarrow> lehs_ase_data list \<Rightarrow> bool" where
  "ase_kept ds ds' \<longleftrightarrow> map ase_identity ds' = map ase_identity ds \<and> (list_all ase_state_ok ds \<longrightarrow> list_all ase_state_ok ds')"

lemma ase_kept_refl [simp, intro]: "ase_kept ds ds"
  by (simp add: ase_kept_def)

lemma ase_kept_update:
  assumes "ase_identity (f (ds ! j)) = ase_identity (ds ! j)" "ase_state_ok (ds ! j) \<Longrightarrow> ase_state_ok (f (ds ! j))"
  shows "ase_kept ds (ds[j := f (ds ! j)])"
proof (cases "j < length ds")
  case True
  then show ?thesis
    using assms by (auto simp: ase_kept_def map_update list_update_same_conv list_all_length nth_list_update)
qed (simp add: list_update_beyond)

lemma ase_kept_trans: "ase_kept a b \<Longrightarrow> ase_kept b c \<Longrightarrow> ase_kept a c"
  by (simp add: ase_kept_def)

lemma ases_move_kept:
  assumes "ases_move x ds ds'"
  shows "ase_kept ds ds'"
proof -
  have "length ds = length ds'" "\<And>i. i < length ds \<Longrightarrow> ase_moves x (ds ! i) (ds' ! i)"
    using assms by (auto simp: ases_move_def list_all2_conv_all_nth)
  then show ?thesis
    unfolding ase_kept_def list_all_length by (metis ase_moves_def ase_moves_ok length_map map_equality_iff)
qed

definition block_ok :: "lehs_clcb \<Rightarrow> bool" where
  "block_ok c \<longleftrightarrow> list_all ase_state_ok (local_ase_data c) \<and> (in_use c \<longrightarrow> ase_table_ok (local_ase_data c))"

definition identities :: "lehs_streams \<Rightarrow> (u16 \<times> u16 \<times> u8 \<times> u8 \<times> data_path_direction) list list" where
  "identities s = map (\<lambda>c. map ase_identity (local_ase_data c)) (links s)"

definition streams_kept :: "lehs_streams \<Rightarrow> lehs_streams \<Rightarrow> bool" where
  "streams_kept s s' \<longleftrightarrow> identities s' = identities s \<and> map in_use (links s') = map in_use (links s) \<and>
     (list_all block_ok (links s) \<longrightarrow> list_all block_ok (links s'))"

lemma streams_kept_refl [simp, intro]: "streams_kept s s"
  by (simp add: streams_kept_def)

lemma streams_kept_trans: "streams_kept a b \<Longrightarrow> streams_kept b c \<Longrightarrow> streams_kept a c"
  by (simp add: streams_kept_def)

lemma emit_kept [simp]: "streams_kept s (emit acts s') = streams_kept s s'"
  by (simp add: streams_kept_def emit_def identities_def)

lemma table_ok_identity:
  assumes "map ase_identity ds' = map ase_identity ds" "list_all ase_state_ok ds'" "ase_table_ok ds"
  shows "ase_table_ok ds'"
proof -
  have "map (\<lambda>d. (gatt_ase_value_handle d, ase_id (ase d), ase_type (ase d))) ds' =
      map (\<lambda>d. (gatt_ase_value_handle d, ase_id (ase d), ase_type (ase d))) ds"
    using assms(1) by (auto simp: list_eq_iff_nth_eq ase_identity_def)
  with assms(2,3) show ?thesis by (simp add: ase_table_ok_def)
qed

lemma put_block_kept:
  assumes "ase_kept (ases (block_state b s)) (ases a)"
  shows "streams_kept s (put_block b a s)"
proof (cases "b < length (links s)")
  case True
  let ?c = "links s ! b"
  let ?c' = "?c\<lparr>local_ase_data := ases a\<rparr>"
  have k: "ase_kept (local_ase_data ?c) (ases a)" using assms by (simp add: block_state_def)
  then have "block_ok ?c \<Longrightarrow> block_ok ?c'"
    using table_ok_identity by (auto simp: block_ok_def ase_kept_def)
  with True k show ?thesis
    by (auto simp: streams_kept_def put_block_def identities_def map_update list_update_same_conv ase_kept_def
        list_all_length nth_list_update)
next
  case False
  then show ?thesis by (simp add: streams_kept_def put_block_def identities_def list_update_beyond)
qed

lemma connected_kept: "ase_kept (ases a) (ases (cis_connected_ase env h t j a))"
proof -
  have "ases (cis_connected_ase env h t j a) = (ases a)[j := (ases a ! j)\<lparr>cis_conn_handle := h\<rparr>]"
    by (simp add: cis_connected_ase_def Let_def split: prod.splits)
  then show ?thesis
    using ase_kept_update [of "\<lambda>d. d\<lparr>cis_conn_handle := h\<rparr>" "ases a" j] by (simp add: ase_state_ok_def)
qed

lemma notify_total:
  "\<exists>f. \<forall>c a. ga_lib_ascs_notify_ase_state env c j a = Some (f c a) \<and> ases (f c a) = ases a"
proof (intro exI allI conjI)
  fix c a
  obtain acts where "ga_lib_ascs_notify_ase_state env c j a = Some (emit_gatt acts a)"
    using notify_state_total by blast
  then show "ga_lib_ascs_notify_ase_state env c j a = Some (the (ga_lib_ascs_notify_ase_state env c j a))"
    "ases (the (ga_lib_ascs_notify_ase_state env c j a)) = ases a" by simp_all
qed

lemma path_ready_result:
  "\<exists>a'. path_ready_ase env cid j a = Some a' \<and> ase_kept (ases a) (ases a')"
proof -
  let ?f = "\<lambda>d. if ase_type (ase d) = ASCS_CHARACTERISTIC_SNK_ASE \<and> ase_state (ase d) = STATE_ENABLING
    then set_ase_state STATE_STREAMING (d\<lparr>data_path_established := True\<rparr>) else d\<lparr>data_path_established := True\<rparr>"
  have "ase_kept (ases a) ((ases a)[j := ?f (ases a ! j)])"
    by (rule ase_kept_update) (auto simp: ase_state_ok_def set_ase_state_def ase_identity_def)
  moreover have "\<exists>a'. path_ready_ase env cid j a = Some a' \<and> ases a' = (ases a)[j := ?f (ases a ! j)]"
  proof -
    obtain f where "\<And>c a. ga_lib_ascs_notify_ase_state env c j a = Some (f c a)" "\<And>c a. ases (f c a) = ases a"
      using notify_total [of env j] by blast
    then show ?thesis
      by (cases "j < length (ases a)") (auto simp: path_ready_ase_def Let_def list_update_beyond)
  qed
  ultimately show ?thesis by auto
qed

text \<open>The state an ASE goes to when its CIS is lost.\<close>

definition cis_down :: "u8 \<Rightarrow> ga_lib_ascs_state \<Rightarrow> ga_lib_ascs_state" where
  "cis_down t st =
     (if st = STATE_RELEASING then STATE_IDLE
      else if st = STATE_STREAMING \<and> t = ASCS_CHARACTERISTIC_SRC_ASE then STATE_DISABLING
      else if st = STATE_STREAMING \<or> st = STATE_DISABLING then STATE_QOS_CONFIGURED else st)"

lemma cis_lost_result:
  assumes "j < length (ases a)"
  shows "\<exists>a' d'. cis_lost_ase env cid j a = Some a' \<and> ases a' = (ases a)[j := d'] \<and>
    ase_identity d' = ase_identity (ases a ! j) \<and> \<not> data_path_established d' \<and>
    ase_state (ase d') = cis_down (ase_type (ase (ases a ! j))) (ase_state (ase (ases a ! j)))"
proof -
  obtain f where "\<And>c a. ga_lib_ascs_notify_ase_state env c j a = Some (f c a)" "\<And>c a. ases (f c a) = ases a"
    using notify_total [of env j] by blast
  with assms show ?thesis
    by (auto simp: cis_lost_ase_def Let_def cis_down_def set_ase_state_def ase_identity_def)
qed

lemma cis_lost_kept: "cis_lost_ase env cid j a = Some a' \<Longrightarrow> j < length (ases a) \<Longrightarrow> ase_kept (ases a) (ases a')"
proof -
  assume j: "j < length (ases a)" and r: "cis_lost_ase env cid j a = Some a'"
  obtain d' where d': "ases a' = (ases a)[j := d']" "ase_identity d' = ase_identity (ases a ! j)"
    "ase_state (ase d') = cis_down (ase_type (ase (ases a ! j))) (ase_state (ase (ases a ! j)))"
    using cis_lost_result [OF j, of env cid] r by auto
  have "ase_type (ase d') = ase_type (ase (ases a ! j))" using ase_identity_type [OF d'(2)] .
  then have "ase_state_ok (ases a ! j) \<Longrightarrow> ase_state_ok d'"
    using d'(3) by (auto simp: ase_state_ok_def cis_down_def)
  then show ?thesis using ase_kept_update [of "\<lambda>_. d'" "ases a" j] d'(1,2) by simp
qed

lemma find_ase_place:
  assumes "lehs_find_ase_with_cis_id cig cis t cs = Some (b, j)"
  shows "b < length cs" "j < length (local_ase_data (cs ! b))" "ase_type (ase (local_ase_data (cs ! b) ! j)) = t"
    "\<not> state_val (ase_state (ase (local_ase_data (cs ! b) ! j))) < state_val STATE_QOS_CONFIGURED"
  using find_ase_Some [OF assms [unfolded lehs_find_ase_with_cis_id_def]] by auto

lemma connection_kept: "streams_kept s (lehs_cis_handle_connection env p t s)"
  by (auto simp: lehs_cis_handle_connection_def intro!: put_block_kept connected_kept split: option.splits)

lemma disconnection_result:
  "\<exists>s'. lehs_cis_handle_disconnection env cig cis t s = Some s' \<and> streams_kept s s'"
proof (cases "lehs_find_ase_with_cis_id cig cis t (links s)")
  case None
  then show ?thesis by (simp add: lehs_cis_handle_disconnection_def streams_kept_refl)
next
  case (Some r)
  obtain b j where r: "r = (b, j)" by (cases r)
  have j: "j < length (ases (block_state b s))" using find_ase_place [OF Some [unfolded r]] by (simp add: block_state_def)
  obtain a' where a': "cis_lost_ase env (conn_id (links s ! b)) j (block_state b s) = Some a'"
    using cis_lost_result [OF j, of env "conn_id (links s ! b)"] by blast
  from put_block_kept [OF cis_lost_kept [OF a' j]] show ?thesis
    using Some r a' by (simp add: lehs_cis_handle_disconnection_def)
qed

lemma data_path_result:
  "\<exists>s'. lehs_cis_handle_data_path_setup env h ctx s = Some s' \<and> streams_kept s s'"
proof (cases "lehs_get_ase_app_data_ptr_by_cis_conn_hdl env h (links s)")
  case None
  then show ?thesis by (simp add: lehs_cis_handle_data_path_setup_def streams_kept_refl)
next
  case (Some r)
  obtain b' k b j where r: "r = (b', k)" "ctx = (b, j)" by (cases r; cases ctx)
  obtain a' where a': "path_ready_ase env (conn_id (links s ! b')) j (block_state b s) = Some a'"
    "ase_kept (ases (block_state b s)) (ases a')"
    using path_ready_result [of env "conn_id (links s ! b')" j "block_state b s"] by blast
  from put_block_kept [OF a'(2)] show ?thesis
    using Some r a'(1) by (simp add: lehs_cis_handle_data_path_setup_def)
qed

lemma isoc_event_result:
  "\<exists>s'. lehs_isoc_event_handler env bis ev s = Some s' \<and> streams_kept s s'"
proof (cases ev)
  case (CIS_REQUEST_EVT p)
  have "streams_kept s (snd (set_conn_on_ase_id p ASCS_CHARACTERISTIC_SNK_ASE s))"
    by (auto simp: set_conn_on_ase_id_def ase_state_ok_def intro!: put_block_kept ase_kept_update split: option.splits)
  with CIS_REQUEST_EVT show ?thesis by simp
next
  case (CIS_ESTABLISHED_EVT f p)
  then show ?thesis using streams_kept_trans [OF connection_kept connection_kept] by auto
next
  case (CIS_DISCONNECTED_EVT cig cis)
  obtain s1 where s1: "lehs_cis_handle_disconnection env cig cis ASCS_CHARACTERISTIC_SNK_ASE s = Some s1" "streams_kept s s1"
    using disconnection_result by blast
  obtain s2 where s2: "lehs_cis_handle_disconnection env cig cis ASCS_CHARACTERISTIC_SRC_ASE s1 = Some s2" "streams_kept s1 s2"
    using disconnection_result by blast
  with s1 CIS_DISCONNECTED_EVT streams_kept_trans [OF s1(2) s2(2)] show ?thesis by simp
next
  case (DATA_PATH_SETUP_EVT f h ctx)
  then show ?thesis using data_path_result [of env h ctx s] by auto
qed auto

section \<open>Control point writes and stream events together\<close>

text \<open>Writes arrive on connections in use, with the octets of the packet; events arrive at any time.\<close>

datatype streams_event = WRITTEN nat "u8 list" | HAPPENED isoc_event

inductive streams_step :: "ascs_env \<Rightarrow> (u16 \<Rightarrow> bool) \<Rightarrow> streams_event \<Rightarrow> lehs_streams \<Rightarrow> lehs_streams \<Rightarrow> bool" for env bis where
  control_point: "b < length (links s) \<Longrightarrow> in_use (links s ! b) \<Longrightarrow>
     lehs_ascs_handle_write_req_evt env (conn_id (links s ! b)) ps (int (length ps)) (block_state b s) = Some (r, a) \<Longrightarrow>
     streams_step env bis (WRITTEN b ps) s (put_block b a s)"
| isoc_event: "lehs_isoc_event_handler env bis ev s = Some s' \<Longrightarrow> streams_step env bis (HAPPENED ev) s s'"

inductive_cases control_pointE: "streams_step env bis (WRITTEN b ps) s s'"

lemma streams_step_kept:
  assumes "streams_step env bis ev s s'" "list_all block_ok (links s)"
  shows "streams_kept s s'"
  using assms(1)
proof cases
  case (control_point b ps r a)
  have "ase_table_ok (ases (block_state b s))"
    using control_point(3,4) assms(2) by (simp add: block_state_def list_all_length block_ok_def)
  from write_request_moves [OF this control_point(5)]
  show ?thesis using control_point(2) by (auto intro!: put_block_kept ases_move_kept)
next
  case (isoc_event ev)
  then show ?thesis using isoc_event_result [of env bis ev s] by auto
qed

section \<open>A lost CIS\<close>

definition ase_at :: "lehs_clcb list \<Rightarrow> nat \<Rightarrow> nat \<Rightarrow> lehs_ase_data" where
  "ase_at ls b j = local_ase_data (ls ! b) ! j"

definition set_ase_at :: "nat \<Rightarrow> nat \<Rightarrow> lehs_ase_data \<Rightarrow> lehs_clcb list \<Rightarrow> lehs_clcb list" where
  "set_ase_at b j d ls = ls[b := (ls ! b)\<lparr>local_ase_data := (local_ase_data (ls ! b))[j := d]\<rparr>]"

lemma ase_at_set:
  assumes "b < length ls" "j < length (local_ase_data (ls ! b))"
  shows "ase_at (set_ase_at b j d ls) b' j' = (if b' = b \<and> j' = j then d else ase_at ls b' j')"
  using assms by (auto simp: ase_at_def set_ase_at_def nth_list_update)

lemma disconnection_found:
  assumes "lehs_find_ase_with_cis_id cig cis t (links s) = Some (b, j)"
  obtains s' d' where "lehs_cis_handle_disconnection env cig cis t s = Some s'" "links s' = set_ase_at b j d' (links s)"
    "ase_identity d' = ase_identity (ase_at (links s) b j)" "\<not> data_path_established d'"
    "ase_state (ase d') = cis_down t (ase_state (ase (ase_at (links s) b j)))"
proof -
  note p = find_ase_place [OF assms]
  have j: "j < length (ases (block_state b s))" using p(2) by (simp add: block_state_def)
  obtain a' d' where a': "cis_lost_ase env (conn_id (links s ! b)) j (block_state b s) = Some a'"
    "ases a' = (ases (block_state b s))[j := d']" "ase_identity d' = ase_identity (ases (block_state b s) ! j)"
    "\<not> data_path_established d'"
    "ase_state (ase d') = cis_down (ase_type (ase (ases (block_state b s) ! j))) (ase_state (ase (ases (block_state b s) ! j)))"
    using cis_lost_result [OF j, of env "conn_id (links s ! b)"] by blast
  show thesis
    by (rule that [of "put_block b a' s" d'])
      (use assms a' p(3) in \<open>simp_all add: lehs_cis_handle_disconnection_def put_block_def set_ase_at_def ase_at_def block_state_def\<close>)
qed

text \<open>The ASE the event names by the identifiers of its stream.\<close>

definition carries :: "u8 \<Rightarrow> u8 \<Rightarrow> u8 \<Rightarrow> lehs_ase_data \<Rightarrow> bool" where
  "carries cig cis t d \<longleftrightarrow> cig_id (qos_configured (ase d)) = cig \<and> cis_id (qos_configured (ase d)) = cis \<and> ase_type (ase d) = t \<and>
     ase_state (ase d) \<noteq> STATE_IDLE \<and> ase_state (ase d) \<noteq> STATE_CODEC_CONFIGURED"

lemma carries_iff: "carries cig cis t d \<longleftrightarrow> \<not> state_val (ase_state (ase d)) < state_val STATE_QOS_CONFIGURED \<and>
    cig_id (qos_configured (ase d)) = cig \<and> cis_id (qos_configured (ase d)) = cis \<and> t = ase_type (ase d)"
  by (cases "ase_state (ase d)") (auto simp: carries_def)

lemma find_ase_carries:
  "lehs_find_ase_with_cis_id cig cis t cs = Some (b, j) \<Longrightarrow> carries cig cis t (ase_at cs b j)"
  by (auto simp: lehs_find_ase_with_cis_id_def carries_iff ase_at_def dest: find_ase_Some)

lemma find_ase_first:
  "b < length cs \<Longrightarrow> j < length (local_ase_data (cs ! b)) \<Longrightarrow> P (ase_at cs b j) \<Longrightarrow>
   (\<And>i. i < j \<Longrightarrow> \<not> P (ase_at cs b i)) \<Longrightarrow>
   (\<And>c i. c < b \<Longrightarrow> i < length (local_ase_data (cs ! c)) \<Longrightarrow> \<not> P (ase_at cs c i)) \<Longrightarrow> find_ase k P cs = Some (k + b, j)"
proof (induction cs arbitrary: b k)
  case (Cons c cs)
  show ?case
  proof (cases b)
    case 0
    with Cons.prems have "find_index P (local_ase_data c) = Some j" by (intro find_index_eqI) (auto simp: ase_at_def)
    with 0 show ?thesis by simp
  next
    case (Suc m)
    have "find_index P (local_ase_data c) = None"
      using Cons.prems(5) [of 0] Suc by (auto simp: find_index_None in_set_conv_nth ase_at_def)
    moreover have "find_ase (Suc k) P cs = Some (Suc k + m, j)"
      by (rule Cons.IH) (use Cons.prems(1-4) Cons.prems(5) [of "Suc _"] Suc in \<open>auto simp: ase_at_def\<close>)
    ultimately show ?thesis using Suc by simp
  qed
qed simp

lemma find_ase_with_cis_id_first:
  assumes "b < length cs" "j < length (local_ase_data (cs ! b))" "carries cig cis t (ase_at cs b j)"
    "\<And>i. i < j \<Longrightarrow> \<not> carries cig cis t (ase_at cs b i)"
    "\<And>c i. c < b \<Longrightarrow> i < length (local_ase_data (cs ! c)) \<Longrightarrow> \<not> carries cig cis t (ase_at cs c i)"
  shows "lehs_find_ase_with_cis_id cig cis t cs = Some (b, j)"
  using find_ase_first [of b cs j "carries cig cis t" 0, OF assms]
  by (simp add: lehs_find_ase_with_cis_id_def carries_iff [abs_def])

text \<open>Handling the ASE of one direction leaves those of the other alone.\<close>

lemma disconnection_other:
  assumes "lehs_cis_handle_disconnection env cig cis t' s = Some s'" "t \<noteq> t'"
  shows "lehs_find_ase_with_cis_id cig cis t (links s') = lehs_find_ase_with_cis_id cig cis t (links s)"
    "ase_type (ase (ase_at (links s) b j)) = t \<Longrightarrow> ase_at (links s') b j = ase_at (links s) b j"
proof -
  have "lehs_find_ase_with_cis_id cig cis t (links s') = lehs_find_ase_with_cis_id cig cis t (links s) \<and>
    (ase_type (ase (ase_at (links s) b j)) = t \<longrightarrow> ase_at (links s') b j = ase_at (links s) b j)"
  proof (cases "lehs_find_ase_with_cis_id cig cis t' (links s)")
    case None
    then show ?thesis using assms(1) by (simp add: lehs_cis_handle_disconnection_def)
  next
    case (Some r)
    obtain b1 j1 where r: "r = (b1, j1)" by (cases r)
    note f = Some [unfolded r] and p = find_ase_place [OF Some [unfolded r]]
    obtain d' where d': "links s' = set_ase_at b1 j1 d' (links s)" "ase_identity d' = ase_identity (ase_at (links s) b1 j1)"
      using disconnection_found [OF f, of env] assms(1) by (metis option.inject)
    have ty: "ase_type (ase d') = t'" "ase_type (ase (ase_at (links s) b1 j1)) = t'"
      using ase_identity_type [OF d'(2)] p(3) by (simp_all add: ase_at_def)
    let ?P = "\<lambda>d. \<not> state_val (ase_state (ase d)) < state_val STATE_QOS_CONFIGURED \<and>
       cig_id (qos_configured (ase d)) = cig \<and> cis_id (qos_configured (ase d)) = cis \<and> t = ase_type (ase d)"
    have "find_ase 0 ?P (links s) = find_ase 0 ?P (links s')"
      unfolding d'(1)
      by (rule find_ase_cong)
        (use p(1,2) ty assms(2) in \<open>auto simp: list_all2_conv_all_nth set_ase_at_def ase_at_def nth_list_update\<close>)
    then show ?thesis
      using ase_at_set [OF p(1,2), of d' b j] ty assms(2) d'(1) by (auto simp: lehs_find_ase_with_cis_id_def)
  qed
  then show "lehs_find_ase_with_cis_id cig cis t (links s') = lehs_find_ase_with_cis_id cig cis t (links s)"
    "ase_type (ase (ase_at (links s) b j)) = t \<Longrightarrow> ase_at (links s') b j = ase_at (links s) b j" by simp_all
qed

section \<open>The moves of all ASEs\<close>

text \<open>
  The state machine of an ASE as the events may drive it: a request on its own connection moves it by the transitions of the
  opcode; the loss of the stream it is configured for takes it down; the set-up of its own data path makes a sink that is
  Enabling stream; nothing else moves it. Nothing changes its identity.
\<close>

inductive ase_machine :: "ascs_env \<Rightarrow> streams_event \<Rightarrow> nat \<Rightarrow> nat \<Rightarrow> lehs_ase_data \<Rightarrow> lehs_ase_data \<Rightarrow> bool" for env where
  requested: "request_moves env (hd ps) d d' \<Longrightarrow> ase_machine env (WRITTEN b ps) b j d d'"
| stream_lost: "carries cig cis t d \<Longrightarrow> ase_identity d' = ase_identity d \<Longrightarrow> ase_state (ase d') = cis_down t (ase_state (ase d)) \<Longrightarrow>
     ase_machine env (HAPPENED (CIS_DISCONNECTED_EVT cig cis)) b j d d'"
| path_ready: "ase_type (ase d) = ASCS_CHARACTERISTIC_SNK_ASE \<Longrightarrow> ase_state (ase d) = STATE_ENABLING \<Longrightarrow>
     ase_identity d' = ase_identity d \<Longrightarrow> ase_state (ase d') = STATE_STREAMING \<Longrightarrow>
     ase_machine env (HAPPENED (DATA_PATH_SETUP_EVT False h (b, j))) b j d d'"
| stays: "ase_place d' = ase_place d \<Longrightarrow> ase_machine env ev b j d d'"

definition machine_steps :: "ascs_env \<Rightarrow> streams_event \<Rightarrow> lehs_clcb list \<Rightarrow> lehs_clcb list \<Rightarrow> bool" where
  "machine_steps env ev ls ls' \<longleftrightarrow> length ls' = length ls \<and>
     (\<forall>b < length ls. length (local_ase_data (ls' ! b)) = length (local_ase_data (ls ! b)) \<and>
        (\<forall>j < length (local_ase_data (ls ! b)). ase_machine env ev b j (ase_at ls b j) (ase_at ls' b j)))"

definition places_same :: "lehs_clcb list \<Rightarrow> lehs_clcb list \<Rightarrow> bool" where
  "places_same ls ls' \<longleftrightarrow> map (\<lambda>c. map ase_place (local_ase_data c)) ls' = map (\<lambda>c. map ase_place (local_ase_data c)) ls"

lemma places_same_steps: "places_same ls ls' \<Longrightarrow> machine_steps env ev ls ls'"
  unfolding machine_steps_def places_same_def
  by (auto simp: list_eq_iff_nth_eq ase_at_def intro!: stays)

lemma places_same_trans: "places_same a b \<Longrightarrow> places_same b c \<Longrightarrow> places_same a c"
  by (simp add: places_same_def)

lemma places_same_put:
  "map ase_place (ases a) = map ase_place (ases (block_state b s)) \<Longrightarrow> places_same (links s) (links (put_block b a s))"
  by (cases "b < length (links s)")
    (auto simp: places_same_def put_block_def block_state_def map_update list_update_same_conv list_update_beyond)

lemma put_block_nth:
  "length (links (put_block b a s)) = length (links s)"
  "c < length (links s) \<Longrightarrow> links (put_block b a s) ! c = (if c = b then (links s ! b)\<lparr>local_ase_data := ases a\<rparr> else links s ! c)"
  by (auto simp: put_block_def nth_list_update)

lemma machine_put:
  assumes "b < length (links s) \<Longrightarrow> j < length (ases a) \<Longrightarrow> ase_machine env ev b j (ases (block_state b s) ! j) (ases a ! j)"
    "length (ases a) = length (ases (block_state b s))" "\<And>i. i \<noteq> j \<Longrightarrow> ases a ! i = ases (block_state b s) ! i"
  shows "machine_steps env ev (links s) (links (put_block b a s))"
proof -
  have "ase_machine env ev b i (local_ase_data (links s ! b) ! i) (ases a ! i)" if "i < length (ases a)" "b < length (links s)" for i
    using assms(1) assms(3) [of i] that by (cases "i = j") (auto simp: block_state_def intro: stays)
  with assms(2) show ?thesis
    by (auto simp: machine_steps_def put_block_nth block_state_def ase_at_def intro: stays)
qed

lemma written_machine:
  assumes "streams_step env bis (WRITTEN b ps) s s'" "list_all block_ok (links s)"
  shows "machine_steps env (WRITTEN b ps) (links s) (links s')"
proof -
  from assms(1) obtain r a where w: "s' = put_block b a s" "b < length (links s)" "in_use (links s ! b)"
    "lehs_ascs_handle_write_req_evt env (conn_id (links s ! b)) ps (int (length ps)) (block_state b s) = Some (r, a)"
    by (auto elim: control_pointE)
  have "ase_table_ok (ases (block_state b s))"
    using w(2,3) assms(2) by (simp add: block_state_def list_all_length block_ok_def)
  from write_request_request [OF this w(4)] show ?thesis
    by (auto simp: w(1) machine_steps_def put_block_nth block_state_def ase_at_def list_all2_conv_all_nth
        intro: stays requested)
qed

lemma connection_machine: "places_same (links s) (links (lehs_cis_handle_connection env p t s))"
proof -
  have "map ase_place (ases (cis_connected_ase env h t j a)) = map ase_place (ases a)" for h j a
    by (auto simp: cis_connected_ase_def Let_def ase_place_def intro!: map_upd_same split: prod.splits)
  then show ?thesis
    by (auto simp: lehs_cis_handle_connection_def places_same_def [of "links s" "links s"] intro!: places_same_put split: option.splits)
qed

lemma disconnection_machine:
  assumes "lehs_cis_handle_disconnection env cig cis t s = Some s'" "b < length (links s)" "j < length (local_ase_data (links s ! b))"
  shows "ase_at (links s') b j = ase_at (links s) b j \<or> carries cig cis t (ase_at (links s) b j) \<and>
    ase_identity (ase_at (links s') b j) = ase_identity (ase_at (links s) b j) \<and>
    ase_state (ase (ase_at (links s') b j)) = cis_down t (ase_state (ase (ase_at (links s) b j)))"
proof (cases "lehs_find_ase_with_cis_id cig cis t (links s)")
  case None
  with assms(1) show ?thesis by (simp add: lehs_cis_handle_disconnection_def)
next
  case (Some p)
  obtain b1 j1 where p: "p = (b1, j1)" by (cases p)
  note f = Some [unfolded p]
  obtain d' where d': "links s' = set_ase_at b1 j1 d' (links s)" "ase_identity d' = ase_identity (ase_at (links s) b1 j1)"
    "ase_state (ase d') = cis_down t (ase_state (ase (ase_at (links s) b1 j1)))"
    using disconnection_found [OF f, of env] assms(1) by (metis option.inject)
  show ?thesis
    using find_ase_carries [OF f] d'(2,3) by (simp add: d'(1) ase_at_set find_ase_place(1,2) [OF f])
qed

lemma disconnection_lengths:
  assumes "lehs_cis_handle_disconnection env cig cis t s = Some s'"
  shows "map (\<lambda>c. length (local_ase_data c)) (links s') = map (\<lambda>c. length (local_ase_data c)) (links s)"
proof -
  have "identities s' = identities s" using disconnection_result [of env cig cis t s] assms by (auto simp: streams_kept_def)
  then have "map (map (\<lambda>x. ())) (identities s') = map (map (\<lambda>x. ())) (identities s)" by simp
  then show ?thesis
    by (simp add: identities_def comp_def list_eq_iff_nth_eq map_replicate_const)
qed

lemma lost_machine:
  assumes "lehs_isoc_event_handler env bis (CIS_DISCONNECTED_EVT cig cis) s = Some s'"
  shows "machine_steps env (HAPPENED (CIS_DISCONNECTED_EVT cig cis)) (links s) (links s')"
proof -
  obtain u where u: "lehs_cis_handle_disconnection env cig cis ASCS_CHARACTERISTIC_SNK_ASE s = Some u"
    "lehs_cis_handle_disconnection env cig cis ASCS_CHARACTERISTIC_SRC_ASE u = Some s'"
    using assms by (auto simp: bind_eq_Some_conv)
  note len = disconnection_lengths [OF u(1)] disconnection_lengths [OF u(2)]
  have "ase_machine env (HAPPENED (CIS_DISCONNECTED_EVT cig cis)) b j (ase_at (links s) b j) (ase_at (links s') b j)"
    if "b < length (links s)" "j < length (local_ase_data (links s ! b))" for b j
  proof -
    have that': "b < length (links u)" "j < length (local_ase_data (links u ! b))"
      using that len(1) by (auto simp: list_eq_iff_nth_eq)
    note one = disconnection_machine [OF u(1) that] and two = disconnection_machine [OF u(2) that']
    show ?thesis
    proof (cases "ase_at (links u) b j = ase_at (links s) b j")
      case True
      with two show ?thesis by (auto intro: stays stream_lost)
    next
      case False
      with one have c: "carries cig cis ASCS_CHARACTERISTIC_SNK_ASE (ase_at (links s) b j)"
        "ase_identity (ase_at (links u) b j) = ase_identity (ase_at (links s) b j)"
        "ase_state (ase (ase_at (links u) b j)) = cis_down ASCS_CHARACTERISTIC_SNK_ASE (ase_state (ase (ase_at (links s) b j)))"
        by auto
      then have "ase_type (ase (ase_at (links u) b j)) = ASCS_CHARACTERISTIC_SNK_ASE"
        using ase_identity_type [OF c(2)] by (simp add: carries_def)
      with two have "ase_at (links s') b j = ase_at (links u) b j" by (auto simp: carries_def)
      with c show ?thesis by (auto intro: stream_lost)
    qed
  qed
  moreover have "length (links s') = length (links s)" using len by (metis length_map)
  moreover have "length (local_ase_data (links s' ! b)) = length (local_ase_data (links s ! b))" if "b < length (links s)" for b
    using len that by (auto simp: list_eq_iff_nth_eq)
  ultimately show ?thesis by (simp add: machine_steps_def)
qed

lemma path_ready_ases:
  assumes "path_ready_ase env cid j a = Some a'"
  shows "ases a' = (ases a)[j := (let d = (ases a ! j)\<lparr>data_path_established := True\<rparr>
    in if ase_type (ase d) = ASCS_CHARACTERISTIC_SNK_ASE \<and> ase_state (ase d) = STATE_ENABLING then set_ase_state STATE_STREAMING d else d)]"
proof -
  obtain f where "\<And>c a. ga_lib_ascs_notify_ase_state env c j a = Some (f c a)" "\<And>c a. ases (f c a) = ases a"
    using notify_total [of env j] by blast
  with assms show ?thesis
    by (cases "j < length (ases a)") (auto simp: path_ready_ase_def Let_def list_update_beyond split: if_splits)
qed

lemma data_path_machine:
  assumes "lehs_cis_handle_data_path_setup env h p s = Some s'"
  shows "machine_steps env (HAPPENED (DATA_PATH_SETUP_EVT False h p)) (links s) (links s')"
proof (cases "lehs_get_ase_app_data_ptr_by_cis_conn_hdl env h (links s)")
  case None
  with assms show ?thesis by (simp add: lehs_cis_handle_data_path_setup_def places_same_steps places_same_def)
next
  case (Some r)
  obtain b j where p: "p = (b, j)" by (cases p)
  with assms Some obtain c a where a: "path_ready_ase env c j (block_state b s) = Some a" "s' = put_block b a s"
    by (auto simp: lehs_cis_handle_data_path_setup_def bind_eq_Some_conv split: prod.splits)
  note as = path_ready_ases [OF a(1)]
  show ?thesis unfolding a(2) p
  proof (rule machine_put)
    show "ase_machine env (HAPPENED (DATA_PATH_SETUP_EVT False h (b, j))) b j (ases (block_state b s) ! j) (ases a ! j)"
      if "j < length (ases a)"
    proof (cases "ase_type (ase (ases (block_state b s) ! j)) = ASCS_CHARACTERISTIC_SNK_ASE \<and> ase_state (ase (ases (block_state b s) ! j)) = STATE_ENABLING")
      case True
      with that show ?thesis by (intro path_ready) (auto simp: as Let_def set_ase_state_def ase_identity_def)
    next
      case False
      with that show ?thesis by (intro stays) (auto simp: as Let_def ase_place_def)
    qed
  qed (simp_all add: as)
qed

lemma step_machine:
  assumes "streams_step env bis ev s s'" "list_all block_ok (links s)"
  shows "machine_steps env ev (links s) (links s')"
  using assms(1)
proof cases
  case (control_point b ps r a)
  with written_machine [OF _ assms(2)] assms(1) show ?thesis by simp
next
  case (isoc_event e)
  note same = places_same_steps [of "links s" "links s'" env ev]
  show ?thesis
  proof (cases e)
    case (CIS_REQUEST_EVT p)
    have "places_same (links s) (links (snd (set_conn_on_ase_id p t s)))" for t
      by (auto simp: set_conn_on_ase_id_def places_same_def [of "links s" "links s"] ase_place_def
          intro!: places_same_put map_upd_same split: option.splits)
    moreover have "links s' = links (snd (set_conn_on_ase_id p ASCS_CHARACTERISTIC_SNK_ASE s))"
      using CIS_REQUEST_EVT isoc_event by (auto simp: emit_def)
    ultimately show ?thesis using same by metis
  next
    case (CIS_ESTABLISHED_EVT f p)
    with isoc_event same places_same_trans [OF connection_machine connection_machine] show ?thesis
      by (auto simp: places_same_def split: if_splits)
  next
    case (CIS_DISCONNECTED_EVT cig cis)
    with isoc_event lost_machine show ?thesis by simp
  next
    case (DATA_PATH_SETUP_EVT f h p)
    with isoc_event same data_path_machine [of env h p s s'] show ?thesis
      by (auto simp: places_same_def emit_def split: if_splits)
  qed (use isoc_event same in \<open>auto simp: places_same_def emit_def\<close>)
qed

section \<open>Properties\<close>

text \<open>C18: however control point writes of the connections and events of the isochronous stack interleave, whatever the stack answers: in
  every state that is reached the connections in use have their table of ASEs, no sink ASE is Disabling, and whatever comes
  next moves each ASE only as the state machine allows: by the opcode written on its own connection, down when the stream it is
  configured for is lost, or from Enabling to Streaming when its own data path is ready and it is a sink.\<close>

theorem unicast_streams_invariant:
  assumes "(\<lambda>s s'. \<exists>env bis ev. streams_step env bis ev s s')\<^sup>*\<^sup>* s0 s" "list_all block_ok (links s0)" "streams_step env bis ev s s'"
  shows "list_all block_ok (links s) \<and> list_all block_ok (links s') \<and> identities s' = identities s0 \<and>
    machine_steps env ev (links s) (links s')"
proof -
  from assms(1,2) have reached: "list_all block_ok (links s) \<and> identities s = identities s0"
  proof (induction rule: rtranclp_induct)
    case (step s1 s2)
    then show ?case using streams_step_kept by (auto simp: streams_kept_def)
  qed simp
  with streams_step_kept [OF assms(3)] step_machine [OF assms(3)] show ?thesis by (simp add: streams_kept_def)
qed

text \<open>C19: when a CIS is lost the sink ASE and the source ASE configured with its identifiers are taken down, and no other ASE is
  touched: the event is always handled, the ASE neither streams nor is releasing afterwards, it keeps its identity and its data
  path is marked removed. Where two ASEs of a direction have the same identifiers, which two centrals may choose, it is the
  first, in the order of the connections, that is taken down.\<close>

theorem cis_disconnection:
  assumes "t \<in> {ASCS_CHARACTERISTIC_SNK_ASE, ASCS_CHARACTERISTIC_SRC_ASE}"
    "b < length (links s)" "j < length (local_ase_data (links s ! b))" "carries cig cis t (ase_at (links s) b j)"
    "\<And>i. i < j \<Longrightarrow> \<not> carries cig cis t (ase_at (links s) b i)"
    "\<And>c i. c < b \<Longrightarrow> i < length (local_ase_data (links s ! c)) \<Longrightarrow> \<not> carries cig cis t (ase_at (links s) c i)"
  shows "\<exists>s'. lehs_isoc_event_handler env bis (CIS_DISCONNECTED_EVT cig cis) s = Some s' \<and>
    ase_state (ase (ase_at (links s') b j)) = cis_down t (ase_state (ase (ase_at (links s) b j))) \<and>
    ase_identity (ase_at (links s') b j) = ase_identity (ase_at (links s) b j) \<and> \<not> data_path_established (ase_at (links s') b j) \<and>
    (\<forall>c i. (c, i) \<noteq> (b, j) \<and> ase_type (ase (ase_at (links s) c i)) = t \<longrightarrow> ase_at (links s') c i = ase_at (links s) c i)"
proof -
  let ?SNK = ASCS_CHARACTERISTIC_SNK_ASE and ?SRC = ASCS_CHARACTERISTIC_SRC_ASE
  have f: "lehs_find_ase_with_cis_id cig cis t (links s) = Some (b, j)" using find_ase_with_cis_id_first assms(2-) by blast
  obtain s1 where s1: "lehs_cis_handle_disconnection env cig cis ?SNK s = Some s1" using disconnection_result by blast
  obtain s2 where s2: "lehs_cis_handle_disconnection env cig cis ?SRC s1 = Some s2" using disconnection_result by blast
  have ne: "?SNK \<noteq> ?SRC" by simp
  have "ase_state (ase (ase_at (links s2) b j)) = cis_down t (ase_state (ase (ase_at (links s) b j))) \<and>
    ase_identity (ase_at (links s2) b j) = ase_identity (ase_at (links s) b j) \<and> \<not> data_path_established (ase_at (links s2) b j) \<and>
    (\<forall>c i. (c, i) \<noteq> (b, j) \<and> ase_type (ase (ase_at (links s) c i)) = t \<longrightarrow> ase_at (links s2) c i = ase_at (links s) c i)"
  proof (cases "t = ?SNK")
    case True
    obtain d' where d': "links s1 = set_ase_at b j d' (links s)" "ase_identity d' = ase_identity (ase_at (links s) b j)"
      "\<not> data_path_established d'" "ase_state (ase d') = cis_down t (ase_state (ase (ase_at (links s) b j)))"
      using disconnection_found [OF f, of env] s1 True by (metis option.inject)
    have at: "ase_at (links s1) c i = (if c = b \<and> i = j then d' else ase_at (links s) c i)" for c i
      by (simp add: d'(1) ase_at_set assms(2,3))
    have "ase_type (ase d') = t" using ase_identity_type [OF d'(2)] assms(4) by (simp add: carries_def)
    then have "ase_at (links s2) c i = ase_at (links s1) c i" if "ase_type (ase (ase_at (links s) c i)) = t" for c i
      by (intro disconnection_other(2) [OF s2 ne]) (use True that at in auto)
    with d' at assms(4) show ?thesis by (auto simp: carries_def)
  next
    case False
    with assms(1) have t: "t = ?SRC" by simp
    have f1: "lehs_find_ase_with_cis_id cig cis ?SRC (links s1) = Some (b, j)"
      using disconnection_other(1) [OF s1 ne [symmetric]] f t by simp
    have p: "ase_at (links s1) c i = ase_at (links s) c i" if "ase_type (ase (ase_at (links s) c i)) = ?SRC" for c i
      by (rule disconnection_other(2) [OF s1 ne [symmetric] that])
    obtain d' where d': "links s2 = set_ase_at b j d' (links s1)" "ase_identity d' = ase_identity (ase_at (links s1) b j)"
      "\<not> data_path_established d'" "ase_state (ase d') = cis_down ?SRC (ase_state (ase (ase_at (links s1) b j)))"
      using disconnection_found [OF f1, of env] s2 by (metis option.inject)
    then show ?thesis using find_ase_place(1,2) [OF f1] p assms(4) t by (auto simp: ase_at_set carries_def)
  qed
  then show ?thesis using s1 s2 by simp
qed

text \<open>The example: a sink and a source ASE streaming on CIS 1 of CIG 1, for the first of two connections.\<close>

definition example_cis_ase :: "u16 \<Rightarrow> lehs_ase_data \<Rightarrow> lehs_ase_data" where
  "example_cis_ase h d = d\<lparr>cis_conn_handle := h, data_path_established := True,
     ase := (ase d)\<lparr>ase_state := STATE_STREAMING, qos_configured := zero_qos\<lparr>cig_id := 1, cis_id := 1\<rparr>\<rparr>\<rparr>"

definition example_streams :: lehs_streams where
  "example_streams = (let ds = lehs_init_local_ase_data 64
     in \<lparr>links = [zero_clcb\<lparr>in_use := True, conn_id := 5,
            local_ase_data := [example_cis_ase 9 (ds ! 0), ds ! 1, example_cis_ase 9 (ds ! 2)]\<rparr>, zero_clcb],
         path_audio = example_audio, log = []\<rparr>)"

lemma example_streams_ok: "list_all block_ok (links example_streams)"
  by (simp add: example_streams_def block_ok_def ase_state_ok_def ase_table_ok_def lehs_ases_def lehs_init_local_ase_data_def
      init_ase_def example_cis_ase_def zero_clcb_def zero_ase_data_def zero_ase_def Let_def numeral_3_eq_3)

lemma example_streams_found:
  "lehs_find_ase_with_cis_id 1 1 ASCS_CHARACTERISTIC_SRC_ASE (links example_streams) = Some (0, 2)"
  by (simp add: example_streams_def lehs_find_ase_with_cis_id_def lehs_ases_def lehs_init_local_ase_data_def init_ase_def
      example_cis_ase_def zero_ase_data_def zero_ase_def zero_qos_def Let_def)

theorem unicast_streams_invariant_witness:
  "\<exists>s'. streams_step example_ascs_env (\<lambda>_. False) (HAPPENED (CIS_DISCONNECTED_EVT 1 1)) example_streams s' \<and> list_all block_ok (links s') \<and>
     machine_steps example_ascs_env (HAPPENED (CIS_DISCONNECTED_EVT 1 1)) (links example_streams) (links s')"
proof -
  obtain s' where "lehs_isoc_event_handler example_ascs_env (\<lambda>_. False) (CIS_DISCONNECTED_EVT 1 1) example_streams = Some s'"
    using isoc_event_result by blast
  then have st: "streams_step example_ascs_env (\<lambda>_. False) (HAPPENED (CIS_DISCONNECTED_EVT 1 1)) example_streams s'" by (rule isoc_event)
  from unicast_streams_invariant [OF rtranclp.rtrancl_refl example_streams_ok this] st show ?thesis by blast
qed

theorem cis_disconnection_witness:
  "\<exists>s'. lehs_isoc_event_handler example_ascs_env (\<lambda>_. False) (CIS_DISCONNECTED_EVT 1 1) example_streams = Some s' \<and>
    ase_state (ase (ase_at (links s') 0 2)) = STATE_DISABLING"
proof -
  have ex: "links example_streams = [zero_clcb\<lparr>in_use := True, conn_id := 5, local_ase_data :=
      [example_cis_ase 9 (lehs_init_local_ase_data 64 ! 0), lehs_init_local_ase_data 64 ! 1, example_cis_ase 9 (lehs_init_local_ase_data 64 ! 2)]\<rparr>, zero_clcb]"
    by (simp add: example_streams_def Let_def)
  have two: "(i :: nat) < 2 \<Longrightarrow> i = 0 \<or> i = 1" for i by auto
  have c: "carries 1 1 ASCS_CHARACTERISTIC_SRC_ASE (ase_at (links example_streams) 0 2)"
    "i < 2 \<Longrightarrow> \<not> carries 1 1 ASCS_CHARACTERISTIC_SRC_ASE (ase_at (links example_streams) 0 i)" for i
    by (auto dest!: two simp: ex ase_at_def carries_def example_cis_ase_def zero_qos_def lehs_init_local_ase_data_def lehs_ases_def
        init_ase_def zero_ase_data_def zero_ase_def)
  have "ase_state (ase (ase_at (links example_streams) 0 2)) = STATE_STREAMING"
    by (simp add: ex ase_at_def example_cis_ase_def)
  with cis_disconnection [of ASCS_CHARACTERISTIC_SRC_ASE 0 example_streams 2 1 1 example_ascs_env "\<lambda>_. False"] c
  show ?thesis by (auto simp: ex cis_down_def)
qed

text \<open>The CIG and CIS of an event are those its central chose, but the link of the event is not compared: with an
  ASE of the first connection on the same identifiers the request of a second central gives the CIS to the first
  connection, and the ASE of the second gets none.\<close>

theorem second_central_ignored:
  assumes "lehs_find_ase_with_cis_id (w_cig_id p) (w_cis_id p) ASCS_CHARACTERISTIC_SNK_ASE (take 1 (links s)) = Some (0, j)"
    "1 < length (links s)"
  shows "\<exists>s'. lehs_isoc_event_handler env bis (CIS_REQUEST_EVT p) s = Some s' \<and>
    cis_conn_handle (local_ase_data (links s' ! 0) ! j) = w_cis_conn_handle p \<and> links s' ! 1 = links s ! 1"
proof -
  obtain c cs where c: "links s = c # cs" using assms(2) by (cases "links s") auto
  note p = find_ase_place [OF assms(1)]
  have "lehs_find_ase_with_cis_id (w_cig_id p) (w_cis_id p) ASCS_CHARACTERISTIC_SNK_ASE (links s) = Some (0, j)"
    using assms(1) unfolding c by (simp add: lehs_find_ase_with_cis_id_def split: option.splits)
  then show ?thesis
    using p(2) c by (simp add: set_conn_on_ase_id_def put_block_def emit_def block_state_def)
qed

theorem second_central_ignored_witness:
  "\<exists>s'. lehs_isoc_event_handler example_ascs_env (\<lambda>_. False)
      (CIS_REQUEST_EVT \<lparr>w_cig_id = 1, w_cis_id = 1, w_cis_conn_handle = 0x70, w_acl_conn_handle = 65\<rparr>) example_streams = Some s' \<and>
    cis_conn_handle (local_ase_data (links s' ! 0) ! 0) = 0x70 \<and> links s' ! 1 = links example_streams ! 1"
proof -
  have "lehs_find_ase_with_cis_id 1 1 ASCS_CHARACTERISTIC_SNK_ASE (take 1 (links example_streams)) = Some (0, 0)"
    "1 < length (links example_streams)"
    by (simp_all add: example_streams_def lehs_find_ase_with_cis_id_def lehs_ases_def lehs_init_local_ase_data_def init_ase_def
      example_cis_ase_def zero_ase_data_def zero_ase_def zero_qos_def Let_def)
  then show ?thesis
    using second_central_ignored [of "\<lparr>w_cig_id = 1, w_cis_id = 1, w_cis_conn_handle = 0x70, w_acl_conn_handle = 65\<rparr>" example_streams 0]
    by simp
qed

end
