(* ===== verification/Bass_Lib.thy ===== *)
theory Bass_Lib
  imports Bap Gatt_Intf
begin

text \<open>
  The library of the broadcast audio scan service, \<open>ga_lib_bass.c\<close>: the control point requests with their validation and
  reader, and the value of a receive state. Device addresses are lists of six octets, most significant first.
\<close>

section \<open>Requests\<close>

abbreviation (input) GA_LIB_BASS_MAX_SUBGROUP_COUNT :: nat where "GA_LIB_BASS_MAX_SUBGROUP_COUNT \<equiv> 4"
abbreviation (input) GA_LIB_BASS_MAX_ADV_SID :: u8 where "GA_LIB_BASS_MAX_ADV_SID \<equiv> 0x0F"
abbreviation (input) GA_LIB_BASS_BIS_INDEX_MASK :: u32 where "GA_LIB_BASS_BIS_INDEX_MASK \<equiv> 0x7FFF"
abbreviation (input) GA_LIB_BASS_PA_NO_SYNC :: u8 where "GA_LIB_BASS_PA_NO_SYNC \<equiv> 0"
abbreviation (input) GA_LIB_BASS_PA_SYNC_USING_PAST :: u8 where "GA_LIB_BASS_PA_SYNC_USING_PAST \<equiv> 1"
abbreviation (input) GA_LIB_BASS_PA_SYNC_NO_PAST :: u8 where "GA_LIB_BASS_PA_SYNC_NO_PAST \<equiv> 2"
abbreviation (input) GA_LIB_BASS_PA_NOT_SYNC :: u8 where "GA_LIB_BASS_PA_NOT_SYNC \<equiv> 0"
abbreviation (input) GA_LIB_BASS_PA_SYNC_INFO_REQUEST :: u8 where "GA_LIB_BASS_PA_SYNC_INFO_REQUEST \<equiv> 1"
abbreviation (input) GA_LIB_BASS_PA_SYNC :: u8 where "GA_LIB_BASS_PA_SYNC \<equiv> 2"
abbreviation (input) GA_LIB_BASS_PA_FAILED_SYNC :: u8 where "GA_LIB_BASS_PA_FAILED_SYNC \<equiv> 3"
abbreviation (input) GA_LIB_BASS_BIG_NOT_ENCRYPTED :: u8 where "GA_LIB_BASS_BIG_NOT_ENCRYPTED \<equiv> 0"
abbreviation (input) GA_LIB_BASS_BIG_BROADCAST_CODE_REQUIRED :: u8 where "GA_LIB_BASS_BIG_BROADCAST_CODE_REQUIRED \<equiv> 1"
abbreviation (input) GA_LIB_BASS_BIG_DECRPTING :: u8 where "GA_LIB_BASS_BIG_DECRPTING \<equiv> 2"
abbreviation (input) GA_LIB_BASS_BIG_BAD_BROADCAST_CODE :: u8 where "GA_LIB_BASS_BIG_BAD_BROADCAST_CODE \<equiv> 3"
abbreviation (input) GA_LIB_BASS_OP_REMOTE_SCAN_STOPPED :: u8 where "GA_LIB_BASS_OP_REMOTE_SCAN_STOPPED \<equiv> 0"
abbreviation (input) GA_LIB_BASS_OP_REMOTE_SCAN_STARTED :: u8 where "GA_LIB_BASS_OP_REMOTE_SCAN_STARTED \<equiv> 1"
abbreviation (input) GA_LIB_BASS_OP_ADD_SOURCE :: u8 where "GA_LIB_BASS_OP_ADD_SOURCE \<equiv> 2"
abbreviation (input) GA_LIB_BASS_OP_MODIFY_SOURCE :: u8 where "GA_LIB_BASS_OP_MODIFY_SOURCE \<equiv> 3"
abbreviation (input) GA_LIB_BASS_OP_SET_BROADCAST_CODE :: u8 where "GA_LIB_BASS_OP_SET_BROADCAST_CODE \<equiv> 4"
abbreviation (input) GA_LIB_BASS_OP_REMOVE_SOURCE :: u8 where "GA_LIB_BASS_OP_REMOVE_SOURCE \<equiv> 5"
abbreviation (input) GA_LIB_BASS_ERROR_OPCODE_NOT_SUPPORTED :: gatt_status where
  "GA_LIB_BASS_ERROR_OPCODE_NOT_SUPPORTED \<equiv> GATT_APPLICATION 0x80"
abbreviation (input) GA_LIB_BASS_ERROR_INVALID_SOURCE_ID :: gatt_status where
  "GA_LIB_BASS_ERROR_INVALID_SOURCE_ID \<equiv> GATT_APPLICATION 0x81"
abbreviation (input) BD_ADDR_LEN :: nat where "BD_ADDR_LEN \<equiv> 6"
abbreviation (input) BAP_BROADCAST_CODE_SIZE :: nat where "BAP_BROADCAST_CODE_SIZE \<equiv> 16"

record ga_lib_bass_sub_group_data =
  bis_sync_state :: u32
  bass_meta_data :: ga_lib_ascs_metadata

record ga_lib_bass_common_source_data =
  pa_sync_param :: u8
  pa_interval :: u16
  src_num_subgroup :: u8
  src_sub_groups :: "ga_lib_bass_sub_group_data list"

record ga_lib_bass_add_source =
  add_addr_type :: u8
  add_bda :: "u8 list"
  add_adv_sid :: u8
  add_broadcast_id :: u32
  add_src_data :: ga_lib_bass_common_source_data

record ga_lib_bass_modify_source =
  modify_source_id :: u8
  modify_src_data :: ga_lib_bass_common_source_data

record ga_lib_bass_set_broadcast_code =
  code_source_id :: u8
  set_code :: "u8 list"

text \<open>The opcode with the member of the union it selects.\<close>

datatype ga_lib_bass_operation =
    REMOTE_SCAN_STOPPED
  | REMOTE_SCAN_STARTED
  | ADD_SOURCE ga_lib_bass_add_source
  | MODIFY_SOURCE ga_lib_bass_modify_source
  | SET_BROADCAST_CODE ga_lib_bass_set_broadcast_code
  | REMOVE_SOURCE u8

section \<open>Validation\<close>

fun validate_subgroups :: "nat \<Rightarrow> cursor \<Rightarrow> u16 \<Rightarrow> bool option" where
  "validate_subgroups 0 p len = Some (len = 0)"
| "validate_subgroups (Suc n) p len =
     (if len < 5 then Some False
      else do {
        (metadata_len, p) \<leftarrow> rd8 (skip 4 p);
        let len = len - 4 - 1;
        if len < ucast metadata_len then Some False
        else validate_subgroups n (skip (unat metadata_len) p) (len - ucast metadata_len) })"

definition bass_validate_num_subgroup_len :: "cursor \<Rightarrow> u16 \<Rightarrow> bool option" where
  "bass_validate_num_subgroup_len p len = do {
     (num, p) \<leftarrow> rd8 p;
     validate_subgroups (unat num) p (len - 1) }"

definition bass_validate_opcode_length :: "cursor \<Rightarrow> u8 \<Rightarrow> u16 \<Rightarrow> bool option" where
  "bass_validate_opcode_length p opcode len =
     (if opcode > GA_LIB_BASS_OP_REMOVE_SOURCE then Some False
      else if opcode = GA_LIB_BASS_OP_REMOTE_SCAN_STOPPED \<or> opcode = GA_LIB_BASS_OP_REMOTE_SCAN_STARTED then Some (len = 0)
      else if opcode = GA_LIB_BASS_OP_ADD_SOURCE
      then if len < 15 then Some False else bass_validate_num_subgroup_len (skip 14 p) (len - 15 + 1)
      else if opcode = GA_LIB_BASS_OP_MODIFY_SOURCE
      then if len < 5 then Some False else bass_validate_num_subgroup_len (skip 4 p) (len - 5 + 1)
      else if opcode = GA_LIB_BASS_OP_SET_BROADCAST_CODE then Some (len = 17)
      else Some (len = 1))"

section \<open>Reading a request\<close>

text \<open>
  The parameters are read over what the memory held, the argument \<open>old\<close>: no subgroup, no write to the first entry. The
  metadata are looked at but not stepped over; a second subgroup is read from where they begin. Two subgroups with the
  same streams are refused, also two without any.
\<close>

fun common_subgroups :: "nat \<Rightarrow> nat \<Rightarrow> cursor \<Rightarrow> ga_lib_bass_sub_group_data list \<Rightarrow> (bool \<times> ga_lib_bass_sub_group_data list) option" where
  "common_subgroups i 0 p gs = Some (True, gs)"
| "common_subgroups i (Suc n) p gs = do {
     (sync, p) \<leftarrow> rd32 p;
     (metadata_length, p) \<leftarrow> rd8 p;
     let gs = gs[i := (gs ! i)\<lparr>bis_sync_state := sync\<rparr>];
     if \<exists>x\<in>set (take i gs). bis_sync_state x AND GA_LIB_BASS_BIS_INDEX_MASK = sync AND GA_LIB_BASS_BIS_INDEX_MASK
     then Some (False, gs)
     else do {
       (_, md, _) \<leftarrow> ga_lib_bap_get_metadata (fst p) (uint metadata_length) (bass_meta_data (gs ! i)) zero_sts;
       common_subgroups (Suc i) n p (gs[i := (gs ! i)\<lparr>bass_meta_data := md\<rparr>]) } }"

definition bass_parse_common_param ::
  "ga_lib_bass_common_source_data \<Rightarrow> cursor \<Rightarrow> (bool \<times> ga_lib_bass_common_source_data) option" where
  "bass_parse_common_param old p = do {
     (sync, p) \<leftarrow> rd8 p;
     (interval, p) \<leftarrow> rd16 p;
     (num, p) \<leftarrow> rd8 p;
     let src = old\<lparr>pa_sync_param := sync, pa_interval := interval, src_num_subgroup := num\<rparr>;
     if sync > GA_LIB_BASS_PA_SYNC_NO_PAST then Some (False, src)
     else do {
       (ok, gs) \<leftarrow> common_subgroups 0 (min (unat num) GA_LIB_BASS_MAX_SUBGROUP_COUNT) p (src_sub_groups src);
       Some (ok, src\<lparr>src_sub_groups := gs\<rparr>) } }"

definition parse_add_source :: "ga_lib_bass_common_source_data \<Rightarrow> cursor \<Rightarrow> (bool \<times> ga_lib_bass_add_source) option" where
  "parse_add_source old p = do {
     (type, p) \<leftarrow> rd8 p;
     (bda, p) \<leftarrow> rd_arr BD_ADDR_LEN p;
     (sid, p) \<leftarrow> rd8 p;
     (br_id, p) \<leftarrow> rd24 p;
     if sid > GA_LIB_BASS_MAX_ADV_SID \<or> type > 1
     then Some (False, \<lparr>add_addr_type = type, add_bda = rev bda, add_adv_sid = sid, add_broadcast_id = br_id, add_src_data = old\<rparr>)
     else do {
       (ok, src) \<leftarrow> bass_parse_common_param old p;
       Some (ok, \<lparr>add_addr_type = type, add_bda = rev bda, add_adv_sid = sid, add_broadcast_id = br_id, add_src_data = src\<rparr>) } }"

text \<open>The answer is an error, or success with the operation.\<close>

definition ga_lib_bass_parse_control_point_data ::
  "ga_lib_bass_common_source_data \<Rightarrow> u8 list \<Rightarrow> u16 \<Rightarrow> (gatt_status + ga_lib_bass_operation) option" where
  "ga_lib_bass_parse_control_point_data old data total_len = do {
     (opcode, p) \<leftarrow> rd8 (start data);
     if opcode > GA_LIB_BASS_OP_REMOVE_SOURCE then Some (Inl GA_LIB_BASS_ERROR_OPCODE_NOT_SUPPORTED)
     else do {
       valid \<leftarrow> bass_validate_opcode_length p opcode (total_len - 1);
       if \<not> valid then Some (Inl GATT_WRITE_REQ_REJECTED)
       else if opcode = GA_LIB_BASS_OP_ADD_SOURCE then do {
         (ok, x) \<leftarrow> parse_add_source old p;
         Some (if ok then Inr (ADD_SOURCE x) else Inl GATT_WRITE_REQ_REJECTED) }
       else if opcode = GA_LIB_BASS_OP_MODIFY_SOURCE then do {
         (sid, p) \<leftarrow> rd8 p;
         (ok, src) \<leftarrow> bass_parse_common_param old p;
         Some (if ok then Inr (MODIFY_SOURCE \<lparr>modify_source_id = sid, modify_src_data = src\<rparr>) else Inl GATT_WRITE_REQ_REJECTED) }
       else if opcode = GA_LIB_BASS_OP_SET_BROADCAST_CODE then do {
         (sid, p) \<leftarrow> rd8 p;
         (code, p) \<leftarrow> rd_arr BAP_BROADCAST_CODE_SIZE p;
         Some (Inr (SET_BROADCAST_CODE \<lparr>code_source_id = sid, set_code = rev code\<rparr>)) }
       else if opcode = GA_LIB_BASS_OP_REMOVE_SOURCE then do {
         (sid, _) \<leftarrow> rd8 p;
         Some (Inr (REMOVE_SOURCE sid)) }
       else Some (Inr (if opcode = GA_LIB_BASS_OP_REMOTE_SCAN_STOPPED then REMOTE_SCAN_STOPPED else REMOTE_SCAN_STARTED)) } }"

section \<open>Receive states\<close>

text \<open>\<open>sub_group_data\<close> is \<open>NULL\<close> or the array next to the receive state: the flag says which.\<close>

record ga_lib_bass_receive_state =
  source_id :: u8
  source_addr_type :: u8
  source_bda :: "u8 list"
  adv_sid :: u8
  recv_broadcast_id :: u32
  pa_sync_state :: u8
  big_encryption_state :: u8
  recv_broadcast_code :: "u8 list"
  num_subgroup :: u8
  has_sub_group_data :: bool

record lehs_bass_data =
  is_used :: bool
  bass_conn_id :: u16
  waiting_broadcast_code :: bool
  bass_sync_handle :: u16
  bis_index_bits :: u32
  recv_state :: ga_lib_bass_receive_state
  bass_sub_group :: "ga_lib_bass_sub_group_data list"

definition zero_sub_group_data :: ga_lib_bass_sub_group_data where
  "zero_sub_group_data = \<lparr>bis_sync_state = 0, bass_meta_data = zero_metadata\<rparr>"

definition zero_recv_state :: ga_lib_bass_receive_state where
  "zero_recv_state = \<lparr>source_id = 0, source_addr_type = 0, source_bda = replicate BD_ADDR_LEN 0, adv_sid = 0,
     recv_broadcast_id = 0, pa_sync_state = 0, big_encryption_state = 0, recv_broadcast_code = replicate BAP_BROADCAST_CODE_SIZE 0,
     num_subgroup = 0, has_sub_group_data = False\<rparr>"

definition zero_bass_data :: lehs_bass_data where
  "zero_bass_data = \<lparr>is_used = False, bass_conn_id = 0, waiting_broadcast_code = False, bass_sync_handle = 0, bis_index_bits = 0,
     recv_state = zero_recv_state, bass_sub_group = replicate GA_LIB_BASS_MAX_SUBGROUP_COUNT zero_sub_group_data\<rparr>"

text \<open>
  The value of a receive state. An identifier of 0 with an address structure whose first six octets are 0 is an empty
  value; \<open>addr_octets\<close> is the memory of the SDK's address structure. \<open>num_subgroup\<close> entries are read, whatever the array holds.
\<close>

fun subgroup_octets :: "int \<Rightarrow> ga_lib_bass_sub_group_data list \<Rightarrow> u8 list \<Rightarrow> u8 list option" where
  "subgroup_octets max_len [] out = Some out"
| "subgroup_octets max_len (g # gs) out = do {
     let out = out @ b32 (bis_sync_state g);
     md \<leftarrow> ga_lib_bap_fill_metadata (max_len - int (length out)) (bass_meta_data g);
     subgroup_octets max_len gs (out @ md) }"

definition recv_state_header :: "ga_lib_bass_receive_state \<Rightarrow> u8 list" where
  "recv_state_header r = [source_id r, source_addr_type r] @ rev (source_bda r) @ [adv_sid r] @ b24 (recv_broadcast_id r) @
     [pa_sync_state r, big_encryption_state r] @
     (if big_encryption_state r = GA_LIB_BASS_BIG_BAD_BROADCAST_CODE then replicate BAP_BROADCAST_CODE_SIZE 0xFF else []) @ [num_subgroup r]"

definition ga_lib_bass_build_receive_state_char_data ::
  "(u8 \<Rightarrow> u8 list \<Rightarrow> u8 list) \<Rightarrow> ga_lib_bass_receive_state \<Rightarrow> ga_lib_bass_sub_group_data list \<Rightarrow> nat \<Rightarrow> u8 list option" where
  "ga_lib_bass_build_receive_state_char_data addr_octets r gs max_len =
     (if recv_broadcast_id r = 0 \<and> take BD_ADDR_LEN (addr_octets (source_addr_type r) (source_bda r)) = replicate BD_ADDR_LEN 0
      then Some []
      else if \<not> has_sub_group_data r then Some (recv_state_header r)
      else if length gs < unat (num_subgroup r) then None
      else subgroup_octets (int max_len) (take (unat (num_subgroup r)) gs) (recv_state_header r))"

end
