(* ===== verification/Broadcast_Adv.thy ===== *)
theory Broadcast_Adv
  imports Bap
begin

text \<open>
  Broadcast announcements: \<open>le_audio_bap_broadcast.c\<close>, the announcement of a broadcast, the structure of its periodic
  advertisement (BASE) with its reader and writer, and \<open>le_audio_pbp.c\<close>, the public broadcast announcement.
\<close>

section \<open>The SDK\<close>

text \<open>
  \<open>adv_search buf len t\<close> are the results of successive calls of \<open>wiced_ble_adv_data_search\<close> with one context, each the
  position of the value and its length; at the end of the list the call returns \<open>NULL\<close> and the length 0.
\<close>

record adv_env =
  adv_search :: "u8 list \<Rightarrow> u16 \<Rightarrow> u8 \<Rightarrow> (nat \<times> u16) list"
  BTM_BLE_ADVERT_TYPE_FLAG :: u8
  BTM_BLE_ADVERT_TYPE_SERVICE_DATA :: u8
  BTM_BLE_ADVERT_TYPE_APPEARANCE :: u8
  BTM_BLE_ADVERT_TYPE_NAME_COMPLETE :: u8
  BTM_BLE_GENERAL_DISCOVERABLE_FLAG :: u8
  BTM_BLE_BREDR_NOT_SUPPORTED :: u8
  WICED_BT_UUID_BASIC_AUDIO_ANNOUNCEMENT :: u16
  WICED_BT_UUID_BROADCAST_AUDIO_ANNOUNCEMENT :: u16
  WICED_BT_UUID_PUBLIC_BROADCAST_ANNOUNCEMENT :: u16
  WICED_BT_UUID_BROADCAST_AUDIO_SCAN :: u16

datatype adv_action =
    EXT_ADV_SET_PARAMS u8 bool u32
  | EXT_ADV_SET_ADV_DATA u8 "u8 list"
  | EXT_ADV_ENABLE u8
  | PADV_SET_ADV_PARAMS u8 u16 u16
  | PADV_SET_ADV_DATA u8 "u8 list"
  | PADV_ENABLE_ADV u8

definition at_pos :: "nat \<Rightarrow> u8 list \<Rightarrow> cursor" where
  "at_pos pos buf = skip pos (start buf)"

section \<open>The BASE\<close>

datatype le_audio_bap_broadcast_state =
  BAP_BROADCAST_STATE_IDLE | BAP_BROADCAST_STATE_CONFIGURED | BAP_BROADCAST_STATE_STREAMING

abbreviation (input) BROADCAST_MAX_SUB_GROUP :: nat where "BROADCAST_MAX_SUB_GROUP \<equiv> 2"
abbreviation (input) BROADCAST_MAX_BIS_PER_SUB_GROUP :: nat where "BROADCAST_MAX_BIS_PER_SUB_GROUP \<equiv> 2"

record le_audio_bap_broadcast_bis_group =
  bis_idx :: u8
  b_bis_data_path_setup :: bool
  bis_csc :: ga_lib_ascs_csc

record le_audio_bap_broadcast_sub_group =
  sg_codec_id :: ga_lib_ascs_codec_id
  sg_csc :: ga_lib_ascs_csc
  sg_metadata :: ga_lib_ascs_metadata
  bis_cnt :: u8
  bis_config :: "le_audio_bap_broadcast_bis_group list"

record le_audio_bap_broadcast_base =
  base_broadcast_id :: u32
  base_presentation_delay :: u32
  sub_group :: "le_audio_bap_broadcast_sub_group list"
  base_state :: le_audio_bap_broadcast_state
  sub_group_cnt :: u8

definition zero_bis_group :: le_audio_bap_broadcast_bis_group where
  "zero_bis_group = \<lparr>bis_idx = 0, b_bis_data_path_setup = False, bis_csc = zero_csc\<rparr>"

definition zero_base_group :: le_audio_bap_broadcast_sub_group where
  "zero_base_group = \<lparr>sg_codec_id = zero_codec_id, sg_csc = zero_csc, sg_metadata = zero_metadata, bis_cnt = 0,
     bis_config = replicate BROADCAST_MAX_BIS_PER_SUB_GROUP zero_bis_group\<rparr>"

definition zero_base :: le_audio_bap_broadcast_base where
  "zero_base = \<lparr>base_broadcast_id = 0, base_presentation_delay = 0,
     sub_group = replicate BROADCAST_MAX_SUB_GROUP zero_base_group, base_state = BAP_BROADCAST_STATE_IDLE, sub_group_cnt = 0\<rparr>"

definition upd_bis :: "nat \<Rightarrow> (le_audio_bap_broadcast_bis_group \<Rightarrow> le_audio_bap_broadcast_bis_group)
    \<Rightarrow> le_audio_bap_broadcast_sub_group \<Rightarrow> le_audio_bap_broadcast_sub_group" where
  "upd_bis j f g = g\<lparr>bis_config := (bis_config g)[j := f (bis_config g ! j)]\<rparr>"

definition upd_group :: "nat \<Rightarrow> (le_audio_bap_broadcast_sub_group \<Rightarrow> le_audio_bap_broadcast_sub_group)
    \<Rightarrow> le_audio_bap_broadcast_base \<Rightarrow> le_audio_bap_broadcast_base" where
  "upd_group i f b = b\<lparr>sub_group := (sub_group b)[i := f (sub_group b ! i)]\<rparr>"

text \<open>
  The reader. The octets behind the cursor are all that are left of the advertising data; \<open>len\<close> is
  \<open>base_stream_len\<close>, an 8-bit number. The arrays hold two subgroups of two streams each: an index past them is
  \<open>None\<close>. The result of the codec configuration parser is ignored.
\<close>

fun parse_bis_loop :: "nat \<Rightarrow> nat \<Rightarrow> cursor \<Rightarrow> u8 \<Rightarrow> le_audio_bap_broadcast_sub_group
    \<Rightarrow> (wiced_result \<times> cursor \<times> u8 \<times> le_audio_bap_broadcast_sub_group) option" where
  "parse_bis_loop j 0 p len g = Some (WICED_SUCCESS, p, len, g)"
| "parse_bis_loop j (Suc n) p len g =
     (if length (bis_config g) \<le> j then None
      else let g = upd_bis j (\<lambda>b. b\<lparr>bis_csc := sg_csc g\<rparr>) g
      in if len < 2 then Some (WICED_BT_ERROR, p, len, g)
      else do {
        (idx, p) \<leftarrow> rd8 p;
        (csc_length, p) \<leftarrow> rd8 p;
        let g = upd_bis j (\<lambda>b. b\<lparr>bis_idx := idx\<rparr>) g;
        let len = len - 2;
        if len < csc_length then Some (WICED_BT_ERROR, p, len, g)
        else do {
          (_, csc) \<leftarrow> ga_lib_bap_parse_csc p (uint csc_length) (sg_csc g);
          parse_bis_loop (Suc j) n (skip (unat csc_length) p) (len - csc_length) (upd_bis j (\<lambda>b. b\<lparr>bis_csc := csc\<rparr>) g) } })"

definition parse_sub_group :: "cursor \<Rightarrow> u8 \<Rightarrow> le_audio_bap_broadcast_sub_group
    \<Rightarrow> (wiced_result \<times> cursor \<times> u8 \<times> le_audio_bap_broadcast_sub_group) option" where
  "parse_sub_group p len g = do {
     (cnt, p) \<leftarrow> rd8 p;
     (format, p) \<leftarrow> rd8 p;
     (company, p) \<leftarrow> rd16 p;
     (vendor, p) \<leftarrow> rd16 p;
     (csc_length, p) \<leftarrow> rd8 p;
     let g = g\<lparr>bis_cnt := cnt, sg_codec_id := \<lparr>coding_format = format, company_id = company, vendor_specific_codec_id = vendor\<rparr>\<rparr>;
     let len = len - 8;
     if len < csc_length then Some (WICED_BT_ERROR, p, len, g)
     else do {
       (_, csc) \<leftarrow> ga_lib_bap_parse_csc p (uint csc_length) zero_csc;
       let g = g\<lparr>sg_csc := csc\<rparr>;
       let len = len - csc_length;
       (metadata_length, p) \<leftarrow> rd8 (skip (unat csc_length) p);
       if len < metadata_length then Some (WICED_BT_ERROR, p, len, g)
       else do {
         (_, md, _) \<leftarrow> ga_lib_bap_get_metadata (fst p) (uint metadata_length) (sg_metadata g) zero_sts;
         parse_bis_loop 0 (unat cnt) (skip (unat metadata_length) p) (len - metadata_length) (g\<lparr>sg_metadata := md\<rparr>) } } }"

fun parse_group_loop :: "nat \<Rightarrow> nat \<Rightarrow> cursor \<Rightarrow> u8 \<Rightarrow> le_audio_bap_broadcast_base
    \<Rightarrow> (wiced_result \<times> le_audio_bap_broadcast_base) option" where
  "parse_group_loop i 0 p len b = Some (WICED_SUCCESS, b)"
| "parse_group_loop i (Suc n) p len b =
     (if len < 8 then Some (WICED_SUCCESS, b)
      else if length (sub_group b) \<le> i then None
      else do {
        (res, p, len, g) \<leftarrow> parse_sub_group p len (sub_group b ! i);
        let b = upd_group i (\<lambda>_. g) b;
        if res \<noteq> WICED_SUCCESS then Some (res, b) else parse_group_loop (Suc i) n p len b })"

text \<open>Three octets of the 32-bit delay are copied; the fourth stays.\<close>

definition le_audio_bap_broadcast_parse_base_info ::
  "cursor \<Rightarrow> u8 \<Rightarrow> le_audio_bap_broadcast_base \<Rightarrow> (wiced_result \<times> le_audio_bap_broadcast_base) option" where
  "le_audio_bap_broadcast_parse_base_info p base_stream_len b = do {
     (_, p) \<leftarrow> rd16 p;
     (delay, p) \<leftarrow> rd24 p;
     (cnt, p) \<leftarrow> rd8 p;
     parse_group_loop 0 (unat cnt) p (base_stream_len - 3 - 1)
       (b\<lparr>base_presentation_delay := (base_presentation_delay b AND 0xFF000000) OR delay, sub_group_cnt := cnt\<rparr>) }"

text \<open>
  The writer. \<open>bytes_written\<close> is an 8-bit number, compared with the size of the buffer only after everything has been
  written; more octets than the buffer holds are written behind it.
\<close>

fun build_bis :: "int \<Rightarrow> le_audio_bap_broadcast_bis_group list \<Rightarrow> u8 list \<Rightarrow> u8 list option" where
  "build_bis dst_len [] out = Some out"
| "build_bis dst_len (b # bs) out = do {
     csc \<leftarrow> ga_lib_bap_fill_csc (dst_len - int (length out + 1)) (bis_csc b);
     build_bis dst_len bs (out @ bis_idx b # csc) }"

fun build_groups :: "int \<Rightarrow> le_audio_bap_broadcast_sub_group list \<Rightarrow> u8 list \<Rightarrow> u8 list option" where
  "build_groups dst_len [] out = Some out"
| "build_groups dst_len (g # gs) out = do {
     let out = out @ [bis_cnt g, coding_format (sg_codec_id g)] @ b16 (company_id (sg_codec_id g)) @
                 b16 (vendor_specific_codec_id (sg_codec_id g));
     csc \<leftarrow> ga_lib_bap_fill_csc (dst_len - int (length out)) (sg_csc g);
     let out = out @ csc;
     md \<leftarrow> ga_lib_bap_fill_metadata (dst_len - int (length out)) (sg_metadata g);
     let out = out @ md;
     if length (bis_config g) < unat (bis_cnt g) then None
     else do {
       out \<leftarrow> build_bis dst_len (take (unat (bis_cnt g)) (bis_config g)) out;
       build_groups dst_len gs out } }"

definition le_audio_bap_build_base_data ::
  "adv_env \<Rightarrow> le_audio_bap_broadcast_base option \<Rightarrow> nat \<Rightarrow> u8 list option" where
  "le_audio_bap_build_base_data env p_base dst_len =
     (case p_base of
        None \<Rightarrow> Some []
      | Some b \<Rightarrow>
          if length (sub_group b) < unat (sub_group_cnt b) then None
          else do {
            out \<leftarrow> build_groups (int dst_len) (take (unat (sub_group_cnt b)) (sub_group b))
                    ([0, BTM_BLE_ADVERT_TYPE_SERVICE_DATA env] @ b16 (WICED_BT_UUID_BASIC_AUDIO_ANNOUNCEMENT env) @
                     b24 (base_presentation_delay b) @ [sub_group_cnt b]);
            if dst_len < length out then None
            else Some (take (length out mod 256) (out[0 := of_nat (length out) - 1])) })"

section \<open>Announcements\<close>

fun find_basic :: "adv_env \<Rightarrow> u8 list \<Rightarrow> (nat \<times> u16) list \<Rightarrow> (nat \<times> u8) option option" where
  "find_basic env buf [] = Some None"
| "find_basic env buf ((pos, len) # es) = do {
     (uuid, _) \<leftarrow> rd16 (at_pos pos buf);
     if uuid = WICED_BT_UUID_BASIC_AUDIO_ANNOUNCEMENT env then Some (Some (pos, ucast len)) else find_basic env buf es }"

definition le_audio_bap_broadcast_is_basic_announcement ::
  "adv_env \<Rightarrow> u8 list \<Rightarrow> u16 \<Rightarrow> (nat \<times> u8) option option" where
  "le_audio_bap_broadcast_is_basic_announcement env p_adv_data adv_len =
     find_basic env p_adv_data (adv_search env p_adv_data adv_len (BTM_BLE_ADVERT_TYPE_SERVICE_DATA env))"

text \<open>The search stops at the first empty element. Three octets of \<open>*p_br_id\<close> are written.\<close>

fun find_broadcast :: "adv_env \<Rightarrow> u8 list \<Rightarrow> (nat \<times> u16) list \<Rightarrow> u32 \<Rightarrow> (bool \<times> u32) option" where
  "find_broadcast env buf [] br_id = Some (False, br_id)"
| "find_broadcast env buf ((pos, len) # es) br_id =
     (if len = 0 then Some (False, br_id)
      else if len < 5 then find_broadcast env buf es br_id
      else do {
        (uuid, p) \<leftarrow> rd16 (at_pos pos buf);
        if uuid = WICED_BT_UUID_BROADCAST_AUDIO_ANNOUNCEMENT env
        then do { (v, _) \<leftarrow> rd24 p; Some (True, (br_id AND 0xFF000000) OR v) }
        else find_broadcast env buf es br_id })"

definition le_audio_bap_broadcast_is_broadcast_announcement ::
  "adv_env \<Rightarrow> u16 \<Rightarrow> u8 list \<Rightarrow> u32 \<Rightarrow> (bool \<times> u32) option" where
  "le_audio_bap_broadcast_is_broadcast_announcement env adv_len p_adv_data br_id =
     find_broadcast env p_adv_data (adv_search env p_adv_data adv_len (BTM_BLE_ADVERT_TYPE_SERVICE_DATA env)) br_id"

definition le_audio_bap_build_broadcast_annoncement_adv_data :: "adv_env \<Rightarrow> u32 \<Rightarrow> wiced_result \<times> u8 list" where
  "le_audio_bap_build_broadcast_annoncement_adv_data env br_id =
     (if br_id = 0 then (WICED_ERROR, [])
      else (WICED_SUCCESS,
        [2, BTM_BLE_ADVERT_TYPE_FLAG env, BTM_BLE_GENERAL_DISCOVERABLE_FLAG env, 6, BTM_BLE_ADVERT_TYPE_SERVICE_DATA env] @
        b16 (WICED_BT_UUID_BROADCAST_AUDIO_ANNOUNCEMENT env) @ b24 br_id))"

section \<open>The broadcast source\<close>

definition bap_priv_start_broadcast_audio_announcements :: "u8 \<Rightarrow> u32 \<Rightarrow> u8 list \<Rightarrow> u8 \<Rightarrow> wiced_result" where
  "bap_priv_start_broadcast_audio_announcements adv_sid br_id p_ext_adv_data adv_size = WICED_SUCCESS"

abbreviation (input) MAX_SUPPORTED_BASE_SIZE :: nat where "MAX_SUPPORTED_BASE_SIZE \<equiv> 252"

definition bap_priv_update_basic_audio_announcements ::
  "adv_env \<Rightarrow> u8 \<Rightarrow> le_audio_bap_broadcast_base option \<Rightarrow> (wiced_result \<times> adv_action list) option" where
  "bap_priv_update_basic_audio_announcements env adv_sid p_base =
     (if adv_sid = 0 \<or> p_base = None then Some (WICED_BT_BADARG, [])
      else do {
        buff \<leftarrow> le_audio_bap_build_base_data env p_base MAX_SUPPORTED_BASE_SIZE;
        Some (if buff = [] then (WICED_BT_BADARG, []) else (WICED_SUCCESS, [PADV_SET_ADV_DATA adv_sid buff])) })"

definition le_audio_bap_broadcast_configure ::
  "adv_env \<Rightarrow> u8 \<Rightarrow> le_audio_bap_broadcast_base option \<Rightarrow> u8 list \<Rightarrow> u8 \<Rightarrow> (wiced_result \<times> adv_action list) option" where
  "le_audio_bap_broadcast_configure env adv_sid p_base p_ext_adv_data adv_size =
     (case p_base of
        None \<Rightarrow> Some (WICED_ERROR, [])
      | Some b \<Rightarrow>
          if base_state b \<noteq> BAP_BROADCAST_STATE_IDLE then Some (WICED_ERROR, [])
          else if adv_sid = 0 \<or> base_broadcast_id b = 0 then Some (WICED_BADARG, [])
          else do {
            data \<leftarrow> octets (unat adv_size) p_ext_adv_data;
            let started = [EXT_ADV_SET_PARAMS adv_sid False 48, EXT_ADV_SET_ADV_DATA adv_sid data, EXT_ADV_ENABLE adv_sid];
            announcement \<leftarrow> le_audio_bap_build_base_data env p_base MAX_SUPPORTED_BASE_SIZE;
            Some (if announcement = [] then (WICED_BT_BADARG, started)
                  else (WICED_SUCCESS, started @ [PADV_SET_ADV_PARAMS adv_sid 200 200, PADV_SET_ADV_DATA adv_sid announcement,
                          PADV_ENABLE_ADV adv_sid])) })"

definition le_audio_bap_broadcast_reconfigure ::
  "adv_env \<Rightarrow> u8 \<Rightarrow> le_audio_bap_broadcast_base \<Rightarrow> (wiced_result \<times> adv_action list) option" where
  "le_audio_bap_broadcast_reconfigure env adv_sid b =
     (if base_state b \<noteq> BAP_BROADCAST_STATE_CONFIGURED then Some (WICED_ERROR, [])
      else bap_priv_update_basic_audio_announcements env adv_sid (Some b))"

definition le_audio_bap_broadcast_update_metadata ::
  "adv_env \<Rightarrow> u8 \<Rightarrow> le_audio_bap_broadcast_base \<Rightarrow> (wiced_result \<times> adv_action list) option" where
  "le_audio_bap_broadcast_update_metadata env adv_sid b =
     (if base_state b \<noteq> BAP_BROADCAST_STATE_STREAMING then Some (WICED_ERROR, [])
      else bap_priv_update_basic_audio_announcements env adv_sid (Some b))"

text \<open>The element of the service data is 3 octets, the name follows as one of its own; at most 50 octets of it.\<close>

definition le_audio_bap_broadcast_start_solicitation_requests ::
  "adv_env \<Rightarrow> u8 \<Rightarrow> u8 list \<Rightarrow> u8 \<Rightarrow> (wiced_result \<times> adv_action list) option" where
  "le_audio_bap_broadcast_start_solicitation_requests env adv_sid dev_name name_length =
     (let name_length = (if name_length > 50 then 50 else name_length)
      in if adv_sid = 0 then Some (WICED_BADARG, [])
         else do {
           name \<leftarrow> octets (unat name_length) dev_name;
           Some (WICED_SUCCESS,
             [EXT_ADV_SET_PARAMS adv_sid True 1000,
              EXT_ADV_SET_ADV_DATA adv_sid
                ([2, BTM_BLE_ADVERT_TYPE_FLAG env, BTM_BLE_GENERAL_DISCOVERABLE_FLAG env OR BTM_BLE_BREDR_NOT_SUPPORTED env,
                  3, BTM_BLE_ADVERT_TYPE_SERVICE_DATA env] @ b16 (WICED_BT_UUID_BROADCAST_AUDIO_SCAN env) @
                 [name_length + 1, BTM_BLE_ADVERT_TYPE_NAME_COMPLETE env] @ name),
              EXT_ADV_ENABLE adv_sid]) })"

section \<open>Public broadcasts\<close>

abbreviation (input) GA_LIB_PBP_TYPE_BROADCAST_NAME :: u8 where "GA_LIB_PBP_TYPE_BROADCAST_NAME \<equiv> 0x30"
abbreviation (input) MAX_BROADCAST_NAME_ADV_SIZE :: nat where "MAX_BROADCAST_NAME_ADV_SIZE \<equiv> 32"
abbreviation (input) MAX_PROGRAM_INFO_SIZE :: u8 where "MAX_PROGRAM_INFO_SIZE \<equiv> 50"
abbreviation (input) MAX_METADATA_LEN :: u8 where "MAX_METADATA_LEN \<equiv> 100"

datatype le_audio_pbp_audio_config =
    GA_LIB_PBP_GENERIC_CODEC_PUBLIC_BROADCAST_AUDIO
  | GA_LIB_PBP_STANDARD_QUALITY_PUBLIC_BROADCAST_AUDIO
  | GA_LIB_PBP_HIGH_QUALITY_PUBLIC_BROADCAST_AUDIO

text \<open>What was received: the arrays have 152 and 32 octets.\<close>

record le_audio_rcv_public_broadcast =
  rcv_encryption :: bool
  rcv_audio_config :: le_audio_pbp_audio_config
  public_broadcast_feature :: u8
  rcv_metadata_length :: u8
  rcv_metadata :: "u8 list"
  rcv_broadcast_name :: "u8 list"
  source_appearance_value :: u16

definition store_at_front :: "u8 list \<Rightarrow> u8 list \<Rightarrow> u8 list option" where
  "store_at_front xs arr = (if length xs \<le> length arr then Some (xs @ drop (length xs) arr) else None)"

definition parse_public :: "cursor \<Rightarrow> le_audio_rcv_public_broadcast \<Rightarrow> le_audio_rcv_public_broadcast option" where
  "parse_public p r = do {
     (feature, p) \<leftarrow> rd8 p;
     (n, p) \<leftarrow> rd8 p;
     let r = r\<lparr>public_broadcast_feature := feature, rcv_encryption := feature AND 1 \<noteq> 0,
               rcv_audio_config := (if feature AND 2 \<noteq> 0 then GA_LIB_PBP_STANDARD_QUALITY_PUBLIC_BROADCAST_AUDIO
                                    else if feature AND 4 \<noteq> 0 then GA_LIB_PBP_HIGH_QUALITY_PUBLIC_BROADCAST_AUDIO
                                    else GA_LIB_PBP_GENERIC_CODEC_PUBLIC_BROADCAST_AUDIO),
               rcv_metadata_length := n\<rparr>;
     if n = 0 then Some r
     else do {
       (md, _) \<leftarrow> rd_arr (unat n) p;
       arr \<leftarrow> store_at_front md (rcv_metadata r);
       Some (r\<lparr>rcv_metadata := arr\<rparr>) } }"

text \<open>
  The search for the announcement: the flag is false when the function returns \<open>FALSE\<close> there. Without any service data
  the loop is not entered and the search goes on.
\<close>

fun find_public :: "adv_env \<Rightarrow> u8 list \<Rightarrow> bool \<Rightarrow> (nat \<times> u16) list \<Rightarrow> le_audio_rcv_public_broadcast
    \<Rightarrow> (bool \<times> le_audio_rcv_public_broadcast) option" where
  "find_public env buf first [] r = Some (first, r)"
| "find_public env buf first ((pos, len) # es) r =
     (if len = 0 then Some (first, r)
      else do {
        (uuid, p) \<leftarrow> rd16 (at_pos pos buf);
        if uuid = WICED_BT_UUID_PUBLIC_BROADCAST_ANNOUNCEMENT env
        then map_option (Pair True) (parse_public p r)
        else find_public env buf False es r })"

definition next_entry :: "(nat \<times> u16) list \<Rightarrow> (nat \<times> u16) option" where
  "next_entry es = (case es of [] \<Rightarrow> None | (pos, len) # _ \<Rightarrow> if len = 0 then None else Some (pos, len))"

definition le_audio_pbp_is_public_broadcast ::
  "adv_env \<Rightarrow> u16 \<Rightarrow> u8 list \<Rightarrow> le_audio_rcv_public_broadcast \<Rightarrow> (bool \<times> le_audio_rcv_public_broadcast) option" where
  "le_audio_pbp_is_public_broadcast env adv_len buf r = do {
     (found, r) \<leftarrow> find_public env buf True (adv_search env buf adv_len (BTM_BLE_ADVERT_TYPE_SERVICE_DATA env))
                    (r\<lparr>rcv_broadcast_name := replicate MAX_BROADCAST_NAME_ADV_SIZE 0\<rparr>);
     if \<not> found then Some (False, r)
     else case next_entry (adv_search env buf adv_len GA_LIB_PBP_TYPE_BROADCAST_NAME) of
       None \<Rightarrow> Some (False, r)
     | Some (pos, len) \<Rightarrow> do {
         (name, _) \<leftarrow> rd_arr (min (unat len) (MAX_BROADCAST_NAME_ADV_SIZE - 1)) (at_pos pos buf);
         arr \<leftarrow> store_at_front (name @ [0]) (rcv_broadcast_name r);
         let r = r\<lparr>rcv_broadcast_name := arr\<rparr>;
         case next_entry (adv_search env buf adv_len (BTM_BLE_ADVERT_TYPE_APPEARANCE env)) of
           None \<Rightarrow> Some (True, r)
         | Some (pos, _) \<Rightarrow> do {
             (v, _) \<leftarrow> rd16 (at_pos pos buf);
             Some (True, r\<lparr>source_appearance_value := v\<rparr>) } } }"

record le_audio_public_broadcast =
  pb_encryption :: bool
  pb_sampling_frequency :: u32
  pb_frame_duration :: u16
  pb_metadata_length :: u8
  pb_metadata :: "u8 list option"
  pb_broadcast_name :: "u8 list option"
  pb_name_length :: u32
  pb_appearance_value :: u16
  program_info_size :: u8
  pb_program_info :: "u8 list option"

definition clamp_public :: "le_audio_public_broadcast \<Rightarrow> le_audio_public_broadcast" where
  "clamp_public b = b\<lparr>program_info_size := min (program_info_size b) MAX_PROGRAM_INFO_SIZE,
     pb_metadata_length := min (pb_metadata_length b) MAX_METADATA_LEN, pb_name_length := min (pb_name_length b) 32\<rparr>"

definition public_feature :: "le_audio_public_broadcast \<Rightarrow> u8" where
  "public_feature b =
     (if pb_encryption b then 1 else 0) OR
     (if pb_sampling_frequency b = 48000 then 4
      else if (pb_sampling_frequency b = 16000 \<or> pb_sampling_frequency b = 24000) \<and> pb_frame_duration b = 10000 then 2
      else 0)"

text \<open>An optional part: its pointer is tested only when the length is not 0.\<close>

definition copy_part :: "u8 \<Rightarrow> u8 list option \<Rightarrow> u8 list option option" where
  "copy_part n src = (if n = 0 then Some (Some []) else case src of None \<Rightarrow> Some None | Some xs \<Rightarrow> map_option Some (octets (unat n) xs))"

text \<open>The octets written from the offset on, with the status; the clamped structure stays with the caller.\<close>

definition le_audio_pbp_build_adv_data ::
  "adv_env \<Rightarrow> le_audio_public_broadcast \<Rightarrow> (wiced_result \<times> u8 list \<times> le_audio_public_broadcast) option" where
  "le_audio_pbp_build_adv_data env b = do {
     let b = clamp_public b;
     info \<leftarrow> copy_part (program_info_size b) (pb_program_info b);
     case info of None \<Rightarrow> Some (WICED_ERROR, [], b) | Some info \<Rightarrow> do {
     md \<leftarrow> copy_part (pb_metadata_length b) (pb_metadata b);
     case md of None \<Rightarrow> Some (WICED_ERROR, [], b) | Some md \<Rightarrow>
     if pb_name_length b = 0 then Some (WICED_ERROR, [], b)
     else case pb_broadcast_name b of None \<Rightarrow> Some (WICED_ERROR, [], b) | Some src \<Rightarrow> do {
     name \<leftarrow> octets (unat (pb_name_length b)) src;
     Some (WICED_SUCCESS,
       [5 + program_info_size b + pb_metadata_length b + 2, BTM_BLE_ADVERT_TYPE_SERVICE_DATA env] @
       b16 (WICED_BT_UUID_PUBLIC_BROADCAST_ANNOUNCEMENT env) @
       [public_feature b, pb_metadata_length b + program_info_size b + 2, program_info_size b + 1, 3] @ info @ md @
       [ucast (pb_name_length b) + 1, GA_LIB_PBP_TYPE_BROADCAST_NAME] @ name @
       [3, BTM_BLE_ADVERT_TYPE_APPEARANCE env] @ b16 (pb_appearance_value b), b) } } }"

section \<open>What the search is documented to do\<close>

text \<open>The elements of advertising data: a length, a type and the rest; the search returns those of one type in order.\<close>

function ad_walk :: "u8 \<Rightarrow> nat \<Rightarrow> u8 list \<Rightarrow> (nat \<times> u16) list" where
  "ad_walk t pos xs =
     (case xs of
        l # ty # ys \<Rightarrow>
          if l = 0 \<or> length (ty # ys) < unat l then []
          else (if ty = t then [(pos + 2, ucast l - 1)] else []) @ ad_walk t (pos + 1 + unat l) (drop (unat l) (ty # ys))
      | _ \<Rightarrow> [])"
  by pat_completeness auto
termination
  by (relation "measure (\<lambda>(t, pos, xs). length xs)") auto

declare ad_walk.simps [simp del]

definition search_documented :: "adv_env \<Rightarrow> bool" where
  "search_documented env \<longleftrightarrow> adv_search env = (\<lambda>buf len t. ad_walk t 0 (take (unat len) buf))"

section \<open>Reading over earlier values\<close>

text \<open>A configuration read over another one: what it names replaces the earlier value.\<close>

definition csc_over :: "ga_lib_ascs_csc \<Rightarrow> ga_lib_ascs_csc \<Rightarrow> ga_lib_ascs_csc" where
  "csc_over c0 c = \<lparr>sampling_frequency_hz = (if sampling_frequency_hz c \<noteq> 0 then sampling_frequency_hz c else sampling_frequency_hz c0),
     frame_duration_us = (if frame_duration_us c \<noteq> 0 then frame_duration_us c else frame_duration_us c0),
     audio_channel_allocation = (if audio_channel_allocation c \<noteq> 0 then audio_channel_allocation c else audio_channel_allocation c0),
     octets_per_codec_frame = (if octets_per_codec_frame c \<noteq> 0 then octets_per_codec_frame c else octets_per_codec_frame c0),
     lc3_blocks_per_sdu = (if lc3_blocks_per_sdu c \<noteq> 0 then lc3_blocks_per_sdu c else lc3_blocks_per_sdu c0)\<rparr>"

lemma csc_over_zero [simp]: "csc_over zero_csc c = c"
  by (simp add: csc_over_def zero_csc_def)

lemma parse_csc_over:
  assumes "csc_encodable csc"
  shows "ga_lib_bap_parse_csc (csc_body csc @ rest, n) (int (length (csc_body csc))) c0
       = Some (WICED_SUCCESS, csc_over c0 csc)"
proof -
  let ?s1 = "if sampling_frequency_hz csc \<noteq> 0 then c0\<lparr>sampling_frequency_hz := sampling_frequency_hz csc\<rparr> else c0"
  let ?s2 = "if frame_duration_us csc \<noteq> 0 then ?s1\<lparr>frame_duration_us := frame_duration_us csc\<rparr> else ?s1"
  let ?s3 = "if audio_channel_allocation csc \<noteq> 0 then ?s2\<lparr>audio_channel_allocation := audio_channel_allocation csc\<rparr> else ?s2"
  let ?s4 = "if octets_per_codec_frame csc \<noteq> 0 then ?s3\<lparr>octets_per_codec_frame := octets_per_codec_frame csc\<rparr> else ?s3"
  let ?s5 = "if lc3_blocks_per_sdu csc \<noteq> 0 then ?s4\<lparr>lc3_blocks_per_sdu := lc3_blocks_per_sdu csc\<rparr> else ?s4"
  have f: "ga_lib_bap_get_sampling_freq_from_index
             (ga_lib_bap_get_sampling_freq_index (sampling_frequency_hz csc)) = sampling_frequency_hz csc"
    if "sampling_frequency_hz csc \<noteq> 0"
    using assms that by (auto simp: csc_encodable_def sampling_freq_index_inverse)
  have d: "ga_lib_bap_get_frame_duration_from_index
             (ga_lib_bap_get_frame_duration_index (frame_duration_us csc)) = frame_duration_us csc"
    if "frame_duration_us csc \<noteq> 0"
    using assms that by (auto simp: csc_encodable_def frame_duration_index_inverse)
  note seg1 = parse_csc_seg [where csc = c0 and csc' = ?s1]
  note seg2 = parse_csc_seg [where csc = ?s1 and csc' = ?s2]
  note seg3 = parse_csc_seg [where csc = ?s2 and csc' = ?s3]
  note seg4 = parse_csc_seg [where csc = ?s3 and csc' = ?s4]
  note seg5 = parse_csc_seg [where csc = ?s4 and csc' = ?s5 and m = 0, simplified]
  have over: "?s5 = csc_over c0 csc" by (cases c0) (simp add: csc_over_def)
  show ?thesis
    unfolding csc_body_def append_assoc length_append of_nat_add
    apply (subst seg1, simp add: parse_csc_value_def f, simp)
    apply (subst seg2, simp add: parse_csc_value_def d, simp)
    apply (subst seg3, simp add: parse_csc_value_def rd_simps, simp)
    apply (subst seg4, simp add: parse_csc_value_def rd_simps, simp)
    apply (subst seg5, simp add: parse_csc_value_def, simp)
    by (simp only: parse_csc_end over)
qed

section \<open>The octets of a BASE\<close>

definition bis_octets :: "le_audio_bap_broadcast_bis_group \<Rightarrow> u8 list" where
  "bis_octets b = bis_idx b # of_nat (length (csc_body (bis_csc b))) # csc_body (bis_csc b)"

definition group_head :: "u8 \<Rightarrow> le_audio_bap_broadcast_sub_group \<Rightarrow> u8 list" where
  "group_head n g = [n, coding_format (sg_codec_id g)] @ b16 (company_id (sg_codec_id g)) @
     b16 (vendor_specific_codec_id (sg_codec_id g)) @ of_nat (length (csc_body (sg_csc g))) # csc_body (sg_csc g) @
     (let md = metadata_body (preferred_audio_ctx (sg_metadata g)) (streaming_audio_ctx (sg_metadata g))
      in of_nat (length md) # md)"

definition group_octets :: "le_audio_bap_broadcast_sub_group \<Rightarrow> u8 list" where
  "group_octets g = group_head (bis_cnt g) g @ concat (map bis_octets (take (unat (bis_cnt g)) (bis_config g)))"

definition group_encodable :: "le_audio_bap_broadcast_sub_group \<Rightarrow> bool" where
  "group_encodable g \<longleftrightarrow> csc_encodable (sg_csc g) \<and>
     sg_metadata g = metadata_contexts (preferred_audio_ctx (sg_metadata g)) (streaming_audio_ctx (sg_metadata g)) \<and>
     INVALID_CONTEXT_TYPE_MASK AND preferred_audio_ctx (sg_metadata g) = 0 \<and>
     INVALID_CONTEXT_TYPE_MASK AND streaming_audio_ctx (sg_metadata g) = 0 \<and>
     length (bis_config g) = BROADCAST_MAX_BIS_PER_SUB_GROUP \<and> bis_cnt g \<le> 2 \<and> list_all (csc_encodable \<circ> bis_csc) (bis_config g)"

definition base_encodable :: "le_audio_bap_broadcast_base \<Rightarrow> bool" where
  "base_encodable b \<longleftrightarrow> base_presentation_delay b < 2 ^ 24 \<and> length (sub_group b) = BROADCAST_MAX_SUB_GROUP \<and> sub_group_cnt b \<le> 2 \<and>
     list_all group_encodable (sub_group b)"

lemma length_bis_octets: "length (bis_octets b) \<le> 21" "2 \<le> length (bis_octets b)"
  using length_csc_body [of "bis_csc b"] by (simp_all add: bis_octets_def)

lemma length_bis_list: "length (concat (map bis_octets bs)) \<le> 21 * length bs"
  by (induction bs) (use length_bis_octets in \<open>auto simp: add_mono\<close>)

lemma length_group_head: "length (group_head n g) \<le> 35" "8 \<le> length (group_head n g)"
  using length_csc_body [of "sg_csc g"] length_metadata_body [of "preferred_audio_ctx (sg_metadata g)" "streaming_audio_ctx (sg_metadata g)"]
  by (simp_all add: group_head_def Let_def)

lemma u8_le_2: "(n :: u8) \<le> 2 \<longleftrightarrow> unat n \<le> 2"
  by (simp add: word_le_nat_alt)

lemma length_group_octets: "group_encodable g \<Longrightarrow> length (group_octets g) \<le> 77"
  using length_group_head [of "bis_cnt g" g] length_bis_list [of "take (unat (bis_cnt g)) (bis_config g)"]
  by (simp add: group_octets_def group_encodable_def u8_le_2)

section \<open>Writing\<close>

lemma build_bis_octets:
  "int (length out) + 21 * int (length bs) \<le> dst_len \<Longrightarrow> build_bis dst_len bs out = Some (out @ concat (map bis_octets bs))"
proof (induction bs arbitrary: out)
  case (Cons b bs)
  then have "ga_lib_bap_fill_csc (dst_len - int (length out + 1)) (bis_csc b) =
      Some (of_nat (length (csc_body (bis_csc b))) # csc_body (bis_csc b))"
    by (intro fill_csc_room) simp
  with Cons.IH [of "out @ bis_octets b"] Cons.prems length_bis_octets [of b] show ?case by (simp add: bis_octets_def)
qed simp

lemma room_left: "t \<le> 2 \<Longrightarrow> h \<le> 35 \<Longrightarrow> n + 77 * (1 + m) \<le> d \<Longrightarrow> 0 \<le> m \<Longrightarrow> n + h + 21 * t \<le> (d :: int)"
  by (simp add: distrib_left)

lemma build_groups_octets:
  "int (length out) + 77 * int (length gs) \<le> dst_len \<Longrightarrow> list_all group_encodable gs \<Longrightarrow>
   build_groups dst_len gs out = Some (out @ concat (map group_octets gs))"
proof (induction gs arbitrary: out)
  case (Cons g gs)
  let ?o1 = "out @ [bis_cnt g, coding_format (sg_codec_id g)] @ b16 (company_id (sg_codec_id g)) @ b16 (vendor_specific_codec_id (sg_codec_id g))"
  let ?csc = "of_nat (length (csc_body (sg_csc g))) # csc_body (sg_csc g)"
  have g: "group_encodable g" using Cons.prems(2) by simp
  have csc: "ga_lib_bap_fill_csc (dst_len - int (length ?o1)) (sg_csc g) = Some ?csc"
    using Cons.prems(1) by (intro fill_csc_room) simp
  have md: "ga_lib_bap_fill_metadata (dst_len - int (length (?o1 @ ?csc))) (sg_metadata g) =
      Some (of_nat (length (metadata_body (preferred_audio_ctx (sg_metadata g)) (streaming_audio_ctx (sg_metadata g)))) #
        metadata_body (preferred_audio_ctx (sg_metadata g)) (streaming_audio_ctx (sg_metadata g)))"
    using Cons.prems(1) length_csc_body [of "sg_csc g"] g fill_metadata_contexts
    by (subst (1) conjunct1 [OF conjunct2 [OF g [unfolded group_encodable_def]]]) simp
  have bs: "unat (bis_cnt g) \<le> length (bis_config g)" using g by (simp add: group_encodable_def u8_le_2)
  have "build_bis dst_len (take (unat (bis_cnt g)) (bis_config g)) (out @ group_head (bis_cnt g) g) = Some (out @ group_octets g)"
  proof (subst build_bis_octets)
    have "length (take (unat (bis_cnt g)) (bis_config g)) \<le> 2" using g by (simp add: group_encodable_def)
    then have t: "int (length (take (unat (bis_cnt g)) (bis_config g))) \<le> 2" by linarith
    have h: "int (length (group_head (bis_cnt g) g)) \<le> 35" using length_group_head(1) [of "bis_cnt g" g] by linarith
    have "int (length out) + 77 * (1 + int (length gs)) \<le> dst_len" using Cons.prems(1) by simp
    from room_left [OF t h this of_nat_0_le_iff]
    show "int (length (out @ group_head (bis_cnt g) g)) + 21 * int (length (take (unat (bis_cnt g)) (bis_config g))) \<le> dst_len"
      by (simp only: length_append of_nat_add)
  qed (simp add: group_octets_def)
  with Cons.IH [of "out @ group_octets g"] Cons.prems length_group_octets [OF g] csc md bs show ?case
    by (simp add: group_head_def Let_def)
qed simp

section \<open>Reading\<close>

definition put_bis :: "nat \<Rightarrow> le_audio_bap_broadcast_bis_group \<Rightarrow> le_audio_bap_broadcast_sub_group \<Rightarrow> le_audio_bap_broadcast_sub_group" where
  "put_bis j b g = upd_bis j (\<lambda>x. x\<lparr>bis_idx := bis_idx b, bis_csc := csc_over (sg_csc g) (bis_csc b)\<rparr>) g"

fun put_bises :: "nat \<Rightarrow> le_audio_bap_broadcast_bis_group list \<Rightarrow> le_audio_bap_broadcast_sub_group \<Rightarrow> le_audio_bap_broadcast_sub_group" where
  "put_bises j [] g = g"
| "put_bises j (b # bs) g = put_bises (Suc j) bs (put_bis j b g)"

lemma put_bis_simps [simp]:
  "sg_csc (put_bis j b g) = sg_csc g" "sg_codec_id (put_bis j b g) = sg_codec_id g" "sg_metadata (put_bis j b g) = sg_metadata g"
  "bis_cnt (put_bis j b g) = bis_cnt g" "length (bis_config (put_bis j b g)) = length (bis_config g)"
  by (simp_all add: put_bis_def upd_bis_def)

lemma put_bises_simps [simp]:
  "sg_csc (put_bises j bs g) = sg_csc g" "sg_codec_id (put_bises j bs g) = sg_codec_id g" "sg_metadata (put_bises j bs g) = sg_metadata g"
  "bis_cnt (put_bises j bs g) = bis_cnt g" "length (bis_config (put_bises j bs g)) = length (bis_config g)"
  by (induction bs arbitrary: j g) simp_all

lemma u8_room:
  assumes "n \<le> unat (len :: u8)"
  shows "unat (len - of_nat n) = unat len - n" "n < 256" "unat (of_nat n :: u8) = n" "uint (of_nat n :: u8) = int n"
proof -
  have "unat len < 256" by (rule order_less_le_trans [OF unsigned_less]) simp
  with assms show n: "n < 256" by simp
  then show u: "unat (of_nat n :: u8) = n" by (simp add: unsigned_of_nat take_bit_nat_eq_self)
  then show "uint (of_nat n :: u8) = int n" unfolding uint_nat by simp
  show "unat (len - of_nat n) = unat len - n" using assms u by (subst unat_sub) (simp_all add: word_le_nat_alt)
qed

lemma csc_length_u8: "unat (of_nat (length (csc_body c)) :: u8) = length (csc_body c)"
    "uint (of_nat (length (csc_body c)) :: u8) = int (length (csc_body c))"
  using length_csc_body [of c] u8_room(3,4) [of "length (csc_body c)" 19] by simp_all

lemma parse_bis_step:
  assumes "j < length (bis_config g)" "length (bis_octets b) \<le> unat len" "csc_encodable (bis_csc b)"
  shows "parse_bis_loop j (Suc n) (bis_octets b @ rest, k) len g =
    parse_bis_loop (Suc j) n (rest, k + length (bis_octets b)) (len - of_nat (length (bis_octets b))) (put_bis j b g)"
proof -
  have two: "2 \<le> unat len" "length (csc_body (bis_csc b)) \<le> unat len - 2" using assms(2) by (simp_all add: bis_octets_def)
  have l: "\<not> len < 2" using two(1) by (simp add: word_less_nat_alt)
  have l2: "unat (len - 2) = unat len - 2" using u8_room(1) [of 2 len] two(1) by simp
  have c: "\<not> len - 2 < of_nat (length (csc_body (bis_csc b)))"
    using two(2) by (simp add: word_less_nat_alt l2 csc_length_u8)
  have eq: "len - of_nat (length (bis_octets b)) = len - 2 - of_nat (length (csc_body (bis_csc b)))"
    by (simp add: bis_octets_def algebra_simps)
  show ?thesis
    unfolding eq using assms(1) l c parse_csc_over [OF assms(3)]
    by (simp add: bis_octets_def csc_length_u8 skip_def put_bis_def upd_bis_def Let_def algebra_simps)
qed

lemma parse_bis_octets:
  "j + length bs \<le> length (bis_config g) \<Longrightarrow> length (concat (map bis_octets bs)) \<le> unat len \<Longrightarrow> list_all (csc_encodable \<circ> bis_csc) bs \<Longrightarrow>
   parse_bis_loop j (length bs) (concat (map bis_octets bs) @ rest, k) len g =
   Some (WICED_SUCCESS, (rest, k + length (concat (map bis_octets bs))), len - of_nat (length (concat (map bis_octets bs))), put_bises j bs g)"
proof (induction bs arbitrary: j g len k)
  case (Cons b bs)
  let ?n = "length (bis_octets b)"
  have n: "?n \<le> unat len" using Cons.prems(2) by simp
  have "parse_bis_loop (Suc j) (length bs) (concat (map bis_octets bs) @ rest, k + ?n) (len - of_nat ?n) (put_bis j b g) =
    Some (WICED_SUCCESS, (rest, k + ?n + length (concat (map bis_octets bs))),
      len - of_nat ?n - of_nat (length (concat (map bis_octets bs))), put_bises (Suc j) bs (put_bis j b g))"
    using Cons.prems n by (intro Cons.IH) (simp_all add: u8_room(1))
  with Cons.prems n show ?case by (simp add: parse_bis_step algebra_simps del: parse_bis_loop.simps)
qed simp

text \<open>The header of a subgroup, up to its streams.\<close>

lemma parse_group_head:
  assumes "length (group_head n g) \<le> unat len" "group_encodable g" "sg_metadata old = zero_metadata"
  shows "parse_sub_group (group_head n g @ rest, k) len old =
    parse_bis_loop 0 (unat n) (rest, k + length (group_head n g)) (len - of_nat (length (group_head n g)))
      (old\<lparr>bis_cnt := n, sg_codec_id := sg_codec_id g, sg_csc := sg_csc g, sg_metadata := sg_metadata g\<rparr>)"
proof -
  let ?md = "metadata_body (preferred_audio_ctx (sg_metadata g)) (streaming_audio_ctx (sg_metadata g))"
  have md: "unat (of_nat (length ?md) :: u8) = length ?md" "uint (of_nat (length ?md) :: u8) = int (length ?md)"
    using length_metadata_body u8_room(3,4) [of "length ?md" 8] by simp_all
  have c: "length (csc_body (sg_csc g)) + length ?md \<le> unat len - 8" "8 \<le> unat len"
    using assms(1) by (simp_all add: group_head_def Let_def)
  have l: "unat (len - 8) = unat len - 8" using u8_room(1) [of 8 len] c(2) by simp
  have l1: "\<not> len - 8 < of_nat (length (csc_body (sg_csc g)))"
    using c by (simp add: word_less_nat_alt l csc_length_u8)
  have "unat (len - 8 - of_nat (length (csc_body (sg_csc g)))) = unat len - 8 - length (csc_body (sg_csc g))"
    using c l by (simp add: u8_room(1))
  then have l2: "\<not> len - 8 - of_nat (length (csc_body (sg_csc g))) < of_nat (length ?md)"
    using c by (simp add: word_less_nat_alt md)
  have eq: "len - of_nat (length (group_head n g)) = len - 8 - of_nat (length (csc_body (sg_csc g))) - of_nat (length ?md)"
    by (simp add: group_head_def Let_def algebra_simps)
  have g: "csc_encodable (sg_csc g)" "INVALID_CONTEXT_TYPE_MASK AND preferred_audio_ctx (sg_metadata g) = 0"
      "INVALID_CONTEXT_TYPE_MASK AND streaming_audio_ctx (sg_metadata g) = 0"
      "metadata_contexts (preferred_audio_ctx (sg_metadata g)) (streaming_audio_ctx (sg_metadata g)) = sg_metadata g"
    using assms(2) by (simp_all add: group_encodable_def)
  have id: "\<lparr>coding_format = coding_format (sg_codec_id g), company_id = company_id (sg_codec_id g),
      vendor_specific_codec_id = vendor_specific_codec_id (sg_codec_id g)\<rparr> = sg_codec_id g" by simp
  show ?thesis
    unfolding eq using l1 l2 assms(3) parse_csc_over [OF g(1), of _ _ zero_csc] get_metadata_body [OF g(2,3)] g(4)
    by (simp add: parse_sub_group_def group_head_def Let_def csc_length_u8 md skip_def ga_lib_bap_get_metadata_def start_def
        zero_sts_def rd16_b16 algebra_simps id)
qed

definition put_group :: "nat \<Rightarrow> le_audio_bap_broadcast_sub_group \<Rightarrow> le_audio_bap_broadcast_base \<Rightarrow> le_audio_bap_broadcast_base" where
  "put_group i g = upd_group i (\<lambda>old. put_bises 0 (take (unat (bis_cnt g)) (bis_config g))
     (old\<lparr>bis_cnt := bis_cnt g, sg_codec_id := sg_codec_id g, sg_csc := sg_csc g, sg_metadata := sg_metadata g\<rparr>))"

fun put_groups :: "nat \<Rightarrow> le_audio_bap_broadcast_sub_group list \<Rightarrow> le_audio_bap_broadcast_base \<Rightarrow> le_audio_bap_broadcast_base" where
  "put_groups i [] b = b"
| "put_groups i (g # gs) b = put_groups (Suc i) gs (put_group i g b)"

definition fresh_from :: "nat \<Rightarrow> le_audio_bap_broadcast_base \<Rightarrow> bool" where
  "fresh_from i b \<longleftrightarrow> (\<forall>k. i \<le> k \<longrightarrow> k < length (sub_group b) \<longrightarrow>
     sg_metadata (sub_group b ! k) = zero_metadata \<and> length (bis_config (sub_group b ! k)) = BROADCAST_MAX_BIS_PER_SUB_GROUP)"

lemma parse_group_step:
  assumes "i < length (sub_group b)" "length (group_octets g) \<le> unat len" "group_encodable g" "fresh_from i b"
  shows "parse_group_loop i (Suc n) (group_octets g @ rest, k) len b =
    parse_group_loop (Suc i) n (rest, k + length (group_octets g)) (len - of_nat (length (group_octets g))) (put_group i g b)"
proof -
  let ?h = "group_head (bis_cnt g) g" and ?bs = "take (unat (bis_cnt g)) (bis_config g)"
  let ?old = "sub_group b ! i"
  let ?g = "?old\<lparr>bis_cnt := bis_cnt g, sg_codec_id := sg_codec_id g, sg_csc := sg_csc g, sg_metadata := sg_metadata g\<rparr>"
  have old: "sg_metadata ?old = zero_metadata" "length (bis_config ?old) = 2"
    using assms(1,4) by (simp_all add: fresh_from_def)
  have h: "length ?h \<le> unat len" "length (concat (map bis_octets ?bs)) \<le> unat len - length ?h" "8 \<le> unat len"
    using assms(2) length_group_head(2) [of "bis_cnt g" g] by (simp_all add: group_octets_def)
  have n: "length ?bs = unat (bis_cnt g)" "length ?bs \<le> 2" "list_all (csc_encodable \<circ> bis_csc) ?bs"
    using assms(3) by (auto simp: group_encodable_def u8_le_2 list_all_iff dest: in_set_takeD)
  have "\<not> len < 8" using h(3) by (simp add: word_less_nat_alt)
  moreover have "parse_sub_group (group_octets g @ rest, k) len ?old =
      Some (WICED_SUCCESS, (rest, k + length (group_octets g)), len - of_nat (length (group_octets g)), put_bises 0 ?bs ?g)"
    using parse_group_head [OF h(1) assms(3) old(1), of "concat (map bis_octets ?bs) @ rest" k]
      parse_bis_octets [of 0 ?bs ?g "len - of_nat (length ?h)" rest "k + length ?h"] n h(2) old(2) u8_room(1) [OF h(1)]
    by (simp add: group_octets_def algebra_simps)
  ultimately show ?thesis using assms(1) by (simp add: put_group_def upd_group_def Let_def)
qed

lemma put_group_simps [simp]:
  "length (sub_group (put_group i g b)) = length (sub_group b)" "fresh_from i b \<Longrightarrow> fresh_from (Suc i) (put_group i g b)"
  "sub_group_cnt (put_group i g b) = sub_group_cnt b" "base_presentation_delay (put_group i g b) = base_presentation_delay b"
  by (auto simp: put_group_def upd_group_def fresh_from_def)

lemma parse_groups:
  "i + length gs \<le> length (sub_group b) \<Longrightarrow> length (concat (map group_octets gs)) \<le> unat len \<Longrightarrow> list_all group_encodable gs \<Longrightarrow>
   fresh_from i b \<Longrightarrow> parse_group_loop i (length gs) (concat (map group_octets gs) @ rest, k) len b = Some (WICED_SUCCESS, put_groups i gs b)"
proof (induction gs arbitrary: i b len k)
  case (Cons g gs)
  let ?n = "length (group_octets g)"
  have n: "?n \<le> unat len" using Cons.prems(2) by simp
  have "parse_group_loop (Suc i) (length gs) (concat (map group_octets gs) @ rest, k + ?n) (len - of_nat ?n) (put_group i g b) =
    Some (WICED_SUCCESS, put_groups (Suc i) gs (put_group i g b))"
    using Cons.prems n by (intro Cons.IH) (simp_all add: u8_room(1))
  with Cons.prems n show ?case by (simp add: parse_group_step del: parse_group_loop.simps)
qed simp

section \<open>What has been stored\<close>

definition stored_bis :: "ga_lib_ascs_csc \<Rightarrow> le_audio_bap_broadcast_bis_group \<Rightarrow> le_audio_bap_broadcast_bis_group \<Rightarrow> bool" where
  "stored_bis csc b x \<longleftrightarrow> bis_idx x = bis_idx b \<and> bis_csc x = csc_over csc (bis_csc b)"

definition stored_group :: "le_audio_bap_broadcast_sub_group \<Rightarrow> le_audio_bap_broadcast_sub_group \<Rightarrow> bool" where
  "stored_group g x \<longleftrightarrow> sg_codec_id x = sg_codec_id g \<and> sg_csc x = sg_csc g \<and> sg_metadata x = sg_metadata g \<and> bis_cnt x = bis_cnt g \<and>
     list_all2 (stored_bis (sg_csc g)) (take (unat (bis_cnt g)) (bis_config g)) (take (unat (bis_cnt g)) (bis_config x))"

lemma put_bis_config: "bis_config (put_bis j b g) =
    (bis_config g)[j := (bis_config g ! j)\<lparr>bis_idx := bis_idx b, bis_csc := csc_over (sg_csc g) (bis_csc b)\<rparr>]"
  by (simp add: put_bis_def upd_bis_def)

lemma put_group_sub: "sub_group (put_group i g b) = (sub_group b)[i := put_bises 0 (take (unat (bis_cnt g)) (bis_config g))
    ((sub_group b ! i)\<lparr>bis_cnt := bis_cnt g, sg_codec_id := sg_codec_id g, sg_csc := sg_csc g, sg_metadata := sg_metadata g\<rparr>)]"
  by (simp add: put_group_def upd_group_def)

lemma take_Suc_update: "take (Suc j) r = take (Suc j) (xs[j := v]) \<Longrightarrow> take j r = take j xs"
  by (drule arg_cong [where f = "take j"]) (simp add: min_def)

lemma put_bises_stored:
  "j + length bs \<le> length (bis_config g) \<Longrightarrow>
   take j (bis_config (put_bises j bs g)) = take j (bis_config g) \<and>
   list_all2 (stored_bis (sg_csc g)) bs (take (length bs) (drop j (bis_config (put_bises j bs g))))"
proof (induction bs arbitrary: j g)
  case (Cons b bs)
  let ?g = "put_bis j b g"
  have IH: "take (Suc j) (bis_config (put_bises (Suc j) bs ?g)) = take (Suc j) (bis_config ?g)"
    "list_all2 (stored_bis (sg_csc g)) bs (take (length bs) (drop (Suc j) (bis_config (put_bises (Suc j) bs ?g))))"
    using Cons.IH [of "Suc j" ?g] Cons.prems by simp_all
  let ?r = "bis_config (put_bises (Suc j) bs ?g)"
  have l: "j < length ?r" using Cons.prems by simp
  have "take j ?r = take j (bis_config g)"
    by (rule take_Suc_update [OF IH(1) [unfolded put_bis_config]])
  moreover have "?r ! j = bis_config ?g ! j" using IH(1) by (metis lessI nth_take)
  then have "stored_bis (sg_csc g) b (?r ! j)" using Cons.prems by (simp add: put_bis_config stored_bis_def)
  moreover have "drop j ?r = ?r ! j # drop (Suc j) ?r" using l by (rule Cons_nth_drop_Suc [symmetric])
  ultimately show ?case using IH(2) by simp
qed simp

lemma put_groups_stored:
  "i + length gs \<le> length (sub_group b) \<Longrightarrow> fresh_from i b \<Longrightarrow> list_all group_encodable gs \<Longrightarrow>
   take i (sub_group (put_groups i gs b)) = take i (sub_group b) \<and>
   list_all2 stored_group gs (take (length gs) (drop i (sub_group (put_groups i gs b)))) \<and>
   sub_group_cnt (put_groups i gs b) = sub_group_cnt b \<and> base_presentation_delay (put_groups i gs b) = base_presentation_delay b \<and>
   length (sub_group (put_groups i gs b)) = length (sub_group b)"
proof (induction gs arbitrary: i b)
  case (Cons g gs)
  let ?b = "put_group i g b"
  note IH = Cons.IH [of "Suc i" ?b]
  let ?r = "sub_group (put_groups (Suc i) gs ?b)"
  have IHs: "take (Suc i) ?r = take (Suc i) (sub_group ?b)" "length ?r = length (sub_group b)"
    "list_all2 stored_group gs (take (length gs) (drop (Suc i) ?r))"
    "sub_group_cnt (put_groups (Suc i) gs ?b) = sub_group_cnt b"
    "base_presentation_delay (put_groups (Suc i) gs ?b) = base_presentation_delay b"
    using IH Cons.prems by simp_all
  have t: "take i ?r = take i (sub_group b)"
    by (rule take_Suc_update [OF IHs(1) [unfolded put_group_sub]])
  have "?r ! i = sub_group ?b ! i" using IHs(1) by (metis lessI nth_take)
  then have "stored_group g (?r ! i)"
    using Cons.prems put_bises_stored [of 0 "take (unat (bis_cnt g)) (bis_config g)" "(sub_group b ! i)\<lparr>bis_cnt := bis_cnt g,
        sg_codec_id := sg_codec_id g, sg_csc := sg_csc g, sg_metadata := sg_metadata g\<rparr>"]
    by (simp add: put_group_sub stored_group_def fresh_from_def group_encodable_def u8_le_2 min_absorb2)
  moreover have "drop i ?r = ?r ! i # drop (Suc i) ?r" using Cons.prems(1) IHs(2) by (intro Cons_nth_drop_Suc [symmetric]) simp
  ultimately show ?case using IHs t by simp
qed simp

section \<open>Properties\<close>

lemma base_data_octets:
  assumes "base_encodable b"
  shows "le_audio_bap_build_base_data env (Some b) MAX_SUPPORTED_BASE_SIZE =
    (let gs = concat (map group_octets (take (unat (sub_group_cnt b)) (sub_group b)))
     in Some (of_nat (7 + length gs) # BTM_BLE_ADVERT_TYPE_SERVICE_DATA env # b16 (WICED_BT_UUID_BASIC_AUDIO_ANNOUNCEMENT env) @
       b24 (base_presentation_delay b) @ sub_group_cnt b # gs)) \<and>
    length (concat (map group_octets (take (unat (sub_group_cnt b)) (sub_group b)))) \<le> 154"
proof -
  let ?gs = "take (unat (sub_group_cnt b)) (sub_group b)"
  have gs: "list_all group_encodable ?gs" "length ?gs \<le> 2"
    using assms by (auto simp: base_encodable_def list_all_iff dest: in_set_takeD)
  have bound: "list_all group_encodable xs \<Longrightarrow> length (concat (map group_octets xs)) \<le> 77 * length xs" for xs
    by (induction xs) (use length_group_octets in \<open>auto simp: add_mono\<close>)
  then have "length (concat (map group_octets ?gs)) \<le> 77 * length ?gs" using gs(1) by blast
  also have "\<dots> \<le> 154" using gs(2) by simp
  finally have l: "length (concat (map group_octets ?gs)) \<le> 154" .
  have cnt: "unat (sub_group_cnt b) \<le> length (sub_group b)" using assms by (simp add: base_encodable_def u8_le_2)
  let ?hd = "[0, BTM_BLE_ADVERT_TYPE_SERVICE_DATA env] @ b16 (WICED_BT_UUID_BASIC_AUDIO_ANNOUNCEMENT env) @
    b24 (base_presentation_delay b) @ [sub_group_cnt b]"
  have "int (length ?hd) + 77 * int (length ?gs) \<le> 252" using gs(2) by simp
  from build_groups_octets [OF this gs(1)]
  have "build_groups 252 ?gs ?hd = Some (?hd @ concat (map group_octets ?gs))" .
  with l cnt show ?thesis by (simp add: le_audio_bap_build_base_data_def Let_def)
qed

lemma ad_walk_step:
  "0 < l \<Longrightarrow> unat l \<le> Suc (length v) \<Longrightarrow> unat l = Suc n \<Longrightarrow>
   ad_walk t pos (l # ty # v) = (if ty = t then [(pos + 2, ucast l - 1)] else []) @ ad_walk t (pos + 2 + n) (drop n v)"
  by (subst ad_walk.simps) (auto simp: word_gt_0)

lemma ad_walk_end: "ad_walk t pos [] = []"
  by (subst ad_walk.simps) simp

text \<open>An element of service data alone is found behind its length and its type.\<close>

lemma basic_found:
  assumes "search_documented env" "length xs \<le> 250"
    "out = [of_nat (length xs + 3), BTM_BLE_ADVERT_TYPE_SERVICE_DATA env] @ b16 (WICED_BT_UUID_BASIC_AUDIO_ANNOUNCEMENT env) @ xs"
  shows "le_audio_bap_broadcast_is_basic_announcement env out (of_nat (length out)) = Some (Some (2, of_nat (length out - 2)))"
proof -
  let ?l = "of_nat (length xs + 3) :: u8"
  have l: "unat ?l = length xs + 3" "unat (of_nat (length out) :: u16) = length out"
    using unat_of_nat_u8 [of "length xs + 3"] unat_of_nat_u16 [of "length out"] assms(2,3) by simp_all
  have l0: "0 < ?l" using l(1) by (simp add: word_gt_0_no word_less_nat_alt)
  have w: "ad_walk (BTM_BLE_ADVERT_TYPE_SERVICE_DATA env) 0 out = [(2, ucast ?l - 1)]"
    unfolding assms(3) append_Cons append_Nil using l l0
    by (subst ad_walk_step [where n = "length xs + 2"]) (simp_all add: ad_walk_end b16_def)
  have "rd16 (at_pos 2 out) = Some (WICED_BT_UUID_BASIC_AUDIO_ANNOUNCEMENT env, (xs, 4))"
    by (simp add: assms(3) at_pos_def start_def skip_def rd16_b16)
  moreover have "(ucast (ucast ?l - 1 :: u16) :: u8) = of_nat (length out - 2)"
  proof -
    have "(ucast ?l :: u16) = of_nat (length xs + 3)" by (metis l(1) of_nat_unat)
    then have "unat (ucast ?l :: u16) = length xs + 3" using unat_of_nat_u16 [of "length xs + 3"] assms(2) by simp
    then have "unat (ucast ?l - 1 :: u16) = length xs + 2" by (subst unat_minus_one) auto
    then have "(ucast (ucast ?l - 1 :: u16) :: u8) = of_nat (length xs + 2)" by (metis of_nat_unat)
    then show ?thesis by (simp add: assms(3) b16_def)
  qed
  ultimately show ?thesis
    using w l(2) assms(1) by (simp add: le_audio_bap_broadcast_is_basic_announcement_def search_documented_def)
qed

text \<open>C24: A BASE that names at most two subgroups of two streams, with configurations and contexts the formats can express, is
  written into one element of at most 162 octets whose length comes first. The sink, whose search finds the elements of a type, finds
  the basic announcement in it behind the type, and what it is handed there is read back as the same structure: the configuration of a
  stream is its own over that of its subgroup.\<close>

theorem base_roundtrip:
  assumes "base_encodable b" "search_documented env"
  shows "\<exists>out pos len r. le_audio_bap_build_base_data env (Some b) MAX_SUPPORTED_BASE_SIZE = Some out \<and> length out \<le> 162 \<and>
    hd out = of_nat (length out - 1) \<and>
    le_audio_bap_broadcast_is_basic_announcement env out (of_nat (length out)) = Some (Some (pos, len)) \<and>
    pos + unat len = length out \<and>
    le_audio_bap_broadcast_parse_base_info (at_pos pos out) len zero_base = Some (WICED_SUCCESS, r) \<and>
    base_presentation_delay r = base_presentation_delay b \<and> sub_group_cnt r = sub_group_cnt b \<and>
    list_all2 stored_group (take (unat (sub_group_cnt b)) (sub_group b)) (take (unat (sub_group_cnt b)) (sub_group r))"
proof -
  let ?gs = "take (unat (sub_group_cnt b)) (sub_group b)"
  let ?os = "concat (map group_octets ?gs)"
  let ?base = "zero_base\<lparr>base_presentation_delay := base_presentation_delay b, sub_group_cnt := sub_group_cnt b\<rparr>"
  have b: "base_presentation_delay b < 2 ^ 24" "length ?gs = unat (sub_group_cnt b)" "length ?gs \<le> 2" "list_all group_encodable ?gs"
    using assms by (auto simp: base_encodable_def u8_le_2 list_all_iff dest: in_set_takeD)
  note out = base_data_octets [OF assms(1), of env]
  have l: "length ?os \<le> 154" using out by (simp add: Let_def)
  have "fresh_from 0 ?base" by (auto simp: fresh_from_def zero_base_def zero_base_group_def less_Suc_eq numeral_2_eq_2)
  moreover have "length (sub_group ?base) = 2" by (simp add: zero_base_def)
  moreover have "unat (of_nat (length ?os + 2) :: u8) = length ?os + 2" using l u8_room(3) [of "length ?os + 2" 255] by simp
  ultimately have r: "parse_group_loop 0 (unat (sub_group_cnt b)) (?os, k) (of_nat (length ?os + 2)) ?base =
      Some (WICED_SUCCESS, put_groups 0 ?gs ?base)" for k
    using parse_groups [of 0 ?gs ?base "of_nat (length ?os + 2)" "[]" k] b by simp
  have parsed: "le_audio_bap_broadcast_parse_base_info (b16 u @ b24 (base_presentation_delay b) @ sub_group_cnt b # ?os, 2)
      (of_nat (6 + length ?os)) zero_base = Some (WICED_SUCCESS, put_groups 0 ?gs ?base)" for u
    using r [of 8] b(1) by (simp add: le_audio_bap_broadcast_parse_base_info_def rd16_b16 rd24_b24 zero_base_def algebra_simps)
  let ?xs = "b24 (base_presentation_delay b) @ sub_group_cnt b # ?os"
  let ?out = "[of_nat (length ?xs + 3), BTM_BLE_ADVERT_TYPE_SERVICE_DATA env] @ b16 (WICED_BT_UUID_BASIC_AUDIO_ANNOUNCEMENT env) @ ?xs"
  have len: "length ?out = 8 + length ?os" "length ?xs \<le> 250" using l by (simp_all add: b16_def b24_def)
  have "le_audio_bap_build_base_data env (Some b) MAX_SUPPORTED_BASE_SIZE = Some ?out" using out len by (simp add: Let_def add_ac)
  moreover have "le_audio_bap_broadcast_is_basic_announcement env ?out (of_nat (length ?out)) = Some (Some (2, of_nat (length ?out - 2)))"
    by (rule basic_found [OF assms(2) len(2) refl])
  moreover have "unat (of_nat (length ?out - 2) :: u8) = length ?out - 2" using len(1) l by (intro unat_of_nat_u8) simp
  moreover have "at_pos 2 ?out = (b16 (WICED_BT_UUID_BASIC_AUDIO_ANNOUNCEMENT env) @ ?xs, 2)"
    by (simp add: at_pos_def start_def skip_def)
  ultimately show ?thesis
    using l len(1) parsed put_groups_stored [of 0 ?gs ?base] b \<open>fresh_from 0 ?base\<close> \<open>length (sub_group ?base) = 2\<close>
    by (intro exI [of _ ?out] exI [of _ 2] exI [of _ "of_nat (length ?out - 2)"] exI [of _ "put_groups 0 ?gs ?base"]) (simp add: add_ac)
qed

text \<open>A BASE whose first subgroup announces more than two streams is read past the arrays of the sink, whatever follows
  the second stream: the numbers come from the air and are not compared with the sizes.\<close>

theorem base_too_many_streams:
  assumes "3 \<le> n" "1 \<le> cnt" "group_encodable g" "csc_encodable (bis_csc b1)" "csc_encodable (bis_csc b2)"
    "length (group_head n g @ bis_octets b1 @ bis_octets b2) + 4 \<le> unat len"
  shows "le_audio_bap_broadcast_parse_base_info (start (b16 u @ [d0, d1, d2, cnt] @ group_head n g @ bis_octets b1 @ bis_octets b2 @ rest))
    len zero_base = None"
proof -
  let ?old = "zero_base_group\<lparr>bis_cnt := n, sg_codec_id := sg_codec_id g, sg_csc := sg_csc g, sg_metadata := sg_metadata g\<rparr>"
  have len: "unat (len - 4) = unat len - 4" using u8_room(1) [of 4 len] assms(6) by simp
  have h: "length (group_head n g) \<le> unat (len - 4)" "8 \<le> unat (len - 4)"
    using assms(6) length_group_head(2) [of n g] by (simp_all add: len)
  let ?len = "len - 4 - of_nat (length (group_head n g))"
  have l1: "unat ?len = unat len - 4 - length (group_head n g)" using h by (simp add: u8_room(1) len)
  have b1: "length (bis_octets b1) \<le> unat ?len" using assms(6) by (simp add: l1)
  have b2: "length (bis_octets b2) \<le> unat (?len - of_nat (length (bis_octets b1)))"
    using assms(6) b1 by (simp add: u8_room(1) l1)
  have "3 \<le> unat n" using assms(1) by (simp add: word_le_nat_alt)
  then obtain m where m: "unat n = Suc (Suc (Suc m))" by (auto simp: le_iff_add numeral_3_eq_3)
  have "parse_sub_group (group_head n g @ bis_octets b1 @ bis_octets b2 @ rest, 6) (len - 4) zero_base_group = None"
    using parse_group_head [OF h(1) assms(3), of zero_base_group] m
      parse_bis_step [of 0 ?old b1 ?len, OF _ b1 assms(4)] parse_bis_step [of 1 "put_bis 0 b1 ?old" b2, OF _ b2 assms(5)]
    by (simp add: zero_base_group_def del: parse_bis_loop.simps(2)) simp
  moreover have "\<not> len - 4 < 8" using h(2) by (simp add: word_less_nat_alt)
  moreover obtain k where "unat cnt = Suc k" using assms(2) by (metis not0_implies_Suc unat_1 word_le_nat_alt not_one_le_zero)
  ultimately show ?thesis
    by (simp add: le_audio_bap_broadcast_parse_base_info_def start_def rd16_b16 rd24_Cons zero_base_def)
qed

section \<open>Announcements on the air\<close>

text \<open>The announcement of a broadcast is found, with its identifier.\<close>

theorem announcement_roundtrip:
  assumes "search_documented env" "BTM_BLE_ADVERT_TYPE_FLAG env \<noteq> BTM_BLE_ADVERT_TYPE_SERVICE_DATA env" "br_id \<noteq> 0" "br_id < 2 ^ 24"
  shows "\<exists>adv. le_audio_bap_build_broadcast_annoncement_adv_data env br_id = (WICED_SUCCESS, adv) \<and>
    le_audio_bap_broadcast_is_broadcast_announcement env (of_nat (length adv)) adv 0 = Some (True, br_id)"
  using assms
  by (simp add: le_audio_bap_build_broadcast_annoncement_adv_data_def le_audio_bap_broadcast_is_broadcast_announcement_def
      search_documented_def ad_walk_step ad_walk_end b16_def b24_def at_pos_def start_def skip_def rd16_Cons rd24_Cons le24_b24)

text \<open>A public announcement with more than 152 octets of metadata is copied over the end of the structure it is read into;
  the length is taken from the air.\<close>

theorem public_metadata_overrun:
  assumes "search_documented env" "length md \<le> 250" "length (rcv_metadata r) = 152"
    "BTM_BLE_ADVERT_TYPE_SERVICE_DATA env \<noteq> GA_LIB_PBP_TYPE_BROADCAST_NAME"
    "buf = [of_nat (5 + length md), BTM_BLE_ADVERT_TYPE_SERVICE_DATA env] @ b16 (WICED_BT_UUID_PUBLIC_BROADCAST_ANNOUNCEMENT env) @
       [feature, of_nat (length md)] @ md"
  shows "le_audio_pbp_is_public_broadcast env (of_nat (length buf)) buf r = None \<longleftrightarrow> 152 < length md"
proof -
  let ?l = "of_nat (5 + length md) :: u8"
  have l: "unat ?l = 5 + length md" "unat (of_nat (length md) :: u8) = length md" "unat (of_nat (length buf) :: u16) = length buf"
    using unat_of_nat_u8 [of "5 + length md"] unat_of_nat_u8 [of "length md"] unat_of_nat_u16 [of "length buf"] assms(2,5) by simp_all
  have l0: "0 < ?l" using l(1) by (simp add: word_gt_0_no word_less_nat_alt)
  have w: "ad_walk t 0 buf = (if BTM_BLE_ADVERT_TYPE_SERVICE_DATA env = t then [(2, ucast ?l - 1)] else [])" for t
    unfolding assms(5) append_Cons append_Nil using l l0
    by (subst ad_walk_step [where n = "length md + 4"]) (simp_all add: ad_walk_end)
  have n0: "ucast ?l - 1 \<noteq> (0 :: u16)"
  proof
    assume "ucast ?l - 1 = (0 :: u16)"
    then have "unat (ucast ?l :: u16) = 1" by simp
    with l(1) assms(2) show False by (simp add: unsigned_ucast_eq take_bit_nat_eq_self)
  qed
  let ?r = "r\<lparr>rcv_broadcast_name := replicate MAX_BROADCAST_NAME_ADV_SIZE 0\<rparr>"
  have "rd16 (at_pos 2 buf) = Some (WICED_BT_UUID_PUBLIC_BROADCAST_ANNOUNCEMENT env, feature # of_nat (length md) # md, 4)"
    by (simp add: assms(5) at_pos_def start_def skip_def rd16_b16)
  then have "find_public env buf True (ad_walk (BTM_BLE_ADVERT_TYPE_SERVICE_DATA env) 0 buf) ?r =
      map_option (Pair True) (parse_public (feature # of_nat (length md) # md, 4) ?r)"
    using n0 by (simp add: w)
  moreover have "parse_public (feature # of_nat (length md) # md, 4) ?r = None \<longleftrightarrow> 152 < length md"
    using rd_arr_append [of md "[]" 6] l(2) assms(3)
    by (auto simp: parse_public_def store_at_front_def Let_def)
  ultimately show ?thesis
    using l(3) w assms(1,4) by (auto simp: le_audio_pbp_is_public_broadcast_def search_documented_def next_entry_def bind_eq_None_conv)
qed

section \<open>Examples\<close>

definition example_adv :: adv_env where
  "example_adv = \<lparr>adv_search = (\<lambda>buf len t. ad_walk t 0 (take (unat len) buf)), BTM_BLE_ADVERT_TYPE_FLAG = 1,
     BTM_BLE_ADVERT_TYPE_SERVICE_DATA = 0x16, BTM_BLE_ADVERT_TYPE_APPEARANCE = 0x19, BTM_BLE_ADVERT_TYPE_NAME_COMPLETE = 9,
     BTM_BLE_GENERAL_DISCOVERABLE_FLAG = 2, BTM_BLE_BREDR_NOT_SUPPORTED = 4, WICED_BT_UUID_BASIC_AUDIO_ANNOUNCEMENT = 0x1851,
     WICED_BT_UUID_BROADCAST_AUDIO_ANNOUNCEMENT = 0x1852, WICED_BT_UUID_PUBLIC_BROADCAST_ANNOUNCEMENT = 0x1856,
     WICED_BT_UUID_BROADCAST_AUDIO_SCAN = 0x184F\<rparr>"

definition example_group :: le_audio_bap_broadcast_sub_group where
  "example_group = zero_base_group\<lparr>sg_csc := zero_csc\<lparr>sampling_frequency_hz := 48000, frame_duration_us := 10000\<rparr>, bis_cnt := 1,
     bis_config := [zero_bis_group\<lparr>bis_idx := 1, bis_csc := zero_csc\<lparr>audio_channel_allocation := 1\<rparr>\<rparr>, zero_bis_group]\<rparr>"

definition example_base :: le_audio_bap_broadcast_base where
  "example_base = zero_base\<lparr>base_presentation_delay := 40000, sub_group := [example_group, zero_base_group], sub_group_cnt := 1\<rparr>"

lemma example_group_encodable: "group_encodable example_group" "group_encodable zero_base_group"
  by (simp_all add: group_encodable_def example_group_def zero_base_group_def zero_bis_group_def csc_encodable_def zero_csc_def
      samp_freq_index_def metadata_contexts_def zero_metadata_def numeral_2_eq_2)

lemma example_search: "search_documented example_adv"
  by (simp add: search_documented_def example_adv_def)

theorem base_roundtrip_witness:
  "\<exists>out pos len r. le_audio_bap_build_base_data example_adv (Some example_base) MAX_SUPPORTED_BASE_SIZE = Some out \<and>
    le_audio_bap_broadcast_is_basic_announcement example_adv out (of_nat (length out)) = Some (Some (pos, len)) \<and>
    le_audio_bap_broadcast_parse_base_info (at_pos pos out) len zero_base = Some (WICED_SUCCESS, r) \<and>
    base_presentation_delay r = 40000 \<and> stored_group example_group (hd (sub_group r))"
proof -
  have "base_encodable example_base"
    by (simp add: base_encodable_def example_base_def zero_base_def example_group_encodable)
  from base_roundtrip [OF this example_search] obtain out pos len r where
    "le_audio_bap_build_base_data example_adv (Some example_base) MAX_SUPPORTED_BASE_SIZE = Some out"
    "le_audio_bap_broadcast_is_basic_announcement example_adv out (of_nat (length out)) = Some (Some (pos, len))"
    "le_audio_bap_broadcast_parse_base_info (at_pos pos out) len zero_base = Some (WICED_SUCCESS, r)"
    "base_presentation_delay r = 40000" "list_all2 stored_group [example_group] (take 1 (sub_group r))"
    by (auto simp: example_base_def zero_base_def)
  then show ?thesis by (cases "sub_group r") auto
qed

theorem base_too_many_streams_witness:
  "le_audio_bap_broadcast_parse_base_info (start (b16 0x1851 @ [0, 0, 0, 1] @ group_head 3 example_group @
     bis_octets zero_bis_group @ bis_octets zero_bis_group)) 60 zero_base = None"
proof -
  have b: "csc_encodable (bis_csc zero_bis_group)" by (simp add: zero_bis_group_def csc_encodable_def zero_csc_def)
  have "length (group_head 3 example_group @ bis_octets zero_bis_group @ bis_octets zero_bis_group) + 4 \<le> unat (60 :: u8)"
    by (simp add: group_head_def bis_octets_def example_group_def zero_base_group_def zero_bis_group_def csc_body_def zero_csc_def
        metadata_body_def zero_metadata_def ltv_seg_def Let_def)
  from base_too_many_streams [where cnt = 1 and u = "0x1851" and ?d0.0 = 0 and ?d1.0 = 0 and ?d2.0 = 0 and rest = "[]", OF _ _ example_group_encodable(1) b b this] show ?thesis by simp
qed

theorem public_metadata_overrun_witness:
  "le_audio_pbp_is_public_broadcast example_adv 161 ([160, 0x16] @ b16 0x1856 @ [0, 155] @ replicate 155 0)
     \<lparr>rcv_encryption = False, rcv_audio_config = GA_LIB_PBP_GENERIC_CODEC_PUBLIC_BROADCAST_AUDIO, public_broadcast_feature = 0,
      rcv_metadata_length = 0, rcv_metadata = replicate 152 0, rcv_broadcast_name = replicate 32 0, source_appearance_value = 0\<rparr> = None"
proof -
  from public_metadata_overrun [OF example_search, where md = "replicate 155 0" and feature = 0 and r = "\<lparr>rcv_encryption = False,
      rcv_audio_config = GA_LIB_PBP_GENERIC_CODEC_PUBLIC_BROADCAST_AUDIO, public_broadcast_feature = 0, rcv_metadata_length = 0,
      rcv_metadata = replicate 152 0, rcv_broadcast_name = replicate 32 0, source_appearance_value = 0\<rparr>"]
  show ?thesis by (simp add: example_adv_def)
qed

end
