(* ===== verification/Bis_Types.thy ===== *)
theory Bis_Types
  imports Bass_Lib Broadcast_Adv Audio
begin

text \<open>
  The data of the broadcast sink: the control block of a BIG and of the wanted source of \<open>lehs.h\<close>, what the
  SDK reports and is asked for, and the constants whose definition is not in the repository.
\<close>

section \<open>Control blocks\<close>

abbreviation (input) LEHS_MAX_BIG :: nat where "LEHS_MAX_BIG \<equiv> 1"
abbreviation (input) LEHS_BROADCAST_RCV_STATE_MAX :: nat where "LEHS_BROADCAST_RCV_STATE_MAX \<equiv> 1"

text \<open>\<open>sync_state\<close> holds one of the constants of \<open>bis_env\<close>, or the 0 of \<open>memset\<close>.\<close>

record lehs_broadcast_sink_cb =
  big_in_use :: bool
  big_handle :: u8
  adv_handle :: u8
  big_bd_addr :: "u8 list"
  b_base_updated :: bool
  b_biginfo_updated :: bool
  sync_state :: u8
  pa_sync_in_progress :: bool
  sync_handle :: u16
  big_sync_in_progress :: bool
  number_of_subevents :: u8
  iso_interval :: u16
  bis_conn_id_count :: u8
  bis_conn_id_list :: "u16 list"
  bis_index_list :: "u8 list"
  b_encryption :: bool
  sink_broadcast_code :: "u8 list"
  base :: le_audio_bap_broadcast_base

record broadcast_source =
  src_broadcast_id :: u32
  src_broadcast_code :: "u8 list"
  src_bis_index_bits :: u32

definition zero_big :: lehs_broadcast_sink_cb where
  "zero_big = \<lparr>big_in_use = False, big_handle = 0, adv_handle = 0, big_bd_addr = replicate BD_ADDR_LEN 0, b_base_updated = False,
     b_biginfo_updated = False, sync_state = 0, pa_sync_in_progress = False, sync_handle = 0, big_sync_in_progress = False,
     number_of_subevents = 0, iso_interval = 0, bis_conn_id_count = 0, bis_conn_id_list = replicate 4 0,
     bis_index_list = replicate 4 0, b_encryption = False, sink_broadcast_code = replicate BAP_BROADCAST_CODE_SIZE 0,
     base = zero_base\<rparr>"

definition zero_source :: broadcast_source where
  "zero_source = \<lparr>src_broadcast_id = 0, src_broadcast_code = replicate BAP_BROADCAST_CODE_SIZE 0, src_bis_index_bits = 0\<rparr>"

section \<open>Events\<close>

record ext_scan_results =
  scan_evt_type :: u16
  scan_addr_type :: u8
  scan_bda :: "u8 list"
  scan_adv_sid :: u8
  periodic_adv_interval :: u16

record padv_sync_established =
  pa_status :: u8
  pa_sync_handle :: u16
  pa_adv_sid :: u8
  pa_addr_type :: u8
  pa_bda :: "u8 list"
  pa_interval_reported :: u16

record padv_report =
  report_sync_handle :: u16
  report_status :: u8
  report_data :: "u8 list"

record biginfo_report =
  biginfo_sync_handle :: u16
  biginfo_subevents :: u8
  biginfo_iso_interval :: u16
  biginfo_encryption :: bool

datatype ext_adv_event =
    SYNC_TRANSFER_PARAM_EVENT u8 u16
  | SYNC_TRANSFER_EVENT padv_sync_established
  | PADV_SYNC_ESTABLISHED_EVENT padv_sync_established
  | PADV_REPORT_EVENT padv_report
  | BIGINFO_REPORT_EVENT biginfo_report
  | PADV_SYNC_LOST_EVENT u16
  | ADV_SET_TERMINATED_EVENT u16
  | OTHER_ADV_EVENT

datatype big_event =
    BIG_SYNC_ESTABLISHED_EVT u8 u8 u8 "u16 list"
  | BIG_SYNC_LOST_EVT u8
  | BIG_TERMINATED_SYNC_EVT u8
  | OTHER_BIG_EVT

section \<open>Calls of the stack and of the host\<close>

datatype scan_cback = NO_SCAN_CBACK | SCAN_CBACK | SCAN_TO_SYNC_CBACK

text \<open>The arguments that are the same in all calls are left out.\<close>

datatype bis_action =
    EXT_SCAN_ENABLE bool
  | EXT_SCAN_REGISTER_CB scan_cback
  | EXT_SCAN_CONFIGURE_REASSEMBLY u16 u8
  | EXT_SCAN_SET_PARAMS_ACTIVE
  | PADV_ADD_DEVICE u8 "u8 list" u8
  | PADV_REMOVE_DEVICE u8 "u8 list" u8
  | PADV_CREATE_SYNC u8 u8 "u8 list" u16
  | PADV_CANCEL_SYNC
  | PADV_TERMINATE_SYNC u16
  | PADV_ALLOC_SEGMENT_ASSEMBLER u16 u16
  | PADV_SET_SYNC_TRANSFER_PARAMS "u8 list"
  | BIG_CREATE_SYNC u8 u16 u8 int "u8 list" "u8 list option"
  | BIG_TERMINATE_SYNC u8
  | RPC_BROADCAST_STATUS u8
  | RPC_BIS_INFO "u8 list"
  | RPC_STREAM_INFO "u8 list"

text \<open>
  The SDK. \<open>scan_buffer\<close> tells whether a buffer for a scan result can be allocated, \<open>addr_octets\<close> is the memory of an
  address structure, \<open>device_address\<close> and \<open>bis_acl_conn_handle\<close> the peer and the link of a connection.
\<close>

record bis_env =
  bis_adv :: adv_env
  bis_gatt :: gatt_env
  bis_audio :: audio_env
  scan_buffer :: bool
  addr_octets :: "u8 \<Rightarrow> u8 list \<Rightarrow> u8 list"
  device_address :: "u16 \<Rightarrow> u8 list"
  bis_acl_conn_handle :: "u16 \<Rightarrow> u16"
  BROADCAST_PA_SYNC_ESTABLISHED :: u8
  BROADCAST_PA_SYNC_LOST :: u8
  BROADCAST_BIG_SYNC_ESTABLISHED :: u8
  BROADCAST_BIG_SYNC_LOST :: u8
  BROADCAST_BIG_SYNC_TERMINATED :: u8

definition sync_states :: "bis_env \<Rightarrow> u8 list" where
  "sync_states env = [BROADCAST_PA_SYNC_ESTABLISHED env, BROADCAST_PA_SYNC_LOST env, BROADCAST_BIG_SYNC_ESTABLISHED env,
     BROADCAST_BIG_SYNC_LOST env, BROADCAST_BIG_SYNC_TERMINATED env]"

end
