(* ===== verification/Services.thy ===== *)
theory Services
  imports Bonds Bis_Types Mcs_Tbs
begin

text \<open>
  The data of the local services (\<open>lehs_local_service_data_t\<close> of \<open>lehs.h\<close> and the structures of the
  profile headers it is made of), the state the GATT server works on, and the actions its handlers
  leave behind.
\<close>

section \<open>Attribute handles\<close>

abbreviation (input) HDLC_VCS_VOLUME_STATE_VALUE :: u16 where "HDLC_VCS_VOLUME_STATE_VALUE \<equiv> 52"
abbreviation (input) HDLC_VCS_VOLUME_CONTROL_POINT_VALUE :: u16 where "HDLC_VCS_VOLUME_CONTROL_POINT_VALUE \<equiv> 55"
abbreviation (input) HDLC_VCS_VOLUME_FLAGS_VALUE :: u16 where "HDLC_VCS_VOLUME_FLAGS_VALUE \<equiv> 57"
abbreviation (input) HDLC_VOCS_OFFSET_STATE_VALUE :: u16 where "HDLC_VOCS_OFFSET_STATE_VALUE \<equiv> 66"
abbreviation (input) HDLC_VOCS_AUDIO_LOCATION_VALUE :: u16 where "HDLC_VOCS_AUDIO_LOCATION_VALUE \<equiv> 69"
abbreviation (input) HDLC_VOCS_VOLUME_OFFSET_CONTROL_POINT_VALUE :: u16 where
  "HDLC_VOCS_VOLUME_OFFSET_CONTROL_POINT_VALUE \<equiv> 72"
abbreviation (input) HDLC_VOCS_AUDIO_OUTPUT_DESCRIPTION_VALUE :: u16 where
  "HDLC_VOCS_AUDIO_OUTPUT_DESCRIPTION_VALUE \<equiv> 74"
abbreviation (input) HDLC_CSIS_SIRK_VALUE :: u16 where "HDLC_CSIS_SIRK_VALUE \<equiv> 402"
abbreviation (input) HDLC_CSIS_SIZE_VALUE :: u16 where "HDLC_CSIS_SIZE_VALUE \<equiv> 405"
abbreviation (input) HDLC_CSIS_LOCK_VALUE :: u16 where "HDLC_CSIS_LOCK_VALUE \<equiv> 408"
abbreviation (input) HDLC_CSIS_RANK_VALUE :: u16 where "HDLC_CSIS_RANK_VALUE \<equiv> 411"
abbreviation (input) HDLC_MICS_MUTE_STATE_VALUE :: u16 where "HDLC_MICS_MUTE_STATE_VALUE \<equiv> 423"
abbreviation (input) HDLC_MICS_AICS_INPUT_STATE_VALUE :: u16 where "HDLC_MICS_AICS_INPUT_STATE_VALUE \<equiv> 434"
abbreviation (input) HDLC_MICS_AICS_GAIN_SETTING_ATTR_VALUE :: u16 where "HDLC_MICS_AICS_GAIN_SETTING_ATTR_VALUE \<equiv> 437"
abbreviation (input) HDLC_MICS_AICS_INPUT_TYPE_VALUE :: u16 where "HDLC_MICS_AICS_INPUT_TYPE_VALUE \<equiv> 439"
abbreviation (input) HDLC_MICS_AICS_INPUT_STATUS_VALUE :: u16 where "HDLC_MICS_AICS_INPUT_STATUS_VALUE \<equiv> 441"
abbreviation (input) HDLC_MICS_AICS_AUDIO_INPUT_CONTROL_POINT_VALUE :: u16 where
  "HDLC_MICS_AICS_AUDIO_INPUT_CONTROL_POINT_VALUE \<equiv> 444"
abbreviation (input) HDLC_MICS_AICS_AUDIO_INPUT_DESCRIPTION_VALUE :: u16 where
  "HDLC_MICS_AICS_AUDIO_INPUT_DESCRIPTION_VALUE \<equiv> 446"
abbreviation (input) HDLC_HAS_HEARIND_AID_FEATUES_VALUE :: u16 where "HDLC_HAS_HEARIND_AID_FEATUES_VALUE \<equiv> 482"
abbreviation (input) HDLC_HAS_HEARING_AID_PRESET_CONTROL_POINT_VALUE :: u16 where
  "HDLC_HAS_HEARING_AID_PRESET_CONTROL_POINT_VALUE \<equiv> 485"
abbreviation (input) HDLC_HAS_ACTIVE_PRESET_INDEX_VALUE :: u16 where "HDLC_HAS_ACTIVE_PRESET_INDEX_VALUE \<equiv> 488"

section \<open>Service data\<close>

record ga_lib_vcs_volume_state =
  volume_setting :: u8
  vcs_mute_state :: u8
  vcs_change_counter :: u8

record lehs_vcs =
  vcs_state :: ga_lib_vcs_volume_state
  vcs_flag :: u8

text \<open>The offset is an \<open>int16_t\<close>, read with \<open>sint\<close>; the description has 20 octets.\<close>

record lehs_vocs =
  volume_offset :: u16
  vocs_change_counter :: u8
  vocs_audio_location :: u32
  vocs_description :: "u8 list"

record lehs_mics =
  mics_mute_state :: u8

text \<open>The gain settings are \<open>int8_t\<close> values.\<close>

record ga_lib_aics_input_state =
  gain_setting :: u8
  mute_mode :: u8
  gain_mode :: u8
  aics_change_counter :: u8

record ga_lib_aics_gain_settings_params =
  gain_setting_units :: u8
  max_gain_setting :: u8
  min_gain_setting :: u8

abbreviation (input) MAX_DESCRIPTION :: nat where "MAX_DESCRIPTION \<equiv> 20"

record lehs_aics =
  aics_value_handle :: u16
  input_state :: ga_lib_aics_input_state
  gain_params :: ga_lib_aics_gain_settings_params
  input_type :: u8
  input_status :: u8
  aics_description :: "u8 list"
  description_len :: u8

record ga_lib_csis_sirk_data =
  sirk :: "u8 list"
  sirk_type :: u8
  is_oob :: bool

text \<open>Of the timer, whether it runs.\<close>

record lehs_csis_data =
  sirk_data :: ga_lib_csis_sirk_data
  csis_size :: u8
  csis_rank :: u8
  conn_id_of_lock_owner :: u16
  csis_lock :: u8
  lock_timer_on :: bool

record lehs_has_data =
  procedure_in_progress :: u8
  hearing_aid_features :: u8
  active_preset_index :: u8

record lehs_local_service_data =
  local_vcs :: lehs_vcs
  local_vocs :: lehs_vocs
  local_mics :: lehs_mics
  mics_aics :: "lehs_aics list"
  local_csis :: lehs_csis_data
  local_gmap :: lehs_gmap_data
  local_has :: lehs_has_data
  local_bass :: "lehs_bass_data list"

definition zero_aics :: lehs_aics where
  "zero_aics = \<lparr>aics_value_handle = 0,
     input_state = \<lparr>gain_setting = 0, mute_mode = 0, gain_mode = 0, aics_change_counter = 0\<rparr>,
     gain_params = \<lparr>gain_setting_units = 0, max_gain_setting = 0, min_gain_setting = 0\<rparr>,
     input_type = 0, input_status = 0, aics_description = replicate MAX_DESCRIPTION 0, description_len = 0\<rparr>"

text \<open>Static storage starts as zero.\<close>

definition zero_service_data :: lehs_local_service_data where
  "zero_service_data =
     \<lparr>local_vcs = \<lparr>vcs_state = \<lparr>volume_setting = 0, vcs_mute_state = 0, vcs_change_counter = 0\<rparr>, vcs_flag = 0\<rparr>,
      local_vocs = \<lparr>volume_offset = 0, vocs_change_counter = 0, vocs_audio_location = 0,
        vocs_description = replicate 20 0\<rparr>,
      local_mics = \<lparr>mics_mute_state = 0\<rparr>, mics_aics = [zero_aics],
      local_csis = \<lparr>sirk_data = \<lparr>sirk = replicate 16 0, sirk_type = 0, is_oob = False\<rparr>, csis_size = 0, csis_rank = 0,
        conn_id_of_lock_owner = 0, csis_lock = 0, lock_timer_on = False\<rparr>,
      local_gmap = zero_gmap_data,
      local_has = \<lparr>procedure_in_progress = 0, hearing_aid_features = 0, active_preset_index = 0\<rparr>,
      local_bass = replicate LEHS_BROADCAST_RCV_STATE_MAX zero_bass_data\<rparr>"

section \<open>The server\<close>

datatype lea_status = LEA_NO_STATUS | LEA_VOLUME_STATUS | LEA_MUTE_AND_VOLUME_STATUS | LEA_MUTE_STATUS

text \<open>The events of the host transport, and the calls the server makes.\<close>

datatype host_event =
    EVENT_IDENTITY_KEYS | EVENT_NVRAM_DATA | EVENT_DEVICE_ROLE | EVENT_DEVICE_APPEARANCE | EVENT_VERSION | EVENT_PING_REPLY
  | EVENT_CONNECTED | EVENT_DISCONNECTED | EVENT_EXT_ADVERTISEMENT_REPORT | EVENT_APP_STATUS | EVENT_ADVERTISEMENT_STATE
  | EVENT_EXT_ADVERTISEMENT_STATE | EVENT_PLAY_STATUS | EVENT_MEDIA_PLAYER | EVENT_CALL_FRIENDLY_NAME | EVENT_CALL_STATE
  | EVENT_CALL_TERMINATED | EVENT_BROADCAST_STATUS_UPDATE | EVENT_MUTE_STATUS | EVENT_VOLUME_STATUS
  | EVENT_MUTE_AND_VOLUME_STATUS | EVENT_MIC_STATUS | EVENT_CONVO_STREAM_STATE | EVENT_MICS_AICS_DESC
  | EVENT_MICS_MUTE_STATUS | EVENT_MICS_AICS_INPUT_STATUS | EVENT_PRESET_RECORD | EVENT_ACTIVE_PRESET

datatype server_action =
    STREAM ascs_action
  | SEND_VCS_STATE u16 u8 u8 lea_status
  | SEND_MICS_MUTE u16 u8
  | SEND_AICS_INPUT_STATE u16 u32 ga_lib_aics_input_state
  | SEND_AICS_DESCRIPTION u16 u32 "u8 list"
  | START_LOCK_TIMER nat
  | BROADCAST bis_action
  | CONNECTION conn_action
  | MTU_RSP u16 u16 u16
  | READ_RSP u16 "u8 list"
  | WRITE_RSP u16 u16
  | READ_BY_TYPE_RSP u16 u8 "u8 list"
  | ERROR_RSP u16 u16 gatt_status
  | HOST_EVENT host_event "u8 list"
  | CLIENT client_action

text \<open>
  What the handlers of the server share: the service data, the variables of \<open>lehs_has.c\<close> and \<open>lehs_pacs.c\<close>, the
  audio driver, the control blocks, the bonds with the keys of the device itself, the broadcast sink with its queue of
  scan results, the advertising state with its options, and what was sent.
\<close>

record server_state =
  services :: lehs_local_service_data
  has_global :: lehs_has_data
  pacs_app_data :: ga_lib_pacs_data
  server_audio :: audio_state
  server_clcbs :: "lehs_clcb list"
  server_nvram :: "lehs_nvram_paired_device_key list"
  db_hash_value :: "u8 list"
  broadcast_sink_cb :: "lehs_broadcast_sink_cb list"
  periodic_sync_in_progress :: bool
  source_cb :: broadcast_source
  pending_scan_q :: "ext_scan_results list"
  server_adv_state :: adv_state
  server_do_swift_pair :: u8
  adv_tx_power :: u8
  adv_data_options :: u16
  local_id_keys :: "u8 list"
  actions :: "server_action list"

definition emit_server :: "server_action list \<Rightarrow> server_state \<Rightarrow> server_state" where
  "emit_server acts s = s\<lparr>actions := actions s @ acts\<rparr>"

text \<open>A call of the audio driver.\<close>

definition drive :: "(audio_state \<Rightarrow> audio_state \<times> audio_action list) \<Rightarrow> server_state \<Rightarrow> server_state" where
  "drive f s =
     (case f (server_audio s) of (a, acts) \<Rightarrow> emit_server (map (\<lambda>x. STREAM (AUDIO x)) acts) (s\<lparr>server_audio := a\<rparr>))"

text \<open>
  The installed callback looks the configuration up in the control blocks; their words are always those of 27
  descriptors, so the lookup succeeds.
\<close>

definition server_gatt :: "gatt_env \<Rightarrow> server_state \<Rightarrow> gatt_env" where
  "server_gatt env s = env\<lparr>cccd_callback := Some (\<lambda>cid h.
     case lehs_handle_get_cccd_value_cb (server_clcbs s) cid h of None \<Rightarrow> 0 | Some v \<Rightarrow> v)\<rparr>"

definition emit_gatts :: "gatt_action list \<Rightarrow> server_state \<Rightarrow> server_state" where
  "emit_gatts acts s = emit_server (map (\<lambda>x. STREAM (GATT x)) acts) s"

definition server_notify :: "gatt_env \<Rightarrow> u16 \<Rightarrow> u16 \<Rightarrow> u8 list \<Rightarrow> server_state \<Rightarrow> gatt_status \<times> server_state" where
  "server_notify env cid h data s =
     (case gatt_intf_send_notification (server_gatt env s) cid h data of (st, acts) \<Rightarrow> (st, emit_gatts acts s))"

definition upd_services :: "(lehs_local_service_data \<Rightarrow> lehs_local_service_data) \<Rightarrow> server_state \<Rightarrow> server_state" where
  "upd_services f s = s\<lparr>services := f (services s)\<rparr>"

section \<open>What these keep\<close>

named_theorems server_simps \<open>which parts of the server state an update leaves alone\<close>

lemma emit_server_simps [simp, server_simps]:
  "services (emit_server acts s) = services s" "has_global (emit_server acts s) = has_global s"
  "pacs_app_data (emit_server acts s) = pacs_app_data s" "server_audio (emit_server acts s) = server_audio s"
  "server_clcbs (emit_server acts s) = server_clcbs s" "server_nvram (emit_server acts s) = server_nvram s"
  "db_hash_value (emit_server acts s) = db_hash_value s"
  "broadcast_sink_cb (emit_server acts s) = broadcast_sink_cb s"
  "periodic_sync_in_progress (emit_server acts s) = periodic_sync_in_progress s"
  "source_cb (emit_server acts s) = source_cb s"
  "pending_scan_q (emit_server acts s) = pending_scan_q s"
  "server_adv_state (emit_server acts s) = server_adv_state s"
  "server_do_swift_pair (emit_server acts s) = server_do_swift_pair s"
  "adv_tx_power (emit_server acts s) = adv_tx_power s" "adv_data_options (emit_server acts s) = adv_data_options s"
  "local_id_keys (emit_server acts s) = local_id_keys s" "actions (emit_server acts s) = actions s @ acts"
  by (simp_all add: emit_server_def)

lemma emit_emit [simp]: "emit_server b (emit_server a s) = emit_server (a @ b) s"
  by (simp add: emit_server_def)

lemma emit_nil [simp]: "emit_server [] s = s"
  by (simp add: emit_server_def)

lemma emit_gatts_simps [simp, server_simps]:
  "services (emit_gatts acts s) = services s" "has_global (emit_gatts acts s) = has_global s"
  "pacs_app_data (emit_gatts acts s) = pacs_app_data s" "server_audio (emit_gatts acts s) = server_audio s"
  "server_clcbs (emit_gatts acts s) = server_clcbs s" "server_nvram (emit_gatts acts s) = server_nvram s"
  "db_hash_value (emit_gatts acts s) = db_hash_value s"
  "broadcast_sink_cb (emit_gatts acts s) = broadcast_sink_cb s"
  "periodic_sync_in_progress (emit_gatts acts s) = periodic_sync_in_progress s"
  "source_cb (emit_gatts acts s) = source_cb s"
  "pending_scan_q (emit_gatts acts s) = pending_scan_q s"
  "server_adv_state (emit_gatts acts s) = server_adv_state s"
  "server_do_swift_pair (emit_gatts acts s) = server_do_swift_pair s"
  "adv_tx_power (emit_gatts acts s) = adv_tx_power s" "adv_data_options (emit_gatts acts s) = adv_data_options s"
  "local_id_keys (emit_gatts acts s) = local_id_keys s"
  "actions (emit_gatts acts s) = actions s @ map (\<lambda>x. STREAM (GATT x)) acts"
  by (simp_all add: emit_gatts_def)

lemma drive_simps [simp, server_simps]:
  "services (drive f s) = services s" "has_global (drive f s) = has_global s"
  "pacs_app_data (drive f s) = pacs_app_data s" "server_audio (drive f s) = fst (f (server_audio s))"
  "server_clcbs (drive f s) = server_clcbs s" "server_nvram (drive f s) = server_nvram s"
  "db_hash_value (drive f s) = db_hash_value s"
  "broadcast_sink_cb (drive f s) = broadcast_sink_cb s"
  "periodic_sync_in_progress (drive f s) = periodic_sync_in_progress s"
  "source_cb (drive f s) = source_cb s"
  "pending_scan_q (drive f s) = pending_scan_q s"
  "server_adv_state (drive f s) = server_adv_state s"
  "server_do_swift_pair (drive f s) = server_do_swift_pair s"
  "adv_tx_power (drive f s) = adv_tx_power s" "adv_data_options (drive f s) = adv_data_options s"
  "local_id_keys (drive f s) = local_id_keys s"
  "actions (drive f s) = actions s @ map (\<lambda>x. STREAM (AUDIO x)) (snd (f (server_audio s)))"
  by (simp_all add: drive_def split: prod.splits)

lemma upd_services_simps [simp, server_simps]:
  "services (upd_services f s) = f (services s)" "has_global (upd_services f s) = has_global s"
  "pacs_app_data (upd_services f s) = pacs_app_data s" "server_audio (upd_services f s) = server_audio s"
  "server_clcbs (upd_services f s) = server_clcbs s" "server_nvram (upd_services f s) = server_nvram s"
  "db_hash_value (upd_services f s) = db_hash_value s"
  "broadcast_sink_cb (upd_services f s) = broadcast_sink_cb s"
  "periodic_sync_in_progress (upd_services f s) = periodic_sync_in_progress s"
  "source_cb (upd_services f s) = source_cb s"
  "pending_scan_q (upd_services f s) = pending_scan_q s"
  "server_adv_state (upd_services f s) = server_adv_state s"
  "server_do_swift_pair (upd_services f s) = server_do_swift_pair s"
  "adv_tx_power (upd_services f s) = adv_tx_power s" "adv_data_options (upd_services f s) = adv_data_options s"
  "local_id_keys (upd_services f s) = local_id_keys s" "actions (upd_services f s) = actions s"
  by (simp_all add: upd_services_def)

lemma emits_nothing: "\<exists>acts. s = emit_server acts s"
  by (rule exI [of _ "[]"]) simp

text \<open>The notifications a value on a handle leads to: none or one to the connection.\<close>

definition sent_value :: "gatt_env \<Rightarrow> lehs_clcb list \<Rightarrow> u16 \<Rightarrow> u16 \<Rightarrow> u8 list \<Rightarrow> server_action list" where
  "sent_value env cs cid h data =
     (let v = (case lehs_handle_get_cccd_value_cb cs cid h of None \<Rightarrow> 0 | Some v \<Rightarrow> v)
      in if length data \<le> unat (bearer_mtu env cid - gatt_hdr_size env) \<and> v AND 3 \<noteq> 0 \<and>
            (data = [] \<or> get_buffer env (length data))
         then [STREAM (GATT (if v AND 2 \<noteq> 0 then SEND_INDICATION cid h data else SEND_NOTIFICATION cid h data))]
         else [])"

lemma server_notify_state: "snd (server_notify env cid h data s) = emit_server (sent_value env (server_clcbs s) cid h data) s"
  by (auto simp: server_notify_def server_gatt_def emit_gatts_def sent_value_def gatt_intf_send_notification_def Let_def
      split: option.splits)

section \<open>What a broadcast sink leaves alone\<close>

text \<open>The volume the driver plays at, and the state besides the broadcast sink, the advertising and what was sent.\<close>

definition levels :: "audio_state \<Rightarrow> u8 \<times> u8" where
  "levels a = (prev_volume a, prev_vol_mute a)"

definition besides_audio :: "server_state \<Rightarrow> lehs_vcs \<times> lehs_vocs \<times> lehs_mics \<times> lehs_aics list \<times> lehs_csis_data \<times> lehs_gmap_data
    \<times> lehs_has_data \<times> lehs_has_data \<times> ga_lib_pacs_data \<times> lehs_clcb list \<times> lehs_nvram_paired_device_key list \<times> u8 list" where
  "besides_audio s = (local_vcs (services s), local_vocs (services s), local_mics (services s), mics_aics (services s),
     local_csis (services s), local_gmap (services s), local_has (services s), has_global s, pacs_app_data s, server_clcbs s,
     server_nvram s, db_hash_value s)"

definition besides :: "server_state \<Rightarrow> (u8 \<times> u8) \<times> lehs_vcs \<times> lehs_vocs \<times> lehs_mics \<times> lehs_aics list \<times> lehs_csis_data \<times> lehs_gmap_data
    \<times> lehs_has_data \<times> lehs_has_data \<times> ga_lib_pacs_data \<times> lehs_clcb list \<times> lehs_nvram_paired_device_key list \<times> u8 list" where
  "besides s = (levels (server_audio s), besides_audio s)"

lemma besides_emit [simp]: "besides (emit_server acts s) = besides s"
  by (simp add: besides_def besides_audio_def)

lemma levels_stream [simp]: "levels (a\<lparr>stream_id := x\<rparr>) = levels a" "levels (a\<lparr>buf_role := r\<rparr>) = levels a"
  by (simp_all add: levels_def)

lemma levels_reinit [simp]: "levels (fst (lehs_isoc_dhm_reinit r a)) = levels a"
  by (simp add: lehs_isoc_dhm_reinit_def)

section \<open>An example\<close>

text \<open>The server before the services are initialised, for the examples.\<close>

definition example_unset :: "lehs_clcb list \<Rightarrow> server_state" where
  "example_unset cs = \<lparr>services = zero_service_data, has_global = local_has zero_service_data, pacs_app_data = g_lehs_pacs_app_data 6,
     server_audio = example_audio, server_clcbs = cs, server_nvram = lehs_nvram_init, db_hash_value = replicate 16 1,
     broadcast_sink_cb = replicate LEHS_MAX_BIG zero_big, periodic_sync_in_progress = False, source_cb = zero_source, pending_scan_q = [],
     server_adv_state = ADV_STATE_IDLE, server_do_swift_pair = 0, adv_tx_power = 0,
     adv_data_options = 0xFFFF, local_id_keys = [], actions = []\<rparr>"

lemma example_unset_simps [simp]:
  "services (example_unset cs) = zero_service_data" "has_global (example_unset cs) = local_has zero_service_data"
  "server_clcbs (example_unset cs) = cs" "server_audio (example_unset cs) = example_audio" "actions (example_unset cs) = []"
  by (simp_all add: example_unset_def)

end
