(* ===== verification/Volume.thy ===== *)
theory Volume
  imports Services
begin

text \<open>
  The volume services: \<open>lehs_vcs.c\<close> and \<open>ga_lib_vcs.c\<close>, \<open>lehs_mics.c\<close> with \<open>ga_lib_mics.c\<close> and \<open>ga_lib_aics.c\<close>,
  \<open>ga_lib_vocs.c\<close>, and the writes to their characteristics in \<open>lehs_gatt.c\<close>.
\<close>

section \<open>Volume control\<close>

abbreviation (input) VOLUME_CONTROL_OPCODE_SET_ABSOLUTE_VOLUME :: u8 where
  "VOLUME_CONTROL_OPCODE_SET_ABSOLUTE_VOLUME \<equiv> 4"
abbreviation (input) VOLUME_CONTROL_OPCODE_UNMUTE :: u8 where "VOLUME_CONTROL_OPCODE_UNMUTE \<equiv> 5"
abbreviation (input) VOLUME_CONTROL_OPCODE_MUTE :: u8 where "VOLUME_CONTROL_OPCODE_MUTE \<equiv> 6"
abbreviation (input) GA_LIB_VCS_ERROR_INVALID_CHANGE_COUNTER :: gatt_status where
  "GA_LIB_VCS_ERROR_INVALID_CHANGE_COUNTER \<equiv> GATT_APPLICATION 0x80"
abbreviation (input) GA_LIB_VCS_ERROR_OPCODE_NOT_SUPPORTED :: gatt_status where
  "GA_LIB_VCS_ERROR_OPCODE_NOT_SUPPORTED \<equiv> GATT_APPLICATION 0x81"

text \<open>\<open>MAX((int)(v - step), 0)\<close> and \<open>MIN((int)(v + step), 0xFF)\<close>, stored in 8 bits.\<close>

definition step_down :: "u8 \<Rightarrow> int \<Rightarrow> u8" where
  "step_down v step_size = of_int (max (uint v - step_size) 0)"

definition step_up :: "u8 \<Rightarrow> int \<Rightarrow> u8" where
  "step_up v step_size = of_int (min (uint v + step_size) 0xFF)"

definition ga_lib_vcs_check_volume_state_validity ::
  "u8 \<Rightarrow> u8 \<Rightarrow> int \<Rightarrow> ga_lib_vcs_volume_state \<Rightarrow> wiced_result \<times> ga_lib_vcs_volume_state" where
  "ga_lib_vcs_check_volume_state_validity opcode new_volume_setting step_size st =
     (let v = volume_setting st; m = vcs_mute_state st;
          new = (if opcode = 0 then Some (step_down v step_size, m)
            else if opcode = 1 then Some (step_up v step_size, m)
            else if opcode = 2 then Some (step_down v step_size, 0)
            else if opcode = 3 then Some (step_up v step_size, 0)
            else if opcode = VOLUME_CONTROL_OPCODE_SET_ABSOLUTE_VOLUME then Some (new_volume_setting, m)
            else if opcode = VOLUME_CONTROL_OPCODE_UNMUTE then Some (v, 0)
            else if opcode = VOLUME_CONTROL_OPCODE_MUTE then Some (v, 1)
            else None)
      in case new of None \<Rightarrow> (WICED_ERROR, st)
         | Some (v', m') \<Rightarrow>
             if v' \<noteq> v \<or> m' \<noteq> m then (WICED_SUCCESS, st\<lparr>volume_setting := v', vcs_mute_state := m'\<rparr>)
             else (WICED_ERROR, st))"

definition next_counter :: "u8 \<Rightarrow> u8" where
  "next_counter c = (if c = 0xFF then 0 else c + 1)"

definition volume_state_octets :: "ga_lib_vcs_volume_state \<Rightarrow> u8 list" where
  "volume_state_octets st = [volume_setting st, vcs_mute_state st, vcs_change_counter st]"

definition set_vcs_state :: "(ga_lib_vcs_volume_state \<Rightarrow> ga_lib_vcs_volume_state) \<Rightarrow> server_state \<Rightarrow> server_state" where
  "set_vcs_state f = upd_services (\<lambda>l. l\<lparr>local_vcs := (local_vcs l)\<lparr>vcs_state := f (vcs_state (local_vcs l))\<rparr>\<rparr>)"

abbreviation the_vcs :: "server_state \<Rightarrow> ga_lib_vcs_volume_state" where
  "the_vcs s \<equiv> vcs_state (local_vcs (services s))"

text \<open>The counter moves on with every notification.\<close>

definition ga_lib_vcs_notify_volume_state :: "gatt_env \<Rightarrow> u16 \<Rightarrow> u16 \<Rightarrow> server_state \<Rightarrow> gatt_status \<times> server_state" where
  "ga_lib_vcs_notify_volume_state env cid handle s =
     (let s = set_vcs_state (\<lambda>st. st\<lparr>vcs_change_counter := next_counter (vcs_change_counter st)\<rparr>) s
      in server_notify env cid handle (volume_state_octets (the_vcs s)) s)"

definition ga_lib_vcs_notify_volume_flag :: "gatt_env \<Rightarrow> u16 \<Rightarrow> u16 \<Rightarrow> u8 \<Rightarrow> server_state \<Rightarrow> gatt_status \<times> server_state" where
  "ga_lib_vcs_notify_volume_flag env cid handle flag = server_notify env cid handle [flag]"

definition lehs_vcs_notify_volume_state :: "gatt_env \<Rightarrow> server_state \<Rightarrow> server_state" where
  "lehs_vcs_notify_volume_state env s =
     fold (\<lambda>c s. if in_use c then snd (ga_lib_vcs_notify_volume_state env (conn_id c) HDLC_VCS_VOLUME_STATE_VALUE s) else s)
       (server_clcbs s) s"

definition vcs_char_type :: "u8 \<Rightarrow> lea_status" where
  "vcs_char_type opcode =
     (if opcode = 0 \<or> opcode = 1 \<or> opcode = VOLUME_CONTROL_OPCODE_SET_ABSOLUTE_VOLUME then LEA_VOLUME_STATUS
      else if opcode = 2 \<or> opcode = 3 then LEA_MUTE_AND_VOLUME_STATUS
      else if opcode = VOLUME_CONTROL_OPCODE_UNMUTE \<or> opcode = VOLUME_CONTROL_OPCODE_MUTE then LEA_MUTE_STATUS
      else LEA_NO_STATUS)"

definition lehs_vcs_set_volume :: "gatt_env \<Rightarrow> u16 \<Rightarrow> u8 \<Rightarrow> u8 \<Rightarrow> server_state \<Rightarrow> gatt_status \<times> server_state" where
  "lehs_vcs_set_volume env cid vcs_opcode abs_vol s =
     (case ga_lib_vcs_check_volume_state_validity vcs_opcode abs_vol 25 (the_vcs s) of (r, st) \<Rightarrow>
        if r \<noteq> WICED_SUCCESS then (GATT_SUCCESS, s)
        else
          let s = set_vcs_state (\<lambda>_. st) s;
              s = drive (audio_driver_set_volume (volume_setting st)) s;
              s = drive (audio_driver_set_mute_state (vcs_mute_state st)) s;
              s = lehs_vcs_notify_volume_state env s
          in (GATT_SUCCESS,
              emit_server [SEND_VCS_STATE cid (volume_setting (the_vcs s)) (vcs_mute_state (the_vcs s)) (vcs_char_type vcs_opcode)] s))"

definition lehs_handle_vcs_cp_write ::
  "gatt_env \<Rightarrow> u16 \<Rightarrow> u8 list \<Rightarrow> nat \<Rightarrow> server_state \<Rightarrow> (gatt_status \<times> server_state) option" where
  "lehs_handle_vcs_cp_write env cid data len_to_write s = do {
     (opcode, p) \<leftarrow> rd8 (start data);
     if opcode > VOLUME_CONTROL_OPCODE_MUTE then Some (GA_LIB_VCS_ERROR_OPCODE_NOT_SUPPORTED, s)
     else if opcode = VOLUME_CONTROL_OPCODE_SET_ABSOLUTE_VOLUME \<and> len_to_write \<noteq> 3 \<or>
             opcode \<noteq> VOLUME_CONTROL_OPCODE_SET_ABSOLUTE_VOLUME \<and> len_to_write \<noteq> 2 then Some (GATT_INVALID_ATTR_LEN, s)
     else do {
       (change_counter, p) \<leftarrow> rd8 p;
       if vcs_change_counter (the_vcs s) \<noteq> change_counter then Some (GA_LIB_VCS_ERROR_INVALID_CHANGE_COUNTER, s)
       else do {
         (abs_vol, p) \<leftarrow> (if opcode = VOLUME_CONTROL_OPCODE_SET_ABSOLUTE_VOLUME then rd8 p
                          else Some (volume_setting (the_vcs s), p));
         let (st, s) = lehs_vcs_set_volume env cid opcode abs_vol s;
         Some (st,
           if opcode < VOLUME_CONTROL_OPCODE_UNMUTE \<and> vcs_flag (local_vcs (services s)) \<noteq> 1
           then snd (ga_lib_vcs_notify_volume_flag env cid HDLC_VCS_VOLUME_FLAGS_VALUE 1
                  (upd_services (\<lambda>l. l\<lparr>local_vcs := (local_vcs l)\<lparr>vcs_flag := 1\<rparr>\<rparr>) s))
           else s) } } }"

definition lehs_vcs_initialize_data :: "server_state \<Rightarrow> server_state" where
  "lehs_vcs_initialize_data s =
     (let s = upd_services (\<lambda>l. l\<lparr>local_vcs := (local_vcs l)\<lparr>vcs_flag := 1\<rparr>\<rparr>) s;
          s = set_vcs_state (\<lambda>st. st\<lparr>vcs_mute_state := 0, volume_setting := 100\<rparr>) s
      in drive (audio_driver_set_mute_state 0) (drive (audio_driver_set_volume 100) s))"

text \<open>The command a controller sends.\<close>

definition ga_lib_vcs_write_control_point ::
  "gatt_env \<Rightarrow> u16 \<Rightarrow> gatt_intf_characteristic_handles \<Rightarrow> u8 \<Rightarrow> ga_lib_vcs_volume_state \<Rightarrow> gatt_status \<times> gatt_action list" where
  "ga_lib_vcs_write_control_point env cid p_handle opcode st =
     (if \<not> get_buffer env 3 then (GATT_NO_RESOURCES, [])
      else if opcode > VOLUME_CONTROL_OPCODE_MUTE then (GATT_ERROR, [])
      else
        let a = SEND_WRITE cid (value_handle p_handle)
                  ([opcode, vcs_change_counter st] @
                   (if opcode = VOLUME_CONTROL_OPCODE_SET_ABSOLUTE_VOLUME then [volume_setting st] else []))
        in (client_send env a, [a]))"

section \<open>Volume offset\<close>

abbreviation (input) GA_LIB_VOCS_ERROR_INVALID_CHANGE_COUNTER :: gatt_status where
  "GA_LIB_VOCS_ERROR_INVALID_CHANGE_COUNTER \<equiv> GATT_APPLICATION 0x80"
abbreviation (input) GA_LIB_VOCS_ERROR_OPCODE_NOT_SUPPORTED :: gatt_status where
  "GA_LIB_VOCS_ERROR_OPCODE_NOT_SUPPORTED \<equiv> GATT_APPLICATION 0x81"
abbreviation (input) GA_LIB_VOCS_ERROR_VALUE_OUT_OF_RANGE :: gatt_status where
  "GA_LIB_VOCS_ERROR_VALUE_OUT_OF_RANGE \<equiv> GATT_APPLICATION 0x82"

definition ga_lib_vocs_notify_audio_description :: "gatt_env \<Rightarrow> u16 \<Rightarrow> u16 \<Rightarrow> u8 list \<Rightarrow> server_state \<Rightarrow> gatt_status \<times> server_state" where
  "ga_lib_vocs_notify_audio_description env cid handle desc = server_notify env cid handle desc"

definition ga_lib_vocs_notify_volume_offset ::
  "gatt_env \<Rightarrow> u16 \<Rightarrow> u16 \<Rightarrow> u16 \<Rightarrow> u8 \<Rightarrow> server_state \<Rightarrow> gatt_status \<times> server_state" where
  "ga_lib_vocs_notify_volume_offset env cid handle offset counter =
     server_notify env cid handle (b16 offset @ [counter])"

definition ga_lib_vocs_notify_audio_location :: "gatt_env \<Rightarrow> u16 \<Rightarrow> u16 \<Rightarrow> u32 \<Rightarrow> server_state \<Rightarrow> gatt_status \<times> server_state" where
  "ga_lib_vocs_notify_audio_location env cid handle location = server_notify env cid handle (b32 location)"

definition set_vocs :: "(lehs_vocs \<Rightarrow> lehs_vocs) \<Rightarrow> server_state \<Rightarrow> server_state" where
  "set_vocs f = upd_services (\<lambda>l. l\<lparr>local_vocs := f (local_vocs l)\<rparr>)"

abbreviation the_vocs :: "server_state \<Rightarrow> lehs_vocs" where
  "the_vocs s \<equiv> local_vocs (services s)"

definition vocs_audio_location_write ::
  "gatt_env \<Rightarrow> u16 \<Rightarrow> u8 list \<Rightarrow> nat \<Rightarrow> server_state \<Rightarrow> (gatt_status \<times> server_state) option" where
  "vocs_audio_location_write env cid data len_to_write s =
     (if len_to_write \<noteq> 4 then Some (GATT_INVALID_ATTR_LEN, s)
      else do {
        (loc, _) \<leftarrow> rd32 (start data);
        let s = set_vocs (\<lambda>v. v\<lparr>vocs_audio_location := loc\<rparr>) s;
        Some (GATT_SUCCESS, snd (ga_lib_vocs_notify_audio_location env cid HDLC_VOCS_AUDIO_LOCATION_VALUE loc s)) })"

text \<open>
  The offset is read into a \<open>uint16_t\<close>: compared with the bounds \<open>-255\<close> and 255 it is never negative.
\<close>

definition vocs_offset_cp_write ::
  "gatt_env \<Rightarrow> u16 \<Rightarrow> u8 list \<Rightarrow> nat \<Rightarrow> server_state \<Rightarrow> (gatt_status \<times> server_state) option" where
  "vocs_offset_cp_write env cid data len_to_write s = do {
     (opcode, p) \<leftarrow> rd8 (start data);
     if opcode \<noteq> 1 then Some (GA_LIB_VOCS_ERROR_OPCODE_NOT_SUPPORTED, s)
     else if len_to_write \<noteq> 4 then Some (GATT_INVALID_ATTR_LEN, s)
     else do {
       (change_counter, p) \<leftarrow> rd8 p;
       if change_counter \<noteq> vocs_change_counter (the_vocs s) then Some (GA_LIB_VOCS_ERROR_INVALID_CHANGE_COUNTER, s)
       else do {
         (offset, p) \<leftarrow> rd16 p;
         Some (
           if uint offset < - 255 \<or> uint offset > 255 then (GA_LIB_VOCS_ERROR_VALUE_OUT_OF_RANGE, s)
           else if uint offset \<noteq> sint (volume_offset (the_vocs s)) then
             let s = set_vocs (\<lambda>v. v\<lparr>vocs_change_counter := next_counter (vocs_change_counter v), volume_offset := offset\<rparr>) s
             in (GATT_SUCCESS, snd (ga_lib_vocs_notify_volume_offset env cid HDLC_VOCS_OFFSET_STATE_VALUE
                                 (volume_offset (the_vocs s)) (vocs_change_counter (the_vocs s)) s))
           else (GATT_SUCCESS, s)) } } }"

text \<open>Equality under \<open>strncmp\<close>; a string that ends before its array does.\<close>

fun strncmp_eq :: "nat \<Rightarrow> u8 list \<Rightarrow> u8 list \<Rightarrow> bool option" where
  "strncmp_eq 0 xs ys = Some True"
| "strncmp_eq (Suc n) (x # xs) (y # ys) = (if x \<noteq> y then Some False else if x = 0 then Some True else strncmp_eq n xs ys)"
| "strncmp_eq (Suc n) xs ys = None"

definition c_string :: "u8 list \<Rightarrow> u8 list" where
  "c_string a = takeWhile (\<lambda>x. x \<noteq> 0) a"

definition vocs_description_write ::
  "gatt_env \<Rightarrow> u16 \<Rightarrow> u8 list \<Rightarrow> nat \<Rightarrow> server_state \<Rightarrow> (gatt_status \<times> server_state) option" where
  "vocs_description_write env cid data len_to_write s =
     (if len_to_write > 19 \<or> len_to_write = 0 then Some (GATT_INVALID_ATTR_LEN, s)
      else do {
        same \<leftarrow> strncmp_eq len_to_write (vocs_description (the_vocs s)) data;
        if same then Some (GATT_SUCCESS, s)
        else do {
          new \<leftarrow> octets len_to_write data;
          let desc = new @ replicate (20 - len_to_write) 0;
          Some (GATT_SUCCESS, snd (ga_lib_vocs_notify_audio_description env cid HDLC_VOCS_AUDIO_OUTPUT_DESCRIPTION_VALUE
            (take (length (c_string desc) + 1) desc) (set_vocs (\<lambda>v. v\<lparr>vocs_description := desc\<rparr>) s))) } })"

section \<open>Microphone and audio input control\<close>

abbreviation (input) GA_LIB_AICS_OPCODE_SET_GAIN_SETTINGS :: u8 where "GA_LIB_AICS_OPCODE_SET_GAIN_SETTINGS \<equiv> 1"
abbreviation (input) GA_LIB_AICS_OPCODE_SET_UNMUTE :: u8 where "GA_LIB_AICS_OPCODE_SET_UNMUTE \<equiv> 2"
abbreviation (input) GA_LIB_AICS_OPCODE_SET_MUTE :: u8 where "GA_LIB_AICS_OPCODE_SET_MUTE \<equiv> 3"
abbreviation (input) GA_LIB_AICS_OPCODE_SET_MANUAL_GAIN_MODE :: u8 where "GA_LIB_AICS_OPCODE_SET_MANUAL_GAIN_MODE \<equiv> 4"
abbreviation (input) GA_LIB_AICS_OPCODE_SET_AUTO_GAIN_MODE :: u8 where "GA_LIB_AICS_OPCODE_SET_AUTO_GAIN_MODE \<equiv> 5"
abbreviation (input) GA_LIB_AICS_UNMUTE :: u8 where "GA_LIB_AICS_UNMUTE \<equiv> 0"
abbreviation (input) GA_LIB_AICS_MUTE :: u8 where "GA_LIB_AICS_MUTE \<equiv> 1"
abbreviation (input) GA_LIB_AICS_MUTE_DISABLED :: u8 where "GA_LIB_AICS_MUTE_DISABLED \<equiv> 2"
abbreviation (input) GA_LIB_AICS_GAIN_MODE_AUTO_ONLY :: u8 where "GA_LIB_AICS_GAIN_MODE_AUTO_ONLY \<equiv> 1"
abbreviation (input) GA_LIB_AICS_GAIN_MODE_MANUAL :: u8 where "GA_LIB_AICS_GAIN_MODE_MANUAL \<equiv> 2"
abbreviation (input) GA_LIB_AICS_GAIN_MODE_AUTO :: u8 where "GA_LIB_AICS_GAIN_MODE_AUTO \<equiv> 3"
abbreviation (input) GA_LIB_AICS_ERROR_INVALID_CHANGE_COUNTER :: gatt_status where
  "GA_LIB_AICS_ERROR_INVALID_CHANGE_COUNTER \<equiv> GATT_APPLICATION 0x80"
abbreviation (input) GA_LIB_AICS_ERROR_OPCODE_NOT_SUPPORTED :: gatt_status where
  "GA_LIB_AICS_ERROR_OPCODE_NOT_SUPPORTED \<equiv> GATT_APPLICATION 0x81"
abbreviation (input) GA_LIB_AICS_ERROR_MUTE_DISABLED :: gatt_status where
  "GA_LIB_AICS_ERROR_MUTE_DISABLED \<equiv> GATT_APPLICATION 0x82"
abbreviation (input) GA_LIB_AICS_ERROR_VALUE_OUT_OF_RANGE :: gatt_status where
  "GA_LIB_AICS_ERROR_VALUE_OUT_OF_RANGE \<equiv> GATT_APPLICATION 0x83"
abbreviation (input) GA_LIB_AICS_GAIN_MODE_CHANGE_NOT_ALLOWED :: gatt_status where
  "GA_LIB_AICS_GAIN_MODE_CHANGE_NOT_ALLOWED \<equiv> GATT_APPLICATION 0x84"

text \<open>The initial input: ``MICP AICS'' with its terminating zero.\<close>

definition aics_initial :: lehs_aics where
  "aics_initial = \<lparr>aics_value_handle = 0,
     input_state = \<lparr>gain_setting = 100, mute_mode = GA_LIB_AICS_UNMUTE, gain_mode = GA_LIB_AICS_GAIN_MODE_MANUAL,
       aics_change_counter = 0\<rparr>,
     gain_params = \<lparr>gain_setting_units = 15, max_gain_setting = 127, min_gain_setting = 0x80\<rparr>,
     input_type = 1, input_status = 1,
     aics_description = [77, 73, 67, 80, 32, 65, 73, 67, 83] @ replicate 11 0, description_len = 10\<rparr>"

definition set_aics :: "nat \<Rightarrow> (lehs_aics \<Rightarrow> lehs_aics) \<Rightarrow> server_state \<Rightarrow> server_state" where
  "set_aics i f = upd_services (\<lambda>l. l\<lparr>mics_aics := (mics_aics l)[i := f (mics_aics l ! i)]\<rparr>)"

abbreviation the_aics :: "nat \<Rightarrow> server_state \<Rightarrow> lehs_aics" where
  "the_aics i s \<equiv> mics_aics (services s) ! i"

definition upd_input :: "(ga_lib_aics_input_state \<Rightarrow> ga_lib_aics_input_state) \<Rightarrow> lehs_aics \<Rightarrow> lehs_aics" where
  "upd_input f d = d\<lparr>input_state := f (input_state d)\<rparr>"

definition set_mics_mute :: "u8 \<Rightarrow> server_state \<Rightarrow> server_state" where
  "set_mics_mute m = upd_services (\<lambda>l. l\<lparr>local_mics := (local_mics l)\<lparr>mics_mute_state := m\<rparr>\<rparr>)"

definition ga_lib_mics_notify_mute_state :: "gatt_env \<Rightarrow> u16 \<Rightarrow> u16 \<Rightarrow> u8 \<Rightarrow> server_state \<Rightarrow> gatt_status \<times> server_state" where
  "ga_lib_mics_notify_mute_state env cid handle mute_state = server_notify env cid handle [mute_state]"

definition input_state_octets :: "ga_lib_aics_input_state \<Rightarrow> u8 list" where
  "input_state_octets st = [gain_setting st, mute_mode st, gain_mode st, aics_change_counter st]"

definition ga_lib_aics_notify_input_state :: "gatt_env \<Rightarrow> u16 \<Rightarrow> u16 \<Rightarrow> nat \<Rightarrow> server_state \<Rightarrow> gatt_status \<times> server_state" where
  "ga_lib_aics_notify_input_state env cid handle i s =
     (let s = set_aics i (upd_input (\<lambda>st. st\<lparr>aics_change_counter := next_counter (aics_change_counter st)\<rparr>)) s
      in server_notify env cid handle (input_state_octets (input_state (the_aics i s))) s)"

definition ga_lib_aics_notify_description :: "gatt_env \<Rightarrow> u16 \<Rightarrow> u16 \<Rightarrow> u8 list \<Rightarrow> server_state \<Rightarrow> gatt_status \<times> server_state" where
  "ga_lib_aics_notify_description env cid handle desc = server_notify env cid handle desc"

definition ga_lib_aics_notify_input_status :: "gatt_env \<Rightarrow> u16 \<Rightarrow> u16 \<Rightarrow> u8 \<Rightarrow> server_state \<Rightarrow> gatt_status \<times> server_state" where
  "ga_lib_aics_notify_input_status env cid handle st = server_notify env cid handle [st]"

definition ga_lib_aics_write_cp ::
  "gatt_env \<Rightarrow> u16 \<Rightarrow> gatt_intf_characteristic_handles \<Rightarrow> u8 \<Rightarrow> ga_lib_aics_input_state \<Rightarrow> gatt_status \<times> gatt_action list" where
  "ga_lib_aics_write_cp env cid p_handle opcode st =
     (if \<not> get_buffer env 3 then (GATT_NO_RESOURCES, [])
      else
        let a = SEND_WRITE cid (value_handle p_handle)
                  ([opcode, aics_change_counter st] @
                   (if opcode = GA_LIB_AICS_OPCODE_SET_GAIN_SETTINGS then [gain_setting st] else []))
        in (client_send env a, [a]))"

definition ga_lib_aics_write_input_description ::
  "gatt_env \<Rightarrow> u16 \<Rightarrow> gatt_intf_characteristic_handles \<Rightarrow> u8 list \<Rightarrow> gatt_status \<times> gatt_action list" where
  "ga_lib_aics_write_input_description env cid p_handle name =
     (if \<not> get_buffer env (length name) then (GATT_NO_RESOURCES, [])
      else let a = SEND_WRITE cid (value_handle p_handle) name in (client_send env a, [a]))"

text \<open>The buffer is not tested before the octet is written.\<close>

definition ga_lib_mics_write_mute_state ::
  "gatt_env \<Rightarrow> u16 \<Rightarrow> gatt_intf_characteristic_handles \<Rightarrow> u8 \<Rightarrow> (gatt_status \<times> gatt_action list) option" where
  "ga_lib_mics_write_mute_state env cid p_handle mute_val =
     (if \<not> get_buffer env 1 then None
      else let a = SEND_WRITE cid (value_handle p_handle) [mute_val] in Some (client_send env a, [a]))"

subsection \<open>Commands of the host\<close>

definition lehs_mics_mute :: "gatt_env \<Rightarrow> u16 \<Rightarrow> u8 \<Rightarrow> server_state \<Rightarrow> gatt_status \<times> server_state" where
  "lehs_mics_mute env cid mute s =
     (let s = drive (audio_driver_set_mic_mute_state mute) s;
          s = set_mics_mute mute s;
          s = emit_server [SEND_MICS_MUTE cid mute] s
      in ga_lib_mics_notify_mute_state env cid HDLC_MICS_MUTE_STATE_VALUE mute s)"

text \<open>The instance is an index into an array of one.\<close>

definition lehs_mics_aics_mute :: "gatt_env \<Rightarrow> u16 \<Rightarrow> u32 \<Rightarrow> u8 \<Rightarrow> server_state \<Rightarrow> (gatt_status \<times> server_state) option" where
  "lehs_mics_aics_mute env cid inst mute s = do {
     d \<leftarrow> arr_get (mics_aics (services s)) (unat inst);
     Some (
       if mute_mode (input_state d) = mute then (GATT_SUCCESS, s)
       else
         let s = drive (audio_driver_set_mic_mute_state mute) s;
             s = set_aics (unat inst) (upd_input (\<lambda>st. st\<lparr>mute_mode := mute\<rparr>)) s;
             s = emit_server [SEND_AICS_INPUT_STATE cid inst (input_state (the_aics (unat inst) s))] s
         in ga_lib_aics_notify_input_state env cid HDLC_MICS_AICS_INPUT_STATE_VALUE (unat inst) s) }"

datatype gain_command = GAIN_INCREMENT | GAIN_DECREMENT | GAIN_SET

definition gain_input :: "gain_command \<Rightarrow> u8 \<Rightarrow> lehs_aics \<Rightarrow> u8" where
  "gain_input opcode g d =
     (case opcode of
        GAIN_INCREMENT \<Rightarrow> of_int (min 127 (sint (gain_setting (input_state d)) + uint (gain_setting_units (gain_params d))))
      | GAIN_DECREMENT \<Rightarrow> of_int (max (- 128) (sint (gain_setting (input_state d)) - uint (gain_setting_units (gain_params d))))
      | GAIN_SET \<Rightarrow> g)"

definition gain_limited :: "u8 \<Rightarrow> lehs_aics \<Rightarrow> u8" where
  "gain_limited g d =
     (if sint g > sint (max_gain_setting (gain_params d)) then max_gain_setting (gain_params d)
      else if sint g < sint (min_gain_setting (gain_params d)) then min_gain_setting (gain_params d) else g)"

definition lehs_mics_aics_set_gain ::
  "gatt_env \<Rightarrow> u16 \<Rightarrow> u32 \<Rightarrow> gain_command \<Rightarrow> u8 \<Rightarrow> server_state \<Rightarrow> (gatt_status \<times> server_state) option" where
  "lehs_mics_aics_set_gain env cid inst opcode input_gain s = do {
     d \<leftarrow> arr_get (mics_aics (services s)) (unat inst);
     let g = gain_limited (gain_input opcode input_gain d) d;
     Some (
       if gain_setting (input_state d) = g then (GATT_SUCCESS, s)
       else
         let s = drive (audio_driver_set_mic_gain (sint g)) s;
             s = set_aics (unat inst) (upd_input (\<lambda>st. st\<lparr>gain_setting := g\<rparr>)) s;
             s = emit_server [SEND_AICS_INPUT_STATE cid inst (input_state (the_aics (unat inst) s))] s
         in ga_lib_aics_notify_input_state env cid HDLC_MICS_AICS_INPUT_STATE_VALUE (unat inst) s) }"

definition lehs_mics_initialize_data :: "server_state \<Rightarrow> server_state" where
  "lehs_mics_initialize_data s = set_aics 0 (\<lambda>_. aics_initial) (set_mics_mute GA_LIB_AICS_UNMUTE s)"

subsection \<open>Writes of a client\<close>

definition mics_mute_write :: "gatt_env \<Rightarrow> u16 \<Rightarrow> u8 list \<Rightarrow> server_state \<Rightarrow> (gatt_status \<times> server_state) option" where
  "mics_mute_write env cid data s = do {
     (m, _) \<leftarrow> rd8 (start data);
     let s = set_mics_mute m s;
     let s = drive (audio_driver_set_mic_mute_state m) s;
     let s = emit_server [SEND_MICS_MUTE cid m] s;
     Some (GATT_SUCCESS, snd (ga_lib_mics_notify_mute_state env cid HDLC_MICS_MUTE_STATE_VALUE m s)) }"

text \<open>
  The switch over the opcode: what it does to the first input, and the status that ends the request or goes on to the
  notification. The new gain is a \<open>uint8_t\<close> compared with an \<open>int8_t\<close>.
\<close>

datatype aics_outcome = AICS_RETURN gatt_status | AICS_STATUS gatt_status

definition aics_operation :: "u8 \<Rightarrow> cursor \<Rightarrow> nat \<Rightarrow> server_state \<Rightarrow> (aics_outcome \<times> server_state) option" where
  "aics_operation opcode p len_to_write s =
     (let st = input_state (the_aics 0 s);
          is_auto_mute = (gain_mode st = GA_LIB_AICS_GAIN_MODE_AUTO \<or> gain_mode st = GA_LIB_AICS_GAIN_MODE_AUTO_ONLY);
          put = (\<lambda>f. set_aics 0 (upd_input f) s)
      in if opcode = GA_LIB_AICS_OPCODE_SET_GAIN_SETTINGS then
           (if len_to_write \<noteq> 1 then Some (AICS_RETURN GATT_INVALID_ATTR_LEN, s)
            else do {
              (g, _) \<leftarrow> rd8 p;
              Some (
                if is_auto_mute then (AICS_RETURN GA_LIB_AICS_ERROR_VALUE_OUT_OF_RANGE, s)
                else if sint (gain_setting st) = uint g then (AICS_RETURN GATT_SUCCESS, s)
                else (AICS_STATUS GATT_SUCCESS,
                      drive (audio_driver_set_mic_gain (sint g)) (put (\<lambda>st. st\<lparr>gain_setting := g\<rparr>)))) })
         else if opcode = GA_LIB_AICS_OPCODE_SET_UNMUTE then Some (
           if mute_mode st = GA_LIB_AICS_MUTE_DISABLED then (AICS_STATUS GA_LIB_AICS_ERROR_MUTE_DISABLED, s)
           else if mute_mode st = GA_LIB_AICS_UNMUTE then (AICS_RETURN GATT_SUCCESS, s)
           else (AICS_STATUS GATT_SUCCESS,
                 drive (audio_driver_set_mic_mute_state 0) (put (\<lambda>st. st\<lparr>mute_mode := GA_LIB_AICS_UNMUTE\<rparr>))))
         else if opcode = GA_LIB_AICS_OPCODE_SET_MUTE then Some (
           if mute_mode st = GA_LIB_AICS_MUTE_DISABLED then (AICS_STATUS GA_LIB_AICS_ERROR_MUTE_DISABLED, s)
           else if mute_mode st = GA_LIB_AICS_MUTE then (AICS_RETURN GATT_SUCCESS, s)
           else (AICS_STATUS GATT_SUCCESS,
                 drive (audio_driver_set_mic_mute_state 1) (put (\<lambda>st. st\<lparr>mute_mode := GA_LIB_AICS_MUTE\<rparr>))))
         else if opcode = GA_LIB_AICS_OPCODE_SET_MANUAL_GAIN_MODE then Some (
           if is_auto_mute then (AICS_STATUS GA_LIB_AICS_GAIN_MODE_CHANGE_NOT_ALLOWED, s)
           else (AICS_STATUS GATT_SUCCESS, put (\<lambda>st. st\<lparr>gain_mode := GA_LIB_AICS_GAIN_MODE_MANUAL\<rparr>)))
         else if opcode = GA_LIB_AICS_OPCODE_SET_AUTO_GAIN_MODE then Some (
           if is_auto_mute then (AICS_STATUS GA_LIB_AICS_GAIN_MODE_CHANGE_NOT_ALLOWED, s)
           else (AICS_STATUS GATT_SUCCESS, put (\<lambda>st. st\<lparr>gain_mode := GA_LIB_AICS_GAIN_MODE_AUTO\<rparr>)))
         else Some (AICS_STATUS GATT_SUCCESS, s))"

definition aics_cp_write ::
  "gatt_env \<Rightarrow> u16 \<Rightarrow> u8 list \<Rightarrow> nat \<Rightarrow> server_state \<Rightarrow> (gatt_status \<times> server_state) option" where
  "aics_cp_write env cid data len_to_write s =
     (if len_to_write < 2 then Some (GATT_INVALID_ATTR_LEN, s)
      else do {
        (opcode, p) \<leftarrow> rd8 (start data);
        (change_counter, p) \<leftarrow> rd8 p;
        if opcode > GA_LIB_AICS_OPCODE_SET_AUTO_GAIN_MODE then Some (GA_LIB_AICS_ERROR_OPCODE_NOT_SUPPORTED, s)
        else if change_counter \<noteq> aics_change_counter (input_state (the_aics 0 s))
        then Some (GA_LIB_AICS_ERROR_INVALID_CHANGE_COUNTER, s)
        else do {
          (r, s) \<leftarrow> aics_operation opcode p (len_to_write - 2) s;
          Some (case r of
              AICS_RETURN st \<Rightarrow> (st, s)
            | AICS_STATUS st \<Rightarrow>
                if st \<noteq> GATT_SUCCESS then (st, s)
                else
                  let s = snd (ga_lib_aics_notify_input_state env cid HDLC_MICS_AICS_INPUT_STATE_VALUE 0 s)
                  in (st, emit_server [SEND_AICS_INPUT_STATE cid 0 (input_state (the_aics 0 s))] s)) } })"

text \<open>The length less one, as an unsigned number: an empty write copies 20 octets.\<close>

definition aics_description_write :: "u16 \<Rightarrow> u8 list \<Rightarrow> nat \<Rightarrow> server_state \<Rightarrow> (gatt_status \<times> server_state) option" where
  "aics_description_write cid data len_to_write s =
     (let n = (if len_to_write = 0 then MAX_DESCRIPTION else min MAX_DESCRIPTION (len_to_write - 1))
      in do {
        new \<leftarrow> octets n data;
        let s = set_aics 0 (\<lambda>d. d\<lparr>aics_description := new @ replicate (MAX_DESCRIPTION - n) 0, description_len := of_nat n\<rparr>) s;
        Some (GATT_SUCCESS, emit_server [SEND_AICS_DESCRIPTION cid 0 (aics_description (the_aics 0 s))] s) })"

section \<open>The volume state\<close>

lemma next_counter_plus: "next_counter c = c + 1"
  by (simp add: next_counter_def)

lemma set_vcs_emit [simp]: "set_vcs_state f (emit_server acts s) = emit_server acts (set_vcs_state f s)"
  by (simp add: set_vcs_state_def upd_services_def emit_server_def)

lemma set_vcs_set_vcs [simp]: "set_vcs_state g (set_vcs_state f s) = set_vcs_state (\<lambda>st. g (f st)) s"
  by (simp add: set_vcs_state_def upd_services_def)

lemma set_vcs_simps [simp]:
  "the_vcs (set_vcs_state f s) = f (the_vcs s)" "vcs_flag (local_vcs (services (set_vcs_state f s))) = vcs_flag (local_vcs (services s))"
  "server_clcbs (set_vcs_state f s) = server_clcbs s" "server_audio (set_vcs_state f s) = server_audio s"
  "local_vocs (services (set_vcs_state f s)) = local_vocs (services s)" "mics_aics (services (set_vcs_state f s)) = mics_aics (services s)"
  "actions (set_vcs_state f s) = actions s"
  by (simp_all add: set_vcs_state_def)

lemma set_vcs_id [simp]: "set_vcs_state (\<lambda>st. st) s = s"
  by (simp add: set_vcs_state_def upd_services_def)

text \<open>What the loop over the connections sends: the counter is moved on before each of them.\<close>

fun volume_states :: "gatt_env \<Rightarrow> lehs_clcb list \<Rightarrow> lehs_clcb list \<Rightarrow> ga_lib_vcs_volume_state \<Rightarrow> server_action list" where
  "volume_states env all [] st = []"
| "volume_states env all (c # cs) st =
     (if in_use c
      then let st = st\<lparr>vcs_change_counter := vcs_change_counter st + 1\<rparr>
           in sent_value env all (conn_id c) HDLC_VCS_VOLUME_STATE_VALUE (volume_state_octets st) @ volume_states env all cs st
      else volume_states env all cs st)"

definition connections :: "lehs_clcb list \<Rightarrow> nat" where
  "connections cs = length (filter in_use cs)"

definition advance :: "nat \<Rightarrow> ga_lib_vcs_volume_state \<Rightarrow> ga_lib_vcs_volume_state" where
  "advance n st = st\<lparr>vcs_change_counter := vcs_change_counter st + of_nat n\<rparr>"

lemma notify_volume_fold:
  "fold (\<lambda>c s. if in_use c then snd (ga_lib_vcs_notify_volume_state env (conn_id c) HDLC_VCS_VOLUME_STATE_VALUE s) else s) cs s =
     emit_server (volume_states env (server_clcbs s) cs (the_vcs s)) (set_vcs_state (advance (connections cs)) s)"
proof (induction cs arbitrary: s)
  case Nil
  then show ?case by (simp add: connections_def advance_def)
next
  case (Cons c cs)
  show ?case
  proof (cases "in_use c")
    case False
    with Cons.IH [of s] show ?thesis by (simp add: connections_def)
  next
    case True
    have "(\<lambda>st. advance (connections cs) (st\<lparr>vcs_change_counter := vcs_change_counter st + 1\<rparr>)) = advance (connections (c # cs))"
      using True by (simp add: fun_eq_iff advance_def connections_def add.assoc)
    with True show ?thesis
      by (simp add: Cons.IH ga_lib_vcs_notify_volume_state_def server_notify_state next_counter_plus Let_def)
  qed
qed

lemma notify_volume_state:
  "lehs_vcs_notify_volume_state env s =
     emit_server (volume_states env (server_clcbs s) (server_clcbs s) (the_vcs s))
       (set_vcs_state (advance (connections (server_clcbs s))) s)"
  unfolding lehs_vcs_notify_volume_state_def by (rule notify_volume_fold)

text \<open>What the commands mean: 25 steps down or up inside 0 to 255, and the mute state.\<close>

definition volume_spec :: "u8 \<Rightarrow> u8 \<Rightarrow> nat \<times> u8 \<Rightarrow> nat \<times> u8" where
  "volume_spec opcode a vm = (case vm of (v, m) \<Rightarrow>
     if opcode = 0 then (v - 25, m) else if opcode = 1 then (min 255 (v + 25), m)
     else if opcode = 2 then (v - 25, 0) else if opcode = 3 then (min 255 (v + 25), 0)
     else if opcode = 4 then (unat a, m) else if opcode = 5 then (v, 0) else (v, 1))"

definition volume_of :: "ga_lib_vcs_volume_state \<Rightarrow> nat \<times> u8" where
  "volume_of st = (unat (volume_setting st), vcs_mute_state st)"

lemma unat_of_int_u8: "0 \<le> i \<Longrightarrow> i < 256 \<Longrightarrow> unat (of_int i :: u8) = nat i"
  by (simp add: unat_eq_nat_uint uint_word_of_int take_bit_int_eq_self)

lemma u8_bound: "unat (x :: u8) < 256"
  by (rule order_less_le_trans [OF unsigned_less]) simp

lemma u8_uint: "0 \<le> uint (x :: u8)" "uint (x :: u8) < 256"
  by simp (rule order_less_le_trans [OF unsigned_less], simp)

lemma step_down_unat: "unat (step_down v 25) = unat v - 25"
proof -
  have "0 \<le> max (uint v - 25) 0" "max (uint v - 25) 0 < 256" using u8_uint [of v] by auto
  then have "unat (step_down v 25) = nat (max (uint v - 25) 0)" unfolding step_down_def by (rule unat_of_int_u8)
  also have "\<dots> = unat v - 25" unfolding uint_nat by arith
  finally show ?thesis .
qed

lemma step_up_unat: "unat (step_up v 25) = min 255 (unat v + 25)"
proof -
  have "0 \<le> min (uint v + 25) 255" "min (uint v + 25) 255 < 256" using u8_uint [of v] by auto
  then have "unat (step_up v 25) = nat (min (uint v + 25) 255)" unfolding step_up_def by (rule unat_of_int_u8)
  also have "\<dots> = min 255 (unat v + 25)" unfolding uint_nat by arith
  finally show ?thesis .
qed

lemma opcode_upto_6:
  assumes "opcode \<le> (6 :: u8)"
  shows "opcode \<in> {0, 1, 2, 3, 4, 5, 6}"
proof -
  have "unat opcode \<le> 6" using assms by (simp add: word_le_nat_alt)
  then have "unat opcode \<in> {0, 1, 2, 3, 4, 5, 6}" by auto
  then show ?thesis by (elim insertE emptyE) (simp_all add: word_unat_eq_iff)
qed

lemma check_validity_spec:
  assumes "opcode \<le> 6" "ga_lib_vcs_check_volume_state_validity opcode a 25 st = (r, st')"
  shows "volume_of st' = volume_spec opcode a (volume_of st) \<and> vcs_change_counter st' = vcs_change_counter st \<and>
    (r = WICED_SUCCESS \<longleftrightarrow> volume_of st' \<noteq> volume_of st) \<and> (r \<noteq> WICED_SUCCESS \<longrightarrow> st' = st)"
proof -
  obtain v' m' where new: "(unat v', m') = volume_spec opcode a (volume_of st)"
    "ga_lib_vcs_check_volume_state_validity opcode a 25 st =
       (if v' \<noteq> volume_setting st \<or> m' \<noteq> vcs_mute_state st
        then (WICED_SUCCESS, st\<lparr>volume_setting := v', vcs_mute_state := m'\<rparr>) else (WICED_ERROR, st))"
    using opcode_upto_6 [OF assms(1)]
    by (elim insertE emptyE)
      (simp_all add: ga_lib_vcs_check_volume_state_validity_def volume_of_def volume_spec_def flip: step_down_unat step_up_unat)
  have v: "v' = x \<longleftrightarrow> unat v' = unat x" for x by (rule word_unat_eq_iff)
  show ?thesis
    using assms(2) new by (auto simp: volume_of_def v split: if_splits)
qed

section \<open>Commands of the control point\<close>

abbreviation vcs_args :: "u8 \<Rightarrow> u8 \<Rightarrow> u8 list" where
  "vcs_args opcode a \<equiv> (if opcode = VOLUME_CONTROL_OPCODE_SET_ABSOLUTE_VOLUME then [a] else [])"

lemma set_volume_result:
  assumes "opcode \<le> 6"
  obtains st' where "volume_of st' = volume_spec opcode a (volume_of (the_vcs s))"
    "vcs_change_counter st' = vcs_change_counter (the_vcs s)"
    "lehs_vcs_set_volume env cid opcode a s =
      (GATT_SUCCESS,
       if volume_of st' = volume_of (the_vcs s) then s
       else emit_server [SEND_VCS_STATE cid (volume_setting st') (vcs_mute_state st') (vcs_char_type opcode)]
         (emit_server (volume_states env (server_clcbs s) (server_clcbs s) st')
           (set_vcs_state (\<lambda>_. advance (connections (server_clcbs s)) st')
             (drive (audio_driver_set_mute_state (vcs_mute_state st')) (drive (audio_driver_set_volume (volume_setting st')) s)))))"
proof -
  obtain r st' where c: "ga_lib_vcs_check_volume_state_validity opcode a 25 (the_vcs s) = (r, st')" by force
  note spec = check_validity_spec [OF assms c]
  have d: "set_vcs_state f (drive g t) = drive g (set_vcs_state f t)" for f g t
    by (simp add: set_vcs_state_def upd_services_def drive_def emit_server_def split: prod.splits)
  show thesis
    by (rule that [of st'])
      (use spec in \<open>auto simp: lehs_vcs_set_volume_def c notify_volume_state advance_def d Let_def\<close>)
qed

lemma cp_write_result:
  assumes "opcode \<le> 6"
  shows "lehs_handle_vcs_cp_write env cid (opcode # k # vcs_args opcode a) (length (opcode # k # vcs_args opcode a)) s =
    (if vcs_change_counter (the_vcs s) \<noteq> k then Some (GA_LIB_VCS_ERROR_INVALID_CHANGE_COUNTER, s)
     else
       let s' = snd (lehs_vcs_set_volume env cid opcode (if opcode = 4 then a else volume_setting (the_vcs s)) s)
       in Some (GATT_SUCCESS,
         if opcode < 5 \<and> vcs_flag (local_vcs (services s')) \<noteq> 1
         then snd (ga_lib_vcs_notify_volume_flag env cid HDLC_VCS_VOLUME_FLAGS_VALUE 1
                (upd_services (\<lambda>l. l\<lparr>local_vcs := (local_vcs l)\<lparr>vcs_flag := 1\<rparr>\<rparr>) s'))
         else s'))"
proof -
  have r: "fst (lehs_vcs_set_volume env cid opcode b s) = GATT_SUCCESS" for b
    by (rule set_volume_result [OF assms, of b s env cid]) simp
  show ?thesis
    using leD [OF assms] by (simp add: lehs_handle_vcs_cp_write_def start_def Let_def case_prod_unfold r)
qed

lemma volume_spec_arg: "opcode \<noteq> 4 \<Longrightarrow> volume_spec opcode a vm = volume_spec opcode b vm"
  by (simp add: volume_spec_def split: prod.splits)

text \<open>The flag is the only thing that can follow the volume itself.\<close>

lemma volume_written:
  assumes "opcode \<le> 6"
  obtains st' s' post where
    "lehs_handle_vcs_cp_write env cid (opcode # vcs_change_counter (the_vcs s) # vcs_args opcode a)
       (length (opcode # vcs_change_counter (the_vcs s) # vcs_args opcode a)) s = Some (GATT_SUCCESS, s')"
    "volume_of st' = volume_spec opcode a (volume_of (the_vcs s))"
    "vcs_change_counter st' = vcs_change_counter (the_vcs s)" "server_clcbs s' = server_clcbs s"
    "the_vcs s' = (if volume_of st' = volume_of (the_vcs s) then the_vcs s else advance (connections (server_clcbs s)) st')"
    "volume_of st' \<noteq> volume_of (the_vcs s) \<Longrightarrow>
       prev_volume (server_audio s') = volume_setting st' \<and> prev_vol_mute (server_audio s') = vcs_mute_state st' \<and>
       (\<exists>pre. actions s' = actions s @ pre @ volume_states env (server_clcbs s) (server_clcbs s) st' @ post)"
proof -
  let ?b = "if opcode = 4 then a else volume_setting (the_vcs s)"
  obtain st' where st': "volume_of st' = volume_spec opcode ?b (volume_of (the_vcs s))"
    "vcs_change_counter st' = vcs_change_counter (the_vcs s)"
    "snd (lehs_vcs_set_volume env cid opcode ?b s) =
       (if volume_of st' = volume_of (the_vcs s) then s
       else emit_server [SEND_VCS_STATE cid (volume_setting st') (vcs_mute_state st') (vcs_char_type opcode)]
         (emit_server (volume_states env (server_clcbs s) (server_clcbs s) st')
           (set_vcs_state (\<lambda>_. advance (connections (server_clcbs s)) st')
             (drive (audio_driver_set_mute_state (vcs_mute_state st')) (drive (audio_driver_set_volume (volume_setting st')) s)))))"
    by (rule set_volume_result [OF assms, of ?b s env cid]) (simp only: snd_conv)
  have arg: "volume_spec opcode ?b vm = volume_spec opcode a vm" for vm using volume_spec_arg by simp
  let ?s1 = "snd (lehs_vcs_set_volume env cid opcode ?b s)"
  let ?flag = "opcode < 5 \<and> vcs_flag (local_vcs (services ?s1)) \<noteq> 1"
  let ?s' = "if ?flag then snd (ga_lib_vcs_notify_volume_flag env cid HDLC_VCS_VOLUME_FLAGS_VALUE 1
      (upd_services (\<lambda>l. l\<lparr>local_vcs := (local_vcs l)\<lparr>vcs_flag := 1\<rparr>\<rparr>) ?s1)) else ?s1"
  have w: "lehs_handle_vcs_cp_write env cid (opcode # vcs_change_counter (the_vcs s) # vcs_args opcode a)
      (length (opcode # vcs_change_counter (the_vcs s) # vcs_args opcode a)) s = Some (GATT_SUCCESS, ?s')"
    unfolding cp_write_result [OF assms] by (simp add: Let_def)
  show thesis
    by (rule that [OF w, of st'
        "SEND_VCS_STATE cid (volume_setting st') (vcs_mute_state st') (vcs_char_type opcode) #
         (if ?flag then sent_value env (server_clcbs s) cid HDLC_VCS_VOLUME_FLAGS_VALUE [1] else [])"])
      (use st' arg in \<open>auto simp: ga_lib_vcs_notify_volume_flag_def server_notify_state
         audio_driver_set_volume_def audio_driver_set_mute_state_def\<close>)
qed

section \<open>The automatic gain mode\<close>

definition auto_gain :: "ga_lib_aics_input_state \<Rightarrow> bool" where
  "auto_gain st \<longleftrightarrow> gain_mode st = GA_LIB_AICS_GAIN_MODE_AUTO \<or> gain_mode st = GA_LIB_AICS_GAIN_MODE_AUTO_ONLY"

lemma set_aics_simps [simp]:
  "mics_aics (services (set_aics i f s)) = (mics_aics (services s))[i := f (mics_aics (services s) ! i)]"
  "local_vcs (services (set_aics i f s)) = local_vcs (services s)" "local_vocs (services (set_aics i f s)) = local_vocs (services s)"
  "server_clcbs (set_aics i f s) = server_clcbs s" "server_audio (set_aics i f s) = server_audio s"
  by (simp_all add: set_aics_def)

lemma set_vocs_simps [simp]:
  "the_vocs (set_vocs f s) = f (the_vocs s)" "local_vcs (services (set_vocs f s)) = local_vcs (services s)"
  "mics_aics (services (set_vocs f s)) = mics_aics (services s)" "server_audio (set_vocs f s) = server_audio s"
  "server_clcbs (set_vocs f s) = server_clcbs s"
  by (simp_all add: set_vocs_def)

lemma set_mics_mute_simps [simp]:
  "local_vcs (services (set_mics_mute m s)) = local_vcs (services s)" "the_vocs (set_mics_mute m s) = the_vocs s"
  "mics_aics (services (set_mics_mute m s)) = mics_aics (services s)" "server_audio (set_mics_mute m s) = server_audio s"
  "server_clcbs (set_mics_mute m s) = server_clcbs s"
  by (simp_all add: set_mics_mute_def)

lemma upd_input_simps [simp]:
  "input_state (upd_input f d) = f (input_state d)" "gain_params (upd_input f d) = gain_params d"
  "aics_description (upd_input f d) = aics_description d" "description_len (upd_input f d) = description_len d"
  by (simp_all add: upd_input_def)

lemma aics_notify_state:
  "snd (ga_lib_aics_notify_input_state env cid h i s) =
     (let s' = set_aics i (upd_input (\<lambda>st. st\<lparr>aics_change_counter := aics_change_counter st + 1\<rparr>)) s
      in emit_server (sent_value env (server_clcbs s) cid h (input_state_octets (input_state (the_aics i s')))) s')"
  by (simp add: ga_lib_aics_notify_input_state_def server_notify_state next_counter_plus Let_def)

lemma aics_operation_auto:
  assumes "aics_operation opcode p n s = Some (r, s')" "auto_gain (input_state (the_aics 0 s))" "mics_aics (services s) \<noteq> []"
  shows "gain_setting (input_state (the_aics 0 s')) = gain_setting (input_state (the_aics 0 s)) \<and>
    gain_mode (input_state (the_aics 0 s')) = gain_mode (input_state (the_aics 0 s)) \<and>
    length (mics_aics (services s')) = length (mics_aics (services s))"
  using assms
  by (auto simp: aics_operation_def auto_gain_def Let_def bind_eq_Some_conv split: if_splits)

lemma aics_cp_write_cases:
  assumes "aics_cp_write env cid data n s = Some (r, s')"
  obtains (same) "s' = s"
  | (operation) opcode p m x s1 acts where "aics_operation opcode p m s = Some (x, s1)"
      "s' = s1 \<or> s' = emit_server acts (set_aics 0 (upd_input (\<lambda>st. st\<lparr>aics_change_counter := aics_change_counter st + 1\<rparr>)) s1)"
proof (cases "s' = s")
  case False
  then obtain opcode p m x s1 where o: "aics_operation opcode p m s = Some (x, s1)"
    "(case x of AICS_RETURN st \<Rightarrow> (st, s1)
      | AICS_STATUS st \<Rightarrow>
          if st \<noteq> GATT_SUCCESS then (st, s1)
          else
            let s = snd (ga_lib_aics_notify_input_state env cid HDLC_MICS_AICS_INPUT_STATE_VALUE 0 s1)
            in (st, emit_server [SEND_AICS_INPUT_STATE cid 0 (input_state (the_aics 0 s))] s)) = (r, s')"
    using assms by (auto simp: aics_cp_write_def bind_eq_Some_conv split: if_splits)
  have "s' = s1 \<or> (\<exists>acts. s' = emit_server acts (set_aics 0 (upd_input (\<lambda>st. st\<lparr>aics_change_counter := aics_change_counter st + 1\<rparr>)) s1))"
    using o(2) by (cases x) (auto simp: aics_notify_state Let_def split: if_splits)
  with o(1) operation show thesis by blast
qed (rule same)

lemma aics_write_auto:
  assumes "aics_cp_write env cid data n s = Some (r, s')" "auto_gain (input_state (the_aics 0 s))" "mics_aics (services s) \<noteq> []"
  shows "gain_setting (input_state (the_aics 0 s')) = gain_setting (input_state (the_aics 0 s)) \<and>
    gain_mode (input_state (the_aics 0 s')) = gain_mode (input_state (the_aics 0 s)) \<and>
    length (mics_aics (services s')) = length (mics_aics (services s))"
  using assms(1)
proof (cases rule: aics_cp_write_cases)
  case (operation opcode p m x s1 acts)
  from aics_operation_auto [OF operation(1) assms(2,3)] operation(2) assms(3) show ?thesis
    by (cases "mics_aics (services s1)") auto
qed simp

text \<open>A run of requests to the control point.\<close>

fun aics_writes :: "gatt_env \<Rightarrow> (u16 \<times> u8 list) list \<Rightarrow> server_state \<Rightarrow> server_state option" where
  "aics_writes env [] s = Some s"
| "aics_writes env ((cid, data) # ws) s = do {
     (_, s) \<leftarrow> aics_cp_write env cid data (length data) s;
     aics_writes env ws s }"

lemma aics_writes_auto:
  "aics_writes env ws s = Some s' \<Longrightarrow> auto_gain (input_state (the_aics 0 s)) \<Longrightarrow> mics_aics (services s) \<noteq> [] \<Longrightarrow>
     gain_setting (input_state (the_aics 0 s')) = gain_setting (input_state (the_aics 0 s)) \<and>
     gain_mode (input_state (the_aics 0 s')) = gain_mode (input_state (the_aics 0 s)) \<and> mics_aics (services s') \<noteq> []"
proof (induction env ws s rule: aics_writes.induct)
  case (2 env cid data ws s)
  obtain r s1 where w: "aics_cp_write env cid data (length data) s = Some (r, s1)" "aics_writes env ws s1 = Some s'"
    using "2.prems"(1) by (auto simp: bind_eq_Some_conv)
  note k = aics_write_auto [OF w(1) "2.prems"(2,3)]
  then have "auto_gain (input_state (the_aics 0 s1))" "mics_aics (services s1) \<noteq> []"
    using "2.prems"(2,3) by (auto simp: auto_gain_def simp flip: length_greater_0_conv)
  from "2.IH" [OF w(1) refl w(2) this] k show ?case by simp
qed simp

section \<open>What every operation keeps\<close>

text \<open>
  The driver plays at the volume and mute state the service shows, the flag stays set, the offset is never negative, and
  the descriptions stay inside their arrays.
\<close>

definition volume_ok :: "server_state \<Rightarrow> bool" where
  "volume_ok s \<longleftrightarrow>
     prev_volume (server_audio s) = volume_setting (the_vcs s) \<and> prev_vol_mute (server_audio s) = vcs_mute_state (the_vcs s) \<and>
     vcs_mute_state (the_vcs s) \<in> {0, 1} \<and> vcs_flag (local_vcs (services s)) = 1 \<and>
     volume_offset (the_vocs s) \<le> 255 \<and> length (vocs_description (the_vocs s)) = 20 \<and> last (vocs_description (the_vocs s)) = 0 \<and>
     length (mics_aics (services s)) = 1 \<and> length (aics_description (the_aics 0 s)) = MAX_DESCRIPTION \<and>
     unat (description_len (the_aics 0 s)) \<le> MAX_DESCRIPTION"

datatype volume_request =
    VCS_CP_WRITE u16 "u8 list"
  | VCS_SET_VOLUME u16 u8 u8
  | VOCS_LOCATION_WRITE u16 "u8 list"
  | VOCS_CP_WRITE u16 "u8 list"
  | VOCS_DESCRIPTION_WRITE u16 "u8 list"
  | MICS_MUTE_WRITE u16 "u8 list"
  | MICS_MUTE_HOST u16 u8
  | AICS_MUTE_HOST u16 u32 u8
  | AICS_GAIN_HOST u16 u32 gain_command u8
  | AICS_CP_WRITE u16 "u8 list"
  | AICS_DESCRIPTION_WRITE u16 "u8 list"

fun handle_volume :: "gatt_env \<Rightarrow> volume_request \<Rightarrow> server_state \<Rightarrow> (gatt_status \<times> server_state) option" where
  "handle_volume env (VCS_CP_WRITE cid data) s = lehs_handle_vcs_cp_write env cid data (length data) s"
| "handle_volume env (VCS_SET_VOLUME cid opcode v) s = Some (lehs_vcs_set_volume env cid opcode v s)"
| "handle_volume env (VOCS_LOCATION_WRITE cid data) s = vocs_audio_location_write env cid data (length data) s"
| "handle_volume env (VOCS_CP_WRITE cid data) s = vocs_offset_cp_write env cid data (length data) s"
| "handle_volume env (VOCS_DESCRIPTION_WRITE cid data) s = vocs_description_write env cid data (length data) s"
| "handle_volume env (MICS_MUTE_WRITE cid data) s = mics_mute_write env cid data s"
| "handle_volume env (MICS_MUTE_HOST cid m) s = Some (lehs_mics_mute env cid m s)"
| "handle_volume env (AICS_MUTE_HOST cid i m) s = lehs_mics_aics_mute env cid i m s"
| "handle_volume env (AICS_GAIN_HOST cid i c g) s = lehs_mics_aics_set_gain env cid i c g s"
| "handle_volume env (AICS_CP_WRITE cid data) s = aics_cp_write env cid data (length data) s"
| "handle_volume env (AICS_DESCRIPTION_WRITE cid data) s = aics_description_write cid data (length data) s"

lemma driver_keeps [simp]:
  "prev_volume (fst (audio_driver_set_mic_gain g a)) = prev_volume a" "prev_vol_mute (fst (audio_driver_set_mic_gain g a)) = prev_vol_mute a"
  "prev_volume (fst (audio_driver_set_mic_mute_state m a)) = prev_volume a"
  "prev_vol_mute (fst (audio_driver_set_mic_mute_state m a)) = prev_vol_mute a"
  by (simp_all add: audio_driver_set_mic_gain_def audio_driver_set_mic_mute_state_def)

lemma volume_ok_emit [simp]: "volume_ok (emit_server acts s) = volume_ok s"
  by (simp add: volume_ok_def)

lemma volume_ok_audio:
  "prev_volume (fst (f (server_audio s))) = prev_volume (server_audio s) \<Longrightarrow>
   prev_vol_mute (fst (f (server_audio s))) = prev_vol_mute (server_audio s) \<Longrightarrow> volume_ok (drive f s) = volume_ok s"
  by (simp add: volume_ok_def)

lemma volume_ok_mics [simp]: "volume_ok (set_mics_mute m s) = volume_ok s"
  by (simp add: volume_ok_def)

lemma volume_ok_aics [simp]: "volume_ok (set_aics i (upd_input f) s) = volume_ok s"
  by (cases "i < length (mics_aics (services s))"; cases "i = 0") (simp_all add: volume_ok_def list_update_beyond)

lemma volume_ok_notify: "volume_ok (snd (server_notify env cid h data s)) = volume_ok s"
  by (simp add: server_notify_state)

lemmas volume_ok_simps = volume_ok_audio volume_ok_notify aics_notify_state ga_lib_mics_notify_mute_state_def
  ga_lib_vocs_notify_audio_location_def ga_lib_vocs_notify_volume_offset_def ga_lib_vocs_notify_audio_description_def

lemma aics_operation_ok:
  "aics_operation opcode p n s = Some (r, s') \<Longrightarrow> volume_ok s \<Longrightarrow> volume_ok s'"
  by (auto simp: aics_operation_def Let_def bind_eq_Some_conv volume_ok_simps split: if_splits)

lemma aics_cp_write_ok:
  assumes "aics_cp_write env cid data n s = Some (r, s')" "volume_ok s"
  shows "volume_ok s'"
  using assms(1)
proof (cases rule: aics_cp_write_cases)
  case (operation opcode p m x s1 acts)
  from aics_operation_ok [OF operation(1) assms(2)] operation(2) show ?thesis by auto
qed (simp add: assms(2))

lemma advance_simps [simp]:
  "volume_setting (advance n st) = volume_setting st" "vcs_mute_state (advance n st) = vcs_mute_state st"
  "volume_of (advance n st) = volume_of st" "vcs_change_counter (advance n st) = vcs_change_counter st + of_nat n"
  by (simp_all add: advance_def volume_of_def)

lemma volume_spec_mute: "snd (volume_spec opcode a vm) \<in> {0, 1, snd vm}"
  by (auto simp: volume_spec_def split: prod.splits)

lemma volume_ok_snd: "x = (r, s') \<Longrightarrow> volume_ok (snd x) \<Longrightarrow> volume_ok s'"
  by simp

lemma volume_ok_aics_notify: "volume_ok (snd (ga_lib_aics_notify_input_state env cid h i s)) = volume_ok s"
  by (simp add: aics_notify_state Let_def)

lemma set_volume_ok:
  assumes "volume_ok s"
  shows "volume_ok (snd (lehs_vcs_set_volume env cid opcode a s))"
proof (cases "opcode \<le> 6")
  case True
  obtain st' where st': "volume_of st' = volume_spec opcode a (volume_of (the_vcs s))"
    "lehs_vcs_set_volume env cid opcode a s =
      (GATT_SUCCESS,
       if volume_of st' = volume_of (the_vcs s) then s
       else emit_server [SEND_VCS_STATE cid (volume_setting st') (vcs_mute_state st') (vcs_char_type opcode)]
         (emit_server (volume_states env (server_clcbs s) (server_clcbs s) st')
           (set_vcs_state (\<lambda>_. advance (connections (server_clcbs s)) st')
             (drive (audio_driver_set_mute_state (vcs_mute_state st')) (drive (audio_driver_set_volume (volume_setting st')) s)))))"
    by (rule set_volume_result [OF True, of a s env cid])
  have "snd (volume_of st') \<in> {0, 1, snd (volume_of (the_vcs s))}" unfolding st'(1) by (rule volume_spec_mute)
  then have "vcs_mute_state st' \<in> {0, 1}" using assms by (auto simp: volume_of_def volume_ok_def)
  with assms show ?thesis
    unfolding st'(2) by (simp add: volume_ok_def audio_driver_set_volume_def audio_driver_set_mute_state_def)
next
  case False
  then have "opcode \<noteq> 0 \<and> opcode \<noteq> 1 \<and> opcode \<noteq> 2 \<and> opcode \<noteq> 3 \<and> opcode \<noteq> 4 \<and> opcode \<noteq> 5 \<and> opcode \<noteq> 6" by auto
  then have "snd (lehs_vcs_set_volume env cid opcode a s) = s"
    by (simp add: lehs_vcs_set_volume_def ga_lib_vcs_check_volume_state_validity_def)
  with assms show ?thesis by simp
qed

lemma vcs_cp_write_ok:
  assumes "lehs_handle_vcs_cp_write env cid data n s = Some (r, s')" "volume_ok s"
  shows "volume_ok s'"
proof -
  have ok: "volume_ok (snd (lehs_vcs_set_volume env cid opcode a s))" for opcode a by (rule set_volume_ok [OF assms(2)])
  then have flag: "lehs_vcs_set_volume env cid opcode a s = (x, y) \<Longrightarrow> vcs_flag (local_vcs (services y)) = 1" for opcode a x y
    by (metis snd_conv volume_ok_def)
  have "s' = s \<or> (\<exists>opcode a x. lehs_vcs_set_volume env cid opcode a s = (x, s'))"
    using assms(1)
    by (auto simp: lehs_handle_vcs_cp_write_def bind_eq_Some_conv Let_def flag split: if_splits prod.splits)
      (metis surj_pair)
  with assms(2) show ?thesis by (metis ok snd_conv)
qed

lemma u16_small: "uint (x :: u16) \<le> 255 \<longleftrightarrow> x \<le> 255"
  by (simp add: word_le_def)

lemma vocs_writes_ok:
  assumes "volume_ok s"
  shows "vocs_audio_location_write env cid data n s = Some (r, s') \<Longrightarrow> volume_ok s'"
    "vocs_offset_cp_write env cid data n s = Some (r, s') \<Longrightarrow> volume_ok s'"
    "vocs_description_write env cid data n s = Some (r, s') \<Longrightarrow> volume_ok s'"
proof -
  show "vocs_audio_location_write env cid data n s = Some (r, s') \<Longrightarrow> volume_ok s'"
    using assms by (auto simp: vocs_audio_location_write_def volume_ok_simps bind_eq_Some_conv split: if_splits)
      (simp add: volume_ok_def)
  show "vocs_offset_cp_write env cid data n s = Some (r, s') \<Longrightarrow> volume_ok s'"
    using assms by (auto simp: vocs_offset_cp_write_def volume_ok_simps bind_eq_Some_conv Let_def not_less split: if_splits)
      (simp add: volume_ok_def u16_small)
  have "volume_ok (set_vocs (\<lambda>v. v\<lparr>vocs_description := take n data @ replicate (20 - n) 0\<rparr>) s)"
    if "n \<le> 19" "n \<le> length data"
    using assms that by (simp add: volume_ok_def)
  then show "vocs_description_write env cid data n s = Some (r, s') \<Longrightarrow> volume_ok s'"
    using assms by (auto simp: vocs_description_write_def volume_ok_simps bind_eq_Some_conv octets_def Let_def split: if_splits)
qed

lemma aics_description_ok:
  assumes "aics_description_write cid data n s = Some (r, s')" "volume_ok s"
  shows "volume_ok s'"
proof -
  let ?m = "if n = 0 then MAX_DESCRIPTION else min MAX_DESCRIPTION (n - 1)"
  obtain new acts where new: "octets ?m data = Some new"
    "s' = emit_server acts (set_aics 0 (\<lambda>d. d\<lparr>aics_description := new @ replicate (MAX_DESCRIPTION - ?m) 0, description_len := of_nat ?m\<rparr>) s)"
    using assms(1) unfolding aics_description_write_def Let_def by (auto simp only: bind_eq_Some_conv option.inject prod.inject)
  have "length new = ?m" "?m \<le> MAX_DESCRIPTION" using octets_length_SomeD [OF new(1)] by auto
  moreover from this(2) have "unat (of_nat ?m :: u8) = ?m" by (simp add: unsigned_of_nat take_bit_nat_eq_self del: of_nat_min split: if_splits)
  ultimately show ?thesis using assms(2) unfolding new(2) volume_ok_emit by (simp add: volume_ok_def del: of_nat_min)
qed

lemma handle_volume_ok:
  assumes "handle_volume env q s = Some (r, s')" "volume_ok s"
  shows "volume_ok s'"
proof (cases q)
  case (VCS_SET_VOLUME cid opcode v)
  with assms set_volume_ok [OF assms(2), of env cid opcode v] show ?thesis by simp
next
  case (AICS_CP_WRITE cid data)
  with assms show ?thesis using aics_cp_write_ok by simp
next
  case (VCS_CP_WRITE cid data)
  with assms show ?thesis using vcs_cp_write_ok by simp
next
  case (AICS_DESCRIPTION_WRITE cid data)
  with assms show ?thesis using aics_description_ok by simp
next
  case (MICS_MUTE_WRITE cid data)
  with assms show ?thesis by (auto simp: mics_mute_write_def volume_ok_simps bind_eq_Some_conv)
next
  case (MICS_MUTE_HOST cid m)
  with assms show ?thesis
    by (auto simp: lehs_mics_mute_def ga_lib_mics_notify_mute_state_def Let_def volume_ok_notify volume_ok_audio elim!: volume_ok_snd)
next
  case (AICS_MUTE_HOST cid i m)
  with assms show ?thesis
    by (auto simp: lehs_mics_aics_mute_def bind_eq_Some_conv volume_ok_audio volume_ok_aics_notify Let_def split: if_splits elim!: volume_ok_snd)
next
  case (AICS_GAIN_HOST cid i c g)
  with assms show ?thesis
    by (auto simp: lehs_mics_aics_set_gain_def bind_eq_Some_conv volume_ok_audio volume_ok_aics_notify Let_def split: if_splits elim!: volume_ok_snd)
next
  case (VOCS_LOCATION_WRITE cid data)
  with assms show ?thesis using vocs_writes_ok(1) by simp
next
  case (VOCS_CP_WRITE cid data)
  with assms show ?thesis using vocs_writes_ok(2) by simp
next
  case (VOCS_DESCRIPTION_WRITE cid data)
  with assms show ?thesis using vocs_writes_ok(3) by simp
qed

section \<open>Properties\<close>

fun volume_requests :: "gatt_env \<Rightarrow> volume_request list \<Rightarrow> server_state \<Rightarrow> server_state option" where
  "volume_requests env [] s = Some s"
| "volume_requests env (q # qs) s = do { (_, s) \<leftarrow> handle_volume env q s; volume_requests env qs s }"

text \<open>C21: whatever clients and host ask of the volume, offset, microphone and input services, in any order, the
  driver plays at the volume and mute state that the volume service shows, the mute state is a valid one, the volume
  flag stays set, the offset never becomes negative, and the descriptions stay inside their arrays and terminated.\<close>

theorem volume_services_invariant:
  assumes "volume_requests env qs s = Some s'" "volume_ok s"
  shows "volume_ok s'"
  using assms
proof (induction env qs s rule: volume_requests.induct)
  case (2 env q qs s)
  obtain r s1 where "handle_volume env q s = Some (r, s1)" "volume_requests env qs s1 = Some s'"
    using "2.prems"(1) by (auto simp: bind_eq_Some_conv)
  with "2.IH" [OF this(1) refl this(2)] handle_volume_ok "2.prems"(2) show ?case by blast
qed simp

text \<open>C20: a control point command with the current change counter succeeds and has the effect the profile
  describes, 25 steps down or up inside 0 to 255, an absolute volume, mute or unmute; when that changes anything the
  driver is told and the counter moves on once for every connection, otherwise nothing moves.\<close>

theorem volume_command:
  assumes "opcode \<le> VOLUME_CONTROL_OPCODE_MUTE"
  shows "\<exists>s'. lehs_handle_vcs_cp_write env cid (opcode # vcs_change_counter (the_vcs s) # vcs_args opcode a)
      (length (opcode # vcs_change_counter (the_vcs s) # vcs_args opcode a)) s = Some (GATT_SUCCESS, s') \<and>
    volume_of (the_vcs s') = volume_spec opcode a (volume_of (the_vcs s)) \<and>
    (if volume_of (the_vcs s') = volume_of (the_vcs s) then vcs_change_counter (the_vcs s') = vcs_change_counter (the_vcs s)
     else driver_volume (server_audio s') =
         (if vcs_mute_state (the_vcs s') \<noteq> 0 then 0 else volume_setting (the_vcs s') div 25) \<and>
       vcs_change_counter (the_vcs s') = vcs_change_counter (the_vcs s) + of_nat (connections (server_clcbs s)))"
proof -
  obtain st' s' post where w: "lehs_handle_vcs_cp_write env cid (opcode # vcs_change_counter (the_vcs s) # vcs_args opcode a)
       (length (opcode # vcs_change_counter (the_vcs s) # vcs_args opcode a)) s = Some (GATT_SUCCESS, s')"
    "volume_of st' = volume_spec opcode a (volume_of (the_vcs s))"
    "vcs_change_counter st' = vcs_change_counter (the_vcs s)"
    "the_vcs s' = (if volume_of st' = volume_of (the_vcs s) then the_vcs s else advance (connections (server_clcbs s)) st')"
    "volume_of st' \<noteq> volume_of (the_vcs s) \<Longrightarrow>
       prev_volume (server_audio s') = volume_setting st' \<and> prev_vol_mute (server_audio s') = vcs_mute_state st'"
    using volume_written [OF assms, of env cid s a] by metis
  then show ?thesis by (cases "volume_of st' = volume_of (the_vcs s)") (auto simp: driver_volume_def)
qed

text \<open>With two connections the counter is moved on between the two notifications. The first connection is told
  a counter that is stale at once: its next command, sent with the counter it was told, is refused.\<close>

theorem first_of_two_clients_stale:
  assumes "opcode \<le> VOLUME_CONTROL_OPCODE_MUTE" "opcode' \<le> VOLUME_CONTROL_OPCODE_MUTE"
    "server_clcbs s = [c1, c2]" "in_use c1" "in_use c2"
    "volume_spec opcode a (volume_of (the_vcs s)) \<noteq> volume_of (the_vcs s)"
  shows "let k = vcs_change_counter (the_vcs s) in
    \<exists>s' pre post. lehs_handle_vcs_cp_write env cid (opcode # k # vcs_args opcode a)
        (length (opcode # k # vcs_args opcode a)) s = Some (GATT_SUCCESS, s') \<and>
      actions s' = pre @
        sent_value env [c1, c2] (conn_id c1) HDLC_VCS_VOLUME_STATE_VALUE
          [volume_setting (the_vcs s'), vcs_mute_state (the_vcs s'), k + 1] @
        sent_value env [c1, c2] (conn_id c2) HDLC_VCS_VOLUME_STATE_VALUE
          [volume_setting (the_vcs s'), vcs_mute_state (the_vcs s'), k + 2] @ post \<and>
      lehs_handle_vcs_cp_write env (conn_id c1) (opcode' # (k + 1) # vcs_args opcode' b)
        (length (opcode' # (k + 1) # vcs_args opcode' b)) s' = Some (GA_LIB_VCS_ERROR_INVALID_CHANGE_COUNTER, s')"
proof -
  let ?k = "vcs_change_counter (the_vcs s)"
  obtain st' s' pre post where w: "lehs_handle_vcs_cp_write env cid (opcode # ?k # vcs_args opcode a)
       (length (opcode # ?k # vcs_args opcode a)) s = Some (GATT_SUCCESS, s')"
    "volume_of st' = volume_spec opcode a (volume_of (the_vcs s))" "vcs_change_counter st' = ?k"
    "the_vcs s' = (if volume_of st' = volume_of (the_vcs s) then the_vcs s else advance (connections (server_clcbs s)) st')"
    "volume_of st' \<noteq> volume_of (the_vcs s) \<Longrightarrow>
       actions s' = actions s @ pre @ volume_states env (server_clcbs s) (server_clcbs s) st' @ post"
    using volume_written [OF assms(1), of env cid s a] by metis
  have v: "the_vcs s' = advance 2 st'" "actions s' = (actions s @ pre) @ volume_states env [c1, c2] [c1, c2] st' @ post"
    using w(2,4,5) assms(3-6) by (simp_all add: connections_def flip: numeral_2_eq_2)
  have two: "?k + 1 + 1 = ?k + 2" by simp
  have "volume_states env [c1, c2] [c1, c2] st' =
      sent_value env [c1, c2] (conn_id c1) HDLC_VCS_VOLUME_STATE_VALUE [volume_setting (the_vcs s'), vcs_mute_state (the_vcs s'), ?k + 1] @
      sent_value env [c1, c2] (conn_id c2) HDLC_VCS_VOLUME_STATE_VALUE [volume_setting (the_vcs s'), vcs_mute_state (the_vcs s'), ?k + 2]"
    using assms(4,5) w(3) v(1) by (simp add: volume_state_octets_def Let_def two)
  then have acts: "actions s' = (actions s @ pre) @
      sent_value env [c1, c2] (conn_id c1) HDLC_VCS_VOLUME_STATE_VALUE [volume_setting (the_vcs s'), vcs_mute_state (the_vcs s'), ?k + 1] @
      sent_value env [c1, c2] (conn_id c2) HDLC_VCS_VOLUME_STATE_VALUE [volume_setting (the_vcs s'), vcs_mute_state (the_vcs s'), ?k + 2] @ post"
    by (simp only: v(2) append_assoc)
  have "vcs_change_counter (the_vcs s') \<noteq> ?k + 1" using w(3) v(1) by simp
  then have refused: "lehs_handle_vcs_cp_write env (conn_id c1) (opcode' # (?k + 1) # vcs_args opcode' b)
      (length (opcode' # (?k + 1) # vcs_args opcode' b)) s' = Some (GA_LIB_VCS_ERROR_INVALID_CHANGE_COUNTER, s')"
    unfolding cp_write_result [OF assms(2)] by (simp only: if_True simp_thms)
  show ?thesis unfolding Let_def using w(1) acts refused by blast
qed

text \<open>Automatic gain mode cannot be left. Once a client has set it, no sequence of control point requests
  changes the gain or the mode, and a request for manual mode, which the profile allows here, is refused.\<close>

theorem automatic_gain_final:
  assumes "auto_gain (input_state (the_aics 0 s))" "mics_aics (services s) \<noteq> []" "aics_writes env ws s = Some s'"
  shows "gain_setting (input_state (the_aics 0 s')) = gain_setting (input_state (the_aics 0 s)) \<and>
    gain_mode (input_state (the_aics 0 s')) = gain_mode (input_state (the_aics 0 s)) \<and>
    aics_cp_write env cid [GA_LIB_AICS_OPCODE_SET_MANUAL_GAIN_MODE, aics_change_counter (input_state (the_aics 0 s'))] 2 s' =
      Some (GA_LIB_AICS_GAIN_MODE_CHANGE_NOT_ALLOWED, s')"
proof -
  note k = aics_writes_auto [OF assms(3,1,2)]
  then have "auto_gain (input_state (the_aics 0 s'))" using assms(1) by (simp add: auto_gain_def)
  then show ?thesis
    using k by (simp add: aics_cp_write_def aics_operation_def auto_gain_def start_def Let_def)
qed

text \<open>The example: two subscribed connections after the start.\<close>

definition example_volume_clcb :: "u16 \<Rightarrow> lehs_clcb" where
  "example_volume_clcb cid = zero_clcb\<lparr>in_use := True, conn_id := cid, cccd_bits := [4, 0]\<rparr>"

definition example_server :: server_state where
  "example_server = lehs_mics_initialize_data (lehs_vcs_initialize_data
     (example_unset [example_volume_clcb 1, example_volume_clcb 2]))"

lemma example_server_vcs:
  "the_vcs example_server = \<lparr>volume_setting = 100, vcs_mute_state = 0, vcs_change_counter = 0\<rparr>"
  "server_clcbs example_server = [example_volume_clcb 1, example_volume_clcb 2]"
  "mics_aics (services example_server) = [aics_initial]"
  by (simp_all add: example_server_def lehs_mics_initialize_data_def lehs_vcs_initialize_data_def zero_service_data_def
      set_vcs_state_def Let_def)

lemma example_server_ok: "volume_ok example_server"
  by (simp add: volume_ok_def example_server_def lehs_mics_initialize_data_def lehs_vcs_initialize_data_def zero_service_data_def
      aics_initial_def audio_driver_set_volume_def audio_driver_set_mute_state_def Let_def)

theorem volume_services_invariant_witness:
  "\<exists>s'. volume_requests example_env [VCS_SET_VOLUME 1 1 0, MICS_MUTE_HOST 1 1] example_server = Some s' \<and> volume_ok s'"
proof -
  obtain s' where s': "volume_requests example_env [VCS_SET_VOLUME 1 1 0, MICS_MUTE_HOST 1 1] example_server = Some s'"
    by (simp add: case_prod_unfold)
  with volume_services_invariant [OF s' example_server_ok] show ?thesis by simp
qed

theorem volume_command_witness:
  "\<exists>s'. lehs_handle_vcs_cp_write example_env 1 [1, 0] 2 example_server = Some (GATT_SUCCESS, s') \<and>
    volume_of (the_vcs s') = (125, 0) \<and> driver_volume (server_audio s') = 5"
proof -
  obtain s' where s': "lehs_handle_vcs_cp_write example_env 1 [1, 0] 2 example_server = Some (GATT_SUCCESS, s')"
    "volume_of (the_vcs s') = (125, 0)"
    "driver_volume (server_audio s') = (if vcs_mute_state (the_vcs s') \<noteq> 0 then 0 else volume_setting (the_vcs s') div 25)"
    using volume_command [of 1 example_env 1 example_server 0]
    by (auto simp: example_server_vcs volume_spec_def volume_of_def split: if_splits simp flip: numeral_2_eq_2)
  moreover have "volume_setting (the_vcs s') = 125" "vcs_mute_state (the_vcs s') = 0"
    using s'(2) by (simp_all add: volume_of_def word_unat_eq_iff)
  ultimately show ?thesis by simp
qed

theorem first_of_two_clients_stale_witness:
  "\<exists>s'. lehs_handle_vcs_cp_write example_env 2 [6, 0] 2 example_server = Some (GATT_SUCCESS, s') \<and>
    lehs_handle_vcs_cp_write example_env 1 [5, 1] 2 s' = Some (GA_LIB_VCS_ERROR_INVALID_CHANGE_COUNTER, s')"
  using first_of_two_clients_stale [of 6 5 example_server "example_volume_clcb 1" "example_volume_clcb 2" 0 example_env 2 0]
  by (auto simp: example_server_vcs volume_spec_def volume_of_def example_volume_clcb_def Let_def simp flip: numeral_2_eq_2)

theorem automatic_gain_final_witness:
  "\<exists>s'. aics_cp_write example_env 1 [5, 0] 2 example_server = Some (GATT_SUCCESS, s') \<and>
    aics_cp_write example_env 1 [4, 1] 2 s' = Some (GA_LIB_AICS_GAIN_MODE_CHANGE_NOT_ALLOWED, s')"
proof -
  obtain s' where s': "aics_cp_write example_env 1 [5, 0] 2 example_server = Some (GATT_SUCCESS, s')"
    "mics_aics (services s') = [upd_input (\<lambda>st. st\<lparr>gain_mode := 3, aics_change_counter := 1\<rparr>) aics_initial]"
    by (simp add: aics_cp_write_def aics_operation_def start_def aics_notify_state Let_def example_server_vcs aics_initial_def upd_input_def)
  then show ?thesis
    using automatic_gain_final [of s' example_env "[]" s' 1] by (simp add: auto_gain_def aics_initial_def)
qed

end
