(* ===== verification/Has.thy ===== *)
theory Has
  imports Services
begin

text \<open>
  Hearing access: the presets of \<open>lehs_has.c\<close>, the indications and client writes of \<open>ga_lib_has.c\<close>, and the write to the
  preset control point in \<open>lehs_gatt.c\<close>.
\<close>

section \<open>Features and presets\<close>

definition GA_LIB_HAS_FEATURES :: "u8 \<Rightarrow> u8 \<Rightarrow> u8 \<Rightarrow> u8 \<Rightarrow> u8 \<Rightarrow> u8" where
  "GA_LIB_HAS_FEATURES hearing_aid_type preset_sync independent_presets dynamic_presets writable_presets =
     (hearing_aid_type AND 3) OR push_bit 2 (preset_sync AND 1) OR push_bit 3 (independent_presets AND 1) OR
     push_bit 4 (dynamic_presets AND 1) OR push_bit 5 (writable_presets AND 1)"

definition GA_LIB_HAS_PRESET_SYNC_SUPPORTED :: "u8 \<Rightarrow> bool" where
  "GA_LIB_HAS_PRESET_SYNC_SUPPORTED features = (drop_bit 2 features AND 1 \<noteq> 0)"

definition GA_LIB_HAS_WRITABLE_PRESETS_SUPPORTED :: "u8 \<Rightarrow> bool" where
  "GA_LIB_HAS_WRITABLE_PRESETS_SUPPORTED features = (drop_bit 5 features AND 1 \<noteq> 0)"

text \<open>A C string is the octets before its terminating zero.\<close>

record ga_lib_has_preset_records =
  preset_index :: u8
  preset_properties :: u8
  preset_is_last :: u8
  preset_name :: "u8 list"
  preset_name_len :: u8

text \<open>``Universal'', ``Outdoor'' and ``Noisy Environment''; none of them is writable, all are available.\<close>

definition lehs_has_preset_records :: "ga_lib_has_preset_records list" where
  "lehs_has_preset_records =
     [\<lparr>preset_index = 1, preset_properties = 2, preset_is_last = 0,
        preset_name = [85, 110, 105, 118, 101, 114, 115, 97, 108], preset_name_len = 10\<rparr>,
      \<lparr>preset_index = 2, preset_properties = 2, preset_is_last = 0,
        preset_name = [79, 117, 116, 100, 111, 111, 114], preset_name_len = 8\<rparr>,
      \<lparr>preset_index = 3, preset_properties = 2, preset_is_last = 1,
        preset_name = [78, 111, 105, 115, 121, 32, 69, 110, 118, 105, 114, 111, 110, 109, 101, 110, 116], preset_name_len = 18\<rparr>]"

definition lehs_has_data_initial :: lehs_has_data where
  "lehs_has_data_initial =
     \<lparr>procedure_in_progress = 0, hearing_aid_features = GA_LIB_HAS_FEATURES 0 0 0 0 0, active_preset_index = 0\<rparr>"

definition get_preset_rec :: "u8 \<Rightarrow> nat option" where
  "get_preset_rec i = find_index (\<lambda>r. preset_index r = i) lehs_has_preset_records"

abbreviation (input) GA_LIB_HAS_ERROR_INVALID_OPCODE :: gatt_status where
  "GA_LIB_HAS_ERROR_INVALID_OPCODE \<equiv> GATT_APPLICATION 0x80"
abbreviation (input) GA_LIB_HAS_ERROR_WRITE_NAME_NOT_ALLOWED :: gatt_status where
  "GA_LIB_HAS_ERROR_WRITE_NAME_NOT_ALLOWED \<equiv> GATT_APPLICATION 0x81"
abbreviation (input) GA_LIB_HAS_ERROR_PRESET_SYNCHRONIZATION_NOT_SUPPORTED :: gatt_status where
  "GA_LIB_HAS_ERROR_PRESET_SYNCHRONIZATION_NOT_SUPPORTED \<equiv> GATT_APPLICATION 0x82"
abbreviation (input) GA_LIB_HAS_ERROR_PRESET_OPERATION_NOT_POSSIBLE :: gatt_status where
  "GA_LIB_HAS_ERROR_PRESET_OPERATION_NOT_POSSIBLE \<equiv> GATT_APPLICATION 0x83"
abbreviation (input) GA_LIB_HAS_ERROR_INVALID_PARAMETERS_LENGTH :: gatt_status where
  "GA_LIB_HAS_ERROR_INVALID_PARAMETERS_LENGTH \<equiv> GATT_APPLICATION 0x84"

section \<open>Indications\<close>

text \<open>
  The size of a buffer: the smaller of what the bearer carries and what the value needs, as unsigned numbers. Writing more
  octets than the buffer has is undefined.
\<close>

definition indication_size :: "gatt_env \<Rightarrow> u16 \<Rightarrow> nat \<Rightarrow> nat" where
  "indication_size env cid n =
     (let max_len = uint (bearer_mtu env cid) - uint (gatt_hdr_size env)
      in if 0 \<le> max_len \<and> max_len < int n then nat max_len else n)"

definition send_indication_in :: "gatt_env \<Rightarrow> u16 \<Rightarrow> u16 \<Rightarrow> nat \<Rightarrow> u8 list \<Rightarrow> server_state \<Rightarrow> (gatt_status \<times> server_state) option" where
  "send_indication_in env cid handle n data s =
     (if \<not> get_buffer env n then Some (GATT_NO_RESOURCES, s)
      else if length data > n then None
      else let a = SEND_INDICATION cid handle data in Some (client_send env a, emit_gatts [a] s))"

definition ga_lib_has_notify_read_preset_rsp ::
  "gatt_env \<Rightarrow> u16 \<Rightarrow> u16 \<Rightarrow> ga_lib_has_preset_records \<Rightarrow> server_state \<Rightarrow> (gatt_status \<times> server_state) option" where
  "ga_lib_has_notify_read_preset_rsp env cid handle p_rec s =
     send_indication_in env cid handle (indication_size env cid (5 + length (preset_name p_rec) + 1))
       ([2, preset_is_last p_rec, preset_index p_rec, preset_properties p_rec] @ preset_name p_rec @ [0]) s"

record ga_lib_has_cp_rsp_preset_changed =
  change_id :: u8
  change_is_last :: u8
  change_rec :: ga_lib_has_preset_records
  prev_index :: u8

definition ga_lib_has_notify_preset_changed ::
  "gatt_env \<Rightarrow> u16 \<Rightarrow> u16 \<Rightarrow> ga_lib_has_cp_rsp_preset_changed \<Rightarrow> server_state \<Rightarrow> (gatt_status \<times> server_state) option" where
  "ga_lib_has_notify_preset_changed env cid handle p_change s =
     (let p_rec = change_rec p_change
      in send_indication_in env cid handle (indication_size env cid (6 + length (preset_name p_rec) + 1))
       ([3, change_id p_change, change_is_last p_change] @
        (if change_id p_change = 0
         then [prev_index p_change, preset_index p_rec, preset_properties p_rec] @ preset_name p_rec @ [0]
         else [preset_index p_rec])) s)"

definition ga_lib_has_notify_active_preset_index ::
  "gatt_env \<Rightarrow> u16 \<Rightarrow> u16 \<Rightarrow> u8 \<Rightarrow> server_state \<Rightarrow> (gatt_status \<times> server_state) option" where
  "ga_lib_has_notify_active_preset_index env cid handle i s =
     send_indication_in env cid handle (indication_size env cid 5) [i] s"

section \<open>The control point\<close>

definition set_has :: "(lehs_has_data \<Rightarrow> lehs_has_data) \<Rightarrow> server_state \<Rightarrow> server_state" where
  "set_has f s = s\<lparr>has_global := f (has_global s)\<rparr>"

fun notify_presets :: "gatt_env \<Rightarrow> u16 \<Rightarrow> ga_lib_has_preset_records list \<Rightarrow> server_state \<Rightarrow> server_state option" where
  "notify_presets env cid [] s = Some s"
| "notify_presets env cid (r # rs) s = do {
     (_, s) \<leftarrow> ga_lib_has_notify_read_preset_rsp env cid HDLC_HAS_HEARING_AID_PRESET_CONTROL_POINT_VALUE r s;
     notify_presets env cid rs s }"

definition lehs_has_handle_read_preset_record ::
  "gatt_env \<Rightarrow> u16 \<Rightarrow> u8 \<Rightarrow> u8 \<Rightarrow> server_state \<Rightarrow> (gatt_status \<times> server_state) option" where
  "lehs_has_handle_read_preset_record env cid start_preset num_presets s =
     (if procedure_in_progress (has_global s) \<noteq> 0 then Some (GATT_PRC_IN_PROGRESS, s)
      else case get_preset_rec start_preset of
        None \<Rightarrow> Some (GATT_OUT_OF_RANGE, s)
      | Some i \<Rightarrow> do {
          s \<leftarrow> notify_presets env cid (take (unat num_presets) (drop i lehs_has_preset_records))
                 (set_has (\<lambda>h. h\<lparr>procedure_in_progress := 1\<rparr>) s);
          Some (GATT_SUCCESS, set_has (\<lambda>h. h\<lparr>procedure_in_progress := 0\<rparr>) s) })"

text \<open>
  Past all checks the name, a string literal, would be overwritten, which is undefined. The length is compared with the
  size of a pointer, 4 on the target.
\<close>

definition lehs_has_handle_write_preset_name ::
  "u8 \<Rightarrow> u8 list \<Rightarrow> u8 \<Rightarrow> server_state \<Rightarrow> (gatt_status \<times> server_state) option" where
  "lehs_has_handle_write_preset_name i data len_to_write s =
     (if procedure_in_progress (has_global s) \<noteq> 0 then Some (GATT_PRC_IN_PROGRESS, s)
      else if \<not> GA_LIB_HAS_WRITABLE_PRESETS_SUPPORTED (hearing_aid_features (has_global s))
      then Some (GA_LIB_HAS_ERROR_WRITE_NAME_NOT_ALLOWED, s)
      else case get_preset_rec i of
        None \<Rightarrow> Some (GATT_OUT_OF_RANGE, s)
      | Some j \<Rightarrow>
          if preset_properties (lehs_has_preset_records ! j) AND 1 = 0 then Some (GA_LIB_HAS_ERROR_WRITE_NAME_NOT_ALLOWED, s)
          else if len_to_write > 3 then Some (GA_LIB_HAS_ERROR_INVALID_PARAMETERS_LENGTH, s)
          else None)"

definition lehs_has_set_active_preset ::
  "gatt_env \<Rightarrow> u16 \<Rightarrow> u8 \<Rightarrow> server_state \<Rightarrow> (gatt_status \<times> server_state) option" where
  "lehs_has_set_active_preset env cid i s =
     (case get_preset_rec i of
        None \<Rightarrow> Some (GATT_OUT_OF_RANGE, s)
      | Some j \<Rightarrow>
          if preset_properties (lehs_has_preset_records ! j) AND 2 = 0
          then Some (GA_LIB_HAS_ERROR_PRESET_OPERATION_NOT_POSSIBLE, s)
          else do {
            (_, s) \<leftarrow> ga_lib_has_notify_active_preset_index env cid HDLC_HAS_ACTIVE_PRESET_INDEX_VALUE i
                       (set_has (\<lambda>h. h\<lparr>active_preset_index := i\<rparr>) s);
            Some (GATT_SUCCESS, s) })"

definition lehs_has_set_next_preset ::
  "gatt_env \<Rightarrow> u16 \<Rightarrow> int \<Rightarrow> server_state \<Rightarrow> (gatt_status \<times> server_state) option" where
  "lehs_has_set_next_preset env cid incr s =
     (let j = (case get_preset_rec (of_int (uint (active_preset_index (has_global s)) + incr)) of
                 None \<Rightarrow> if incr > 0 then 0 else length lehs_has_preset_records - 1
               | Some j \<Rightarrow> j)
      in lehs_has_set_active_preset env cid (preset_index (lehs_has_preset_records ! j)) s)"

definition lehs_has_set_preset_synchronization :: "server_state \<Rightarrow> gatt_status" where
  "lehs_has_set_preset_synchronization s =
     (if \<not> GA_LIB_HAS_PRESET_SYNC_SUPPORTED (hearing_aid_features (has_global s))
      then GA_LIB_HAS_ERROR_PRESET_SYNCHRONIZATION_NOT_SUPPORTED
      else status_of_result WICED_UNSUPPORTED)"

definition lehs_has_initialize_data :: "server_state \<Rightarrow> server_state" where
  "lehs_has_initialize_data s = upd_services (\<lambda>l. l\<lparr>local_has := has_global s\<rparr>) s"

text \<open>The parameters are read without a look at the length; a number or start of 0 is overruled by the next status.\<close>

definition has_cp_write :: "gatt_env \<Rightarrow> u16 \<Rightarrow> u8 list \<Rightarrow> nat \<Rightarrow> server_state \<Rightarrow> (gatt_status \<times> server_state) option" where
  "has_cp_write env cid data len_to_write s =
     (if len_to_write < 1 then Some (GATT_INVALID_ATTR_LEN, s)
      else do {
        (opcode, p) \<leftarrow> rd8 (start data);
        if opcode = 1 then do {
          (start_index, p) \<leftarrow> rd8 p;
          (num_presets, _) \<leftarrow> rd8 p;
          lehs_has_handle_read_preset_record env cid start_index num_presets s }
        else if opcode = 4 then do {
          (i, p) \<leftarrow> rd8 p;
          lehs_has_handle_write_preset_name i (fst p) (of_int (int len_to_write - 2)) s }
        else if opcode = 5 \<or> opcode = 8 then do {
          (i, _) \<leftarrow> rd8 p;
          lehs_has_set_active_preset env cid i s }
        else if opcode = 6 then lehs_has_set_next_preset env cid 1 s
        else if opcode = 7 then lehs_has_set_next_preset env cid (- 1) s
        else if opcode = 9 \<or> opcode = 10 then Some (lehs_has_set_preset_synchronization s, s)
        else Some (GA_LIB_HAS_ERROR_INVALID_OPCODE, s) })"

section \<open>Writes of a client\<close>

definition ga_lib_has_write_control_point_read_presets ::
  "gatt_env \<Rightarrow> u16 \<Rightarrow> gatt_intf_characteristic_handles \<Rightarrow> u8 \<Rightarrow> u8 \<Rightarrow> gatt_status \<times> gatt_action list" where
  "ga_lib_has_write_control_point_read_presets env cid p_handles start_index num_presets =
     gatt_intf_write_int env cid p_handles [1, start_index, num_presets]"

text \<open>The buffer is written without a test.\<close>

definition ga_lib_has_write_control_point_preset_name ::
  "gatt_env \<Rightarrow> u16 \<Rightarrow> gatt_intf_characteristic_handles \<Rightarrow> u8 \<Rightarrow> u8 list \<Rightarrow> (gatt_status \<times> gatt_action list) option" where
  "ga_lib_has_write_control_point_preset_name env cid p_handles i name =
     (if \<not> get_buffer env (2 + (length name + 1)) then None
      else let a = SEND_WRITE cid (value_handle p_handles) ([4, i] @ name @ [0]) in Some (client_send env a, [a]))"

definition ga_lib_has_write_control_point_set_active_preset ::
  "gatt_env \<Rightarrow> u16 \<Rightarrow> gatt_intf_characteristic_handles \<Rightarrow> u8 \<Rightarrow> bool \<Rightarrow> gatt_status \<times> gatt_action list" where
  "ga_lib_has_write_control_point_set_active_preset env cid p_handles i is_synchronized_locally =
     gatt_intf_write_int env cid p_handles [if is_synchronized_locally then 8 else 5, i]"

definition ga_lib_has_write_control_point_opcode ::
  "gatt_env \<Rightarrow> u16 \<Rightarrow> gatt_intf_characteristic_handles \<Rightarrow> u8 \<Rightarrow> gatt_status \<times> gatt_action list" where
  "ga_lib_has_write_control_point_opcode env cid p_handles opcode = gatt_intf_write_int env cid p_handles [opcode]"

definition ga_lib_has_write_control_point_set_next_preset ::
  "gatt_env \<Rightarrow> u16 \<Rightarrow> gatt_intf_characteristic_handles \<Rightarrow> bool \<Rightarrow> gatt_status \<times> gatt_action list" where
  "ga_lib_has_write_control_point_set_next_preset env cid p_handles is_synchronized_locally =
     ga_lib_has_write_control_point_opcode env cid p_handles (if is_synchronized_locally then 9 else 6)"

definition ga_lib_has_write_control_point_set_previous_preset ::
  "gatt_env \<Rightarrow> u16 \<Rightarrow> gatt_intf_characteristic_handles \<Rightarrow> bool \<Rightarrow> gatt_status \<times> gatt_action list" where
  "ga_lib_has_write_control_point_set_previous_preset env cid p_handles is_synchronized_locally =
     ga_lib_has_write_control_point_opcode env cid p_handles (if is_synchronized_locally then 10 else 7)"

section \<open>Presets\<close>

lemma get_preset_rec_table:
  "get_preset_rec 1 = Some 0" "get_preset_rec 2 = Some 1" "get_preset_rec 3 = Some 2"
  "i \<notin> {1, 2, 3} \<Longrightarrow> get_preset_rec i = None"
  by (simp_all add: get_preset_rec_def lehs_has_preset_records_def)

lemma set_has_simps [simp]:
  "services (set_has f s) = services s" "has_global (set_has f s) = f (has_global s)" "server_clcbs (set_has f s) = server_clcbs s"
  "server_audio (set_has f s) = server_audio s" "actions (set_has f s) = actions s"
  by (simp_all add: set_has_def)

text \<open>An indication changes the actions only.\<close>

lemma send_indication_state:
  "send_indication_in env cid h n data s = Some (st, s') \<Longrightarrow> \<exists>acts. s' = emit_server acts s"
  by (auto simp: send_indication_in_def emit_gatts_def emits_nothing Let_def split: if_splits)

text \<open>What the data of the preset server is after its start, and stays.\<close>

definition has_ok :: "server_state \<Rightarrow> bool" where
  "has_ok s \<longleftrightarrow> procedure_in_progress (has_global s) = 0 \<and> hearing_aid_features (has_global s) = 0 \<and>
     active_preset_index (has_global s) \<in> {0, 1, 2, 3}"

definition room :: "gatt_env \<Rightarrow> u16 \<Rightarrow> int" where
  "room env cid = uint (bearer_mtu env cid) - uint (gatt_hdr_size env)"

lemma has_initial_features: "hearing_aid_features lehs_has_data_initial = 0"
  by (simp add: lehs_has_data_initial_def GA_LIB_HAS_FEATURES_def)

text \<open>The room an indication has decides whether it is sent.\<close>

lemma send_indication_fits:
  "room env cid < 0 \<or> int (length data) \<le> room env cid \<Longrightarrow> length data \<le> n \<Longrightarrow>
   \<exists>r acts. send_indication_in env cid h (indication_size env cid n) data s = Some (r, emit_server acts s)"
  by (auto simp: send_indication_in_def indication_size_def room_def emit_gatts_def emits_nothing Let_def)

lemma send_indication_overflow:
  "0 \<le> room env cid \<Longrightarrow> room env cid < int (length data) \<Longrightarrow> length data \<le> n \<Longrightarrow> \<forall>n. get_buffer env n \<Longrightarrow>
   send_indication_in env cid h (indication_size env cid n) data s = None"
  by (auto simp: send_indication_in_def indication_size_def room_def Let_def)

definition record_fits :: "gatt_env \<Rightarrow> u16 \<Rightarrow> ga_lib_has_preset_records \<Rightarrow> bool" where
  "record_fits env cid r \<longleftrightarrow> room env cid < 0 \<or> int (5 + length (preset_name r)) \<le> room env cid"

lemma notify_presets_fit:
  "list_all (record_fits env cid) rs \<Longrightarrow> \<exists>acts. notify_presets env cid rs s = Some (emit_server acts s)"
proof (induction rs arbitrary: s)
  case Nil
  then show ?case by (metis emit_nil notify_presets.simps(1))
next
  case (Cons r rs)
  obtain st acts where "ga_lib_has_notify_read_preset_rsp env cid HDLC_HAS_HEARING_AID_PRESET_CONTROL_POINT_VALUE r s = Some (st, emit_server acts s)"
    using Cons.prems send_indication_fits [of env cid "[2, preset_is_last r, preset_index r, preset_properties r] @ preset_name r @ [0]"]
    by (force simp: ga_lib_has_notify_read_preset_rsp_def record_fits_def)
  with Cons.IH [of "emit_server acts s"] Cons.prems show ?case by auto
qed

lemma notify_presets_overflow:
  "\<forall>n. get_buffer env n \<Longrightarrow> \<not> list_all (record_fits env cid) rs \<Longrightarrow> notify_presets env cid rs s = None"
proof (induction rs arbitrary: s)
  case (Cons r rs)
  show ?case
  proof (cases "record_fits env cid r")
    case True
    with Cons show ?thesis
      by (cases "ga_lib_has_notify_read_preset_rsp env cid HDLC_HAS_HEARING_AID_PRESET_CONTROL_POINT_VALUE r s") auto
  next
    case False
    then show ?thesis
      using send_indication_overflow [of env cid "[2, preset_is_last r, preset_index r, preset_properties r] @ preset_name r @ [0]"] Cons.prems(1)
      by (simp add: ga_lib_has_notify_read_preset_rsp_def record_fits_def)
  qed
qed simp

lemma fits_22: "22 \<le> room env cid \<Longrightarrow> list_all (record_fits env cid) (take n (drop m lehs_has_preset_records))"
proof -
  assume "22 \<le> room env cid"
  then have "list_all (record_fits env cid) lehs_has_preset_records"
    by (simp add: lehs_has_preset_records_def record_fits_def)
  then show ?thesis by (metis append_take_drop_id list_all_append)
qed

lemma set_active_preset_result:
  assumes "i \<in> {1, 2, 3}" "room env cid \<noteq> 0"
  shows "\<exists>acts. lehs_has_set_active_preset env cid i s =
    Some (GATT_SUCCESS, emit_server acts (set_has (\<lambda>h. h\<lparr>active_preset_index := i\<rparr>) s))"
proof -
  have one: "room env cid < 0 \<or> int (length [i]) \<le> room env cid" "length [i] \<le> 5" using assms(2) by auto
  obtain r acts where "ga_lib_has_notify_active_preset_index env cid HDLC_HAS_ACTIVE_PRESET_INDEX_VALUE i
      (set_has (\<lambda>h. h\<lparr>active_preset_index := i\<rparr>) s) = Some (r, emit_server acts (set_has (\<lambda>h. h\<lparr>active_preset_index := i\<rparr>) s))"
    using send_indication_fits [of env cid "[i]" 5 HDLC_HAS_ACTIVE_PRESET_INDEX_VALUE
        "set_has (\<lambda>h. h\<lparr>active_preset_index := i\<rparr>) s"] one
    unfolding ga_lib_has_notify_active_preset_index_def by auto
  with assms(1) show ?thesis
    by (auto simp: lehs_has_set_active_preset_def get_preset_rec_table lehs_has_preset_records_def)
qed

definition next_preset :: "u8 \<Rightarrow> u8" where
  "next_preset i = (if i = 3 then 1 else i + 1)"

definition previous_preset :: "u8 \<Rightarrow> u8" where
  "previous_preset i = (if i = 0 \<or> i = 1 then 3 else i - 1)"

lemma set_next_preset_result:
  assumes "has_ok s" "room env cid \<noteq> 0"
  shows "\<exists>acts. lehs_has_set_next_preset env cid 1 s = Some (GATT_SUCCESS,
      emit_server acts (set_has (\<lambda>h. h\<lparr>active_preset_index := next_preset (active_preset_index (has_global s))\<rparr>) s))"
    "\<exists>acts. lehs_has_set_next_preset env cid (- 1) s = Some (GATT_SUCCESS,
      emit_server acts (set_has (\<lambda>h. h\<lparr>active_preset_index := previous_preset (active_preset_index (has_global s))\<rparr>) s))"
  using assms(1) set_active_preset_result [of _ env cid s, OF _ assms(2)]
  by (auto simp: has_ok_def lehs_has_set_next_preset_def get_preset_rec_table lehs_has_preset_records_def
      next_preset_def previous_preset_def)

lemma has_ok_walk:
  "has_ok s \<Longrightarrow> has_ok (emit_server acts (set_has (\<lambda>h. h\<lparr>active_preset_index := next_preset (active_preset_index (has_global s))\<rparr>) s))"
  "has_ok s \<Longrightarrow> has_ok (emit_server acts (set_has (\<lambda>h. h\<lparr>active_preset_index := previous_preset (active_preset_index (has_global s))\<rparr>) s))"
  by (auto simp: has_ok_def next_preset_def previous_preset_def)

lemma write_name_refused:
  "has_ok s \<Longrightarrow> lehs_has_handle_write_preset_name i data n s = Some (GA_LIB_HAS_ERROR_WRITE_NAME_NOT_ALLOWED, s)"
  by (simp add: lehs_has_handle_write_preset_name_def has_ok_def GA_LIB_HAS_WRITABLE_PRESETS_SUPPORTED_def)

section \<open>Properties\<close>

text \<open>C22: a write to the preset control point never leaves its bounds when the longest preset fits the bearer and the
  write brings three octets. The answer may be an error, and then nothing changes; the active preset stays one of the
  three or none, no procedure is left open, and the copy that reads are answered from is never updated.\<close>

theorem has_cp_write_safe:
  assumes "has_ok s" "22 \<le> uint (bearer_mtu env cid) - uint (gatt_hdr_size env)" "3 \<le> length data"
  shows "\<exists>r s'. has_cp_write env cid data (length data) s = Some (r, s') \<and> has_ok s' \<and> services s' = services s \<and>
    (r = GATT_SUCCESS \<or> s' = s)"
proof -
  have room: "22 \<le> room env cid" "room env cid \<noteq> 0" using assms(2) by (simp_all add: room_def)
  obtain a b c rest where data: "data = a # b # c # rest"
    using assms(3) by (auto simp: Suc_le_length_iff numeral_3_eq_3)
  have read: "\<exists>r s'. lehs_has_handle_read_preset_record env cid b c s = Some (r, s') \<and> has_ok s' \<and> services s' = services s \<and>
      (r = GATT_SUCCESS \<or> s' = s)"
  proof (cases "get_preset_rec b")
    case None
    with assms(1) show ?thesis by (simp add: lehs_has_handle_read_preset_record_def has_ok_def)
  next
    case (Some m)
    obtain acts where "notify_presets env cid (take (unat c) (drop m lehs_has_preset_records))
        (set_has (\<lambda>h. h\<lparr>procedure_in_progress := 1\<rparr>) s) = Some (emit_server acts (set_has (\<lambda>h. h\<lparr>procedure_in_progress := 1\<rparr>) s))"
      using notify_presets_fit [OF fits_22 [OF room(1)]] by blast
    with Some assms(1) show ?thesis by (auto simp: lehs_has_handle_read_preset_record_def has_ok_def)
  qed
  have set: "\<exists>r s'. lehs_has_set_active_preset env cid b s = Some (r, s') \<and> has_ok s' \<and> services s' = services s \<and>
      (r = GATT_SUCCESS \<or> s' = s)"
  proof (cases "b \<in> {1, 2, 3}")
    case True
    with set_active_preset_result [OF True room(2), of s] assms(1) show ?thesis by (auto simp: has_ok_def)
  next
    case False
    with assms(1) show ?thesis by (simp add: lehs_has_set_active_preset_def get_preset_rec_table)
  qed
  show ?thesis
    using read set set_next_preset_result [OF assms(1) room(2)] assms(1)
    by (auto simp: has_cp_write_def data start_def has_ok_walk write_name_refused)
qed

text \<open>Next and previous preset walk the three presets in a circle and undo each other; from no active preset they
  lead to the first and to the last. Both are answered with success whether or not the indication could be sent.\<close>

theorem next_previous_preset:
  assumes "has_ok s" "bearer_mtu env cid \<noteq> gatt_hdr_size env"
  shows "let i = active_preset_index (has_global s) in
    (\<exists>s'. lehs_has_set_next_preset env cid 1 s = Some (GATT_SUCCESS, s') \<and>
       active_preset_index (has_global s') = (if i = 3 then 1 else i + 1) \<and>
       (\<exists>s2. lehs_has_set_next_preset env cid (- 1) s' = Some (GATT_SUCCESS, s2) \<and>
          active_preset_index (has_global s2) = (if i = 0 then 3 else i))) \<and>
    (\<exists>s'. lehs_has_set_next_preset env cid (- 1) s = Some (GATT_SUCCESS, s') \<and>
       active_preset_index (has_global s') = (if i = 0 \<or> i = 1 then 3 else i - 1))"
proof -
  have room: "room env cid \<noteq> 0" using assms(2) by (simp add: room_def word_uint_eq_iff)
  obtain acts where acts: "lehs_has_set_next_preset env cid 1 s = Some (GATT_SUCCESS,
      emit_server acts (set_has (\<lambda>h. h\<lparr>active_preset_index := next_preset (active_preset_index (has_global s))\<rparr>) s))"
    (is "_ = Some (_, ?next)") using set_next_preset_result(1) [OF assms(1) room] by blast
  have ok: "has_ok ?next" using assms(1) by (auto simp: has_ok_def next_preset_def)
  have "active_preset_index (has_global s) \<in> {0, 1, 2, 3}" using assms(1) by (simp add: has_ok_def)
  with acts set_next_preset_result(2) [OF ok room] set_next_preset_result(2) [OF assms(1) room] show ?thesis
    by (auto simp: next_preset_def previous_preset_def Let_def)
qed

text \<open>Reading presets is undefined exactly when one of those asked for does not fit: its five octets and name are
  written whatever the size of the buffer, which the bearer limits. With the default MTU of 23 the third preset does
  not fit.\<close>

theorem preset_record_overflow:
  assumes "has_ok s" "\<forall>n. get_buffer env n" "gatt_hdr_size env < bearer_mtu env cid" "i \<in> {1, 2, 3}"
  shows "lehs_has_handle_read_preset_record env cid i n s = None \<longleftrightarrow>
    (\<exists>r\<in>set (take (unat n) (drop (unat i - 1) lehs_has_preset_records)).
       uint (bearer_mtu env cid) - uint (gatt_hdr_size env) < 5 + int (length (preset_name r)))"
proof -
  let ?rs = "take (unat n) (drop (unat i - 1) lehs_has_preset_records)"
  let ?s = "set_has (\<lambda>h. h\<lparr>procedure_in_progress := 1\<rparr>) s"
  have rec: "get_preset_rec i = Some (unat i - 1)" using assms(4) by (auto simp: get_preset_rec_table)
  have "0 \<le> room env cid" using assms(3) by (simp add: room_def word_less_def)
  then have "list_all (record_fits env cid) ?rs \<longleftrightarrow> \<not> (\<exists>r\<in>set ?rs.
       uint (bearer_mtu env cid) - uint (gatt_hdr_size env) < 5 + int (length (preset_name r)))"
    by (auto simp: list_all_iff record_fits_def room_def)
  moreover have "notify_presets env cid ?rs ?s = None \<longleftrightarrow> \<not> list_all (record_fits env cid) ?rs"
    using notify_presets_fit [of env cid ?rs ?s] notify_presets_overflow [OF assms(2), of cid ?rs ?s] by auto
  ultimately show ?thesis
    using assms(1) rec by (auto simp: lehs_has_handle_read_preset_record_def has_ok_def bind_eq_None_conv)
qed

section \<open>Examples\<close>

text \<open>The bearer of the examples carries 64 octets, then the default 23.\<close>

definition example_has :: server_state where
  "example_has = (example_unset [])\<lparr>has_global := lehs_has_data_initial\<rparr>"

lemma example_has_ok: "has_ok example_has"
  by (simp add: has_ok_def example_has_def lehs_has_data_initial_def GA_LIB_HAS_FEATURES_def)

theorem has_cp_write_safe_witness:
  "\<exists>r s'. has_cp_write example_env 1 [1, 1, 3] (length [1, 1, 3 :: u8]) example_has = Some (r, s') \<and> has_ok s'"
proof -
  have "22 \<le> uint (bearer_mtu example_env 1) - uint (gatt_hdr_size example_env)" by (simp add: example_env_def)
  from has_cp_write_safe [OF example_has_ok this, of "[1, 1, 3]"] show ?thesis by (simp only: list.size) auto
qed

theorem next_previous_preset_witness:
  "\<exists>s'. lehs_has_set_next_preset example_env 1 1 example_has = Some (GATT_SUCCESS, s') \<and> active_preset_index (has_global s') = 1"
  using next_previous_preset [OF example_has_ok, of example_env 1]
  by (auto simp: example_env_def example_has_def lehs_has_data_initial_def Let_def)

theorem preset_record_overflow_witness:
  "lehs_has_handle_read_preset_record (example_env\<lparr>bearer_mtu := \<lambda>_. 23\<rparr>) 1 3 1 example_has = None"
  using preset_record_overflow [OF example_has_ok, of "example_env\<lparr>bearer_mtu := \<lambda>_. 23\<rparr>" 1 3 1]
  by (simp add: example_env_def lehs_has_preset_records_def)

end
