(* ===== verification/Csis.thy ===== *)
theory Csis
  imports Services
begin

text \<open>
  Coordinated sets: the lock and the set data of \<open>lehs_csis.c\<close>, the notifications of \<open>ga_lib_csis.c\<close>, and the
  encrypted identity key and the resolvable set identifier of \<open>ga_lib_csis_psri.c\<close>. The AES primitives are the SDK's.
\<close>

section \<open>The SDK\<close>

text \<open>
  \<open>aes_cmac key m\<close> is \<open>AES_CMAC\<close> and \<open>aes_encrypt key m\<close> the pair of \<open>smp_aes_set_key\<close> and \<open>smp_aes_encrypt\<close>, all
  on 16 octet keys and with 16 octet results; \<open>lltk\<close> finds the long term key in the key data of a bond, and
  \<open>advert_type_psri\<close> is the advertising type of an identifier.
\<close>

record csis_env =
  aes_cmac :: "u8 list \<Rightarrow> u8 list \<Rightarrow> u8 list"
  aes_encrypt :: "u8 list \<Rightarrow> u8 list \<Rightarrow> u8 list"
  lltk :: "u8 list \<Rightarrow> u8 list"
  advert_type_psri :: u8
  nvram_id_start :: u16

section \<open>Set data and lock\<close>

abbreviation (input) GA_LIB_CSIS_UNLOCKED :: u8 where "GA_LIB_CSIS_UNLOCKED \<equiv> 1"
abbreviation (input) GA_LIB_CSIS_LOCKED :: u8 where "GA_LIB_CSIS_LOCKED \<equiv> 2"
abbreviation (input) GA_LIB_CSIS_SIRK_ENCR :: u8 where "GA_LIB_CSIS_SIRK_ENCR \<equiv> 0"
abbreviation (input) GA_LIB_CSIS_SIRK_PLAIN :: u8 where "GA_LIB_CSIS_SIRK_PLAIN \<equiv> 1"
abbreviation (input) GA_LIB_CSIS_ERROR_LOCK_DENIED :: gatt_status where "GA_LIB_CSIS_ERROR_LOCK_DENIED \<equiv> GATT_APPLICATION 0x80"
abbreviation (input) GA_LIB_CSIS_ERROR_LOCK_RELEASE_NOT_ALLOWED :: gatt_status where
  "GA_LIB_CSIS_ERROR_LOCK_RELEASE_NOT_ALLOWED \<equiv> GATT_APPLICATION 0x81"
abbreviation (input) GA_LIB_CSIS_ERROR_INVALID_LOCK_VALUE :: gatt_status where
  "GA_LIB_CSIS_ERROR_INVALID_LOCK_VALUE \<equiv> GATT_APPLICATION 0x82"
abbreviation (input) GA_LIB_CSIS_ERROR_OOB_SIRK_ONLY :: gatt_status where
  "GA_LIB_CSIS_ERROR_OOB_SIRK_ONLY \<equiv> GATT_APPLICATION 0x83"
abbreviation (input) GA_LIB_CSIS_ERROR_LOCK_ALREADY_GRANTED :: gatt_status where
  "GA_LIB_CSIS_ERROR_LOCK_ALREADY_GRANTED \<equiv> GATT_APPLICATION 0x84"
abbreviation (input) LOCK_TIMER_TIMEOUT :: nat where "LOCK_TIMER_TIMEOUT \<equiv> 30"

abbreviation the_csis :: "server_state \<Rightarrow> lehs_csis_data" where
  "the_csis s \<equiv> local_csis (services s)"

definition set_csis :: "(lehs_csis_data \<Rightarrow> lehs_csis_data) \<Rightarrow> server_state \<Rightarrow> server_state" where
  "set_csis f = upd_services (\<lambda>l. l\<lparr>local_csis := f (local_csis l)\<rparr>)"

definition lehs_csis_set_size :: "u8 \<Rightarrow> server_state \<Rightarrow> server_state" where
  "lehs_csis_set_size n = set_csis (\<lambda>c. c\<lparr>csis_size := n\<rparr>)"

definition lehs_csis_set_rank :: "u8 \<Rightarrow> server_state \<Rightarrow> server_state" where
  "lehs_csis_set_rank rank = set_csis (\<lambda>c. c\<lparr>csis_rank := rank\<rparr>)"

definition lehs_csis_set_sirk :: "ga_lib_csis_sirk_data \<Rightarrow> server_state \<Rightarrow> server_state" where
  "lehs_csis_set_sirk p_sirk = set_csis (\<lambda>c. c\<lparr>sirk_data := p_sirk\<rparr>)"

definition lehs_csis_get_sirk :: "server_state \<Rightarrow> ga_lib_csis_sirk_data" where
  "lehs_csis_get_sirk s = sirk_data (the_csis s)"

definition ga_lib_csis_notify_sirk ::
  "gatt_env \<Rightarrow> u16 \<Rightarrow> u16 \<Rightarrow> ga_lib_csis_sirk_data \<Rightarrow> server_state \<Rightarrow> gatt_status \<times> server_state" where
  "ga_lib_csis_notify_sirk env cid handle p_sirk = server_notify env cid handle (sirk_type p_sirk # rev (sirk p_sirk))"

definition ga_lib_csis_notify_sirk_size :: "gatt_env \<Rightarrow> u16 \<Rightarrow> u16 \<Rightarrow> u8 \<Rightarrow> server_state \<Rightarrow> gatt_status \<times> server_state" where
  "ga_lib_csis_notify_sirk_size env cid handle v = server_notify env cid handle [v]"

definition ga_lib_csis_notify_lock :: "gatt_env \<Rightarrow> u16 \<Rightarrow> u16 \<Rightarrow> u8 \<Rightarrow> server_state \<Rightarrow> gatt_status \<times> server_state" where
  "ga_lib_csis_notify_lock env cid handle v = server_notify env cid handle [v]"

definition csis_lock_timer_timeout :: "gatt_env \<Rightarrow> server_state \<Rightarrow> server_state" where
  "csis_lock_timer_timeout env s =
     (let s = set_csis (\<lambda>c. c\<lparr>csis_lock := GA_LIB_CSIS_UNLOCKED, lock_timer_on := False\<rparr>) s
      in if conn_id_of_lock_owner (the_csis s) \<noteq> 0
         then snd (ga_lib_csis_notify_lock env (conn_id_of_lock_owner (the_csis s)) HDLC_CSIS_LOCK_VALUE (csis_lock (the_csis s)) s)
         else s)"

text \<open>The timer is initialised, not started; the handle and the time are ignored.\<close>

definition lehs_csis_set_lock_timeout :: "u16 \<Rightarrow> u8 \<Rightarrow> server_state \<Rightarrow> server_state" where
  "lehs_csis_set_lock_timeout handle timeout_in_sec = set_csis (\<lambda>c. c\<lparr>lock_timer_on := False\<rparr>)"

definition lehs_csis_initialize_data :: "u8 \<Rightarrow> u8 \<Rightarrow> u8 \<Rightarrow> u8 list \<Rightarrow> server_state \<Rightarrow> server_state" where
  "lehs_csis_initialize_data set_size member_rank type key s =
     lehs_csis_set_lock_timeout HDLC_CSIS_LOCK_VALUE 30
       (set_csis (\<lambda>c. c\<lparr>csis_lock := GA_LIB_CSIS_UNLOCKED, csis_size := set_size, csis_rank := member_rank,
          sirk_data := \<lparr>sirk = key, sirk_type = type, is_oob = False\<rparr>\<rparr>) s)"

definition notify_lock_others :: "gatt_env \<Rightarrow> u16 \<Rightarrow> u8 \<Rightarrow> server_state \<Rightarrow> server_state" where
  "notify_lock_others env cid lock_val s =
     fold (\<lambda>b s. if in_use b \<and> conn_id b \<noteq> cid
                 then snd (ga_lib_csis_notify_lock env (conn_id b) HDLC_CSIS_LOCK_VALUE lock_val s) else s)
       (server_clcbs s) s"

text \<open>\<open>p_csis->lock\<close> is compared but never set here.\<close>

definition lehs_csis_handle_write_req_evt ::
  "gatt_env \<Rightarrow> u16 \<Rightarrow> u8 list \<Rightarrow> server_state \<Rightarrow> (gatt_status \<times> server_state) option" where
  "lehs_csis_handle_write_req_evt env cid data s = do {
     (lock_val, _) \<leftarrow> rd8 (start data);
     let c = the_csis s;
     let owner = (conn_id_of_lock_owner c = cid);
     Some (
       if lock_val > GA_LIB_CSIS_LOCKED then (GA_LIB_CSIS_ERROR_INVALID_LOCK_VALUE, s)
       else if lock_val = GA_LIB_CSIS_LOCKED \<and> csis_lock c = GA_LIB_CSIS_LOCKED
       then (if owner then GA_LIB_CSIS_ERROR_LOCK_ALREADY_GRANTED else GA_LIB_CSIS_ERROR_LOCK_DENIED, s)
       else if lock_val = GA_LIB_CSIS_UNLOCKED \<and> csis_lock c = GA_LIB_CSIS_UNLOCKED then (GATT_SUCCESS, s)
       else if lock_val = GA_LIB_CSIS_UNLOCKED \<and> csis_lock c = GA_LIB_CSIS_LOCKED \<and> \<not> owner
       then (GA_LIB_CSIS_ERROR_LOCK_RELEASE_NOT_ALLOWED, s)
       else
         let s = (if lock_val = GA_LIB_CSIS_UNLOCKED \<and> csis_lock c = GA_LIB_CSIS_LOCKED
                  then set_csis (\<lambda>c. c\<lparr>lock_timer_on := False\<rparr>) s else s);
             s = (if lock_val = GA_LIB_CSIS_LOCKED
                  then emit_server [START_LOCK_TIMER LOCK_TIMER_TIMEOUT]
                         (set_csis (\<lambda>c. c\<lparr>conn_id_of_lock_owner := cid, lock_timer_on := True\<rparr>) s)
                  else s)
         in (GATT_SUCCESS, notify_lock_others env cid lock_val s)) }"

section \<open>The security functions\<close>

definition AES_CMAC_BE :: "csis_env \<Rightarrow> u8 list \<Rightarrow> u8 list \<Rightarrow> u8 list" where
  "AES_CMAC_BE env key input = rev (aes_cmac env (rev key) (rev input))"

definition ga_lib_csis_s1 :: "csis_env \<Rightarrow> u8 list \<Rightarrow> u8 list" where
  "ga_lib_csis_s1 env m = AES_CMAC_BE env (replicate 16 0) m"

text \<open>The first 16 octets of \<open>n\<close> are reversed; a short salt is filled up with zeroes.\<close>

definition ga_lib_csis_k1 :: "csis_env \<Rightarrow> u8 list \<Rightarrow> nat \<Rightarrow> u8 list \<Rightarrow> nat \<Rightarrow> u8 list \<Rightarrow> nat \<Rightarrow> u8 list" where
  "ga_lib_csis_k1 env n n_len salt salt_len p p_len =
     (let salt = (if salt_len < 16 then take salt_len salt @ replicate (16 - salt_len) 0 else take 16 salt);
          ltk_rev = rev (take 16 n);
          t = AES_CMAC_BE env salt (take n_len ltk_rev)
      in AES_CMAC_BE env t (take p_len p))"

text \<open>The key \<open>k1\<close> puts into the result is changed in place; the strings are ``SIRKenc'' and ``csis''.\<close>

definition ga_lib_csis_sirk_encryption_func :: "csis_env \<Rightarrow> u8 list \<Rightarrow> u8 list \<Rightarrow> u8 list" where
  "ga_lib_csis_sirk_encryption_func env sirk_plain_text keys =
     (let s = ga_lib_csis_s1 env [83, 73, 82, 75, 101, 110, 99];
          encr = ga_lib_csis_k1 env (lltk env keys) 16 s 16 [99, 115, 105, 115, 0] 4
      in map2 (XOR) encr sirk_plain_text)"

text \<open>\<open>stack\<close> is what the array of six octets holds that ``csis'' is copied into without its end.\<close>

definition ga_lib_csis_sirk_decryption_func :: "csis_env \<Rightarrow> u8 list \<Rightarrow> u8 list \<Rightarrow> u8 list \<Rightarrow> u8 list" where
  "ga_lib_csis_sirk_decryption_func env stack sirk_enc keys =
     (let s = ga_lib_csis_s1 env [83, 73, 82, 75, 101, 110, 99];
          p = [99, 115, 105, 115] @ drop 4 stack;
          plain = ga_lib_csis_k1 env (lltk env keys) 16 s 16 p 4
      in map2 (XOR) plain sirk_enc)"

definition lehs_encrypt_sirk :: "csis_env \<Rightarrow> u8 list \<Rightarrow> server_state \<Rightarrow> u8 list" where
  "lehs_encrypt_sirk env bda s =
     (let keys = snd (lehs_nvram_read_keys (nvram_id_start env) (zero_link_keys\<lparr>bd_addr := bda\<rparr>) (server_nvram s))
      in ga_lib_csis_sirk_encryption_func env (sirk (sirk_data (the_csis s))) (key_data keys))"

section \<open>The resolvable set identifier\<close>

text \<open>The three results of \<open>rand()\<close> are arguments.\<close>

definition ga_lib_csis_get_rand :: "nat \<Rightarrow> u8" where
  "ga_lib_csis_get_rand r = of_nat (r mod 0xFF)"

definition ga_lib_csis_generate_prand :: "nat \<Rightarrow> nat \<Rightarrow> nat \<Rightarrow> u8 list" where
  "ga_lib_csis_generate_prand r0 r1 r2 =
     [(ga_lib_csis_get_rand r0 OR 0x40) AND NOT 0x80, ga_lib_csis_get_rand r1 OR 1, ga_lib_csis_get_rand r2 AND NOT 1]"

definition ga_lib_csis_calc_hash :: "csis_env \<Rightarrow> u8 list \<Rightarrow> u8 list \<Rightarrow> u8 list" where
  "ga_lib_csis_calc_hash env k r = take 3 (drop 13 (aes_encrypt env (take 16 k) (replicate 13 0 @ take 3 r)))"

definition ga_lib_csis_generate_psri :: "csis_env \<Rightarrow> nat \<Rightarrow> nat \<Rightarrow> nat \<Rightarrow> u8 list \<Rightarrow> u8 list" where
  "ga_lib_csis_generate_psri env r0 r1 r2 key =
     (let prand = ga_lib_csis_generate_prand r0 r1 r2
      in rev (ga_lib_csis_calc_hash env key prand) @ rev prand)"

text \<open>
  The search through the advertising data. The position may pass the end before anything is read; the length left is
  a \<open>uint16_t\<close>, and an element of length 0 moves the position on by one octet only.
\<close>

definition rd_psri :: "u8 list \<Rightarrow> nat \<Rightarrow> (u8 list \<times> u8 list) option" where
  "rd_psri data pos = (if pos + 6 \<le> length data then Some (rev (take 3 (drop pos data)), rev (take 3 (drop (pos + 3) data))) else None)"

function psri_loop :: "csis_env \<Rightarrow> u8 list \<Rightarrow> u8 list \<Rightarrow> nat \<Rightarrow> u16 \<Rightarrow> bool option" where
  "psri_loop env key data pos len =
     (if \<not> len > 2 then Some False
      else if length data \<le> pos + 1 then None
      else
        let curr_len = data ! pos
        in if data ! (pos + 1) = advert_type_psri env
           then map_option (\<lambda>(h, r). ga_lib_csis_calc_hash env key r = h) (rd_psri data (pos + 2))
           else psri_loop env key data (pos + 1 + unat curr_len) (len - (ucast curr_len + 1)))"
  by pat_completeness auto
termination
  by (relation "measure (\<lambda>(env, key, data, pos, len). length data - pos)") auto

definition ga_lib_csis_check_if_belongs_to_coordinated_set :: "csis_env \<Rightarrow> bool \<Rightarrow> u16 \<Rightarrow> u8 list \<Rightarrow> u8 list \<Rightarrow> bool option" where
  "ga_lib_csis_check_if_belongs_to_coordinated_set env p_adv_report adv_len p_adv_data key =
     (if \<not> p_adv_report then Some False else psri_loop env key p_adv_data 0 adv_len)"

section \<open>The lock\<close>

datatype lock_event = LOCK_WRITE u16 "u8 list" | LOCK_TIMEOUT

fun lock_events :: "gatt_env \<Rightarrow> lock_event list \<Rightarrow> server_state \<Rightarrow> server_state option" where
  "lock_events env [] s = Some s"
| "lock_events env (LOCK_WRITE cid data # es) s = do {
     (_, s) \<leftarrow> lehs_csis_handle_write_req_evt env cid data s;
     lock_events env es s }"
| "lock_events env (LOCK_TIMEOUT # es) s = lock_events env es (csis_lock_timer_timeout env s)"

lemma set_csis_simps [simp]:
  "the_csis (set_csis f s) = f (the_csis s)" "server_clcbs (set_csis f s) = server_clcbs s"
  "server_nvram (set_csis f s) = server_nvram s" "actions (set_csis f s) = actions s"
  by (simp_all add: set_csis_def)

lemma lock_notifications:
  "\<exists>acts. fold (\<lambda>b s. if in_use b \<and> conn_id b \<noteq> cid
      then snd (ga_lib_csis_notify_lock env (conn_id b) HDLC_CSIS_LOCK_VALUE v s) else s) cs s = emit_server acts s"
proof (induction cs arbitrary: s)
  case Nil
  then show ?case by (metis emit_nil fold_simps(1))
next
  case (Cons b cs)
  obtain acts where "(if in_use b \<and> conn_id b \<noteq> cid
      then snd (ga_lib_csis_notify_lock env (conn_id b) HDLC_CSIS_LOCK_VALUE v s) else s) = emit_server acts s"
    by (cases "in_use b \<and> conn_id b \<noteq> cid") (auto simp: ga_lib_csis_notify_lock_def server_notify_state intro: that [of "[]"])
  with Cons.IH [of "emit_server acts s"] show ?case by auto
qed

lemma notify_lock_others_simps [simp]:
  "the_csis (notify_lock_others env cid v s) = the_csis s"
  using lock_notifications [of cid env v "server_clcbs s" s] by (auto simp: notify_lock_others_def)

lemma lock_write_result:
  assumes "csis_lock (the_csis s) = GA_LIB_CSIS_UNLOCKED" "lehs_csis_handle_write_req_evt env cid data s = Some (r, s')"
  shows "csis_lock (the_csis s') = GA_LIB_CSIS_UNLOCKED \<and> sirk_data (the_csis s') = sirk_data (the_csis s)"
  using assms by (auto simp: lehs_csis_handle_write_req_evt_def bind_eq_Some_conv Let_def split: if_splits)

lemma lock_events_unlocked:
  "lock_events env es s = Some s' \<Longrightarrow> csis_lock (the_csis s) = GA_LIB_CSIS_UNLOCKED \<Longrightarrow> csis_lock (the_csis s') = GA_LIB_CSIS_UNLOCKED"
proof (induction env es s rule: lock_events.induct)
  case (2 env cid data es s)
  then show ?case using lock_write_result by (auto simp: bind_eq_Some_conv)
next
  case (3 env es s)
  have "csis_lock (the_csis (csis_lock_timer_timeout env s)) = GA_LIB_CSIS_UNLOCKED"
    by (simp add: csis_lock_timer_timeout_def ga_lib_csis_notify_lock_def server_notify_state Let_def)
  with 3 show ?case by simp
qed simp

section \<open>Properties\<close>

text \<open>The lock excludes nobody. Once the set data is initialised, whatever clients write and whenever the timer
  ends, the lock reads as unlocked; every request for it is granted, also while another client owns it, and a release
  by the owner changes nothing.\<close>

theorem csis_lock_never_held:
  assumes "lock_events env es (lehs_csis_initialize_data n m type key s) = Some s'"
  shows "csis_lock (the_csis s') = GA_LIB_CSIS_UNLOCKED \<and>
    (\<exists>s2. lehs_csis_handle_write_req_evt env cid [GA_LIB_CSIS_LOCKED] s' = Some (GATT_SUCCESS, s2) \<and>
       conn_id_of_lock_owner (the_csis s2) = cid \<and> csis_lock (the_csis s2) = GA_LIB_CSIS_UNLOCKED) \<and>
    lehs_csis_handle_write_req_evt env cid [GA_LIB_CSIS_UNLOCKED] s' = Some (GATT_SUCCESS, s')"
proof -
  have u: "csis_lock (the_csis s') = GA_LIB_CSIS_UNLOCKED"
    by (rule lock_events_unlocked [OF assms]) (simp add: lehs_csis_initialize_data_def lehs_csis_set_lock_timeout_def)
  with u show ?thesis by (simp add: lehs_csis_handle_write_req_evt_def start_def Let_def)
qed

lemma xor_mask_twice:
  "length ms = length (xs :: u8 list) \<Longrightarrow> map2 (XOR) ms (map2 (XOR) ms xs) = xs"
  by (induction ms xs rule: list_induct2) (simp_all add: xor.assoc [symmetric])

text \<open>
  The function \<open>sef\<close> of the profile, written with the cipher-based code on numbers with the most significant octet first:
  \<open>k1(K, s1("SIRKenc"), "csis")\<close>, where \<open>K\<close> is the long term key, which the stack keeps with the least significant octet first.
\<close>

definition profile_sef_key :: "(u8 list \<Rightarrow> u8 list \<Rightarrow> u8 list) \<Rightarrow> u8 list \<Rightarrow> u8 list" where
  "profile_sef_key cmac ltk =
     (let salt = cmac (replicate 16 0) (map of_char ''SIRKenc'') in cmac (cmac salt (rev ltk)) (map of_char ''csis''))"

lemma encryption_octets: "(map of_char ''SIRKenc'' :: u8 list) = [83, 73, 82, 75, 101, 110, 99]" "(map of_char ''csis'' :: u8 list) = [99, 115, 105, 115]"
  by simp_all

text \<open>C23: A client whose connection is bonded is given the identity key combined with the key the profile derives from the long term key
  of that bond, octet by octet, and the decryption, with whatever was in its memory before, gets the identity key back from it.\<close>

theorem sirk_roundtrip:
  assumes "\<forall>k m. length (aes_cmac env k m) = 16" "\<forall>k. length (lltk env k) = 16" "length (sirk (sirk_data (the_csis s))) = 16"
    "lehs_nvram_get_paired_device_key_info (server_nvram s) bda = Some i" "keys = key_data (link_keys (server_nvram s ! i))"
  shows "lehs_encrypt_sirk env bda s =
      map2 (XOR) (profile_sef_key (\<lambda>k m. rev (aes_cmac env (rev k) (rev m))) (lltk env keys)) (sirk (sirk_data (the_csis s))) \<and>
    ga_lib_csis_sirk_decryption_func env stack (lehs_encrypt_sirk env bda s) keys = sirk (sirk_data (the_csis s))"
proof -
  let ?k = "profile_sef_key (\<lambda>k m. rev (aes_cmac env (rev k) (rev m))) (lltk env keys)" and ?sirk = "sirk (sirk_data (the_csis s))"
  have derived: "ga_lib_csis_k1 env (lltk env keys) 16 (ga_lib_csis_s1 env [83, 73, 82, 75, 101, 110, 99]) 16 ([99, 115, 105, 115] @ more) 4 = ?k" for more
    using assms(1,2)
    by (simp add: ga_lib_csis_k1_def ga_lib_csis_s1_def AES_CMAC_BE_def profile_sef_key_def Let_def encryption_octets)
  have "ga_lib_csis_sirk_encryption_func env ?sirk keys = map2 (XOR) ?k ?sirk"
    using derived [of "[0]"] by (simp add: ga_lib_csis_sirk_encryption_func_def Let_def)
  then have e: "lehs_encrypt_sirk env bda s = map2 (XOR) ?k ?sirk"
    using assms(4,5) by (simp add: lehs_encrypt_sirk_def lehs_nvram_read_keys_def Let_def)
  have "ga_lib_csis_sirk_decryption_func env stack x keys = map2 (XOR) ?k x" for x
    using derived [of "drop 4 stack"] by (simp add: ga_lib_csis_sirk_decryption_func_def Let_def)
  moreover have "length ?k = length ?sirk" using assms(1,3) by (simp add: profile_sef_key_def Let_def)
  ultimately show ?thesis by (simp add: e xor_mask_twice)
qed

text \<open>The elements of advertising data: a length, a type and the octets of the value.\<close>

fun ad_elements :: "(u8 \<times> u8 list) list \<Rightarrow> u8 list" where
  "ad_elements [] = []"
| "ad_elements ((t, v) # es) = of_nat (Suc (length v)) # t # v @ ad_elements es"

definition ad_ok :: "csis_env \<Rightarrow> u8 \<times> u8 list \<Rightarrow> bool" where
  "ad_ok env e = (fst e \<noteq> advert_type_psri env \<and> length (snd e) < 255)"

lemma calc_hash_length: "(\<And>k m. length (aes_encrypt env k m) = 16) \<Longrightarrow> length (ga_lib_csis_calc_hash env k r) = 3"
  by (simp add: ga_lib_csis_calc_hash_def)

lemma prand_length: "length (ga_lib_csis_generate_prand r0 r1 r2) = 3"
  by (simp add: ga_lib_csis_generate_prand_def)

declare psri_loop.simps [simp del]

lemma psri_loop_found:
  assumes "list_all (ad_ok env) es" "length h = 3" "length r = 3"
    "length (ad_elements es) + 8 \<le> unat len"
  shows "psri_loop env key (pre @ ad_elements es @ 7 # advert_type_psri env # rev h @ rev r @ post) (length pre) len =
    Some (ga_lib_csis_calc_hash env key r = h)"
  using assms(1,4)
proof (induction es arbitrary: pre len)
  case Nil
  then have "len > 2" by (simp add: word_less_nat_alt)
  with assms(2,3) show ?case by (subst psri_loop.simps) (simp add: rd_psri_def nth_append del: psri_loop.simps)
next
  case (Cons e es)
  obtain t v where e: "e = (t, v)" by force
  have v: "length v < 255" "t \<noteq> advert_type_psri env" using Cons.prems(1) by (simp_all add: ad_ok_def e)
  let ?c = "of_nat (Suc (length v)) :: u8"
  have c: "unat ?c = Suc (length v)" using v(1) by (intro unat_of_nat_u8) simp
  have len: "length v + 10 + length (ad_elements es) \<le> unat len" using Cons.prems(2) by (simp add: e)
  have c16: "unat (ucast ?c + 1 :: u16) = length v + 2"
  proof -
    have "unat (ucast ?c :: u16) = Suc (length v)" using c v(1) by (simp add: unsigned_ucast_eq take_bit_nat_eq_self)
    then show ?thesis using v(1) by (subst unat_plus_if') simp
  qed
  have "unat (len - (ucast ?c + 1)) = unat len - (length v + 2)"
    using len c16 by (subst unat_sub) (simp_all add: word_le_nat_alt)
  then have rest: "length (ad_elements es) + 8 \<le> unat (len - (ucast ?c + 1))" using len by simp
  have "len > 2" using len by (simp add: word_less_nat_alt)
  moreover have "psri_loop env key ((pre @ ?c # t # v) @ ad_elements es @ 7 # advert_type_psri env # rev h @ rev r @ post)
      (length (pre @ ?c # t # v)) (len - (ucast ?c + 1)) = Some (ga_lib_csis_calc_hash env key r = h)"
    using Cons.prems(1) by (intro Cons.IH [OF _ rest]) simp
  ultimately show ?case
    using v c by (subst psri_loop.simps) (simp add: e nth_append Let_def add.commute [of _ "length pre"] del: psri_loop.simps)
qed

text \<open>A device finds the identifier that a member of its set generated, wherever it stands among the elements
  of the advertising data; for another identity key it finds it only when the two hashes of the random part agree.\<close>

theorem psri_recognised:
  assumes "\<forall>k m. length (aes_encrypt env k m) = 16" "list_all (ad_ok env) es" "length (ad_elements es) < 60000"
  shows "let psri = ga_lib_csis_generate_psri env r0 r1 r2 key; prand = ga_lib_csis_generate_prand r0 r1 r2;
             adv = ad_elements es @ 7 # advert_type_psri env # psri
         in ga_lib_csis_check_if_belongs_to_coordinated_set env True (of_nat (length adv)) adv key' =
            Some (ga_lib_csis_calc_hash env key' prand = ga_lib_csis_calc_hash env key prand)"
proof -
  let ?prand = "ga_lib_csis_generate_prand r0 r1 r2"
  let ?adv = "ad_elements es @ 7 # advert_type_psri env # ga_lib_csis_generate_psri env r0 r1 r2 key"
  have l: "length (ga_lib_csis_calc_hash env key ?prand) = 3" "length ?prand = 3"
    using calc_hash_length assms(1) prand_length by simp_all
  then have "length ?adv = length (ad_elements es) + 8" by (simp add: ga_lib_csis_generate_psri_def Let_def)
  moreover from this have "unat (of_nat (length ?adv) :: u16) = length ?adv"
    using assms(3) by (intro unat_of_nat_u16) simp
  ultimately show ?thesis
    using psri_loop_found [OF assms(2) l, of "of_nat (length ?adv)" key' "[]" "[]"]
    by (simp add: ga_lib_csis_check_if_belongs_to_coordinated_set_def ga_lib_csis_generate_psri_def Let_def
        add.commute [of "8 :: u16"])
qed

section \<open>Examples\<close>

definition example_csis :: csis_env where
  "example_csis = \<lparr>aes_cmac = (\<lambda>k m. replicate 16 (foldr (XOR) (k @ m) 0)),
     aes_encrypt = (\<lambda>k m. replicate 16 (foldr (XOR) (k @ m) 0)), lltk = (\<lambda>k. take 16 (k @ replicate 16 0)), advert_type_psri = 0x2E, nvram_id_start = 1\<rparr>"

theorem csis_lock_never_held_witness:
  "\<exists>s'. lock_events example_env [LOCK_WRITE 1 [2], LOCK_TIMEOUT]
      (lehs_csis_initialize_data 1 1 1 (replicate 16 7) (example_unset [])) = Some s' \<and> csis_lock (the_csis s') = GA_LIB_CSIS_UNLOCKED"
proof -
  obtain s' where s': "lock_events example_env [LOCK_WRITE 1 [2], LOCK_TIMEOUT]
      (lehs_csis_initialize_data 1 1 1 (replicate 16 7) (example_unset [])) = Some s'"
    by (simp add: lehs_csis_handle_write_req_evt_def start_def lehs_csis_initialize_data_def lehs_csis_set_lock_timeout_def Let_def)
  with csis_lock_never_held [OF s'] show ?thesis by blast
qed

text \<open>A set with a bond.\<close>

definition example_set :: server_state where
  "example_set = (lehs_csis_initialize_data 1 1 0 (replicate 16 7) (example_unset []))
     \<lparr>server_nvram := [zero_paired_device_key\<lparr>link_keys := \<lparr>bd_addr = [1, 2, 3, 4, 5, 6], conn_addr = [1, 2, 3, 4, 5, 6], key_data = replicate 16 3\<rparr>\<rparr>]\<rparr>"

theorem sirk_roundtrip_witness:
  "ga_lib_csis_sirk_decryption_func example_csis [1, 2, 3, 4, 5, 6] (lehs_encrypt_sirk example_csis [1, 2, 3, 4, 5, 6] example_set) (replicate 16 3) =
     replicate 16 7"
proof -
  have found: "lehs_nvram_get_paired_device_key_info (server_nvram example_set) [1, 2, 3, 4, 5, 6] = Some 0"
    by (simp add: example_set_def lehs_nvram_get_paired_device_key_info_def is_bd_addr_zero_def null_addr_def numeral_eq_Suc)
  have bond: "replicate 16 3 = key_data (link_keys (server_nvram example_set ! 0))" and plain: "sirk (sirk_data (the_csis example_set)) = replicate 16 7"
    by (simp_all add: example_set_def lehs_csis_initialize_data_def lehs_csis_set_lock_timeout_def set_csis_def)
  have "\<forall>k m. length (aes_cmac example_csis k m) = 16" "\<forall>k. length (lltk example_csis k) = 16" "length (sirk (sirk_data (the_csis example_set))) = 16"
    by (simp_all add: example_csis_def min_def plain)
  from sirk_roundtrip [OF this found bond] show ?thesis unfolding plain by blast
qed

theorem psri_recognised_witness:
  "let psri = ga_lib_csis_generate_psri example_csis 1 2 3 (replicate 16 7); prand = ga_lib_csis_generate_prand 1 2 3;
       adv = ad_elements [(1, [6])] @ 7 # advert_type_psri example_csis # psri
   in ga_lib_csis_check_if_belongs_to_coordinated_set example_csis True (of_nat (length adv)) adv (replicate 16 7) = Some True"
  using psri_recognised [of example_csis "[(1, [6])]" 1 2 3 "replicate 16 7" "replicate 16 7"]
  by (simp add: example_csis_def ad_ok_def Let_def)

end
