(* ===== verification/Broadcast.thy ===== *)
theory Broadcast
  imports Services
begin

text \<open>
  The broadcast sink and the scan delegator: \<open>lehs_bis.c\<close>, \<open>lehs_bass.c\<close> and the streams of a BIG of
  \<open>lehs_offload.c\<close>. A pointer to a control block is its index; reading or writing behind the array is \<open>None\<close>.
  \<open>NULL\<close> pointers that the code tests are options.
\<close>

section \<open>Access\<close>

definition upd_big :: "nat \<Rightarrow> (lehs_broadcast_sink_cb \<Rightarrow> lehs_broadcast_sink_cb) \<Rightarrow> server_state \<Rightarrow> server_state" where
  "upd_big i f s = s\<lparr>broadcast_sink_cb := (broadcast_sink_cb s)[i := f (broadcast_sink_cb s ! i)]\<rparr>"

definition bass_data :: "server_state \<Rightarrow> lehs_bass_data list" where
  "bass_data s = local_bass (services s)"

definition upd_bass :: "nat \<Rightarrow> (lehs_bass_data \<Rightarrow> lehs_bass_data) \<Rightarrow> server_state \<Rightarrow> server_state" where
  "upd_bass i f = upd_services (\<lambda>v. v\<lparr>local_bass := (local_bass v)[i := f (local_bass v ! i)]\<rparr>)"

definition emit_bis :: "bis_action list \<Rightarrow> server_state \<Rightarrow> server_state" where
  "emit_bis acts = emit_server (map BROADCAST acts)"

definition emit_path :: "audio_action list \<Rightarrow> server_state \<Rightarrow> server_state" where
  "emit_path acts = emit_server (map (\<lambda>x. STREAM (AUDIO x)) acts)"

definition lehs_broadcast_set_sync_progress :: "bool \<Rightarrow> server_state \<Rightarrow> server_state" where
  "lehs_broadcast_set_sync_progress progress s = s\<lparr>periodic_sync_in_progress := progress\<rparr>"

definition lehs_broadcast_get_sync_progress :: "server_state \<Rightarrow> bool" where
  "lehs_broadcast_get_sync_progress s = periodic_sync_in_progress s"

definition lehs_bis_get_big_by_handle :: "u8 \<Rightarrow> server_state \<Rightarrow> nat option" where
  "lehs_bis_get_big_by_handle h s = find_index (\<lambda>b. big_in_use b \<and> h = big_handle b) (broadcast_sink_cb s)"

definition lehs_bis_get_big_by_broadcast_id :: "u32 \<Rightarrow> server_state \<Rightarrow> nat option" where
  "lehs_bis_get_big_by_broadcast_id br_id s = find_index (\<lambda>b. big_in_use b \<and> br_id = base_broadcast_id (base b)) (broadcast_sink_cb s)"

definition lehs_bis_get_big_by_sync_handle :: "u16 \<Rightarrow> server_state \<Rightarrow> nat option" where
  "lehs_bis_get_big_by_sync_handle h s = find_index (\<lambda>b. big_in_use b \<and> h = sync_handle b) (broadcast_sink_cb s)"

section \<open>Streams of a BIG\<close>

text \<open>The location of a stream: its own, or that of the subgroup.\<close>

fun stream_location :: "u8 \<Rightarrow> nat \<Rightarrow> nat \<Rightarrow> le_audio_bap_broadcast_sub_group \<Rightarrow> u32 option" where
  "stream_location index i 0 g = Some (audio_channel_allocation (sg_csc g))"
| "stream_location index i (Suc n) g = do {
     b \<leftarrow> arr_get (bis_config g) i;
     if bis_idx b = index \<and> audio_channel_allocation (bis_csc b) \<noteq> 0 then Some (audio_channel_allocation (bis_csc b))
     else stream_location index (Suc i) n g }"

definition first_group :: "lehs_broadcast_sink_cb \<Rightarrow> le_audio_bap_broadcast_sub_group" where
  "first_group big = sub_group (base big) ! 0"

definition get_stream_audio_location :: "u8 \<Rightarrow> lehs_broadcast_sink_cb \<Rightarrow> u32 option" where
  "get_stream_audio_location index big = stream_location index 0 (unat (bis_cnt (first_group big))) (first_group big)"

text \<open>
  The loop overwrites the location of the subgroup with that of the stream, which is what a later stream without one
  of its own then takes. The status is undefined when there is no stream.
\<close>

definition set_first_location :: "u32 \<Rightarrow> lehs_broadcast_sink_cb \<Rightarrow> lehs_broadcast_sink_cb" where
  "set_first_location aca big = big\<lparr>base := upd_group 0 (\<lambda>g. g\<lparr>sg_csc := (sg_csc g)\<lparr>audio_channel_allocation := aca\<rparr>\<rparr>) (base big)\<rparr>"

fun setup_bis_loop :: "audio_env \<Rightarrow> nat \<Rightarrow> nat \<Rightarrow> nat \<Rightarrow> wiced_result option \<Rightarrow> server_state
    \<Rightarrow> (wiced_result option \<times> server_state) option" where
  "setup_bis_loop env b i 0 ret s = Some (ret, s)"
| "setup_bis_loop env b i (Suc n) ret s =
     (let big = broadcast_sink_cb s ! b
      in case lehs_isoc_dhm_get_csc (sg_csc (first_group big)) of (res, csc) \<Rightarrow>
         if res \<noteq> WICED_SUCCESS then Some (Some res, s)
         else do {
           index \<leftarrow> arr_get (bis_index_list big) i;
           aca \<leftarrow> get_stream_audio_location index big;
           let s = upd_big b (set_first_location aca) s;
           if aca \<noteq> 0 \<and> count_bits aca > 2 then Some (Some WICED_UNSUPPORTED, s)
           else do {
             hdl \<leftarrow> arr_get (bis_conn_id_list big) i;
             let path = data_path_of_location DPD_OUTPUT aca;
             let setup = SETUP_DATA_PATH hdl DPD_OUTPUT (fst path) csc;
             let s = emit_path (snd path @ [setup]) s;
             if setup_result env setup \<noteq> WICED_SUCCESS then Some (Some WICED_ERROR, s)
             else setup_bis_loop env b (Suc i) n (Some WICED_SUCCESS) s } })"

definition lehs_isoc_dhm_setup_bis_stream ::
  "audio_env \<Rightarrow> nat \<Rightarrow> u8 \<Rightarrow> server_state \<Rightarrow> (wiced_result option \<times> server_state) option" where
  "lehs_isoc_dhm_setup_bis_stream env b bis_count s =
     (let csc = sg_csc (first_group (broadcast_sink_cb s ! b));
          (au, a1) = lehs_isoc_dhm_reinit WICED_AUDIO_SINK_ROLE (server_audio s);
          (sid, a2) = audio_driver_config_frequency env (sampling_frequency_hz csc) 0 A2DP_PLAYBACK au;
          s = emit_path (a1 @ a2 @ [SET_SINK_MONO2STEREO (audio_channel_allocation csc)]) (s\<lparr>server_audio := au\<lparr>stream_id := sid\<rparr>\<rparr>)
      in setup_bis_loop env b 0 (unat bis_count) None s)"

definition free_bis_stream :: "nat \<Rightarrow> server_state \<Rightarrow> server_state option" where
  "free_bis_stream b s =
     (let big = broadcast_sink_cb s ! b
      in map_option (\<lambda>acts. emit_path acts s)
           (lehs_isoc_dhm_free_bis_stream (server_audio s) (bis_conn_id_list big) (bis_conn_id_count big)))"

section \<open>Control blocks\<close>

definition lehs_bis_alloc_big :: "u32 \<Rightarrow> u8 list \<Rightarrow> u8 \<Rightarrow> server_state \<Rightarrow> nat option \<times> server_state" where
  "lehs_bis_alloc_big br_id bda sid s =
     (case lehs_bis_get_big_by_broadcast_id br_id s of
        Some b \<Rightarrow> (Some b, s)
      | None \<Rightarrow>
          (case find_index (\<lambda>b. \<not> big_in_use b) (broadcast_sink_cb s) of
             None \<Rightarrow> (None, s)
           | Some b \<Rightarrow> (Some b, upd_big b (\<lambda>g. g\<lparr>big_in_use := True, adv_handle := sid, big_handle := sid, big_bd_addr := bda,
               sync_handle := 0xFF, base := (base g)\<lparr>base_broadcast_id := br_id, base_state := BAP_BROADCAST_STATE_IDLE\<rparr>,
               b_encryption := False\<rparr>) s)))"

definition lehs_bis_free_big :: "nat \<Rightarrow> server_state \<Rightarrow> server_state" where
  "lehs_bis_free_big b = upd_big b (\<lambda>_. zero_big)"

section \<open>Scanning and synchronisation\<close>

text \<open>
  One synchronisation at a time: a request while another one runs is queued. Without a request the next one of the
  queue is taken; scanning stops when there is none.
\<close>

definition start_periodic_sync :: "ext_scan_results \<Rightarrow> server_state \<Rightarrow> server_state" where
  "start_periodic_sync r s = lehs_broadcast_set_sync_progress True
     (emit_bis [PADV_ADD_DEVICE (scan_addr_type r) (scan_bda r) (scan_adv_sid r),
        PADV_CREATE_SYNC (scan_adv_sid r) (scan_addr_type r) (scan_bda r) (of_nat (unat (periodic_adv_interval r) * 3 div 4))] s)"

definition broadcast_sink_create_periodic_sync :: "bis_env \<Rightarrow> ext_scan_results option \<Rightarrow> server_state \<Rightarrow> server_state" where
  "broadcast_sink_create_periodic_sync env p_ext_adv_report s =
     (case p_ext_adv_report of
        Some r \<Rightarrow>
          if lehs_broadcast_get_sync_progress s
          then if scan_buffer env then s\<lparr>pending_scan_q := pending_scan_q s @ [r]\<rparr> else s
          else start_periodic_sync r s
      | None \<Rightarrow>
          (case pending_scan_q s of
             [] \<Rightarrow> emit_bis [EXT_SCAN_ENABLE False] (lehs_broadcast_set_sync_progress False s)
           | r # q \<Rightarrow> start_periodic_sync r (s\<lparr>pending_scan_q := q\<rparr>)))"

text \<open>``UNKNOWN SOURCE''; a name is a C string, its octets end before the first 0.\<close>

definition unknown_source :: "u8 list" where
  "unknown_source = [0x55, 0x4E, 0x4B, 0x4E, 0x4F, 0x57, 0x4E, 0x20, 0x53, 0x4F, 0x55, 0x52, 0x43, 0x45]"

definition lehs_rpc_send_new_stream_info :: "u32 \<Rightarrow> u8 list option \<Rightarrow> server_state \<Rightarrow> server_state option" where
  "lehs_rpc_send_new_stream_info br_id broadcast_name s =
     (let name = (case broadcast_name of None \<Rightarrow> unknown_source | Some xs \<Rightarrow> takeWhile (\<lambda>x. x \<noteq> 0) xs);
          data = b32 br_id @ of_nat (length name) # take (length name mod 256) name
      in if broadcast_name \<noteq> None \<and> 0 \<notin> set (the broadcast_name) \<or> length data > 37 then None
         else Some (emit_bis [RPC_STREAM_INFO data] s))"

definition broadcast_sink_bis_ext_adv_scan_cback ::
  "bis_env \<Rightarrow> le_audio_rcv_public_broadcast \<Rightarrow> ext_scan_results option \<Rightarrow> u16 \<Rightarrow> u8 list \<Rightarrow> server_state \<Rightarrow> server_state option" where
  "broadcast_sink_bis_ext_adv_scan_cback env junk p_scan_result adv_len adv_data s =
     (case p_scan_result of
        None \<Rightarrow> Some s
      | Some r \<Rightarrow>
          if periodic_adv_interval r = 0 \<or> drop_bit 5 (scan_evt_type r) \<noteq> 0 then Some s
          else do {
            (found, br_id) \<leftarrow> le_audio_bap_broadcast_is_broadcast_announcement (bis_adv env) adv_len adv_data 0;
            if \<not> found then Some s
            else do {
              (_, rcv) \<leftarrow> le_audio_pbp_is_public_broadcast (bis_adv env) adv_len adv_data junk;
              lehs_rpc_send_new_stream_info br_id (Some (rcv_broadcast_name rcv)) s } })"

definition sync_to_found :: "bis_env \<Rightarrow> u32 \<Rightarrow> ext_scan_results \<Rightarrow> server_state \<Rightarrow> server_state" where
  "sync_to_found env br_id r s =
     (case lehs_bis_alloc_big br_id (scan_bda r) (scan_adv_sid r) s of
        (None, s) \<Rightarrow> s
      | (Some b, s) \<Rightarrow>
          let big = broadcast_sink_cb s ! b
          in if sync_handle big = 0xFF \<and> \<not> big_sync_in_progress big
             then emit_bis [EXT_SCAN_REGISTER_CB NO_SCAN_CBACK]
                    (broadcast_sink_create_periodic_sync env (Some r) (upd_big b (\<lambda>g. g\<lparr>pa_sync_in_progress := True\<rparr>) s))
             else s)"

definition broadcast_sink_bis_ext_adv_scan_to_sync_cback ::
  "bis_env \<Rightarrow> le_audio_rcv_public_broadcast \<Rightarrow> ext_scan_results option \<Rightarrow> u16 \<Rightarrow> u8 list \<Rightarrow> server_state \<Rightarrow> server_state option" where
  "broadcast_sink_bis_ext_adv_scan_to_sync_cback env junk p_scan_result adv_len adv_data s =
     (case p_scan_result of
        None \<Rightarrow> Some s
      | Some r \<Rightarrow>
          if periodic_adv_interval r = 0 then Some s
          else do {
            (found, br_id) \<leftarrow> le_audio_bap_broadcast_is_broadcast_announcement (bis_adv env) adv_len adv_data 0;
            if \<not> found then Some s
            else do {
              _ \<leftarrow> le_audio_pbp_is_public_broadcast (bis_adv env) adv_len adv_data junk;
              Some (if br_id \<noteq> src_broadcast_id (source_cb s) then s else sync_to_found env br_id r s) } })"

text \<open>A shift by a negative number or by 31 and more is not defined for \<open>int\<close>.\<close>

definition bis_selected :: "u32 \<Rightarrow> u8 \<Rightarrow> bool option" where
  "bis_selected bits index = (if 1 \<le> index \<and> index \<le> 31 then Some (bit bits (unat index - 1)) else None)"

fun select_bises :: "u32 \<Rightarrow> le_audio_bap_broadcast_sub_group \<Rightarrow> nat \<Rightarrow> nat \<Rightarrow> nat \<Rightarrow> u8 list \<Rightarrow> (nat \<times> u8 list) option" where
  "select_bises bits g i 0 index list = Some (index, list)"
| "select_bises bits g i (Suc n) index list = do {
     b \<leftarrow> arr_get (bis_config g) i;
     hit \<leftarrow> bis_selected bits (bis_idx b);
     if hit then do {
       list \<leftarrow> arr_set list index (bis_idx b);
       select_bises bits g (Suc i) n (Suc index) list }
     else select_bises bits g (Suc i) n index list }"

definition lehs_sync_to_source :: "nat option \<Rightarrow> u32 \<Rightarrow> server_state \<Rightarrow> server_state option" where
  "lehs_sync_to_source p_big bits s =
     (case p_big of
        None \<Rightarrow> Some s
      | Some b \<Rightarrow> do {
          let big = broadcast_sink_cb s ! b;
          (num_bis, list) \<leftarrow> select_bises bits (first_group big) 0 (unat (bis_cnt (first_group big))) 0 (bis_index_list big);
          Some (upd_big b (\<lambda>g. g\<lparr>bis_index_list := list, base := (base g)\<lparr>base_state := BAP_BROADCAST_STATE_STREAMING\<rparr>,
                             big_sync_in_progress := True\<rparr>)
            (emit_bis [BIG_CREATE_SYNC (big_handle big) (sync_handle big) (number_of_subevents big) (uint (iso_interval big) * 10)
               (take num_bis list) (if b_encryption big then Some (sink_broadcast_code big) else None)] s)) })"

definition start_scan :: "scan_cback \<Rightarrow> bis_action list" where
  "start_scan cb = [EXT_SCAN_REGISTER_CB cb, EXT_SCAN_CONFIGURE_REASSEMBLY 255 5, EXT_SCAN_SET_PARAMS_ACTIVE, EXT_SCAN_ENABLE True]"

definition lehs_bis_discover_sources :: "bool \<Rightarrow> server_state \<Rightarrow> server_state" where
  "lehs_bis_discover_sources begin_scan = emit_bis (if begin_scan then start_scan SCAN_CBACK else [EXT_SCAN_ENABLE False])"

definition lehs_sync_to_pa :: "u32 \<Rightarrow> server_state \<Rightarrow> server_state" where
  "lehs_sync_to_pa br_id s =
     (let s = s\<lparr>source_cb := (source_cb s)\<lparr>src_broadcast_id := br_id\<rparr>\<rparr>
      in case lehs_bis_get_big_by_broadcast_id br_id s of
           Some b \<Rightarrow> if b_base_updated (broadcast_sink_cb s ! b) then s
                     else emit_bis (EXT_SCAN_ENABLE False # start_scan SCAN_TO_SYNC_CBACK) s
         | None \<Rightarrow> emit_bis (EXT_SCAN_ENABLE False # start_scan SCAN_TO_SYNC_CBACK) s)"

definition take_source_code :: "nat \<Rightarrow> server_state \<Rightarrow> server_state" where
  "take_source_code b s =
     (if b_encryption (broadcast_sink_cb s ! b)
      then upd_big b (\<lambda>g. g\<lparr>sink_broadcast_code := src_broadcast_code (source_cb s)\<rparr>) s else s)"

definition lehs_bis_sync_to_source :: "broadcast_source \<Rightarrow> server_state \<Rightarrow> server_state option" where
  "lehs_bis_sync_to_source source s =
     (let s = s\<lparr>source_cb := source\<rparr>
      in case lehs_bis_get_big_by_broadcast_id (src_broadcast_id source) s of
           None \<Rightarrow> Some (lehs_sync_to_pa (src_broadcast_id source) s)
         | Some b \<Rightarrow>
             if \<not> b_biginfo_updated (broadcast_sink_cb s ! b) \<or> \<not> b_base_updated (broadcast_sink_cb s ! b) then Some s
             else do {
               s \<leftarrow> lehs_sync_to_source (Some b) (src_bis_index_bits source) (take_source_code b s);
               Some (s\<lparr>source_cb := zero_source\<rparr>) })"

definition lehs_bis_terminate_sync :: "bis_env \<Rightarrow> u32 \<Rightarrow> server_state \<Rightarrow> server_state option" where
  "lehs_bis_terminate_sync env br_id s =
     (case lehs_bis_get_big_by_broadcast_id br_id s of
        None \<Rightarrow> Some s
      | Some b \<Rightarrow> do {
          let big = broadcast_sink_cb s ! b;
          s \<leftarrow> free_bis_stream b s;
          let s = (if sync_state big = BROADCAST_BIG_SYNC_ESTABLISHED env \<or> big_sync_in_progress big
                   then emit_bis [BIG_TERMINATE_SYNC (big_handle big)] s else s);
          let s = (if sync_state big = BROADCAST_PA_SYNC_ESTABLISHED env
                   then lehs_bis_free_big b (emit_bis [PADV_TERMINATE_SYNC (sync_handle big)] s) else s);
          let s = (if lehs_broadcast_get_sync_progress s then lehs_bis_free_big b (emit_bis [PADV_CANCEL_SYNC] s) else s);
          Some (s\<lparr>source_cb := zero_source\<rparr>) })"

text \<open>The loop runs while the pointer is not \<open>NULL\<close>, which it never becomes: it leaves the array.\<close>

fun clear_blocks :: "bis_env \<Rightarrow> nat \<Rightarrow> nat \<Rightarrow> server_state \<Rightarrow> server_state option" where
  "clear_blocks env i 0 s = None"
| "clear_blocks env i (Suc n) s = do {
     let big = broadcast_sink_cb s ! i;
     s \<leftarrow> (if big_in_use big
           then do {
             s \<leftarrow> (if sync_state big = BROADCAST_BIG_SYNC_ESTABLISHED env \<or> big_sync_in_progress big
                   then free_bis_stream i (emit_bis [BIG_TERMINATE_SYNC (big_handle big)] s) else Some s);
             let s = (if sync_state big = BROADCAST_PA_SYNC_ESTABLISHED env then emit_bis [PADV_TERMINATE_SYNC (sync_handle big)] s else s);
             Some (if lehs_broadcast_get_sync_progress s then emit_bis [PADV_CANCEL_SYNC] s else s) }
           else Some s);
     clear_blocks env (Suc i) n (lehs_bis_free_big i s) }"

definition broadcast_sink_clear_data :: "bis_env \<Rightarrow> server_state \<Rightarrow> server_state option" where
  "broadcast_sink_clear_data env s =
     map_option (lehs_broadcast_set_sync_progress False) (clear_blocks env 0 (length (broadcast_sink_cb s)) s)"

section \<open>Receive states\<close>

abbreviation (input) HDLC_BASS_BROADCAST_RECEIVE_STATE_1_VALUE :: u16 where "HDLC_BASS_BROADCAST_RECEIVE_STATE_1_VALUE \<equiv> 388"

definition lehs_bass_find_source_by_bda :: "u32 \<Rightarrow> u8 list \<Rightarrow> server_state \<Rightarrow> nat option" where
  "lehs_bass_find_source_by_bda br_id bda s =
     find_index (\<lambda>d. is_used d \<and> source_bda (recv_state d) = bda \<and> br_id = recv_broadcast_id (recv_state d)) (bass_data s)"

text \<open>The streams of the subgroups are not taken over; they stay those of the entry.\<close>

fun copy_metadata :: "ga_lib_bass_sub_group_data list \<Rightarrow> ga_lib_bass_sub_group_data list \<Rightarrow> nat \<Rightarrow> ga_lib_bass_sub_group_data list" where
  "copy_metadata (g # gs) (d # ds) (Suc n) = d\<lparr>bass_meta_data := bass_meta_data g\<rparr> # copy_metadata gs ds n"
| "copy_metadata _ ds _ = ds"

definition lehs_fill_char_data :: "ga_lib_bass_add_source \<Rightarrow> lehs_bass_data \<Rightarrow> lehs_bass_data" where
  "lehs_fill_char_data a d =
     d\<lparr>recv_state := (recv_state d)\<lparr>adv_sid := add_adv_sid a, has_sub_group_data := True, recv_broadcast_id := add_broadcast_id a,
         source_addr_type := add_addr_type a, source_bda := add_bda a, num_subgroup := src_num_subgroup (add_src_data a)\<rparr>,
       bass_sub_group := copy_metadata (src_sub_groups (add_src_data a)) (bass_sub_group d)
         (min (unat (src_num_subgroup (add_src_data a))) GA_LIB_BASS_MAX_SUBGROUP_COUNT)\<rparr>"

definition first_streams :: "ga_lib_bass_common_source_data \<Rightarrow> u32" where
  "first_streams src = bis_sync_state (src_sub_groups src ! 0)"

definition lehs_allocate_source :: "ga_lib_bass_add_source \<Rightarrow> u16 \<Rightarrow> server_state \<Rightarrow> nat option \<times> server_state" where
  "lehs_allocate_source a cid s =
     (case find_index (\<lambda>d. \<not> is_used d) (bass_data s) of
        None \<Rightarrow> (None, s)
      | Some i \<Rightarrow> (Some i, upd_bass i (\<lambda>d. lehs_fill_char_data a (d\<lparr>is_used := True, bass_conn_id := cid,
          recv_state := (recv_state d)\<lparr>source_id := of_nat i\<rparr>, bis_index_bits := first_streams (add_src_data a)\<rparr>)) s))"

definition lehs_find_source :: "u8 \<Rightarrow> server_state \<Rightarrow> nat option" where
  "lehs_find_source sid s = find_index (\<lambda>d. is_used d \<and> source_id (recv_state d) = sid) (bass_data s)"

definition ga_lib_bass_notify_recv_state ::
  "bis_env \<Rightarrow> u16 \<Rightarrow> u16 \<Rightarrow> ga_lib_bass_receive_state \<Rightarrow> ga_lib_bass_sub_group_data list \<Rightarrow> server_state \<Rightarrow> server_state option" where
  "ga_lib_bass_notify_recv_state env cid h r gs s = do {
     data \<leftarrow> ga_lib_bass_build_receive_state_char_data (addr_octets env) r gs 256;
     if length data > 256 then None else Some (snd (server_notify (bis_gatt env) cid h data s)) }"

definition lehs_notify_recv_state_char :: "bis_env \<Rightarrow> nat \<Rightarrow> server_state \<Rightarrow> server_state option" where
  "lehs_notify_recv_state_char env i s =
     (let d = bass_data s ! i
      in ga_lib_bass_notify_recv_state env (bass_conn_id d) HDLC_BASS_BROADCAST_RECEIVE_STATE_1_VALUE
           ((recv_state d)\<lparr>has_sub_group_data := True\<rparr>) (bass_sub_group d) s)"

definition upd_recv_state :: "nat \<Rightarrow> (ga_lib_bass_receive_state \<Rightarrow> ga_lib_bass_receive_state) \<Rightarrow> server_state \<Rightarrow> server_state" where
  "upd_recv_state i f = upd_bass i (\<lambda>d. d\<lparr>recv_state := f (recv_state d)\<rparr>)"

definition set_pa_sync_state :: "nat \<Rightarrow> u8 \<Rightarrow> server_state \<Rightarrow> server_state" where
  "set_pa_sync_state i st = upd_recv_state i (\<lambda>r. r\<lparr>pa_sync_state := st\<rparr>)"

definition get_pa_sync_state :: "nat \<Rightarrow> server_state \<Rightarrow> u8" where
  "get_pa_sync_state i s = pa_sync_state (recv_state (bass_data s ! i))"

definition set_big_encryption_state :: "nat \<Rightarrow> u8 \<Rightarrow> server_state \<Rightarrow> server_state" where
  "set_big_encryption_state i st = upd_recv_state i (\<lambda>r. r\<lparr>big_encryption_state := st\<rparr>)"

text \<open>\<open>sub_group_data\<close> of the receive state is followed: \<open>NULL\<close> is \<open>None\<close>.\<close>

definition set_bis_sync_state :: "nat \<Rightarrow> u32 \<Rightarrow> server_state \<Rightarrow> server_state option" where
  "set_bis_sync_state i st s =
     (if has_sub_group_data (recv_state (bass_data s ! i))
      then Some (upd_bass i (\<lambda>d. d\<lparr>bass_sub_group := (bass_sub_group d)[0 := (bass_sub_group d ! 0)\<lparr>bis_sync_state := st\<rparr>]\<rparr>) s)
      else None)"

definition get_bis_sync_state :: "nat \<Rightarrow> server_state \<Rightarrow> u32 option" where
  "get_bis_sync_state i s =
     (if has_sub_group_data (recv_state (bass_data s ! i)) then Some (bis_sync_state (bass_sub_group (bass_data s ! i) ! 0)) else None)"

section \<open>Synchronisation for a receive state\<close>

definition lehs_bass_synchronize_to_pa :: "bis_env \<Rightarrow> u8 \<Rightarrow> nat \<Rightarrow> server_state \<Rightarrow> server_state" where
  "lehs_bass_synchronize_to_pa env param i s =
     (let r = recv_state (bass_data s ! i);
          s = snd (lehs_bis_alloc_big (recv_broadcast_id r) (source_bda r) (adv_sid r) s)
      in if param = GA_LIB_BASS_PA_SYNC_USING_PAST
         then set_pa_sync_state i GA_LIB_BASS_PA_SYNC_INFO_REQUEST
                (emit_bis [PADV_SET_SYNC_TRANSFER_PARAMS (device_address env (bass_conn_id (bass_data s ! i)))] s)
         else if param = GA_LIB_BASS_PA_SYNC_NO_PAST then lehs_sync_to_pa (recv_broadcast_id r) s
         else s)"

text \<open>Without a preference every stream with a location of the headset adds its index, not the bit of its index.\<close>

fun fitting_bises :: "u32 \<Rightarrow> le_audio_bap_broadcast_sub_group \<Rightarrow> nat \<Rightarrow> nat \<Rightarrow> u32 \<Rightarrow> u32 option" where
  "fitting_bises location g i 0 bits = Some bits"
| "fitting_bises location g i (Suc n) bits = do {
     b \<leftarrow> arr_get (bis_config g) i;
     fitting_bises location g (Suc i) n
       (if audio_channel_allocation (bis_csc b) AND location \<noteq> 0 then bits OR ucast (bis_idx b) else bits) }"

definition lehs_bass_synchronize_to_source :: "nat \<Rightarrow> server_state \<Rightarrow> server_state option" where
  "lehs_bass_synchronize_to_source i s =
     (case lehs_bis_get_big_by_broadcast_id (recv_broadcast_id (recv_state (bass_data s ! i))) s of
        None \<Rightarrow> Some s
      | Some b \<Rightarrow> do {
          let g = first_group (broadcast_sink_cb s ! b);
          bits \<leftarrow> (if bis_index_bits (bass_data s ! i) = 0xFFFFFFFF
                   then fitting_bises (snk_audio_location (pacs_app_data s)) g 0 (unat (bis_cnt g)) 0
                   else Some (bis_index_bits (bass_data s ! i)));
          lehs_sync_to_source (Some b) bits (upd_bass i (\<lambda>d. d\<lparr>bis_index_bits := bits\<rparr>) s) })"

text \<open>The pointer to the BIG is not \<open>NULL\<close>, but may be behind the array.\<close>

definition lehs_bass_notify_big_sync_state :: "bis_env \<Rightarrow> nat \<Rightarrow> server_state \<Rightarrow> server_state option" where
  "lehs_bass_notify_big_sync_state env b s = do {
     big \<leftarrow> arr_get (broadcast_sink_cb s) b;
     case lehs_bass_find_source_by_bda (base_broadcast_id (base big)) (big_bd_addr big) s of
       None \<Rightarrow> Some s
     | Some i \<Rightarrow> do {
         s \<leftarrow> (if sync_state big = BROADCAST_BIG_SYNC_ESTABLISHED env
               then map_option (set_pa_sync_state i GA_LIB_BASS_PA_NOT_SYNC) (set_bis_sync_state i (bis_index_bits (bass_data s ! i)) s)
               else set_bis_sync_state i 0 s);
         lehs_notify_recv_state_char env i (set_big_encryption_state i 0 s) } }"

definition lehs_bass_notify_pa_sync_state :: "bis_env \<Rightarrow> nat \<Rightarrow> u8 \<Rightarrow> server_state \<Rightarrow> server_state option" where
  "lehs_bass_notify_pa_sync_state env b st s = do {
     big \<leftarrow> arr_get (broadcast_sink_cb s) b;
     case lehs_bass_find_source_by_bda (base_broadcast_id (base big)) (big_bd_addr big) s of
       None \<Rightarrow> Some s
     | Some i \<Rightarrow> lehs_notify_recv_state_char env i (set_pa_sync_state i st s) }"

definition lehs_bass_process_big_adv_report_and_sync :: "bis_env \<Rightarrow> nat \<Rightarrow> biginfo_report \<Rightarrow> server_state \<Rightarrow> server_state option" where
  "lehs_bass_process_big_adv_report_and_sync env b rpt s =
     (let big = broadcast_sink_cb s ! b
      in case lehs_bass_find_source_by_bda (base_broadcast_id (base big)) (big_bd_addr big) s of
           None \<Rightarrow> Some s
         | Some i \<Rightarrow>
             if biginfo_encryption rpt
             then if waiting_broadcast_code (bass_data s ! i) then Some s
                  else lehs_notify_recv_state_char env i
                         (set_big_encryption_state i GA_LIB_BASS_BIG_BROADCAST_CODE_REQUIRED
                           (upd_bass i (\<lambda>d. d\<lparr>waiting_broadcast_code := True\<rparr>) s))
             else lehs_bass_synchronize_to_source i s)"

definition lehs_bass_handle_pa_sync_transfer_param_evt :: "bis_env \<Rightarrow> u16 \<Rightarrow> server_state \<Rightarrow> server_state option" where
  "lehs_bass_handle_pa_sync_transfer_param_evt env conn_handle s =
     (case lehs_gatt_get_clcb_by_conn_handle (bis_acl_conn_handle env) (server_clcbs s) conn_handle of
        None \<Rightarrow> Some s
      | Some c \<Rightarrow>
          (case find_index (\<lambda>d. is_used d \<and> bass_conn_id d = conn_id (server_clcbs s ! c) \<and>
                  pa_sync_state (recv_state d) = GA_LIB_BASS_PA_SYNC_INFO_REQUEST) (bass_data s) of
             None \<Rightarrow> Some s
           | Some i \<Rightarrow> lehs_notify_recv_state_char env i s))"

definition lehs_bass_handle_periodic_sync_transfer_evt :: "bis_env \<Rightarrow> padv_sync_established \<Rightarrow> server_state \<Rightarrow> server_state option" where
  "lehs_bass_handle_periodic_sync_transfer_evt env e s =
     (case find_index (\<lambda>d. is_used d \<and> pa_sync_state (recv_state d) = GA_LIB_BASS_PA_SYNC_INFO_REQUEST \<and>
             adv_sid (recv_state d) = pa_adv_sid e) (bass_data s) of
        None \<Rightarrow> Some s
      | Some i \<Rightarrow>
          let h = (if pa_status e = 0 then pa_sync_handle e else 0xFF);
              s = (case lehs_bis_get_big_by_broadcast_id (recv_broadcast_id (recv_state (bass_data s ! i))) s of
                     None \<Rightarrow> s | Some b \<Rightarrow> upd_big b (\<lambda>g. g\<lparr>sync_handle := h\<rparr>) s);
              s = upd_bass i (\<lambda>d. d\<lparr>bass_sync_handle := h\<rparr>) s
          in lehs_notify_recv_state_char env i
               (set_pa_sync_state i (if pa_status e = 0 then GA_LIB_BASS_PA_SYNC else GA_LIB_BASS_PA_FAILED_SYNC) s))"

definition lehs_bass_handle_acl_disconnection :: "u16 \<Rightarrow> server_state \<Rightarrow> server_state" where
  "lehs_bass_handle_acl_disconnection cid =
     upd_services (\<lambda>v. v\<lparr>local_bass := map (\<lambda>d. if is_used d \<and> bass_conn_id d = cid then zero_bass_data else d) (local_bass v)\<rparr>)"

section \<open>The control point\<close>

definition lehs_handle_modify_source :: "bis_env \<Rightarrow> nat \<Rightarrow> ga_lib_bass_modify_source \<Rightarrow> server_state \<Rightarrow> server_state option" where
  "lehs_handle_modify_source env i m s = do {
     let pa = get_pa_sync_state i s;
     bis \<leftarrow> get_bis_sync_state i s;
     let param = pa_sync_param (modify_src_data m);
     let req = first_streams (modify_src_data m);
     if bis = 0 \<and> param \<noteq> GA_LIB_BASS_PA_NO_SYNC \<and> pa = GA_LIB_BASS_PA_NOT_SYNC
     then Some ((if req \<noteq> 0 then upd_bass i (\<lambda>d. d\<lparr>bis_index_bits := req\<rparr>) else id) (lehs_bass_synchronize_to_pa env param i s))
     else do {
       s \<leftarrow> (if param = GA_LIB_BASS_PA_NO_SYNC \<and> pa = GA_LIB_BASS_PA_SYNC
             then lehs_notify_recv_state_char env i (set_pa_sync_state i GA_LIB_BASS_PA_NOT_SYNC
                    (emit_bis [PADV_TERMINATE_SYNC (bass_sync_handle (bass_data s ! i))] s))
             else Some s);
       if bis = req then lehs_notify_recv_state_char env i s
       else do {
         s \<leftarrow> (if bis \<noteq> 0 \<and> req = 0xFFFFFFFF then lehs_notify_recv_state_char env i s else Some s);
         if bis \<noteq> 0 then lehs_bis_terminate_sync env (recv_broadcast_id (recv_state (bass_data s ! i))) s
         else if req \<noteq> 0 \<and> pa = GA_LIB_BASS_PA_SYNC
         then lehs_bass_synchronize_to_source i (upd_bass i (\<lambda>d. d\<lparr>bis_index_bits := req\<rparr>) s)
         else Some s } } }"

definition bass_add_source :: "bis_env \<Rightarrow> u16 \<Rightarrow> ga_lib_bass_add_source \<Rightarrow> server_state \<Rightarrow> server_state option" where
  "bass_add_source env cid a s =
     (case lehs_allocate_source a cid s of (p_bass, s) \<Rightarrow> do {
        s \<leftarrow> lehs_rpc_send_new_stream_info (add_broadcast_id a) None s;
        case p_bass of
          None \<Rightarrow> Some s
        | Some i \<Rightarrow> do {
            s \<leftarrow> lehs_notify_recv_state_char env i (set_big_encryption_state i GA_LIB_BASS_BIG_NOT_ENCRYPTED s);
            Some (lehs_bass_synchronize_to_pa env (pa_sync_param (add_src_data a)) i s) } })"

definition bass_remove_source :: "bis_env \<Rightarrow> nat \<Rightarrow> server_state \<Rightarrow> (gatt_status \<times> server_state) option" where
  "bass_remove_source env i s = do {
     bis \<leftarrow> (if get_pa_sync_state i s = GA_LIB_BASS_PA_SYNC then Some 0 else get_bis_sync_state i s);
     if get_pa_sync_state i s = GA_LIB_BASS_PA_SYNC \<or> bis \<noteq> 0 then Some (GATT_RESULT WICED_UNSUPPORTED, s)
     else do {
       let s = (case lehs_bis_get_big_by_broadcast_id (recv_broadcast_id (recv_state (bass_data s ! i))) s of
                  None \<Rightarrow> s | Some b \<Rightarrow> upd_big b (\<lambda>_. zero_big) s);
       s \<leftarrow> lehs_notify_recv_state_char env i (upd_recv_state i (\<lambda>_. zero_recv_state) s);
       Some (GATT_SUCCESS, upd_bass i (\<lambda>_. zero_bass_data) s) } }"

definition bass_set_broadcast_code :: "bis_env \<Rightarrow> nat \<Rightarrow> u8 list \<Rightarrow> server_state \<Rightarrow> server_state option" where
  "bass_set_broadcast_code env i code s = do {
     s \<leftarrow> lehs_notify_recv_state_char env i (set_big_encryption_state i GA_LIB_BASS_BIG_DECRPTING
            (upd_bass i (\<lambda>d. d\<lparr>waiting_broadcast_code := False, recv_state := (recv_state d)\<lparr>recv_broadcast_code := code\<rparr>\<rparr>) s));
     case lehs_bis_get_big_by_broadcast_id (recv_broadcast_id (recv_state (bass_data s ! i))) s of
       None \<Rightarrow> Some s
     | Some b \<Rightarrow> lehs_bass_synchronize_to_source i (upd_big b (\<lambda>g. g\<lparr>sink_broadcast_code := code\<rparr>) s) }"

definition bass_operation :: "bis_env \<Rightarrow> u16 \<Rightarrow> ga_lib_bass_operation \<Rightarrow> server_state \<Rightarrow> (gatt_status \<times> server_state) option" where
  "bass_operation env cid op s =
     (case op of
        ADD_SOURCE a \<Rightarrow> map_option (Pair GATT_SUCCESS) (bass_add_source env cid a s)
      | MODIFY_SOURCE m \<Rightarrow>
          (case lehs_find_source (modify_source_id m) s of
             None \<Rightarrow> Some (GA_LIB_BASS_ERROR_INVALID_SOURCE_ID, s)
           | Some i \<Rightarrow> map_option (Pair GATT_SUCCESS) (lehs_handle_modify_source env i m s))
      | REMOVE_SOURCE sid \<Rightarrow>
          (case lehs_find_source sid s of
             None \<Rightarrow> Some (GA_LIB_BASS_ERROR_INVALID_SOURCE_ID, s)
           | Some i \<Rightarrow> bass_remove_source env i s)
      | SET_BROADCAST_CODE c \<Rightarrow>
          (case lehs_find_source (code_source_id c) s of
             None \<Rightarrow> Some (GATT_SUCCESS, s)
           | Some i \<Rightarrow> map_option (Pair GATT_SUCCESS) (bass_set_broadcast_code env i (set_code c) s))
      | _ \<Rightarrow> Some (GATT_SUCCESS, s))"

definition lehs_bass_handle_write_req_evt ::
  "bis_env \<Rightarrow> ga_lib_bass_common_source_data \<Rightarrow> u16 \<Rightarrow> u8 list \<Rightarrow> u16 \<Rightarrow> server_state \<Rightarrow> (gatt_status \<times> server_state) option" where
  "lehs_bass_handle_write_req_evt env old cid data len s = do {
     parsed \<leftarrow> ga_lib_bass_parse_control_point_data old data len;
     case parsed of Inl st \<Rightarrow> Some (st, s) | Inr op \<Rightarrow> bass_operation env cid op s }"

section \<open>Events\<close>

text \<open>The result points behind the array when no block waits for the set.\<close>

definition broadcast_sink_handle_periodic_sync_established_event ::
  "bis_env \<Rightarrow> padv_sync_established \<Rightarrow> server_state \<Rightarrow> (nat \<times> server_state) option" where
  "broadcast_sink_handle_periodic_sync_established_event env e s =
     (let p_cb = (case find_index (\<lambda>b. big_in_use b \<and> pa_sync_in_progress b \<and> adv_handle b = pa_adv_sid e)
                    (broadcast_sink_cb s) of None \<Rightarrow> length (broadcast_sink_cb s) | Some b \<Rightarrow> b);
          s = upd_big p_cb (\<lambda>g. g\<lparr>pa_sync_in_progress := False\<rparr>) s
      in if pa_status e \<noteq> 0 then Some (p_cb, s)
         else if length (broadcast_sink_cb s) \<le> p_cb then None
         else Some (p_cb, emit_bis [RPC_BROADCAST_STATUS (BROADCAST_PA_SYNC_ESTABLISHED env)]
                (upd_big p_cb (\<lambda>g. g\<lparr>sync_handle := pa_sync_handle e, sync_state := BROADCAST_PA_SYNC_ESTABLISHED env\<rparr>) s)))"

text \<open>The result of the BASE parser is not looked at.\<close>

definition priv_periodic_adv_data_report_handler :: "bis_env \<Rightarrow> padv_report \<Rightarrow> server_state \<Rightarrow> server_state option" where
  "priv_periodic_adv_data_report_handler env rpt s =
     (case lehs_bis_get_big_by_sync_handle (report_sync_handle rpt) s of
        None \<Rightarrow> Some s
      | Some b \<Rightarrow>
          let big = broadcast_sink_cb s ! b
          in if b_base_updated big \<or> report_status rpt \<noteq> 0 then Some s
             else do {
               found \<leftarrow> le_audio_bap_broadcast_is_basic_announcement (bis_adv env) (report_data rpt) (of_nat (length (report_data rpt)));
               case found of
                 None \<Rightarrow> Some s
               | Some (pos, len) \<Rightarrow> do {
                   (_, bs) \<leftarrow> le_audio_bap_broadcast_parse_base_info (at_pos pos (report_data rpt)) len (base big);
                   info \<leftarrow> octets (unat len) (drop pos (report_data rpt));
                   Some (emit_bis [RPC_BIS_INFO info]
                     (upd_big b (\<lambda>g. g\<lparr>base := bs\<lparr>base_state := BAP_BROADCAST_STATE_CONFIGURED\<rparr>, b_base_updated := True\<rparr>) s)) } })"

definition priv_big_adv_report_handler :: "bis_env \<Rightarrow> biginfo_report \<Rightarrow> server_state \<Rightarrow> server_state option" where
  "priv_big_adv_report_handler env rpt s =
     (case lehs_bis_get_big_by_sync_handle (biginfo_sync_handle rpt) s of
        None \<Rightarrow> Some s
      | Some b \<Rightarrow>
          let big = broadcast_sink_cb s ! b
          in if \<not> b_base_updated big \<or> big_sync_in_progress big then Some s
             else
               let s = upd_big b (\<lambda>g. g\<lparr>b_encryption := biginfo_encryption rpt, number_of_subevents := biginfo_subevents rpt,
                         iso_interval := biginfo_iso_interval rpt, b_biginfo_updated := True\<rparr>) s
               in if src_bis_index_bits (source_cb s) \<noteq> 0
                  then map_option (\<lambda>s. s\<lparr>source_cb := zero_source\<rparr>)
                         (lehs_sync_to_source (Some b) (src_bis_index_bits (source_cb s)) (take_source_code b s))
                  else lehs_bass_process_big_adv_report_and_sync env b rpt s)"

definition periodic_sync_established :: "bis_env \<Rightarrow> padv_sync_established \<Rightarrow> server_state \<Rightarrow> server_state option" where
  "periodic_sync_established env e s = do {
     (p_big, s) \<leftarrow> broadcast_sink_handle_periodic_sync_established_event env e s;
     let s = (if pa_status e = 0 then emit_bis [PADV_ALLOC_SEGMENT_ASSEMBLER (pa_sync_handle e) 255] s else s);
     s \<leftarrow> lehs_bass_notify_pa_sync_state env p_big (if pa_status e \<noteq> 0 then GA_LIB_BASS_PA_FAILED_SYNC else GA_LIB_BASS_PA_SYNC) s;
     let s = emit_bis [PADV_REMOVE_DEVICE (pa_addr_type e) (pa_bda e) (pa_adv_sid e)] (lehs_broadcast_set_sync_progress False s);
     Some (broadcast_sink_create_periodic_sync env
       (if pa_status e = 0x3E
        then Some \<lparr>scan_evt_type = 0, scan_addr_type = pa_addr_type e, scan_bda = pa_bda e, scan_adv_sid = pa_adv_sid e,
               periodic_adv_interval = pa_interval_reported e\<rparr>
        else None) s) }"

definition lehs_ext_adv_cback :: "bis_env \<Rightarrow> ext_adv_event \<Rightarrow> server_state \<Rightarrow> server_state option" where
  "lehs_ext_adv_cback env ev s =
     (case ev of
        SYNC_TRANSFER_PARAM_EVENT st h \<Rightarrow> if st \<noteq> 0 then Some s else lehs_bass_handle_pa_sync_transfer_param_evt env h s
      | SYNC_TRANSFER_EVENT e \<Rightarrow> lehs_bass_handle_periodic_sync_transfer_evt env e s
      | PADV_SYNC_ESTABLISHED_EVENT e \<Rightarrow> periodic_sync_established env e s
      | PADV_REPORT_EVENT rpt \<Rightarrow> priv_periodic_adv_data_report_handler env rpt s
      | BIGINFO_REPORT_EVENT rpt \<Rightarrow> priv_big_adv_report_handler env rpt s
      | PADV_SYNC_LOST_EVENT h \<Rightarrow> do {
          s \<leftarrow> (case lehs_bis_get_big_by_sync_handle h s of
                  None \<Rightarrow> Some s
                | Some b \<Rightarrow> lehs_bass_notify_pa_sync_state env b GA_LIB_BASS_PA_NOT_SYNC
                             (upd_big b (\<lambda>g. g\<lparr>sync_state := BROADCAST_PA_SYNC_LOST env\<rparr>) s));
          Some (emit_bis [RPC_BROADCAST_STATUS (ucast h)] s) }
      | ADV_SET_TERMINATED_EVENT h \<Rightarrow> do {
          (st, acts) \<leftarrow> (if h \<noteq> 0 then map_option (Pair ADV_STATE_IDLE) (lehs_gatt_start_stop_adv False ADV_STATE_IDLE)
                          else lehs_move_to_next_adv_state (server_do_swift_pair s) (server_adv_state s));
          Some (emit_server (map CONNECTION acts) (s\<lparr>server_adv_state := st\<rparr>)) }
      | OTHER_ADV_EVENT \<Rightarrow> Some s)"

text \<open>The connection handles are copied into an array of four, as many as the event announces.\<close>

definition big_sync_established :: "bis_env \<Rightarrow> u8 \<Rightarrow> u8 \<Rightarrow> u16 list \<Rightarrow> server_state \<Rightarrow> server_state option" where
  "big_sync_established env h num_bis conn_hdls s =
     (case lehs_bis_get_big_by_handle h s of
        None \<Rightarrow> Some s
      | Some b \<Rightarrow> do {
          let big = broadcast_sink_cb s ! b;
          if length (bis_conn_id_list big) < unat num_bis \<or> length conn_hdls < unat num_bis then None
          else do {
            let s = upd_big b (\<lambda>g. g\<lparr>sync_state := BROADCAST_BIG_SYNC_ESTABLISHED env, big_sync_in_progress := False,
                bis_conn_id_list := take (unat num_bis) conn_hdls @ drop (unat num_bis) (bis_conn_id_list g), bis_conn_id_count := num_bis\<rparr>)
              (emit_bis [RPC_BROADCAST_STATUS (BROADCAST_BIG_SYNC_ESTABLISHED env), EXT_SCAN_ENABLE False,
                 PADV_TERMINATE_SYNC (sync_handle big)] s);
            (_, s) \<leftarrow> lehs_isoc_dhm_setup_bis_stream (bis_audio env) b num_bis s;
            lehs_bass_notify_big_sync_state env b s } })"

definition lehs_bis_isoc_cb :: "bis_env \<Rightarrow> big_event \<Rightarrow> server_state \<Rightarrow> server_state option" where
  "lehs_bis_isoc_cb env ev s =
     (case ev of
        BIG_SYNC_ESTABLISHED_EVT st h num_bis conn_hdls \<Rightarrow>
          if st \<noteq> 0 then Some s else big_sync_established env h num_bis conn_hdls s
      | BIG_SYNC_LOST_EVT h \<Rightarrow>
          (case lehs_bis_get_big_by_handle h s of
             None \<Rightarrow> Some s
           | Some b \<Rightarrow> do {
               s \<leftarrow> free_bis_stream b (upd_big b (\<lambda>g. g\<lparr>sync_state := BROADCAST_BIG_SYNC_LOST env\<rparr>) s);
               s \<leftarrow> lehs_bass_notify_big_sync_state env b s;
               Some (lehs_bis_free_big b s) })
      | BIG_TERMINATED_SYNC_EVT h \<Rightarrow>
          (case lehs_bis_get_big_by_handle h s of
             None \<Rightarrow> Some s
           | Some b \<Rightarrow> do {
               s \<leftarrow> lehs_bass_notify_big_sync_state env b
                      (emit_bis [RPC_BROADCAST_STATUS (BROADCAST_BIG_SYNC_TERMINATED env)]
                        (upd_big b (\<lambda>g. g\<lparr>sync_state := BROADCAST_BIG_SYNC_TERMINATED env\<rparr>) s));
               Some (lehs_bis_free_big b s) })
      | OTHER_BIG_EVT \<Rightarrow> Some s)"

end
