(* ===== verification/Broadcast_Props.thy ===== *)
theory Broadcast_Props
  imports Broadcast
begin

text \<open>
  What the broadcast sink keeps and does. An operation that neither starts nor ends a periodic synchronisation leads to a state
  that \<open>follows\<close>; the collection \<open>follows_intros\<close> takes a state apart into the updates it was made by.
\<close>

section \<open>Access\<close>

lemma upd_big_simps [simp, server_simps]:
  "services (upd_big i f s) = services s" "has_global (upd_big i f s) = has_global s"
  "pacs_app_data (upd_big i f s) = pacs_app_data s" "server_audio (upd_big i f s) = server_audio s"
  "server_clcbs (upd_big i f s) = server_clcbs s" "server_nvram (upd_big i f s) = server_nvram s"
  "periodic_sync_in_progress (upd_big i f s) = periodic_sync_in_progress s" "source_cb (upd_big i f s) = source_cb s"
  "pending_scan_q (upd_big i f s) = pending_scan_q s" "actions (upd_big i f s) = actions s"
  "broadcast_sink_cb (upd_big i f s) = (broadcast_sink_cb s)[i := f (broadcast_sink_cb s ! i)]"
  "bass_data (upd_big i f s) = bass_data s"
  by (simp_all add: upd_big_def bass_data_def)

lemma upd_bass_simps [simp, server_simps]:
  "pacs_app_data (upd_bass i f s) = pacs_app_data s" "server_audio (upd_bass i f s) = server_audio s"
  "server_clcbs (upd_bass i f s) = server_clcbs s" "server_nvram (upd_bass i f s) = server_nvram s"
  "periodic_sync_in_progress (upd_bass i f s) = periodic_sync_in_progress s" "source_cb (upd_bass i f s) = source_cb s"
  "pending_scan_q (upd_bass i f s) = pending_scan_q s" "actions (upd_bass i f s) = actions s"
  "broadcast_sink_cb (upd_bass i f s) = broadcast_sink_cb s"
  "bass_data (upd_bass i f s) = (bass_data s)[i := f (bass_data s ! i)]"
  by (simp_all add: upd_bass_def bass_data_def)

lemma besides_simps [simp]:
  "besides (upd_big i f s) = besides s" "besides (upd_bass i g s) = besides s" "besides (s\<lparr>source_cb := x\<rparr>) = besides s"
  "besides (s\<lparr>server_adv_state := st\<rparr>) = besides s" "besides (s\<lparr>pending_scan_q := q\<rparr>) = besides s"
  "besides (s\<lparr>periodic_sync_in_progress := p\<rparr>) = besides s"
  "levels a = levels (server_audio s) \<Longrightarrow> besides (s\<lparr>server_audio := a\<rparr>) = besides s"
  by (simp_all add: besides_def besides_audio_def upd_big_def upd_bass_def)

lemma bass_data_others [simp]:
  "bass_data (emit_server acts s) = bass_data s" "bass_data (s\<lparr>source_cb := x\<rparr>) = bass_data s"
  "bass_data (s\<lparr>server_audio := a\<rparr>) = bass_data s" "bass_data (s\<lparr>pending_scan_q := q\<rparr>) = bass_data s"
  "bass_data (s\<lparr>periodic_sync_in_progress := p\<rparr>) = bass_data s" "bass_data (s\<lparr>server_adv_state := st\<rparr>) = bass_data s"
  by (simp_all add: bass_data_def)

section \<open>What every operation keeps\<close>

text \<open>The sizes of the arrays, and what a receive state can hold.\<close>

definition base_shape :: "le_audio_bap_broadcast_base \<Rightarrow> bool" where
  "base_shape bs \<longleftrightarrow> length (sub_group bs) = BROADCAST_MAX_SUB_GROUP \<and>
     list_all (\<lambda>g. length (bis_config g) = BROADCAST_MAX_BIS_PER_SUB_GROUP) (sub_group bs)"

definition sink_ok :: "lehs_broadcast_sink_cb \<Rightarrow> bool" where
  "sink_ok b \<longleftrightarrow> length (bis_conn_id_list b) = 4 \<and> length (bis_index_list b) = 4 \<and> unat (bis_conn_id_count b) \<le> 4 \<and>
     base_shape (base b)"

definition receive_ok :: "nat \<Rightarrow> lehs_bass_data \<Rightarrow> bool" where
  "receive_ok i d \<longleftrightarrow> length (bass_sub_group d) = GA_LIB_BASS_MAX_SUBGROUP_COUNT \<and>
     (is_used d \<longrightarrow> has_sub_group_data (recv_state d) \<and> source_id (recv_state d) = of_nat i) \<and>
     pa_sync_state (recv_state d) \<in> {0, 1, 2, 3} \<and> big_encryption_state (recv_state d) \<in> {0, 1, 2}"

definition broadcast_ok :: "server_state \<Rightarrow> bool" where
  "broadcast_ok s \<longleftrightarrow> length (broadcast_sink_cb s) = LEHS_MAX_BIG \<and> list_all sink_ok (broadcast_sink_cb s) \<and>
     length (bass_data s) = LEHS_BROADCAST_RCV_STATE_MAX \<and> (\<forall>i<length (bass_data s). receive_ok i (bass_data s ! i))"

fun is_create_sync :: "server_action \<Rightarrow> bool" where
  "is_create_sync (BROADCAST (PADV_CREATE_SYNC _ _ _ _)) \<longleftrightarrow> True"
| "is_create_sync _ \<longleftrightarrow> False"

definition creates :: "server_state \<Rightarrow> nat" where
  "creates s = length (filter is_create_sync (actions s))"

text \<open>An operation that is neither the start nor the end of a periodic synchronisation leads from a state to one that follows it.\<close>

definition follows :: "server_state \<Rightarrow> server_state \<Rightarrow> bool" where
  "follows s t \<longleftrightarrow> (broadcast_ok s \<longrightarrow> broadcast_ok t) \<and> creates t = creates s \<and>
     periodic_sync_in_progress t = periodic_sync_in_progress s \<and> pending_scan_q t = pending_scan_q s \<and> besides t = besides s"

named_theorems follows_intros \<open>operations after which a state still follows\<close>

lemma follows_refl [simp]: "follows s s"
  by (simp add: follows_def)

lemma follows_upd_big [follows_intros]:
  assumes "\<And>b. sink_ok b \<Longrightarrow> sink_ok (f b)" "follows s t"
  shows "follows s (upd_big i f t)"
proof -
  have "list_all sink_ok ((broadcast_sink_cb t)[i := f (broadcast_sink_cb t ! i)])" if "list_all sink_ok (broadcast_sink_cb t)"
    using that assms(1) by (cases "i < length (broadcast_sink_cb t)") (auto simp: list_all_length nth_list_update)
  then show ?thesis using assms(2) by (auto simp: follows_def broadcast_ok_def creates_def)
qed

lemma follows_upd_bass [follows_intros]:
  assumes "\<And>d. receive_ok i d \<Longrightarrow> receive_ok i (f d)" "follows s t"
  shows "follows s (upd_bass i f t)"
proof -
  have "receive_ok j ((bass_data t)[i := f (bass_data t ! i)] ! j)" if "j < length (bass_data t)" "receive_ok j (bass_data t ! j)" for j
    using that assms(1) by (cases "j = i") simp_all
  then show ?thesis using assms(2) by (auto simp: follows_def broadcast_ok_def creates_def)
qed

lemma follows_emit [follows_intros]:
  "follows s t \<Longrightarrow> filter is_create_sync acts = [] \<Longrightarrow> follows s (emit_server acts t)"
  by (auto simp: follows_def broadcast_ok_def creates_def)

lemma follows_other [follows_intros]:
  "follows s t \<Longrightarrow> follows s (t\<lparr>source_cb := x\<rparr>)"
  "follows s t \<Longrightarrow> levels a = levels (server_audio t) \<Longrightarrow> follows s (t\<lparr>server_audio := a\<rparr>)"
  "follows s t \<Longrightarrow> follows s (t\<lparr>server_adv_state := st\<rparr>)"
  by (simp_all add: follows_def broadcast_ok_def creates_def)

lemma no_create_map [simp]:
  "filter is_create_sync (map (\<lambda>x. STREAM (AUDIO x)) acts) = []" "filter is_create_sync (map CONNECTION cacts) = []"
  by (simp_all add: filter_empty_conv)

lemma follows_emit_path [follows_intros]: "follows s t \<Longrightarrow> follows s (emit_path acts t)"
  by (simp add: emit_path_def follows_emit)

lemma follows_emit_bis [follows_intros]:
  "follows s t \<Longrightarrow> filter is_create_sync (map BROADCAST acts) = [] \<Longrightarrow> follows s (emit_bis acts t)"
  unfolding emit_bis_def by (rule follows_emit)

lemma follows_trans: "follows s t \<Longrightarrow> follows t u \<Longrightarrow> follows s u"
  by (simp add: follows_def)

lemma no_create_sent [simp]: "filter is_create_sync (sent_value env cs cid h data) = []"
  by (simp add: sent_value_def Let_def)

lemma follows_notify: "lehs_notify_recv_state_char env i s = Some t \<Longrightarrow> follows s t"
  by (auto simp: lehs_notify_recv_state_char_def ga_lib_bass_notify_recv_state_def server_notify_state Let_def bind_eq_Some_conv
      split: if_splits intro!: follows_intros)

lemma zero_big_ok [simp]: "sink_ok zero_big"
  by (simp add: sink_ok_def zero_big_def base_shape_def zero_base_def zero_base_group_def list_all_length)

lemma upd_group_shape:
  "base_shape bs \<Longrightarrow> (\<And>g. length (bis_config g) = 2 \<Longrightarrow> length (bis_config (f g)) = 2) \<Longrightarrow> base_shape (upd_group i f bs)"
  by (cases "i < 2") (auto simp: base_shape_def upd_group_def list_all_length nth_list_update)

text \<open>The reader of the BASE keeps the arrays.\<close>

lemma parse_bis_loop_shape:
  "parse_bis_loop j n p len g = Some (res, p', len', g') \<Longrightarrow> length (bis_config g') = length (bis_config g)"
  by (induction j n p len g rule: parse_bis_loop.induct)
    (auto simp: upd_bis_def bind_eq_Some_conv Let_def split: if_splits)

lemma parse_sub_group_shape:
  "parse_sub_group p len g = Some (res, p', len', g') \<Longrightarrow> length (bis_config g') = length (bis_config g)"
  by (auto simp: parse_sub_group_def bind_eq_Some_conv Let_def split: if_splits dest!: parse_bis_loop_shape)

lemma parse_group_loop_shape:
  "parse_group_loop i n p len b = Some (res, b') \<Longrightarrow> base_shape b \<Longrightarrow> base_shape b'"
proof (induction i n p len b rule: parse_group_loop.induct)
  case (2 i n p len b)
  show ?case
  proof (cases "len < 8")
    case False
    then obtain r q m g where g: "parse_sub_group p len (sub_group b ! i) = Some (r, q, m, g)" "i < length (sub_group b)"
      using 2(2) by (auto simp: bind_eq_Some_conv split: if_splits)
    then have "length (bis_config g) = 2" using 2(3) by (auto simp: base_shape_def list_all_length dest: parse_sub_group_shape)
    then have "base_shape (upd_group i (\<lambda>_. g) b)" using 2(3) by (auto intro: upd_group_shape)
    moreover have "r = WICED_SUCCESS \<and> parse_group_loop (Suc i) n q m (upd_group i (\<lambda>_. g) b) = Some (res, b') \<or> b' = upd_group i (\<lambda>_. g) b"
      using 2(2) g False by (auto simp: Let_def split: if_splits)
    ultimately show ?thesis using 2(1) [OF False _ g(1)] g(2) by (cases q) auto
  qed (use 2 in simp)
qed simp

lemma base_shape_header: "base_shape (b\<lparr>base_presentation_delay := d, sub_group_cnt := n\<rparr>) = base_shape b"
  by (simp add: base_shape_def)

lemma parse_base_shape:
  "le_audio_bap_broadcast_parse_base_info p len b = Some (res, b') \<Longrightarrow> base_shape b \<Longrightarrow> base_shape b'"
  by (auto simp: le_audio_bap_broadcast_parse_base_info_def bind_eq_Some_conv base_shape_header elim: parse_group_loop_shape)

section \<open>The operations\<close>

lemma set_first_location_ok: "sink_ok b \<Longrightarrow> sink_ok (set_first_location aca b)"
  by (auto simp: sink_ok_def set_first_location_def intro: upd_group_shape)

lemma setup_bis_loop_follows: "setup_bis_loop env b i n ret s = Some (r, t) \<Longrightarrow> follows s t"
proof (induction n arbitrary: i ret s)
  case (Suc n)
  have step: "follows s (upd_big b (set_first_location aca) s)" "follows s (emit_path acts (upd_big b (set_first_location aca) s))" for aca acts
    by (intro follows_intros set_first_location_ok follows_refl; assumption)+
  show ?case
    using Suc.prems step by (auto simp: bind_eq_Some_conv Let_def split: prod.splits if_splits dest!: Suc.IH elim: follows_trans [rotated])
qed simp

lemma reinit_levels: "lehs_isoc_dhm_reinit r a = (a', acts) \<Longrightarrow> levels a' = levels a"
  using levels_reinit [of r a] by simp

lemma setup_bis_stream_follows: "lehs_isoc_dhm_setup_bis_stream env b n s = Some (r, t) \<Longrightarrow> follows s t"
  by (auto simp: lehs_isoc_dhm_setup_bis_stream_def Let_def split: prod.splits
      dest!: setup_bis_loop_follows reinit_levels intro!: follows_intros elim!: follows_trans [rotated])

lemma free_bis_stream_follows: "free_bis_stream b s = Some t \<Longrightarrow> follows s t"
  by (auto simp: free_bis_stream_def Let_def intro!: follows_intros)

lemma alloc_big_follows: "lehs_bis_alloc_big br_id bda sid s = (p, t) \<Longrightarrow> follows s t"
  by (auto simp: lehs_bis_alloc_big_def sink_ok_def base_shape_def split: option.splits intro!: follows_intros)

lemma free_big_follows [follows_intros]: "follows s t \<Longrightarrow> follows s (lehs_bis_free_big b t)"
  by (simp add: lehs_bis_free_big_def follows_intros)

lemma select_bises_length: "select_bises bits g i n k xs = Some (m, ys) \<Longrightarrow> length ys = length xs"
  by (induction bits g i n k xs rule: select_bises.induct) (auto simp: bind_eq_Some_conv arr_set_def split: if_splits)

lemma sync_to_source_follows: "lehs_sync_to_source p bits s = Some t \<Longrightarrow> follows s t"
proof (cases p)
  case (Some b)
  assume "lehs_sync_to_source p bits s = Some t"
  with Some obtain m ys where ys: "select_bises bits (first_group (broadcast_sink_cb s ! b)) 0
      (unat (bis_cnt (first_group (broadcast_sink_cb s ! b)))) 0 (bis_index_list (broadcast_sink_cb s ! b)) = Some (m, ys)"
    and t: "t = upd_big b (\<lambda>g. g\<lparr>bis_index_list := ys, base := (base g)\<lparr>base_state := BAP_BROADCAST_STATE_STREAMING\<rparr>,
                             big_sync_in_progress := True\<rparr>)
            (emit_bis [BIG_CREATE_SYNC (big_handle (broadcast_sink_cb s ! b)) (sync_handle (broadcast_sink_cb s ! b))
               (number_of_subevents (broadcast_sink_cb s ! b)) (uint (iso_interval (broadcast_sink_cb s ! b)) * 10)
               (take m ys) (if b_encryption (broadcast_sink_cb s ! b) then Some (sink_broadcast_code (broadcast_sink_cb s ! b)) else None)] s)"
    by (auto simp: lehs_sync_to_source_def Let_def bind_eq_Some_conv)
  show "follows s t"
  proof (cases "b < length (broadcast_sink_cb s) \<and> length ys = 4")
    case True
    then show ?thesis unfolding t by (intro follows_intros) (auto simp: sink_ok_def base_shape_def)
  next
    case False
    then have "\<not> broadcast_ok s \<or> \<not> b < length (broadcast_sink_cb s)"
      using select_bises_length [OF ys] by (cases b) (auto simp: broadcast_ok_def sink_ok_def list_all_length)
    then show ?thesis unfolding t
      by (auto simp: follows_def creates_def emit_bis_def broadcast_ok_def bass_data_def list_update_beyond)
  qed
qed (simp add: lehs_sync_to_source_def)


lemma receive_ok_upd [simp]:
  "receive_ok i (d\<lparr>recv_state := (recv_state d)\<lparr>pa_sync_state := x\<rparr>\<rparr>) \<longleftrightarrow> receive_ok i (d\<lparr>recv_state := (recv_state d)\<lparr>pa_sync_state := 0\<rparr>\<rparr>) \<and> x \<in> {0, 1, 2, 3}"
  "receive_ok i (d\<lparr>bis_index_bits := b\<rparr>) \<longleftrightarrow> receive_ok i d" "receive_ok i (d\<lparr>bass_sync_handle := h\<rparr>) \<longleftrightarrow> receive_ok i d"
  "receive_ok i (d\<lparr>waiting_broadcast_code := w\<rparr>) \<longleftrightarrow> receive_ok i d"
  by (auto simp: receive_ok_def)

lemma set_pa_follows [follows_intros]:
  "follows s t \<Longrightarrow> st \<in> {0, 1, 2, 3} \<Longrightarrow> follows s (set_pa_sync_state i st t)"
  unfolding set_pa_sync_state_def upd_recv_state_def by (rule follows_upd_bass) (auto simp: receive_ok_def)

lemma set_encryption_follows [follows_intros]:
  "follows s t \<Longrightarrow> st \<in> {0, 1, 2} \<Longrightarrow> follows s (set_big_encryption_state i st t)"
  unfolding set_big_encryption_state_def upd_recv_state_def by (rule follows_upd_bass) (auto simp: receive_ok_def)

lemma set_bis_follows: "set_bis_sync_state i b s = Some t \<Longrightarrow> follows s t"
  by (auto simp: set_bis_sync_state_def receive_ok_def split: if_splits intro!: follows_upd_bass)

lemma discover_follows [follows_intros]: "follows s t \<Longrightarrow> follows s (lehs_bis_discover_sources b t)"
  by (simp add: lehs_bis_discover_sources_def start_scan_def follows_intros)

lemma sync_to_pa_follows [follows_intros]: "follows s t \<Longrightarrow> follows s (lehs_sync_to_pa br_id t)"
  by (auto simp: lehs_sync_to_pa_def start_scan_def Let_def split: option.splits intro!: follows_intros)

lemma take_code_follows [follows_intros]: "follows s t \<Longrightarrow> follows s (take_source_code b t)"
  by (auto simp: take_source_code_def sink_ok_def intro!: follows_intros)

lemma host_sync_follows: "lehs_bis_sync_to_source src s = Some t \<Longrightarrow> follows s t"
  by (auto simp: lehs_bis_sync_to_source_def Let_def bind_eq_Some_conv split: option.splits if_splits
      dest!: sync_to_source_follows intro!: follows_intros elim!: follows_trans [rotated])

lemma terminate_follows: "lehs_bis_terminate_sync env br_id s = Some t \<Longrightarrow> follows s t"
  by (auto simp: lehs_bis_terminate_sync_def Let_def bind_eq_Some_conv split: option.splits if_splits
      dest!: free_bis_stream_follows intro!: follows_intros)

lemma bass_to_pa_follows [follows_intros]:
  assumes "follows s t"
  shows "follows s (lehs_bass_synchronize_to_pa env param i t)"
proof -
  obtain p u where u: "lehs_bis_alloc_big (recv_broadcast_id (recv_state (bass_data t ! i))) (source_bda (recv_state (bass_data t ! i)))
      (adv_sid (recv_state (bass_data t ! i))) t = (p, u)" by (metis surj_pair)
  then have "follows s u" using assms alloc_big_follows follows_trans by blast
  then show ?thesis using u by (auto simp: lehs_bass_synchronize_to_pa_def Let_def intro!: follows_intros)
qed

lemma bass_to_source_follows: "lehs_bass_synchronize_to_source i s = Some t \<Longrightarrow> follows s t"
  by (auto simp: lehs_bass_synchronize_to_source_def Let_def bind_eq_Some_conv split: option.splits
      dest!: sync_to_source_follows elim!: follows_trans [rotated] intro!: follows_intros)

lemma notify_big_follows: "lehs_bass_notify_big_sync_state env b s = Some t \<Longrightarrow> follows s t"
  by (auto simp: lehs_bass_notify_big_sync_state_def bind_eq_Some_conv split: option.splits if_splits
      dest!: follows_notify set_bis_follows elim!: follows_trans [rotated] intro!: follows_intros)

lemma notify_pa_follows: "lehs_bass_notify_pa_sync_state env b st s = Some t \<Longrightarrow> st \<in> {0, 1, 2, 3} \<Longrightarrow> follows s t"
  by (auto simp: lehs_bass_notify_pa_sync_state_def bind_eq_Some_conv split: option.splits
      dest!: follows_notify elim!: follows_trans [rotated] intro!: follows_intros)

lemma big_report_follows: "lehs_bass_process_big_adv_report_and_sync env b rpt s = Some t \<Longrightarrow> follows s t"
  by (auto simp: lehs_bass_process_big_adv_report_and_sync_def Let_def split: option.splits if_splits
      dest!: follows_notify bass_to_source_follows elim!: follows_trans [rotated] intro!: follows_intros)

lemma transfer_param_follows: "lehs_bass_handle_pa_sync_transfer_param_evt env h s = Some t \<Longrightarrow> follows s t"
  by (auto simp: lehs_bass_handle_pa_sync_transfer_param_evt_def split: option.splits dest!: follows_notify)

lemma transfer_follows: "lehs_bass_handle_periodic_sync_transfer_evt env e s = Some t \<Longrightarrow> follows s t"
  by (auto simp: lehs_bass_handle_periodic_sync_transfer_evt_def Let_def sink_ok_def split: option.splits
      dest!: follows_notify elim!: follows_trans [rotated] intro!: follows_intros)

lemma besides_disconnection [simp]: "besides (lehs_bass_handle_acl_disconnection cid s) = besides s"
  by (simp add: besides_def besides_audio_def lehs_bass_handle_acl_disconnection_def upd_services_def)

lemma disconnection_receive_ok: "receive_ok i d \<Longrightarrow> receive_ok i (if is_used d \<and> bass_conn_id d = cid then zero_bass_data else d)"
  by (auto simp: receive_ok_def zero_bass_data_def zero_recv_state_def)

lemma disconnection_bass [simp]:
  "bass_data (lehs_bass_handle_acl_disconnection cid s) =
     map (\<lambda>d. if is_used d \<and> bass_conn_id d = cid then zero_bass_data else d) (bass_data s)"
  "broadcast_sink_cb (lehs_bass_handle_acl_disconnection cid s) = broadcast_sink_cb s"
  "actions (lehs_bass_handle_acl_disconnection cid s) = actions s"
  "periodic_sync_in_progress (lehs_bass_handle_acl_disconnection cid s) = periodic_sync_in_progress s"
  "pending_scan_q (lehs_bass_handle_acl_disconnection cid s) = pending_scan_q s"
  by (simp_all add: lehs_bass_handle_acl_disconnection_def bass_data_def)

lemma disconnection_follows [follows_intros]: "follows s t \<Longrightarrow> follows s (lehs_bass_handle_acl_disconnection cid t)"
  by (auto simp: follows_def broadcast_ok_def creates_def disconnection_receive_ok)

lemma modify_follows: "lehs_handle_modify_source env i m s = Some t \<Longrightarrow> follows s t"
  by (auto simp: lehs_handle_modify_source_def Let_def bind_eq_Some_conv split: if_splits
      dest!: follows_notify terminate_follows bass_to_source_follows elim!: follows_trans [rotated] intro!: follows_intros)

lemma stream_info_follows: "lehs_rpc_send_new_stream_info br_id name s = Some t \<Longrightarrow> follows s t"
  by (auto simp: lehs_rpc_send_new_stream_info_def Let_def split: if_splits intro!: follows_intros)

lemma copy_metadata_length: "length (copy_metadata gs ds n) = length ds"
  by (induction gs ds n rule: copy_metadata.induct) auto

lemma allocate_follows: "lehs_allocate_source a cid s = (p, t) \<Longrightarrow> follows s t"
  by (auto simp: lehs_allocate_source_def lehs_fill_char_data_def receive_ok_def copy_metadata_length split: option.splits
      intro!: follows_upd_bass)

lemma add_follows: "bass_add_source env cid a s = Some t \<Longrightarrow> follows s t"
  by (auto simp: bass_add_source_def bind_eq_Some_conv split: prod.splits option.splits
      dest!: allocate_follows stream_info_follows follows_notify intro!: follows_intros)
    (metis follows_trans set_encryption_follows insertI1)+


lemma upd_bass_over: "upd_bass i (\<lambda>_. d) (emit_server a (upd_bass i f s)) = emit_server a (upd_bass i (\<lambda>_. d) s)"
  by (simp add: upd_bass_def upd_services_def emit_server_def)

lemma notify_emits: "lehs_notify_recv_state_char env i s = Some t \<Longrightarrow> \<exists>acts. t = emit_server acts s \<and> filter is_create_sync acts = []"
  by (auto simp: lehs_notify_recv_state_char_def ga_lib_bass_notify_recv_state_def server_notify_state Let_def bind_eq_Some_conv
      split: if_splits)

lemma zero_bass_ok [simp]: "receive_ok i zero_bass_data"
  by (simp add: receive_ok_def zero_bass_data_def zero_recv_state_def)

lemma remove_follows: "bass_remove_source env i s = Some (st, t) \<Longrightarrow> follows s t"
  by (auto simp: bass_remove_source_def upd_recv_state_def Let_def bind_eq_Some_conv upd_bass_over split: if_splits option.splits
      dest!: notify_emits) (rule follows_intros follows_refl zero_bass_ok zero_big_ok | assumption)+

lemma set_code_follows: "bass_set_broadcast_code env i code s = Some t \<Longrightarrow> follows s t"
  by (auto simp: bass_set_broadcast_code_def bind_eq_Some_conv receive_ok_def sink_ok_def split: option.splits
      dest!: follows_notify bass_to_source_follows elim!: follows_trans [rotated] intro!: follows_intros)

lemma bass_operation_follows: "bass_operation env cid op s = Some (st, t) \<Longrightarrow> follows s t"
  by (cases op) (auto simp: bass_operation_def split: option.splits
      dest: add_follows modify_follows remove_follows set_code_follows)

lemma bass_write_follows: "lehs_bass_handle_write_req_evt env old cid data len s = Some (st, t) \<Longrightarrow> follows s t"
  by (cases "the (ga_lib_bass_parse_control_point_data old data len)")
    (auto simp: lehs_bass_handle_write_req_evt_def bind_eq_Some_conv dest: bass_operation_follows)

lemma sync_established_follows:
  "broadcast_sink_handle_periodic_sync_established_event env e s = Some (p, t) \<Longrightarrow> follows s t"
  by (auto simp: broadcast_sink_handle_periodic_sync_established_event_def Let_def sink_ok_def split: if_splits intro!: follows_intros)

lemma follows_upd_big_at:
  assumes "broadcast_ok s \<Longrightarrow> i < length (broadcast_sink_cb s) \<Longrightarrow> sink_ok (broadcast_sink_cb s ! i) \<Longrightarrow> sink_ok (f (broadcast_sink_cb s ! i))"
  shows "follows s (upd_big i f s)"
proof (cases "broadcast_ok s \<and> i < length (broadcast_sink_cb s)")
  case True
  then have "sink_ok (f (broadcast_sink_cb s ! i))" using assms by (auto simp: broadcast_ok_def list_all_length)
  with True show ?thesis by (auto simp: follows_def broadcast_ok_def creates_def list_all_length nth_list_update)
qed (auto simp: follows_def creates_def broadcast_ok_def list_update_beyond)

lemma found_base_shape:
  assumes "le_audio_bap_broadcast_parse_base_info p len (base (broadcast_sink_cb s ! b)) = Some (res, bs)"
  shows "follows s (upd_big b (\<lambda>g. g\<lparr>base := bs\<lparr>base_state := BAP_BROADCAST_STATE_CONFIGURED\<rparr>, b_base_updated := True\<rparr>) s)"
proof (rule follows_upd_big_at)
  assume "sink_ok (broadcast_sink_cb s ! b)"
  moreover from this have "base_shape bs" using assms parse_base_shape by (auto simp: sink_ok_def)
  ultimately show "sink_ok ((broadcast_sink_cb s ! b)\<lparr>base := bs\<lparr>base_state := BAP_BROADCAST_STATE_CONFIGURED\<rparr>, b_base_updated := True\<rparr>)"
    by (simp add: sink_ok_def base_shape_def)
qed

lemma padv_report_follows: "priv_periodic_adv_data_report_handler env rpt s = Some t \<Longrightarrow> follows s t"
  by (auto simp: priv_periodic_adv_data_report_handler_def Let_def bind_eq_Some_conv split: option.split_asm if_split_asm
      intro!: follows_emit_bis found_base_shape)

lemma big_adv_report_follows: "priv_big_adv_report_handler env rpt s = Some t \<Longrightarrow> follows s t"
  by (auto simp: priv_big_adv_report_handler_def Let_def sink_ok_def split: option.splits if_splits
      dest!: sync_to_source_follows big_report_follows elim!: follows_trans [rotated] intro!: follows_intros)

lemma big_streams_follow:
  "unat n \<le> length hdls \<Longrightarrow> unat n \<le> length (bis_conn_id_list (broadcast_sink_cb s ! b)) \<Longrightarrow>
   follows s (upd_big b (\<lambda>g. g\<lparr>sync_state := x, big_sync_in_progress := False,
     bis_conn_id_list := take (unat n) hdls @ drop (unat n) (bis_conn_id_list g), bis_conn_id_count := n\<rparr>) s)"
  by (rule follows_upd_big_at) (auto simp: sink_ok_def)

lemma big_established_follows: "big_sync_established env h n hdls s = Some t \<Longrightarrow> follows s t"
proof -
  assume *: "big_sync_established env h n hdls s = Some t"
  show "follows s t"
  proof (cases "lehs_bis_get_big_by_handle h s")
    case (Some b)
    let ?s = "emit_bis [RPC_BROADCAST_STATUS (BROADCAST_BIG_SYNC_ESTABLISHED env), EXT_SCAN_ENABLE False,
                 PADV_TERMINATE_SYNC (sync_handle (broadcast_sink_cb s ! b))] s"
    let ?u = "upd_big b (\<lambda>g. g\<lparr>sync_state := BROADCAST_BIG_SYNC_ESTABLISHED env, big_sync_in_progress := False,
       bis_conn_id_list := take (unat n) hdls @ drop (unat n) (bis_conn_id_list g), bis_conn_id_count := n\<rparr>) ?s"
    from * Some obtain r v where v: "unat n \<le> length hdls" "unat n \<le> length (bis_conn_id_list (broadcast_sink_cb s ! b))"
        "lehs_isoc_dhm_setup_bis_stream (bis_audio env) b n ?u = Some (r, v)" "lehs_bass_notify_big_sync_state env b v = Some t"
      by (auto simp: big_sync_established_def Let_def bind_eq_Some_conv split: if_split_asm)
    have "follows s ?s" by (intro follows_intros) simp_all
    moreover have "follows ?s ?u" using v by (intro big_streams_follow) (simp_all add: emit_bis_def)
    moreover have "follows ?u v" "follows v t" using v setup_bis_stream_follows notify_big_follows by blast+
    ultimately show ?thesis using follows_trans by blast
  qed (use * in \<open>simp add: big_sync_established_def\<close>)
qed

lemma isoc_follows: "lehs_bis_isoc_cb env ev s = Some t \<Longrightarrow> follows s t"
  by (auto simp: lehs_bis_isoc_cb_def bind_eq_Some_conv sink_ok_def split: big_event.splits option.splits if_splits
      dest!: free_bis_stream_follows notify_big_follows big_established_follows elim!: follows_trans [rotated] intro!: follows_intros)

lemma scan_follows: "broadcast_sink_bis_ext_adv_scan_cback env junk r n data s = Some t \<Longrightarrow> follows s t"
  by (auto simp: broadcast_sink_bis_ext_adv_scan_cback_def bind_eq_Some_conv split: option.splits if_splits dest!: stream_info_follows)

section \<open>Steps\<close>

text \<open>What can happen to the broadcast sink: events of the stack, reports of a scan, requests of a client and of the host.\<close>

datatype broadcast_input =
    ADV_EVENT ext_adv_event
  | BIG_EVENT big_event
  | SCAN_REPORT "ext_scan_results option" u16 "u8 list"
  | SYNC_SCAN_REPORT "ext_scan_results option" u16 "u8 list"
  | BASS_REQUEST u16 "u8 list" u16
  | DISCONNECTED u16
  | HOST_DISCOVER bool
  | HOST_SYNC broadcast_source
  | HOST_TERMINATE u32

fun broadcast_step :: "bis_env \<Rightarrow> ga_lib_bass_common_source_data \<Rightarrow> le_audio_rcv_public_broadcast \<Rightarrow> broadcast_input \<Rightarrow>
    server_state \<Rightarrow> server_state option" where
  "broadcast_step env old junk (ADV_EVENT ev) s = lehs_ext_adv_cback env ev s"
| "broadcast_step env old junk (BIG_EVENT ev) s = lehs_bis_isoc_cb env ev s"
| "broadcast_step env old junk (SCAN_REPORT r n data) s = broadcast_sink_bis_ext_adv_scan_cback env junk r n data s"
| "broadcast_step env old junk (SYNC_SCAN_REPORT r n data) s = broadcast_sink_bis_ext_adv_scan_to_sync_cback env junk r n data s"
| "broadcast_step env old junk (BASS_REQUEST cid data n) s = map_option snd (lehs_bass_handle_write_req_evt env old cid data n s)"
| "broadcast_step env old junk (DISCONNECTED cid) s = Some (lehs_bass_handle_acl_disconnection cid s)"
| "broadcast_step env old junk (HOST_DISCOVER b) s = Some (lehs_bis_discover_sources b s)"
| "broadcast_step env old junk (HOST_SYNC src) s = lehs_bis_sync_to_source src s"
| "broadcast_step env old junk (HOST_TERMINATE br_id) s = lehs_bis_terminate_sync env br_id s"


text \<open>What the code holds at the time of an input: the memory the request is read over, the structure on the stack.\<close>

type_synonym broadcast_moment = "ga_lib_bass_common_source_data \<times> le_audio_rcv_public_broadcast \<times> broadcast_input"

fun broadcast_run :: "bis_env \<Rightarrow> broadcast_moment list \<Rightarrow> server_state \<Rightarrow> server_state option" where
  "broadcast_run env [] s = Some s"
| "broadcast_run env ((old, junk, x) # xs) s = do { s \<leftarrow> broadcast_step env old junk x s; broadcast_run env xs s }"

fun is_established :: "broadcast_moment \<Rightarrow> bool" where
  "is_established (_, _, ADV_EVENT (PADV_SYNC_ESTABLISHED_EVENT _)) \<longleftrightarrow> True"
| "is_established _ \<longleftrightarrow> False"

definition answers :: "broadcast_moment list \<Rightarrow> nat" where
  "answers xs = length (filter is_established xs)"

definition sync_bound :: "nat \<Rightarrow> server_state \<Rightarrow> bool" where
  "sync_bound n s \<longleftrightarrow> broadcast_ok s \<and> (pending_scan_q s = [] \<or> periodic_sync_in_progress s) \<and>
     creates s \<le> n + (if periodic_sync_in_progress s then 1 else 0)"

lemma sync_bound_follows: "follows s t \<Longrightarrow> sync_bound n s \<Longrightarrow> sync_bound n t"
  by (simp add: follows_def sync_bound_def)

lemma start_periodic_sync_effect:
  "broadcast_ok (start_periodic_sync r s) = broadcast_ok s" "creates (start_periodic_sync r s) = Suc (creates s)"
  "periodic_sync_in_progress (start_periodic_sync r s)" "pending_scan_q (start_periodic_sync r s) = pending_scan_q s"
  by (simp_all add: start_periodic_sync_def lehs_broadcast_set_sync_progress_def broadcast_ok_def creates_def emit_bis_def)

lemma queue_effect:
  "broadcast_ok (s\<lparr>pending_scan_q := q\<rparr>) = broadcast_ok s" "creates (s\<lparr>pending_scan_q := q\<rparr>) = creates s"
  "broadcast_ok (lehs_broadcast_set_sync_progress b s) = broadcast_ok s" "creates (lehs_broadcast_set_sync_progress b s) = creates s"
  "periodic_sync_in_progress (lehs_broadcast_set_sync_progress b s) = b"
  "pending_scan_q (lehs_broadcast_set_sync_progress b s) = pending_scan_q s"
  by (simp_all add: lehs_broadcast_set_sync_progress_def broadcast_ok_def creates_def)

lemma scan_off_effect:
  "broadcast_ok (emit_bis [EXT_SCAN_ENABLE b] s) = broadcast_ok s" "creates (emit_bis [EXT_SCAN_ENABLE b] s) = creates s"
  "periodic_sync_in_progress (emit_bis [EXT_SCAN_ENABLE b] s) = periodic_sync_in_progress s"
  "pending_scan_q (emit_bis [EXT_SCAN_ENABLE b] s) = pending_scan_q s"
  by (simp_all add: emit_bis_def broadcast_ok_def creates_def)

lemma create_sync_bound: "sync_bound n s \<Longrightarrow> sync_bound n (broadcast_sink_create_periodic_sync env (Some r) s)"
  by (auto simp: broadcast_sink_create_periodic_sync_def lehs_broadcast_get_sync_progress_def sync_bound_def
      start_periodic_sync_effect queue_effect)

lemma next_sync_bound:
  "broadcast_ok s \<Longrightarrow> \<not> periodic_sync_in_progress s \<Longrightarrow> creates s \<le> n \<Longrightarrow>
   sync_bound n (broadcast_sink_create_periodic_sync env p s)"
  by (auto simp: broadcast_sink_create_periodic_sync_def lehs_broadcast_get_sync_progress_def
      sync_bound_def start_periodic_sync_effect queue_effect scan_off_effect split: option.splits list.splits)

lemma established_bound: "periodic_sync_established env e s = Some t \<Longrightarrow> sync_bound n s \<Longrightarrow> sync_bound (Suc n) t"
proof -
  assume t: "periodic_sync_established env e s = Some t" and s: "sync_bound n s"
  from t obtain p u v where u: "broadcast_sink_handle_periodic_sync_established_event env e s = Some (p, u)"
    and v: "lehs_bass_notify_pa_sync_state env p (if pa_status e \<noteq> 0 then GA_LIB_BASS_PA_FAILED_SYNC else GA_LIB_BASS_PA_SYNC)
        (if pa_status e = 0 then emit_bis [PADV_ALLOC_SEGMENT_ASSEMBLER (pa_sync_handle e) 255] u else u) = Some v"
    and t: "\<exists>r. t = broadcast_sink_create_periodic_sync env r
        (emit_bis [PADV_REMOVE_DEVICE (pa_addr_type e) (pa_bda e) (pa_adv_sid e)] (lehs_broadcast_set_sync_progress False v))"
    by (auto simp: periodic_sync_established_def Let_def bind_eq_Some_conv)
  have "follows s u" using u by (rule sync_established_follows)
  moreover have "follows u (if pa_status e = 0 then emit_bis [PADV_ALLOC_SEGMENT_ASSEMBLER (pa_sync_handle e) 255] u else u)"
    by (simp add: follows_intros)
  moreover have "follows (if pa_status e = 0 then emit_bis [PADV_ALLOC_SEGMENT_ASSEMBLER (pa_sync_handle e) 255] u else u) v"
    using v by (rule notify_pa_follows) simp
  ultimately have "sync_bound n v" using s follows_trans sync_bound_follows by blast
  then have "creates v \<le> Suc n" "broadcast_ok v" by (auto simp: sync_bound_def split: if_splits)
  then show ?thesis using t
    by (auto intro!: next_sync_bound simp: lehs_broadcast_set_sync_progress_def broadcast_ok_def creates_def emit_bis_def)
qed

lemma sync_to_found_bound: "sync_bound n s \<Longrightarrow> sync_bound n (sync_to_found env br_id r s)"
proof -
  assume s: "sync_bound n s"
  obtain p u where u: "lehs_bis_alloc_big br_id (scan_bda r) (scan_adv_sid r) s = (p, u)" by fastforce
  then have b: "sync_bound n u" using alloc_big_follows sync_bound_follows s by blast
  have "sync_bound n (emit_bis [EXT_SCAN_REGISTER_CB NO_SCAN_CBACK]
      (broadcast_sink_create_periodic_sync env (Some r) (upd_big b (\<lambda>g. g\<lparr>pa_sync_in_progress := True\<rparr>) u)))" for b
    using b by (intro sync_bound_follows [OF follows_emit_bis [OF follows_refl]] create_sync_bound
        sync_bound_follows [OF follows_upd_big [OF _ follows_refl]]) (simp_all add: sink_ok_def)
  with u b show ?thesis by (auto simp: sync_to_found_def Let_def split: option.splits)
qed

lemma sync_scan_bound:
  assumes "broadcast_sink_bis_ext_adv_scan_to_sync_cback env junk r m data s = Some t" "sync_bound n s"
  shows "sync_bound n t"
  using assms by (auto simp: broadcast_sink_bis_ext_adv_scan_to_sync_cback_def bind_eq_Some_conv sync_to_found_bound
      split: option.split_asm if_split_asm)

lemma lost_follows: "follows (upd_big b (sync_state_update (\<lambda>_. x)) s) y \<Longrightarrow> follows s y"
  by (rule follows_trans [of s "upd_big b (sync_state_update (\<lambda>_. x)) s"]) (auto intro!: follows_upd_big simp: sink_ok_def)

lemma step_bound:
  assumes "broadcast_step env old junk x s = Some t" "sync_bound n s"
  shows "sync_bound (answers [(old, junk, x)] + n) t"
proof (cases "follows s t")
  case True
  then have "sync_bound n t" using assms(2) by (rule sync_bound_follows)
  then show ?thesis by (auto simp: sync_bound_def)
next
  case nf: False
  then show ?thesis
  proof (cases x)
    case (ADV_EVENT ev)
    with nf assms obtain e where "ev = PADV_SYNC_ESTABLISHED_EVENT e"
      by (cases ev) (auto simp: lehs_ext_adv_cback_def bind_eq_Some_conv sink_ok_def split: if_splits option.splits
          dest!: transfer_param_follows transfer_follows padv_report_follows big_adv_report_follows notify_pa_follows lost_follows
          intro!: follows_intros elim!: notE [of "follows s t"] intro: follows_trans)
    with ADV_EVENT assms show ?thesis by (simp add: lehs_ext_adv_cback_def answers_def established_bound)
  next
    case (SYNC_SCAN_REPORT r m data)
    then show ?thesis using assms sync_scan_bound by (simp add: answers_def)
  qed (use assms in \<open>auto dest: isoc_follows scan_follows bass_write_follows host_sync_follows terminate_follows
      intro: follows_intros follows_refl\<close>)
qed


text \<open>C25: Through every sequence of stack events, scan reports, requests of clients and commands of the host that stays in bounds
  the arrays keep their sizes, a used receive state has its subgroups and the identifier of its place, and no other
  synchronisation and encryption states than those of the profile appear. A queued scan result waits for a synchronisation that
  runs, and the controller, which takes one request for a periodic synchronisation at a time, is asked for the next one only when
  the last was answered.\<close>

theorem broadcast_sink_invariant:
  assumes "broadcast_run env xs s = Some t" "broadcast_ok s" "pending_scan_q s = []" "\<not> periodic_sync_in_progress s"
  shows "broadcast_ok t \<and> (pending_scan_q t = [] \<or> periodic_sync_in_progress t) \<and>
    creates t \<le> creates s + answers xs + (if periodic_sync_in_progress t then 1 else 0)"
proof -
  have "broadcast_run env xs s = Some t \<Longrightarrow> sync_bound n s \<Longrightarrow> sync_bound (answers xs + n) t" for n
  proof (induction xs arbitrary: s n)
    case (Cons y xs)
    obtain old junk x where y: "y = (old, junk, x)" by (cases y) auto
    then obtain u where "broadcast_step env old junk x s = Some u" "broadcast_run env xs u = Some t"
      using Cons.prems(1) by (auto simp: bind_eq_Some_conv)
    then have "sync_bound (answers xs + (answers [y] + n)) t" using Cons step_bound y by blast
    moreover have "answers (y # xs) = answers xs + answers [y]" by (simp add: answers_def)
    ultimately show ?case by (simp add: add.assoc)
  qed (simp add: answers_def)
  from this [of "creates s"] assms have "sync_bound (answers xs + creates s) t" by (simp add: sync_bound_def)
  then show ?thesis by (auto simp: sync_bound_def)
qed

section \<open>Removing a source\<close>

lemma parse_remove: "ga_lib_bass_parse_control_point_data old [5, sid] 2 = Some (Inr (REMOVE_SOURCE sid))"
  by (simp add: ga_lib_bass_parse_control_point_data_def bass_validate_opcode_length_def start_def)

lemma one_source:
  "broadcast_ok s \<Longrightarrow> lehs_find_source sid s = Some i \<Longrightarrow>
     i = 0 \<and> length (bass_data s) = 1 \<and> is_used (bass_data s ! 0) \<and> receive_ok 0 (bass_data s ! 0)"
  by (auto simp: broadcast_ok_def lehs_find_source_def dest!: find_index_Some)

lemma one_big: "broadcast_ok s \<Longrightarrow> \<exists>b. broadcast_sink_cb s = [b]"
  by (auto simp: broadcast_ok_def length_Suc_conv)

lemma notify_empty:
  assumes "take BD_ADDR_LEN (addr_octets env 0 (replicate BD_ADDR_LEN 0)) = replicate BD_ADDR_LEN 0" "i < length (bass_data s)"
  shows "lehs_notify_recv_state_char env i (upd_recv_state i (\<lambda>_. zero_recv_state) s) =
    Some (emit_server (sent_value (bis_gatt env) (server_clcbs s) (bass_conn_id (bass_data s ! i)) HDLC_BASS_BROADCAST_RECEIVE_STATE_1_VALUE [])
      (upd_recv_state i (\<lambda>_. zero_recv_state) s))"
  using assms by (simp add: lehs_notify_recv_state_char_def ga_lib_bass_notify_recv_state_def upd_recv_state_def server_notify_state
      ga_lib_bass_build_receive_state_char_data_def zero_recv_state_def)

lemma remove_cases:
  assumes "has_sub_group_data (recv_state (bass_data s ! i))"
  shows "bass_remove_source env i s =
    (if pa_sync_state (recv_state (bass_data s ! i)) = GA_LIB_BASS_PA_SYNC \<or> bis_sync_state (bass_sub_group (bass_data s ! i) ! 0) \<noteq> 0
     then Some (GATT_RESULT WICED_UNSUPPORTED, s)
     else do {
       let s = (case lehs_bis_get_big_by_broadcast_id (recv_broadcast_id (recv_state (bass_data s ! i))) s of
                  None \<Rightarrow> s | Some b \<Rightarrow> upd_big b (\<lambda>_. zero_big) s);
       s \<leftarrow> lehs_notify_recv_state_char env i (upd_recv_state i (\<lambda>_. zero_recv_state) s);
       Some (GATT_SUCCESS, upd_bass i (\<lambda>_. zero_bass_data) s) })"
  using assms by (cases "pa_sync_state (recv_state (bass_data s ! i)) = GA_LIB_BASS_PA_SYNC")
    (simp_all add: bass_remove_source_def get_pa_sync_state_def get_bis_sync_state_def)

text \<open>C27: Remove Source of a source the server is synchronised to, to its periodic advertisement or to a stream, is refused and
  changes nothing. Otherwise the receive state is freed, the control block of the broadcast with it, and the client that had added
  the source is sent an empty value.\<close>

theorem remove_source_request:
  assumes "lehs_bass_handle_write_req_evt env old cid [GA_LIB_BASS_OP_REMOVE_SOURCE, sid] 2 s = Some (st, t)"
    "lehs_find_source sid s = Some i" "broadcast_ok s"
    "take BD_ADDR_LEN (addr_octets env 0 (replicate BD_ADDR_LEN 0)) = replicate BD_ADDR_LEN 0"
  shows "if pa_sync_state (recv_state (bass_data s ! i)) = GA_LIB_BASS_PA_SYNC \<or> bis_sync_state (bass_sub_group (bass_data s ! i) ! 0) \<noteq> 0
    then st = GATT_RESULT WICED_UNSUPPORTED \<and> t = s
    else st = GATT_SUCCESS \<and> bass_data t ! i = zero_bass_data \<and>
      lehs_bis_get_big_by_broadcast_id (recv_broadcast_id (recv_state (bass_data s ! i))) t = None \<and>
      actions t = actions s @ sent_value (bis_gatt env) (server_clcbs s) (bass_conn_id (bass_data s ! i))
        HDLC_BASS_BROADCAST_RECEIVE_STATE_1_VALUE []"
proof -
  have w: "bass_remove_source env i s = Some (st, t)"
    using assms(1,2) by (simp add: lehs_bass_handle_write_req_evt_def parse_remove bass_operation_def)
  note one = one_source [OF assms(3,2)]
  obtain b where b: "broadcast_sink_cb s = [b]" using one_big [OF assms(3)] by blast
  have sub: "has_sub_group_data (recv_state (bass_data s ! i))" "i < length (bass_data s)" using one by (auto simp: receive_ok_def)
  let ?r = "recv_state (bass_data s ! i)"
  let ?u = "case lehs_bis_get_big_by_broadcast_id (recv_broadcast_id ?r) s of None \<Rightarrow> s | Some b \<Rightarrow> upd_big b (\<lambda>_. zero_big) s"
  have u: "bass_data ?u = bass_data s" "server_clcbs ?u = server_clcbs s" "actions ?u = actions s"
    "lehs_bis_get_big_by_broadcast_id (recv_broadcast_id ?r) ?u = None"
    by (auto simp: lehs_bis_get_big_by_broadcast_id_def b zero_big_def split: option.splits)
  show ?thesis
  proof (cases "pa_sync_state ?r = GA_LIB_BASS_PA_SYNC \<or> bis_sync_state (bass_sub_group (bass_data s ! i) ! 0) \<noteq> 0")
    case True
    then show ?thesis using w by (auto simp: remove_cases [OF sub(1)])
  next
    case False
    have "st = GATT_SUCCESS" "t = upd_bass i (\<lambda>_. zero_bass_data) (emit_server (sent_value (bis_gatt env) (server_clcbs s)
        (bass_conn_id (bass_data s ! i)) HDLC_BASS_BROADCAST_RECEIVE_STATE_1_VALUE []) (upd_recv_state i (\<lambda>_. zero_recv_state) ?u))"
      using w False notify_empty [OF assms(4), of i ?u] sub(2) u by (simp_all add: remove_cases [OF sub(1)] Let_def)
    then show ?thesis using False sub(2) u
      by (simp add: upd_recv_state_def lehs_bis_get_big_by_broadcast_id_def)
  qed
qed

text \<open>C28: While a synchronisation to the periodic advertisement of a source is pending the source can be removed: the request of any
  client succeeds, frees the control block that waits and cancels nothing, so the synchronisation stays pending. The answer the
  controller then gives for that advertisement finds no control block, and the handler writes and reads through a pointer behind the
  array.\<close>

theorem answer_after_removal_fault:
  assumes "broadcast_ok s" "lehs_find_source sid s = Some i"
    "lehs_bis_get_big_by_broadcast_id (recv_broadcast_id (recv_state (bass_data s ! i))) s = Some b"
    "pa_sync_in_progress (broadcast_sink_cb s ! b)" "adv_handle (broadcast_sink_cb s ! b) = pa_adv_sid e" "periodic_sync_in_progress s"
    "pa_sync_state (recv_state (bass_data s ! i)) \<noteq> GA_LIB_BASS_PA_SYNC" "bis_sync_state (bass_sub_group (bass_data s ! i) ! 0) = 0"
    "take BD_ADDR_LEN (addr_octets env 0 (replicate BD_ADDR_LEN 0)) = replicate BD_ADDR_LEN 0"
  shows "\<exists>t. lehs_bass_handle_write_req_evt env old cid [GA_LIB_BASS_OP_REMOVE_SOURCE, sid] 2 s = Some (GATT_SUCCESS, t) \<and>
    periodic_sync_in_progress t \<and> BROADCAST PADV_CANCEL_SYNC \<notin> set (drop (length (actions s)) (actions t)) \<and>
    lehs_ext_adv_cback env (PADV_SYNC_ESTABLISHED_EVENT e) t = None"
proof -
  note one = one_source [OF assms(1,2)]
  have sub: "has_sub_group_data (recv_state (bass_data s ! i))" "i < length (bass_data s)" using one by (auto simp: receive_ok_def)
  obtain big where big: "broadcast_sink_cb s = [big]" using one_big [OF assms(1)] by blast
  then have "b = 0" using assms(3) by (simp add: lehs_bis_get_big_by_broadcast_id_def split: if_splits)
  let ?u = "upd_big 0 (\<lambda>_. zero_big) s"
  let ?sent = "sent_value (bis_gatt env) (server_clcbs s) (bass_conn_id (bass_data s ! i)) HDLC_BASS_BROADCAST_RECEIVE_STATE_1_VALUE []"
  let ?t = "upd_bass i (\<lambda>_. zero_bass_data) (emit_server ?sent (upd_recv_state i (\<lambda>_. zero_recv_state) ?u))"
  have "bass_remove_source env i s = Some (GATT_SUCCESS, ?t)"
    using assms(3,7,8) \<open>b = 0\<close> notify_empty [OF assms(9), of i ?u] sub(2) by (simp add: remove_cases [OF sub(1)] Let_def)
  then have w: "lehs_bass_handle_write_req_evt env old cid [GA_LIB_BASS_OP_REMOVE_SOURCE, sid] 2 s = Some (GATT_SUCCESS, ?t)"
    using assms(2) by (simp add: lehs_bass_handle_write_req_evt_def parse_remove bass_operation_def)
  have none: "broadcast_sink_cb ?t = [zero_big]" by (simp add: big upd_recv_state_def)
  then have "broadcast_sink_handle_periodic_sync_established_event env e ?t \<in> {None, Some (1, upd_big 1 (\<lambda>g. g\<lparr>pa_sync_in_progress := False\<rparr>) ?t)}"
    by (simp add: broadcast_sink_handle_periodic_sync_established_event_def zero_big_def Let_def)
  moreover have "lehs_bass_notify_pa_sync_state env 1 st (emit_bis acts (upd_big 1 f ?t)) = None"
    "lehs_bass_notify_pa_sync_state env 1 st (upd_big 1 f ?t) = None" for st acts f
    using none by (simp_all add: lehs_bass_notify_pa_sync_state_def arr_get_def emit_bis_def)
  ultimately have "lehs_ext_adv_cback env (PADV_SYNC_ESTABLISHED_EVENT e) ?t = None"
    by (auto simp: lehs_ext_adv_cback_def periodic_sync_established_def Let_def)
  moreover have "periodic_sync_in_progress ?t" "actions ?t = actions s @ ?sent"
    using assms(6) by (simp_all add: upd_recv_state_def)
  moreover have "BROADCAST PADV_CANCEL_SYNC \<notin> set ?sent" by (auto simp: sent_value_def Let_def)
  ultimately show ?thesis using w by (intro exI [of _ ?t]) simp
qed

section \<open>Streams without a preference\<close>

lemma own_bit: "1 \<le> k \<Longrightarrow> k \<le> 31 \<Longrightarrow> bit (ucast k :: u32) (unat k - 1) \<longleftrightarrow> k \<le> 2" for k :: u8
proof -
  assume k: "1 \<le> k" "k \<le> 31"
  have "unat k \<in> set [1..<32]" using k by (simp add: word_le_nat_alt)
  moreover have "k = of_nat (unat k)" by simp
  ultimately obtain n where "n \<in> set [1..<32]" "k = of_nat n" by blast
  then show ?thesis by (simp add: upt_rec) (elim disjE; simp)
qed

text \<open>The streams whose bit is set, in the order of the group.\<close>

definition streams_of_bits :: "u32 \<Rightarrow> le_audio_bap_broadcast_bis_group list \<Rightarrow> u8 list" where
  "streams_of_bits bits xs = map bis_idx (filter (\<lambda>x. bit bits (unat (bis_idx x) - 1)) xs)"

lemma select_streams:
  assumes "i + n \<le> length (bis_config g)" "list_all (\<lambda>x. 1 \<le> bis_idx x \<and> bis_idx x \<le> 31) (take n (drop i (bis_config g)))" "k + n \<le> length l"
  shows "\<exists>m l'. select_bises bits g i n k l = Some (m, l') \<and>
    take m l' = take k l @ streams_of_bits bits (take n (drop i (bis_config g)))"
  using assms
proof (induction n arbitrary: i k l)
  case (Suc n)
  let ?x = "bis_config g ! i"
  have d: "take (Suc n) (drop i (bis_config g)) = ?x # take n (drop (Suc i) (bis_config g))"
    using Suc.prems(1) by (simp add: Cons_nth_drop_Suc [symmetric])
  have sel: "bis_selected bits (bis_idx ?x) = Some (bit bits (unat (bis_idx ?x) - 1))"
    using Suc.prems(2) by (simp add: d bis_selected_def)
  have k: "take (Suc k) (l[k := bis_idx ?x]) = take k l @ [bis_idx ?x]"
    using Suc.prems(3) by (simp add: take_Suc_conv_app_nth)
  show ?case
    using Suc.prems Suc.IH [of "Suc i" "Suc k" "l[k := bis_idx ?x]"] Suc.IH [of "Suc i" k l] sel k
    by (auto simp: d arr_get_def arr_set_def streams_of_bits_def)
qed (simp add: streams_of_bits_def)

text \<open>A bit is set when some stream of the location has it in its index.\<close>

lemma fitting_bits:
  assumes "i + n \<le> length (bis_config g)"
  shows "\<exists>bits'. fitting_bises location g i n bits = Some bits' \<and>
    (\<forall>j. bit bits' j \<longleftrightarrow> bit bits j \<or>
      (\<exists>x\<in>set (take n (drop i (bis_config g))). audio_channel_allocation (bis_csc x) AND location \<noteq> 0 \<and> bit (bis_idx x) j))"
  using assms
proof (induction n arbitrary: i bits)
  case (Suc n)
  let ?x = "bis_config g ! i"
  have d: "take (Suc n) (drop i (bis_config g)) = ?x # take n (drop (Suc i) (bis_config g))"
    using Suc.prems by (simp add: Cons_nth_drop_Suc [symmetric])
  have idx: "bit (ucast (bis_idx ?x) :: u32) j = bit (bis_idx ?x) j" for j
    by (auto simp: bit_unsigned_iff dest: bit_imp_le_length)
  show ?case
    using Suc.prems Suc.IH [of "Suc i" "if audio_channel_allocation (bis_csc ?x) AND location \<noteq> 0 then bits OR ucast (bis_idx ?x) else bits"]
    by (auto simp: d arr_get_def bit_or_iff idx)
qed simp

text \<open>C29: Without a preference of the client the streams are chosen by the indices of those for a location of the headset, taken for sets
  of bits: a stream is received when the index of some such stream has the bit of its own index less one. When the BIG has one
  stream, and it is for the headset, that means: it is received when its index is 1 or 2, and with any other index the BIG is
  synchronised to without a stream.\<close>

theorem no_preference_stream:
  assumes "broadcast_ok s" "bis_index_bits (bass_data s ! i) = 0xFFFFFFFF" "i < length (bass_data s)"
    "lehs_bis_get_big_by_broadcast_id (recv_broadcast_id (recv_state (bass_data s ! i))) s = Some b" "big = broadcast_sink_cb s ! b"
    "bis_cnt (first_group big) \<le> 2" "streams = take (unat (bis_cnt (first_group big))) (bis_config (first_group big))"
    "list_all (\<lambda>x. 1 \<le> bis_idx x \<and> bis_idx x \<le> 31) streams"
    "fits = (\<lambda>x. audio_channel_allocation (bis_csc x) AND snk_audio_location (pacs_app_data s) \<noteq> 0)"
  shows "\<exists>t chosen. lehs_bass_synchronize_to_source i s = Some t \<and>
    actions t = actions s @ [BROADCAST (BIG_CREATE_SYNC (big_handle big) (sync_handle big) (number_of_subevents big)
      (uint (iso_interval big) * 10) chosen (if b_encryption big then Some (sink_broadcast_code big) else None))] \<and>
    chosen = map bis_idx (filter (\<lambda>x. \<exists>y\<in>set streams. fits y \<and> bit (bis_idx y) (unat (bis_idx x) - 1)) streams) \<and>
    (\<forall>x. streams = [x] \<and> fits x \<longrightarrow> chosen = (if bis_idx x \<le> 2 then [bis_idx x] else []))"
proof -
  let ?g = "first_group big"
  have "b < length (broadcast_sink_cb s)" using assms(4) by (auto simp: lehs_bis_get_big_by_broadcast_id_def dest: find_index_Some)
  then have "sink_ok big" using assms(1,5) by (auto simp: broadcast_ok_def list_all_length)
  then have sizes: "length (bis_index_list big) = 4" "length (bis_config ?g) = 2"
    by (auto simp: sink_ok_def base_shape_def first_group_def list_all_length dest: spec [of _ 0])
  have n: "unat (bis_cnt ?g) \<le> 2" using assms(6) by (simp add: word_le_nat_alt)
  obtain bits where bits: "fitting_bises (snk_audio_location (pacs_app_data s)) ?g 0 (unat (bis_cnt ?g)) 0 = Some bits"
    "\<And>j. bit bits j \<longleftrightarrow> (\<exists>y\<in>set streams. fits y \<and> bit (bis_idx y) j)"
    using fitting_bits [of 0 "unat (bis_cnt ?g)" ?g "snk_audio_location (pacs_app_data s)" 0] n sizes assms(7,9) by auto
  obtain m l where sel: "select_bises bits ?g 0 (unat (bis_cnt ?g)) 0 (bis_index_list big) = Some (m, l)"
    "take m l = streams_of_bits bits streams"
    using select_streams [of 0 "unat (bis_cnt ?g)" ?g 0 "bis_index_list big" bits] n sizes assms(7,8) by auto
  have "streams_of_bits bits streams = (if bis_idx x \<le> 2 then [bis_idx x] else [])" if "streams = [x]" "fits x" for x
    using that assms(8) own_bit [of "bis_idx x"] bits(2) by (auto simp: streams_of_bits_def bit_unsigned_iff word_le_nat_alt)
  then show ?thesis using bits sel assms(2-5)
    by (intro exI [of _ "the (lehs_bass_synchronize_to_source i s)"] exI [of _ "streams_of_bits bits streams"])
      (simp add: lehs_bass_synchronize_to_source_def lehs_sync_to_source_def Let_def emit_bis_def streams_of_bits_def)
qed

section \<open>A BIG is received\<close>

definition same_streams :: "lehs_broadcast_sink_cb \<Rightarrow> lehs_broadcast_sink_cb \<Rightarrow> bool" where
  "same_streams a b \<longleftrightarrow> sync_state b = sync_state a \<and> big_sync_in_progress b = big_sync_in_progress a \<and>
     bis_conn_id_list b = bis_conn_id_list a \<and> bis_conn_id_count b = bis_conn_id_count a \<and>
     big_bd_addr b = big_bd_addr a \<and> base_broadcast_id (base b) = base_broadcast_id (base a)"

definition same_receiver :: "server_state \<Rightarrow> server_state \<Rightarrow> bool" where
  "same_receiver s t \<longleftrightarrow> bass_data t = bass_data s \<and> server_clcbs t = server_clcbs s \<and> (\<exists>acts. actions t = actions s @ acts) \<and>
     list_all2 same_streams (broadcast_sink_cb s) (broadcast_sink_cb t)"

lemma same_receiver_trans: "same_receiver s t \<Longrightarrow> same_receiver t u \<Longrightarrow> same_receiver s u"
  by (auto simp: same_receiver_def list_all2_conv_all_nth same_streams_def)

lemma set_location_same: "same_streams big (set_first_location aca big)"
  by (simp add: same_streams_def set_first_location_def upd_group_def)

lemma same_update: "list_all2 same_streams bs (bs[b := set_first_location aca (bs ! b)])"
  unfolding list_all2_conv_all_nth
proof (intro conjI allI impI)
  show "same_streams (bs ! j) (bs[b := set_first_location aca (bs ! b)] ! j)" if "j < length bs" for j
    using that by (cases "j = b") (simp_all add: set_location_same, simp add: same_streams_def)
qed simp

lemma same_receiver_step: "same_receiver s (emit_path acts (upd_big b (set_first_location aca) s))" "same_receiver s (upd_big b (set_first_location aca) s)"
  by (simp_all add: same_receiver_def emit_path_def same_update)

lemma setup_bis_loop_receiver: "setup_bis_loop env b i n ret s = Some (r, t) \<Longrightarrow> same_receiver s t"
proof (induction n arbitrary: i ret s)
  case 0
  then show ?case by (auto simp: same_receiver_def same_streams_def list_all2_conv_all_nth)
next
  case (Suc n)
  have "same_receiver s s" by (auto simp: same_receiver_def same_streams_def list_all2_conv_all_nth)
  then show ?case using Suc.prems same_receiver_step
    by (auto simp: bind_eq_Some_conv Let_def split: prod.splits if_splits dest!: Suc.IH elim: same_receiver_trans [rotated])
qed

lemma setup_bis_stream_receiver: "lehs_isoc_dhm_setup_bis_stream env b n s = Some (r, t) \<Longrightarrow> same_receiver s t"
  by (auto simp: lehs_isoc_dhm_setup_bis_stream_def Let_def emit_path_def split: prod.splits
      dest!: setup_bis_loop_receiver) (auto simp: same_receiver_def)

text \<open>The value a client reads or is notified of.\<close>

definition receive_value :: "bis_env \<Rightarrow> lehs_bass_data \<Rightarrow> u8 list option" where
  "receive_value env d = ga_lib_bass_build_receive_state_char_data (addr_octets env) ((recv_state d)\<lparr>has_sub_group_data := True\<rparr>) (bass_sub_group d) 256"

lemma notify_value:
  "lehs_notify_recv_state_char env i s = Some t \<longleftrightarrow>
   (\<exists>data. receive_value env (bass_data s ! i) = Some data \<and> length data \<le> 256 \<and>
      t = emit_server (sent_value (bis_gatt env) (server_clcbs s) (bass_conn_id (bass_data s ! i)) HDLC_BASS_BROADCAST_RECEIVE_STATE_1_VALUE data) s)"
  by (cases "receive_value env (bass_data s ! i)")
    (auto simp: lehs_notify_recv_state_char_def ga_lib_bass_notify_recv_state_def receive_value_def Let_def server_notify_state)

text \<open>C26: When the controller has synchronised to a BIG, its control block keeps the handles of the streams, the receive state of the source shows
  the streams that were asked for as received, the periodic advertisement as left and no encryption pending, and the client that
  added the source is notified of just that value.\<close>

theorem big_reception_reported:
  assumes "lehs_bis_isoc_cb env (BIG_SYNC_ESTABLISHED_EVT 0 h n hdls) s = Some t" "broadcast_ok s"
    "lehs_bis_get_big_by_handle h s = Some b"
    "lehs_bass_find_source_by_bda (base_broadcast_id (base (broadcast_sink_cb s ! b))) (big_bd_addr (broadcast_sink_cb s ! b)) s = Some i"
  shows "sync_state (broadcast_sink_cb t ! b) = BROADCAST_BIG_SYNC_ESTABLISHED env \<and> \<not> big_sync_in_progress (broadcast_sink_cb t ! b) \<and>
    bis_conn_id_count (broadcast_sink_cb t ! b) = n \<and> take (unat n) (bis_conn_id_list (broadcast_sink_cb t ! b)) = take (unat n) hdls \<and>
    bis_sync_state (bass_sub_group (bass_data t ! i) ! 0) = bis_index_bits (bass_data s ! i) \<and>
    pa_sync_state (recv_state (bass_data t ! i)) = GA_LIB_BASS_PA_NOT_SYNC \<and> big_encryption_state (recv_state (bass_data t ! i)) = 0 \<and>
    (\<exists>data before. receive_value env (bass_data t ! i) = Some data \<and>
       actions t = before @ sent_value (bis_gatt env) (server_clcbs s) (bass_conn_id (bass_data s ! i)) HDLC_BASS_BROADCAST_RECEIVE_STATE_1_VALUE data)"
proof -
  let ?big = "broadcast_sink_cb s ! b"
  let ?u = "upd_big b (\<lambda>g. g\<lparr>sync_state := BROADCAST_BIG_SYNC_ESTABLISHED env, big_sync_in_progress := False,
       bis_conn_id_list := take (unat n) hdls @ drop (unat n) (bis_conn_id_list g), bis_conn_id_count := n\<rparr>)
     (emit_bis [RPC_BROADCAST_STATUS (BROADCAST_BIG_SYNC_ESTABLISHED env), EXT_SCAN_ENABLE False, PADV_TERMINATE_SYNC (sync_handle ?big)] s)"
  from assms(1,3) obtain r v where n: "unat n \<le> length hdls" "unat n \<le> length (bis_conn_id_list ?big)"
    and v: "lehs_isoc_dhm_setup_bis_stream (bis_audio env) b n ?u = Some (r, v)" and t: "lehs_bass_notify_big_sync_state env b v = Some t"
    by (auto simp: lehs_bis_isoc_cb_def big_sync_established_def Let_def bind_eq_Some_conv split: if_split_asm)
  have b: "b < length (broadcast_sink_cb s)" using assms(3) by (auto simp: lehs_bis_get_big_by_handle_def dest: find_index_Some)
  have i: "i < length (bass_data s)" "receive_ok i (bass_data s ! i)" "is_used (bass_data s ! i)"
    using assms(2,4) by (auto simp: broadcast_ok_def lehs_bass_find_source_by_bda_def dest!: find_index_Some)
  have u: "bass_data ?u = bass_data s" "server_clcbs ?u = server_clcbs s" "broadcast_sink_cb ?u ! b = ?big\<lparr>sync_state := BROADCAST_BIG_SYNC_ESTABLISHED env, big_sync_in_progress := False,
       bis_conn_id_list := take (unat n) hdls @ drop (unat n) (bis_conn_id_list ?big), bis_conn_id_count := n\<rparr>" "length (broadcast_sink_cb ?u) = length (broadcast_sink_cb s)"
    using b by (simp_all add: emit_bis_def)
  have vs: "same_receiver ?u v" using v by (rule setup_bis_stream_receiver)
  then have bv: "same_streams (broadcast_sink_cb ?u ! b) (broadcast_sink_cb v ! b)" "b < length (broadcast_sink_cb v)"
    using b u(4) by (auto simp: same_receiver_def list_all2_conv_all_nth)
  have dv: "bass_data v = bass_data s" "server_clcbs v = server_clcbs s" using vs u by (auto simp: same_receiver_def)
  have big: "sync_state (broadcast_sink_cb v ! b) = BROADCAST_BIG_SYNC_ESTABLISHED env" "\<not> big_sync_in_progress (broadcast_sink_cb v ! b)"
    "bis_conn_id_count (broadcast_sink_cb v ! b) = n" "take (unat n) (bis_conn_id_list (broadcast_sink_cb v ! b)) = take (unat n) hdls"
    "big_bd_addr (broadcast_sink_cb v ! b) = big_bd_addr ?big" "base_broadcast_id (base (broadcast_sink_cb v ! b)) = base_broadcast_id (base ?big)"
    using bv(1) n unfolding u(3) by (simp_all add: same_streams_def)
  have find: "lehs_bass_find_source_by_bda (base_broadcast_id (base (broadcast_sink_cb v ! b))) (big_bd_addr (broadcast_sink_cb v ! b)) v = Some i"
    using assms(4) big dv(1) by (simp add: lehs_bass_find_source_by_bda_def)
  have sub: "has_sub_group_data (recv_state (bass_data s ! i))" "bass_sub_group (bass_data s ! i) \<noteq> []"
    using i by (auto simp: receive_ok_def)
  let ?w = "set_big_encryption_state i 0 (set_pa_sync_state i GA_LIB_BASS_PA_NOT_SYNC
     (upd_bass i (\<lambda>d. d\<lparr>bass_sub_group := (bass_sub_group d)[0 := (bass_sub_group d ! 0)\<lparr>bis_sync_state := bis_index_bits (bass_data s ! i)\<rparr>]\<rparr>) v))"
  have "lehs_notify_recv_state_char env i ?w = Some t"
    using t find bv(2) big(1) dv(1) sub by (simp add: lehs_bass_notify_big_sync_state_def arr_get_def set_bis_sync_state_def)
  then obtain data where "receive_value env (bass_data ?w ! i) = Some data"
    "t = emit_server (sent_value (bis_gatt env) (server_clcbs ?w) (bass_conn_id (bass_data ?w ! i)) HDLC_BASS_BROADCAST_RECEIVE_STATE_1_VALUE data) ?w"
    by (auto simp: notify_value)
  then show ?thesis using big i(1) dv sub
    by (auto simp: set_big_encryption_state_def set_pa_sync_state_def upd_recv_state_def)
qed

section \<open>Examples\<close>

definition example_bis :: bis_env where
  "example_bis = \<lparr>bis_adv = example_adv, bis_gatt = example_env,
     bis_audio = \<lparr>setup_result = (\<lambda>_. WICED_SUCCESS), open_stream_id = (\<lambda>_. 1)\<rparr>, scan_buffer = True, addr_octets = (\<lambda>t a. rev a @ [t]),
     device_address = (\<lambda>_. [1, 2, 3, 4, 5, 6]), bis_acl_conn_handle = id, BROADCAST_PA_SYNC_ESTABLISHED = 1, BROADCAST_PA_SYNC_LOST = 2,
     BROADCAST_BIG_SYNC_ESTABLISHED = 3, BROADCAST_BIG_SYNC_LOST = 4, BROADCAST_BIG_SYNC_TERMINATED = 5\<rparr>"

definition example_source_data :: ga_lib_bass_common_source_data where
  "example_source_data = \<lparr>pa_sync_param = 0, pa_interval = 0, src_num_subgroup = 0,
     src_sub_groups = replicate GA_LIB_BASS_MAX_SUBGROUP_COUNT zero_sub_group_data\<rparr>"

definition example_rcv :: le_audio_rcv_public_broadcast where
  "example_rcv = \<lparr>rcv_encryption = False, rcv_audio_config = GA_LIB_PBP_GENERIC_CODEC_PUBLIC_BROADCAST_AUDIO, public_broadcast_feature = 0,
      rcv_metadata_length = 0, rcv_metadata = replicate 152 0, rcv_broadcast_name = replicate 32 0, source_appearance_value = 0\<rparr>"

text \<open>A client adds the source 77, which is then found by a scan.\<close>

definition example_add :: "u8 list" where
  "example_add = [2, 0, 6, 5, 4, 3, 2, 1, 9, 77, 0, 0, 2, 255, 255, 1, 1, 0, 0, 0, 0]"

definition example_announcement :: "u8 list" where
  "example_announcement = [6, 0x16, 0x52, 0x18, 77, 0, 0]"

definition example_scan :: ext_scan_results where
  "example_scan = \<lparr>scan_evt_type = 0, scan_addr_type = 0, scan_bda = [1, 2, 3, 4, 5, 6], scan_adv_sid = 9, periodic_adv_interval = 80\<rparr>"

definition example_answer :: padv_sync_established where
  "example_answer = \<lparr>pa_status = 0, pa_sync_handle = 7, pa_adv_sid = 9, pa_addr_type = 0, pa_bda = [1, 2, 3, 4, 5, 6], pa_interval_reported = 80\<rparr>"

definition example_inputs :: "broadcast_input list" where
  "example_inputs = [BASS_REQUEST 1 example_add 21, SYNC_SCAN_REPORT (Some example_scan) 7 example_announcement,
     ADV_EVENT (PADV_SYNC_ESTABLISHED_EVENT example_answer)]"

definition example_moments :: "broadcast_moment list" where
  "example_moments = map (\<lambda>x. (example_source_data, example_rcv, x)) example_inputs"

lemma example_runs: "case broadcast_run example_bis example_moments (example_unset []) of None \<Rightarrow> False
   | Some t \<Rightarrow> creates t = 1 \<and> answers example_moments = 1 \<and> \<not> periodic_sync_in_progress t \<and> pa_sync_state (recv_state (bass_data t ! 0)) = 2"
  by code_simp


text \<open>A source that is in use, with the control block of its BIG.\<close>

definition example_receiver :: "u8 \<Rightarrow> u32 \<Rightarrow> u8 \<Rightarrow> server_state" where
  "example_receiver pa bits k = upd_big 0 (\<lambda>g. g\<lparr>big_in_use := True, big_handle := 9, adv_handle := 9, big_bd_addr := [1, 2, 3, 4, 5, 6],
       base := zero_base\<lparr>base_broadcast_id := 77, sub_group := [zero_base_group\<lparr>bis_cnt := 1,
         bis_config := [zero_bis_group\<lparr>bis_idx := k, bis_csc := zero_csc\<lparr>audio_channel_allocation := 1\<rparr>\<rparr>, zero_bis_group]\<rparr>, zero_base_group]\<rparr>\<rparr>)
     (upd_bass 0 (\<lambda>d. d\<lparr>is_used := True, bass_conn_id := 1, bis_index_bits := bits, recv_state := zero_recv_state\<lparr>source_bda := [1, 2, 3, 4, 5, 6],
       adv_sid := 9, recv_broadcast_id := 77, pa_sync_state := pa, num_subgroup := 1, has_sub_group_data := True\<rparr>\<rparr>)
     (example_unset [zero_clcb\<lparr>in_use := True, conn_id := 1\<rparr>]))"

lemma example_receiver_parts [simp]:
  "broadcast_sink_cb (example_receiver pa bits k) = [zero_big\<lparr>big_in_use := True, big_handle := 9, adv_handle := 9, big_bd_addr := [1, 2, 3, 4, 5, 6],
       base := zero_base\<lparr>base_broadcast_id := 77, sub_group := [zero_base_group\<lparr>bis_cnt := 1,
         bis_config := [zero_bis_group\<lparr>bis_idx := k, bis_csc := zero_csc\<lparr>audio_channel_allocation := 1\<rparr>\<rparr>, zero_bis_group]\<rparr>, zero_base_group]\<rparr>\<rparr>]"
  "bass_data (example_receiver pa bits k) = [zero_bass_data\<lparr>is_used := True, bass_conn_id := 1, bis_index_bits := bits, recv_state := zero_recv_state\<lparr>source_bda := [1, 2, 3, 4, 5, 6],
       adv_sid := 9, recv_broadcast_id := 77, pa_sync_state := pa, num_subgroup := 1, has_sub_group_data := True\<rparr>\<rparr>]"
  "server_clcbs (example_receiver pa bits k) = [zero_clcb\<lparr>in_use := True, conn_id := 1\<rparr>]" "server_audio (example_receiver pa bits k) = example_audio"
  "pacs_app_data (example_receiver pa bits k) = g_lehs_pacs_app_data 6"
  by (simp_all add: example_receiver_def example_unset_def bass_data_def zero_service_data_def upd_bass_def upd_services_def upd_big_def)

lemma example_receiver_ok: "pa \<in> {0, 1, 2, 3} \<Longrightarrow> broadcast_ok (example_receiver pa bits k)"
  by (simp add: broadcast_ok_def sink_ok_def receive_ok_def zero_big_def base_shape_def zero_base_def zero_base_group_def
      zero_bass_data_def zero_recv_state_def)

lemma example_find: "lehs_find_source 0 (example_receiver pa bits k) = Some 0"
  by (simp add: lehs_find_source_def zero_recv_state_def)

lemma example_addr: "take BD_ADDR_LEN (addr_octets example_bis 0 (replicate BD_ADDR_LEN 0)) = replicate BD_ADDR_LEN 0"
  by (simp add: example_bis_def eval_nat_numeral)

theorem broadcast_sink_invariant_witness:
  "\<exists>t. broadcast_run example_bis example_moments (example_unset []) = Some t \<and> broadcast_ok t \<and>
     creates t \<le> creates (example_unset []) + answers example_moments + (if periodic_sync_in_progress t then 1 else 0)"
proof -
  obtain t where t: "broadcast_run example_bis example_moments (example_unset []) = Some t"
    using example_runs by (auto split: option.splits)
  moreover have "broadcast_ok (example_unset [])" "pending_scan_q (example_unset []) = []" "\<not> periodic_sync_in_progress (example_unset [])"
    by (simp_all add: broadcast_ok_def example_unset_def bass_data_def zero_service_data_def)
  ultimately show ?thesis using broadcast_sink_invariant by blast
qed

lemma example_remove: "\<exists>t. lehs_bass_handle_write_req_evt example_bis example_source_data 1 [5, 0] 2 (example_receiver 0 0 1) = Some (GATT_SUCCESS, t)"
proof -
  have "case lehs_bass_handle_write_req_evt example_bis example_source_data 1 [5, 0] 2 (example_receiver 0 0 1) of
      None \<Rightarrow> False | Some (st, _) \<Rightarrow> st = GATT_SUCCESS"
    by code_simp
  then show ?thesis by (auto split: option.splits)
qed

theorem remove_source_request_witness:
  "\<exists>t. lehs_bass_handle_write_req_evt example_bis example_source_data 1 [5, 0] 2 (example_receiver 0 0 1) = Some (GATT_SUCCESS, t) \<and>
     bass_data t ! 0 = zero_bass_data"
proof -
  obtain t where t: "lehs_bass_handle_write_req_evt example_bis example_source_data 1 [5, 0] 2 (example_receiver 0 0 1) = Some (GATT_SUCCESS, t)"
    using example_remove by blast
  then show ?thesis using remove_source_request [OF t example_find example_receiver_ok example_addr]
    by (auto simp: zero_bass_data_def zero_recv_state_def zero_sub_group_data_def split: if_splits)
qed

text \<open>The source was added and found, and the answer of the controller is awaited.\<close>

lemma example_pending: "case broadcast_run example_bis (take 2 example_moments) (example_unset []) of None \<Rightarrow> False
   | Some s \<Rightarrow> broadcast_ok s \<and> lehs_find_source 0 s = Some 0 \<and>
       lehs_bis_get_big_by_broadcast_id (recv_broadcast_id (recv_state (bass_data s ! 0))) s = Some 0 \<and>
       pa_sync_in_progress (broadcast_sink_cb s ! 0) \<and> adv_handle (broadcast_sink_cb s ! 0) = pa_adv_sid example_answer \<and>
       periodic_sync_in_progress s \<and> pa_sync_state (recv_state (bass_data s ! 0)) \<noteq> GA_LIB_BASS_PA_SYNC \<and>
       bis_sync_state (bass_sub_group (bass_data s ! 0) ! 0) = 0"
  by code_simp

theorem answer_after_removal_fault_witness:
  "\<exists>s t. broadcast_run example_bis (take 2 example_moments) (example_unset []) = Some s \<and> periodic_sync_in_progress s \<and>
     lehs_bass_handle_write_req_evt example_bis example_source_data 1 [5, 0] 2 s = Some (GATT_SUCCESS, t) \<and>
     lehs_ext_adv_cback example_bis (PADV_SYNC_ESTABLISHED_EVENT example_answer) t = None"
proof -
  obtain s where s: "broadcast_run example_bis (take 2 example_moments) (example_unset []) = Some s" "broadcast_ok s" "lehs_find_source 0 s = Some 0"
    "lehs_bis_get_big_by_broadcast_id (recv_broadcast_id (recv_state (bass_data s ! 0))) s = Some 0"
    "pa_sync_in_progress (broadcast_sink_cb s ! 0)" "adv_handle (broadcast_sink_cb s ! 0) = pa_adv_sid example_answer"
    "periodic_sync_in_progress s" "pa_sync_state (recv_state (bass_data s ! 0)) \<noteq> GA_LIB_BASS_PA_SYNC"
    "bis_sync_state (bass_sub_group (bass_data s ! 0) ! 0) = 0"
    using example_pending by (auto split: option.splits)
  from answer_after_removal_fault [OF s(2-9) example_addr, of example_source_data 1] s(1,7) show ?thesis by blast
qed

text \<open>One stream with the index 3, and two with the indices 3 and 4, of which the first is chosen for the bits of the second.\<close>

definition example_streams :: "le_audio_bap_broadcast_bis_group list \<Rightarrow> server_state" where
  "example_streams xs = upd_big 0 (\<lambda>g. g\<lparr>base := (base g)\<lparr>sub_group := [zero_base_group\<lparr>bis_cnt := of_nat (length xs),
     bis_config := take 2 (xs @ [zero_bis_group])\<rparr>, zero_base_group]\<rparr>\<rparr>) (example_receiver 2 0xFFFFFFFF 1)"

definition example_stream :: "u8 \<Rightarrow> le_audio_bap_broadcast_bis_group" where
  "example_stream k = zero_bis_group\<lparr>bis_idx := k, bis_csc := zero_csc\<lparr>audio_channel_allocation := 1\<rparr>\<rparr>"

theorem no_preference_stream_witness:
  "(\<exists>t. lehs_bass_synchronize_to_source 0 (example_streams [example_stream 3]) = Some t \<and>
     actions t = [BROADCAST (BIG_CREATE_SYNC 9 0 0 0 [] None)]) \<and>
   (\<exists>t. lehs_bass_synchronize_to_source 0 (example_streams [example_stream 3, example_stream 4]) = Some t \<and>
     actions t = [BROADCAST (BIG_CREATE_SYNC 9 0 0 0 [3] None)])"
proof -
  have ok: "broadcast_ok (example_streams xs)" if "length xs \<le> 2" "length xs \<noteq> 0" for xs
    using that
    by (cases xs) (auto simp: example_streams_def broadcast_ok_def sink_ok_def receive_ok_def zero_big_def base_shape_def zero_base_def zero_base_group_def
      zero_bass_data_def zero_recv_state_def)
  have parts: "bass_data (example_streams xs) = bass_data (example_receiver 2 0xFFFFFFFF 1)" "actions (example_streams xs) = []"
    "pacs_app_data (example_streams xs) = g_lehs_pacs_app_data 6"
    "broadcast_sink_cb (example_streams xs) = [(broadcast_sink_cb (example_receiver 2 0xFFFFFFFF 1) ! 0)
       \<lparr>base := zero_base\<lparr>base_broadcast_id := 77, sub_group := [zero_base_group\<lparr>bis_cnt := of_nat (length xs),
          bis_config := take 2 (xs @ [zero_bis_group])\<rparr>, zero_base_group]\<rparr>\<rparr>]" for xs
    by (simp_all add: example_streams_def) (simp add: example_receiver_def)
  have found: "lehs_bis_get_big_by_broadcast_id (recv_broadcast_id (recv_state (bass_data (example_streams xs) ! 0))) (example_streams xs) = Some 0" for xs
    by (simp add: lehs_bis_get_big_by_broadcast_id_def parts)
  note defs = parts first_group_def g_lehs_pacs_app_data_def zero_big_def zero_csc_def zero_bis_group_def example_stream_def
  show ?thesis
    using no_preference_stream [OF ok _ _ found refl _ refl _ refl, of "[example_stream 3]"]
      no_preference_stream [OF ok _ _ found refl _ refl _ refl, of "[example_stream 3, example_stream 4]"]
    by (simp add: defs)
qed

theorem big_reception_reported_witness:
  "\<exists>t. lehs_bis_isoc_cb example_bis (BIG_SYNC_ESTABLISHED_EVT 0 9 1 [0x60]) (example_receiver 2 1 1) = Some t \<and>
     bis_sync_state (bass_sub_group (bass_data t ! 0) ! 0) = 1 \<and> pa_sync_state (recv_state (bass_data t ! 0)) = 0"
proof -
  have ok: "broadcast_ok (example_receiver 2 1 1)" by (rule example_receiver_ok) simp
  have "case lehs_bis_isoc_cb example_bis (BIG_SYNC_ESTABLISHED_EVT 0 9 1 [0x60]) (example_receiver 2 1 1) of None \<Rightarrow> False | Some _ \<Rightarrow> True"
    by code_simp
  then obtain t where t: "lehs_bis_isoc_cb example_bis (BIG_SYNC_ESTABLISHED_EVT 0 9 1 [0x60]) (example_receiver 2 1 1) = Some t" by (auto split: option.splits)
  then show ?thesis
    using big_reception_reported [OF t ok, of 0 0]
    by (simp add: lehs_bis_get_big_by_handle_def lehs_bass_find_source_by_bda_def zero_recv_state_def zero_base_def)
qed

end
