(* ===== verification/Gatt_Db.thy ===== *)
theory Gatt_Db
  imports Gatt_Cb
begin

text \<open>
  The attribute database of the server, \<open>lehs_gatt_database\<close> of \<open>lehs_gatt.c\<close>: which handles it declares, with which
  properties and permissions. The macros that lay the entries out as octets and the UUIDs are the SDK's.
\<close>

section \<open>Entries\<close>

datatype gatt_prop = PROP_READ | PROP_WRITE | PROP_WRITE_NO_RESPONSE | PROP_NOTIFY | PROP_INDICATE

datatype gatt_perm =
    PERM_READABLE | PERM_WRITE_CMD | PERM_WRITE_REQ | PERM_AUTH_READABLE | PERM_AUTH_WRITABLE | PERM_WRITABLE

text \<open>
  A service has its handle; an included service the handles of the declaration, of the first and of the last attribute;
  a characteristic whether it is writable, the handles of its declaration and of its value, its properties and the
  permissions of its value; a descriptor, always a writable client configuration, its handle and permissions.
\<close>

datatype gattdb_entry =
    PRIMARY_SERVICE u16
  | SECONDARY_SERVICE u16
  | INCLUDE_SERVICE u16 u16 u16
  | CHARACTERISTIC bool u16 u16 "gatt_prop list" "gatt_perm list"
  | DESCRIPTOR_WRITABLE u16 "gatt_perm list"

section \<open>The database\<close>

definition db_generic_attribute :: "gattdb_entry list" where
  "db_generic_attribute =
    [PRIMARY_SERVICE 1,
     CHARACTERISTIC False 2 3 [PROP_INDICATE] [],
     DESCRIPTOR_WRITABLE 4 [PERM_READABLE, PERM_WRITE_CMD, PERM_WRITE_REQ],
     CHARACTERISTIC False 5 6 [PROP_READ] [PERM_READABLE],
     CHARACTERISTIC True 7 8 [PROP_READ, PROP_WRITE] [PERM_READABLE, PERM_WRITE_CMD, PERM_WRITE_REQ],
     CHARACTERISTIC False 9 10 [PROP_READ] [PERM_READABLE]]"

definition db_vcs :: "gattdb_entry list" where
  "db_vcs =
    [PRIMARY_SERVICE 48,
     CHARACTERISTIC False 51 52 [PROP_READ, PROP_NOTIFY] [PERM_READABLE, PERM_AUTH_READABLE],
     DESCRIPTOR_WRITABLE 53 [PERM_READABLE, PERM_AUTH_READABLE, PERM_WRITABLE],
     CHARACTERISTIC True 54 55 [PROP_WRITE] [PERM_WRITABLE],
     CHARACTERISTIC False 56 57 [PROP_READ, PROP_NOTIFY] [PERM_READABLE, PERM_AUTH_READABLE],
     DESCRIPTOR_WRITABLE 58 [PERM_READABLE, PERM_AUTH_READABLE, PERM_WRITABLE]]"

definition db_pacs :: "gattdb_entry list" where
  "db_pacs =
    [PRIMARY_SERVICE 208,
     CHARACTERISTIC False 209 210 [PROP_READ, PROP_NOTIFY] [PERM_READABLE, PERM_AUTH_READABLE],
     DESCRIPTOR_WRITABLE 211 [PERM_READABLE, PERM_AUTH_READABLE, PERM_WRITABLE],
     CHARACTERISTIC True 212 213 [PROP_READ, PROP_WRITE, PROP_NOTIFY] [PERM_READABLE, PERM_AUTH_READABLE, PERM_WRITABLE],
     DESCRIPTOR_WRITABLE 214 [PERM_READABLE, PERM_AUTH_READABLE, PERM_WRITABLE],
     CHARACTERISTIC False 215 216 [PROP_READ, PROP_NOTIFY] [PERM_READABLE, PERM_AUTH_READABLE],
     DESCRIPTOR_WRITABLE 217 [PERM_READABLE, PERM_AUTH_READABLE, PERM_WRITABLE],
     CHARACTERISTIC True 218 219 [PROP_READ, PROP_WRITE, PROP_NOTIFY] [PERM_READABLE, PERM_AUTH_READABLE, PERM_WRITABLE],
     DESCRIPTOR_WRITABLE 220 [PERM_READABLE, PERM_AUTH_READABLE, PERM_WRITABLE],
     CHARACTERISTIC False 221 222 [PROP_READ, PROP_NOTIFY] [PERM_READABLE, PERM_AUTH_READABLE],
     DESCRIPTOR_WRITABLE 223 [PERM_READABLE, PERM_AUTH_READABLE, PERM_WRITABLE],
     CHARACTERISTIC False 224 225 [PROP_READ, PROP_NOTIFY] [PERM_READABLE, PERM_AUTH_READABLE],
     DESCRIPTOR_WRITABLE 226 [PERM_READABLE, PERM_AUTH_READABLE, PERM_WRITABLE]]"

definition db_ascs :: "gattdb_entry list" where
  "db_ascs =
    [PRIMARY_SERVICE 256,
     CHARACTERISTIC False 257 258 [PROP_READ, PROP_NOTIFY] [PERM_READABLE, PERM_AUTH_READABLE],
     DESCRIPTOR_WRITABLE 259 [PERM_READABLE, PERM_AUTH_READABLE, PERM_WRITABLE],
     CHARACTERISTIC False 260 261 [PROP_READ, PROP_NOTIFY] [PERM_READABLE, PERM_AUTH_READABLE],
     DESCRIPTOR_WRITABLE 262 [PERM_READABLE, PERM_AUTH_READABLE, PERM_WRITABLE],
     CHARACTERISTIC False 263 264 [PROP_READ, PROP_NOTIFY] [PERM_READABLE, PERM_AUTH_READABLE],
     DESCRIPTOR_WRITABLE 265 [PERM_READABLE, PERM_AUTH_READABLE, PERM_WRITABLE],
     CHARACTERISTIC True 266 267 [PROP_WRITE, PROP_WRITE_NO_RESPONSE, PROP_NOTIFY] [PERM_WRITABLE],
     DESCRIPTOR_WRITABLE 268 [PERM_READABLE, PERM_AUTH_READABLE, PERM_WRITABLE]]"

definition db_cas :: "gattdb_entry list" where
  "db_cas =
    [PRIMARY_SERVICE 320,
     INCLUDE_SERVICE 321 400 411]"

definition db_bass :: "gattdb_entry list" where
  "db_bass =
    [PRIMARY_SERVICE 384,
     CHARACTERISTIC True 385 386 [PROP_WRITE, PROP_WRITE_NO_RESPONSE] [PERM_WRITE_CMD, PERM_WRITE_REQ, PERM_AUTH_WRITABLE],
     CHARACTERISTIC False 387 388 [PROP_READ, PROP_NOTIFY] [PERM_READABLE, PERM_AUTH_READABLE],
     DESCRIPTOR_WRITABLE 389 [PERM_READABLE, PERM_WRITE_REQ, PERM_WRITE_CMD, PERM_AUTH_WRITABLE, PERM_AUTH_READABLE]]"

definition db_csis :: "gattdb_entry list" where
  "db_csis =
    [PRIMARY_SERVICE 400,
     CHARACTERISTIC False 401 402 [PROP_READ, PROP_NOTIFY] [PERM_READABLE, PERM_AUTH_READABLE],
     DESCRIPTOR_WRITABLE 403 [PERM_READABLE, PERM_WRITABLE, PERM_AUTH_READABLE],
     CHARACTERISTIC False 404 405 [PROP_READ, PROP_NOTIFY] [PERM_READABLE, PERM_AUTH_READABLE],
     DESCRIPTOR_WRITABLE 406 [PERM_READABLE, PERM_AUTH_READABLE, PERM_WRITABLE],
     CHARACTERISTIC True 407 408 [PROP_READ, PROP_WRITE, PROP_NOTIFY] [PERM_READABLE, PERM_AUTH_READABLE, PERM_WRITE_REQ, PERM_AUTH_WRITABLE],
     DESCRIPTOR_WRITABLE 409 [PERM_READABLE, PERM_WRITABLE, PERM_AUTH_READABLE],
     CHARACTERISTIC False 410 411 [PROP_READ] [PERM_READABLE, PERM_AUTH_READABLE]]"

definition db_mics :: "gattdb_entry list" where
  "db_mics =
    [PRIMARY_SERVICE 420,
     INCLUDE_SERVICE 421 432 447,
     CHARACTERISTIC True 422 423 [PROP_READ, PROP_WRITE, PROP_NOTIFY] [PERM_READABLE, PERM_AUTH_READABLE, PERM_WRITE_REQ, PERM_AUTH_WRITABLE],
     DESCRIPTOR_WRITABLE 424 [PERM_READABLE, PERM_AUTH_READABLE, PERM_WRITABLE]]"

definition db_mics_aics :: "gattdb_entry list" where
  "db_mics_aics =
    [SECONDARY_SERVICE 432,
     CHARACTERISTIC False 433 434 [PROP_READ, PROP_NOTIFY] [PERM_READABLE, PERM_AUTH_READABLE],
     DESCRIPTOR_WRITABLE 435 [PERM_READABLE, PERM_AUTH_READABLE, PERM_WRITABLE],
     CHARACTERISTIC False 436 437 [PROP_READ] [PERM_READABLE, PERM_AUTH_READABLE],
     CHARACTERISTIC False 438 439 [PROP_READ] [PERM_READABLE, PERM_AUTH_READABLE],
     CHARACTERISTIC False 440 441 [PROP_READ, PROP_NOTIFY] [PERM_READABLE, PERM_AUTH_READABLE],
     DESCRIPTOR_WRITABLE 442 [PERM_READABLE, PERM_AUTH_READABLE, PERM_WRITABLE],
     CHARACTERISTIC True 443 444 [PROP_WRITE] [PERM_WRITE_REQ, PERM_AUTH_WRITABLE],
     CHARACTERISTIC True 445 446 [PROP_READ, PROP_WRITE_NO_RESPONSE, PROP_NOTIFY] [PERM_READABLE, PERM_AUTH_READABLE, PERM_WRITE_CMD, PERM_AUTH_WRITABLE],
     DESCRIPTOR_WRITABLE 447 [PERM_READABLE, PERM_AUTH_READABLE, PERM_WRITABLE]]"

definition db_has :: "gattdb_entry list" where
  "db_has =
    [PRIMARY_SERVICE 480,
     CHARACTERISTIC False 481 482 [PROP_READ, PROP_NOTIFY] [PERM_READABLE, PERM_AUTH_READABLE],
     DESCRIPTOR_WRITABLE 483 [PERM_READABLE, PERM_AUTH_READABLE, PERM_WRITABLE],
     CHARACTERISTIC True 484 485 [PROP_WRITE, PROP_NOTIFY, PROP_INDICATE] [PERM_WRITABLE],
     DESCRIPTOR_WRITABLE 486 [PERM_WRITABLE],
     CHARACTERISTIC False 487 488 [PROP_READ, PROP_NOTIFY] [PERM_READABLE, PERM_AUTH_READABLE],
     DESCRIPTOR_WRITABLE 489 [PERM_READABLE, PERM_AUTH_READABLE, PERM_WRITABLE]]"

definition db_tmas :: "gattdb_entry list" where
  "db_tmas =
    [PRIMARY_SERVICE 512,
     CHARACTERISTIC False 513 514 [PROP_READ] [PERM_READABLE, PERM_AUTH_READABLE]]"

definition db_gmap :: "gattdb_entry list" where
  "db_gmap =
    [PRIMARY_SERVICE 528,
     CHARACTERISTIC False 529 530 [PROP_READ] [PERM_READABLE, PERM_AUTH_READABLE],
     CHARACTERISTIC False 531 532 [PROP_READ] [PERM_READABLE, PERM_AUTH_READABLE],
     CHARACTERISTIC False 533 534 [PROP_READ] [PERM_READABLE, PERM_AUTH_READABLE]]"

definition lehs_gatt_database :: "gattdb_entry list" where
  "lehs_gatt_database = db_generic_attribute @ db_vcs @ db_pacs @ db_ascs @ db_cas @ db_bass @ db_csis @ db_mics @ db_mics_aics @ db_has @ db_tmas @ db_gmap"

section \<open>What it declares\<close>

text \<open>The handles an entry takes, and the ones a client may read and write.\<close>

fun entry_handles :: "gattdb_entry \<Rightarrow> u16 list" where
  "entry_handles (PRIMARY_SERVICE h) = [h]"
| "entry_handles (SECONDARY_SERVICE h) = [h]"
| "entry_handles (INCLUDE_SERVICE h _ _) = [h]"
| "entry_handles (CHARACTERISTIC _ d v _ _) = [d, v]"
| "entry_handles (DESCRIPTOR_WRITABLE h _) = [h]"

fun readable_handle :: "gattdb_entry \<Rightarrow> u16 list" where
  "readable_handle (CHARACTERISTIC _ _ v _ perms) = (if PERM_READABLE \<in> set perms then [v] else [])"
| "readable_handle (DESCRIPTOR_WRITABLE h perms) = (if PERM_READABLE \<in> set perms then [h] else [])"
| "readable_handle _ = []"

definition write_perm :: "gatt_perm list \<Rightarrow> bool" where
  "write_perm perms = (\<exists>p \<in> set perms. p = PERM_WRITABLE \<or> p = PERM_WRITE_REQ \<or> p = PERM_WRITE_CMD)"

fun writable_handle :: "gattdb_entry \<Rightarrow> u16 list" where
  "writable_handle (CHARACTERISTIC w _ v _ perms) = (if w \<and> write_perm perms then [v] else [])"
| "writable_handle (DESCRIPTOR_WRITABLE h perms) = (if write_perm perms then [h] else [])"
| "writable_handle _ = []"

text \<open>The descriptors with the value they follow.\<close>

fun cccd_pairs :: "gattdb_entry list \<Rightarrow> (u16 \<times> u16) list" where
  "cccd_pairs (CHARACTERISTIC w d v props perms # DESCRIPTOR_WRITABLE h dp # es) = (v, h) # cccd_pairs es"
| "cccd_pairs (e # es) = cccd_pairs es"
| "cccd_pairs [] = []"

definition readable_handles :: "u16 list" where
  "readable_handles = concat (map readable_handle lehs_gatt_database)"

definition writable_handles :: "u16 list" where
  "writable_handles = concat (map writable_handle lehs_gatt_database)"

end
