(* ===== verification/Gatt_Server.thy ===== *)
theory Gatt_Server
  imports Gatt_Db Broadcast_Props Volume Has Csis
begin

text \<open>
  The attribute server: the read, write and read by type requests of \<open>lehs_gatt.c\<close> over all local services, the
  dispatch of the requests and their responses, and the initialisation of the service data.
\<close>

section \<open>Handles\<close>

abbreviation (input) HDLC_GATT_GENERIC_ATTRIBUTE_SERVICE_CHANGED_VALUE :: u16 where
  "HDLC_GATT_GENERIC_ATTRIBUTE_SERVICE_CHANGED_VALUE \<equiv> 3"
abbreviation (input) HDLC_GATT_GENERIC_ATTRIBUTE_SERVICE_DB_HASH_VALUE :: u16 where
  "HDLC_GATT_GENERIC_ATTRIBUTE_SERVICE_DB_HASH_VALUE \<equiv> 6"
abbreviation (input) HDLC_GATT_GENERIC_ATTRIBUTE_SERVICE_CLIENT_FEATURES_VALUE :: u16 where
  "HDLC_GATT_GENERIC_ATTRIBUTE_SERVICE_CLIENT_FEATURES_VALUE \<equiv> 8"
abbreviation (input) HDLC_GATT_GENERIC_ATTRIBUTE_SERVICE_SERVER_FEATURES_VALUE :: u16 where
  "HDLC_GATT_GENERIC_ATTRIBUTE_SERVICE_SERVER_FEATURES_VALUE \<equiv> 10"
abbreviation (input) HDLC_PACS_SINK_PAC_VALUE :: u16 where "HDLC_PACS_SINK_PAC_VALUE \<equiv> 210"
abbreviation (input) HDLC_PACS_SINK_AUDIO_LOCATIONS_VALUE :: u16 where "HDLC_PACS_SINK_AUDIO_LOCATIONS_VALUE \<equiv> 213"
abbreviation (input) HDLC_PACS_SOURCE_PAC_VALUE :: u16 where "HDLC_PACS_SOURCE_PAC_VALUE \<equiv> 216"
abbreviation (input) HDLC_PACS_SOURCE_AUDIO_LOCATIONS_VALUE :: u16 where "HDLC_PACS_SOURCE_AUDIO_LOCATIONS_VALUE \<equiv> 219"
abbreviation (input) HDLC_PACS_AVAILABLE_AUDIO_CONTEXTS_VALUE :: u16 where "HDLC_PACS_AVAILABLE_AUDIO_CONTEXTS_VALUE \<equiv> 222"
abbreviation (input) HDLC_PACS_SUPPORTED_AUDIO_CONTEXTS_VALUE :: u16 where "HDLC_PACS_SUPPORTED_AUDIO_CONTEXTS_VALUE \<equiv> 225"
abbreviation (input) HDLC_BASS_BROADCAST_AUDIO_SCAN_CONTROL_POINT_VALUE :: u16 where
  "HDLC_BASS_BROADCAST_AUDIO_SCAN_CONTROL_POINT_VALUE \<equiv> 386"
abbreviation (input) HDLC_TMAS_TELEPHONE_MEDIA_AUDIO_PROFILE_ROLE_ROLE_VALUE :: u16 where
  "HDLC_TMAS_TELEPHONE_MEDIA_AUDIO_PROFILE_ROLE_ROLE_VALUE \<equiv> 514"
abbreviation (input) HDLS_GMAP_ROLE_VALUE :: u16 where "HDLS_GMAP_ROLE_VALUE \<equiv> 530"
abbreviation (input) HDLS_GMAP_UGT_FEATURES_VALUE :: u16 where "HDLS_GMAP_UGT_FEATURES_VALUE \<equiv> 532"
abbreviation (input) HDLS_GMAP_BGR_FEATURES_VALUE :: u16 where "HDLS_GMAP_BGR_FEATURES_VALUE \<equiv> 534"

section \<open>The environment\<close>

text \<open>
  The environments of the handlers, the octets on the stack where the code reads what it did not write
  (\<open>read_buffer\<close> for the value of a stream endpoint, \<open>bass_memory\<close> for the parsed operation, \<open>err_handle_junk\<close> for the
  handle of an error response), the configured size of a packet, and the SDK's two functions for a request by type:
  \<open>find_handle_by_type first last uuid\<close> is 0 when there is none, and \<open>put_read_by_type room value_len handle value\<close> is
  the octets it appends with the new value length.
\<close>

record server_env =
  env_bis :: bis_env
  env_csis :: csis_env
  env_ascs :: ascs_env
  bass_memory :: ga_lib_bass_common_source_data
  read_buffer :: "nat \<Rightarrow> u8"
  err_handle_junk :: u16
  ble_max_rx_pdu_size :: u16
  find_handle_by_type :: "u16 \<Rightarrow> u16 \<Rightarrow> wiced_bt_uuid \<Rightarrow> u16"
  put_read_by_type :: "int \<Rightarrow> u8 \<Rightarrow> u16 \<Rightarrow> u8 list \<Rightarrow> u8 list \<times> u8"
  send_read_handle :: "u8 list \<Rightarrow> gatt_status"
  send_read_by_type :: "u8 list \<Rightarrow> gatt_status"

abbreviation env_gatt :: "server_env \<Rightarrow> gatt_env" where
  "env_gatt env \<equiv> bis_gatt (env_bis env)"

section \<open>Reading a value\<close>

text \<open>Of the client features there is one octet; the server has no feature of its own.\<close>

definition lehs_generic_attribute_handle_read_request :: "nat \<Rightarrow> u16 \<Rightarrow> server_state \<Rightarrow> gatt_status + u8 list" where
  "lehs_generic_attribute_handle_read_request i h s =
     (if h = HDLC_GATT_GENERIC_ATTRIBUTE_SERVICE_DB_HASH_VALUE then Inr (db_hash_value s)
      else if h = HDLC_GATT_GENERIC_ATTRIBUTE_SERVICE_CLIENT_FEATURES_VALUE then Inr [csf (server_clcbs s ! i)]
      else if h = HDLC_GATT_GENERIC_ATTRIBUTE_SERVICE_SERVER_FEATURES_VALUE then Inr [0]
      else Inl GATT_READ_NOT_PERMIT)"

text \<open>The description as a string: the end must be in its array, and a room of 0 makes the length of \<open>strncpy\<close> huge.\<close>

definition vocs_description_value :: "nat \<Rightarrow> u8 list \<Rightarrow> u8 list option" where
  "vocs_description_value p_len desc =
     (if 0 \<notin> set desc then None
      else let len = length (c_string desc)
           in if len > p_len then (if p_len = 0 then None else Some (take (p_len - 1) (c_string desc)))
              else Some (c_string desc))"

text \<open>A room of 0 copies nothing: the loop of the copy ends at once on a length of -1.\<close>

definition aics_description_value :: "nat \<Rightarrow> lehs_aics \<Rightarrow> u8 list option" where
  "aics_description_value p_len a =
     (let len = unat (description_len a) in octets (if len > p_len then p_len - 1 else len) (aics_description a))"

text \<open>The set identity key, most significant octet last.\<close>

definition sirk_value :: "csis_env \<Rightarrow> nat \<Rightarrow> server_state \<Rightarrow> gatt_status + u8 list" where
  "sirk_value env i s =
     (let d = sirk_data (the_csis s)
      in if is_oob d then Inl GA_LIB_CSIS_ERROR_OOB_SIRK_ONLY
         else Inr (sirk_type d #
           rev (if sirk_type d = GA_LIB_CSIS_SIRK_ENCR then lehs_encrypt_sirk env (conn_bda (server_clcbs s ! i)) s else sirk d)))"

text \<open>The three roles of the telephony and media profile.\<close>

definition tmap_role_value :: u16 where
  "tmap_role_value = push_bit 1 1 OR push_bit 3 1 OR push_bit 5 1"

text \<open>The values of the services that a read leaves as they are.\<close>

definition volume_value :: "nat \<Rightarrow> u16 \<Rightarrow> server_state \<Rightarrow> u8 list option option" where
  "volume_value p_len h s =
     (if h = HDLC_VCS_VOLUME_STATE_VALUE
      then Some (Some [volume_setting (the_vcs s), vcs_mute_state (the_vcs s), vcs_change_counter (the_vcs s)])
      else if h = HDLC_VCS_VOLUME_FLAGS_VALUE then Some (Some [vcs_flag (local_vcs (services s))])
      else if h = HDLC_VOCS_OFFSET_STATE_VALUE
      then Some (Some (b16 (volume_offset (the_vocs s)) @ [vocs_change_counter (the_vocs s)]))
      else if h = HDLC_VOCS_AUDIO_LOCATION_VALUE then Some (Some (b32 (vocs_audio_location (the_vocs s))))
      else if h = HDLC_VOCS_AUDIO_OUTPUT_DESCRIPTION_VALUE
      then Some (vocs_description_value p_len (vocs_description (the_vocs s)))
      else None)"

definition pacs_value :: "nat \<Rightarrow> u16 \<Rightarrow> server_state \<Rightarrow> u8 list option option" where
  "pacs_value p_len h s =
     (let p = pacs_app_data s;
          records = (\<lambda>d. map_option fst (ga_lib_pacs_build_read_rsp_sink_src_cap_pkt (num_records d) (p_records d) (int p_len) 0))
      in if h = HDLC_PACS_SINK_PAC_VALUE then Some (records (snk_pac_list p))
         else if h = HDLC_PACS_SINK_AUDIO_LOCATIONS_VALUE then Some (Some (b32 (snk_audio_location p)))
         else if h = HDLC_PACS_SOURCE_PAC_VALUE then Some (records (src_pac_list p))
         else if h = HDLC_PACS_SOURCE_AUDIO_LOCATIONS_VALUE then Some (Some (b32 (src_audio_location p)))
         else if h = HDLC_PACS_AVAILABLE_AUDIO_CONTEXTS_VALUE
         then Some (Some (b16 (snk_contexts (pacs_available p)) @ b16 (src_contexts (pacs_available p))))
         else if h = HDLC_PACS_SUPPORTED_AUDIO_CONTEXTS_VALUE
         then Some (Some (b16 (snk_contexts (pacs_supported p)) @ b16 (src_contexts (pacs_supported p))))
         else None)"

definition stream_value :: "server_env \<Rightarrow> nat \<Rightarrow> nat \<Rightarrow> u16 \<Rightarrow> server_state \<Rightarrow> u8 list option option" where
  "stream_value env i p_len h s =
     (let response = (\<lambda>j. do {
            d \<leftarrow> arr_get (local_ase_data (server_clcbs s ! i)) j;
            ga_lib_ascs_build_ase_response (read_buffer env) (ase d) (int p_len) })
      in if h = HDLC_ASCS_ASE_SINK_VALUE then Some (response 0)
         else if h = HDLC_ASCS_ASE_SOURCE_VALUE then Some (response 2)
         else if h = HDLC_ASCS_ASE_SINK_2_VALUE then Some (response 1)
         else if h = HDLC_BASS_BROADCAST_RECEIVE_STATE_1_VALUE
         then Some (do {
                d \<leftarrow> arr_get (local_bass (services s)) 0;
                ga_lib_bass_build_receive_state_char_data (addr_octets (env_bis env)) (recv_state d) (bass_sub_group d) p_len })
         else None)"

definition input_value :: "nat \<Rightarrow> u16 \<Rightarrow> server_state \<Rightarrow> u8 list option option" where
  "input_value p_len h s =
     (let a = the_aics 0 s; st = input_state a; g = gain_params a; gm = local_gmap (services s)
      in if h = HDLC_MICS_MUTE_STATE_VALUE then Some (Some [mics_mute_state (local_mics (services s))])
         else if h = HDLC_MICS_AICS_INPUT_STATE_VALUE
         then Some (Some [gain_setting st, mute_mode st, gain_mode st, aics_change_counter st])
         else if h = HDLC_MICS_AICS_GAIN_SETTING_ATTR_VALUE
         then Some (Some [gain_setting_units g, min_gain_setting g, max_gain_setting g])
         else if h = HDLC_MICS_AICS_INPUT_TYPE_VALUE then Some (Some [input_type a])
         else if h = HDLC_MICS_AICS_INPUT_STATUS_VALUE then Some (Some [input_status a])
         else if h = HDLC_MICS_AICS_AUDIO_INPUT_DESCRIPTION_VALUE then Some (aics_description_value p_len a)
         else if h = HDLC_HAS_HEARIND_AID_FEATUES_VALUE then Some (Some [hearing_aid_features (local_has (services s))])
         else if h = HDLC_HAS_ACTIVE_PRESET_INDEX_VALUE then Some (Some [active_preset_index (local_has (services s))])
         else if h = HDLC_TMAS_TELEPHONE_MEDIA_AUDIO_PROFILE_ROLE_ROLE_VALUE then Some (Some (b16 tmap_role_value))
         else if h = HDLS_GMAP_ROLE_VALUE then Some (Some [gmap_role gm])
         else if h = HDLS_GMAP_UGT_FEATURES_VALUE then Some (Some [ugt_features gm])
         else if h = HDLS_GMAP_BGR_FEATURES_VALUE then Some (Some [bgr_features gm])
         else None)"

text \<open>The values of a set that a read makes 1 when they are 0.\<close>

definition one_for_zero :: "u8 \<Rightarrow> u8" where
  "one_for_zero x = (if x = 0 then 1 else x)"

definition set_value :: "server_env \<Rightarrow> nat \<Rightarrow> u16 \<Rightarrow> server_state \<Rightarrow> ((gatt_status + u8 list) \<times> server_state) option" where
  "set_value env i h s =
     (if h = HDLC_CSIS_SIRK_VALUE then Some (sirk_value (env_csis env) i s, s)
      else if h = HDLC_CSIS_SIZE_VALUE
      then (let t = set_csis (\<lambda>c. c\<lparr>csis_size := one_for_zero (csis_size c)\<rparr>) s in Some (Inr [csis_size (the_csis t)], t))
      else if h = HDLC_CSIS_LOCK_VALUE
      then (let t = set_csis (\<lambda>c. c\<lparr>csis_lock := one_for_zero (csis_lock c)\<rparr>) s in Some (Inr [csis_lock (the_csis t)], t))
      else if h = HDLC_CSIS_RANK_VALUE
      then (let t = set_csis (\<lambda>c. c\<lparr>csis_rank := one_for_zero (csis_rank c)\<rparr>) s in Some (Inr [csis_rank (the_csis t)], t))
      else None)"

text \<open>The service a handle belongs to; \<open>None\<close> inside is an access out of bounds.\<close>

definition plain_value :: "server_env \<Rightarrow> nat \<Rightarrow> nat \<Rightarrow> u16 \<Rightarrow> server_state \<Rightarrow> u8 list option option" where
  "plain_value env i p_len h s =
     (case volume_value p_len h s of Some v \<Rightarrow> Some v
      | None \<Rightarrow> (case pacs_value p_len h s of Some v \<Rightarrow> Some v
      | None \<Rightarrow> (case stream_value env i p_len h s of Some v \<Rightarrow> Some v
      | None \<Rightarrow> input_value p_len h s)))"

definition app_handle_gatt_read_request ::
  "server_env \<Rightarrow> nat \<Rightarrow> u16 \<Rightarrow> nat \<Rightarrow> server_state \<Rightarrow> ((gatt_status + u8 list) \<times> server_state) option" where
  "app_handle_gatt_read_request env i h p_len s =
     (if lehs_get_cccd_index h GATT_INTF_DESCRIPTOR_HANDLE_INDEX \<noteq> None
      then map_option (\<lambda>v. (Inr (b16 v), s)) (lehs_get_clcb_cccd (server_clcbs s ! i) h GATT_INTF_DESCRIPTOR_HANDLE_INDEX)
      else if HDLC_GATT_GENERIC_ATTRIBUTE_SERVICE_CHANGED_VALUE \<le> h \<and> h \<le> HDLC_GATT_GENERIC_ATTRIBUTE_SERVICE_SERVER_FEATURES_VALUE
      then Some (lehs_generic_attribute_handle_read_request i h s, s)
      else case plain_value env i p_len h s of
             Some v \<Rightarrow> map_option (\<lambda>v. (Inr v, s)) v
           | None \<Rightarrow> (case set_value env i h s of
               Some r \<Rightarrow> Some r
             | None \<Rightarrow> Some (Inl GATT_INVALID_HANDLE, s)))"

section \<open>Writing a value\<close>

text \<open>A descriptor: the lookup by descriptor handle has succeeded.\<close>

definition cccd_write :: "nat \<Rightarrow> u16 \<Rightarrow> u8 list \<Rightarrow> server_state \<Rightarrow> (gatt_status \<times> server_state) option" where
  "cccd_write i h data s =
     (if length data \<noteq> 2 then Some (GATT_INVALID_ATTR_LEN, s)
      else do {
        (v, _) \<leftarrow> rd16 (start data);
        c \<leftarrow> lehs_set_clcb_cccd (server_clcbs s ! i) h v;
        Some (GATT_SUCCESS, s\<lparr>server_clcbs := (server_clcbs s)[i := c]\<rparr>) })"

definition pacs_location_write :: "(u32 \<Rightarrow> ga_lib_pacs_data \<Rightarrow> ga_lib_pacs_data) \<Rightarrow> u8 list \<Rightarrow> server_state \<Rightarrow> (gatt_status \<times> server_state) option" where
  "pacs_location_write f data s =
     (if length data \<noteq> 4 then Some (GATT_INVALID_ATTR_LEN, s)
      else do {
        (v, _) \<leftarrow> rd32 (start data);
        Some (GATT_SUCCESS, s\<lparr>pacs_app_data := f v (pacs_app_data s)\<rparr>) })"

text \<open>
  The stream control point works on the endpoints of the control block and on the audio driver, and reads the published
  capabilities, the size of the set and the client configurations.
\<close>

definition ascs_view :: "server_env \<Rightarrow> server_state \<Rightarrow> ascs_env" where
  "ascs_view env s = (env_ascs env)\<lparr>gatt := server_gatt (env_gatt env) s, pacs := pacs_app_data s, csis_set_size := csis_size (the_csis s)\<rparr>"

definition ascs_part :: "nat \<Rightarrow> server_state \<Rightarrow> ascs_state" where
  "ascs_part i s = \<lparr>ases = local_ase_data (server_clcbs s ! i), audio = server_audio s, sent = []\<rparr>"

definition put_ascs :: "nat \<Rightarrow> ascs_state \<Rightarrow> server_state \<Rightarrow> server_state" where
  "put_ascs i t s = emit_server (map STREAM (sent t))
     (s\<lparr>server_clcbs := (server_clcbs s)[i := (server_clcbs s ! i)\<lparr>local_ase_data := ases t\<rparr>], server_audio := audio t\<rparr>)"

definition ascs_cp_write :: "server_env \<Rightarrow> nat \<Rightarrow> u16 \<Rightarrow> u8 list \<Rightarrow> server_state \<Rightarrow> (gatt_status \<times> server_state) option" where
  "ascs_cp_write env i cid data s = do {
     (r, t) \<leftarrow> lehs_ascs_handle_write_req_evt (ascs_view env s) cid data (int (length data)) (ascs_part i s);
     Some (status_of_result r, put_ascs i t s) }"

text \<open>The value that is written is all the code may read.\<close>

definition app_handle_gatt_write_request ::
  "server_env \<Rightarrow> nat \<Rightarrow> u16 \<Rightarrow> u16 \<Rightarrow> u8 list \<Rightarrow> server_state \<Rightarrow> (gatt_status \<times> server_state) option" where
  "app_handle_gatt_write_request env i cid h data s =
     (let ge = env_gatt env; n = length data
      in if lehs_get_cccd_index h GATT_INTF_DESCRIPTOR_HANDLE_INDEX \<noteq> None then cccd_write i h data s
         else if h = HDLC_VCS_VOLUME_CONTROL_POINT_VALUE then lehs_handle_vcs_cp_write ge cid data n s
         else if h = HDLC_VOCS_AUDIO_LOCATION_VALUE then vocs_audio_location_write ge cid data n s
         else if h = HDLC_VOCS_VOLUME_OFFSET_CONTROL_POINT_VALUE then vocs_offset_cp_write ge cid data n s
         else if h = HDLC_VOCS_AUDIO_OUTPUT_DESCRIPTION_VALUE then vocs_description_write ge cid data n s
         else if h = HDLC_PACS_SINK_AUDIO_LOCATIONS_VALUE
         then pacs_location_write (\<lambda>v p. p\<lparr>snk_audio_location := v\<rparr>) data s
         else if h = HDLC_PACS_SOURCE_AUDIO_LOCATIONS_VALUE
         then pacs_location_write (\<lambda>v p. p\<lparr>src_audio_location := v\<rparr>) data s
         else if h = HDLC_ASCS_ASE_CONTROL_POINT_VALUE then ascs_cp_write env i cid data s
         else if h = HDLC_BASS_BROADCAST_AUDIO_SCAN_CONTROL_POINT_VALUE
         then lehs_bass_handle_write_req_evt (env_bis env) (bass_memory env) cid data (of_nat n) s
         else if h = HDLC_CSIS_LOCK_VALUE then lehs_csis_handle_write_req_evt ge cid data s
         else if h = HDLC_MICS_MUTE_STATE_VALUE then mics_mute_write ge cid data s
         else if h = HDLC_MICS_AICS_AUDIO_INPUT_CONTROL_POINT_VALUE then aics_cp_write ge cid data n s
         else if h = HDLC_MICS_AICS_AUDIO_INPUT_DESCRIPTION_VALUE then aics_description_write cid data n s
         else if h = HDLC_HAS_HEARING_AID_PRESET_CONTROL_POINT_VALUE then has_cp_write ge cid data n s
         else Some (GATT_INVALID_HANDLE, s))"

section \<open>Requests\<close>

text \<open>
  What the stack hands to the server; of a long read also the offset, which the code never looks at, and of a request by
  type the room the response has.
\<close>

datatype att_request =
    REQ_MTU u16
  | REQ_READ u16
  | REQ_READ_BLOB u16 u16
  | REQ_WRITE u16 "u8 list"
  | CMD_WRITE u16 "u8 list"
  | REQ_READ_BY_TYPE u16 u16 wiced_bt_uuid nat
  | HANDLE_VALUE_IND
  | HANDLE_VALUE_CONF
  | OTHER_REQUEST

definition gatt_intf_send_read_response :: "server_env \<Rightarrow> u16 \<Rightarrow> u8 list \<Rightarrow> server_state \<Rightarrow> gatt_status \<times> server_state" where
  "gatt_intf_send_read_response env cid data s =
     (if data \<noteq> [] \<and> \<not> get_buffer (env_gatt env) (length data) then (GATT_NO_RESOURCES, s)
      else (send_read_handle env data, emit_server [READ_RSP cid data] s))"

text \<open>
  The search for the attributes of a type. The length of the value buffer is 0 before each value is read, the handle
  after \<open>0xFFFF\<close> is 0, and what was gathered so far is kept when a value cannot be read. A loop that does not end has no result.
\<close>

partial_function (option) read_by_type_loop ::
  "server_env \<Rightarrow> nat \<Rightarrow> u16 \<Rightarrow> wiced_bt_uuid \<Rightarrow> nat \<Rightarrow> u16 \<Rightarrow> u8 \<Rightarrow> u8 list \<Rightarrow> server_state
     \<Rightarrow> (((gatt_status \<times> u16) + (u8 \<times> u8 list)) \<times> server_state) option" where
  "read_by_type_loop env i e uuid len_requested h value_len out s =
     (let a = find_handle_by_type env h e uuid
      in if a = 0 then Some (Inr (value_len, out), s)
         else (case app_handle_gatt_read_request env i a 0 s of
                 None \<Rightarrow> None
               | Some (Inl st, s) \<Rightarrow> Some (Inl (st, a), s)
               | Some (Inr v, s) \<Rightarrow>
                   (case put_read_by_type env (int len_requested - int (length out)) value_len a v of (filled, value_len) \<Rightarrow>
                      if filled = [] then Some (Inr (value_len, out), s)
                      else read_by_type_loop env i e uuid len_requested (a + 1) value_len (out @ filled) s)))"

text \<open>The status with the handle of an error response.\<close>

definition app_handle_gatt_read_by_type_request ::
  "server_env \<Rightarrow> nat \<Rightarrow> u16 \<Rightarrow> u16 \<Rightarrow> u16 \<Rightarrow> wiced_bt_uuid \<Rightarrow> nat \<Rightarrow> server_state \<Rightarrow> ((gatt_status \<times> u16) \<times> server_state) option" where
  "app_handle_gatt_read_by_type_request env i cid first last_handle uuid len_requested s =
     (if \<not> get_buffer (env_gatt env) len_requested then Some ((GATT_NO_RESOURCES, first), s)
      else do {
        (r, s) \<leftarrow> read_by_type_loop env i last_handle uuid len_requested first 0 [] s;
        Some (case r of
            Inl (st, a) \<Rightarrow> ((st, a), s)
          | Inr (value_len, out) \<Rightarrow>
              if out = [] then ((GATT_ATTRIBUTE_NOT_FOUND, first), s)
              else ((send_read_by_type env out, first), emit_server [READ_BY_TYPE_RSP cid value_len out] s)) })"

text \<open>The answer to a read, whose value is put into 512 octets.\<close>

definition answer_read :: "server_env \<Rightarrow> nat \<Rightarrow> u16 \<Rightarrow> u16 \<Rightarrow> server_state \<Rightarrow> ((gatt_status \<times> u16) \<times> server_state) option" where
  "answer_read env i cid h s = do {
     (r, s) \<leftarrow> app_handle_gatt_read_request env i h 512 s;
     case r of
       Inl st \<Rightarrow> Some ((st, h), s)
     | Inr v \<Rightarrow>
         if length v > 512 then None
         else Some ((GATT_SUCCESS, h), snd (gatt_intf_send_read_response env cid v s)) }"

definition app_handle_gatt_attribute_request ::
  "server_env \<Rightarrow> u16 \<Rightarrow> att_request \<Rightarrow> server_state \<Rightarrow> ((gatt_status \<times> u16) \<times> server_state) option" where
  "app_handle_gatt_attribute_request env cid req s =
     (case lehs_gatt_get_clcb_by_conn_id (server_clcbs s) cid of
        None \<Rightarrow> Some ((GATT_ERROR, err_handle_junk env), s)
      | Some i \<Rightarrow>
          let write = (\<lambda>h data. app_handle_gatt_write_request env i cid h data s)
          in case req of
               REQ_MTU remote \<Rightarrow>
                 Some ((GATT_SUCCESS, 0),
                   emit_server [MTU_RSP cid remote (min remote (ble_max_rx_pdu_size env))]
                     (s\<lparr>server_clcbs := (server_clcbs s)[i := lehs_set_gatt_state_mtu_exchanged (server_clcbs s ! i)]\<rparr>))
             | REQ_READ h \<Rightarrow> answer_read env i cid h s
             | REQ_READ_BLOB h _ \<Rightarrow> answer_read env i cid h s
             | REQ_WRITE h data \<Rightarrow> do {
                 (st, s) \<leftarrow> write h data;
                 Some ((st, h), if st = GATT_SUCCESS then emit_server [WRITE_RSP cid h] s else s) }
             | CMD_WRITE h data \<Rightarrow> do { (st, s) \<leftarrow> write h data; Some ((st, h), s) }
             | REQ_READ_BY_TYPE first last_handle uuid len_requested \<Rightarrow>
                 app_handle_gatt_read_by_type_request env i cid first last_handle uuid len_requested s
             | HANDLE_VALUE_IND \<Rightarrow> Some ((GATT_SUCCESS, 0), s)
             | HANDLE_VALUE_CONF \<Rightarrow> Some ((GATT_SUCCESS, 0), s)
             | OTHER_REQUEST \<Rightarrow> Some ((GATT_SUCCESS, 0), s))"

text \<open>The event of \<open>lehs_gatt_cback\<close>: what goes wrong is answered unless the request is a command.\<close>

definition gatt_attribute_request_event :: "server_env \<Rightarrow> u16 \<Rightarrow> att_request \<Rightarrow> server_state \<Rightarrow> (gatt_status \<times> server_state) option" where
  "gatt_attribute_request_event env cid req s = do {
     ((st, h), s) \<leftarrow> app_handle_gatt_attribute_request env cid req s;
     let send_err_rsp = (case req of CMD_WRITE _ _ \<Rightarrow> False | HANDLE_VALUE_IND \<Rightarrow> False | HANDLE_VALUE_CONF \<Rightarrow> False | _ \<Rightarrow> True);
     Some (st, if st \<noteq> GATT_SUCCESS \<and> send_err_rsp then emit_server [ERROR_RSP cid h st] s else s) }"

section \<open>Initialisation\<close>

abbreviation (input) APP_DEVICE_TYPE_HEADPHONE :: u32 where "APP_DEVICE_TYPE_HEADPHONE \<equiv> 3"

definition lehs_app_sirk_value :: "u8 list" where
  "lehs_app_sirk_value = concat (replicate 4 [0x0a, 1, 2, 3])"

text \<open>
  The build for a headphone, whose type is the value of both of its audio locations. The two results are those of the
  database and of the registration with the stack.
\<close>

definition lehs_gatt_init :: "gatt_status \<Rightarrow> gatt_status \<Rightarrow> u8 list \<Rightarrow> server_state \<Rightarrow> gatt_status \<times> server_state" where
  "lehs_gatt_init db_result register_result hash s =
     (let s = s\<lparr>db_hash_value := hash\<rparr>
      in if db_result \<noteq> GATT_SUCCESS then (db_result, s)
         else if register_result \<noteq> GATT_SUCCESS then (register_result, s)
         else
           let s = s\<lparr>server_nvram := lehs_nvram_init, local_id_keys := map (\<lambda>_. 0) (local_id_keys s),
                 pacs_app_data := lehs_set_audio_location APP_DEVICE_TYPE_HEADPHONE (pacs_app_data s)\<rparr>;
               s = lehs_csis_initialize_data 1 1 GA_LIB_CSIS_SIRK_PLAIN lehs_app_sirk_value s
           in (GATT_SUCCESS, lehs_mics_initialize_data (lehs_has_initialize_data (lehs_vcs_initialize_data s))))"

end
