(* ===== verification/Server_Props.thy ===== *)
theory Server_Props
  imports Gatt_Server
begin

text \<open>
  What holds of the attribute server as a whole: the database and the handlers agree, a read answers and changes nothing,
  what is written is read back, and no request of one connection reaches the state of another or breaks a service.
\<close>

section \<open>The parts of the state\<close>

text \<open>What the services of the volume see, and what they leave alone.\<close>

definition volume_view :: "server_state \<Rightarrow> (u8 \<times> u8) \<times> lehs_vcs \<times> lehs_vocs \<times> lehs_aics list" where
  "volume_view s = (levels (server_audio s), local_vcs (services s), local_vocs (services s), mics_aics (services s))"

definition set_view :: "server_state \<Rightarrow> lehs_csis_data \<times> lehs_gmap_data \<times> lehs_has_data" where
  "set_view s = (local_csis (services s), local_gmap (services s), local_has (services s))"

definition broadcast_view :: "server_state \<Rightarrow> lehs_broadcast_sink_cb list \<times> lehs_bass_data list" where
  "broadcast_view s = (broadcast_sink_cb s, local_bass (services s))"

definition link_view :: "server_state \<Rightarrow> lehs_clcb list \<times> ga_lib_pacs_data \<times> lehs_nvram_paired_device_key list \<times> u8 list" where
  "link_view s = (server_clcbs s, pacs_app_data s, server_nvram s, db_hash_value s)"

definition beside_volume where
  "beside_volume s = (set_view s, has_global s, broadcast_view s, link_view s)"

lemmas view_defs = volume_view_def set_view_def broadcast_view_def link_view_def beside_volume_def

lemma volume_ok_view: "volume_view t = volume_view s \<Longrightarrow> volume_ok t = volume_ok s"
  by (simp add: volume_ok_def volume_view_def levels_def)

lemma broadcast_ok_view: "broadcast_view t = broadcast_view s \<Longrightarrow> broadcast_ok t = broadcast_ok s"
  by (simp add: broadcast_ok_def broadcast_view_def bass_data_def)

lemma has_ok_view: "has_global t = has_global s \<Longrightarrow> has_ok t = has_ok s"
  by (simp add: has_ok_def)

lemma emit_views [simp]:
  "volume_view (emit_server acts s) = volume_view s" "set_view (emit_server acts s) = set_view s"
  "broadcast_view (emit_server acts s) = broadcast_view s" "link_view (emit_server acts s) = link_view s"
  "beside_volume (emit_server acts s) = beside_volume s"
  by (simp_all add: view_defs)

section \<open>Volume, offset and inputs\<close>

lemma set_volume_beside [simp]:
  "beside_volume (set_vcs_state f s) = beside_volume s" "beside_volume (set_vocs g s) = beside_volume s"
  "beside_volume (set_mics_mute m s) = beside_volume s" "beside_volume (set_aics i h s) = beside_volume s"
  "beside_volume (drive d s) = beside_volume s"
  "beside_volume (upd_services (\<lambda>l. l\<lparr>local_vcs := (local_vcs l)\<lparr>vcs_flag := x\<rparr>\<rparr>) s) = beside_volume s"
  by (simp_all add: view_defs set_vcs_state_def set_vocs_def set_mics_mute_def set_aics_def)

lemma notify_beside: "beside_volume (snd (server_notify env cid h data s)) = beside_volume s"
  by (simp add: server_notify_state)

lemmas beside_simps = notify_beside aics_notify_state ga_lib_mics_notify_mute_state_def ga_lib_vocs_notify_audio_location_def
  ga_lib_vocs_notify_volume_offset_def ga_lib_vocs_notify_audio_description_def ga_lib_vcs_notify_volume_flag_def

lemma notify_volume_beside: "beside_volume (lehs_vcs_notify_volume_state env s) = beside_volume s"
proof -
  have "beside_volume (fold (\<lambda>c s. if in_use c then snd (ga_lib_vcs_notify_volume_state env (conn_id c) HDLC_VCS_VOLUME_STATE_VALUE s)
      else s) cs s) = beside_volume s" for cs
    by (induction cs arbitrary: s) (simp_all add: ga_lib_vcs_notify_volume_state_def notify_beside)
  then show ?thesis by (simp add: lehs_vcs_notify_volume_state_def)
qed

lemma set_volume_beside_volume: "beside_volume (snd (lehs_vcs_set_volume env cid opcode a s)) = beside_volume s"
  by (simp add: lehs_vcs_set_volume_def notify_volume_beside Let_def split: prod.splits)

lemma set_volume_beside_pair: "lehs_vcs_set_volume env cid opcode a s = (r, t) \<Longrightarrow> beside_volume t = beside_volume s"
  using set_volume_beside_volume [of env cid opcode a s] by simp

lemma vcs_cp_beside: "lehs_handle_vcs_cp_write env cid data n s = Some (r, t) \<Longrightarrow> beside_volume t = beside_volume s"
  by (auto simp: lehs_handle_vcs_cp_write_def Let_def beside_simps dest!: set_volume_beside_pair
      split: if_split_asm Option.bind_split_asm prod.splits)

lemma vocs_beside:
  "vocs_audio_location_write env cid data n s = Some (r, t) \<Longrightarrow> beside_volume t = beside_volume s"
  "vocs_offset_cp_write env cid data n s = Some (r, t) \<Longrightarrow> beside_volume t = beside_volume s"
  "vocs_description_write env cid data n s = Some (r, t) \<Longrightarrow> beside_volume t = beside_volume s"
  by (auto simp: vocs_audio_location_write_def vocs_offset_cp_write_def vocs_description_write_def beside_simps bind_eq_Some_conv Let_def
      split: if_splits)

lemma mics_beside:
  "mics_mute_write env cid data s = Some (r, t) \<Longrightarrow> beside_volume t = beside_volume s"
  "aics_description_write cid data n s = Some (r, t) \<Longrightarrow> beside_volume t = beside_volume s"
  by (auto simp: mics_mute_write_def aics_description_write_def beside_simps bind_eq_Some_conv Let_def split: if_splits)

lemma aics_operation_beside: "aics_operation opcode p n s = Some (r, t) \<Longrightarrow> beside_volume t = beside_volume s"
  by (auto simp: aics_operation_def Let_def bind_eq_Some_conv split: if_splits)

lemma aics_cp_beside:
  assumes "aics_cp_write env cid data n s = Some (r, t)"
  shows "beside_volume t = beside_volume s"
  using assms by (cases rule: aics_cp_write_cases) (auto dest: aics_operation_beside)

section \<open>Presets and the set\<close>

definition beside_has where
  "beside_has s = (volume_view s, set_view s, broadcast_view s, link_view s)"

lemma set_has_beside [simp]: "beside_has (set_has f s) = beside_has s" "beside_has (emit_server acts s) = beside_has s"
  by (simp_all add: beside_has_def view_defs set_has_def)

lemma notify_presets_emit: "notify_presets env cid rs s = Some t \<Longrightarrow> \<exists>acts. t = emit_server acts s"
proof (induction rs arbitrary: s)
  case Nil
  then show ?case by (metis emits_nothing notify_presets.simps(1) option.inject)
next
  case (Cons r rs)
  then show ?case
    by (auto simp: ga_lib_has_notify_read_preset_rsp_def bind_eq_Some_conv dest!: send_indication_state Cons.IH)
qed

lemma set_active_keeps:
  "lehs_has_set_active_preset env cid i s = Some (r, t) \<Longrightarrow> beside_has t = beside_has s"
  "lehs_has_set_active_preset env cid i s = Some (r, t) \<Longrightarrow> has_ok s \<Longrightarrow> has_ok t"
proof -
  assume t: "lehs_has_set_active_preset env cid i s = Some (r, t)"
  have "t = s \<or> i \<in> {1, 2, 3} \<and> (\<exists>acts. t = emit_server acts (set_has (\<lambda>h. h\<lparr>active_preset_index := i\<rparr>) s))"
    using t get_preset_rec_table(4) [of i]
    by (auto simp: lehs_has_set_active_preset_def ga_lib_has_notify_active_preset_index_def bind_eq_Some_conv
        split: option.splits if_splits dest!: send_indication_state)
  then show "beside_has t = beside_has s" "has_ok s \<Longrightarrow> has_ok t" by (auto simp: has_ok_def)
qed

lemma read_presets_keeps:
  "lehs_has_handle_read_preset_record env cid a n s = Some (r, t) \<Longrightarrow> beside_has t = beside_has s"
  "lehs_has_handle_read_preset_record env cid a n s = Some (r, t) \<Longrightarrow> has_ok s \<Longrightarrow> has_ok t"
  by (auto simp: lehs_has_handle_read_preset_record_def bind_eq_Some_conv has_ok_def split: if_splits option.splits
      dest!: notify_presets_emit)

lemma write_name_same: "lehs_has_handle_write_preset_name i data n s = Some (r, t) \<Longrightarrow> t = s"
  by (auto simp: lehs_has_handle_write_preset_name_def split: if_splits option.splits)

lemma has_write_keeps:
  "has_cp_write env cid data n s = Some (r, t) \<Longrightarrow> beside_has t = beside_has s"
  "has_cp_write env cid data n s = Some (r, t) \<Longrightarrow> has_ok s \<Longrightarrow> has_ok t"
  by (auto simp: has_cp_write_def bind_eq_Some_conv lehs_has_set_next_preset_def Let_def
      split: if_splits dest: read_presets_keeps set_active_keeps write_name_same)

definition set_ok :: "lehs_csis_data \<Rightarrow> bool" where
  "set_ok c \<longleftrightarrow> csis_lock c = GA_LIB_CSIS_UNLOCKED \<and> csis_size c \<noteq> 0 \<and> csis_rank c \<noteq> 0 \<and> length (sirk (sirk_data c)) = 16"

definition beside_set where
  "beside_set s = (volume_view s, has_global s, broadcast_view s, link_view s)"

lemma set_csis_beside [simp]: "beside_set (set_csis f s) = beside_set s" "beside_set (emit_server acts s) = beside_set s"
  by (simp_all add: beside_set_def view_defs set_csis_def)

lemma notify_lock_beside [simp]: "beside_set (notify_lock_others env cid v s) = beside_set s"
  using lock_notifications [of cid env v "server_clcbs s" s] by (auto simp: notify_lock_others_def)

lemma lock_write_shape:
  assumes "lehs_csis_handle_write_req_evt env cid data s = Some (r, t)"
  shows "beside_set t = beside_set s \<and> set_ok (the_csis t) = set_ok (the_csis s)"
  using assms by (auto simp: set_ok_def lehs_csis_handle_write_req_evt_def bind_eq_Some_conv Let_def split: if_splits)

section \<open>Stream endpoints and the broadcast sink\<close>

lemma setup_cis_levels: "lehs_isoc_dhm_setup_cis_stream env n a h st = (ret, st', acts) \<Longrightarrow> levels st' = levels st"
  by (auto simp: lehs_isoc_dhm_setup_cis_stream_def Let_def split: if_splits prod.splits dest!: reinit_levels)

lemma ase_operation_levels:
  assumes "ase_operation env ap opcode len p i sts s = Some (u, o', p', sts', t)"
  shows "levels (audio t) = levels (audio s)"
  using assms
  by (cases rule: ase_operation_cases)
    (auto simp: op_config_codec_def op_config_qos_def op_metadata_def op_receiver_start_ready_def op_disable_release_def
      bind_eq_Some_conv Let_def split: if_splits prod.splits dest!: setup_cis_levels)

lemma cp_loop_levels: "cp_loop env ap len p k n s = Some (r, n', t) \<Longrightarrow> levels (audio t) = levels (audio s)"
proof (induction "length (fst p)" arbitrary: p k n s rule: less_induct)
  case less
  from less.prems show ?case
  proof (cases rule: cp_loop_turn)
    case stop
    then show ?thesis using ase_operation_levels by blast
  next
    case go
    then show ?thesis using less.hyps [OF go(2) go(7)] ase_operation_levels [OF go(1)] by simp
  qed simp
qed

lemma check_write_levels: "lehs_ascs_check_write_req env (x # m # ps) len ap n s = Some (r, n', t) \<Longrightarrow> levels (audio t) = levels (audio s)"
  by (erule check_write_req_cases) (auto dest: cp_loop_levels)

lemma stream_request_keeps:
  assumes "lehs_ascs_handle_write_req_evt env cid data len s = Some (r, t)" "ase_table_ok (ases s)"
  shows "levels (audio t) = levels (audio s)" "ase_table_ok (ases t)"
proof -
  show "ase_table_ok (ases t)" using write_request_moves [OF assms(2,1)] assms(2) ases_move_ok by blast
  show "levels (audio t) = levels (audio s)" using assms(1)
  proof (cases rule: handle_write_req_cases)
    case rejected
    then show ?thesis by (auto dest: check_write_levels)
  next
    case (accepted x m qs n n1 n2 s1 acts rsp s2)
    then show ?thesis using notify_entries_move [OF accepted(6)] by (auto dest!: check_write_levels)
  qed
qed

lemma besides_views:
  "besides t = besides s \<Longrightarrow> volume_view t = volume_view s \<and> set_view t = set_view s \<and> has_global t = has_global s \<and> link_view t = link_view s"
  by (simp add: besides_def besides_audio_def view_defs)

section \<open>What every request keeps\<close>

text \<open>
  A block of a connection in use has its words for the client configurations, the table of its endpoints and the tables of the
  handles of its peer; a bond has the same. What identifies a connection is what its block was made with, and its peer.
\<close>

definition tables_fit :: "lehs_peer_profiles \<Rightarrow> bool" where
  "tables_fit p \<longleftrightarrow> length (gmcs p) = 12 \<and> length (gtbs p) = 16"

definition link_ok :: "lehs_clcb \<Rightarrow> bool" where
  "link_ok c \<longleftrightarrow> in_use c \<longrightarrow> cccd_ok c \<and> ase_table_ok (local_ase_data c) \<and> tables_fit (peer_profiles c)"

definition bond_ok :: "lehs_nvram_paired_device_key \<Rightarrow> bool" where
  "bond_ok e \<longleftrightarrow> length (stored_cccd_bits e) = 2 \<and> tables_fit (stored_peer_profiles e)"

definition nvram_ok :: "lehs_nvram_paired_device_key list \<Rightarrow> bool" where
  "nvram_ok nv \<longleftrightarrow> length nv = MAX_NUM_DEVICES_IN_NVRAM \<and> list_all bond_ok nv"

definition link_of :: "lehs_clcb \<Rightarrow> bool \<times> u16 \<times> u8 list \<times> lehs_peer_profiles" where
  "link_of c = (in_use c, conn_id c, conn_bda c, peer_profiles c)"

definition lists_ok :: "ga_lib_pacs_data \<Rightarrow> bool" where
  "lists_ok p \<longleftrightarrow> (\<exists>lc3. snk_pac_list p = snk_pac_list (g_lehs_pacs_app_data lc3) \<and> src_pac_list p = src_pac_list (g_lehs_pacs_app_data lc3))"

definition server_ok :: "server_state \<Rightarrow> bool" where
  "server_ok s \<longleftrightarrow> volume_ok s \<and> has_ok s \<and> broadcast_ok s \<and> set_ok (the_csis s) \<and> length (db_hash_value s) = 16 \<and>
     lists_ok (pacs_app_data s) \<and> list_all link_ok (server_clcbs s) \<and> nvram_ok (server_nvram s)"

text \<open>The step of a request made on the connection of block \<open>i\<close>.\<close>

definition keeps :: "nat \<Rightarrow> server_state \<Rightarrow> server_state \<Rightarrow> bool" where
  "keeps i s t \<longleftrightarrow> (server_ok s \<longrightarrow> server_ok t) \<and> map link_of (server_clcbs t) = map link_of (server_clcbs s) \<and>
     (\<forall>j. j \<noteq> i \<longrightarrow> server_clcbs t ! j = server_clcbs s ! j)"

lemma keeps_refl [simp]: "keeps i s s"
  by (simp add: keeps_def)

lemma keeps_trans: "keeps i s t \<Longrightarrow> keeps i t u \<Longrightarrow> keeps i s u"
  by (simp add: keeps_def)

lemma keeps_emit [simp]: "keeps i s (emit_server acts t) = keeps i s t"
  by (simp add: keeps_def server_ok_def has_ok_def broadcast_ok_def)

lemma keeps_volume:
  "beside_volume t = beside_volume s \<Longrightarrow> (volume_ok s \<Longrightarrow> volume_ok t) \<Longrightarrow> keeps i s t"
  using broadcast_ok_view [of t s] has_ok_view [of t s]
  by (auto simp: keeps_def server_ok_def beside_volume_def link_view_def set_view_def)

lemma keeps_has: "beside_has t = beside_has s \<Longrightarrow> (has_ok s \<Longrightarrow> has_ok t) \<Longrightarrow> keeps i s t"
  using broadcast_ok_view [of t s] volume_ok_view [of t s]
  by (auto simp: keeps_def server_ok_def beside_has_def link_view_def set_view_def)

lemma keeps_set:
  "beside_set t = beside_set s \<Longrightarrow> (set_ok (the_csis s) \<Longrightarrow> set_ok (the_csis t)) \<Longrightarrow> keeps i s t"
  using broadcast_ok_view [of t s] volume_ok_view [of t s] has_ok_view [of t s]
  by (auto simp: keeps_def server_ok_def beside_set_def link_view_def)

lemma keeps_broadcast: "follows s t \<Longrightarrow> keeps i s t"
  using besides_views [of t s] volume_ok_view [of t s] has_ok_view [of t s]
  by (auto simp: keeps_def server_ok_def follows_def link_view_def set_view_def)

text \<open>What changes in the block of the connection is its client configurations or its endpoints.\<close>

lemma keeps_link:
  assumes "i < length (server_clcbs s)" "link_of c = link_of (server_clcbs s ! i)"
    "link_ok (server_clcbs s ! i) \<Longrightarrow> link_ok c" "levels a = levels (server_audio s)"
  shows "keeps i s (s\<lparr>server_clcbs := (server_clcbs s)[i := c], server_audio := a\<rparr>)"
proof -
  let ?t = "s\<lparr>server_clcbs := (server_clcbs s)[i := c], server_audio := a\<rparr>"
  have "volume_ok ?t = volume_ok s" using assms(4) by (intro volume_ok_view) (simp add: view_defs)
  moreover have "list_all link_ok (server_clcbs ?t)" if "list_all link_ok (server_clcbs s)"
    using assms(1,3) that by (auto simp: list_all_length nth_list_update)
  moreover have "map link_of (server_clcbs ?t) = map link_of (server_clcbs s)"
    using assms(1,2) by (simp add: map_update list_update_same_conv)
  ultimately show ?thesis by (simp add: keeps_def server_ok_def has_ok_def broadcast_ok_def bass_data_def)
qed

lemma audio_unchanged: "s\<lparr>server_clcbs := cs\<rparr> = s\<lparr>server_clcbs := cs, server_audio := server_audio s\<rparr>"
  by simp

lemma cccd_write_keeps:
  assumes "cccd_write i h data s = Some (r, t)" "i < length (server_clcbs s)"
  shows "keeps i s t"
proof (cases "t = s")
  case False
  with assms(1) obtain v c where c: "lehs_set_clcb_cccd (server_clcbs s ! i) h v = Some c" "t = s\<lparr>server_clcbs := (server_clcbs s)[i := c]\<rparr>"
    by (auto simp: cccd_write_def bind_eq_Some_conv split: if_splits)
  from c(1) have "link_of c = link_of (server_clcbs s ! i) \<and> (link_ok (server_clcbs s ! i) \<longrightarrow> link_ok c)"
    by (auto simp: lehs_set_clcb_cccd_def bind_eq_Some_conv link_of_def link_ok_def cccd_ok_def arr_set_def
        split: option.splits if_splits)
  then show ?thesis unfolding c(2) by (subst audio_unchanged, intro keeps_link assms(2)) auto
qed simp

lemma location_write_keeps:
  "pacs_location_write f data s = Some (r, t) \<Longrightarrow> (\<And>v p. lists_ok p \<Longrightarrow> lists_ok (f v p)) \<Longrightarrow> keeps i s t"
  using volume_ok_view [of t s] has_ok_view [of t s] broadcast_ok_view [of t s]
  by (auto simp: pacs_location_write_def bind_eq_Some_conv keeps_def server_ok_def view_defs split: if_splits)

lemma ascs_write_keeps:
  assumes "ascs_cp_write env i cid data s = Some (r, t)" "i < length (server_clcbs s)" "in_use (server_clcbs s ! i)"
  shows "keeps i s t"
proof -
  from assms(1) obtain x u where u: "lehs_ascs_handle_write_req_evt (ascs_view env s) cid data (int (length data)) (ascs_part i s) = Some (x, u)"
    "t = put_ascs i u s" by (auto simp: ascs_cp_write_def bind_eq_Some_conv)
  show ?thesis
  proof (cases "link_ok (server_clcbs s ! i)")
    case True
    then have "ase_table_ok (ases (ascs_part i s))" using assms(3) by (simp add: link_ok_def ascs_part_def)
    from stream_request_keeps [OF u(1) this] True assms(2,3) show ?thesis
      unfolding u(2) put_ascs_def keeps_emit by (intro keeps_link) (auto simp: link_of_def link_ok_def cccd_ok_def ascs_part_def)
  next
    case False
    with assms(2) have "\<not> server_ok s" by (auto simp: server_ok_def list_all_length)
    then show ?thesis unfolding u(2) put_ascs_def keeps_emit
      using assms(2) by (auto simp: keeps_def map_update link_of_def list_update_same_conv)
  qed
qed

lemma volume_writes_keep:
  "lehs_handle_vcs_cp_write env cid data (length data) s = Some (r, t) \<Longrightarrow> keeps i s t"
  "vocs_audio_location_write env cid data (length data) s = Some (r, t) \<Longrightarrow> keeps i s t"
  "vocs_offset_cp_write env cid data (length data) s = Some (r, t) \<Longrightarrow> keeps i s t"
  "vocs_description_write env cid data (length data) s = Some (r, t) \<Longrightarrow> keeps i s t"
  "mics_mute_write env cid data s = Some (r, t) \<Longrightarrow> keeps i s t"
  "aics_cp_write env cid data (length data) s = Some (r, t) \<Longrightarrow> keeps i s t"
  "aics_description_write cid data (length data) s = Some (r, t) \<Longrightarrow> keeps i s t"
  using handle_volume_ok [of env "VCS_CP_WRITE cid data"] handle_volume_ok [of env "VOCS_LOCATION_WRITE cid data"]
    handle_volume_ok [of env "VOCS_CP_WRITE cid data"] handle_volume_ok [of env "VOCS_DESCRIPTION_WRITE cid data"]
    handle_volume_ok [of env "MICS_MUTE_WRITE cid data"] handle_volume_ok [of env "AICS_CP_WRITE cid data"]
    handle_volume_ok [of env "AICS_DESCRIPTION_WRITE cid data"]
  by (auto intro!: keeps_volume dest: vcs_cp_beside vocs_beside mics_beside aics_cp_beside)

lemma other_writes_keep:
  "has_cp_write env cid data n s = Some (r, t) \<Longrightarrow> keeps i s t"
  "lehs_csis_handle_write_req_evt env cid data s = Some (r, t) \<Longrightarrow> keeps i s t"
  "lehs_bass_handle_write_req_evt benv old cid data len s = Some (r, t) \<Longrightarrow> keeps i s t"
proof -
  show "lehs_csis_handle_write_req_evt env cid data s = Some (r, t) \<Longrightarrow> keeps i s t"
    by (drule lock_write_shape) (simp add: keeps_set)
qed (auto intro: keeps_has has_write_keeps keeps_broadcast dest: bass_write_follows)

lemma write_request_keeps:
  assumes "app_handle_gatt_write_request env i cid h data s = Some (r, t)" "i < length (server_clcbs s)" "in_use (server_clcbs s ! i)"
  shows "keeps i s t"
  using assms(1)
  by (auto simp: app_handle_gatt_write_request_def Let_def lists_ok_def split: if_splits
      elim: cccd_write_keeps [OF _ assms(2)] location_write_keeps ascs_write_keeps [OF _ assms(2,3)]
      volume_writes_keep other_writes_keep)

lemma set_value_keeps: "set_value env i h s = Some (r, t) \<Longrightarrow> keeps j s t"
  by (auto simp: set_value_def Let_def one_for_zero_def set_ok_def split: if_splits intro!: keeps_set)

lemma read_request_keeps: "app_handle_gatt_read_request env i h n s = Some (r, t) \<Longrightarrow> keeps j s t"
  by (auto simp: app_handle_gatt_read_request_def split: if_splits option.splits dest: set_value_keeps)

lemma by_type_keeps:
  assumes "read_by_type_loop env i e uuid n h vl out s = Some y"
  shows "keeps j s (snd y)"
proof (rule read_by_type_loop.raw_induct [where P = "\<lambda>env i e uuid n h vl out s y. keeps j s (snd y)", OF _ assms], goal_cases)
  case (1 loop env i e uuid n h vl out s y)
  show ?case
  proof (cases "app_handle_gatt_read_request env i (find_handle_by_type env h e uuid) 0 s")
    case (Some x)
    obtain r u where x: "x = (r, u)" by fastforce
    have u: "keeps j s u" using Some x read_request_keeps by blast
    show ?thesis
      using 1(2) Some x u by (cases r) (auto simp: Let_def split: if_splits prod.splits dest!: 1(1) elim: keeps_trans [OF u])
  qed (use 1(2) in \<open>auto simp: Let_def split: if_splits\<close>)
qed

lemma answer_read_keeps: "answer_read env i cid h s = Some (r, t) \<Longrightarrow> keeps j s t"
proof -
  assume *: "answer_read env i cid h s = Some (r, t)"
  then obtain x u where "app_handle_gatt_read_request env i h 512 s = Some (x, u)"
    by (auto simp: answer_read_def bind_eq_Some_conv)
  with * read_request_keeps [OF this] show ?thesis
    by (cases x) (auto simp: answer_read_def gatt_intf_send_read_response_def split: if_splits)
qed

lemma by_type_request_keeps:
  "app_handle_gatt_read_by_type_request env i cid a b uuid n s = Some (r, t) \<Longrightarrow> keeps j s t"
proof -
  assume *: "app_handle_gatt_read_by_type_request env i cid a b uuid n s = Some (r, t)"
  then have "t = s \<or> (\<exists>x u. read_by_type_loop env i b uuid n a 0 [] s = Some (x, u))"
    by (auto simp: app_handle_gatt_read_by_type_request_def bind_eq_Some_conv split: if_splits)
  then consider "t = s" | x u where "read_by_type_loop env i b uuid n a 0 [] s = Some (x, u)" by blast
  then show ?thesis
  proof cases
    case (2 x u)
    with * by_type_keeps [OF 2] show ?thesis
      by (cases x) (auto simp: app_handle_gatt_read_by_type_request_def split: if_splits)
  qed simp
qed

lemma attribute_request_keeps:
  assumes "app_handle_gatt_attribute_request env cid req s = Some (r, t)"
    "lehs_gatt_get_clcb_by_conn_id (server_clcbs s) cid = Some i"
  shows "keeps i s t"
proof -
  have i: "i < length (server_clcbs s)" "in_use (server_clcbs s ! i)"
    using assms(2) by (auto simp: lehs_gatt_get_clcb_by_conn_id_def dest: find_index_Some)
  have mtu: "keeps i s (s\<lparr>server_clcbs := (server_clcbs s)[i := lehs_set_gatt_state_mtu_exchanged (server_clcbs s ! i)]\<rparr>)"
    by (subst audio_unchanged, intro keeps_link i(1))
      (simp_all add: lehs_set_gatt_state_mtu_exchanged_def link_of_def link_ok_def cccd_ok_def)
  show ?thesis
    using assms mtu
    by (cases req) (auto simp: app_handle_gatt_attribute_request_def bind_eq_Some_conv Let_def
        dest: answer_read_keeps by_type_request_keeps write_request_keeps [OF _ i] split: if_splits)
qed

lemma request_event_keeps:
  assumes "gatt_attribute_request_event env cid req s = Some (r, t)"
  shows "case lehs_gatt_get_clcb_by_conn_id (server_clcbs s) cid of
      None \<Rightarrow> \<exists>acts. t = emit_server acts s | Some i \<Rightarrow> keeps i s t"
proof -
  obtain st h u where u: "app_handle_gatt_attribute_request env cid req s = Some ((st, h), u)" "t = u \<or> t = emit_server [ERROR_RSP cid h st] u"
    using assms by (auto simp: gatt_attribute_request_event_def bind_eq_Some_conv Let_def split: if_splits)
  show ?thesis
  proof (cases "lehs_gatt_get_clcb_by_conn_id (server_clcbs s) cid")
    case None
    then have "u = s" using u(1) by (simp add: app_handle_gatt_attribute_request_def)
    with u(2) None show ?thesis by (auto intro: emits_nothing)
  next
    case (Some i)
    with attribute_request_keeps [OF u(1)] u(2) show ?thesis by auto
  qed
qed

section \<open>After the start\<close>

text \<open>Memory as the start of the program leaves it, with the blocks of what has connected.\<close>

definition example_headset :: "lehs_clcb list \<Rightarrow> server_state" where
  "example_headset cs = snd (lehs_gatt_init GATT_SUCCESS GATT_SUCCESS (replicate 16 1) ((example_unset cs)\<lparr>has_global := lehs_has_data_initial\<rparr>))"

definition example_link :: "u16 \<Rightarrow> lehs_clcb" where
  "example_link cid = (fresh_clcb [1, 2, 3, 4, 5, of_nat (unat cid)] 0 cid False)\<lparr>local_ase_data := lehs_init_local_ase_data cid\<rparr>"

lemma init_parts:
  "volume_view (example_headset cs) = ((100, 0), \<lparr>vcs_state = \<lparr>volume_setting = 100, vcs_mute_state = 0, vcs_change_counter = 0\<rparr>, vcs_flag = 1\<rparr>,
     local_vocs zero_service_data, [aics_initial])"
  "set_view (example_headset cs) = (\<lparr>sirk_data = \<lparr>sirk = lehs_app_sirk_value, sirk_type = 1, is_oob = False\<rparr>, csis_size = 1, csis_rank = 1,
     conn_id_of_lock_owner = 0, csis_lock = 1, lock_timer_on = False\<rparr>, zero_gmap_data, lehs_has_data_initial)"
  "has_global (example_headset cs) = lehs_has_data_initial"
  "broadcast_view (example_headset cs) = (replicate LEHS_MAX_BIG zero_big, replicate LEHS_BROADCAST_RCV_STATE_MAX zero_bass_data)"
  "link_view (example_headset cs) = (cs, lehs_set_audio_location 3 (g_lehs_pacs_app_data 6), lehs_nvram_init, replicate 16 1)"
  "local_mics (services (example_headset cs)) = \<lparr>mics_mute_state = 0\<rparr>"
  by (simp_all add: example_headset_def lehs_gatt_init_def Let_def view_defs levels_def lehs_mics_initialize_data_def
      lehs_has_initialize_data_def lehs_vcs_initialize_data_def lehs_csis_initialize_data_def lehs_csis_set_lock_timeout_def
      set_csis_def set_vcs_state_def set_aics_def set_mics_mute_def zero_service_data_def example_unset_def
      audio_driver_set_volume_def audio_driver_set_mute_state_def)

lemma init_nvram_ok: "nvram_ok lehs_nvram_init"
  by (simp add: nvram_ok_def lehs_nvram_init_def zero_paired_device_key_def bond_ok_def tables_fit_def zero_peer_profiles_def list_all_iff)

lemma example_link_ok: "link_ok (example_link cid)"
  by (simp add: example_link_def link_ok_def tables_fit_def zero_peer_profiles_def fresh_clcb_def lehs_set_gatt_state_connection_sts_def cccd_ok_def init_table_ok zero_clcb_def)

lemma app_sirk_length: "length lehs_app_sirk_value = 16"
  by (simp add: lehs_app_sirk_value_def numeral_eq_Suc)

lemma headset_ok: "list_all link_ok cs \<Longrightarrow> server_ok (example_headset cs)"
  using init_parts [of cs]
  by (auto simp: server_ok_def view_defs volume_ok_def has_ok_def broadcast_ok_def bass_data_def levels_def zero_service_data_def
      lehs_has_data_initial_def GA_LIB_HAS_FEATURES_def aics_initial_def lists_ok_def lehs_set_audio_location_def set_ok_def app_sirk_length init_nvram_ok)

section \<open>Reading\<close>

text \<open>The value of the published records, and the one for a room that is too small.\<close>

lemma records_value:
  "ga_lib_pacs_build_read_rsp_sink_src_cap_pkt 1 (snk_pac_records_supported lc3) (int n) 0 =
     Some (if n < 28 then ([1], 0) else ([1, lc3, 0, 0, 0, 0, 16, 3, 1, 0xF5, 0, 2, 2, 3, 2, 3, 1, 5, 4, 0x1A, 0, 0x64, 0, 4, 3, 1, 5, 2], 1))"
  "ga_lib_pacs_build_read_rsp_sink_src_cap_pkt 1 (src_pac_records_supported lc3) (int n) 0 =
     Some (if n < 28 then ([1], 0) else ([1, lc3, 0, 0, 0, 0, 16, 3, 1, 0xB5, 0, 2, 2, 3, 2, 3, 1, 5, 4, 0x1A, 0, 0x64, 0, 4, 3, 1, 3, 0], 1))"
  by (simp_all add: ga_lib_pacs_build_read_rsp_sink_src_cap_pkt_def snk_pac_records_supported_def src_pac_records_supported_def
      pac_record_octets_def pad128_def octets_def lc3_id_def b16_def)

definition within :: "nat \<Rightarrow> u8 list option option \<Rightarrow> bool" where
  "within n v \<longleftrightarrow> (case v of None \<Rightarrow> True | Some None \<Rightarrow> False | Some (Some xs) \<Rightarrow> length xs \<le> n)"

lemma within_simps [simp]: "within n None" "within n (Some (Some xs)) \<longleftrightarrow> length xs \<le> n" "\<not> within n (Some None)"
  "within n (if c then x else y) \<longleftrightarrow> (if c then within n x else within n y)"
  by (simp_all add: within_def)

lemma volume_value_within: "volume_ok s \<Longrightarrow> within 512 (volume_value 512 h s)"
proof -
  assume "volume_ok s"
  then have desc: "length (vocs_description (the_vocs s)) = 20" "last (vocs_description (the_vocs s)) = 0"
    by (auto simp: volume_ok_def)
  then have "vocs_description (the_vocs s) \<noteq> []" by auto
  then have "0 \<in> set (vocs_description (the_vocs s))" using desc last_in_set by metis
  moreover have "length (c_string (vocs_description (the_vocs s))) \<le> 20"
    using desc(1) length_takeWhile_le [of "\<lambda>x. x \<noteq> 0" "vocs_description (the_vocs s)"] by (simp add: c_string_def)
  ultimately show ?thesis by (auto simp: volume_value_def vocs_description_value_def b16_def b32_def Let_def)
qed

lemma pacs_value_within: "lists_ok (pacs_app_data s) \<Longrightarrow> within 512 (pacs_value 512 h s)"
  using records_value [of _ 512]
  by (auto simp: lists_ok_def pacs_value_def g_lehs_pacs_app_data_def b16_def b32_def Let_def)

lemma stream_value_within:
  assumes "length (local_ase_data (server_clcbs s ! i)) = 3" "h \<noteq> HDLC_BASS_BROADCAST_RECEIVE_STATE_1_VALUE"
  shows "within 512 (stream_value env i 512 h s)"
proof -
  have "within 512 (Some (do { d \<leftarrow> arr_get (local_ase_data (server_clcbs s ! i)) j; ga_lib_ascs_build_ase_response junk (ase d) (int 512) }))"
    if "j < 3" for j junk
    using that assms(1) build_ase_response_le [of junk "ase (local_ase_data (server_clcbs s ! i) ! j)" "int 512"]
    by (auto simp: arr_get_def)
  from this [of 0] this [of 1] this [of 2] assms(2) show ?thesis by (simp add: stream_value_def Let_def)
qed

lemma aics_description_within:
  "length (aics_description a) = MAX_DESCRIPTION \<Longrightarrow> unat (description_len a) \<le> MAX_DESCRIPTION \<Longrightarrow> within 512 (Some (aics_description_value 512 a))"
  by (simp add: aics_description_value_def octets_def)

lemma input_value_within: "volume_ok s \<Longrightarrow> within 512 (input_value 512 h s)"
  using aics_description_within [of "the_aics 0 s"] by (simp add: volume_ok_def input_value_def b16_def Let_def)

lemma table_length: "ase_table_ok ds \<Longrightarrow> length ds = 3"
  by (auto simp: ase_table_ok_def lehs_ases_def dest: arg_cong [of _ _ length])

lemma plain_value_within:
  assumes "server_ok s" "i < length (server_clcbs s)" "in_use (server_clcbs s ! i)" "h \<noteq> HDLC_BASS_BROADCAST_RECEIVE_STATE_1_VALUE"
  shows "within 512 (plain_value env i 512 h s)"
proof -
  have "link_ok (server_clcbs s ! i)" using assms(1,2) by (simp add: server_ok_def list_all_length)
  then have "length (local_ase_data (server_clcbs s ! i)) = 3" using assms(3) table_length by (simp add: link_ok_def)
  from stream_value_within [OF this assms(4), of env] have "within 512 (stream_value env i 512 h s)" .
  moreover have "within 512 (volume_value 512 h s)" "within 512 (pacs_value 512 h s)" "within 512 (input_value 512 h s)"
    using assms(1) by (simp_all add: server_ok_def volume_value_within pacs_value_within input_value_within)
  ultimately show ?thesis by (auto simp: plain_value_def split: option.splits)
qed

lemma cccd_value:
  assumes "server_ok s" "i < length (server_clcbs s)" "in_use (server_clcbs s ! i)"
    "lehs_get_cccd_index h GATT_INTF_DESCRIPTOR_HANDLE_INDEX \<noteq> None"
  shows "\<exists>v. lehs_get_clcb_cccd (server_clcbs s ! i) h GATT_INTF_DESCRIPTOR_HANDLE_INDEX = Some v"
proof -
  have "cccd_ok (server_clcbs s ! i)" using assms(1-3) by (simp add: server_ok_def list_all_length link_ok_def)
  with assms(4) show ?thesis using get_cccd_field cccd_index_descriptor by blast
qed


lemma read_request_result:
  assumes "server_ok s" "i < length (server_clcbs s)" "in_use (server_clcbs s ! i)" "h \<noteq> HDLC_BASS_BROADCAST_RECEIVE_STATE_1_VALUE"
  shows "\<exists>r. app_handle_gatt_read_request env i h 512 s = Some (r, s) \<and> (case r of Inl st \<Rightarrow> st \<noteq> GATT_SUCCESS | Inr v \<Rightarrow> length v \<le> 512)"
proof -
  have set: "csis_size (the_csis s) \<noteq> 0" "csis_lock (the_csis s) \<noteq> 0" "csis_rank (the_csis s) \<noteq> 0"
    "length (sirk (sirk_data (the_csis s))) = 16" and hash: "length (db_hash_value s) = 16"
    using assms(1) by (auto simp: server_ok_def set_ok_def)
  obtain v where v: "lehs_get_cccd_index h GATT_INTF_DESCRIPTOR_HANDLE_INDEX \<noteq> None \<Longrightarrow>
      lehs_get_clcb_cccd (server_clcbs s ! i) h GATT_INTF_DESCRIPTOR_HANDLE_INDEX = Some v"
    using cccd_value [OF assms(1-3)] by blast
  have id: "set_csis (\<lambda>c. c\<lparr>csis_size := one_for_zero (csis_size c)\<rparr>) s = s"
    "set_csis (\<lambda>c. c\<lparr>csis_lock := one_for_zero (csis_lock c)\<rparr>) s = s"
    "set_csis (\<lambda>c. c\<lparr>csis_rank := one_for_zero (csis_rank c)\<rparr>) s = s"
    using set by (simp_all add: set_csis_def upd_services_def one_for_zero_def)
  have len: "length (lehs_encrypt_sirk (env_csis env) bda s) \<le> 511" for bda
    using set(4) by (simp add: lehs_encrypt_sirk_def ga_lib_csis_sirk_encryption_func_def Let_def)
  have "case sirk_value (env_csis env) i s of Inl st \<Rightarrow> st \<noteq> GATT_SUCCESS | Inr v \<Rightarrow> length v \<le> 512"
    using set(4) len by (simp add: sirk_value_def Let_def)
  then show ?thesis
    using v plain_value_within [OF assms(1-4), of env] hash
    by (auto simp: app_handle_gatt_read_request_def lehs_generic_attribute_handle_read_request_def set_value_def id b16_def within_def
        split: option.splits)
qed

section \<open>Properties\<close>

subsection \<open>The server as a whole\<close>

text \<open>The requests that come in, each with what the stack and the memory hold at its time.\<close>

type_synonym att_moment = "server_env \<times> u16 \<times> att_request"

fun att_run :: "att_moment list \<Rightarrow> server_state \<Rightarrow> server_state option" where
  "att_run [] s = Some s"
| "att_run ((env, cid, req) # xs) s = do {
     (_, s) \<leftarrow> gatt_attribute_request_event env cid req s;
     att_run xs s }"

text \<open>The block of a connection is found by its state and identifier, which no request changes.\<close>

lemma find_by_link:
  "map link_of ds = map link_of cs \<Longrightarrow> lehs_gatt_get_clcb_by_conn_id ds cid = lehs_gatt_get_clcb_by_conn_id cs cid"
proof -
  have *: "lehs_gatt_get_clcb_by_conn_id cs cid = find_index (\<lambda>l. fst l \<and> fst (snd l) = cid) (map link_of cs)" for cs
    by (induction cs) (simp_all add: lehs_gatt_get_clcb_by_conn_id_def link_of_def)
  show "map link_of ds = map link_of cs \<Longrightarrow> ?thesis" unfolding * by simp
qed

definition untouched :: "att_moment list \<Rightarrow> server_state \<Rightarrow> nat \<Rightarrow> bool" where
  "untouched xs s j = list_all (\<lambda>(_, cid, _). lehs_gatt_get_clcb_by_conn_id (server_clcbs s) cid \<noteq> Some j) xs"

text \<open>C5: Whatever clients read and write, in any order and over any connections: the driver plays at the volume the service shows, the
  presets, the broadcast sink, the set and the stream endpoints stay well formed, the set is never locked, every connection
  keeps its block and identity, and a connection that asks nothing finds its block, with its client configurations and
  stream endpoints, as it was.\<close>

theorem att_requests_invariant:
  assumes "att_run xs s = Some t" "server_ok s"
  shows "server_ok t \<and> map link_of (server_clcbs t) = map link_of (server_clcbs s) \<and>
    (\<forall>j. untouched xs s j \<longrightarrow> server_clcbs t ! j = server_clcbs s ! j)"
  using assms
proof (induction xs s rule: att_run.induct)
  case (2 env cid req xs s)
  obtain r u where u: "gatt_attribute_request_event env cid req s = Some (r, u)" "att_run xs u = Some t"
    using "2.prems"(1) by (auto simp: bind_eq_Some_conv)
  have step: "server_ok u \<and> map link_of (server_clcbs u) = map link_of (server_clcbs s) \<and>
      (\<forall>j. lehs_gatt_get_clcb_by_conn_id (server_clcbs s) cid \<noteq> Some j \<longrightarrow> server_clcbs u ! j = server_clcbs s ! j)"
  proof (cases "lehs_gatt_get_clcb_by_conn_id (server_clcbs s) cid")
    case None
    with request_event_keeps [OF u(1)] obtain acts where "u = emit_server acts s" by auto
    with "2.prems"(2) keeps_refl [of 0 s] keeps_emit [of 0 s acts s] show ?thesis by (simp add: keeps_def)
  next
    case (Some i)
    with request_event_keeps [OF u(1)] have "keeps i s u" by simp
    then have "server_ok u" "map link_of (server_clcbs u) = map link_of (server_clcbs s)"
      "\<And>j. j \<noteq> i \<Longrightarrow> server_clcbs u ! j = server_clcbs s ! j"
      using "2.prems"(2) by (simp_all add: keeps_def)
    then show ?thesis by (intro conjI allI impI) (auto simp only: Some option.inject)
  qed
  then have "lehs_gatt_get_clcb_by_conn_id (server_clcbs u) c = lehs_gatt_get_clcb_by_conn_id (server_clcbs s) c" for c
    by (intro find_by_link) blast
  then have same: "untouched xs u = untouched xs s" by (intro ext) (simp add: untouched_def)
  have rest: "server_ok t" "map link_of (server_clcbs t) = map link_of (server_clcbs s)"
    "untouched xs s j \<Longrightarrow> server_clcbs t ! j = server_clcbs u ! j" for j
    using "2.IH" [OF u(1) refl u(2)] step unfolding same by auto
  have "untouched ((env, cid, req) # xs) s j \<Longrightarrow> server_clcbs t ! j = server_clcbs s ! j" for j
    using rest(3) [of j] step by (simp add: untouched_def)
  with rest(1,2) show ?case by blast
qed simp

text \<open>C6: A read of any attribute but the broadcast receive state changes nothing and is answered with one response: the error with its
  handle, or the value, of at most 512 octets, when there is a buffer for it. When there is none, the read is taken for a success and no
  response is sent.\<close>

theorem read_answered:
  assumes "server_ok s" "lehs_gatt_get_clcb_by_conn_id (server_clcbs s) cid = Some i"
    "h \<noteq> HDLC_BASS_BROADCAST_RECEIVE_STATE_1_VALUE"
  shows "\<exists>r st acts. app_handle_gatt_read_request env i h 512 s = Some (r, s) \<and>
    gatt_attribute_request_event env cid (REQ_READ h) s = Some (st, emit_server acts s) \<and>
    (case r of Inl e \<Rightarrow> e \<noteq> GATT_SUCCESS \<and> st = e \<and> acts = [ERROR_RSP cid h e]
     | Inr v \<Rightarrow> length v \<le> 512 \<and> st = GATT_SUCCESS \<and>
         acts = (if v = [] \<or> get_buffer (env_gatt env) (length v) then [READ_RSP cid v] else []))"
proof -
  have i: "i < length (server_clcbs s)" "in_use (server_clcbs s ! i)"
    using assms(2) by (auto simp: lehs_gatt_get_clcb_by_conn_id_def dest: find_index_Some)
  obtain r where r: "app_handle_gatt_read_request env i h 512 s = Some (r, s)"
      "case r of Inl st \<Rightarrow> st \<noteq> GATT_SUCCESS | Inr v \<Rightarrow> length v \<le> 512"
    using read_request_result [OF assms(1) i assms(3)] by blast
  show ?thesis
  proof (cases r)
    case (Inl st)
    with r assms(2) show ?thesis
      by (simp add: gatt_attribute_request_event_def app_handle_gatt_attribute_request_def answer_read_def)
  next
    case (Inr v)
    have none: "emit_server [] s = s" by (simp add: emit_server_def)
    show ?thesis
    proof (intro exI conjI)
      show "gatt_attribute_request_event env cid (REQ_READ h) s =
          Some (GATT_SUCCESS, emit_server (if v = [] \<or> get_buffer (env_gatt env) (length v) then [READ_RSP cid v] else []) s)"
        using Inr r assms(2) by (simp add: gatt_attribute_request_event_def app_handle_gatt_attribute_request_def answer_read_def
            gatt_intf_send_read_response_def none)
    qed (use Inr r in auto)
  qed
qed

subsection \<open>The database\<close>





subsection \<open>Writing and reading back\<close>

text \<open>C7: What a client wrote into a client configuration, an audio location or the mute state, the next read of that handle returns, with
  the reserved bits of a client configuration gone; the read changes nothing.\<close>

theorem written_is_read:
  assumes "app_handle_gatt_write_request env i cid h data s = Some (GATT_SUCCESS, t)" "i < length (server_clcbs s)"
    "cccd_ok (server_clcbs s ! i)"
    "if cccd_known h then data = b16 v else if h = HDLC_MICS_MUTE_STATE_VALUE then data = [m]
     else h \<in> {HDLC_PACS_SINK_AUDIO_LOCATIONS_VALUE, HDLC_PACS_SOURCE_AUDIO_LOCATIONS_VALUE} \<and> data = b32 l"
  shows "app_handle_gatt_read_request env i h n t = Some (Inr (if cccd_known h then b16 (v AND 3) else data), t)"
proof (cases "cccd_known h")
  case True
  then obtain j where j: "lehs_get_cccd_index h GATT_INTF_DESCRIPTOR_HANDLE_INDEX = Some j" using cccd_known_index by blast
  from set_cccd_field [OF assms(3) j, of v] obtain bits where bits:
    "lehs_set_clcb_cccd (server_clcbs s ! i) h v = Some ((server_clcbs s ! i)\<lparr>cccd_bits := bits\<rparr>)" "length bits = 2"
    "\<And>k. k < 27 \<Longrightarrow> cccd_field bits k = (if k = j then v AND 3 else cccd_field (cccd_bits (server_clcbs s ! i)) k)" by blast
  have t: "t = s\<lparr>server_clcbs := (server_clcbs s)[i := (server_clcbs s ! i)\<lparr>cccd_bits := bits\<rparr>]\<rparr>"
    using assms(1,4) True j bits(1) rd16_b16 [of v "[]" 0]
    by (simp add: app_handle_gatt_write_request_def cccd_write_def start_def)
  have "j < 27" using j by (simp add: cccd_index_descriptor)
  then have "lehs_get_clcb_cccd ((server_clcbs s ! i)\<lparr>cccd_bits := bits\<rparr>) h GATT_INTF_DESCRIPTOR_HANDLE_INDEX = Some (v AND 3)"
    using get_cccd_field [OF _ j, of "(server_clcbs s ! i)\<lparr>cccd_bits := bits\<rparr>"] bits(2,3) by (simp add: cccd_ok_def)
  with True j assms(2) show ?thesis unfolding t by (simp add: app_handle_gatt_read_request_def)
next
  case False
  then have none: "lehs_get_cccd_index h GATT_INTF_DESCRIPTOR_HANDLE_INDEX = None" using cccd_known_index [of h] by auto
  have mics: "local_mics (services (set_mics_mute m s)) = \<lparr>mics_mute_state = m\<rparr>" for s
    by (simp add: set_mics_mute_def)
  from False assms(4) consider "h = HDLC_MICS_MUTE_STATE_VALUE" "data = [m]" | "h = HDLC_PACS_SINK_AUDIO_LOCATIONS_VALUE" "data = b32 l"
    | "h = HDLC_PACS_SOURCE_AUDIO_LOCATIONS_VALUE" "data = b32 l"
    by (auto split: if_splits)
  then show ?thesis
  proof cases
    case 1
    with assms(1) none False show ?thesis
      by (auto simp: app_handle_gatt_write_request_def app_handle_gatt_read_request_def plain_value_def volume_value_def pacs_value_def
          stream_value_def input_value_def mics_mute_write_def start_def rd_simps ga_lib_mics_notify_mute_state_def server_notify_state mics)
  next
    case 2
    with assms(1) none False rd32_b32 [of l "[]" 0] show ?thesis
      by (auto simp: app_handle_gatt_write_request_def app_handle_gatt_read_request_def plain_value_def volume_value_def pacs_value_def
          pacs_location_write_def start_def Let_def)
  next
    case 3
    with assms(1) none False rd32_b32 [of l "[]" 0] show ?thesis
      by (auto simp: app_handle_gatt_write_request_def app_handle_gatt_read_request_def plain_value_def volume_value_def pacs_value_def
          pacs_location_write_def start_def Let_def)
  qed
qed

subsection \<open>Reading by type\<close>

lemma database_handles:
  "h \<in> set (concat (map entry_handles lehs_gatt_database)) \<Longrightarrow> h \<noteq> HDLC_VOCS_AUDIO_OUTPUT_DESCRIPTION_VALUE \<and> unat h \<le> 534"
  by (auto simp: lehs_gatt_database_def db_generic_attribute_def db_vcs_def db_pacs_def db_ascs_def db_cas_def db_bass_def db_csis_def
    db_mics_def db_mics_aics_def db_has_def db_tmas_def db_gmap_def)

lemma plain_value_total:
  assumes "server_ok s" "i < length (server_clcbs s)" "in_use (server_clcbs s ! i)"
    "h \<noteq> HDLC_VOCS_AUDIO_OUTPUT_DESCRIPTION_VALUE" "h \<noteq> HDLC_BASS_BROADCAST_RECEIVE_STATE_1_VALUE"
  shows "plain_value env i n h s \<noteq> Some None"
proof -
  have "link_ok (server_clcbs s ! i)" using assms(1,2) by (simp add: server_ok_def list_all_length)
  then have len: "length (local_ase_data (server_clcbs s ! i)) = 3" using assms(3) table_length by (simp add: link_ok_def)
  have "do { d \<leftarrow> arr_get (local_ase_data (server_clcbs s ! i)) j; ga_lib_ascs_build_ase_response junk (ase d) k } \<noteq> None" if "j < 3" for j junk k
    using that len build_ase_response_le [of junk "ase (local_ase_data (server_clcbs s ! i) ! j)" k] by (auto simp: arr_get_def)
  from this [of 0] this [of 1] this [of 2] assms(5) have "stream_value env i n h s \<noteq> Some None"
    by (auto simp: stream_value_def Let_def)
  moreover have "volume_value n h s \<noteq> Some None" using assms(4) by (simp add: volume_value_def)
  moreover have "pacs_value n h s \<noteq> Some None"
    using assms(1) records_value [of _ n] by (auto simp: server_ok_def lists_ok_def pacs_value_def g_lehs_pacs_app_data_def Let_def)
  moreover have "aics_description_value n (the_aics 0 s) \<noteq> None"
    using assms(1) by (auto simp: server_ok_def volume_ok_def aics_description_value_def octets_def Let_def)
  then have "input_value n h s \<noteq> Some None" by (simp add: input_value_def Let_def)
  ultimately show ?thesis by (auto simp: plain_value_def split: option.splits)
qed

lemma read_request_total:
  assumes "server_ok s" "i < length (server_clcbs s)" "in_use (server_clcbs s ! i)"
    "h \<noteq> HDLC_VOCS_AUDIO_OUTPUT_DESCRIPTION_VALUE" "h \<noteq> HDLC_BASS_BROADCAST_RECEIVE_STATE_1_VALUE"
  obtains r t where "app_handle_gatt_read_request env i h n s = Some (r, t)"
  using cccd_value [OF assms(1-3), of h] plain_value_total [OF assms, of env n]
  by (cases "app_handle_gatt_read_request env i h n s")
    (auto simp: app_handle_gatt_read_request_def split: if_splits option.splits)

definition finds_in_database :: "server_env \<Rightarrow> wiced_bt_uuid \<Rightarrow> bool" where
  "finds_in_database env uuid \<longleftrightarrow> (\<forall>a e. let h = find_handle_by_type env a e uuid in h = 0 \<or>
     a \<le> h \<and> h \<in> set (concat (map entry_handles lehs_gatt_database)) \<and> h \<noteq> HDLC_BASS_BROADCAST_RECEIVE_STATE_1_VALUE)"

lemma by_type_loop_ends:
  assumes "finds_in_database env uuid"
  shows "server_ok s \<Longrightarrow> i < length (server_clcbs s) \<Longrightarrow> in_use (server_clcbs s ! i) \<Longrightarrow>
    \<exists>y. read_by_type_loop env i e uuid n h vl out s = Some y"
proof (induction "600 - unat h" arbitrary: h vl out s rule: less_induct)
  case less
  let ?a = "find_handle_by_type env h e uuid"
  show ?case
  proof (cases "?a = 0")
    case True
    then show ?thesis by (subst read_by_type_loop.simps) simp
  next
    case False
    with assms have a: "h \<le> ?a" "?a \<in> set (concat (map entry_handles lehs_gatt_database))" "?a \<noteq> HDLC_BASS_BROADCAST_RECEIVE_STATE_1_VALUE"
      by (auto simp: finds_in_database_def Let_def)
    note bound = database_handles [OF a(2)]
    obtain r t where r: "app_handle_gatt_read_request env i ?a 0 s = Some (r, t)"
      using read_request_total [OF less.prems(1-3) conjunct1 [OF bound] a(3)] by blast
    have keep: "keeps i s t" using read_request_keeps r by blast
    have links: "map link_of (server_clcbs t) = map link_of (server_clcbs s)" using keep by (simp add: keeps_def)
    then have "length (server_clcbs t) = length (server_clcbs s)" by (metis length_map)
    moreover have "link_of (server_clcbs t ! i) = link_of (server_clcbs s ! i)"
      using links less.prems(2) calculation by (metis nth_map)
    ultimately have t: "server_ok t" "i < length (server_clcbs t)" "in_use (server_clcbs t ! i)"
      using keep less.prems by (auto simp: keeps_def link_of_def)
    have "unat (?a + 1) = unat ?a + 1" using bound by (simp add: unat_word_ariths)
    then have "600 - unat (?a + 1) < 600 - unat h" using a(1) bound by (auto simp: word_le_nat_alt)
    from less.hyps [OF this t] have next_ends: "\<exists>y. read_by_type_loop env i e uuid n (?a + 1) vl' out' t = Some y" for vl' out' .
    show ?thesis
      by (subst read_by_type_loop.simps) (use False r next_ends in \<open>auto simp: Let_def split: sum.splits prod.splits\<close>)
  qed
qed

lemma by_type_sink_records:
  assumes "server_ok s" "get_buffer (env_gatt env) n" "find_handle_by_type env a e uuid = HDLC_PACS_SINK_PAC_VALUE"
    "find_handle_by_type env (HDLC_PACS_SINK_PAC_VALUE + 1) e uuid = 0"
  shows "app_handle_gatt_read_by_type_request env i cid a e uuid n s =
    (case put_read_by_type env (int n) 0 HDLC_PACS_SINK_PAC_VALUE [1] of (out, l) \<Rightarrow>
       if out = [] then Some ((GATT_ATTRIBUTE_NOT_FOUND, a), s)
       else Some ((send_read_by_type env out, a), emit_server [READ_BY_TYPE_RSP cid l out] s))"
proof -
  obtain lc3 where "snk_pac_list (pacs_app_data s) = snk_pac_list (g_lehs_pacs_app_data lc3)"
    using assms(1) by (auto simp: server_ok_def lists_ok_def)
  moreover have "lehs_get_cccd_index HDLC_PACS_SINK_PAC_VALUE GATT_INTF_DESCRIPTOR_HANDLE_INDEX = None"
    by (simp add: lehs_get_cccd_index_def lehs_cccd_map_def)
  ultimately have r: "app_handle_gatt_read_request env i HDLC_PACS_SINK_PAC_VALUE 0 s = Some (Inr [1], s)"
    using records_value(1) [of _ 0]
    by (simp add: app_handle_gatt_read_request_def plain_value_def volume_value_def pacs_value_def g_lehs_pacs_app_data_def Let_def)
  have stop: "read_by_type_loop env i e uuid n (HDLC_PACS_SINK_PAC_VALUE + 1) l out s = Some (Inr (l, out), s)" for l out
    using assms(4) by (subst read_by_type_loop.simps) simp
  have "read_by_type_loop env i e uuid n a 0 [] s =
      (case put_read_by_type env (int n) 0 HDLC_PACS_SINK_PAC_VALUE [1] of (out, l) \<Rightarrow> Some (Inr (l, out), s))"
    by (subst read_by_type_loop.simps) (use assms(3) r stop in \<open>auto simp: split: prod.splits\<close>)
  with assms(2) show ?thesis by (auto simp: app_handle_gatt_read_by_type_request_def split: prod.splits)
qed

text \<open>C31: As long as the stack finds attributes of the database, from the handle asked for upwards and not the broadcast receive state, a
  request by type ends, whatever the type, the range and the room, and leaves a server that is well formed. But it reads each
  value into a room of 0: when the search finds the published sink capabilities, what the request puts into its response is the number of
  records alone, where a read of the handle gives the records after it.\<close>

theorem read_by_type_ends:
  assumes "finds_in_database env uuid" "server_ok s" "i < length (server_clcbs s)" "in_use (server_clcbs s ! i)"
  shows "(\<exists>r t. app_handle_gatt_read_by_type_request env i cid a e uuid n s = Some (r, t) \<and> server_ok t) \<and>
    (get_buffer (env_gatt env) n \<and> find_handle_by_type env a e uuid = HDLC_PACS_SINK_PAC_VALUE \<and>
     find_handle_by_type env (HDLC_PACS_SINK_PAC_VALUE + 1) e uuid = 0 \<longrightarrow>
       app_handle_gatt_read_by_type_request env i cid a e uuid n s =
         (case put_read_by_type env (int n) 0 HDLC_PACS_SINK_PAC_VALUE [1] of (out, l) \<Rightarrow>
            if out = [] then Some ((GATT_ATTRIBUTE_NOT_FOUND, a), s)
            else Some ((send_read_by_type env out, a), emit_server [READ_BY_TYPE_RSP cid l out] s))) \<and>
    (\<exists>rec. map_option fst (app_handle_gatt_read_request env i HDLC_PACS_SINK_PAC_VALUE 512 s) = Some (Inr (1 # rec)) \<and> length rec = 27)"
proof -
  obtain y where "read_by_type_loop env i e uuid n a 0 [] s = Some y" using by_type_loop_ends [OF assms] by blast
  then have "app_handle_gatt_read_by_type_request env i cid a e uuid n s \<noteq> None"
    by (cases y) (simp add: app_handle_gatt_read_by_type_request_def del: not_None_eq)
  then obtain r t where r: "app_handle_gatt_read_by_type_request env i cid a e uuid n s = Some (r, t)" by fastforce
  have t: "server_ok t" using by_type_request_keeps [OF r, of 0] assms(2) by (simp add: keeps_def)
  obtain lc3 where "snk_pac_list (pacs_app_data s) = snk_pac_list (g_lehs_pacs_app_data lc3)"
    using assms(2) by (auto simp: server_ok_def lists_ok_def)
  moreover have "lehs_get_cccd_index HDLC_PACS_SINK_PAC_VALUE GATT_INTF_DESCRIPTOR_HANDLE_INDEX = None"
    by (simp add: lehs_get_cccd_index_def lehs_cccd_map_def)
  ultimately have "\<exists>rec. map_option fst (app_handle_gatt_read_request env i HDLC_PACS_SINK_PAC_VALUE 512 s) = Some (Inr (1 # rec)) \<and> length rec = 27"
    using records_value(1) [of _ 512]
    by (simp add: app_handle_gatt_read_request_def plain_value_def volume_value_def pacs_value_def g_lehs_pacs_app_data_def Let_def)
  with r t by_type_sink_records [OF assms(2)] show ?thesis by blast
qed

section \<open>Witnesses\<close>

text \<open>A stack that finds the attributes of the published sink capabilities and appends a handle with the value.\<close>

definition example_server_env :: server_env where
  "example_server_env = \<lparr>env_bis = example_bis, env_csis = example_csis, env_ascs = example_ascs_env, bass_memory = example_source_data,
     read_buffer = (\<lambda>_. 0), err_handle_junk = 0, ble_max_rx_pdu_size = 512,
     find_handle_by_type = (\<lambda>a e uuid. if a \<le> 210 then 210 else 0),
     put_read_by_type = (\<lambda>n vl h v. (b16 h @ v, of_nat (length v + 2))), send_read_handle = (\<lambda>_. GATT_SUCCESS), send_read_by_type = (\<lambda>_. GATT_SUCCESS)\<rparr>"

definition example_two :: server_state where
  "example_two = example_headset [example_link 1, example_link 2]"

lemma example_two_parts [simp]:
  "server_clcbs example_two = [example_link 1, example_link 2]" "server_ok example_two"
  "lehs_gatt_get_clcb_by_conn_id [example_link 1, example_link 2] 1 = Some 0"
  "in_use (example_link cid)" "conn_id (example_link cid) = cid" "cccd_ok (example_link cid)"
proof -
  show "server_clcbs example_two = [example_link 1, example_link 2]"
    using init_parts(5) [of "[example_link 1, example_link 2]"] by (simp add: example_two_def link_view_def)
  show "in_use (example_link cid)" "conn_id (example_link cid) = cid" "cccd_ok (example_link cid)" for cid
    by (simp_all add: example_link_def fresh_clcb_def lehs_set_gatt_state_connection_sts_def cccd_ok_def zero_clcb_def)
  then show "lehs_gatt_get_clcb_by_conn_id [example_link 1, example_link 2] 1 = Some 0"
    by (simp add: lehs_gatt_get_clcb_by_conn_id_def)
  show "server_ok example_two" unfolding example_two_def by (rule headset_ok) (simp add: example_link_ok)
qed

definition example_att :: "att_moment list" where
  "example_att = [(example_server_env, 1, REQ_WRITE HDLC_PACS_SINK_AUDIO_LOCATIONS_VALUE (b32 1)), (example_server_env, 1, REQ_MTU 100)]"

lemma example_location_write:
  "app_handle_gatt_write_request example_server_env 0 1 HDLC_PACS_SINK_AUDIO_LOCATIONS_VALUE (b32 1) example_two =
     Some (GATT_SUCCESS, example_two\<lparr>pacs_app_data := (pacs_app_data example_two)\<lparr>snk_audio_location := 1\<rparr>\<rparr>)"
  using rd32_b32 [of 1 "[]" 0]
  by (simp add: app_handle_gatt_write_request_def lehs_get_cccd_index_def lehs_cccd_map_def pacs_location_write_def start_def)

lemma example_att_run: "\<exists>t. att_run example_att example_two = Some t"
  using example_location_write
  by (simp add: example_att_def gatt_attribute_request_event_def app_handle_gatt_attribute_request_def Let_def)

theorem att_requests_invariant_witness:
  "server_ok (the (att_run example_att example_two)) \<and> server_clcbs (the (att_run example_att example_two)) ! 1 = example_link 2"
proof -
  obtain t where t: "att_run example_att example_two = Some t" using example_att_run by blast
  have "untouched example_att example_two 1" by (simp add: example_att_def untouched_def)
  with att_requests_invariant [OF t] t show ?thesis by simp
qed

theorem read_answered_witness:
  "\<exists>r st acts. app_handle_gatt_read_request example_server_env 0 HDLC_VCS_VOLUME_STATE_VALUE 512 example_two = Some (r, example_two) \<and>
    gatt_attribute_request_event example_server_env 1 (REQ_READ HDLC_VCS_VOLUME_STATE_VALUE) example_two = Some (st, emit_server acts example_two) \<and>
    (case r of Inl e \<Rightarrow> e \<noteq> GATT_SUCCESS \<and> st = e \<and> acts = [ERROR_RSP 1 HDLC_VCS_VOLUME_STATE_VALUE e]
     | Inr v \<Rightarrow> length v \<le> 512 \<and> st = GATT_SUCCESS \<and>
         acts = (if v = [] \<or> get_buffer (env_gatt example_server_env) (length v) then [READ_RSP 1 v] else []))"
  by (rule read_answered) simp_all

theorem written_is_read_witness:
  "app_handle_gatt_read_request example_server_env 0 HDLC_PACS_SINK_AUDIO_LOCATIONS_VALUE 512
      (example_two\<lparr>pacs_app_data := (pacs_app_data example_two)\<lparr>snk_audio_location := 1\<rparr>\<rparr>) =
    Some (Inr (b32 1), example_two\<lparr>pacs_app_data := (pacs_app_data example_two)\<lparr>snk_audio_location := 1\<rparr>\<rparr>)"
proof -
  have "\<not> cccd_known HDLC_PACS_SINK_AUDIO_LOCATIONS_VALUE" by (simp add: cccd_known_def lehs_cccd_map_def)
  then show ?thesis using written_is_read [OF example_location_write, of 0 0 1] by simp
qed

theorem read_by_type_ends_witness:
  "app_handle_gatt_read_by_type_request example_server_env 0 1 1 0xFFFF (UUID16 0x2BC9) 64 example_two =
    Some ((GATT_SUCCESS, 1), emit_server [READ_BY_TYPE_RSP 1 3 [210, 0, 1]] example_two)"
proof -
  have "210 \<in> set (concat (map entry_handles lehs_gatt_database))"
    by (simp add: lehs_gatt_database_def db_pacs_def)
  then have "finds_in_database example_server_env (UUID16 0x2BC9)"
    by (simp add: finds_in_database_def example_server_env_def Let_def)
  from read_by_type_ends [OF this, of example_two 0 1 1 "0xFFFF" 64] show ?thesis
    by (simp add: example_server_env_def example_bis_def example_env_def b16_def)
qed

end
