(* ===== verification/Rpc_Events.thy ===== *)
theory Rpc_Events
  imports Volume Mcs_Tbs Bis_Types
begin

text \<open>
  The events for the host: the senders of \<open>le_audio_rpc.c\<close>, \<open>app_rpc.c\<close> and \<open>lehs_rpc.c\<close>. Each fills an array on the stack and
  hands it to \<open>app_rpc_send_data\<close>; the result is what is handed over, \<open>None\<close> when the array is too small or when
  what the code reads ends before.
\<close>

section \<open>Events\<close>

type_synonym host_frames = "(host_event \<times> u8 list) list"

text \<open>An event from an array of \<open>n\<close> octets. Addresses are written with their octets reversed.\<close>

definition app_rpc_send_data :: "nat \<Rightarrow> host_event \<Rightarrow> u8 list \<Rightarrow> host_frames option" where
  "app_rpc_send_data n e xs = (if length xs > n then None else Some [(e, xs)])"

text \<open>The octets of a C string that must end inside its array.\<close>

definition c_str :: "u8 list \<Rightarrow> u8 list option" where
  "c_str a = (if 0 \<in> set a then Some (c_string a) else None)"

section \<open>Audio events\<close>

definition le_audio_rpc_send_broadcast_status_update :: "u32 \<Rightarrow> host_frames option" where
  "le_audio_rpc_send_broadcast_status_update st = app_rpc_send_data 64 EVENT_BROADCAST_STATUS_UPDATE [ucast st]"

fun le_audio_rpc_send_vcs_state_update :: "u16 \<Rightarrow> u8 \<Rightarrow> u8 \<Rightarrow> lea_status \<Rightarrow> host_frames option" where
  "le_audio_rpc_send_vcs_state_update cid v m LEA_MUTE_STATUS = app_rpc_send_data 30 EVENT_MUTE_STATUS (b16 cid @ [m])"
| "le_audio_rpc_send_vcs_state_update cid v m LEA_VOLUME_STATUS = app_rpc_send_data 30 EVENT_VOLUME_STATUS (b16 cid @ [v])"
| "le_audio_rpc_send_vcs_state_update cid v m LEA_MUTE_AND_VOLUME_STATUS =
     app_rpc_send_data 30 EVENT_MUTE_AND_VOLUME_STATUS (b16 cid @ [v, m])"
| "le_audio_rpc_send_vcs_state_update cid v m LEA_NO_STATUS = Some []"

text \<open>The identifier of a call is at most 49 octets, after its length has been cut to 8 bits.\<close>

definition uri_octets :: "u8 list \<Rightarrow> u8 list" where
  "uri_octets uri = (let n = length uri mod 256; n = (if n \<ge> 50 then 49 else n) in of_nat n # take n uri)"

definition le_audio_rpc_update_call_state :: "u16 \<Rightarrow> u8 \<Rightarrow> u8 list option \<Rightarrow> u8 \<Rightarrow> host_frames option" where
  "le_audio_rpc_update_call_state cid i p_call_uri st = do {
     uri \<leftarrow> (case p_call_uri of None \<Rightarrow> Some [] | Some a \<Rightarrow> c_str a);
     app_rpc_send_data 64 EVENT_CALL_STATE (b16 cid @ [i, st] @ (if uri = [] then [0] else uri_octets uri)) }"

definition le_audio_rpc_send_call_terminated_event :: "u16 \<Rightarrow> u8 \<Rightarrow> u8 \<Rightarrow> host_frames option" where
  "le_audio_rpc_send_call_terminated_event cid i why = app_rpc_send_data 5 EVENT_CALL_TERMINATED (b16 cid @ [i, why])"

definition le_audio_rpc_send_mcs_state_update :: "u16 \<Rightarrow> u8 \<Rightarrow> host_frames option" where
  "le_audio_rpc_send_mcs_state_update cid st = app_rpc_send_data 64 EVENT_PLAY_STATUS (b16 cid @ [st])"

definition le_audio_rpc_send_mic_state_update :: "u16 \<Rightarrow> u8 \<Rightarrow> host_frames option" where
  "le_audio_rpc_send_mic_state_update cid st = app_rpc_send_data 64 EVENT_MIC_STATUS (b16 cid @ [st])"

definition le_audio_rpc_send_convo_stream_state_update :: "u16 \<Rightarrow> u8 \<Rightarrow> host_frames option" where
  "le_audio_rpc_send_convo_stream_state_update cid st = app_rpc_send_data 64 EVENT_CONVO_STREAM_STATE (b16 cid @ [st])"

text \<open>
  The description with its final 0, after its length in 32 bits. The length that was cut to 50 is not used: the array of 61
  octets holds a description of 50.
\<close>

definition le_audio_rpc_send_mics_aics_description :: "u16 \<Rightarrow> u32 \<Rightarrow> u8 list \<Rightarrow> host_frames option" where
  "le_audio_rpc_send_mics_aics_description cid inst p_desc = do {
     desc \<leftarrow> c_str p_desc;
     app_rpc_send_data 61 EVENT_MICS_AICS_DESC (b16 cid @ b32 inst @ b32 (of_nat (length desc + 1)) @ desc @ [0]) }"

definition le_audio_rpc_send_mics_mute_state :: "u16 \<Rightarrow> u8 \<Rightarrow> host_frames option" where
  "le_audio_rpc_send_mics_mute_state cid m = app_rpc_send_data 5 EVENT_MICS_MUTE_STATUS (b16 cid @ [m])"

definition le_audio_rpc_send_mics_aics_input_state :: "u16 \<Rightarrow> u32 \<Rightarrow> ga_lib_aics_input_state \<Rightarrow> host_frames option" where
  "le_audio_rpc_send_mics_aics_input_state cid inst st =
     app_rpc_send_data 10 EVENT_MICS_AICS_INPUT_STATUS (b16 cid @ b32 inst @ [gain_setting st, mute_mode st, gain_mode st])"

definition le_audio_rpc_send_preset_record :: "u16 \<Rightarrow> u8 \<Rightarrow> u8 list \<Rightarrow> u8 \<Rightarrow> host_frames option" where
  "le_audio_rpc_send_preset_record cid i p_name name_len = do {
     name \<leftarrow> octets (unat name_len) p_name;
     app_rpc_send_data 45 EVENT_PRESET_RECORD (b16 cid @ i # name) }"

definition le_audio_rpc_update_active_preset :: "u16 \<Rightarrow> u8 \<Rightarrow> host_frames option" where
  "le_audio_rpc_update_active_preset cid i = app_rpc_send_data 5 EVENT_ACTIVE_PRESET (b16 cid @ [i])"

section \<open>Device events\<close>

text \<open>\<open>le_audio_group\<close> is a constant of the host interface. The third octet of the chip is the fourth of its number.\<close>

definition app_rpc_send_misc_event :: "u32 \<Rightarrow> u8 \<Rightarrow> host_frames option" where
  "app_rpc_send_misc_event chip grp =
     app_rpc_send_data 15 EVENT_VERSION
       [0, 0, 0, 0, 0, ucast chip, ucast (drop_bit 8 chip), ucast (drop_bit 24 chip), 0, grp]"

definition app_rpc_send_dev_role :: "u8 \<Rightarrow> u32 \<Rightarrow> host_frames option" where
  "app_rpc_send_dev_role le_audio_group dev_role = do {
     a \<leftarrow> app_rpc_send_misc_event 55571 le_audio_group;
     b \<leftarrow> app_rpc_send_data 8 EVENT_DEVICE_ROLE (b32 dev_role);
     Some (a @ b) }"

record connection_report =
  rep_addr_type :: u8
  rep_bd_addr :: "u8 list"
  rep_conn_id :: u16
  rep_link_role :: u8
  rep_connected :: u8
  rep_reason :: u16
  rep_transport :: u8

definition app_rpc_send_connect_event :: "connection_report \<Rightarrow> host_frames option" where
  "app_rpc_send_connect_event p = do {
     addr \<leftarrow> octets 6 (rep_bd_addr p);
     app_rpc_send_data 30 EVENT_CONNECTED (rep_addr_type p # rev addr @ b16 (rep_conn_id p) @
       [rep_link_role p, rep_connected p, ucast (rep_reason p), rep_transport p]) }"

definition app_rpc_send_disconnect_evt :: "connection_report \<Rightarrow> host_frames option" where
  "app_rpc_send_disconnect_evt p = do {
     addr \<leftarrow> octets 6 (rep_bd_addr p);
     app_rpc_send_data 14 EVENT_DISCONNECTED (b16 (rep_conn_id p) @ b16 (rep_reason p) @ rev addr @ [rep_addr_type p]) }"

record scan_report =
  rep_evt_type :: u16
  rep_remote_bd_addr :: "u8 list"
  rep_remote_addr_type :: u8
  rep_rssi :: u8
  rep_primary_phy :: u8
  rep_secondary_phy :: u8
  rep_adv_sid :: u8
  rep_tx_power :: u8
  rep_padv_interval :: u16
  rep_direct_addr_type :: u8
  rep_direct_bda :: "u8 list"
  rep_adv_len :: u16

text \<open>The array has 256 octets more than the SDK's structure of a scan result; the length of the data is not compared with it.\<close>

definition app_rpc_send_scan_res_event :: "nat \<Rightarrow> scan_report \<Rightarrow> u8 list \<Rightarrow> host_frames option" where
  "app_rpc_send_scan_res_event scan_results_size p p_adv_data = do {
     remote \<leftarrow> octets 6 (rep_remote_bd_addr p);
     direct \<leftarrow> octets 6 (rep_direct_bda p);
     data \<leftarrow> octets (unat (rep_adv_len p)) p_adv_data;
     app_rpc_send_data (256 + scan_results_size) EVENT_EXT_ADVERTISEMENT_REPORT
       (b16 (rep_evt_type p) @ rev remote @
        [rep_remote_addr_type p, rep_rssi p, rep_primary_phy p, rep_secondary_phy p, rep_adv_sid p, rep_tx_power p] @
        b16 (rep_padv_interval p) @ rep_direct_addr_type p # rev direct @ b16 (rep_adv_len p) @ data) }"

text \<open>No address is \<open>NULL\<close>. Of a UUID of 32 bits the lower half is written.\<close>

definition app_rpc_send_app_sub_status ::
  "u16 \<Rightarrow> u8 list option \<Rightarrow> u32 \<Rightarrow> u32 \<Rightarrow> wiced_bt_uuid option \<Rightarrow> host_frames option" where
  "app_rpc_send_app_sub_status cid dev_addr init_state sub_state p_uuid = do {
     a \<leftarrow> dev_addr;
     addr \<leftarrow> octets 6 a;
     app_rpc_send_data 26 EVENT_APP_STATUS (b16 cid @ rev addr @ b32 init_state @ b32 sub_state @
       (case p_uuid of None \<Rightarrow> []
          | Some (UUID16 u) \<Rightarrow> 2 # b16 u
          | Some (UUID32 u) \<Rightarrow> 4 # b16 (ucast u)
          | Some (UUID128 _) \<Rightarrow> [16])) }"

definition app_rpc_send_app_status :: "u16 \<Rightarrow> u8 list option \<Rightarrow> u32 \<Rightarrow> u32 \<Rightarrow> host_frames option" where
  "app_rpc_send_app_status cid dev_addr init_state sub_state = app_rpc_send_app_sub_status cid dev_addr init_state sub_state None"

definition le_audio_rpc_send_app_status :: "u16 \<Rightarrow> u8 list option \<Rightarrow> u32 \<Rightarrow> u32 \<Rightarrow> host_frames option" where
  "le_audio_rpc_send_app_status cid dev_addr init_state sub_state = app_rpc_send_app_sub_status cid dev_addr init_state sub_state None"

definition app_rpc_send_advertisement_state_event :: "u8 \<Rightarrow> host_frames option" where
  "app_rpc_send_advertisement_state_event st = app_rpc_send_data 1 EVENT_ADVERTISEMENT_STATE [st]"

definition app_rpc_send_advertisement_state :: "u32 \<Rightarrow> host_frames option" where
  "app_rpc_send_advertisement_state st = app_rpc_send_data 4 EVENT_EXT_ADVERTISEMENT_STATE (b32 st)"

section \<open>Application events\<close>

definition lehs_rpc_send_play_status :: "u16 \<Rightarrow> u8 \<Rightarrow> host_frames option" where
  "lehs_rpc_send_play_status cid st = app_rpc_send_data 10 EVENT_PLAY_STATUS (b16 cid @ [st])"

definition lehs_rpc_send_device_role_event :: "u8 \<Rightarrow> host_frames option" where
  "lehs_rpc_send_device_role_event dev_role = app_rpc_send_data 2 EVENT_DEVICE_ROLE [dev_role]"

text \<open>One player; the length of the name is cut to 8 bits, the name itself is not.\<close>

definition lehs_rpc_send_get_players_event :: "u16 \<Rightarrow> u8 list \<Rightarrow> host_frames option" where
  "lehs_rpc_send_get_players_event cid p_name = do {
     name \<leftarrow> c_str p_name;
     app_rpc_send_data 50 EVENT_MEDIA_PLAYER (b16 cid @ [1, of_nat (length name)] @ name) }"

definition lehs_rpc_update_call_friendly_name :: "u16 \<Rightarrow> u8 list \<Rightarrow> u8 \<Rightarrow> host_frames option" where
  "lehs_rpc_update_call_friendly_name cid f_name f_name_len = do {
     let n = (if f_name_len > 61 then 61 else f_name_len);
     name \<leftarrow> octets (unat n) f_name;
     app_rpc_send_data 64 EVENT_CALL_FRIENDLY_NAME (b16 cid @ n # name) }"

text \<open>
  The keys of the device and the entry of a bond, with the identifier of their place: \<open>id_keys\<close> and \<open>entry\<close> are the memory of
  the SDK's structures.
\<close>

definition lehs_rpc_send_identity_resolving_key :: "u16 \<Rightarrow> u8 list \<Rightarrow> host_frames option" where
  "lehs_rpc_send_identity_resolving_key nv_base id_keys = app_rpc_send_data 75 EVENT_IDENTITY_KEYS (b16 (nv_base + 1) @ id_keys)"

definition lehs_rpc_send_link_keys :: "u16 \<Rightarrow> u8 list \<Rightarrow> host_frames option" where
  "lehs_rpc_send_link_keys nvram_id entry = app_rpc_send_data (length entry + 2) EVENT_NVRAM_DATA (b16 nvram_id @ entry)"

section \<open>The events of recorded calls\<close>

text \<open>What the calls recorded by the services and by the clients become, where the record has all that is sent.\<close>

fun service_frames :: "server_action \<Rightarrow> host_frames option" where
  "service_frames (SEND_VCS_STATE cid v m w) = le_audio_rpc_send_vcs_state_update cid v m w"
| "service_frames (SEND_MICS_MUTE cid m) = le_audio_rpc_send_mics_mute_state cid m"
| "service_frames (SEND_AICS_INPUT_STATE cid inst st) = le_audio_rpc_send_mics_aics_input_state cid inst st"
| "service_frames (SEND_AICS_DESCRIPTION cid inst desc) = le_audio_rpc_send_mics_aics_description cid inst desc"
| "service_frames (BROADCAST (RPC_BROADCAST_STATUS st)) = le_audio_rpc_send_broadcast_status_update (ucast st)"
| "service_frames (CONNECTION (SEND_ADV_STATE st)) = app_rpc_send_advertisement_state (of_nat (adv_state_val st))"
| "service_frames (HOST_EVENT e xs) = Some [(e, xs)]"
| "service_frames _ = Some []"

fun client_frames :: "client_action \<Rightarrow> host_frames option" where
  "client_frames (RPC_PLAYERS cid name) = lehs_rpc_send_get_players_event cid name"
| "client_frames (RPC_PLAY_STATUS cid st) = lehs_rpc_send_play_status cid st"
| "client_frames (RPC_CALL_STATE cid i uri st) = le_audio_rpc_update_call_state cid i uri st"
| "client_frames (RPC_CALL_TERMINATED cid i why) = le_audio_rpc_send_call_terminated_event cid i why"
| "client_frames (RPC_FRIENDLY_NAME cid name n) = lehs_rpc_update_call_friendly_name cid name (ucast n)"
| "client_frames _ = Some []"

end
