(* ===== verification/Host_Commands.thy ===== *)
theory Host_Commands
  imports Gatt_Server Rpc_Events
begin

text \<open>
  The commands of the host, \<open>lehs_rpc.c\<close> with the reception of \<open>rpc_uart.c\<close>, and the writes to the bonds they make, the
  last part of \<open>lehs_nvram.c\<close>. A command is its opcode and a payload that each handler reads from its first octet on; \<open>None\<close> is a
  read behind the payload or a fault of the part of the server that is called.
\<close>

section \<open>The interface\<close>

text \<open>The opcodes of the host interface, whose numbers are not in the repository.\<close>

datatype host_command =
    COMMAND_GET_MEDIA_PLAYERS | COMMAND_SET_MEDIA_PLAYER | COMMAND_PLAY | COMMAND_PAUSE
  | COMMAND_VOL_UP | COMMAND_VOL_DOWN | COMMAND_ABS_VOL | COMMAND_MUTE | COMMAND_UNMUTE | COMMAND_UNMUTE_VOL_UP
  | COMMAND_UNMUTE_VOL_DOWN | COMMAND_ADVERTISE | COMMAND_CONNECT | COMMAND_CANCEL_CONNECT | COMMAND_DISCONNECT
  | COMMAND_PING | COMMAND_GET_VERSION | COMMAND_SET_CSIS_PARAMS | COMMAND_FIND_SOURCES | COMMAND_SYNC_TO_SOURCES
  | COMMAND_GET_BIS_INFO | COMMAND_CANCEL_PA_SYNC | COMMAND_TERMINATE_PA_SYNC | COMMAND_ACCEPT_CALL | COMMAND_HOLD_CALL
  | COMMAND_RETRIEVE_CALL | COMMAND_ORIGINATE_CALL | COMMAND_JOIN_CALL | COMMAND_TERMINATE_CALL | COMMAND_MICP_MUTE
  | COMMAND_MICP_AICS_MUTE | COMMAND_MICP_AICS_SET_GAIN | COMMAND_PUSH_NVRAM_DATA | COMMAND_DELETE_NVRAM_DATA
  | COMMAND_PUSH_NVRAM_DATA_LONG

text \<open>
  \<open>nvram_start\<close> is \<open>UNICAST_APP_NVRAM_ID_START\<close>; \<open>id_keys_size\<close> the size of the SDK's structure of the keys of the device;
  \<open>overwrite_entries i offset xs nv\<close> the bonds after octets were copied over entry \<open>i\<close>, whose layout is the SDK's, \<open>None\<close> behind the
  array; \<open>init_private_addr\<close> the result of the stack for keys of the device; \<open>le_audio_group\<close>, \<open>device_roles\<close> and
  \<open>device_appearance\<close> the constants of an answer to \<open>COMMAND_GET_VERSION\<close>.
\<close>

record host_env =
  host_server :: server_env
  command_of :: "u16 \<Rightarrow> host_command option"
  gain_command_of :: "u8 \<Rightarrow> gain_command"
  nvram_start :: u16
  id_keys_size :: nat
  overwrite_entries :: "nat \<Rightarrow> nat \<Rightarrow> u8 list \<Rightarrow> lehs_nvram_paired_device_key list \<Rightarrow> lehs_nvram_paired_device_key list option"
  init_private_addr :: "u8 list \<Rightarrow> wiced_result"
  le_audio_group :: u8
  device_roles :: u32
  device_appearance :: u16

abbreviation host_bis :: "host_env \<Rightarrow> bis_env" where "host_bis env \<equiv> env_bis (host_server env)"
abbreviation host_gatt :: "host_env \<Rightarrow> gatt_env" where "host_gatt env \<equiv> env_gatt (host_server env)"

definition emit_frames :: "host_frames option \<Rightarrow> server_state \<Rightarrow> server_state option" where
  "emit_frames frames s = map_option (\<lambda>fs. emit_server (map (\<lambda>(e, xs). HOST_EVENT e xs) fs) s) frames"

definition emit_connection :: "conn_action list \<Rightarrow> server_state \<Rightarrow> server_state" where
  "emit_connection acts = emit_server (map CONNECTION acts)"

section \<open>Broadcast\<close>

definition rpc_get_bis_info :: "u8 list \<Rightarrow> server_state \<Rightarrow> server_state option" where
  "rpc_get_bis_info data s = do {
     (broadcast_id, _) \<leftarrow> rd32 (start data);
     Some (lehs_sync_to_pa broadcast_id s) }"

definition rpc_cancel_pa_sync :: "server_state \<Rightarrow> server_state" where
  "rpc_cancel_pa_sync s = (if lehs_broadcast_get_sync_progress s then emit_bis [PADV_CANCEL_SYNC] s else s)"

definition rpc_terminate_pa_sync :: "host_env \<Rightarrow> u8 list \<Rightarrow> server_state \<Rightarrow> server_state option" where
  "rpc_terminate_pa_sync env data s = do {
     (broadcast_id, _) \<leftarrow> rd32 (start data);
     Some (case lehs_bis_get_big_by_broadcast_id broadcast_id s of
         None \<Rightarrow> s
       | Some b \<Rightarrow>
           let big = broadcast_sink_cb s ! b;
               s = (if sync_state big = BROADCAST_PA_SYNC_ESTABLISHED (host_bis env)
                    then emit_bis [PADV_TERMINATE_SYNC (sync_handle big)] s else s)
           in lehs_bis_free_big b s) }"

definition rpc_handle_find_broadcast_sources :: "u8 list \<Rightarrow> server_state \<Rightarrow> server_state option" where
  "rpc_handle_find_broadcast_sources data s = do {
     (begin_scan, _) \<leftarrow> rd8 (start data);
     Some (lehs_bis_discover_sources (begin_scan \<noteq> 0) s) }"

text \<open>Without a choice the first stream is meant.\<close>

definition rpc_handle_sync_to_broadcast_source :: "host_env \<Rightarrow> u8 list \<Rightarrow> server_state \<Rightarrow> server_state option" where
  "rpc_handle_sync_to_broadcast_source env data s = do {
     (listen, p) \<leftarrow> rd8 (start data);
     (br_id, p) \<leftarrow> rd32 p;
     if listen = 0 then lehs_bis_terminate_sync (host_bis env) br_id s
     else do {
       (bits, p) \<leftarrow> rd32 p;
       (br_code_flag, p) \<leftarrow> rd8 p;
       let source = zero_source\<lparr>src_broadcast_id := br_id, src_bis_index_bits := (if bits = 0 then 1 else bits)\<rparr>;
       (code, _) \<leftarrow> (if br_code_flag \<noteq> 0 then rd_arr 16 p else Some (src_broadcast_code source, p));
       lehs_bis_sync_to_source (source\<lparr>src_broadcast_code := code\<rparr>) s } }"

section \<open>Set, media and volume\<close>

text \<open>The keys, the sizes and the location as they come; none is tested.\<close>

definition rpc_set_csis_params :: "u8 list \<Rightarrow> server_state \<Rightarrow> server_state option" where
  "rpc_set_csis_params data s = do {
     (sirk, p) \<leftarrow> rd_arr 16 (start data);
     (location, p) \<leftarrow> rd32 p;
     (sirk_type, p) \<leftarrow> rd8 p;
     (set_size, p) \<leftarrow> rd8 p;
     (set_rank, _) \<leftarrow> rd8 p;
     let s = lehs_csis_set_sirk \<lparr>sirk = sirk, sirk_type = sirk_type, is_oob = False\<rparr> s;
     let s = lehs_csis_set_size set_size (lehs_csis_set_rank set_rank s);
     Some (s\<lparr>pacs_app_data := lehs_set_audio_location location (pacs_app_data s)\<rparr>) }"

text \<open>The two commands about the players only read their arguments.\<close>

definition rpc_handle_set_media_player :: "u8 list \<Rightarrow> server_state \<Rightarrow> server_state option" where
  "rpc_handle_set_media_player data s = do {
     (cid, p) \<leftarrow> rd16 (start data);
     (player_len, _) \<leftarrow> rd8 p;
     Some s }"

definition rpc_handle_get_media_players :: "u8 list \<Rightarrow> server_state \<Rightarrow> server_state option" where
  "rpc_handle_get_media_players data s = do { (cid, _) \<leftarrow> rd16 (start data); Some s }"

definition rpc_handle_play :: "host_env \<Rightarrow> u8 list \<Rightarrow> server_state \<Rightarrow> server_state option" where
  "rpc_handle_play env data s = do {
     (cid, _) \<leftarrow> rd16 (start data);
     (_, acts) \<leftarrow> lehs_mcs_play_pause (host_gatt env) (server_clcbs s) cid True;
     Some (emit_gatts acts s) }"

definition rpc_handle_pause :: "host_env \<Rightarrow> u8 list \<Rightarrow> server_state \<Rightarrow> server_state option" where
  "rpc_handle_pause env data s = do {
     (cid, _) \<leftarrow> rd16 (start data);
     (_, acts) \<leftarrow> lehs_mcs_play_pause (host_gatt env) (server_clcbs s) cid False;
     Some (emit_gatts acts s) }"

text \<open>The operation of the volume service a command stands for; no other command reaches the handler.\<close>

fun volume_opcode :: "host_command \<Rightarrow> u8 option" where
  "volume_opcode COMMAND_VOL_DOWN = Some 0"
| "volume_opcode COMMAND_VOL_UP = Some 1"
| "volume_opcode COMMAND_UNMUTE_VOL_DOWN = Some 2"
| "volume_opcode COMMAND_UNMUTE_VOL_UP = Some 3"
| "volume_opcode COMMAND_ABS_VOL = Some VOLUME_CONTROL_OPCODE_SET_ABSOLUTE_VOLUME"
| "volume_opcode COMMAND_UNMUTE = Some VOLUME_CONTROL_OPCODE_UNMUTE"
| "volume_opcode COMMAND_MUTE = Some VOLUME_CONTROL_OPCODE_MUTE"
| "volume_opcode _ = None"

definition rpc_handle_set_vol :: "host_env \<Rightarrow> host_command \<Rightarrow> u8 list \<Rightarrow> server_state \<Rightarrow> server_state option" where
  "rpc_handle_set_vol env opcode data s = do {
     (cid, p) \<leftarrow> rd16 (start data);
     (vol, _) \<leftarrow> (if opcode = COMMAND_ABS_VOL then rd8 p else Some (0, p));
     Some (case volume_opcode opcode of
         None \<Rightarrow> s
       | Some vcs_opcode \<Rightarrow> snd (lehs_vcs_set_volume (host_gatt env) cid vcs_opcode vol s)) }"

section \<open>Connections\<close>

text \<open>
  The length of the payload is an 8-bit parameter. Advertising that is to end is moved on from the state behind the last one.
\<close>

definition rpc_handle_adv :: "u8 list \<Rightarrow> u8 \<Rightarrow> server_state \<Rightarrow> server_state option" where
  "rpc_handle_adv data payload_len s = do {
     (enable, p) \<leftarrow> rd8 (start data);
     (tx_power, p) \<leftarrow> (if payload_len > 1 then rd8 p else Some (adv_tx_power s, p));
     (swift_pair, p) \<leftarrow> (if payload_len > 2 then rd8 p else Some (server_do_swift_pair s, p));
     (adv_opt, p) \<leftarrow> (if payload_len > 3 then rd16 p else Some (adv_data_options s, p));
     let st = (if enable = 0 then ADV_STATE_MAX else server_adv_state s);
     let s = s\<lparr>adv_tx_power := tx_power, adv_data_options := adv_opt, server_do_swift_pair := swift_pair\<rparr>;
     (next_state, acts) \<leftarrow> lehs_move_to_next_adv_state swift_pair st;
     Some (emit_connection acts (s\<lparr>server_adv_state := next_state\<rparr>)) }"

text \<open>The parameters of the connection are those of the configuration, always the same.\<close>

definition app_create_connection :: "u8 \<Rightarrow> u8 list \<Rightarrow> server_state \<Rightarrow> server_state" where
  "app_create_connection addr_type addr = emit_connection [CREATE_CONNECTION addr_type addr]"

definition rpc_handle_connect :: "bool \<Rightarrow> u8 list \<Rightarrow> server_state \<Rightarrow> server_state option" where
  "rpc_handle_connect cancel data s = do {
     (addr_type, p) \<leftarrow> rd8 (start data);
     (octs, _) \<leftarrow> rd_arr 6 p;
     Some (if cancel then emit_connection [CANCEL_CONNECT (rev octs)] s else app_create_connection addr_type (rev octs) s) }"

definition lehs_disconnect_device :: "u16 \<Rightarrow> server_state \<Rightarrow> server_state" where
  "lehs_disconnect_device cid = emit_connection [DISCONNECT cid]"

definition rpc_handle_disconnect :: "u8 list \<Rightarrow> server_state \<Rightarrow> server_state option" where
  "rpc_handle_disconnect data s = do { (cid, _) \<leftarrow> rd16 (start data); Some (lehs_disconnect_device cid s) }"

definition rpc_handle_call_control_point_action :: "host_env \<Rightarrow> u8 list \<Rightarrow> u8 \<Rightarrow> server_state \<Rightarrow> server_state option" where
  "rpc_handle_call_control_point_action env data action s = do {
     (cid, p) \<leftarrow> rd16 (start data);
     (i, _) \<leftarrow> rd8 p;
     case lehs_gatt_get_clcb_by_conn_id (server_clcbs s) cid of
       None \<Rightarrow> Some s
     | Some j \<Rightarrow> do {
         acts \<leftarrow> lehs_rpc_call_control_point_action (host_gatt env) cid (server_clcbs s ! j) i action;
         Some (emit_gatts acts s) } }"

section \<open>Microphone\<close>

definition rpc_mics_mute :: "host_env \<Rightarrow> u8 list \<Rightarrow> server_state \<Rightarrow> server_state option" where
  "rpc_mics_mute env data s = do {
     (cid, p) \<leftarrow> rd16 (start data);
     (mute, _) \<leftarrow> rd8 p;
     Some (snd (lehs_mics_mute (host_gatt env) cid mute s)) }"

definition rpc_mics_aics_mute :: "host_env \<Rightarrow> u8 list \<Rightarrow> server_state \<Rightarrow> server_state option" where
  "rpc_mics_aics_mute env data s = do {
     (cid, p) \<leftarrow> rd16 (start data);
     (mute, p) \<leftarrow> rd8 p;
     (inst, _) \<leftarrow> rd32 p;
     map_option snd (lehs_mics_aics_mute (host_gatt env) cid inst mute s) }"

text \<open>The gain is read unless the 8-bit length is that of a command without it.\<close>

definition rpc_mics_aics_set_gain :: "host_env \<Rightarrow> u8 list \<Rightarrow> u8 \<Rightarrow> server_state \<Rightarrow> server_state option" where
  "rpc_mics_aics_set_gain env data data_len s = do {
     (cid, p) \<leftarrow> rd16 (start data);
     (opcode, p) \<leftarrow> rd8 p;
     (inst, p) \<leftarrow> rd32 p;
     (gain, _) \<leftarrow> (if data_len \<noteq> 7 then rd8 p else Some (0, p));
     map_option snd (lehs_mics_aics_set_gain (host_gatt env) cid inst (gain_command_of env opcode) gain s) }"

section \<open>Keys\<close>

text \<open>The keys of the device itself, all zero when there are none, and those the host stored for it.\<close>

definition app_handle_irk_request_evt :: "server_state \<Rightarrow> u8 list option" where
  "app_handle_irk_request_evt s = (if list_all (\<lambda>x. x = 0) (local_id_keys s) then None else Some (local_id_keys s))"

definition app_handle_irk_update_evt :: "host_env \<Rightarrow> u8 list \<Rightarrow> server_state \<Rightarrow> server_state option" where
  "app_handle_irk_update_evt env id_keys s =
     emit_frames (lehs_rpc_send_identity_resolving_key (nvram_start env) id_keys) (s\<lparr>local_id_keys := id_keys\<rparr>)"

text \<open>
  \<open>data\<close> is what is left of the payload. The keys of the device are taken as a whole, whatever the length; an entry is written
  where the host says.
\<close>

definition lehs_nvram_write_data :: "host_env \<Rightarrow> u16 \<Rightarrow> u8 list \<Rightarrow> u32 \<Rightarrow> u16 \<Rightarrow> server_state \<Rightarrow> server_state option" where
  "lehs_nvram_write_data env nvram_id data data_len offset s =
     (if nvram_id = nvram_start env + 1
      then do {
        id_keys \<leftarrow> octets (id_keys_size env) data;
        Some (if init_private_addr env id_keys = WICED_SUCCESS then s\<lparr>local_id_keys := id_keys\<rparr> else s) }
      else case find_index (\<lambda>i. lehs_nvram_get_nvram_id (nvram_start env) i = nvram_id) [0..<length (server_nvram s)] of
        None \<Rightarrow> Some s
      | Some i \<Rightarrow> do {
          xs \<leftarrow> octets (unat data_len) data;
          nv \<leftarrow> overwrite_entries env i (unat offset) xs (server_nvram s);
          Some (emit_connection [ADD_TO_RESOLUTION_DB i] (s\<lparr>server_nvram := nv\<rparr>)) })"

text \<open>The length of what is written is computed in 32 bits and may pass below zero.\<close>

definition lehs_rpc_handle_nvram_data :: "host_env \<Rightarrow> u8 list \<Rightarrow> u32 \<Rightarrow> bool \<Rightarrow> server_state \<Rightarrow> server_state option" where
  "lehs_rpc_handle_nvram_data env data data_len is_long s = do {
     (nvram_id, p) \<leftarrow> rd16 (start data);
     (offset, p) \<leftarrow> (if is_long then rd16 p else Some (0, p));
     lehs_nvram_write_data env nvram_id (drop (used p) data) (if is_long then data_len - 4 else data_len - 2) offset s }"

definition lehs_rpc_handle_delete_nvram_data :: "host_env \<Rightarrow> u8 list \<Rightarrow> server_state \<Rightarrow> server_state option" where
  "lehs_rpc_handle_delete_nvram_data env data s = do {
     (nvram_id, _) \<leftarrow> rd16 (start data);
     Some (case lehs_nvram_delete_keys (nvram_start env) (server_clcbs s) nvram_id (server_nvram s) of
         (own, nv, acts) \<Rightarrow>
           emit_connection acts (s\<lparr>server_nvram := nv, local_id_keys := (if own then map (\<lambda>_. 0) (local_id_keys s) else local_id_keys s)\<rparr>)) }"

section \<open>The dispatch\<close>

text \<open>What the device tells of itself.\<close>

definition version_events :: "host_env \<Rightarrow> server_state \<Rightarrow> server_state option" where
  "version_events env s = do {
     d \<leftarrow> arr_get (mics_aics (services s)) 0;
     s \<leftarrow> emit_frames (app_rpc_send_dev_role (le_audio_group env) (device_roles env)) s;
     s \<leftarrow> emit_frames (app_rpc_send_data 2 EVENT_DEVICE_APPEARANCE (b16 (device_appearance env))) s;
     s \<leftarrow> emit_frames (le_audio_rpc_send_mics_aics_description 0 0 (aics_description d)) s;
     s \<leftarrow> emit_frames (le_audio_rpc_send_mics_mute_state 0 (mics_mute_state (local_mics (services s)))) s;
     emit_frames (le_audio_rpc_send_mics_aics_input_state 0 0 (input_state d)) s }"

fun handle_command :: "host_env \<Rightarrow> host_command \<Rightarrow> u8 list \<Rightarrow> u32 \<Rightarrow> server_state \<Rightarrow> server_state option" where
  "handle_command env COMMAND_GET_MEDIA_PLAYERS data n s = rpc_handle_get_media_players data s"
| "handle_command env COMMAND_SET_MEDIA_PLAYER data n s = rpc_handle_set_media_player data s"
| "handle_command env COMMAND_PLAY data n s = rpc_handle_play env data s"
| "handle_command env COMMAND_PAUSE data n s = rpc_handle_pause env data s"
| "handle_command env COMMAND_ADVERTISE data n s = rpc_handle_adv data (ucast n) s"
| "handle_command env COMMAND_CONNECT data n s = rpc_handle_connect False data s"
| "handle_command env COMMAND_CANCEL_CONNECT data n s = rpc_handle_connect True data s"
| "handle_command env COMMAND_DISCONNECT data n s = rpc_handle_disconnect data s"
| "handle_command env COMMAND_PING data n s = do { xs \<leftarrow> octets (unat n) data; emit_frames (Some [(EVENT_PING_REPLY, xs)]) s }"
| "handle_command env COMMAND_GET_VERSION data n s = version_events env s"
| "handle_command env COMMAND_SET_CSIS_PARAMS data n s = rpc_set_csis_params data s"
| "handle_command env COMMAND_FIND_SOURCES data n s = rpc_handle_find_broadcast_sources data s"
| "handle_command env COMMAND_SYNC_TO_SOURCES data n s = rpc_handle_sync_to_broadcast_source env data s"
| "handle_command env COMMAND_GET_BIS_INFO data n s = rpc_get_bis_info data s"
| "handle_command env COMMAND_CANCEL_PA_SYNC data n s = Some (rpc_cancel_pa_sync s)"
| "handle_command env COMMAND_TERMINATE_PA_SYNC data n s = rpc_terminate_pa_sync env data s"
| "handle_command env COMMAND_ACCEPT_CALL data n s = rpc_handle_call_control_point_action env data GA_LIB_CCP_ACTION_ACCEPT_CALL s"
| "handle_command env COMMAND_HOLD_CALL data n s = rpc_handle_call_control_point_action env data GA_LIB_CCP_ACTION_HOLD_CALL s"
| "handle_command env COMMAND_RETRIEVE_CALL data n s = rpc_handle_call_control_point_action env data GA_LIB_CCP_ACTION_RETRIEVE_CALL s"
| "handle_command env COMMAND_ORIGINATE_CALL data n s = rpc_handle_call_control_point_action env data GA_LIB_CCP_ACTION_ORIGINATE s"
| "handle_command env COMMAND_JOIN_CALL data n s = rpc_handle_call_control_point_action env data GA_LIB_CCP_ACTION_JOIN_CALL s"
| "handle_command env COMMAND_TERMINATE_CALL data n s = rpc_handle_call_control_point_action env data GA_LIB_CCP_ACTION_TERMINATE_CALL s"
| "handle_command env COMMAND_MICP_MUTE data n s = rpc_mics_mute env data s"
| "handle_command env COMMAND_MICP_AICS_MUTE data n s = rpc_mics_aics_mute env data s"
| "handle_command env COMMAND_MICP_AICS_SET_GAIN data n s = rpc_mics_aics_set_gain env data (ucast n) s"
| "handle_command env COMMAND_PUSH_NVRAM_DATA data n s = lehs_rpc_handle_nvram_data env data n False s"
| "handle_command env COMMAND_DELETE_NVRAM_DATA data n s = lehs_rpc_handle_delete_nvram_data env data s"
| "handle_command env COMMAND_PUSH_NVRAM_DATA_LONG data n s = lehs_rpc_handle_nvram_data env data n True s"
| "handle_command env cmd data n s = rpc_handle_set_vol env cmd data s"

definition lehs_rpc_rx_callback :: "host_env \<Rightarrow> u16 \<Rightarrow> u8 list \<Rightarrow> u32 \<Rightarrow> server_state \<Rightarrow> server_state option" where
  "lehs_rpc_rx_callback env opcode data payload_len s =
     (case command_of env opcode of None \<Rightarrow> Some s | Some c \<Rightarrow> handle_command env c data payload_len s)"

text \<open>
  A packet of the transport, with the callback that is installed at the start. The length it announces is not compared with its own.
\<close>

datatype hci_status = STATUS_SUCCESS | STATUS_INVALID_ARGS

definition app_rpc_rx_callback :: "host_env \<Rightarrow> u8 list option \<Rightarrow> server_state \<Rightarrow> (hci_status \<times> server_state) option" where
  "app_rpc_rx_callback env p_buffer s =
     (case p_buffer of
        None \<Rightarrow> Some (STATUS_INVALID_ARGS, s)
      | Some xs \<Rightarrow>
          if length xs < 4 then Some (STATUS_INVALID_ARGS, s)
          else do {
            (opcode, p) \<leftarrow> rd16 (start xs);
            (payload_len, p) \<leftarrow> rd16 p;
            s \<leftarrow> lehs_rpc_rx_callback env opcode (drop (used p) xs) (ucast payload_len) s;
            Some (STATUS_SUCCESS, s) })"

end
