(* ===== verification/Host_Props.thy ===== *)
theory Host_Props
  imports Host_Commands Server_Props
begin

text \<open>
  What the commands of the host do to the server: they keep what the requests of clients keep, they need the octets they read,
  and the events for the host fit the arrays they are built in.
\<close>

section \<open>Reading a payload\<close>

text \<open>A read at a position is a value when the payload reaches that far.\<close>

named_theorems rd_at \<open>reads at a position of a payload\<close>

lemma at_pos_eq: "at_pos m xs = (drop m xs, m)"
  by (simp add: at_pos_def skip_def start_def)

lemma used_at_pos [simp]: "used (at_pos m xs) = m"
  by (simp add: at_pos_eq)

lemma start_at [rd_at]: "start xs = at_pos 0 xs"
  by (simp add: start_def at_pos_eq)

lemma rd8_at [rd_at]: "rd8 (at_pos m xs) = (if m < length xs then Some (xs ! m, at_pos (m + 1) xs) else None)"
  by (auto simp: at_pos_eq Cons_nth_drop_Suc [symmetric])

lemma rd16_at [rd_at]:
  "rd16 (at_pos m xs) = (if m + 1 < length xs then Some (le16 (xs ! m) (xs ! (m + 1)), at_pos (m + 2) xs) else None)"
  by (simp add: rd16_def rd8_at)

lemma rd32_at [rd_at]:
  "rd32 (at_pos m xs) =
     (if m + 3 < length xs then Some (le32 (xs ! m) (xs ! (m + 1)) (xs ! (m + 2)) (xs ! (m + 3)), at_pos (m + 4) xs) else None)"
  by (simp add: rd32_def rd8_at numeral_eq_Suc)

lemma rd_arr_at [rd_at]:
  "rd_arr n (at_pos m xs) = (if n = 0 \<or> m + n \<le> length xs then Some (take n (drop m xs), at_pos (m + n) xs) else None)"
proof (induction n arbitrary: m)
  case (Suc n)
  show ?case
  proof (cases "m < length xs")
    case True
    then have "take (Suc n) (drop m xs) = xs ! m # take n (drop (Suc m) xs)" by (simp add: Cons_nth_drop_Suc [symmetric])
    with True Suc [of "Suc m"] show ?thesis by (auto simp: rd8_at)
  qed (simp add: rd8_at)
qed simp

section \<open>Commands keep the server well formed\<close>

text \<open>The calls that change none of the parts an invariant speaks of.\<close>

lemma keeps_free [simp]:
  "keeps i s (s\<lparr>server_adv_state := st\<rparr>)" "keeps i s (s\<lparr>adv_tx_power := w\<rparr>)" "keeps i s (s\<lparr>adv_data_options := opt\<rparr>)"
  "keeps i s (s\<lparr>server_do_swift_pair := sp\<rparr>)" "keeps i s (s\<lparr>local_id_keys := k\<rparr>)"
  by (simp_all add: keeps_def server_ok_def volume_ok_def has_ok_def broadcast_ok_def bass_data_def)

lemma keeps_connection [simp]: "keeps i s (emit_connection acts t) = keeps i s t"
  by (simp add: emit_connection_def)

lemma keeps_gatts [simp]: "keeps i s (emit_gatts acts t) = keeps i s t"
  by (simp add: emit_gatts_def)

lemma keeps_frames: "emit_frames fs s = Some t \<Longrightarrow> keeps i s t"
  by (auto simp: emit_frames_def)

lemma keeps_location: "keeps i s (s\<lparr>pacs_app_data := lehs_set_audio_location l (pacs_app_data s)\<rparr>)"
  by (simp add: keeps_def server_ok_def volume_ok_def has_ok_def broadcast_ok_def bass_data_def lists_ok_def lehs_set_audio_location_def)

lemma volume_host_keeps:
  "keeps i s (snd (lehs_vcs_set_volume env cid opcode v s))"
  "keeps i s (snd (lehs_mics_mute env cid m s))"
  "lehs_mics_aics_mute env cid inst m s = Some r \<Longrightarrow> keeps i s (snd r)"
  "lehs_mics_aics_set_gain env cid inst c g s = Some r \<Longrightarrow> keeps i s (snd r)"
proof -
  note ok = handle_volume_ok
  show "keeps i s (snd (lehs_vcs_set_volume env cid opcode v s))"
    by (rule keeps_volume) (auto simp: set_volume_beside_volume intro: set_volume_ok)
  show "keeps i s (snd (lehs_mics_mute env cid m s))"
    using ok [of env "MICS_MUTE_HOST cid m" s "fst (lehs_mics_mute env cid m s)" "snd (lehs_mics_mute env cid m s)"]
    by (intro keeps_volume) (simp_all add: lehs_mics_mute_def beside_simps Let_def)
  show "keeps i s (snd r)" if "lehs_mics_aics_mute env cid inst m s = Some r"
    using that ok [of env "AICS_MUTE_HOST cid inst m" s "fst r" "snd r"]
    by (intro keeps_volume) (auto simp: lehs_mics_aics_mute_def beside_simps Let_def bind_eq_Some_conv split: if_splits)
  show "keeps i s (snd r)" if "lehs_mics_aics_set_gain env cid inst c g s = Some r"
    using that ok [of env "AICS_GAIN_HOST cid inst c g" s "fst r" "snd r"]
    by (intro keeps_volume) (auto simp: lehs_mics_aics_set_gain_def beside_simps Let_def bind_eq_Some_conv split: if_splits)
qed

lemmas volume_host_keeps_at = volume_host_keeps(3,4) [where r = "(x, t)" for x t, simplified]

lemma broadcast_host_keeps:
  "rpc_get_bis_info data s = Some t \<Longrightarrow> keeps i s t"
  "keeps i s (rpc_cancel_pa_sync s)"
  "rpc_terminate_pa_sync env data s = Some t \<Longrightarrow> keeps i s t"
  "rpc_handle_find_broadcast_sources data s = Some t \<Longrightarrow> keeps i s t"
  "rpc_handle_sync_to_broadcast_source env data s = Some t \<Longrightarrow> keeps i s t"
  by (auto simp: rpc_get_bis_info_def rpc_cancel_pa_sync_def rpc_terminate_pa_sync_def rpc_handle_find_broadcast_sources_def
      rpc_handle_sync_to_broadcast_source_def bind_eq_Some_conv Let_def split: option.splits if_splits
      intro!: keeps_broadcast follows_intros dest: host_sync_follows terminate_follows)

text \<open>The set has a member and a rank.\<close>

definition set_given :: "u8 list \<Rightarrow> bool" where
  "set_given data \<longleftrightarrow> (length data \<ge> 23 \<longrightarrow> data ! 21 \<noteq> 0 \<and> data ! 22 \<noteq> 0)"


lemma csis_params_result:
  "rpc_set_csis_params data s =
     (if length data < 23 then None
      else Some (let s = lehs_csis_set_size (data ! 21) (lehs_csis_set_rank (data ! 22)
              (lehs_csis_set_sirk \<lparr>sirk = take 16 data, sirk_type = data ! 20, is_oob = False\<rparr> s))
        in s\<lparr>pacs_app_data :=
          lehs_set_audio_location (le32 (data ! 16) (data ! 17) (data ! 18) (data ! 19)) (pacs_app_data s)\<rparr>))"
  by (auto simp: rpc_set_csis_params_def rd_at Let_def)

lemma csis_params_keeps:
  assumes "rpc_set_csis_params data s = Some t" "set_given data"
  shows "keeps i s t"
proof -
  define u where "u = lehs_csis_set_size (data ! 21) (lehs_csis_set_rank (data ! 22)
    (lehs_csis_set_sirk \<lparr>sirk = take 16 data, sirk_type = data ! 20, is_oob = False\<rparr> s))"
  obtain l where t: "t = u\<lparr>pacs_app_data := lehs_set_audio_location l (pacs_app_data u)\<rparr>" and n: "length data \<ge> 23"
    using assms(1) by (auto simp: csis_params_result u_def Let_def split: if_splits)
  have "keeps i s u"
    using assms(2) n
    by (intro keeps_set) (simp_all add: u_def set_ok_def set_given_def lehs_csis_set_size_def lehs_csis_set_rank_def lehs_csis_set_sirk_def)
  then show ?thesis using keeps_location [of i u l] keeps_trans t by blast
qed

lemma keeps_adv:
  "keeps i s (s\<lparr>adv_tx_power := w, adv_data_options := opt, server_do_swift_pair := sp, server_adv_state := st\<rparr>)"
  by (simp add: keeps_def server_ok_def volume_ok_def has_ok_def broadcast_ok_def bass_data_def)

lemma adv_keeps: "rpc_handle_adv data n s = Some t \<Longrightarrow> keeps i s t"
  by (auto simp: rpc_handle_adv_def bind_eq_Some_conv Let_def keeps_adv)

lemma media_host_keeps:
  "rpc_handle_play env data s = Some t \<Longrightarrow> keeps i s t" "rpc_handle_pause env data s = Some t \<Longrightarrow> keeps i s t"
  "rpc_handle_get_media_players data s = Some t \<Longrightarrow> keeps i s t" "rpc_handle_set_media_player data s = Some t \<Longrightarrow> keeps i s t"
  "rpc_handle_call_control_point_action env data a s = Some t \<Longrightarrow> keeps i s t"
  by (auto simp: rpc_handle_play_def rpc_handle_pause_def rpc_handle_get_media_players_def rpc_handle_set_media_player_def
      rpc_handle_call_control_point_action_def bind_eq_Some_conv split: option.splits)

lemma link_host_keeps:
  "rpc_handle_connect b data s = Some t \<Longrightarrow> keeps i s t" "rpc_handle_disconnect data s = Some t \<Longrightarrow> keeps i s t"
  by (auto simp: rpc_handle_connect_def rpc_handle_disconnect_def app_create_connection_def lehs_disconnect_device_def
      bind_eq_Some_conv)


lemma level_host_keeps:
  "rpc_handle_set_vol env c data s = Some t \<Longrightarrow> keeps i s t"
  "rpc_mics_mute env data s = Some t \<Longrightarrow> keeps i s t" "rpc_mics_aics_mute env data s = Some t \<Longrightarrow> keeps i s t"
  "rpc_mics_aics_set_gain env data n s = Some t \<Longrightarrow> keeps i s t"
  subgoal by (simp add: rpc_handle_set_vol_def bind_eq_Some_conv split: option.splits) (auto intro: volume_host_keeps(1))
  subgoal by (auto simp: rpc_mics_mute_def bind_eq_Some_conv intro: volume_host_keeps(2))
  subgoal by (auto simp: rpc_mics_aics_mute_def bind_eq_Some_conv dest: volume_host_keeps_at)
  subgoal by (auto simp: rpc_mics_aics_set_gain_def bind_eq_Some_conv dest: volume_host_keeps_at)
  done

lemma keeps_nvram:
  "(nvram_ok (server_nvram s) \<Longrightarrow> nvram_ok nv) \<Longrightarrow> keeps i s (s\<lparr>server_nvram := nv, local_id_keys := k\<rparr>)"
  "(nvram_ok (server_nvram s) \<Longrightarrow> nvram_ok nv) \<Longrightarrow> keeps i s (s\<lparr>server_nvram := nv\<rparr>)"
  by (simp_all add: keeps_def server_ok_def volume_ok_def has_ok_def broadcast_ok_def bass_data_def)

text \<open>Octets copied over an entry leave ten entries with arrays of the same sizes.\<close>

definition overwrite_ok :: "host_env \<Rightarrow> bool" where
  "overwrite_ok env \<longleftrightarrow> (\<forall>i offset xs nv nv'. overwrite_entries env i offset xs nv = Some nv' \<longrightarrow> nvram_ok nv \<longrightarrow> nvram_ok nv')"

lemma delete_keys_nvram: "nvram_ok nv \<Longrightarrow> nvram_ok (fst (snd (lehs_nvram_delete_keys nvram_base cs nvram_id nv)))"
  by (auto simp: lehs_nvram_delete_keys_def nvram_ok_def bond_ok_def list_all_length nth_list_update dest: find_index_Some split: option.splits)

lemma nvram_write_keeps:
  assumes "lehs_nvram_write_data env nvram_id data n offset s = Some t" "overwrite_ok env"
  shows "keeps i s t"
proof (cases "nvram_id = nvram_start env + 1")
  case True
  with assms have "t = s \<or> (\<exists>k. s\<lparr>local_id_keys := k\<rparr> = t)"
    by (cases "octets (id_keys_size env) data") (simp_all add: lehs_nvram_write_data_def split: if_split_asm, blast+)
  then show ?thesis by auto
next
  case False
  show ?thesis
  proof (cases "find_index (\<lambda>i. lehs_nvram_get_nvram_id (nvram_start env) i = nvram_id) [0..<length (server_nvram s)]")
    case None
    with assms False show ?thesis by (simp add: lehs_nvram_write_data_def)
  next
    case (Some j)
    with assms False show ?thesis
      by (auto simp: lehs_nvram_write_data_def bind_eq_Some_conv overwrite_ok_def intro!: keeps_nvram)
  qed
qed

lemma nvram_keeps:
  "lehs_rpc_handle_nvram_data env data n b s = Some t \<Longrightarrow> overwrite_ok env \<Longrightarrow> keeps i s t"
  "lehs_rpc_handle_delete_nvram_data env data s = Some t \<Longrightarrow> keeps i s t"
  by (auto simp: lehs_rpc_handle_nvram_data_def lehs_rpc_handle_delete_nvram_data_def bind_eq_Some_conv case_prod_unfold
      delete_keys_nvram dest: nvram_write_keeps intro!: keeps_nvram)

lemma version_keeps: "version_events env s = Some t \<Longrightarrow> keeps i s t"
  by (auto simp: version_events_def bind_eq_Some_conv dest!: keeps_frames [of _ _ _ i] elim!: keeps_trans)

text \<open>No block of a connection is touched, so the index is free.\<close>


lemmas command_keeps_rules = broadcast_host_keeps(1,3,4,5) adv_keeps media_host_keeps link_host_keeps level_host_keeps
  nvram_keeps(2) version_keeps

lemma command_keeps:
  assumes "handle_command env c data n s = Some t" "c = COMMAND_SET_CSIS_PARAMS \<Longrightarrow> set_given data" "overwrite_ok env"
  shows "keeps i s t"
proof (cases c)
  case COMMAND_PING
  with assms(1) show ?thesis by (auto simp: bind_eq_Some_conv emit_frames_def)
next
  case COMMAND_CANCEL_PA_SYNC
  with assms(1) broadcast_host_keeps(2) [of i s] show ?thesis by simp
next
  case COMMAND_SET_CSIS_PARAMS
  with assms show ?thesis by (simp add: csis_params_keeps)
next
  case COMMAND_PUSH_NVRAM_DATA
  with assms show ?thesis by (simp add: nvram_keeps(1))
next
  case COMMAND_PUSH_NVRAM_DATA_LONG
  with assms show ?thesis by (simp add: nvram_keeps(1))
qed (insert assms(1), (simp, erule command_keeps_rules)+)

section \<open>What a command reads\<close>

text \<open>The octets a command takes from its payload; some depend on the length the packet announces.\<close>

fun payload_needed :: "host_command \<Rightarrow> u32 \<Rightarrow> nat" where
  "payload_needed COMMAND_SET_MEDIA_PLAYER n = 3"
| "payload_needed COMMAND_ABS_VOL n = 3"
| "payload_needed COMMAND_ADVERTISE n =
     (let m = ucast n :: u8 in if m > 3 then 5 else if m > 2 then 3 else if m > 1 then 2 else 1)"
| "payload_needed COMMAND_CONNECT n = 7"
| "payload_needed COMMAND_CANCEL_CONNECT n = 7"
| "payload_needed COMMAND_PING n = unat n"
| "payload_needed COMMAND_GET_VERSION n = 0"
| "payload_needed COMMAND_SET_CSIS_PARAMS n = 23"
| "payload_needed COMMAND_FIND_SOURCES n = 1"
| "payload_needed COMMAND_GET_BIS_INFO n = 4"
| "payload_needed COMMAND_CANCEL_PA_SYNC n = 0"
| "payload_needed COMMAND_TERMINATE_PA_SYNC n = 4"
| "payload_needed COMMAND_ACCEPT_CALL n = 3"
| "payload_needed COMMAND_HOLD_CALL n = 3"
| "payload_needed COMMAND_RETRIEVE_CALL n = 3"
| "payload_needed COMMAND_ORIGINATE_CALL n = 3"
| "payload_needed COMMAND_JOIN_CALL n = 3"
| "payload_needed COMMAND_TERMINATE_CALL n = 3"
| "payload_needed COMMAND_MICP_MUTE n = 3"
| "payload_needed COMMAND_MICP_AICS_MUTE n = 7"
| "payload_needed COMMAND_MICP_AICS_SET_GAIN n = (if (ucast n :: u8) = 7 then 7 else 8)"
| "payload_needed _ n = 2"

text \<open>A stream of the source that is known and described which cannot be selected: its index is not one of a bit, or there is no room for it.\<close>

definition stream_outside :: "u32 \<Rightarrow> server_state \<Rightarrow> bool" where
  "stream_outside br_id s \<longleftrightarrow>
     (case lehs_bis_get_big_by_broadcast_id br_id s of
        None \<Rightarrow> False
      | Some b \<Rightarrow>
          let big = broadcast_sink_cb s ! b; g = first_group big
          in b_biginfo_updated big \<and> b_base_updated big \<and>
             (2 < bis_cnt g \<or> list_ex (\<lambda>x. bis_idx x = 0 \<or> 31 < bis_idx x) (take (unat (bis_cnt g)) (bis_config g))))"

text \<open>What a write of a bond reads behind its header, and the entry it goes to.\<close>

definition entry_named :: "host_env \<Rightarrow> u16 \<Rightarrow> server_state \<Rightarrow> nat option" where
  "entry_named env nvram_id s = find_index (\<lambda>i. lehs_nvram_get_nvram_id (nvram_start env) i = nvram_id) [0..<length (server_nvram s)]"

definition bond_needed :: "host_env \<Rightarrow> nat \<Rightarrow> u8 list \<Rightarrow> u32 \<Rightarrow> server_state \<Rightarrow> nat" where
  "bond_needed env header data n s =
     (let nvram_id = le16 (data ! 0) (data ! 1)
      in header + (if nvram_id = nvram_start env + 1 then id_keys_size env
                   else if entry_named env nvram_id s = None then 0 else unat (n - of_nat header)))"

definition bond_outside :: "host_env \<Rightarrow> nat \<Rightarrow> nat \<Rightarrow> u8 list \<Rightarrow> u32 \<Rightarrow> server_state \<Rightarrow> bool" where
  "bond_outside env header offset data n s \<longleftrightarrow>
     (let nvram_id = le16 (data ! 0) (data ! 1)
      in nvram_id \<noteq> nvram_start env + 1 \<and>
         (case entry_named env nvram_id s of None \<Rightarrow> False
          | Some i \<Rightarrow> overwrite_entries env i offset (take (unat (n - of_nat header)) (drop header data)) (server_nvram s) = None))"

text \<open>
  All octets a command reads: the synchronisation depends on what it is to do and on whether a code follows, a write of a bond on
  where it goes.
\<close>

fun octets_needed :: "host_env \<Rightarrow> host_command \<Rightarrow> u8 list \<Rightarrow> u32 \<Rightarrow> server_state \<Rightarrow> nat" where
  "octets_needed env COMMAND_SYNC_TO_SOURCES data n s = (if data ! 0 = 0 then 5 else if data ! 9 = 0 then 10 else 26)"
| "octets_needed env COMMAND_PUSH_NVRAM_DATA data n s = bond_needed env 2 data n s"
| "octets_needed env COMMAND_PUSH_NVRAM_DATA_LONG data n s = bond_needed env 4 data n s"
| "octets_needed env c data n s = payload_needed c n"

text \<open>
  What a command names that is outside of an array: an instance of the input, the end of the description that is sent as a string,
  a stream of a source, octets of a bond.
\<close>

fun names_outside :: "host_env \<Rightarrow> host_command \<Rightarrow> u8 list \<Rightarrow> u32 \<Rightarrow> server_state \<Rightarrow> bool" where
  "names_outside env COMMAND_MICP_AICS_MUTE data n s = (le32 (data ! 3) (data ! 4) (data ! 5) (data ! 6) \<noteq> 0)"
| "names_outside env COMMAND_MICP_AICS_SET_GAIN data n s = (le32 (data ! 3) (data ! 4) (data ! 5) (data ! 6) \<noteq> 0)"
| "names_outside env COMMAND_GET_VERSION data n s = (0 \<notin> set (aics_description (the_aics 0 s)))"
| "names_outside env COMMAND_SYNC_TO_SOURCES data n s =
     (data ! 0 \<noteq> 0 \<and> stream_outside (le32 (data ! 1) (data ! 2) (data ! 3) (data ! 4)) s)"
| "names_outside env COMMAND_PUSH_NVRAM_DATA data n s = bond_outside env 2 0 data n s"
| "names_outside env COMMAND_PUSH_NVRAM_DATA_LONG data n s = bond_outside env 4 (unat (le16 (data ! 2) (data ! 3))) data n s"
| "names_outside env _ data n s = False"

lemma next_adv_state_total: "lehs_move_to_next_adv_state sp st \<noteq> None"
  by (cases st; cases "sp = 0") (simp_all add: lehs_move_to_next_adv_state_def swift_pair_next_state_def regular_adv_next_state_def arr_get_def
      lehs_gatt_start_stop_adv_def lehs_get_adv_duty_cycle_params_def st_params_def numeral_eq_Suc)

lemma found_tables:
  "list_all link_ok (server_clcbs s) \<Longrightarrow> lehs_gatt_get_clcb_by_conn_id (server_clcbs s) cid = Some i \<Longrightarrow>
     tables_fit (peer_profiles (server_clcbs s ! i))"
  by (auto simp: lehs_gatt_get_clcb_by_conn_id_def list_all_length link_ok_def dest: find_index_Some)

lemma play_pause_total: "list_all link_ok (server_clcbs s) \<Longrightarrow> lehs_mcs_play_pause env (server_clcbs s) cid b \<noteq> None"
  by (auto simp: lehs_mcs_play_pause_def arr_get_def tables_fit_def MEDIA_CONTROL_POINT_def split: option.splits prod.splits
      dest: found_tables)

lemma call_action_total:
  "list_all link_ok (server_clcbs s) \<Longrightarrow> lehs_gatt_get_clcb_by_conn_id (server_clcbs s) cid = Some i \<Longrightarrow>
     lehs_rpc_call_control_point_action env cid (server_clcbs s ! i) j a \<noteq> None"
  by (auto simp: lehs_rpc_call_control_point_action_def arr_get_def tables_fit_def dest: found_tables)

lemma aics_inst_total:
  assumes "volume_ok s"
  shows "lehs_mics_aics_mute env cid inst m s = None \<longleftrightarrow> inst \<noteq> 0" "lehs_mics_aics_set_gain env cid inst g v s = None \<longleftrightarrow> inst \<noteq> 0"
proof -
  have "length (mics_aics (services s)) = 1" using assms by (simp add: volume_ok_def)
  moreover have "unat inst = 0 \<longleftrightarrow> inst = 0" by (simp add: unat_eq_0)
  ultimately show "lehs_mics_aics_mute env cid inst m s = None \<longleftrightarrow> inst \<noteq> 0" "lehs_mics_aics_set_gain env cid inst g v s = None \<longleftrightarrow> inst \<noteq> 0"
    by (auto simp: lehs_mics_aics_mute_def lehs_mics_aics_set_gain_def arr_get_def Let_def)
qed

lemma version_total:
  assumes "volume_ok s"
  shows "version_events env s = None \<longleftrightarrow> 0 \<notin> set (aics_description (the_aics 0 s))"
proof -
  have "length (takeWhile (\<lambda>x. x \<noteq> 0) (aics_description (the_aics 0 s))) \<le> 20" "length (mics_aics (services s)) = 1"
    using assms length_takeWhile_le [of "\<lambda>x. x \<noteq> 0" "aics_description (the_aics 0 s)"] by (simp_all add: volume_ok_def)
  then show ?thesis
    by (simp add: version_events_def arr_get_def emit_frames_def app_rpc_send_dev_role_def app_rpc_send_misc_event_def
        app_rpc_send_data_def le_audio_rpc_send_mics_aics_description_def c_str_def c_string_def
        le_audio_rpc_send_mics_mute_state_def le_audio_rpc_send_mics_aics_input_state_def)
qed

lemma map_option_None [simp]: "map_option f x = None \<longleftrightarrow> x = None"
  by (cases x) auto

lemma media_commands_read:
  assumes "list_all link_ok (server_clcbs s)"
  shows "rpc_handle_play env data s = None \<longleftrightarrow> length data < 2" "rpc_handle_pause env data s = None \<longleftrightarrow> length data < 2"
    "rpc_handle_get_media_players data s = None \<longleftrightarrow> length data < 2" "rpc_handle_set_media_player data s = None \<longleftrightarrow> length data < 3"
    "rpc_handle_call_control_point_action env data a s = None \<longleftrightarrow> length data < 3"
  using play_pause_total [OF assms] call_action_total [OF assms]
  by (auto simp: rpc_handle_play_def rpc_handle_pause_def rpc_handle_get_media_players_def rpc_handle_set_media_player_def
      rpc_handle_call_control_point_action_def rd_at bind_eq_None_conv case_prod_unfold simp del: not_None_eq split: option.splits)

lemma volume_commands_read:
  "rpc_handle_set_vol env c data s = None \<longleftrightarrow> length data < (if c = COMMAND_ABS_VOL then 3 else 2)"
  "rpc_mics_mute env data s = None \<longleftrightarrow> length data < 3"
  by (auto simp: rpc_handle_set_vol_def rpc_mics_mute_def rd_at)

lemma input_commands_read:
  assumes "volume_ok s"
  shows "rpc_mics_aics_mute env data s = None \<longleftrightarrow> length data < 7 \<or> le32 (data ! 3) (data ! 4) (data ! 5) (data ! 6) \<noteq> 0"
    "rpc_mics_aics_set_gain env data m s = None \<longleftrightarrow>
       length data < (if m = 7 then 7 else 8) \<or> le32 (data ! 3) (data ! 4) (data ! 5) (data ! 6) \<noteq> 0"
  using assms by (auto simp: rpc_mics_aics_mute_def rpc_mics_aics_set_gain_def rd_at aics_inst_total numeral_eq_Suc)

lemma other_commands_read:
  "rpc_get_bis_info data s = None \<longleftrightarrow> length data < 4" "rpc_terminate_pa_sync env data s = None \<longleftrightarrow> length data < 4"
  "rpc_handle_find_broadcast_sources data s = None \<longleftrightarrow> length data < 1" "rpc_set_csis_params data s = None \<longleftrightarrow> length data < 23"
  "rpc_handle_connect b data s = None \<longleftrightarrow> length data < 7" "rpc_handle_disconnect data s = None \<longleftrightarrow> length data < 2"
  "lehs_rpc_handle_delete_nvram_data env data s = None \<longleftrightarrow> length data < 2"
  by (auto simp: rpc_get_bis_info_def rpc_terminate_pa_sync_def rpc_handle_find_broadcast_sources_def csis_params_result
      rpc_handle_connect_def rpc_handle_disconnect_def lehs_rpc_handle_delete_nvram_data_def rd_at Let_def)

lemma select_faults:
  "length (bis_config g) = 2 \<Longrightarrow> length l = 4 \<Longrightarrow> k \<le> i \<Longrightarrow> i \<le> 2 \<Longrightarrow>
     select_bises bits g i n k l = None \<longleftrightarrow> 2 < i + n \<or> list_ex (\<lambda>x. bis_idx x = 0 \<or> 31 < bis_idx x) (take n (drop i (bis_config g)))"
proof (induction n arbitrary: i k l)
  case (Suc n)
  show ?case
  proof (cases "i < 2")
    case True
    let ?x = "bis_config g ! i"
    have d: "take (Suc n) (drop i (bis_config g)) = ?x # take n (drop (Suc i) (bis_config g))"
      using True Suc.prems by (simp add: Cons_nth_drop_Suc [symmetric])
    have sel: "bis_selected bits (bis_idx ?x) = None \<longleftrightarrow> bis_idx ?x = 0 \<or> 31 < bis_idx ?x"
      using unat_eq_0 [of "bis_idx ?x"] by (auto simp: bis_selected_def word_le_nat_alt word_less_nat_alt)
    show ?thesis
      using Suc.prems True sel Suc.IH [of "l[k := bis_idx ?x]" "Suc k" "Suc i"] Suc.IH [of l k "Suc i"]
      unfolding d by (auto simp: arr_get_def arr_set_def bind_eq_None_conv split: if_splits)
  next
    case False
    with Suc.prems show ?thesis by (auto simp: arr_get_def)
  qed
qed simp

lemma sync_command_reads:
  assumes "broadcast_ok s"
  shows "rpc_handle_sync_to_broadcast_source env data s = None \<longleftrightarrow>
     length data < (if data ! 0 = 0 then 5 else if data ! 9 = 0 then 10 else 26) \<or>
     data ! 0 \<noteq> 0 \<and> stream_outside (le32 (data ! 1) (data ! 2) (data ! 3) (data ! 4)) s"
proof -
  have total: "lehs_bis_terminate_sync e br_id s \<noteq> None" for e br_id
    using assms
    by (auto simp: lehs_bis_terminate_sync_def free_bis_stream_def lehs_isoc_dhm_free_bis_stream_def Let_def broadcast_ok_def sink_ok_def
        list_all_length lehs_bis_get_big_by_broadcast_id_def split: option.splits dest!: find_index_Some)
  have start: "lehs_bis_sync_to_source src s = None \<longleftrightarrow> stream_outside (src_broadcast_id src) s" for src
  proof (cases "lehs_bis_get_big_by_broadcast_id (src_broadcast_id src) s")
    case (Some b)
    let ?big = "broadcast_sink_cb s ! b"
    have b: "b < length (broadcast_sink_cb s)"
      using Some by (auto simp: lehs_bis_get_big_by_broadcast_id_def dest: find_index_Some)
    then have "length (bis_config (first_group ?big)) = 2" "length (bis_index_list ?big) = 4"
      using assms by (auto simp: broadcast_ok_def sink_ok_def base_shape_def first_group_def list_all_length)
    from select_faults [OF this, of 0 0] Some b show ?thesis
      by (auto simp: lehs_bis_sync_to_source_def stream_outside_def Let_def lehs_sync_to_source_def take_source_code_def upd_big_def
          bind_eq_None_conv case_prod_unfold word_less_nat_alt lehs_bis_get_big_by_broadcast_id_def first_group_def)
  qed (simp add: lehs_bis_sync_to_source_def stream_outside_def Let_def lehs_bis_get_big_by_broadcast_id_def)
  show ?thesis
    by (auto simp: rpc_handle_sync_to_broadcast_source_def rd_at total start Let_def bind_eq_None_conv simp del: not_None_eq simp flip: numeral_2_eq_2 numeral_3_eq_3)
qed

lemma bond_command_reads:
  "lehs_rpc_handle_nvram_data env data n False s = None \<longleftrightarrow>
     length data < bond_needed env 2 data n s \<or> bond_outside env 2 0 data n s"
  "lehs_rpc_handle_nvram_data env data n True s = None \<longleftrightarrow>
     length data < bond_needed env 4 data n s \<or> bond_outside env 4 (unat (le16 (data ! 2) (data ! 3))) data n s"
  by (auto simp: lehs_rpc_handle_nvram_data_def rd_at lehs_nvram_write_data_def bond_needed_def bond_outside_def entry_named_def Let_def
      octets_def bind_eq_None_conv numeral_eq_Suc split: option.splits)

lemma adv_command_reads:
  "rpc_handle_adv data m s = None \<longleftrightarrow> length data < (if m > 3 then 5 else if m > 2 then 3 else if m > 1 then 2 else 1)"
  using next_adv_state_total
  by (auto simp: rpc_handle_adv_def rd_at Let_def word_less_nat_alt bind_eq_None_conv case_prod_unfold simp del: not_None_eq split: if_splits)

section \<open>Properties\<close>

subsection \<open>Octets of a command\<close>

text \<open>C34: Every command is handled exactly when the payload has the octets its handler reads, which nothing compares with what arrived, and
  nothing it names is outside of its array: of a command for the input the instance is 0, the only one; the description of the input
  that answers a version request has its end inside its array; of a synchronisation to a source that is known and described no stream
  of its first subgroup has the index 0 or one above 31 and there are at most 2; the octets of a bond stay inside the bonds.\<close>

theorem command_faults_iff:
  assumes "server_ok s"
  shows "handle_command env c data n s = None \<longleftrightarrow> length data < octets_needed env c data n s \<or> names_outside env c data n s"
proof -
  have "volume_ok s" "list_all link_ok (server_clcbs s)" "broadcast_ok s" using assms(1) by (simp_all add: server_ok_def)
  note rules = media_commands_read [OF this(2)] volume_commands_read input_commands_read [OF \<open>volume_ok s\<close>] other_commands_read
    adv_command_reads version_total [OF \<open>volume_ok s\<close>] sync_command_reads [OF \<open>broadcast_ok s\<close>] bond_command_reads
  show ?thesis
    by (cases c) (auto simp: rules octets_def emit_frames_def Let_def bind_eq_None_conv simp del: not_None_eq)
qed

subsection \<open>Packets\<close>

text \<open>The host gives the set a size and a rank.\<close>

fun packet_sensible :: "host_env \<Rightarrow> u8 list option \<Rightarrow> bool" where
  "packet_sensible env (Some xs) \<longleftrightarrow> overwrite_ok env \<and>
     (length xs \<ge> 4 \<and> command_of env (le16 (xs ! 0) (xs ! 1)) = Some COMMAND_SET_CSIS_PARAMS \<longrightarrow> set_given (drop 4 xs))"
| "packet_sensible env None \<longleftrightarrow> True"

lemma packet_result:
  "app_rpc_rx_callback env (Some xs) s =
     (if length xs < 4 then Some (STATUS_INVALID_ARGS, s)
      else map_option (Pair STATUS_SUCCESS)
        (lehs_rpc_rx_callback env (le16 (xs ! 0) (xs ! 1)) (drop 4 xs) (ucast (le16 (xs ! 2) (xs ! 3))) s))"
  by (auto simp: app_rpc_rx_callback_def rd_at numeral_eq_Suc split: option.splits bind_splits)

lemma packet_keeps:
  assumes "app_rpc_rx_callback env xs s = Some (r, t)" "packet_sensible env xs"
  shows "keeps i s t"
proof (cases xs)
  case None
  with assms(1) show ?thesis by (simp add: app_rpc_rx_callback_def)
next
  case (Some ys)
  show ?thesis
  proof (cases "length ys < 4")
    case False
    with assms(1) Some have *: "lehs_rpc_rx_callback env (le16 (ys ! 0) (ys ! 1)) (drop 4 ys) (ucast (le16 (ys ! 2) (ys ! 3))) s = Some t"
      by (auto simp: packet_result)
    show ?thesis
    proof (cases "command_of env (le16 (ys ! 0) (ys ! 1))")
      case (Some c)
      with * assms(2) \<open>xs = Some ys\<close> False show ?thesis
        by (auto simp: lehs_rpc_rx_callback_def intro!: command_keeps)
    qed (use * in \<open>simp add: lehs_rpc_rx_callback_def\<close>)
  qed (use assms(1) Some in \<open>simp add: packet_result\<close>)
qed

subsection \<open>Volume from the host\<close>

lemma volume_packet:
  assumes "command_of env code = Some c" "volume_opcode c = Some opcode"
  shows "app_rpc_rx_callback env (Some (b16 code @ b16 n @ b16 cid @ vcs_args opcode a)) s =
    Some (STATUS_SUCCESS, snd (lehs_vcs_set_volume (host_gatt env) cid opcode (if opcode = 4 then a else 0) s))"
proof -
  have "c = COMMAND_ABS_VOL \<longleftrightarrow> opcode = 4" using assms(2) by (cases c; auto)
  then have "rpc_handle_set_vol env c (b16 cid @ vcs_args opcode a) s =
      Some (snd (lehs_vcs_set_volume (host_gatt env) cid opcode (if opcode = 4 then a else 0) s))"
    using assms(2) by (simp add: rpc_handle_set_vol_def start_def rd_simps)
  moreover have "handle_command env c (b16 cid @ vcs_args opcode a) k s = rpc_handle_set_vol env c (b16 cid @ vcs_args opcode a) s" for k
    using assms(2) by (cases c) simp_all
  ultimately show ?thesis
    using assms(1) by (simp add: app_rpc_rx_callback_def start_def rd_simps lehs_rpc_rx_callback_def)
qed

lemma volume_state_read:
  "app_handle_gatt_read_request env i HDLC_VCS_VOLUME_STATE_VALUE len t =
    Some (Inr [volume_setting (the_vcs t), vcs_mute_state (the_vcs t), vcs_change_counter (the_vcs t)], t)"
proof -
  have "lehs_get_cccd_index HDLC_VCS_VOLUME_STATE_VALUE GATT_INTF_DESCRIPTOR_HANDLE_INDEX = None"
    by (simp add: lehs_get_cccd_index_def lehs_cccd_map_def)
  then show ?thesis by (simp add: app_handle_gatt_read_request_def plain_value_def volume_value_def)
qed

text \<open>C33: A volume command of the host has the effect the volume service describes: the driver plays at the new volume and a client that
  reads the volume state finds it. When nothing changes nothing is done. Otherwise, after the calls of the driver, every connection in
  turn is sent the volume state if its client configuration asks for it and the value fits, with a counter that is moved on before
  each, and last the host is told the new state for the connection it named; the counter a client reads has moved on once for each
  connection.\<close>

theorem host_volume_command:
  assumes "server_ok s" "command_of env code = Some c" "volume_opcode c = Some opcode"
  shows "\<exists>t v m k driven. app_rpc_rx_callback env (Some (b16 code @ b16 n @ b16 cid @ vcs_args opcode a)) s = Some (STATUS_SUCCESS, t) \<and>
    (unat v, m) = volume_spec opcode a (volume_of (the_vcs s)) \<and> levels (server_audio t) = (v, m) \<and>
    app_handle_gatt_read_request env' i HDLC_VCS_VOLUME_STATE_VALUE len t = Some (Inr [v, m, k], t) \<and>
    (if (unat v, m) = volume_of (the_vcs s) then t = s
     else k = vcs_change_counter (the_vcs s) + of_nat (connections (server_clcbs s)) \<and>
       actions t = actions s @ map (\<lambda>x. STREAM (AUDIO x)) driven @
         volume_states (host_gatt env) (server_clcbs s) (server_clcbs s) ((the_vcs s)\<lparr>volume_setting := v, vcs_mute_state := m\<rparr>) @
         [SEND_VCS_STATE cid v m (vcs_char_type opcode)])"
proof -
  have le: "opcode \<le> 6" using assms(3) by (cases c) auto
  define b where "b = (if opcode = 4 then a else 0)"
  obtain st where st: "volume_of st = volume_spec opcode b (volume_of (the_vcs s))"
    "vcs_change_counter st = vcs_change_counter (the_vcs s)"
    "lehs_vcs_set_volume (host_gatt env) cid opcode b s =
      (GATT_SUCCESS,
       if volume_of st = volume_of (the_vcs s) then s
       else emit_server [SEND_VCS_STATE cid (volume_setting st) (vcs_mute_state st) (vcs_char_type opcode)]
         (emit_server (volume_states (host_gatt env) (server_clcbs s) (server_clcbs s) st)
           (set_vcs_state (\<lambda>_. advance (connections (server_clcbs s)) st)
             (drive (audio_driver_set_mute_state (vcs_mute_state st)) (drive (audio_driver_set_volume (volume_setting st)) s)))))"
    by (rule set_volume_result [OF le])
  define t where "t = snd (lehs_vcs_set_volume (host_gatt env) cid opcode b s)"
  have packet: "app_rpc_rx_callback env (Some (b16 code @ b16 n @ b16 cid @ vcs_args opcode a)) s = Some (STATUS_SUCCESS, t)"
    unfolding t_def b_def by (rule volume_packet [OF assms(2,3)])
  have spec: "volume_spec opcode b = volume_spec opcode a" by (auto simp: b_def volume_spec_def fun_eq_iff)
  have lv: "levels (server_audio s) = (volume_setting (the_vcs s), vcs_mute_state (the_vcs s))"
    using assms(1) by (simp add: server_ok_def volume_ok_def levels_def)
  have read: "app_handle_gatt_read_request env' i HDLC_VCS_VOLUME_STATE_VALUE len t =
      Some (Inr [volume_setting (the_vcs t), vcs_mute_state (the_vcs t), vcs_change_counter (the_vcs t)], t)"
    by (rule volume_state_read)
  show ?thesis
  proof (cases "volume_of st = volume_of (the_vcs s)")
    case True
    then have "t = s" using st(3) by (simp add: t_def)
    with True packet st(1) spec lv read show ?thesis by (auto simp: volume_of_def)
  next
    case False
    then have t: "t = emit_server (volume_states (host_gatt env) (server_clcbs s) (server_clcbs s) st @
        [SEND_VCS_STATE cid (volume_setting st) (vcs_mute_state st) (vcs_char_type opcode)])
        (set_vcs_state (\<lambda>_. advance (connections (server_clcbs s)) st)
          (drive (audio_driver_set_mute_state (vcs_mute_state st)) (drive (audio_driver_set_volume (volume_setting st)) s)))"
      using st(3) by (simp add: t_def)
    have same: "(the_vcs s)\<lparr>volume_setting := volume_setting st, vcs_mute_state := vcs_mute_state st\<rparr> = st"
      using st(2) by simp
    have "the_vcs t = advance (connections (server_clcbs s)) st" "levels (server_audio t) = (volume_setting st, vcs_mute_state st)"
      by (simp_all add: t set_vcs_state_def levels_def audio_driver_set_volume_def audio_driver_set_mute_state_def)
    moreover have "actions t = actions s @ map (\<lambda>x. STREAM (AUDIO x)) (snd (audio_driver_set_volume (volume_setting st) (server_audio s)) @
          snd (audio_driver_set_mute_state (vcs_mute_state st) (fst (audio_driver_set_volume (volume_setting st) (server_audio s))))) @
        volume_states (host_gatt env) (server_clcbs s) (server_clcbs s)
          ((the_vcs s)\<lparr>volume_setting := volume_setting st, vcs_mute_state := vcs_mute_state st\<rparr>) @
        [SEND_VCS_STATE cid (volume_setting st) (vcs_mute_state st) (vcs_char_type opcode)]"
      unfolding same by (simp add: t set_vcs_state_def)
    ultimately show ?thesis
      using packet st(1,2) spec read False
      by - (rule exI [of _ t], rule exI [of _ "volume_setting st"], rule exI [of _ "vcs_mute_state st"],
        rule exI [of _ "vcs_change_counter (the_vcs t)"],
        rule exI [of _ "snd (audio_driver_set_volume (volume_setting st) (server_audio s)) @
          snd (audio_driver_set_mute_state (vcs_mute_state st) (fst (audio_driver_set_volume (volume_setting st) (server_audio s))))"],
        auto simp: volume_of_def)
  qed
qed

subsection \<open>Advertising\<close>

lemma next_adv_state:
  "\<exists>st params. lehs_move_to_next_adv_state sp a = Some (st, [conn_action.EXT_ADV_ENABLE (st \<noteq> ADV_STATE_IDLE) params, SEND_ADV_STATE st]) \<and>
     (st = ADV_STATE_IDLE \<longleftrightarrow> a = ADV_STATE_REGULAR_ADV \<or> a = ADV_STATE_MAX \<or> sp = 0 \<and> a \<noteq> ADV_STATE_IDLE)"
  by (cases "sp = 0"; cases a) (simp_all add: adv_defs)

text \<open>A command to stop advertising always does so. A command to start it starts it when the device is idle; while regular advertising runs
  the same command ends it.\<close>

theorem host_advertising:
  "\<exists>st params. handle_command env COMMAND_ADVERTISE [enable] 1 s =
      Some (emit_connection [conn_action.EXT_ADV_ENABLE (st \<noteq> ADV_STATE_IDLE) params, SEND_ADV_STATE st] (s\<lparr>server_adv_state := st\<rparr>)) \<and>
    (st = ADV_STATE_IDLE \<longleftrightarrow> enable = 0 \<or> server_adv_state s = ADV_STATE_REGULAR_ADV \<or> server_adv_state s = ADV_STATE_MAX \<or>
       server_do_swift_pair s = 0 \<and> server_adv_state s \<noteq> ADV_STATE_IDLE)"
proof -
  define a where "a = (if enable = 0 then ADV_STATE_MAX else server_adv_state s)"
  obtain st params where move:
    "lehs_move_to_next_adv_state (server_do_swift_pair s) a =
      Some (st, [conn_action.EXT_ADV_ENABLE (st \<noteq> ADV_STATE_IDLE) params, SEND_ADV_STATE st])"
    "st = ADV_STATE_IDLE \<longleftrightarrow> a = ADV_STATE_REGULAR_ADV \<or> a = ADV_STATE_MAX \<or> server_do_swift_pair s = 0 \<and> a \<noteq> ADV_STATE_IDLE"
    using next_adv_state [of "server_do_swift_pair s" a] by blast
  have "handle_command env COMMAND_ADVERTISE [enable] 1 s =
      Some (emit_connection [conn_action.EXT_ADV_ENABLE (st \<noteq> ADV_STATE_IDLE) params, SEND_ADV_STATE st] (s\<lparr>server_adv_state := st\<rparr>))"
    using move(1) by (simp add: rpc_handle_adv_def start_def a_def)
  moreover have "st = ADV_STATE_IDLE \<longleftrightarrow> enable = 0 \<or> server_adv_state s = ADV_STATE_REGULAR_ADV \<or> server_adv_state s = ADV_STATE_MAX \<or>
       server_do_swift_pair s = 0 \<and> server_adv_state s \<noteq> ADV_STATE_IDLE"
    using move(2) by (simp add: a_def)
  ultimately show ?thesis by blast
qed

subsection \<open>Events\<close>

lemma c_str_ends: "0 \<in> set xs \<Longrightarrow> \<exists>ys. c_str xs = Some ys \<and> length ys < length xs"
  by (induction xs) (auto simp: c_str_def c_string_def)

lemma padded_string: "length xs < n \<Longrightarrow> 0 \<in> set (padded n xs) \<and> length (padded n xs) = n"
  by (simp add: padded_def)

definition event_fits :: "client_action \<Rightarrow> bool" where
  "event_fits a \<longleftrightarrow> client_frames a \<noteq> None"

lemma rd_arr_length: "rd_arr n p = Some (xs, q) \<Longrightarrow> length xs = n"
  by (induction n p arbitrary: xs q rule: rd_arr.induct) (auto simp: bind_eq_Some_conv)

lemma call_terminated_fits: "event_fits (RPC_CALL_TERMINATED cid i r)"
  by (simp add: event_fits_def le_audio_rpc_send_call_terminated_event_def app_rpc_send_data_def)

lemma play_status_fits: "event_fits (RPC_PLAY_STATUS cid st)"
  by (simp add: event_fits_def lehs_rpc_send_play_status_def app_rpc_send_data_def)

lemma uri_fits: "length (uri_octets uri) \<le> 60"
  by (simp add: uri_octets_def Let_def)

lemma call_state_fits: "0 \<in> set uri \<Longrightarrow> event_fits (RPC_CALL_STATE cid i (Some uri) st)"
  "event_fits (RPC_CALL_STATE cid i None st)"
  using c_str_ends [of uri]
  by (auto simp: event_fits_def le_audio_rpc_update_call_state_def app_rpc_send_data_def bind_eq_None_conv not_less uri_fits)

lemma call_states_fit: "call_state_loop cid n xs = Some acts \<Longrightarrow> list_all event_fits acts"
proof (induction cid n xs arbitrary: acts rule: call_state_loop.induct)
  case (1 cid n xs)
  from "1.prems" show ?case
    by (subst (asm) call_state_loop.simps) (auto simp: call_state_fits split: if_split_asm list.split_asm dest: "1.IH")
qed

lemma player_fits: "length name < 40 \<Longrightarrow> event_fits (RPC_PLAYERS cid (padded 40 name))"
  using c_str_ends [of "padded 40 name"] padded_string [of name 40]
  by (auto simp: event_fits_def lehs_rpc_send_get_players_event_def app_rpc_send_data_def)

lemma caller_fits:
  assumes "rd_caller data = Some (i, name, n)"
  shows "event_fits (RPC_CALL_STATE cid i (Some name) st)" "event_fits (RPC_FRIENDLY_NAME cid name n)"
proof -
  obtain xs where xs: "name = padded 50 xs" "length xs = unat n" "n \<le> 49"
    using assms by (auto simp: rd_caller_def bind_eq_Some_conv Let_def not_less dest!: rd_arr_length split: if_split_asm)
  have "unat n \<le> 49" using xs(3) by (simp add: word_le_nat_alt)
  with xs padded_string [of xs 50] show "event_fits (RPC_CALL_STATE cid i (Some name) st)"
    by (intro call_state_fits) simp
  have "unat (ucast n :: u8) = unat n" using \<open>unat n \<le> 49\<close> by (simp add: unsigned_ucast_eq take_bit_nat_eq_self)
  with \<open>unat n \<le> 49\<close> xs padded_string [of xs 50] show "event_fits (RPC_FRIENDLY_NAME cid name n)"
    by (simp add: event_fits_def lehs_rpc_update_call_friendly_name_def octets_def app_rpc_send_data_def word_less_nat_alt)
qed

text \<open>C35: Whatever values of media and call control a peer sends, the events they become for the host fit the arrays they are built in, and
  the names in them end.\<close>

theorem peer_events_fit:
  assumes "lehs_gtbs_app_handle_read_complete cid c h data = Some acts \<or>
    (\<exists>r d. lehs_gmcs_app_handle_read_complete cid c h data = Some (r, d, acts))"
  shows "list_all event_fits acts"
  using assms
proof
  assume "lehs_gtbs_app_handle_read_complete cid c h data = Some acts"
  then show ?thesis
    by (auto simp: lehs_gtbs_app_handle_read_complete_def Let_def bind_eq_Some_conv call_terminated_fits
        dest: call_states_fit caller_fits split: if_split_asm)
next
  assume "\<exists>r d. lehs_gmcs_app_handle_read_complete cid c h data = Some (r, d, acts)"
  then show ?thesis
    by (auto simp: lehs_gmcs_app_handle_read_complete_def Let_def bind_eq_Some_conv player_fits play_status_fits split: if_split_asm)
qed

text \<open>C36: A client that writes an input description of 21 octets or more, none of the first 20 zero, leaves a description without an
  end: the event for the host is made from what follows the array, and so is every later answer to a version request.\<close>

theorem description_without_end:
  assumes "volume_ok s" "20 < length data" "0 \<notin> set (take 20 data)"
  shows "\<exists>t desc. aics_description_write cid data (length data) s = Some (GATT_SUCCESS, t) \<and>
    last (actions t) = SEND_AICS_DESCRIPTION cid 0 desc \<and> service_frames (last (actions t)) = None \<and>
    handle_command env COMMAND_GET_VERSION p n t = None"
proof -
  let ?desc = "take 20 data"
  let ?t = "emit_server [SEND_AICS_DESCRIPTION cid 0 ?desc]
    (set_aics 0 (\<lambda>d. d\<lparr>aics_description := ?desc, description_len := 20\<rparr>) s)"
  have one: "length (mics_aics (services s)) = 1" using assms(1) by (simp add: volume_ok_def)
  have "min 20 (length data - 1) = 20" using assms(2) by simp
  then have "aics_description_write cid data (length data) s = Some (GATT_SUCCESS, ?t)"
    using assms(2) one by (cases data) (simp_all add: aics_description_write_def octets_def Let_def)
  moreover have "aics_description (the_aics 0 ?t) = ?desc" using one by simp
  moreover have "c_str ?desc = None" using assms(3) by (simp add: c_str_def)
  moreover have "length (mics_aics (services ?t)) = 1" using one by simp
  ultimately show ?thesis
    by (simp add: le_audio_rpc_send_mics_aics_description_def version_events_def arr_get_def bind_eq_None_conv emit_frames_def)
qed

section \<open>Witnesses\<close>

definition example_command :: "u16 \<Rightarrow> host_command option" where
  "example_command n = (if n = 1 then Some COMMAND_ABS_VOL else if n = 2 then Some COMMAND_DISCONNECT
     else if n = 3 then Some COMMAND_SET_CSIS_PARAMS else None)"

definition example_host :: host_env where
  "example_host = \<lparr>host_server = example_server_env, command_of = example_command, gain_command_of = (\<lambda>_. GAIN_SET), nvram_start = 0x200,
     id_keys_size = 33, overwrite_entries = (\<lambda>i offset xs nv. Some nv), init_private_addr = (\<lambda>_. WICED_SUCCESS), le_audio_group = 0x29,
     device_roles = 0x91, device_appearance = 0x0941\<rparr>"


lemma own_keys_named: "le16 1 2 = nvram_start example_host + 1" "id_keys_size example_host = 33"
  by (simp_all add: example_host_def le16_def)

theorem command_faults_iff_witness:
  "handle_command example_host COMMAND_DISCONNECT [1] 2 example_two = None \<and>
   \<not> handle_command example_host COMMAND_DISCONNECT [1, 0] 2 example_two = None \<and>
   handle_command example_host COMMAND_PUSH_NVRAM_DATA [1, 2, 9] 35 example_two = None"
  using command_faults_iff [OF example_two_parts(2), of example_host COMMAND_DISCONNECT "[1]" 2]
    command_faults_iff [OF example_two_parts(2), of example_host COMMAND_DISCONNECT "[1, 0]" 2]
    command_faults_iff [OF example_two_parts(2), of example_host COMMAND_PUSH_NVRAM_DATA "[1, 2, 9]" 35]
    own_keys_named by (auto simp: bond_needed_def Let_def simp del: handle_command.simps)

definition example_volume_packet :: "u8 list" where
  "example_volume_packet = [1, 0, 3, 0, 1, 0, 200]"

theorem host_volume_command_witness:
  "\<exists>t v m k. app_rpc_rx_callback example_host (Some (b16 1 @ b16 3 @ b16 1 @ vcs_args 4 200)) example_two = Some (STATUS_SUCCESS, t) \<and>
    (unat v, m) = volume_spec 4 200 (volume_of (the_vcs example_two)) \<and> levels (server_audio t) = (v, m) \<and>
    app_handle_gatt_read_request example_server_env 0 HDLC_VCS_VOLUME_STATE_VALUE 512 t = Some (Inr [v, m, k], t)"
  using host_volume_command [OF example_two_parts(2), of example_host 1 COMMAND_ABS_VOL 4 3 1 200 example_server_env 0 512]
  by (auto simp: example_host_def example_command_def)

definition example_call_client :: lehs_clcb where
  "example_call_client = zero_clcb\<lparr>peer_profiles := zero_peer_profiles\<lparr>
     gtbs := replicate 14 zero_handles @ [\<lparr>ch_handle = 6, value_handle = 7, descriptor_handle = 8\<rparr>, zero_handles]\<rparr>\<rparr>"

lemma example_call_type: "gatt_intf_find_characteristic_type_by_value_handle (gtbs (peer_profiles example_call_client)) 7 = 14"
  by code_simp

theorem peer_events_fit_witness:
  "list_all event_fits [RPC_CALL_STATE 1 5 (Some (padded 50 [65])) GA_LIB_TBS_CALL_STATE_INCOMING]"
proof (rule peer_events_fit)
  have "rd_caller [5, 65] = Some (5, padded 50 [65], 1)" by (simp add: rd_caller_def start_def)
  then show "lehs_gtbs_app_handle_read_complete 1 example_call_client 7 [5, 65] =
      Some [RPC_CALL_STATE 1 5 (Some (padded 50 [65])) GA_LIB_TBS_CALL_STATE_INCOMING] \<or>
    (\<exists>r d. lehs_gmcs_app_handle_read_complete 1 example_call_client 7 [5, 65] =
      Some (r, d, [RPC_CALL_STATE 1 5 (Some (padded 50 [65])) GA_LIB_TBS_CALL_STATE_INCOMING]))"
    by (intro disjI1) (simp add: lehs_gtbs_app_handle_read_complete_def example_call_type)
qed

theorem description_without_end_witness:
  "\<exists>t desc. aics_description_write 1 (replicate 21 65) (length (replicate 21 (65 :: u8))) example_two = Some (GATT_SUCCESS, t) \<and>
    last (actions t) = SEND_AICS_DESCRIPTION 1 0 desc \<and> service_frames (last (actions t)) = None \<and>
    handle_command example_host COMMAND_GET_VERSION [] 0 t = None"
proof (rule description_without_end)
  show "volume_ok example_two" using example_two_parts(2) by (simp add: server_ok_def)
  show "0 \<notin> set (take 20 (replicate 21 (65 :: u8)))" by simp
qed simp

end
