(* ===== verification/Stack_Events.thy ===== *)
theory Stack_Events
  imports Host_Commands Client Cis
begin

text \<open>
  The events of the stack, each with the whole server: the dispatch of the GATT events in \<open>lehs_gatt.c\<close>, the security events of
  \<open>lehs_btmgr.c\<close>, the isochronous events of \<open>lehs_cis.c\<close> and \<open>lehs_bis.c\<close>, the start of \<open>lehs_main.c\<close>, and one step of the program:
  whatever comes in from the stack, from a timer or from the host.
\<close>

section \<open>The parts in the whole\<close>

text \<open>
  \<open>acl_handle\<close> is the connection handle the stack gives for a connection, \<open>keys_memory\<close> the structure on the stack of
  \<open>lehs_app_sec_bond\<close>, \<open>entry_octets\<close> the octets of a bond, \<open>bonding_completed\<close> a constant of the host interface, \<open>bis_created\<close>
  asks the stack whether a handle is that of a stream that is received, \<open>db_init_result\<close> and \<open>register_result\<close> are what the stack
  answers at the start, \<open>db_hash\<close> is the hash it makes of the database, and \<open>rcv_memory\<close> the structure on the stack of a scan.
\<close>

record stack_env =
  stack_host :: host_env
  stack_client :: client_env
  acl_handle :: "u16 \<Rightarrow> u16"
  keys_memory :: wiced_bt_device_link_keys
  entry_octets :: "lehs_nvram_paired_device_key \<Rightarrow> u8 list"
  bonding_completed :: u32
  bis_created :: "u16 \<Rightarrow> bool"
  db_init_result :: gatt_status
  register_result :: gatt_status
  stack_db_hash :: "u8 list"
  rcv_memory :: le_audio_rcv_public_broadcast

abbreviation stack_server :: "stack_env \<Rightarrow> server_env" where "stack_server env \<equiv> host_server (stack_host env)"
abbreviation stack_bis :: "stack_env \<Rightarrow> bis_env" where "stack_bis env \<equiv> env_bis (stack_server env)"
abbreviation id_start :: "stack_env \<Rightarrow> u16" where "id_start env \<equiv> nvram_start (stack_host env)"

text \<open>The part a handler of connections and keys works on.\<close>

definition links_view :: "server_state \<Rightarrow> lehs_state" where
  "links_view s = \<lparr>clcbs = server_clcbs s, adv = server_adv_state s, do_swift_pair = server_do_swift_pair s, nvram = server_nvram s\<rparr>"

definition put_links :: "lehs_state \<Rightarrow> server_state \<Rightarrow> server_state" where
  "put_links l s = s\<lparr>server_clcbs := clcbs l, server_nvram := nvram l, server_adv_state := adv l, server_do_swift_pair := do_swift_pair l\<rparr>"

definition on_links :: "(lehs_state \<Rightarrow> (lehs_state \<times> conn_action list) option) \<Rightarrow> server_state \<Rightarrow> server_state option" where
  "on_links f s = do { (l, acts) \<leftarrow> f (links_view s); Some (emit_connection acts (put_links l s)) }"

text \<open>A handler of the client; an event for the host that does not fit its array is written behind it.\<close>

definition on_blocks :: "(lehs_clcb list \<Rightarrow> (lehs_clcb list \<times> client_action list) option) \<Rightarrow> server_state \<Rightarrow> server_state option" where
  "on_blocks f s = do {
     (blocks, acts) \<leftarrow> f (server_clcbs s);
     if list_all (\<lambda>a. client_frames a \<noteq> None) acts then Some (emit_server (map CLIENT acts) (s\<lparr>server_clcbs := blocks\<rparr>)) else None }"

text \<open>A handler of the isochronous streams.\<close>

definition streams_view :: "server_state \<Rightarrow> lehs_streams" where
  "streams_view s = \<lparr>links = server_clcbs s, path_audio = server_audio s, log = []\<rparr>"

definition put_streams :: "lehs_streams \<Rightarrow> server_state \<Rightarrow> server_state" where
  "put_streams x s = emit_server (map STREAM (log x)) (s\<lparr>server_clcbs := links x, server_audio := path_audio x\<rparr>)"

section \<open>GATT events\<close>

text \<open>The scan delegator is told of a lost connection before its block is given up; it works on other data.\<close>

definition connection_status_event :: "stack_env \<Rightarrow> bool \<Rightarrow> wiced_bt_gatt_connection_status \<Rightarrow> server_state \<Rightarrow> server_state option" where
  "connection_status_event env up p s =
     (if up then on_links (lehs_gatt_handle_connection (acl_handle env) (id_start env) p) s
      else map_option
        (case lehs_gatt_get_clcb (server_clcbs s) (cs_bd_addr p) of
           None \<Rightarrow> id
         | Some i \<Rightarrow> lehs_bass_handle_acl_disconnection (conn_id (server_clcbs s ! i)))
        (on_links (lehs_gatt_handle_disconnection (id_start env) p) s))"

datatype gatt_event =
    GATT_CONNECTION_STATUS_EVT bool wiced_bt_gatt_connection_status
  | GATT_OPERATION_CPLT_EVT u16 gattc_optype gatt_status u16 "u8 list"
  | GATT_DISCOVERY_CPLT_EVT u16 gatt_status
  | GATT_DISCOVERY_RESULT_EVT u16 gatt_discovery_result
  | GATT_ATTRIBUTE_REQUEST_EVT u16 att_request
  | GATT_CONGESTION_EVT u16
  | GATT_GET_RESPONSE_BUFFER_EVT u16
  | GATT_APP_BUFFER_TRANSMITTED_EVT

text \<open>The last two only take a buffer of the SDK and give it back.\<close>

fun lehs_gatt_cback :: "stack_env \<Rightarrow> gatt_event \<Rightarrow> server_state \<Rightarrow> server_state option" where
  "lehs_gatt_cback env (GATT_CONNECTION_STATUS_EVT up p) s = connection_status_event env up p s"
| "lehs_gatt_cback env (GATT_OPERATION_CPLT_EVT cid op sts h data) s =
     on_blocks (app_handle_gatt_operation_complete (stack_client env) (id_start env) (keys_memory env) (server_nvram s) cid op sts h data) s"
| "lehs_gatt_cback env (GATT_DISCOVERY_CPLT_EVT cid sts) s = on_blocks (gatt_discovery_cplt_evt (stack_client env) cid sts) s"
| "lehs_gatt_cback env (GATT_DISCOVERY_RESULT_EVT cid r) s =
     on_blocks (\<lambda>blocks. map_option (\<lambda>bs. (bs, [])) (gatt_discovery_result_evt (stack_client env) cid r blocks)) s"
| "lehs_gatt_cback env (GATT_ATTRIBUTE_REQUEST_EVT cid req) s = map_option snd (gatt_attribute_request_event (stack_server env) cid req s)"
| "lehs_gatt_cback env (GATT_CONGESTION_EVT cid) s = on_blocks (gatt_congestion_evt (stack_client env) cid) s"
| "lehs_gatt_cback env (GATT_GET_RESPONSE_BUFFER_EVT n) s = Some s"
| "lehs_gatt_cback env GATT_APP_BUFFER_TRANSMITTED_EVT s = Some s"

section \<open>Security events\<close>

text \<open>What the application answers: with a call, or in the structure of the event.\<close>

datatype btm_reply =
    NO_REPLY
  | IO_CAPABILITIES u8
  | SECURITY_GRANT "u8 list"
  | CONFIRM "u8 list"
  | LINK_KEYS wiced_bt_device_link_keys

datatype btm_event =
    BTM_ENABLED_EVT
  | BTM_PAIRING_IO_CAPABILITIES_BLE_REQUEST_EVT
  | BTM_SECURITY_REQUEST_EVT "u8 list"
  | BTM_USER_CONFIRMATION_REQUEST_EVT "u8 list"
  | BTM_PAIRING_COMPLETE_EVT bool bool "u8 list"
  | BTM_ENCRYPTION_STATUS_EVT bool "u8 list"
  | BTM_LOCAL_IDENTITY_KEYS_UPDATE_EVT "u8 list"
  | BTM_PAIRED_DEVICE_LINK_KEYS_UPDATE_EVT wiced_bt_device_link_keys
  | BTM_PAIRED_DEVICE_LINK_KEYS_REQUEST_EVT wiced_bt_device_link_keys
  | BTM_OTHER_EVT

text \<open>The bond is used without a test for \<open>NULL\<close>.\<close>

definition lehs_btm_handle_pairing_complete :: "stack_env \<Rightarrow> u8 list \<Rightarrow> server_state \<Rightarrow> server_state option" where
  "lehs_btm_handle_pairing_complete env bda s =
     (case lehs_gatt_get_clcb (server_clcbs s) bda of
        None \<Rightarrow> Some s
      | Some i \<Rightarrow> do {
          let c = server_clcbs s ! i;
          s \<leftarrow> emit_frames (app_rpc_send_app_status (conn_id c) (Some (identity_bd_address c)) (bonding_completed env) 0) s;
          j \<leftarrow> lehs_nvram_get_paired_device_key_info (server_nvram s) (identity_bd_address c);
          emit_frames (lehs_rpc_send_link_keys (lehs_nvram_get_nvram_id (id_start env) j) (entry_octets env (server_nvram s ! j))) s })"

definition lehs_app_init :: "stack_env \<Rightarrow> server_state \<Rightarrow> server_state" where
  "lehs_app_init env s = snd (lehs_gatt_init (db_init_result env) (register_result env) (stack_db_hash env) s)"

fun lehs_btm_cback :: "stack_env \<Rightarrow> btm_event \<Rightarrow> server_state \<Rightarrow> (wiced_result \<times> btm_reply \<times> server_state) option" where
  "lehs_btm_cback env BTM_ENABLED_EVT s = Some (WICED_SUCCESS, NO_REPLY, lehs_app_init env s)"
| "lehs_btm_cback env BTM_PAIRING_IO_CAPABILITIES_BLE_REQUEST_EVT s = Some (WICED_SUCCESS, IO_CAPABILITIES 16, s)"
| "lehs_btm_cback env (BTM_SECURITY_REQUEST_EVT bda) s = Some (WICED_SUCCESS, SECURITY_GRANT bda, s)"
| "lehs_btm_cback env (BTM_USER_CONFIRMATION_REQUEST_EVT bda) s = Some (WICED_SUCCESS, CONFIRM bda, s)"
| "lehs_btm_cback env (BTM_PAIRING_COMPLETE_EVT is_le success bda) s =
     (if is_le \<and> success
      then map_option (\<lambda>s. (WICED_SUCCESS, NO_REPLY, s)) (lehs_btm_handle_pairing_complete env bda s)
      else Some (WICED_SUCCESS, NO_REPLY, s))"
| "lehs_btm_cback env (BTM_ENCRYPTION_STATUS_EVT success bda) s = do {
     (res, _, _) \<leftarrow> lehs_btm_handle_encryption_sts (stack_client env) success bda (server_clcbs s);
     s \<leftarrow> on_blocks (\<lambda>blocks. map_option snd (lehs_btm_handle_encryption_sts (stack_client env) success bda blocks)) s;
     Some (res, NO_REPLY, s) }"
| "lehs_btm_cback env (BTM_LOCAL_IDENTITY_KEYS_UPDATE_EVT id_keys) s =
     map_option (\<lambda>s. (WICED_SUCCESS, NO_REPLY, s)) (app_handle_irk_update_evt (stack_host env) id_keys s)"
| "lehs_btm_cback env (BTM_PAIRED_DEVICE_LINK_KEYS_UPDATE_EVT keys) s =
     map_option (\<lambda>s. (WICED_SUCCESS, NO_REPLY, s)) (on_links (lehs_btm_handle_key_update_event (id_start env) keys) s)"
| "lehs_btm_cback env (BTM_PAIRED_DEVICE_LINK_KEYS_REQUEST_EVT keys) s =
     (case lehs_btm_handle_key_request_event (id_start env) keys (links_view s) of
        (res, keys) \<Rightarrow> Some (res, LINK_KEYS keys, s))"
| "lehs_btm_cback env BTM_OTHER_EVT s = Some (WICED_ERROR, NO_REPLY, s)"

section \<open>The program\<close>

text \<open>The start: variables are zero but those of the advertising.\<close>

definition application_start :: "server_state \<Rightarrow> server_state" where
  "application_start s = s\<lparr>adv_tx_power := 0, adv_data_options := 0xFFFF, server_do_swift_pair := 0, server_adv_state := ADV_STATE_IDLE\<rparr>"

text \<open>
  The memory before it: zero but for the variables with a value. \<open>a\<close> is that of the audio driver, \<open>lc3\<close> the number of the codec
  and \<open>n\<close> the size of the keys of the device. The stack calls back when it is enabled.
\<close>

definition program_memory :: "audio_state \<Rightarrow> u8 \<Rightarrow> nat \<Rightarrow> server_state" where
  "program_memory a lc3 n = \<lparr>services = zero_service_data, has_global = lehs_has_data_initial, pacs_app_data = g_lehs_pacs_app_data lc3,
     server_audio = a, server_clcbs = replicate LEHS_MAX_CONNECTIONS zero_clcb, server_nvram = lehs_nvram_init,
     db_hash_value = replicate 16 0, broadcast_sink_cb = replicate LEHS_MAX_BIG zero_big, periodic_sync_in_progress = False,
     source_cb = zero_source, pending_scan_q = [], server_adv_state = ADV_STATE_IDLE, server_do_swift_pair = 0, adv_tx_power = 0,
     adv_data_options = 0, local_id_keys = replicate n 0, actions = []\<rparr>"

definition program_start :: "stack_env \<Rightarrow> audio_state \<Rightarrow> u8 \<Rightarrow> nat \<Rightarrow> server_state" where
  "program_start env a lc3 n = lehs_app_init env (application_start (program_memory a lc3 n))"

text \<open>
  Whatever comes in. An isochronous event is one of the unicast streams or one of a BIG; the scan callback is the one that was
  registered last; a request carries the memory it is read over.
\<close>

datatype program_event =
    STACK_GATT gatt_event
  | STACK_BTM btm_event
  | STACK_CIS isoc_event
  | STACK_BIG big_event
  | STACK_ADV ext_adv_event
  | STACK_SCAN scan_cback "ext_scan_results option" u16 "u8 list"
  | LOCK_TIMER
  | HOST_PACKET "u8 list option"

definition ext_scan_result :: "stack_env \<Rightarrow> scan_cback \<Rightarrow> ext_scan_results option \<Rightarrow> u16 \<Rightarrow> u8 list \<Rightarrow> server_state \<Rightarrow> server_state option" where
  "ext_scan_result env cback r n data s =
     (case cback of
        NO_SCAN_CBACK \<Rightarrow> Some s
      | SCAN_CBACK \<Rightarrow> broadcast_sink_bis_ext_adv_scan_cback (stack_bis env) (rcv_memory env) r n data s
      | SCAN_TO_SYNC_CBACK \<Rightarrow> broadcast_sink_bis_ext_adv_scan_to_sync_cback (stack_bis env) (rcv_memory env) r n data s)"

fun program_step :: "stack_env \<Rightarrow> program_event \<Rightarrow> server_state \<Rightarrow> server_state option" where
  "program_step env (STACK_GATT ev) s = lehs_gatt_cback env ev s"
| "program_step env (STACK_BTM ev) s = map_option (\<lambda>(_, _, s). s) (lehs_btm_cback env ev s)"
| "program_step env (STACK_CIS ev) s =
     map_option (\<lambda>x. put_streams x s)
       (lehs_isoc_event_handler (ascs_view (stack_server env) s) (bis_created env) ev (streams_view s))"
| "program_step env (STACK_BIG ev) s = lehs_bis_isoc_cb (stack_bis env) ev s"
| "program_step env (STACK_ADV ev) s = lehs_ext_adv_cback (stack_bis env) ev s"
| "program_step env (STACK_SCAN cback r n data) s = ext_scan_result env cback r n data s"
| "program_step env LOCK_TIMER s = Some (csis_lock_timer_timeout (env_gatt (stack_server env)) s)"
| "program_step env (HOST_PACKET xs) s = map_option snd (app_rpc_rx_callback (stack_host env) xs s)"

text \<open>Events with what the stack and the memory hold at their time.\<close>

fun program_run :: "(stack_env \<times> program_event) list \<Rightarrow> server_state \<Rightarrow> server_state option" where
  "program_run [] s = Some s"
| "program_run ((env, ev) # evs) s = do { s \<leftarrow> program_step env ev s; program_run evs s }"

end
