(* ===== verification/Advertisement.thy ===== *)
theory Advertisement
  imports Csis
begin

text \<open>
  What the device advertises: \<open>lehs_gatt_get_adv_data\<close> and the set-up of the advertisement in \<open>lehs_gatt_start_stop_adv\<close>.
  The properties show that every choice of contents fits the buffer and who recognises the device as a member of its set.
\<close>

section \<open>Contents\<close>

text \<open>
  The advertising types and the 16-bit identifiers are the SDK's. \<open>adv_build room sofar (type, value)\<close> is
  \<open>wiced_ble_adv_data_build\<close>: what the context with room for \<open>room\<close> octets holds after it was given one more element.
\<close>

record adv_env =
  adv_csis :: csis_env
  type_appearance :: u8
  type_flag :: u8
  type_service_data :: u8
  type_manufacturer :: u8
  type_name_complete :: u8
  discovery_flags :: u8
  uuid_volume_control :: u16
  uuid_broadcast_scan :: u16
  adv_build :: "nat \<Rightarrow> u8 list \<Rightarrow> u8 \<times> u8 list \<Rightarrow> u8 list"
  set_params_status :: "bool \<Rightarrow> wiced_result"

abbreviation (input) LEHS_APP_APPEARANCE :: u16 where "LEHS_APP_APPEARANCE \<equiv> 0x0943"
abbreviation (input) BAP_CONTEXT_TYPE_UNSPECIFIED :: u8 where "BAP_CONTEXT_TYPE_UNSPECIFIED \<equiv> 1"
abbreviation (input) BAP_CONTEXT_TYPE_CONVERSATIONAL :: u8 where "BAP_CONTEXT_TYPE_CONVERSATIONAL \<equiv> 2"
abbreviation (input) BAP_CONTEXT_TYPE_MEDIA :: u8 where "BAP_CONTEXT_TYPE_MEDIA \<equiv> 4"

text \<open>\<open>LeAudioHS\<close> with its terminating zero, which \<open>sizeof\<close> counts.\<close>

definition device_name :: "u8 list" where
  "device_name = [0x4C, 0x65, 0x41, 0x75, 0x64, 0x69, 0x6F, 0x48, 0x53, 0]"

definition ascs_data :: "u8 list" where
  "ascs_data = [0x4E, 0x18, 0x01,
     BAP_CONTEXT_TYPE_CONVERSATIONAL OR BAP_CONTEXT_TYPE_MEDIA OR BAP_CONTEXT_TYPE_UNSPECIFIED, 0x02,
     BAP_CONTEXT_TYPE_CONVERSATIONAL OR BAP_CONTEXT_TYPE_UNSPECIFIED, 0, 0]"

definition tmap_data :: "u8 list" where
  "tmap_data = [0x55, 0x18, push_bit 1 1 OR push_bit 3 1 OR push_bit 5 1, 0x00]"

text \<open>The elements, in the order of their bits in the options.\<close>

definition adv_data_elems :: "adv_env \<Rightarrow> u8 \<Rightarrow> u8 list \<Rightarrow> (u8 \<times> u8 list) list" where
  "adv_data_elems env role psri =
     [(type_appearance env, b16 LEHS_APP_APPEARANCE),
      (type_flag env, [discovery_flags env]),
      (type_service_data env, b16 (uuid_volume_control env)),
      (type_service_data env, ascs_data),
      (type_service_data env, b16 (uuid_broadcast_scan env)),
      (type_service_data env, tmap_data),
      (advert_type_psri (adv_csis env), psri),
      (type_service_data env, [0x58, 0x18, role])]"

text \<open>
  While swift pair runs its element, else the name when bit 5 asks for it. The array of the swift pair element is declared
  constant and then written to; the model takes the write to take place.
\<close>

definition first_element :: "adv_env \<Rightarrow> adv_state \<Rightarrow> u16 \<Rightarrow> (u8 \<times> u8 list) list" where
  "first_element env st adv_opt =
     (if st = ADV_STATE_SWIFT_PAIR_HIGH_DUTY_CYCLE \<or> st = ADV_STATE_SWIFT_PAIR_LOW_DUTY_CYCLE
      then [(type_manufacturer env, [0x06, 0x00, 0x03, 0x00, 0x80] @ device_name)]
      else if adv_opt AND 32 \<noteq> 0 then [(type_name_complete env, device_name)] else [])"

fun adv_loop :: "adv_env \<Rightarrow> nat \<Rightarrow> u16 \<Rightarrow> nat \<Rightarrow> (u8 \<times> u8 list) list \<Rightarrow> u8 list \<Rightarrow> u8 list" where
  "adv_loop env room adv_opt i [] ctx = ctx"
| "adv_loop env room adv_opt i (e # es) ctx =
     adv_loop env room adv_opt (Suc i) es (if adv_opt AND push_bit i 1 \<noteq> 0 then adv_build env room ctx e else ctx)"

text \<open>\<open>r0\<close>, \<open>r1\<close> and \<open>r2\<close> are the random numbers of the set identifier. The result is what the context, empty before, holds.\<close>

definition lehs_gatt_get_adv_data ::
  "adv_env \<Rightarrow> nat \<times> nat \<times> nat \<Rightarrow> nat \<Rightarrow> adv_state \<Rightarrow> server_state \<Rightarrow> u8 list" where
  "lehs_gatt_get_adv_data env r room st s =
     (let adv_opt = adv_data_options s; (r0, r1, r2) = r;
          psri = ga_lib_csis_generate_psri (adv_csis env) r0 r1 r2 (sirk (lehs_csis_get_sirk s));
          ctx = foldl (adv_build env room) [] (first_element env st adv_opt)
      in adv_loop env room adv_opt 0 (adv_data_elems env (gmap_role (local_gmap (services s))) psri) ctx)"

section \<open>Set-up\<close>

text \<open>The parameters, of which only the kind of the packets varies: legacy when the contents fit them.\<close>

datatype adv_setup = SET_PARAMS bool | SET_ADV_DATA "u8 list"

abbreviation (input) ADV_DATA_SIZE :: nat where "ADV_DATA_SIZE \<equiv> 70"

definition set_up_advertisement :: "adv_env \<Rightarrow> nat \<times> nat \<times> nat \<Rightarrow> adv_state \<Rightarrow> server_state \<Rightarrow> adv_setup list" where
  "set_up_advertisement env r st s =
     (let octs = lehs_gatt_get_adv_data env r ADV_DATA_SIZE st s; legacy = length octs < 31
      in SET_PARAMS legacy # (if set_params_status env legacy = WICED_SUCCESS then [SET_ADV_DATA octs] else []))"

section \<open>What is advertised\<close>

text \<open>What the SDK documents of building: an element that fits is appended with its length and type.\<close>

definition build_appends :: "adv_env \<Rightarrow> bool" where
  "build_appends env \<longleftrightarrow> (\<forall>room ctx t v. length ctx + length v + 2 \<le> room \<longrightarrow>
     adv_build env room ctx (t, v) = ctx @ ad_elements [(t, v)])"

fun chosen_from :: "u16 \<Rightarrow> nat \<Rightarrow> 'a list \<Rightarrow> 'a list" where
  "chosen_from adv_opt i [] = []"
| "chosen_from adv_opt i (e # es) = (if bit adv_opt i then [e] else []) @ chosen_from adv_opt (Suc i) es"

lemma test_bit: "(w :: 'a::len word) AND 2 ^ i = 0 \<longleftrightarrow> \<not> bit w i"
  by (metis and_exp_eq_0_iff_not_bit)

lemma ad_elements_append [simp]: "ad_elements (es @ fs) = ad_elements es @ ad_elements fs"
  by (induction es rule: ad_elements.induct) auto

lemma adv_loop_chosen:
  assumes "build_appends env" "length (ctx @ ad_elements es) \<le> room"
  shows "adv_loop env room adv_opt i es ctx = ctx @ ad_elements (chosen_from adv_opt i es)"
  using assms(2)
proof (induction es arbitrary: ctx i)
  case (Cons e es)
  obtain t v where e: "e = (t, v)" by force
  have "adv_build env room ctx (t, v) = ctx @ ad_elements [(t, v)]"
    using assms(1) Cons.prems by (simp add: build_appends_def e)
  then show ?case
    using Cons.prems Cons.IH [of "ctx @ ad_elements [(t, v)]" "Suc i"] Cons.IH [of ctx "Suc i"]
    by (simp add: test_bit e)
qed simp

lemma chosen_shorter: "length (ad_elements (chosen_from adv_opt i es)) \<le> length (ad_elements es)"
proof (induction es arbitrary: i)
  case (Cons e es)
  then show ?case using Cons [of "Suc i"] by (cases e) (auto intro: le_SucI trans_le_add2)
qed simp

lemma chosen_append: "chosen_from adv_opt i (es @ fs) = chosen_from adv_opt i es @ chosen_from adv_opt (i + length es) fs"
  by (induction es arbitrary: i) auto

lemma list_all_chosen: "list_all P es \<Longrightarrow> list_all P (chosen_from adv_opt i es)"
  by (induction es arbitrary: i) auto

lemma psri_length: "\<forall>k m. length (aes_encrypt env k m) = 16 \<Longrightarrow> length (ga_lib_csis_generate_psri env r0 r1 r2 key) = 6"
  by (simp add: ga_lib_csis_generate_psri_def Let_def calc_hash_length prand_length)

text \<open>The elements of an advertisement.\<close>

definition advertised :: "adv_env \<Rightarrow> nat \<times> nat \<times> nat \<Rightarrow> adv_state \<Rightarrow> server_state \<Rightarrow> (u8 \<times> u8 list) list" where
  "advertised env r st s =
     (let adv_opt = adv_data_options s; (r0, r1, r2) = r;
          psri = ga_lib_csis_generate_psri (adv_csis env) r0 r1 r2 (sirk (lehs_csis_get_sirk s))
      in first_element env st adv_opt @ chosen_from adv_opt 0 (adv_data_elems env (gmap_role (local_gmap (services s))) psri))"

lemma elems_length: "length psri = 6 \<Longrightarrow> length (ad_elements (adv_data_elems env role psri)) = 44"
  by (simp add: adv_data_elems_def ascs_data_def tmap_data_def b16_def)

lemma first_length: "length (ad_elements (first_element env st adv_opt)) \<le> 17"
  by (simp add: first_element_def device_name_def)

lemma build_first:
  assumes "build_appends env" "17 \<le> room"
  shows "foldl (adv_build env room) [] (first_element env st adv_opt) = ad_elements (first_element env st adv_opt)"
  using assms by (auto simp: build_appends_def first_element_def device_name_def)

lemma advertisement_contents:
  assumes "\<forall>k m. length (aes_encrypt (adv_csis env) k m) = 16" "build_appends env"
  shows "lehs_gatt_get_adv_data env r 70 st s = ad_elements (advertised env r st s) \<and>
    length (ad_elements (advertised env r st s)) \<le> 61"
proof -
  obtain r0 r1 r2 where r: "r = (r0, r1, r2)" by (cases r)
  let ?opt = "adv_data_options s"
  let ?psri = "ga_lib_csis_generate_psri (adv_csis env) r0 r1 r2 (sirk (lehs_csis_get_sirk s))"
  let ?es = "adv_data_elems env (gmap_role (local_gmap (services s))) ?psri"
  let ?first = "ad_elements (first_element env st ?opt)"
  have l: "length (ad_elements ?es) = 44" by (intro elems_length psri_length assms(1))
  have "length (?first @ ad_elements ?es) \<le> 61" using first_length [of env st ?opt] l by simp
  then have "length (?first @ ad_elements ?es) \<le> 70" by simp
  from adv_loop_chosen [OF assms(2) this]
  have got: "lehs_gatt_get_adv_data env r 70 st s = ad_elements (advertised env r st s)"
    using build_first [OF assms(2)] by (simp add: lehs_gatt_get_adv_data_def advertised_def r Let_def)
  moreover have "length (ad_elements (advertised env r st s)) \<le> 61"
    using first_length [of env st ?opt] l chosen_shorter [of ?opt 0 ?es] by (simp add: advertised_def r Let_def)
  ultimately show ?thesis by blast
qed

text \<open>C39: whatever the options and whatever the state of advertising, everything that was chosen is in the advertisement
  and in its order: it never needs more than 61 of the 70 octets of the buffer. It goes out in legacy packets exactly when it
  is shorter than 31 octets.\<close>

theorem advertisement_fits:
  assumes "\<forall>k m. length (aes_encrypt (adv_csis env) k m) = 16" "build_appends env"
  shows "lehs_gatt_get_adv_data env r 70 st s = ad_elements (advertised env r st s) \<and>
    length (ad_elements (advertised env r st s)) \<le> 61 \<and>
    (\<exists>rest. set_up_advertisement env r st s = SET_PARAMS (length (ad_elements (advertised env r st s)) < 31) # rest \<and>
      set rest \<subseteq> {SET_ADV_DATA (ad_elements (advertised env r st s))})"
  using advertisement_contents [OF assms] by (auto simp: set_up_advertisement_def Let_def)

lemma psri_loop_absent:
  assumes "list_all (ad_ok env) es" "unat len = length (ad_elements es)"
  shows "psri_loop env key (pre @ ad_elements es) (length pre) len = Some False"
  using assms
proof (induction es arbitrary: pre len)
  case Nil
  then have "\<not> len > 2" by (simp add: word_less_nat_alt)
  then show ?case by (subst psri_loop.simps) simp
next
  case (Cons e es)
  obtain t v where e: "e = (t, v)" by force
  have v: "length v < 255" "t \<noteq> advert_type_psri env" using Cons.prems(1) by (simp_all add: ad_ok_def e)
  let ?c = "of_nat (Suc (length v)) :: u8"
  have c: "unat ?c = Suc (length v)" using v(1) by (intro unat_of_nat_u8) simp
  have c16: "unat (ucast ?c + 1 :: u16) = length v + 2"
  proof -
    have "unat (ucast ?c :: u16) = Suc (length v)" using c v(1) by (simp add: unsigned_ucast_eq take_bit_nat_eq_self)
    then show ?thesis using v(1) by (subst unat_plus_if') simp
  qed
  have "unat (len - (ucast ?c + 1)) = length (ad_elements es)"
    using Cons.prems(2) c16 by (subst unat_sub) (simp_all add: word_le_nat_alt e)
  then have "psri_loop env key ((pre @ ?c # t # v) @ ad_elements es) (length (pre @ ?c # t # v)) (len - (ucast ?c + 1)) = Some False"
    using Cons.prems(1) by (intro Cons.IH) simp_all
  then show ?case
    using v c by (subst psri_loop.simps) (simp add: e nth_append Let_def add.commute [of _ "length pre"] del: psri_loop.simps)
qed

definition types_distinct :: "adv_env \<Rightarrow> bool" where
  "types_distinct env \<longleftrightarrow> advert_type_psri (adv_csis env) \<notin>
     {type_appearance env, type_flag env, type_service_data env, type_manufacturer env, type_name_complete env}"

text \<open>C40: a device that looks for members of a set takes this one for a member exactly when the options include the
  identifier, bit 6, and the hash of its random part is the same for both identity keys; with the same key that is always so.\<close>

theorem advertisement_recognised:
  assumes "\<forall>k m. length (aes_encrypt (adv_csis env) k m) = 16" "build_appends env" "types_distinct env"
  shows "let adv = lehs_gatt_get_adv_data env (r0, r1, r2) 70 st s; prand = ga_lib_csis_generate_prand r0 r1 r2
    in ga_lib_csis_check_if_belongs_to_coordinated_set (adv_csis env) True (of_nat (length adv)) adv key =
       Some (bit (adv_data_options s) 6 \<and>
         ga_lib_csis_calc_hash (adv_csis env) key prand = ga_lib_csis_calc_hash (adv_csis env) (sirk (sirk_data (the_csis s))) prand)"
proof -
  let ?opt = "adv_data_options s"
  let ?prand = "ga_lib_csis_generate_prand r0 r1 r2"
  let ?h = "ga_lib_csis_calc_hash (adv_csis env) (sirk (sirk_data (the_csis s))) ?prand"
  let ?e = "(advert_type_psri (adv_csis env), rev ?h @ rev ?prand)"
  let ?role = "gmap_role (local_gmap (services s))"
  let ?first = "first_element env st ?opt @ chosen_from ?opt 0 (take 6 (adv_data_elems env ?role []))"
  let ?last = "chosen_from ?opt 7 [(type_service_data env, [0x58, 0x18, ?role])]"
  let ?adv = "ad_elements (advertised env (r0, r1, r2) st s)"
  have ok_elems: "list_all (ad_ok (adv_csis env)) (take 6 (adv_data_elems env ?role []))"
    "list_all (ad_ok (adv_csis env)) (first_element env st ?opt)"
    "list_all (ad_ok (adv_csis env)) ?last"
    using assms(3)
    by (auto simp: types_distinct_def ad_ok_def adv_data_elems_def ascs_data_def tmap_data_def b16_def first_element_def device_name_def)
  then have good: "list_all (ad_ok (adv_csis env)) ?first" by (simp add: list_all_chosen)
  have parts: "advertised env (r0, r1, r2) st s = ?first @ (if bit ?opt 6 then [?e] else []) @ ?last"
    by (simp add: advertised_def Let_def adv_data_elems_def ga_lib_csis_generate_psri_def lehs_csis_get_sirk_def numeral_eq_Suc)
  have l: "length ?h = 3" "length ?prand = 3" using assms(1) by (simp_all add: calc_hash_length prand_length)
  have "length ?adv \<le> 61" and got: "lehs_gatt_get_adv_data env (r0, r1, r2) 70 st s = ?adv"
    using advertisement_contents [OF assms(1,2)] by blast+
  then have n: "unat (of_nat (length ?adv) :: u16) = length ?adv" by (intro unat_of_nat_u16) simp
  show ?thesis
  proof (cases "bit ?opt 6")
    case True
    have "?adv = ad_elements ?first @ 7 # advert_type_psri (adv_csis env) # rev ?h @ rev ?prand @ ad_elements ?last"
      using True l by (simp add: parts)
    moreover have "length (ad_elements ?first) + 8 \<le> unat (of_nat (length ?adv) :: u16)"
      unfolding n using True l by (simp add: parts)
    ultimately show ?thesis
      using psri_loop_found [OF good l, of "of_nat (length ?adv)" key "[]" "ad_elements ?last"] True
      by (simp add: got ga_lib_csis_check_if_belongs_to_coordinated_set_def Let_def)
  next
    case False
    then have "list_all (ad_ok (adv_csis env)) (advertised env (r0, r1, r2) st s)"
      using good ok_elems(3) by (simp add: parts)
    from psri_loop_absent [OF this n, of key "[]"] False show ?thesis
      by (simp add: got ga_lib_csis_check_if_belongs_to_coordinated_set_def Let_def)
  qed
qed

section \<open>Examples\<close>

definition example_adv :: adv_env where
  "example_adv = \<lparr>adv_csis = example_csis, type_appearance = 0x19, type_flag = 0x01, type_service_data = 0x16,
     type_manufacturer = 0xFF, type_name_complete = 0x09, discovery_flags = 0x06, uuid_volume_control = 0x1844,
     uuid_broadcast_scan = 0x184F,
     adv_build = (\<lambda>room ctx e. if length ctx + length (snd e) + 2 \<le> room then ctx @ ad_elements [e] else ctx),
     set_params_status = (\<lambda>legacy. WICED_SUCCESS)\<rparr>"

lemma example_adv_ok:
  "\<forall>k m. length (aes_encrypt (adv_csis example_adv) k m) = 16" "build_appends example_adv" "types_distinct example_adv"
  by (simp_all add: example_adv_def example_csis_def build_appends_def types_distinct_def)

theorem advertisement_fits_witness:
  "lehs_gatt_get_adv_data example_adv (1, 2, 3) 70 ADV_STATE_REGULAR_ADV (example_unset []) =
     ad_elements (advertised example_adv (1, 2, 3) ADV_STATE_REGULAR_ADV (example_unset []))"
  using advertisement_fits [OF example_adv_ok(1,2)] by blast

lemma bit_option_6: "bit (0xFFFF :: u16) 6"
  by code_simp

theorem advertisement_recognised_witness:
  "let adv = lehs_gatt_get_adv_data example_adv (1, 2, 3) 70 ADV_STATE_REGULAR_ADV ((example_unset [])\<lparr>adv_data_options := 0xFFFF\<rparr>)
   in ga_lib_csis_check_if_belongs_to_coordinated_set (adv_csis example_adv) True (of_nat (length adv)) adv
        (sirk (sirk_data (the_csis (example_unset [])))) = Some True"
  using advertisement_recognised [OF example_adv_ok, of 1 2 3 ADV_STATE_REGULAR_ADV "(example_unset [])\<lparr>adv_data_options := 0xFFFF\<rparr>"
      "sirk (sirk_data (the_csis (example_unset [])))"]
  by (simp add: Let_def bit_option_6)

end
