(* ===== verification/Program_Props.thy ===== *)
theory Program_Props
  imports Stack_Events Host_Props Advertisement
begin

text \<open>
  The whole program: one invariant of the server, its connections and its bonds through every sequence of events of the stack, of
  timers and of the host, what follows from it, and the values of all characteristics after the start.
\<close>

section \<open>What the client leaves of a block\<close>

text \<open>Everything the server and the streams need; the tables of the peer keep their sizes.\<close>

definition client_step :: "lehs_clcb \<Rightarrow> lehs_clcb \<Rightarrow> bool" where
  "client_step c c' \<longleftrightarrow> in_use c' = in_use c \<and> conn_id c' = conn_id c \<and> conn_bda c' = conn_bda c \<and> cccd_bits c' = cccd_bits c \<and>
     local_ase_data c' = local_ase_data c \<and> (tables_fit (peer_profiles c) \<longrightarrow> tables_fit (peer_profiles c'))"

lemma client_step_refl [simp, intro]: "client_step c c"
  by (simp add: client_step_def)

lemma client_step_trans: "client_step a b \<Longrightarrow> client_step b c \<Longrightarrow> client_step a c"
  by (simp add: client_step_def)

lemma client_step_simps [simp]:
  "client_step c (c'\<lparr>p_op := p\<rparr>) = client_step c c'"
  "client_step c (c'\<lparr>p_discovery_ctx := d\<rparr>) = client_step c c'"
  "client_step c (c'\<lparr>db_hash := h\<rparr>) = client_step c c'"
  "client_step c (c'\<lparr>gmap_data := g\<rparr>) = client_step c c'"
  "client_step c (set_mcs f c') = client_step c c'"
  "client_step c (lehs_set_gatt_state_read_characteristics c') = client_step c c'"
  "client_step c (lehs_set_gatt_state_enabled_notifications c') = client_step c c'"
  "client_step c (lehs_set_gatt_state_discovery_complete c') = client_step c c'"
  "client_step c (lehs_set_gatt_state_mtu_exchanged c') = client_step c c'"
  "client_step c (lehs_gatt_free_discovery_ctx c') = client_step c c'"
  by (simp_all add: client_step_def set_mcs_def lehs_set_gatt_state_read_characteristics_def lehs_gatt_free_discovery_ctx_def
      lehs_set_gatt_state_enabled_notifications_def lehs_set_gatt_state_discovery_complete_def lehs_set_gatt_state_mtu_exchanged_def)

lemma run_operation_step:
  assumes "run_operation cb c r = Some (c', out)" "\<And>cid st d d' acts. cb cid st d = Some (d', acts) \<Longrightarrow> client_step d d'"
  shows "client_step c c'"
  using assms by (auto simp: run_operation_def Let_def bind_eq_Some_conv split: prod.splits option.splits dest!: assms(2))
    (metis client_step_simps(1) client_step_refl client_step_trans)+

lemma read_remote_step [simp]: "client_step c (fst (on_read_remote_cmpl cid st c))"
  by (simp add: on_read_remote_cmpl_def Let_def)

lemma start_operation_step:
  assumes "start_operation env kind mcs tbs cb c = Some (r, c', out)" "\<And>cid st d d' acts. cb cid st d = Some (d', acts) \<Longrightarrow> client_step d d'"
  shows "client_step c c'"
  using assms(1)
  by (auto simp: start_operation_def Let_def bind_eq_Some_conv case_prod_unfold split: option.splits dest!: run_operation_step [OF _ assms(2)])

lemma read_characteristics_step: "lehs_read_remote_characteristics env c = Some (r, c', out) \<Longrightarrow> client_step c c'"
  by (auto simp: lehs_read_remote_characteristics_def elim!: start_operation_step) (metis fst_conv read_remote_step)

lemma enable_cmpl_step: "on_enable_notification_cmpl env cid st c = Some (c', out) \<Longrightarrow> client_step c c'"
  by (auto simp: on_enable_notification_cmpl_def dest!: read_characteristics_step)
    (simp add: client_step_def lehs_set_gatt_state_enabled_notifications_def)

lemma enable_notifications_step: "lehs_enable_app_notifications env c = Some (r, c', out) \<Longrightarrow> client_step c c'"
  by (auto simp: lehs_enable_app_notifications_def elim!: start_operation_step enable_cmpl_step)

lemma discovery_complete_step: "lehs_gatt_handle_discovery_complete env c st = Some (c', out) \<Longrightarrow> client_step c c'"
  by (auto simp: lehs_gatt_handle_discovery_complete_def Let_def bind_eq_Some_conv split: if_splits dest!: enable_notifications_step)
    (simp add: client_step_def lehs_set_gatt_state_discovery_complete_def)

lemma search_step: "search d c = Some (c', out) \<Longrightarrow> client_step c c'"
  by (auto simp: search_def bind_eq_Some_conv)

text \<open>The tables the results are cached in keep their lengths.\<close>

lemma cached_length: "cached sdc hs = Some hs' \<Longrightarrow> length hs' = length hs"
  by (auto simp: cached_def Let_def split: if_splits)

lemma cache_step:
  "lehs_cache_discovery_results_and_cleanup sdc gmcs put_gmcs c = Some c' \<Longrightarrow> client_step c c'"
  "lehs_cache_discovery_results_and_cleanup sdc gtbs put_gtbs c = Some c' \<Longrightarrow> client_step c c'"
  "lehs_cache_discovery_results_and_cleanup sdc tmap put_tmap c = Some c' \<Longrightarrow> client_step c c'"
  by (auto simp: lehs_cache_discovery_results_and_cleanup_def bind_eq_Some_conv client_step_def put_gmcs_def put_gtbs_def put_tmap_def
      tables_fit_def lehs_gatt_free_discovery_ctx_def dest!: cached_length)

text \<open>The blocks of all connections.\<close>

definition blocks_step :: "lehs_clcb list \<Rightarrow> lehs_clcb list \<Rightarrow> bool" where
  "blocks_step bs bs' \<longleftrightarrow> list_all2 client_step bs bs'"

lemma blocks_step_refl [simp, intro]: "blocks_step bs bs"
  by (simp add: blocks_step_def list_all2_refl)

lemma blocks_step_trans: "blocks_step a b \<Longrightarrow> blocks_step b c \<Longrightarrow> blocks_step a c"
  unfolding blocks_step_def by (erule list_all2_trans [rotated]) (blast intro: client_step_trans)+

lemma blocks_step_update: "client_step (bs ! i) c \<Longrightarrow> blocks_step bs (bs[i := c])"
  by (cases "i < length bs") (auto simp: blocks_step_def list_all2_conv_all_nth nth_list_update list_update_beyond)

lemma discovered_step:
  "on_mcs_discovery_complete env sdc cid st bs = Some (bs', out) \<Longrightarrow> blocks_step bs bs'"
  "on_tbs_discovery_complete env sdc cid st bs = Some (bs', out) \<Longrightarrow> blocks_step bs bs'"
  "on_tmap_discovery_complete env sdc cid st bs = Some (bs', out) \<Longrightarrow> blocks_step bs bs'"
  by (auto simp: on_mcs_discovery_complete_def on_tbs_discovery_complete_def on_tmap_discovery_complete_def bind_eq_Some_conv Let_def
      split: option.splits if_splits dest!: cache_step search_step discovery_complete_step
      intro!: blocks_step_update elim: client_step_trans)

lemma on_discovery_step: "on_discovery_complete env sdc cid st bs = Some (bs', out) \<Longrightarrow> blocks_step bs bs'"
  by (auto simp: on_discovery_complete_def split: if_splits dest: discovered_step)

lemma discovery_cplt_step:
  assumes "gatt_discovery_cplt_evt env cid sts bs = Some (bs', out)"
  shows "blocks_step bs bs'"
proof (cases "lehs_gatt_get_clcb_by_conn_id bs cid")
  case (Some i)
  note i = Some
  show ?thesis
  proof (cases "p_discovery_ctx (bs ! i)")
    case (Some sdc)
    obtain sdc' acts where r: "gatt_intf_on_service_discovery_complete (dgatt env) cid sts sdc = (sdc', acts)" by fastforce
    let ?bs = "bs[i := (bs ! i)\<lparr>p_discovery_ctx := Some sdc'\<rparr>]"
    let ?over = "\<lambda>c. case p_discovery_ctx c of None \<Rightarrow> c
       | Some sdc \<Rightarrow> if gatt_intf_is_service_discovery_complete sdc then lehs_gatt_free_discovery_ctx c else c"
    obtain cs more where cs: "(case callback_status acts of None \<Rightarrow> Some (?bs, [])
        | Some (cid, st) \<Rightarrow> on_discovery_complete env sdc' cid st ?bs) = Some (cs, more)"
      and bs': "bs' = cs[i := ?over (cs ! i)]"
      using assms by (auto simp: gatt_discovery_cplt_evt_def Let_def bind_eq_Some_conv i Some r)
    have "blocks_step bs ?bs" by (intro blocks_step_update) simp
    moreover have "blocks_step ?bs cs" using cs by (auto split: option.splits dest: on_discovery_step)
    moreover have "blocks_step cs bs'" unfolding bs' by (intro blocks_step_update) (simp split: option.split)
    ultimately show ?thesis using blocks_step_trans by blast
  qed (use assms i in \<open>simp add: gatt_discovery_cplt_evt_def\<close>)
qed (use assms in \<open>simp add: gatt_discovery_cplt_evt_def\<close>)

lemma media_value_step: "lehs_gmcs_app_handle_read_complete cid c h data = Some (r, c', out) \<Longrightarrow> client_step c c'"
  by (auto simp: lehs_gmcs_app_handle_read_complete_def Let_def bind_eq_Some_conv split: if_splits)

lemma gaming_value_step: "lehs_gmap_app_handle_read_complete c h data = Some c' \<Longrightarrow> client_step c c'"
  by (auto simp: lehs_gmap_app_handle_read_complete_def Let_def bind_eq_Some_conv split: if_splits)

lemma value_step:
  "app_handle_notification_evt cid h data c = Some (c', out) \<Longrightarrow> client_step c c'"
  "app_handle_read_complete cid sts h data c = Some (c', out) \<Longrightarrow> client_step c c'"
  by (auto simp: app_handle_notification_evt_def app_handle_read_complete_def Let_def split: if_splits
      dest: media_value_step gaming_value_step)

lemma operation_value_step: "operation_value start_id mem nv cid op sts h data c = Some (c', out) \<Longrightarrow> client_step c c'"
  by (cases op) (auto simp: operation_value_def Let_def dest: value_step)

lemma op_callback_step: "op_callback env p cid st c = Some (c', out) \<Longrightarrow> client_step c c'"
  by (auto simp: op_callback_def split: operation_kind.splits dest: enable_cmpl_step) (metis fst_conv read_remote_step)

lemma next_operation_step: "next_operation env op sts c = Some (c', out) \<Longrightarrow> client_step c c'"
  by (auto simp: next_operation_def split: if_splits option.splits elim!: run_operation_step op_callback_step)

lemma client_events_step:
  "app_handle_gatt_operation_complete env start_id mem nv cid op sts h data bs = Some (bs', out) \<Longrightarrow> blocks_step bs bs'"
  "gatt_discovery_result_evt env cid r bs = Some bs' \<Longrightarrow> blocks_step bs bs'"
  "gatt_congestion_evt env cid bs = Some (bs', out) \<Longrightarrow> blocks_step bs bs'"
  "lehs_btm_handle_encryption_sts env b bda bs = Some (res, bs', out) \<Longrightarrow> blocks_step bs bs'"
  subgoal by (auto simp: app_handle_gatt_operation_complete_def bind_eq_Some_conv split: option.splits
      intro!: blocks_step_update dest!: operation_value_step next_operation_step elim: client_step_trans)
  subgoal by (auto simp: gatt_discovery_result_evt_def bind_eq_Some_conv split: option.splits intro!: blocks_step_update)
  subgoal by (auto simp: gatt_congestion_evt_def bind_eq_Some_conv split: option.splits
      intro!: blocks_step_update elim!: run_operation_step op_callback_step)
  subgoal by (auto simp: lehs_btm_handle_encryption_sts_def lehs_gatt_start_discovery_def bind_eq_Some_conv Let_def split: if_splits
      intro!: blocks_step_update dest: read_characteristics_step search_step)
  done

section \<open>What the isochronous streams leave\<close>

text \<open>Only the endpoints of a block change, and the driver plays at the same volume.\<close>

definition streams_frame :: "lehs_streams \<Rightarrow> lehs_streams \<Rightarrow> bool" where
  "streams_frame x y \<longleftrightarrow> map (local_ase_data_update (\<lambda>_. [])) (links y) = map (local_ase_data_update (\<lambda>_. [])) (links x) \<and>
     levels (path_audio y) = levels (path_audio x)"

lemma streams_frame_refl [simp, intro]: "streams_frame x x"
  by (simp add: streams_frame_def)

lemma streams_frame_trans: "streams_frame x y \<Longrightarrow> streams_frame y z \<Longrightarrow> streams_frame x z"
  by (simp add: streams_frame_def)

lemma streams_frame_emit [simp]: "streams_frame x (emit acts y) = streams_frame x y"
  by (simp add: streams_frame_def emit_def)

lemma put_block_step: "levels (audio a) = levels (path_audio x) \<Longrightarrow> streams_frame x (put_block b a x)"
  by (cases "b < length (links x)") (simp_all add: streams_frame_def put_block_def map_update list_update_same_conv list_update_beyond)

lemma audio_of_block [simp]: "audio (block_state b x) = path_audio x"
  by (simp add: block_state_def)

lemma audio_of_emits [simp]: "audio (emit_audio acts a) = audio a" "audio (emit_gatt gacts a) = audio a" "audio (upd_ase j f a) = audio a"
  by (simp_all add: emit_audio_def emit_gatt_def upd_ase_def)

lemma notify_audio: "ga_lib_ascs_notify_ase_state env cid j a = Some a' \<Longrightarrow> audio a' = audio a"
  using notify_state_total [of env cid j a] by auto

lemma connected_levels: "levels (audio (cis_connected_ase env h t j a)) = levels (audio a)"
  by (auto simp: cis_connected_ase_def Let_def split: prod.splits dest: setup_cis_levels)

lemma path_ready_audio: "path_ready_ase env cid j a = Some a' \<Longrightarrow> audio a' = audio a"
  by (auto simp: path_ready_ase_def Let_def split: if_splits dest!: notify_audio)

lemma cis_lost_audio: "cis_lost_ase env cid j a = Some a' \<Longrightarrow> audio a' = audio a"
  by (auto simp: cis_lost_ase_def Let_def split: if_splits dest!: notify_audio)

lemma cis_connection_step: "streams_frame x (lehs_cis_handle_connection env p t x)"
  by (auto simp: lehs_cis_handle_connection_def connected_levels intro!: put_block_step split: option.splits)

lemma cis_disconnection_step: "lehs_cis_handle_disconnection env cig cis t x = Some y \<Longrightarrow> streams_frame x y"
  by (auto simp: lehs_cis_handle_disconnection_def bind_eq_Some_conv intro!: put_block_step split: option.splits
      dest!: cis_lost_audio)

lemma path_setup_step: "lehs_cis_handle_data_path_setup env h p x = Some y \<Longrightarrow> streams_frame x y"
  by (auto simp: lehs_cis_handle_data_path_setup_def bind_eq_Some_conv intro!: put_block_step split: option.splits prod.splits
      dest!: path_ready_audio)

lemma conn_on_ase_step: "streams_frame x (snd (set_conn_on_ase_id p t x))"
  by (auto simp: set_conn_on_ase_id_def intro!: put_block_step split: option.splits)

lemma isoc_event_step: "lehs_isoc_event_handler env created ev x = Some y \<Longrightarrow> streams_frame x y"
  by (cases ev) (auto simp: conn_on_ase_step bind_eq_Some_conv split: if_splits
      intro: streams_frame_trans [OF cis_connection_step cis_connection_step] path_setup_step
      dest!: cis_disconnection_step elim: streams_frame_trans)

section \<open>What the broadcast sink leaves\<close>

lemma besides_create [simp]: "besides (broadcast_sink_create_periodic_sync env r s) = besides s"
  by (auto simp: broadcast_sink_create_periodic_sync_def start_periodic_sync_def lehs_broadcast_set_sync_progress_def
      emit_bis_def besides_def besides_audio_def split: option.splits list.splits)

lemma create_sync_ok [simp]: "broadcast_ok (broadcast_sink_create_periodic_sync env r s) = broadcast_ok s"
  by (auto simp: broadcast_sink_create_periodic_sync_def start_periodic_sync_effect queue_effect scan_off_effect
      split: option.splits list.splits)

text \<open>The two events that may ask the controller for a synchronisation.\<close>

definition sink_step :: "server_state \<Rightarrow> server_state \<Rightarrow> bool" where
  "sink_step s t \<longleftrightarrow> (broadcast_ok s \<longrightarrow> broadcast_ok t) \<and> besides t = besides s"

lemma sink_step_refl [simp, intro]: "sink_step s s"
  by (simp add: sink_step_def)

lemma sink_step_trans: "sink_step s t \<Longrightarrow> sink_step t u \<Longrightarrow> sink_step s u"
  by (simp add: sink_step_def)

lemma sink_step_follows: "follows s t \<Longrightarrow> sink_step s t"
  by (simp add: follows_def sink_step_def)

lemma sink_step_emit [simp]: "sink_step s (emit_bis acts t) = sink_step s t"
  by (simp add: sink_step_def emit_bis_def broadcast_ok_def besides_def besides_audio_def)

lemma sink_step_create: "sink_step s (broadcast_sink_create_periodic_sync env r t) = sink_step s t"
  by (simp add: sink_step_def)

lemma sink_step_progress: "sink_step s (lehs_broadcast_set_sync_progress b t) = sink_step s t"
  by (simp add: sink_step_def lehs_broadcast_set_sync_progress_def besides_def besides_audio_def broadcast_ok_def)

lemma established_step: "periodic_sync_established env e s = Some t \<Longrightarrow> sink_step s t"
proof -
  assume t: "periodic_sync_established env e s = Some t"
  from t obtain p u v where u: "broadcast_sink_handle_periodic_sync_established_event env e s = Some (p, u)"
    and v: "lehs_bass_notify_pa_sync_state env p (if pa_status e \<noteq> 0 then GA_LIB_BASS_PA_FAILED_SYNC else GA_LIB_BASS_PA_SYNC)
        (if pa_status e = 0 then emit_bis [PADV_ALLOC_SEGMENT_ASSEMBLER (pa_sync_handle e) 255] u else u) = Some v"
    and t: "\<exists>r. t = broadcast_sink_create_periodic_sync env r
        (emit_bis [PADV_REMOVE_DEVICE (pa_addr_type e) (pa_bda e) (pa_adv_sid e)] (lehs_broadcast_set_sync_progress False v))"
    by (auto simp: periodic_sync_established_def Let_def bind_eq_Some_conv)
  have "sink_step s u" using u by (intro sink_step_follows sync_established_follows)
  moreover have "sink_step u (if pa_status e = 0 then emit_bis [PADV_ALLOC_SEGMENT_ASSEMBLER (pa_sync_handle e) 255] u else u)"
    by simp
  moreover have "sink_step (if pa_status e = 0 then emit_bis [PADV_ALLOC_SEGMENT_ASSEMBLER (pa_sync_handle e) 255] u else u) v"
    using v by (intro sink_step_follows notify_pa_follows [OF v]) simp
  ultimately have "sink_step s v" using sink_step_trans by blast
  with t show ?thesis by (auto simp: sink_step_create sink_step_progress)
qed

lemma sync_to_found_step: "sink_step s (sync_to_found env br_id r s)"
proof -
  obtain p u where u: "lehs_bis_alloc_big br_id (scan_bda r) (scan_adv_sid r) s = (p, u)" by fastforce
  then have b: "sink_step s u" using alloc_big_follows sink_step_follows by blast
  have "sink_step s (upd_big b (\<lambda>g. g\<lparr>pa_sync_in_progress := True\<rparr>) u)" for b
    by (rule sink_step_trans [OF b]) (intro sink_step_follows follows_upd_big [OF _ follows_refl], simp add: sink_ok_def)
  with u b show ?thesis by (auto simp: sync_to_found_def Let_def sink_step_create split: option.splits)
qed

lemma sync_scan_step: "broadcast_sink_bis_ext_adv_scan_to_sync_cback env junk r m data s = Some t \<Longrightarrow> sink_step s t"
  by (auto simp: broadcast_sink_bis_ext_adv_scan_to_sync_cback_def bind_eq_Some_conv sync_to_found_step
      split: option.split_asm if_split_asm)

lemma adv_event_step: "lehs_ext_adv_cback env ev s = Some t \<Longrightarrow> sink_step s t"
proof (cases "follows s t")
  case False
  assume *: "lehs_ext_adv_cback env ev s = Some t"
  with False obtain e where "ev = PADV_SYNC_ESTABLISHED_EVENT e"
    by (cases ev) (auto simp: lehs_ext_adv_cback_def bind_eq_Some_conv sink_ok_def split: if_splits option.splits
        dest!: transfer_param_follows transfer_follows padv_report_follows big_adv_report_follows notify_pa_follows lost_follows
        intro!: follows_intros elim!: notE [of "follows s t"] intro: follows_trans)
  with * show ?thesis by (simp add: lehs_ext_adv_cback_def established_step)
qed (simp add: sink_step_follows)

section \<open>The invariant of the program\<close>

text \<open>
  Besides what requests keep: the pool of the control blocks, no two of which have the same address, with the states of the
  endpoints also of blocks that are free, which the search for an endpoint looks at too.
\<close>

definition pool_ok :: "lehs_clcb list \<Rightarrow> bool" where
  "pool_ok bs \<longleftrightarrow> clcbs_ok bs \<and> length bs = LEHS_MAX_CONNECTIONS \<and> list_all block_ok bs"

definition program_ok :: "server_state \<Rightarrow> bool" where
  "program_ok s \<longleftrightarrow> server_ok s \<and> pool_ok (server_clcbs s)"

lemma clcbs_ok_links:
  assumes "map (\<lambda>c. (in_use c, conn_bda c)) ds = map (\<lambda>c. (in_use c, conn_bda c)) cs"
  shows "clcbs_ok ds = clcbs_ok cs"
proof -
  have *: "clcbs_ok cs \<longleftrightarrow> (\<forall>i<length xs. \<forall>j<length xs. fst (xs ! i) \<and> fst (xs ! j) \<and> snd (xs ! i) = snd (xs ! j) \<longrightarrow> i = j)"
    if "xs = map (\<lambda>c. (in_use c, conn_bda c)) cs" for xs cs
    by (simp add: clcbs_ok_def that)
  from * [OF refl, of ds] * [OF refl, of cs] assms show ?thesis by simp
qed

lemma link_of_pairs: "map link_of ds = map link_of cs \<Longrightarrow> map (\<lambda>c. (in_use c, conn_bda c)) ds = map (\<lambda>c. (in_use c, conn_bda c)) cs"
proof -
  assume "map link_of ds = map link_of cs"
  then have "map (\<lambda>l. (fst l, fst (snd (snd l)))) (map link_of ds) = map (\<lambda>l. (fst l, fst (snd (snd l)))) (map link_of cs)" by simp
  then show ?thesis by (simp add: link_of_def comp_def)
qed

lemma link_block_ok: "link_ok c \<Longrightarrow> in_use c \<Longrightarrow> block_ok c"
  by (simp add: link_ok_def block_ok_def ase_table_ok_def)

text \<open>What the requests and the commands keep is enough.\<close>

lemma keeps_program:
  assumes "keeps i s t" "program_ok s" "i < length (server_clcbs s) \<Longrightarrow> in_use (server_clcbs s ! i)"
  shows "program_ok t"
proof -
  let ?s = "server_clcbs s" and ?t = "server_clcbs t"
  have ok: "server_ok t" and links: "map link_of ?t = map link_of ?s" and same: "\<And>j. j \<noteq> i \<Longrightarrow> ?t ! j = ?s ! j"
    using assms(1,2) by (auto simp: keeps_def program_ok_def)
  have n: "length ?t = length ?s" using links by (metis length_map)
  have "block_ok (?t ! j)" if j: "j < length ?t" for j
  proof (cases "j = i")
    case True
    have "link_of (?t ! i) = link_of (?s ! i)" using links n j True by (metis nth_map)
    then have "in_use (?t ! i)" using assms(3) n j True by (simp add: link_of_def)
    moreover have "link_ok (?t ! i)" using ok j True by (simp add: server_ok_def list_all_length)
    ultimately show ?thesis using link_block_ok True by simp
  qed (use same assms(2) n j in \<open>simp add: program_ok_def pool_ok_def list_all_length\<close>)
  then show ?thesis
    using ok assms(2) n clcbs_ok_links [OF link_of_pairs [OF links]] by (simp add: program_ok_def pool_ok_def list_all_length)
qed

text \<open>A step that touches no block.\<close>

lemma keeps_all_program:
  assumes "\<And>i. keeps i s t" "program_ok s"
  shows "program_ok t"
  by (rule keeps_program [OF assms(1) assms(2), of "length (server_clcbs s)"]) simp

lemma sink_step_keeps: "sink_step s t \<Longrightarrow> keeps i s t"
  using besides_views [of t s] volume_ok_view [of t s] has_ok_view [of t s]
  by (auto simp: keeps_def server_ok_def sink_step_def link_view_def set_view_def)

lemma sink_step_program: "sink_step s t \<Longrightarrow> program_ok s \<Longrightarrow> program_ok t"
  by (blast intro: keeps_all_program sink_step_keeps)

text \<open>Everything but the blocks.\<close>

definition server_rest_ok :: "server_state \<Rightarrow> bool" where
  "server_rest_ok s \<longleftrightarrow> volume_ok s \<and> has_ok s \<and> broadcast_ok s \<and> set_ok (the_csis s) \<and> length (db_hash_value s) = 16 \<and>
     lists_ok (pacs_app_data s)"

lemma program_parts:
  "program_ok s \<longleftrightarrow> server_rest_ok s \<and> list_all link_ok (server_clcbs s) \<and> nvram_ok (server_nvram s) \<and> pool_ok (server_clcbs s)"
  by (auto simp: program_ok_def server_ok_def server_rest_ok_def)

lemma rest_ok_simps [simp]:
  "server_rest_ok (emit_server acts s) = server_rest_ok s"
  "server_rest_ok (s\<lparr>server_clcbs := bs\<rparr>) = server_rest_ok s"
  "server_rest_ok (s\<lparr>server_nvram := nv\<rparr>) = server_rest_ok s"
  "server_rest_ok (s\<lparr>server_adv_state := st\<rparr>) = server_rest_ok s"
  "server_rest_ok (s\<lparr>server_do_swift_pair := sp\<rparr>) = server_rest_ok s"
  by (simp_all add: server_rest_ok_def volume_ok_def has_ok_def broadcast_ok_def bass_data_def)

lemma rest_ok_audio: "levels a = levels (server_audio s) \<Longrightarrow> server_rest_ok (s\<lparr>server_audio := a\<rparr>) = server_rest_ok s"
  by (simp add: server_rest_ok_def volume_ok_def has_ok_def broadcast_ok_def bass_data_def levels_def)

subsection \<open>Events of the client\<close>

lemma blocks_step_program:
  assumes "blocks_step (server_clcbs s) bs" "program_ok s"
  shows "program_ok (s\<lparr>server_clcbs := bs\<rparr>)"
proof -
  have n: "length bs = length (server_clcbs s)" and st: "\<And>i. i < length bs \<Longrightarrow> client_step (server_clcbs s ! i) (bs ! i)"
    using assms(1) by (auto simp: blocks_step_def list_all2_conv_all_nth)
  have "map (\<lambda>c. (in_use c, conn_bda c)) bs = map (\<lambda>c. (in_use c, conn_bda c)) (server_clcbs s)"
    using st n by (auto simp: client_step_def intro: nth_equalityI)
  from clcbs_ok_links [OF this] assms(2) n st show ?thesis
    by (auto simp: program_parts pool_ok_def list_all_length link_ok_def block_ok_def client_step_def cccd_ok_def)
qed

lemma on_blocks_program:
  assumes "on_blocks f s = Some t" "program_ok s" "\<And>bs acts. f (server_clcbs s) = Some (bs, acts) \<Longrightarrow> blocks_step (server_clcbs s) bs"
  shows "program_ok t"
proof -
  obtain bs acts where "f (server_clcbs s) = Some (bs, acts)" "t = emit_server (map CLIENT acts) (s\<lparr>server_clcbs := bs\<rparr>)"
    using assms(1) by (auto simp: on_blocks_def bind_eq_Some_conv split: if_splits)
  with assms(3) blocks_step_program [OF _ assms(2)] show ?thesis by (simp add: program_parts)
qed

subsection \<open>Isochronous events\<close>

lemma streams_program:
  assumes "lehs_isoc_event_handler env created ev (streams_view s) = Some y" "program_ok s"
  shows "program_ok (put_streams y s)"
proof -
  have kept: "streams_kept (streams_view s) y"
    using isoc_event_result [of env created ev "streams_view s"] assms(1) by auto
  have fr: "streams_frame (streams_view s) y" using isoc_event_step [OF assms(1)] .
  let ?s = "server_clcbs s"
  have m: "map (local_ase_data_update (\<lambda>_. [])) (links y) = map (local_ase_data_update (\<lambda>_. [])) ?s"
    and lev: "levels (path_audio y) = levels (server_audio s)"
    using fr by (simp_all add: streams_frame_def streams_view_def)
  have n: "length (links y) = length ?s" using map_eq_imp_length_eq [OF m] .
  have eq: "local_ase_data_update (\<lambda>_. []) (links y ! i) = local_ase_data_update (\<lambda>_. []) (?s ! i)" if "i < length ?s" for i
    using m n that by (metis nth_map)
  have same: "in_use (links y ! i) = in_use (?s ! i)" "conn_bda (links y ! i) = conn_bda (?s ! i)"
    "cccd_bits (links y ! i) = cccd_bits (?s ! i)" "peer_profiles (links y ! i) = peer_profiles (?s ! i)" if "i < length ?s" for i
    using arg_cong [OF eq [OF that], of in_use] arg_cong [OF eq [OF that], of conn_bda] arg_cong [OF eq [OF that], of cccd_bits]
      arg_cong [OF eq [OF that], of peer_profiles] by simp_all
  have blocks: "list_all block_ok (links y)"
    using kept assms(2) by (simp add: streams_kept_def streams_view_def program_parts pool_ok_def)
  have "map (\<lambda>c. (in_use c, conn_bda c)) (links y) = map (\<lambda>c. (in_use c, conn_bda c)) ?s"
    using same n by (auto intro: nth_equalityI)
  from clcbs_ok_links [OF this] assms(2) n same blocks show ?thesis
    by (auto simp: put_streams_def program_parts pool_ok_def rest_ok_audio lev list_all_length link_ok_def cccd_ok_def block_ok_def)
qed

subsection \<open>Connections and keys\<close>

lemma program_links_ok: "program_ok s \<Longrightarrow> lehs_state_ok (links_view s)"
  by (auto simp: program_parts pool_ok_def lehs_state_ok_def links_view_def nvram_ok_def bond_ok_def link_ok_def list_all_length)

text \<open>The tables of the handles of the peers, in the blocks and in the bonds.\<close>

definition tables_of :: "lehs_state \<Rightarrow> bool" where
  "tables_of l \<longleftrightarrow> list_all (\<lambda>c. in_use c \<longrightarrow> tables_fit (peer_profiles c)) (clcbs l) \<and>
     list_all (\<lambda>e. tables_fit (stored_peer_profiles e)) (nvram l) \<and> list_all (\<lambda>c. list_all ase_state_ok (local_ase_data c)) (clcbs l)"

lemma program_tables: "program_ok s \<Longrightarrow> tables_of (links_view s)"
  by (auto simp: program_parts pool_ok_def tables_of_def links_view_def nvram_ok_def bond_ok_def link_ok_def block_ok_def list_all_length)

lemma put_links_program:
  assumes "program_ok s" "lehs_state_ok l" "tables_of l"
  shows "program_ok (put_links l s)"
  using assms
  by (auto simp: program_parts pool_ok_def put_links_def lehs_state_ok_def tables_of_def nvram_ok_def bond_ok_def link_ok_def
      block_ok_def list_all_length)

lemma on_links_program:
  assumes "on_links f s = Some t" "program_ok s"
    "\<And>l acts. f (links_view s) = Some (l, acts) \<Longrightarrow> lehs_state_ok l \<and> tables_of l"
  shows "program_ok t"
proof -
  obtain l acts where f: "f (links_view s) = Some (l, acts)" and t: "t = emit_connection acts (put_links l s)"
    using assms(1) by (auto simp: on_links_def bind_eq_Some_conv)
  from put_links_program [OF assms(2)] assms(3) [OF f] have "program_ok (put_links l s)" by blast
  then show ?thesis by (simp add: t emit_connection_def program_parts)
qed

lemma fresh_tables [simp]: "tables_fit (peer_profiles (fresh_clcb k a c b))"
  by (simp add: fresh_clcb_def lehs_set_gatt_state_connection_sts_def zero_clcb_def zero_peer_profiles_def tables_fit_def)

lemma zero_block_states: "list_all ase_state_ok (local_ase_data zero_clcb)"
  by (simp add: zero_clcb_def list_all_length ase_state_ok_def zero_ase_data_def zero_ase_def)

lemma connection_tables:
  assumes "lehs_gatt_handle_connection acl start_id p l0 = Some (l, acts)" "tables_of l0"
  shows "tables_of l"
proof -
  obtain i where al: "lehs_gatt_alloc_cb (cs_bd_addr p) (cs_addr_type p) (cs_conn_id p) (cs_central p) (clcbs l0) =
      (i, (clcbs l0)[i := fresh_clcb (cs_bd_addr p) (cs_addr_type p) (cs_conn_id p) (cs_central p)])"
    by (cases "find_index (\<lambda>c. \<not> in_use c) (clcbs l0)") (auto simp: lehs_gatt_alloc_cb_def list_update_beyond)
  let ?c = "snd (lehs_read_device_from_nvram start_id (nvram l0)
      ((fresh_clcb (cs_bd_addr p) (cs_addr_type p) (cs_conn_id p) (cs_central p))\<lparr>local_ase_data := lehs_init_local_ase_data (acl (cs_conn_id p))\<rparr>))"
  have l: "l = l0\<lparr>clcbs := (clcbs l0)[i := ?c]\<rparr>"
    using assms(1) unfolding lehs_gatt_handle_connection_def al
    by (auto simp: arr_get_def arr_set_def Let_def bind_eq_Some_conv split_beta split: if_splits)
  have "tables_fit (peer_profiles ?c)"
    using assms(2) by (auto simp: lehs_read_device_from_nvram_def tables_of_def list_all_length dest!: get_paired_iff split: option.splits)
  moreover have "list_all ase_state_ok (local_ase_data ?c)"
    using init_table_ok [of "acl (cs_conn_id p)"] by (simp add: ase_table_ok_def)
  ultimately show ?thesis using assms(2) by (auto simp: l tables_of_def intro!: list_all_update)
qed

lemma disconnection_tables:
  assumes "lehs_gatt_handle_disconnection start_id p l0 = Some (l, acts)" "tables_of l0"
  shows "tables_of l"
proof -
  note st = handle_disconnection_state [OF assms(1)]
  show ?thesis
  proof (cases rule: free_cb_cases [of "clcbs l0" "cs_bd_addr p"])
    case none
    with st assms(2) show ?thesis by (simp add: tables_of_def)
  next
    case (some i)
    then have i: "i < length (clcbs l0)" "in_use (clcbs l0 ! i)" using get_clcb_in_use by blast+
    then have "tables_fit (peer_profiles (clcbs l0 ! i))" using assms(2) by (auto simp: tables_of_def list_all_length)
    then have "list_all (\<lambda>e. tables_fit (stored_peer_profiles e)) (fst (lehs_save_device_data_to_nvram start_id (clcbs l0 ! i) (nvram l0)))"
      using assms(2) by (auto simp: tables_of_def lehs_save_device_data_to_nvram_def intro!: list_all_update split: option.splits)
    then show ?thesis
      using st some assms(2) zero_block_states by (auto simp: tables_of_def zero_clcb_def intro!: list_all_update)
  qed
qed

lemma write_keys_tables:
  assumes "lehs_nvram_write_keys start_id k nv = Some (x, nv', acts)" "list_all (\<lambda>e. tables_fit (stored_peer_profiles e)) nv"
  shows "list_all (\<lambda>e. tables_fit (stored_peer_profiles e)) nv'"
  using assms
  by (auto simp: lehs_nvram_write_keys_def lehs_nvram_allocate_paired_device_key_info_def Let_def arr_get_def arr_set_def
      list_all_length nth_list_update bind_eq_Some_conv dest!: get_paired_iff split: option.splits if_splits)

lemma key_update_tables:
  assumes "lehs_btm_handle_key_update_event start_id k l0 = Some (l, acts)" "tables_of l0"
  shows "tables_of l"
proof -
  obtain x nv where nv: "lehs_nvram_write_keys start_id k (nvram l0) = Some (x, nv, acts)"
    and l: "l = l0\<lparr>clcbs := (case lehs_gatt_get_clcb (clcbs l0) (conn_addr k) of None \<Rightarrow> clcbs l0
       | Some i \<Rightarrow> (clcbs l0)[i := (clcbs l0 ! i)\<lparr>identity_bd_address := bd_addr k\<rparr>]), nvram := nv\<rparr>"
    using assms(1) by (auto simp: lehs_btm_handle_key_update_event_def bind_eq_Some_conv Let_def)
  show ?thesis
    using assms(2) write_keys_tables [OF nv] by (auto simp: l tables_of_def list_all_length nth_list_update dest!: get_clcb_in_use split: option.splits if_splits)
qed

subsection \<open>One event\<close>

text \<open>
  What is taken for granted of an event: a new connection has an address that is not connected, the stack is enabled once, and the
  host gives the set a size and a rank.
\<close>

fun event_sensible :: "stack_env \<Rightarrow> program_event \<Rightarrow> server_state \<Rightarrow> bool" where
  "event_sensible env (STACK_GATT (GATT_CONNECTION_STATUS_EVT up p)) s \<longleftrightarrow>
     \<not> up \<or> lehs_gatt_get_clcb (server_clcbs s) (cs_bd_addr p) = None"
| "event_sensible env (STACK_BTM BTM_ENABLED_EVT) s \<longleftrightarrow> False"
| "event_sensible env (HOST_PACKET xs) s \<longleftrightarrow> packet_sensible (stack_host env) xs"
| "event_sensible env _ s \<longleftrightarrow> True"

lemma acl_disconnection_program: "program_ok s \<Longrightarrow> program_ok (lehs_bass_handle_acl_disconnection cid s)"
  by (rule sink_step_program) (auto intro!: sink_step_follows follows_intros)

lemma connection_status_program:
  assumes "connection_status_event env up p s = Some t" "program_ok s"
    "up \<Longrightarrow> lehs_gatt_get_clcb (server_clcbs s) (cs_bd_addr p) = None"
  shows "program_ok t"
proof (cases up)
  case True
  show ?thesis
  proof (rule on_links_program)
    show "on_links (lehs_gatt_handle_connection (acl_handle env) (id_start env) p) s = Some t"
      using assms(1) True by (simp add: connection_status_event_def)
    fix l acts
    assume l: "lehs_gatt_handle_connection (acl_handle env) (id_start env) p (links_view s) = Some (l, acts)"
    show "lehs_state_ok l \<and> tables_of l"
      using handle_connection_ok [OF program_links_ok [OF assms(2)] _ l] connection_tables [OF l program_tables [OF assms(2)]]
        assms(3) [OF True] by (simp add: links_view_def)
  qed (rule assms(2))
next
  case False
  obtain u where u: "on_links (lehs_gatt_handle_disconnection (id_start env) p) s = Some u"
    and t: "t = u \<or> (\<exists>cid. t = lehs_bass_handle_acl_disconnection cid u)"
    using assms(1) False by (auto simp: connection_status_event_def split: option.splits)
  have "program_ok u"
    using handle_disconnection_ok [OF program_links_ok [OF assms(2)]] disconnection_tables [OF _ program_tables [OF assms(2)]]
    by (intro on_links_program [OF u assms(2)]) blast
  with t acl_disconnection_program show ?thesis by blast
qed

lemma request_program:
  assumes "gatt_attribute_request_event env cid req s = Some (r, t)" "program_ok s"
  shows "program_ok t"
proof (cases "lehs_gatt_get_clcb_by_conn_id (server_clcbs s) cid")
  case None
  with request_event_keeps [OF assms(1)] assms(2) show ?thesis by (auto simp: program_parts)
next
  case (Some i)
  then have "in_use (server_clcbs s ! i)" by (auto simp: lehs_gatt_get_clcb_by_conn_id_def dest: find_index_Some)
  with Some request_event_keeps [OF assms(1)] assms(2) show ?thesis by (auto intro: keeps_program)
qed

lemma gatt_event_program:
  assumes "lehs_gatt_cback env ev s = Some t" "program_ok s" "event_sensible env (STACK_GATT ev) s"
  shows "program_ok t"
proof (cases ev)
  case (GATT_CONNECTION_STATUS_EVT up p)
  with assms show ?thesis by (auto elim: connection_status_program)
next
  case (GATT_ATTRIBUTE_REQUEST_EVT cid req)
  with assms show ?thesis by (auto intro: request_program)
qed (use assms in \<open>auto elim!: on_blocks_program dest: client_events_step discovery_cplt_step\<close>)

lemma frames_program: "emit_frames fs s = Some t \<Longrightarrow> program_ok s \<Longrightarrow> program_ok t"
  by (auto simp: emit_frames_def program_parts)

lemma id_keys_program [simp]: "program_ok (s\<lparr>local_id_keys := k\<rparr>) = program_ok s"
  by (simp add: program_parts server_rest_ok_def volume_ok_def has_ok_def broadcast_ok_def bass_data_def)

lemma btm_event_program:
  assumes "lehs_btm_cback env ev s = Some (r, reply, t)" "program_ok s" "ev \<noteq> BTM_ENABLED_EVT"
  shows "program_ok t"
proof (cases ev)
  case (BTM_PAIRED_DEVICE_LINK_KEYS_UPDATE_EVT keys)
  then have "on_links (lehs_btm_handle_key_update_event (id_start env) keys) s = Some t" using assms(1) by auto
  then show ?thesis
    using key_update_ok [OF program_links_ok [OF assms(2)]] key_update_tables [OF _ program_tables [OF assms(2)]] assms(2)
    by (auto intro: on_links_program)
next
  case (BTM_ENCRYPTION_STATUS_EVT ok_sts bda)
  with assms show ?thesis by (auto simp: bind_eq_Some_conv elim!: on_blocks_program dest: client_events_step)
next
  case (BTM_PAIRING_COMPLETE_EVT le ok_sts bda)
  with assms(1,2) show ?thesis
    by (auto simp: lehs_btm_handle_pairing_complete_def bind_eq_Some_conv Let_def split: if_splits option.splits
        dest!: frames_program)
next
  case (BTM_LOCAL_IDENTITY_KEYS_UPDATE_EVT k)
  with assms(1,2) show ?thesis by (auto simp: app_handle_irk_update_evt_def dest!: frames_program)
qed (use assms in \<open>auto simp: lehs_btm_handle_key_request_event_def split: prod.splits\<close>)

lemma lock_timer_program: "program_ok s \<Longrightarrow> program_ok (csis_lock_timer_timeout env s)"
proof (erule keeps_all_program [rotated])
  show "keeps i s (csis_lock_timer_timeout env s)" for i
    by (rule keeps_set) (simp_all add: csis_lock_timer_timeout_def ga_lib_csis_notify_lock_def server_notify_state Let_def set_ok_def)
qed

lemma step_program:
  assumes "program_step env ev s = Some t" "program_ok s" "event_sensible env ev s"
  shows "program_ok t"
proof (cases ev)
  case (STACK_GATT e)
  with assms show ?thesis by (auto intro: gatt_event_program)
next
  case (STACK_BTM e)
  with assms show ?thesis by (cases "e = BTM_ENABLED_EVT") (auto intro: btm_event_program)
next
  case (HOST_PACKET xs)
  with assms(1) obtain r where "app_rpc_rx_callback (stack_host env) xs s = Some (r, t)" by auto
  with packet_keeps [OF this] assms(2,3) HOST_PACKET show ?thesis by (auto intro: keeps_all_program)
next
  case (STACK_CIS e)
  with assms show ?thesis by (auto intro: streams_program)
next
  case (STACK_BIG e)
  with assms(1) have "sink_step s t" by (simp add: sink_step_follows isoc_follows)
  then show ?thesis using assms(2) by (rule sink_step_program)
next
  case (STACK_ADV e)
  with assms(1) have "sink_step s t" by (simp add: adv_event_step)
  then show ?thesis using assms(2) by (rule sink_step_program)
next
  case (STACK_SCAN cback r n data)
  with assms(1) have "sink_step s t"
    by (cases cback) (simp_all add: ext_scan_result_def sync_scan_step sink_step_follows scan_follows)
  then show ?thesis using assms(2) by (rule sink_step_program)
next
  case LOCK_TIMER
  with assms(1) have "t = csis_lock_timer_timeout (env_gatt (stack_server env)) s" by simp
  with lock_timer_program [OF assms(2)] show ?thesis by simp
qed

section \<open>From the start on\<close>

definition answers_well :: "stack_env \<Rightarrow> bool" where
  "answers_well env \<longleftrightarrow> db_init_result env = GATT_SUCCESS \<and> register_result env = GATT_SUCCESS \<and> length (stack_db_hash env) = 16"

inductive program_reachable :: "server_state \<Rightarrow> bool" where
  start: "answers_well env \<Longrightarrow> program_reachable (program_start env a lc3 n)"
| event: "program_reachable s \<Longrightarrow> event_sensible env ev s \<Longrightarrow> program_step env ev s = Some t \<Longrightarrow> program_reachable t"

lemma start_parts:
  assumes "answers_well env"
  shows "volume_view (program_start env a lc3 n) = ((100, 0), \<lparr>vcs_state = \<lparr>volume_setting = 100, vcs_mute_state = 0, vcs_change_counter = 0\<rparr>,
      vcs_flag = 1\<rparr>, local_vocs zero_service_data, [aics_initial])"
    "set_view (program_start env a lc3 n) = (\<lparr>sirk_data = \<lparr>sirk = lehs_app_sirk_value, sirk_type = 1, is_oob = False\<rparr>, csis_size = 1, csis_rank = 1,
      conn_id_of_lock_owner = 0, csis_lock = 1, lock_timer_on = False\<rparr>, zero_gmap_data, lehs_has_data_initial)"
    "has_global (program_start env a lc3 n) = lehs_has_data_initial"
    "broadcast_view (program_start env a lc3 n) = (replicate LEHS_MAX_BIG zero_big, replicate LEHS_BROADCAST_RCV_STATE_MAX zero_bass_data)"
    "link_view (program_start env a lc3 n) = (replicate LEHS_MAX_CONNECTIONS zero_clcb, lehs_set_audio_location 3 (g_lehs_pacs_app_data lc3),
      lehs_nvram_init, stack_db_hash env)"
  using assms
  by (simp_all add: answers_well_def program_start_def lehs_app_init_def application_start_def program_memory_def lehs_gatt_init_def Let_def
      view_defs levels_def lehs_mics_initialize_data_def lehs_has_initialize_data_def lehs_vcs_initialize_data_def
      lehs_csis_initialize_data_def lehs_csis_set_lock_timeout_def set_csis_def set_vcs_state_def set_aics_def set_mics_mute_def
      zero_service_data_def audio_driver_set_volume_def audio_driver_set_mute_state_def)

lemma start_program: "answers_well env \<Longrightarrow> program_ok (program_start env a lc3 n)"
proof -
  assume ok: "answers_well env"
  note parts = start_parts [OF ok, of a lc3 n]
  let ?s = "program_start env a lc3 n"
  have blocks: "server_clcbs ?s = replicate LEHS_MAX_CONNECTIONS zero_clcb" "nvram_ok (server_nvram ?s)"
    using parts(5) by (simp_all add: view_defs init_nvram_ok)
  have "server_rest_ok ?s"
    using parts ok
    by (auto simp: server_rest_ok_def view_defs volume_ok_def has_ok_def broadcast_ok_def bass_data_def levels_def zero_service_data_def
        lehs_has_data_initial_def GA_LIB_HAS_FEATURES_def aics_initial_def lists_ok_def lehs_set_audio_location_def set_ok_def
        app_sirk_length answers_well_def)
  moreover have "\<not> in_use zero_clcb" by (simp add: zero_clcb_def)
  ultimately show ?thesis
    using blocks zero_block_states by (auto simp: program_parts pool_ok_def clcbs_ok_def link_ok_def block_ok_def list_all_length)
qed

lemma reachable_program: "program_reachable s \<Longrightarrow> program_ok s"
  by (induction rule: program_reachable.induct) (auto intro: start_program step_program)

text \<open>C1: Whatever the stack, the timers and the host bring, in any order and however often, with connections that come and go: no two
  control blocks have the same address, each that is in use has its client configurations, its endpoints in a legal state and its
  tables of handles, the bonds keep their form, the driver plays at the volume and the mute state the service shows, the receive
  states and the sink keep theirs, and the lock of the set is never held.\<close>

theorem program_invariant:
  assumes "program_reachable s"
  shows "program_ok s \<and> levels (server_audio s) = (volume_setting (the_vcs s), vcs_mute_state (the_vcs s)) \<and>
    (lehs_gatt_get_clcb (server_clcbs s) bda = Some i \<longleftrightarrow>
       i < LEHS_MAX_CONNECTIONS \<and> in_use (server_clcbs s ! i) \<and> conn_bda (server_clcbs s ! i) = bda)"
proof -
  have p: "program_ok s" using assms by (rule reachable_program)
  then have "clcbs_ok (server_clcbs s)" "length (server_clcbs s) = LEHS_MAX_CONNECTIONS" "volume_ok s"
    by (simp_all add: program_ok_def pool_ok_def server_ok_def)
  then show ?thesis using p get_clcb_iff [of "server_clcbs s" bda i] by (simp add: levels_def volume_ok_def)
qed

section \<open>What the first client reads\<close>

lemma no_bond: "lehs_nvram_get_paired_device_key_info lehs_nvram_init a = None"
  by (auto simp: lehs_nvram_get_paired_device_key_info_def lehs_nvram_init_def zero_paired_device_key_def zero_link_keys_def
      is_bd_addr_zero_def find_index_None)











section \<open>Pairing\<close>

lemma status_frames: "length addr = 6 \<Longrightarrow> app_rpc_send_app_status cid (Some addr) a b \<noteq> None"
  by (simp add: app_rpc_send_app_status_def app_rpc_send_app_sub_status_def octets_def app_rpc_send_data_def)

lemma pairing_result:
  assumes "lehs_gatt_get_clcb (server_clcbs s) bda = Some i" "length (identity_bd_address (server_clcbs s ! i)) = 6"
  shows "case lehs_nvram_get_paired_device_key_info (server_nvram s) (identity_bd_address (server_clcbs s ! i)) of
      None \<Rightarrow> lehs_btm_handle_pairing_complete env bda s = None
    | Some j \<Rightarrow> \<exists>t. lehs_btm_handle_pairing_complete env bda s = Some t \<and>
        last (actions t) = HOST_EVENT EVENT_NVRAM_DATA (b16 (lehs_nvram_get_nvram_id (id_start env) j) @ entry_octets env (server_nvram s ! j))"
proof -
  let ?c = "server_clcbs s ! i"
  obtain fs where fs: "app_rpc_send_app_status (conn_id ?c) (Some (identity_bd_address ?c)) (bonding_completed env) 0 = Some fs"
    using status_frames [OF assms(2)] by fastforce
  then show ?thesis
    using assms(1)
    by (auto simp: lehs_btm_handle_pairing_complete_def Let_def emit_frames_def lehs_rpc_send_link_keys_def app_rpc_send_data_def
        emit_server_def split: option.splits)
qed

text \<open>Keys that were written are found.\<close>

lemma written_keys_found:
  assumes "lehs_nvram_write_keys start_id k nv = Some (x, nv', acts)" "bd_addr k \<noteq> null_addr"
  shows "lehs_nvram_get_paired_device_key_info nv' (bd_addr k) \<noteq> None"
proof -
  obtain j where "j < length nv'" "link_keys (nv' ! j) = k"
    using assms(1)
    by (auto simp: lehs_nvram_write_keys_def lehs_nvram_allocate_paired_device_key_info_def Let_def arr_get_def arr_set_def bind_eq_Some_conv
        dest!: get_paired_iff split: option.splits if_splits)
  then show ?thesis
    using assms(2) unfolding lehs_nvram_get_paired_device_key_info_def is_bd_addr_zero_def find_index_None
    by (metis nth_mem)
qed

text \<open>C38: When a pairing is complete the keys of the bond are sent to the host. That works when the stack has given the keys before and there
  was an entry for them; without them the entry is read through \<open>NULL\<close>.\<close>

theorem pairing_sends_keys:
  assumes "program_ok s" "lehs_gatt_get_clcb (server_clcbs s) (conn_addr k) = Some i"
    "length (bd_addr k) = 6" "bd_addr k \<noteq> null_addr" "length (identity_bd_address (server_clcbs s ! i)) = 6"
  shows "(lehs_nvram_get_paired_device_key_info (server_nvram s) (identity_bd_address (server_clcbs s ! i)) = None \<longrightarrow>
      lehs_btm_cback env (BTM_PAIRING_COMPLETE_EVT True True (conn_addr k)) s = None) \<and>
    (\<forall>r reply t. lehs_btm_cback env (BTM_PAIRED_DEVICE_LINK_KEYS_UPDATE_EVT k) s = Some (r, reply, t) \<longrightarrow>
      (\<exists>u j. lehs_btm_cback env (BTM_PAIRING_COMPLETE_EVT True True (conn_addr k)) t = Some (WICED_SUCCESS, NO_REPLY, u) \<and>
        (bd_addr (link_keys (server_nvram t ! j)) = bd_addr k \<or> conn_addr (link_keys (server_nvram t ! j)) = bd_addr k) \<and>
        last (actions u) = HOST_EVENT EVENT_NVRAM_DATA (b16 (lehs_nvram_get_nvram_id (id_start env) j) @ entry_octets env (server_nvram t ! j))))"
proof (intro conjI impI allI)
  assume "lehs_nvram_get_paired_device_key_info (server_nvram s) (identity_bd_address (server_clcbs s ! i)) = None"
  with pairing_result [OF assms(2,5), of env] show "lehs_btm_cback env (BTM_PAIRING_COMPLETE_EVT True True (conn_addr k)) s = None" by simp
next
  fix r reply t
  assume "lehs_btm_cback env (BTM_PAIRED_DEVICE_LINK_KEYS_UPDATE_EVT k) s = Some (r, reply, t)"
  then obtain x nv acts where nv: "lehs_nvram_write_keys (id_start env) k (server_nvram s) = Some (x, nv, acts)"
    and t: "server_nvram t = nv" "server_clcbs t = (server_clcbs s)[i := (server_clcbs s ! i)\<lparr>identity_bd_address := bd_addr k\<rparr>]"
    using assms(2)
    by (auto simp: on_links_def links_view_def put_links_def lehs_btm_handle_key_update_event_def bind_eq_Some_conv Let_def
        emit_connection_def)
  have pool: "clcbs_ok (server_clcbs s)" using assms(1) by (simp add: program_ok_def pool_ok_def)
  have i: "i < length (server_clcbs s)" "in_use (server_clcbs s ! i)" "conn_bda (server_clcbs s ! i) = conn_addr k"
    using get_clcb_in_use [OF assms(2)] by blast+
  have "clcbs_ok (server_clcbs t)" unfolding t(2) by (rule clcbs_ok_same [OF pool]) (use i in auto)
  then have found: "lehs_gatt_get_clcb (server_clcbs t) (conn_addr k) = Some i" using i by (simp add: get_clcb_iff t(2))
  have "lehs_nvram_get_paired_device_key_info nv (bd_addr k) \<noteq> None" using written_keys_found [OF nv assms(4)] .
  then obtain j where j: "lehs_nvram_get_paired_device_key_info nv (bd_addr k) = Some j" by blast
  have same: "identity_bd_address (server_clcbs t ! i) = bd_addr k" using i by (simp add: t(2))
  from pairing_result [OF found, of env] assms(3) obtain u where
    u: "lehs_btm_handle_pairing_complete env (conn_addr k) t = Some u"
      "last (actions u) = HOST_EVENT EVENT_NVRAM_DATA (b16 (lehs_nvram_get_nvram_id (id_start env) j) @ entry_octets env (server_nvram t ! j))"
    by (auto simp: same t(1) j)
  moreover have "bd_addr (link_keys (server_nvram t ! j)) = bd_addr k \<or> conn_addr (link_keys (server_nvram t ! j)) = bd_addr k"
    using get_paired_iff [OF j] by (simp add: t(1))
  ultimately show "\<exists>u j. lehs_btm_cback env (BTM_PAIRING_COMPLETE_EVT True True (conn_addr k)) t = Some (WICED_SUCCESS, NO_REPLY, u) \<and>
      (bd_addr (link_keys (server_nvram t ! j)) = bd_addr k \<or> conn_addr (link_keys (server_nvram t ! j)) = bd_addr k) \<and>
      last (actions u) = HOST_EVENT EVENT_NVRAM_DATA (b16 (lehs_nvram_get_nvram_id (id_start env) j) @ entry_octets env (server_nvram t ! j))"
    by auto
qed

section \<open>The assistant goes away\<close>

lemma disconnection_total: "lehs_gatt_handle_disconnection start_id p l \<noteq> None"
  using next_adv_state_total [of "do_swift_pair l" "adv l"]
  by (auto simp: lehs_gatt_handle_disconnection_def Let_def case_prod_unfold bind_eq_None_conv simp del: not_None_eq)

lemma lost_link:
  assumes "lehs_gatt_get_clcb (server_clcbs s) (cs_bd_addr p) = Some i"
  shows "\<exists>t acts. connection_status_event env False p s = Some t \<and> actions t = actions s @ map CONNECTION acts \<and>
    broadcast_sink_cb t = broadcast_sink_cb s \<and> bass_data t = bass_data (lehs_bass_handle_acl_disconnection (conn_id (server_clcbs s ! i)) s)"
proof -
  obtain l acts where l: "lehs_gatt_handle_disconnection (id_start env) p (links_view s) = Some (l, acts)"
    using disconnection_total [of "id_start env" p "links_view s"] by auto
  then show ?thesis
    using assms
    by (auto simp: connection_status_event_def on_links_def put_links_def emit_connection_def emit_server_def bass_data_def
        lehs_bass_handle_acl_disconnection_def upd_services_def)
qed

text \<open>C37: What the disconnection of the client that added the source leaves, before any other event: the source is forgotten but not given
  up. No call to the controller ends the reception, the block of the sink stays in use as it was and the receive state is empty. In
  that state a Remove Source, of whatever client and for whatever source, is refused as that of an unknown source and changes nothing,
  and a source of another broadcast that a scan finds gets no block and no synchronisation. A source that is added later is not part
  of the statement: it takes the receive state again, and with a transfer it is synchronised to without a scan.\<close>

theorem lost_assistant:
  assumes "program_ok s" "lehs_gatt_get_clcb (server_clcbs s) (cs_bd_addr p) = Some i"
    "is_used (bass_data s ! 0)" "bass_conn_id (bass_data s ! 0) = conn_id (server_clcbs s ! i)"
    "big_in_use (broadcast_sink_cb s ! 0)" "base_broadcast_id (base (broadcast_sink_cb s ! 0)) \<noteq> br_id"
  shows "\<exists>t acts. program_step env (STACK_GATT (GATT_CONNECTION_STATUS_EVT False p)) s = Some t \<and>
    actions t = actions s @ map CONNECTION acts \<and> broadcast_sink_cb t = broadcast_sink_cb s \<and> bass_data t = [zero_bass_data] \<and>
    lehs_bass_handle_write_req_evt benv old cid [GA_LIB_BASS_OP_REMOVE_SOURCE, sid] 2 t = Some (GA_LIB_BASS_ERROR_INVALID_SOURCE_ID, t) \<and>
    sync_to_found benv br_id r t = t"
proof -
  obtain t acts where t: "connection_status_event env False p s = Some t" "actions t = actions s @ map CONNECTION acts"
    "broadcast_sink_cb t = broadcast_sink_cb s"
    "bass_data t = bass_data (lehs_bass_handle_acl_disconnection (conn_id (server_clcbs s ! i)) s)"
    using lost_link [OF assms(2)] by blast
  have ok: "broadcast_ok s" using assms(1) by (simp add: program_ok_def server_ok_def)
  obtain b where b: "broadcast_sink_cb s = [b]" using one_big [OF ok] by blast
  obtain d where d: "bass_data s = [d]" using ok by (auto simp: broadcast_ok_def length_Suc_conv)
  have bass: "bass_data t = [zero_bass_data]"
    using t(4) d assms(3,4) by (simp add: lehs_bass_handle_acl_disconnection_def upd_services_def bass_data_def)
  then have "lehs_find_source sid t = None" by (simp add: lehs_find_source_def zero_bass_data_def)
  then have "lehs_bass_handle_write_req_evt benv old cid [GA_LIB_BASS_OP_REMOVE_SOURCE, sid] 2 t = Some (GA_LIB_BASS_ERROR_INVALID_SOURCE_ID, t)"
    by (simp add: lehs_bass_handle_write_req_evt_def parse_remove bass_operation_def)
  moreover have "sync_to_found benv br_id r t = t"
    using t(3) b assms(5,6) by (simp add: sync_to_found_def lehs_bis_alloc_big_def lehs_bis_get_big_by_broadcast_id_def)
  ultimately show ?thesis using t bass by auto
qed

section \<open>Witnesses\<close>

definition example_stack :: stack_env where
  "example_stack = \<lparr>stack_host = example_host, stack_client = example_client_env, acl_handle = (\<lambda>x. x + 0x40), keys_memory = zero_link_keys,
     entry_octets = (\<lambda>e. bd_addr (link_keys e) @ conn_addr (link_keys e)), bonding_completed = 7, bis_created = (\<lambda>_. False),
     db_init_result = GATT_SUCCESS, register_result = GATT_SUCCESS, stack_db_hash = replicate 16 1, rcv_memory = example_rcv\<rparr>"

definition example_connection :: "u16 \<Rightarrow> wiced_bt_gatt_connection_status" where
  "example_connection cid = \<lparr>cs_bd_addr = [1, 2, 3, 4, 5, of_nat (unat cid)], cs_addr_type = 0, cs_conn_id = cid, cs_central = False,
     cs_connection_timeout = False\<rparr>"

definition example_keys :: wiced_bt_device_link_keys where
  "example_keys = \<lparr>bd_addr = [9, 9, 9, 9, 9, 9], conn_addr = [1, 2, 3, 4, 5, 1], key_data = [7]\<rparr>"

lemma example_stack_answers: "answers_well example_stack"
  by (simp add: answers_well_def example_stack_def)

definition example_started :: server_state where
  "example_started = program_start example_stack example_audio 6 16"

text \<open>A connection finds a block while there is one.\<close>

lemma connection_step:
  assumes "find_index (\<lambda>c. \<not> in_use c) (server_clcbs s) = Some i"
  shows "\<exists>t. program_step env (STACK_GATT (GATT_CONNECTION_STATUS_EVT True p)) s = Some t \<and> conn_bda (server_clcbs t ! i) = cs_bd_addr p \<and>
    in_use (server_clcbs t ! i)"
  using assms find_index_Some [OF assms]
  by (simp add: connection_status_event_def on_links_def put_links_def links_view_def lehs_gatt_handle_connection_def
      lehs_gatt_alloc_cb_def arr_get_def arr_set_def Let_def split_beta emit_connection_def)

theorem program_invariant_witness:
  "\<exists>t. program_run [(example_stack, STACK_GATT (GATT_CONNECTION_STATUS_EVT True (example_connection 1)))] example_started = Some t \<and>
     program_ok t \<and> lehs_gatt_get_clcb (server_clcbs t) [1, 2, 3, 4, 5, 1] = Some 0"
proof -
  have r0: "program_reachable example_started" unfolding example_started_def by (rule start [OF example_stack_answers])
  have free: "server_clcbs example_started = [zero_clcb, zero_clcb]"
    using start_parts(5) [OF example_stack_answers, of example_audio 6 16]
    by (simp add: example_started_def link_view_def numeral_eq_Suc)
  have unused: "\<not> in_use zero_clcb" by (simp add: zero_clcb_def)
  then have "find_index (\<lambda>c. \<not> in_use c) (server_clcbs example_started) = Some 0" by (simp add: free)
  from connection_step [OF this, of example_stack "example_connection 1"] obtain t where
    t: "program_step example_stack (STACK_GATT (GATT_CONNECTION_STATUS_EVT True (example_connection 1))) example_started = Some t"
      "conn_bda (server_clcbs t ! 0) = [1, 2, 3, 4, 5, 1]" "in_use (server_clcbs t ! 0)"
    by (auto simp: example_connection_def)
  have "program_reachable t"
    by (rule event [OF r0 _ t(1)]) (simp add: get_clcb_None free unused less_Suc_eq nth_Cons')
  from program_invariant [OF this, of "[1, 2, 3, 4, 5, 1]" 0] t show ?thesis by simp
qed


lemma two_program: "program_ok example_two"
proof -
  have "block_ok (example_link 1)" "block_ok (example_link 2)"
    by (rule link_block_ok [OF example_link_ok], simp add: example_link_def)+
  moreover have "clcbs_ok [example_link 1, example_link 2]"
    by (auto simp: clcbs_ok_def example_link_def less_Suc_eq nth_Cons')
  ultimately show ?thesis using example_two_parts by (simp add: program_ok_def pool_ok_def)
qed

lemma two_first: "lehs_gatt_get_clcb (server_clcbs example_two) [1, 2, 3, 4, 5, 1] = Some 0"
  by (simp add: lehs_gatt_get_clcb_def example_link_def)

theorem pairing_sends_keys_witness:
  "lehs_btm_cback example_stack (BTM_PAIRING_COMPLETE_EVT True True [1, 2, 3, 4, 5, 1]) example_two = None \<and>
   (\<exists>t u. lehs_btm_cback example_stack (BTM_PAIRED_DEVICE_LINK_KEYS_UPDATE_EVT example_keys) example_two = Some (WICED_SUCCESS, NO_REPLY, t) \<and>
     lehs_btm_cback example_stack (BTM_PAIRING_COMPLETE_EVT True True [1, 2, 3, 4, 5, 1]) t = Some (WICED_SUCCESS, NO_REPLY, u))"
proof -
  have nv: "server_nvram example_two = lehs_nvram_init"
    using init_parts(5) [of "[example_link 1, example_link 2]"] by (simp add: example_two_def link_view_def)
  note none = no_bond
  have free: "find_index (\<lambda>e. is_bd_addr_zero (bd_addr (link_keys e))) lehs_nvram_init = Some 0" "length lehs_nvram_init = 10"
    by (simp_all add: lehs_nvram_init_def zero_paired_device_key_def zero_link_keys_def is_bd_addr_zero_def numeral_eq_Suc)
  then obtain x nv' acts where "lehs_nvram_write_keys (id_start example_stack) example_keys lehs_nvram_init = Some (x, nv', acts)"
    by (simp add: lehs_nvram_write_keys_def none lehs_nvram_allocate_paired_device_key_info_def arr_get_def arr_set_def Let_def)
  then obtain t where t: "lehs_btm_cback example_stack (BTM_PAIRED_DEVICE_LINK_KEYS_UPDATE_EVT example_keys) example_two = Some (WICED_SUCCESS, NO_REPLY, t)"
    by (simp add: on_links_def links_view_def lehs_btm_handle_key_update_event_def nv Let_def)
  have "bd_addr example_keys \<noteq> null_addr" by code_simp
  moreover have "length (identity_bd_address (server_clcbs example_two ! 0)) = 6" "length (bd_addr example_keys) = 6"
    "conn_addr example_keys = [1, 2, 3, 4, 5, 1]"
    by (simp_all add: example_link_def example_keys_def)
  ultimately show ?thesis using pairing_sends_keys [OF two_program, of example_keys 0 example_stack] two_first t nv none by auto
qed

definition example_receiving :: server_state where
  "example_receiving = upd_big 0 (\<lambda>g. g\<lparr>big_in_use := True, base := (base g)\<lparr>base_broadcast_id := 77\<rparr>\<rparr>)
     (upd_bass 0 (\<lambda>d. d\<lparr>is_used := True, bass_conn_id := 1,
       recv_state := (recv_state d)\<lparr>has_sub_group_data := True, source_id := 0\<rparr>\<rparr>) example_two)"

lemma receiving_program: "program_ok example_receiving"
proof -
  have "follows example_two example_receiving" unfolding example_receiving_def
    by (rule follows_upd_big, simp add: sink_ok_def base_shape_def, rule follows_upd_bass, simp add: receive_ok_def, simp)
  then show ?thesis using two_program by (blast intro: sink_step_program sink_step_follows)
qed

theorem lost_assistant_witness:
  "\<exists>t. program_step example_stack (STACK_GATT (GATT_CONNECTION_STATUS_EVT False (example_connection 1))) example_receiving = Some t \<and>
     big_in_use (broadcast_sink_cb t ! 0) \<and> bass_data t = [zero_bass_data]"
proof -
  have parts: "broadcast_view example_two = ([zero_big], [zero_bass_data])"
    using init_parts(4) [of "[example_link 1, example_link 2]"] by (simp add: example_two_def)
  have "is_used (bass_data example_receiving ! 0)" "bass_conn_id (bass_data example_receiving ! 0) = 1"
    "big_in_use (broadcast_sink_cb example_receiving ! 0)" "base_broadcast_id (base (broadcast_sink_cb example_receiving ! 0)) = 77"
    "server_clcbs example_receiving = [example_link 1, example_link 2]"
    using parts by (simp_all add: example_receiving_def view_defs bass_data_def upd_big_def upd_bass_def upd_services_def)
  with lost_assistant [OF receiving_program, of "example_connection 1" 0 78 example_stack example_bis example_source_data 1 0] two_first
  show ?thesis by (fastforce simp: example_connection_def example_link_def)
qed

end
