(* ===== verification/Spec2Isabelle.thy ===== *)
theory Spec2Isabelle
  imports Bap Ascs_Lib Pacs Gatt_Intf Audio Lehs_Types Ascs_Server Gatt_Cb Bonds Discovery_Clients Mcs_Tbs Client Cis Volume Has Csis Broadcast_Props Server_Props Host_Props Program_Props
begin

text \<open>
  A verification library for the LE Audio headset application (\<open>lehs\<close>): the Basic Audio
  Profile library, the ASCS, PACS and GATT client libraries under \<open>src/gatt_profiles/\<close> and the
  application layer \<open>src/lehs_*.c\<close> on top of them.

  Parts of the program and where they are modelled:

    \<^item> \<open>Lehs_Prelude\<close>: octet streams (the \<open>STREAM_TO_UINTn\<close> and \<open>UINTn_TO_STREAM\<close> macros as
      little-endian reads and writes of a cursor), arrays with bounds, linear search, and the locale
      \<open>wire_codec\<close> of reader and writer pairs.
    \<^item> \<open>Ascs_Types\<close>: the enumerations and structures of \<open>include/ga_lib_ascs.h\<close>.
    \<^item> \<open>Bap\<close>: \<open>ga_lib_bap.c\<close>, the stream configuration tables, the LTV structures of codec
      configurations and metadata, and the ASE state transition table.
    \<^item> \<open>Ascs_Lib\<close>: \<open>ga_lib_ascs.c\<close>, the formats of ASE values and of ASE control point operations.
    \<^item> \<open>Pacs\<close>: \<open>lehs_pacs.c\<close> and \<open>ga_lib_pacs.c\<close>, the published capabilities and the test of a
      requested codec configuration against them.
    \<^item> \<open>Gatt_Intf\<close>: \<open>gatt_interface.c\<close>, the service discovery procedure and the queues of reads and
      descriptor writes of the GATT client.
    \<^item> \<open>Audio\<close>: \<open>lehs_offload.c\<close> and \<open>lehs_audio_driver_rom.c\<close>, data paths and the audio driver.
    \<^item> \<open>Lehs_Types\<close>: the connection control block of \<open>lehs.h\<close>.
    \<^item> \<open>Ascs_Server\<close>: \<open>lehs_ascs.c\<close>, the ASE control point of the server.
    \<^item> \<open>Cis\<close>: \<open>lehs_cis.c\<close>, the events of the isochronous stack on the ASEs of all connections.
    \<^item> \<open>Gatt_Cb\<close>: the first half of \<open>lehs_gatt.c\<close>, the pool of control blocks, the flags of a connection, the
      client configurations and the advertising states.
    \<^item> \<open>Bonds\<close>: \<open>lehs_nvram.c\<close>, the array of bonded devices, with the connection and key events that use it.
    \<^item> \<open>Services\<close>, \<open>Volume\<close>: the data of the local services; \<open>lehs_vcs.c\<close>, \<open>lehs_mics.c\<close> and the volume, offset,
      microphone and input services of the profile libraries.
    \<^item> \<open>Has\<close>: \<open>lehs_has.c\<close>, \<open>ga_lib_has.c\<close>, the presets and their control point. \<open>Csis\<close>: \<open>lehs_csis.c\<close>,
      \<open>ga_lib_csis.c\<close>, \<open>ga_lib_csis_psri.c\<close>, the lock of the set, its identity key and its identifier.
    \<^item> \<open>Broadcast_Adv\<close>: \<open>le_audio_bap_broadcast.c\<close>, \<open>le_audio_pbp.c\<close>, broadcast announcements and the BASE.
      \<open>Bass_Lib\<close>: \<open>ga_lib_bass.c\<close>, the requests of the scan service and the value of a receive state.
    \<^item> \<open>Bis_Types\<close>, \<open>Broadcast\<close>: \<open>lehs_bis.c\<close>, \<open>lehs_bass.c\<close>, the broadcast sink and the scan delegator, on the server state of
      \<open>Services\<close>; \<open>Broadcast_Props\<close> has their invariant and what they do.
    \<^item> \<open>Gatt_Db\<close>, \<open>Gatt_Server\<close>: the attribute database of \<open>lehs_gatt.c\<close> and its read, write and read by type requests over
      all services of \<open>Services\<close>, with their dispatch and the initialisation; \<open>Server_Props\<close> joins the invariants of the
      services into one of the whole server and shows what reads and writes do.
    \<^item> \<open>Rpc_Events\<close>: the events for the host, \<open>le_audio_rpc.c\<close>, \<open>app_rpc.c\<close> and the senders of \<open>lehs_rpc.c\<close>; \<open>Host_Commands\<close>: the
      commands of the host, \<open>lehs_rpc.c\<close> with the reception of \<open>rpc_uart.c\<close>; \<open>Host_Props\<close>: what every command needs of its payload,
      that every command keeps the invariant of the server, and which events fit their arrays.
    \<^item> \<open>Advertisement\<close>: \<open>lehs_gatt_get_adv_data\<close> and \<open>lehs_gatt_start_stop_adv\<close> of \<open>lehs_gatt.c\<close>, the contents of the
      advertisement, which always fit, and who recognises the member of the set in them.
    \<^item> \<open>Stack_Events\<close>: the callbacks the stack calls, \<open>lehs_gatt_cback\<close> of \<open>lehs_gatt.c\<close> and \<open>lehs_btmgr.c\<close>, with the start of
      \<open>lehs_main.c\<close>, and \<open>program_run\<close>, any sequence of events of the stack, of timers and of the host over the state of the whole
      program; \<open>Program_Props\<close> proves its one invariant, which joins those of all parts, the value every readable handle has
      after the start, and what pairing and a lost connection do in the whole program.
    \<^item> \<open>Discovery_Clients\<close>: the characteristic tables and discovery entry points of the profile libraries, and which handles
      and client configurations a search leaves for which characteristic.
    \<^item> \<open>Mcs_Tbs\<close>: \<open>ga_lib_mcs.c\<close>, \<open>ga_lib_tbs.c\<close>, \<open>lehs_mcs.c\<close>, \<open>lehs_ccp.c\<close>, \<open>lehs_gmap.c\<close>, media and call values.
    \<^item> \<open>Client\<close>: the client half of \<open>lehs_gatt.c\<close>, from encryption over discovery, notifications and reads to ready.

  How the model corresponds to the code. A C structure is a record with the same fields, an
  enumeration a datatype with a function that gives its value, an integer a word of its width. A
  function that updates structures through pointers returns the updated structures; a function
  that calls the stack records the call in a list of actions, or, where it uses the value the
  stack returns, takes that value from a record of functions (\<open>gatt_env\<close>, \<open>ascs_env\<close>,
  \<open>audio_env\<close>) that stands for the SDK, whose code is not in the repository. An access outside an
  array or past the octets of a buffer, undefined in C, is \<open>None\<close>; an error the code handles is a
  value. Trace output is left out. Octets a buffer held before (an array on the stack that the code
  does not initialise) are a parameter.

  The build the model describes is that of the makefile: no LC3plus, no multiplexed
  audio, 2 connections, 3 ASEs.

  Loops are structural recursion, or recursion with a termination proof by the octets left; no
  fuel is used anywhere.

  Not modelled: the SDK and the controller, the configuration tables and the heaps of \<open>lehs_main.c\<close>, the flash storage of a build
  without simulated NVRAM (it calls \<open>lehs_nvram_read\<close> and \<open>lehs_nvram_read_peer_device\<close>, which the repository does not
  have), the sockets and the debug transport
  (\<open>rpc_socket_*.c\<close>, \<open>rpc_uart_debug.c\<close>) and the set-up of the serial one, and trace and print functions.
\<close>

section \<open>Codec configurations from the control point to the data path\<close>

definition csc_complete :: "ga_lib_ascs_csc \<Rightarrow> bool" where
  "csc_complete csc \<longleftrightarrow> sampling_frequency_hz csc \<noteq> 0 \<and> frame_duration_us csc \<noteq> 0 \<and> octets_per_codec_frame csc \<noteq> 0"

text \<open>The codec configuration of the controller: a bit for the frequency, 1 for 7.5 ms or 2 for 10 ms, the octets per frame.\<close>

definition frequency_bit :: "u32 \<Rightarrow> u8" where
  "frequency_bit f = (if f = 8000 then 1 else if f = 16000 then 2 else if f = 24000 then 4 else if f = 32000 then 8
     else if f = 44100 then 16 else 32)"

text \<open>C9: a stream with a codec configuration that a sink or a source ASE accepts is given to the controller exactly when
  the client named its frequency, its frame duration and its octets per frame, which the acceptance check does not ask for,
  and its allocation has at most two channels, which the check does not ask for either. Then the last call is the set-up
  of the data path of that ASE's direction on that connection, with exactly the frequency, the duration and the octets that
  were named, and the result is that of the controller. Otherwise the set-up fails before any call.\<close>

theorem accepted_config_data_path:
  assumes "lehs_pacs_verify_snk_codec_config (g_lehs_pacs_app_data lc3) c = Some True \<or>
      lehs_pacs_verify_src_codec_config (g_lehs_pacs_app_data lc3) c = Some True"
    "cfg_csc (ase_cfg a) = cc_csc c" "lehs_isoc_dhm_setup_cis_stream env members a cis_handle st = (ret, st', acts)"
  shows "if csc_complete (cc_csc c) \<and> card {i. bit (audio_channel_allocation (cc_csc c)) i} \<le> 2
    then acts \<noteq> [] \<and> ret = setup_result env (last acts) \<and>
      (\<exists>path octets. last acts = SETUP_DATA_PATH cis_handle (data_path_dir a) path
         [3, 1, frequency_bit (sampling_frequency_hz (cc_csc c)), 0,
          2, 2, if frame_duration_us (cc_csc c) = 7500 then 1 else 2, 3, 4, octets, 0] \<and>
        uint octets = uint (octets_per_codec_frame (cc_csc c)))
    else ret \<noteq> WICED_SUCCESS \<and> st' = st \<and> acts = []"
proof -
  let ?csc = "cc_csc c"
  have acc: "pac_accepts {8000, 16000, 24000, 32000, 44100, 48000} ?csc"
    using assms(1) by (auto simp: verify_snk verify_src pac_accepts_def)
  have "octets_per_codec_frame ?csc \<le> 100" using acc by (auto simp: pac_accepts_def)
  then have uint_bound: "uint (octets_per_codec_frame ?csc) < 256" by (simp add: word_le_def)
  then have oct: "uint (ucast (octets_per_codec_frame ?csc) :: u8) = uint (octets_per_codec_frame ?csc)"
    unfolding unsigned_ucast_eq by (intro take_bit_int_eq_self) (auto simp: uint_bound)
  have n: "(if audio_channel_allocation ?csc \<noteq> 0 then count_bits (audio_channel_allocation ?csc) else 0) =
      card {i. bit (audio_channel_allocation ?csc) i}"
    by (simp add: count_bits_card)
  show ?thesis
  proof (cases "csc_complete ?csc \<and> card {i. bit (audio_channel_allocation ?csc) i} \<le> 2")
    case False
    then have "card {i. bit (audio_channel_allocation ?csc) i} > 2 \<or> fst (lehs_isoc_dhm_get_csc ?csc) \<noteq> WICED_SUCCESS"
      by (auto simp: lehs_isoc_dhm_get_csc_def csc_complete_def)
    with assms(3) have "ret \<noteq> WICED_SUCCESS \<and> st' = st \<and> acts = []"
      unfolding lehs_isoc_dhm_setup_cis_stream_def Let_def assms(2) n by (auto split: if_splits prod.splits)
    with False show ?thesis by (simp only: if_False simp_thms)
  next
    case True
    then have f: "sampling_frequency_hz ?csc \<in> {8000, 16000, 24000, 32000, 44100, 48000}"
      "frame_duration_us ?csc \<in> {7500, 10000}"
      using acc unfolding pac_accepts_def csc_complete_def by blast+
    have bits: "push_bit (unat (sampling_frequency_hz ?csc div 8000) - 1) 1 = frequency_bit (sampling_frequency_hz ?csc)"
      "ga_lib_bap_get_frame_duration_index (frame_duration_us ?csc) + 1 = (if frame_duration_us ?csc = 7500 then 1 else 2)"
      using f by (auto simp: frequency_bit_def ga_lib_bap_get_frame_duration_index_def)
    have g: "lehs_isoc_dhm_get_csc ?csc = (WICED_SUCCESS,
        [3, 1, frequency_bit (sampling_frequency_hz ?csc), 0,
         2, 2, if frame_duration_us ?csc = 7500 then 1 else 2, 3, 4, ucast (octets_per_codec_frame ?csc), 0])"
      unfolding bits [symmetric] using True f by (simp only: lehs_isoc_dhm_get_csc_def csc_complete_def simp_thms if_False not_not)
    from assms(3) True have "acts \<noteq> [] \<and> ret = setup_result env (last acts) \<and>
        (\<exists>path. last acts = SETUP_DATA_PATH cis_handle (data_path_dir a) path (snd (lehs_isoc_dhm_get_csc ?csc)))"
      unfolding lehs_isoc_dhm_setup_cis_stream_def Let_def assms(2) n
      by (auto simp: g split: prod.splits)
    with True oct show ?thesis unfolding g by auto
  qed
qed

definition example_stream :: "u32 \<Rightarrow> ga_lib_ascs_config_codec_args" where
  "example_stream channels = \<lparr>cc_codec_id = lc3_id 6, cc_target_latency = 1, cc_target_phy = 2,
     cc_csc = zero_csc\<lparr>sampling_frequency_hz := 48000, frame_duration_us := 10000, audio_channel_allocation := channels,
       octets_per_codec_frame := 100\<rparr>\<rparr>"

definition example_sink :: "u32 \<Rightarrow> ga_lib_ascs_ase" where
  "example_sink channels = zero_ase\<lparr>data_path_dir := DPD_OUTPUT, ase_cfg := zero_ase_cfg\<lparr>cfg_csc := cc_csc (example_stream channels)\<rparr>\<rparr>"

definition example_audio_env :: audio_env where
  "example_audio_env = \<lparr>setup_result = (\<lambda>_. WICED_SUCCESS), open_stream_id = (\<lambda>_. 1)\<rparr>"

text \<open>Two channels are set up, three are accepted and then refused.\<close>

theorem accepted_config_data_path_witness:
  "(case lehs_isoc_dhm_setup_cis_stream example_audio_env 1 (example_sink 3) 0x60 example_audio of (ret, _, acts) \<Rightarrow>
      ret = WICED_SUCCESS \<and> (\<exists>path. last acts = SETUP_DATA_PATH 0x60 DPD_OUTPUT path [3, 1, 32, 0, 2, 2, 2, 3, 4, 100, 0])) \<and>
    (case lehs_isoc_dhm_setup_cis_stream example_audio_env 1 (example_sink 7) 0x60 example_audio of (ret, _, acts) \<Rightarrow>
      ret \<noteq> WICED_SUCCESS \<and> acts = [])"
proof -
  have acc: "lehs_pacs_verify_snk_codec_config (g_lehs_pacs_app_data 6) (example_stream channels) = Some True"
    if "channels AND 3 \<noteq> 0" for channels
    using that by (simp add: verify_snk pac_accepts_def lc3_id_def zero_csc_def example_stream_def word_le_nat_alt)
  have cfg: "cfg_csc (ase_cfg (example_sink channels)) = cc_csc (example_stream channels)" for channels
    by (simp add: example_sink_def zero_ase_cfg_def)
  have n: "card {i. bit (audio_channel_allocation (cc_csc (example_stream 3))) i} = 2"
    "card {i. bit (audio_channel_allocation (cc_csc (example_stream 7))) i} = 3"
    unfolding count_bits_card [symmetric] by code_simp+
  have full: "csc_complete (cc_csc (example_stream channels))" for channels
    by (simp add: csc_complete_def example_stream_def)
  obtain r st' acts where a: "lehs_isoc_dhm_setup_cis_stream example_audio_env 1 (example_sink 3) 0x60 example_audio = (r, st', acts)"
    by (rule prod_cases3)
  obtain r7 st7 acts7 where b: "lehs_isoc_dhm_setup_cis_stream example_audio_env 1 (example_sink 7) 0x60 example_audio = (r7, st7, acts7)"
    by (rule prod_cases3)
  have "(3 :: u32) AND 3 \<noteq> 0" "(7 :: u32) AND 3 \<noteq> 0" by simp_all
  from accepted_config_data_path [OF disjI1 [OF acc [OF this(1)]] cfg a]
  obtain path octets where s: "r = setup_result example_audio_env (last acts)" "last acts = SETUP_DATA_PATH 0x60 (data_path_dir (example_sink 3)) path
      [3, 1, frequency_bit 48000, 0, 2, 2, 2, 3, 4, octets, 0]" "uint octets = 100"
    unfolding n by (auto simp: full) (simp add: example_stream_def)
  from s(3) have "octets = 100" by (simp add: word_uint_eq_iff)
  with s(1,2) have "r = WICED_SUCCESS" "last acts = SETUP_DATA_PATH 0x60 DPD_OUTPUT path [3, 1, 32, 0, 2, 2, 2, 3, 4, 100, 0]"
    by (simp_all add: example_audio_env_def example_sink_def frequency_bit_def)
  moreover from \<open>(7 :: u32) AND 3 \<noteq> 0\<close> have "r7 \<noteq> WICED_SUCCESS" "acts7 = []"
    using accepted_config_data_path [OF disjI1 [OF acc] cfg b] unfolding n by (simp_all add: full)
  ultimately show ?thesis unfolding a b by simp
qed

end
